(* ===== verification/Prelude.thy ===== *)
theory Prelude
  imports Main "HOL-Library.Sublist" "HOL-Library.List_Lexorder" "HOL-Library.Char_ord"
begin

text \<open>
  Shared vocabulary of the development: results with an error side, SQL conditions over
  columns that may be NULL, dynamically typed Python values, the string operations the code
  uses, and generic facts on lists and strings that the component theories share.

  Strings are \<^typ>\<open>string\<close>, lists of characters with code points below 256. The code only
  compares strings, measures their length, cuts prefixes and concatenates, so no statement
  depends on the size of the alphabet.
\<close>

section \<open>Collections of rewrite rules\<close>

named_theorems sql_simps \<open>evaluation of SQL conditions\<close>
named_theorems row_simps \<open>projections of rows and of the views built from them\<close>

section \<open>Results\<close>

text \<open>A raised exception is the left side of a sum, a returned value the right side.\<close>

type_synonym ('e, 'a) res = "'e + 'a"

definition res_bind :: "('e, 'a) res \<Rightarrow> ('a \<Rightarrow> ('e, 'b) res) \<Rightarrow> ('e, 'b) res" where
  "res_bind r f = (case r of Inl e \<Rightarrow> Inl e | Inr x \<Rightarrow> f x)"

lemma res_bind_simps [simp]:
  "res_bind (Inl e) f = Inl e"
  "res_bind (Inr x) f = f x"
  by (simp_all add: res_bind_def)

lemma res_bind_Inr_iff: "res_bind r f = Inr y \<longleftrightarrow> (\<exists>x. r = Inr x \<and> f x = Inr y)"
  by (cases r) simp_all

lemma res_bind_Inl_iff:
  "res_bind r f = Inl e \<longleftrightarrow> r = Inl e \<or> (\<exists>x. r = Inr x \<and> f x = Inl e)"
  by (cases r) auto

section \<open>SQL conditions\<close>

text \<open>
  A condition over nullable columns is true, false or NULL. A row qualifies for a query when
  its condition is true; a CHECK constraint is violated when its condition is false.
\<close>

datatype sqlbool = STrue | SFalse | SNull

fun sql_and :: "sqlbool \<Rightarrow> sqlbool \<Rightarrow> sqlbool" where
  "sql_and SFalse b = SFalse"
| "sql_and a SFalse = SFalse"
| "sql_and STrue STrue = STrue"
| "sql_and a b = SNull"

fun sql_or :: "sqlbool \<Rightarrow> sqlbool \<Rightarrow> sqlbool" where
  "sql_or STrue b = STrue"
| "sql_or a STrue = STrue"
| "sql_or SFalse SFalse = SFalse"
| "sql_or a b = SNull"

definition sql_of :: "bool \<Rightarrow> sqlbool" where
  "sql_of b = (if b then STrue else SFalse)"

text \<open>A comparison with a NULL operand is NULL.\<close>

definition sql_cmp :: "('a \<Rightarrow> 'b \<Rightarrow> bool) \<Rightarrow> 'a option \<Rightarrow> 'b option \<Rightarrow> sqlbool" where
  "sql_cmp p x y = (case (x, y) of (Some a, Some b) \<Rightarrow> sql_of (p a b) | _ \<Rightarrow> SNull)"

definition sql_eq :: "'a option \<Rightarrow> 'a option \<Rightarrow> sqlbool" where
  "sql_eq = sql_cmp (=)"

definition sql_neq :: "'a option \<Rightarrow> 'a option \<Rightarrow> sqlbool" where
  "sql_neq = sql_cmp (\<noteq>)"

definition sql_is_null :: "'a option \<Rightarrow> sqlbool" where
  "sql_is_null x = sql_of (x = None)"

definition sql_holds :: "sqlbool \<Rightarrow> bool" where
  "sql_holds b \<longleftrightarrow> b = STrue"

definition sql_check_ok :: "sqlbool \<Rightarrow> bool" where
  "sql_check_ok b \<longleftrightarrow> b \<noteq> SFalse"

lemma sql_holds_and [sql_simps]: "sql_holds (sql_and a b) \<longleftrightarrow> sql_holds a \<and> sql_holds b"
  by (cases a; cases b) (simp_all add: sql_holds_def)

lemma sql_holds_or [sql_simps]: "sql_holds (sql_or a b) \<longleftrightarrow> sql_holds a \<or> sql_holds b"
  by (cases a; cases b) (simp_all add: sql_holds_def)

lemma sql_holds_of [sql_simps]: "sql_holds (sql_of b) \<longleftrightarrow> b"
  by (simp add: sql_holds_def sql_of_def)

lemma sql_holds_cmp [sql_simps]:
  "sql_holds (sql_cmp p x y) \<longleftrightarrow> (\<exists>a b. x = Some a \<and> y = Some b \<and> p a b)"
  by (cases x; cases y) (simp_all add: sql_cmp_def sql_holds_def sql_of_def)

lemma sql_holds_eq [sql_simps]: "sql_holds (sql_eq x y) \<longleftrightarrow> x \<noteq> None \<and> x = y"
  by (cases x; cases y) (simp_all add: sql_eq_def sql_simps)

lemma sql_holds_neq [sql_simps]: "sql_holds (sql_neq x y) \<longleftrightarrow> x \<noteq> None \<and> y \<noteq> None \<and> x \<noteq> y"
  by (cases x; cases y) (simp_all add: sql_neq_def sql_simps)

lemma sql_holds_is_null [sql_simps]: "sql_holds (sql_is_null x) \<longleftrightarrow> x = None"
  by (simp add: sql_is_null_def sql_simps)

text \<open>A query keeps the rows whose condition is true.\<close>

definition sql_select :: "('r \<Rightarrow> sqlbool) \<Rightarrow> 'r list \<Rightarrow> 'r list" where
  "sql_select c rows = filter (\<lambda>r. sql_holds (c r)) rows"

lemma sql_select_Nil [simp]: "sql_select c [] = []"
  by (simp add: sql_select_def)

lemma set_sql_select: "set (sql_select c rows) = {r \<in> set rows. sql_holds (c r)}"
  by (simp add: sql_select_def)

section \<open>Python values and strings\<close>

text \<open>
  Values of a dynamically typed mapping. A float keeps its literal: no component computes
  with one.
\<close>

datatype pyval =
    PNone
  | PBool bool
  | PInt int
  | PFloat string
  | PStr string
  | PList "pyval list"
  | PDict "(string \<times> pyval) list"

definition py_startswith :: "string \<Rightarrow> string \<Rightarrow> bool" where
  "py_startswith s p \<longleftrightarrow> take (length p) s = p"

definition py_endswith :: "string \<Rightarrow> string \<Rightarrow> bool" where
  "py_endswith s p \<longleftrightarrow> length p \<le> length s \<and> drop (length s - length p) s = p"

fun py_contains :: "string \<Rightarrow> string \<Rightarrow> bool" where
  "py_contains [] p \<longleftrightarrow> p = []"
| "py_contains (c # s) p \<longleftrightarrow> py_startswith (c # s) p \<or> py_contains s p"

lemma py_startswith_append [simp]: "py_startswith (p @ s) p"
  by (simp add: py_startswith_def)

lemma py_startswith_iff: "py_startswith s p \<longleftrightarrow> (\<exists>t. s = p @ t)"
  by (metis append_eq_conv_conj append_take_drop_id py_startswith_def)

lemma py_endswith_iff: "py_endswith s p \<longleftrightarrow> (\<exists>t. s = t @ p)"
proof
  assume "py_endswith s p"
  then have "s = take (length s - length p) s @ p"
    unfolding py_endswith_def by (metis append_take_drop_id)
  then show "\<exists>t. s = t @ p" ..
next
  assume "\<exists>t. s = t @ p"
  then show "py_endswith s p" by (auto simp: py_endswith_def)
qed

lemma py_contains_iff: "py_contains s p \<longleftrightarrow> (\<exists>a b. s = a @ p @ b)"
proof (induction s)
  case Nil
  then show ?case by auto
next
  case step: (Cons c s)
  show ?case
  proof
    assume "py_contains (c # s) p"
    then consider "py_startswith (c # s) p" | "py_contains s p" by auto
    then show "\<exists>a b. c # s = a @ p @ b"
    proof cases
      case 1
      then obtain t where "c # s = [] @ p @ t" by (auto simp: py_startswith_iff)
      then show ?thesis by blast
    next
      case 2
      then obtain a b where "c # s = (c # a) @ p @ b" using step.IH by auto
      then show ?thesis by blast
    qed
  next
    assume "\<exists>a b. c # s = a @ p @ b"
    then obtain a b where eq: "c # s = a @ p @ b" by blast
    show "py_contains (c # s) p"
    proof (cases a)
      case Nil
      with eq have "py_startswith (c # s) p" by simp
      then show ?thesis by simp
    next
      case (Cons d a')
      with eq have "s = a' @ p @ b" by simp
      then have "py_contains s p" using step.IH by blast
      then show ?thesis by simp
    qed
  qed
qed

text \<open>A mapping by string keys, in insertion order; a missing key reads as \<open>None\<close>.\<close>

type_synonym metadata = "(string \<times> pyval) list"

definition field :: "metadata \<Rightarrow> string \<Rightarrow> pyval" where
  "field payload k = (case map_of payload k of None \<Rightarrow> PNone | Some v \<Rightarrow> v)"

definition truthy :: "pyval \<Rightarrow> bool" where
  "truthy v = (case v of PNone \<Rightarrow> False | PBool b \<Rightarrow> b | PInt i \<Rightarrow> i \<noteq> 0
     | PFloat f \<Rightarrow> f \<noteq> ''0.0'' \<and> f \<noteq> ''-0.0'' | PStr s \<Rightarrow> s \<noteq> [] | PList xs \<Rightarrow> xs \<noteq> [] | PDict d \<Rightarrow> d \<noteq> [])"

definition py_space :: "char \<Rightarrow> bool" where
  "py_space c \<longleftrightarrow>
     (let n = (of_char c :: nat) in 9 \<le> n \<and> n \<le> 13 \<or> 28 \<le> n \<and> n \<le> 32 \<or> n = 133 \<or> n = 160)"

definition py_strip :: "string \<Rightarrow> string" where
  "py_strip s = rev (dropWhile py_space (rev (dropWhile py_space s)))"

text \<open>\<open>str.split()\<close>.\<close>

function py_words :: "string \<Rightarrow> string list" where
  "py_words s =
     (case dropWhile py_space s of
        [] \<Rightarrow> []
      | c # cs \<Rightarrow> (c # takeWhile (\<lambda>c. \<not> py_space c) cs) # py_words (dropWhile (\<lambda>c. \<not> py_space c) cs))"
  by pat_completeness auto
termination
proof (relation "measure length")
  fix s c and cs :: string
  assume d: "dropWhile py_space s = c # cs"
  have "length (c # cs) \<le> length s" unfolding d [symmetric] by (rule length_dropWhile_le)
  then show "(dropWhile (\<lambda>c. \<not> py_space c) cs, s) \<in> measure length"
    using length_dropWhile_le [of "\<lambda>c. \<not> py_space c" cs] by simp
qed simp

declare py_words.simps [simp del]

definition utf8_length :: "string \<Rightarrow> int" where
  "utf8_length s = (\<Sum>c\<leftarrow>s. if (of_char c :: nat) < 128 then 1 else 2)"

text \<open>UTF-8 to the alphabet of the model; a text beyond it is refused like bytes that are no UTF-8.\<close>

fun utf8_decode :: "string \<Rightarrow> string option" where
  "utf8_decode [] = Some []"
| "utf8_decode [c] = (if (of_char c :: nat) < 128 then Some [c] else None)"
| "utf8_decode (c # d # s) =
     (if (of_char c :: nat) < 128 then map_option ((#) c) (utf8_decode (d # s))
      else if 128 \<le> (of_char d :: nat) \<and> (of_char d :: nat) < 192 \<and> (of_char c :: nat) \<in> {194, 195}
      then map_option ((#) (if (of_char c :: nat) = 194 then d else char_of ((of_char d :: nat) + 64))) (utf8_decode s)
      else None)"

text \<open>Decimal rendering of an integer, as an f-string or \<open>str\<close> renders it.\<close>

fun digits_of :: "nat \<Rightarrow> string" where
  "digits_of n = (if n < 10 then [char_of (48 + n)]
                  else digits_of (n div 10) @ [char_of (48 + n mod 10)])"

declare digits_of.simps [simp del]

definition py_str_int :: "int \<Rightarrow> string" where
  "py_str_int i = (if i < 0 then ''-'' @ digits_of (nat (- i)) else digits_of (nat i))"

text \<open>
  \<open>repr\<close> of a string of these code points: quoted with apostrophes unless the string holds
  one and holds no double quote; the quote, the backslash, control and other non-printable
  characters are escaped.
\<close>

definition hex_digit :: "nat \<Rightarrow> char" where
  "hex_digit n = char_of (if n < 10 then 48 + n else 87 + n)"

definition py_printable :: "nat \<Rightarrow> bool" where
  "py_printable n \<longleftrightarrow> 32 \<le> n \<and> n \<le> 126 \<or> 161 \<le> n \<and> n \<noteq> 173"

definition py_repr_char :: "char \<Rightarrow> char \<Rightarrow> string" where
  "py_repr_char q c =
     (let n = (of_char c :: nat) in
      if c = q \<or> n = 92 then [CHR 0x5C, c]
      else if n = 10 then [CHR 0x5C, CHR ''n'']
      else if n = 13 then [CHR 0x5C, CHR ''r'']
      else if n = 9 then [CHR 0x5C, CHR ''t'']
      else if py_printable n then [c]
      else [CHR 0x5C, CHR ''x'', hex_digit (n div 16), hex_digit (n mod 16)])"

definition py_repr :: "string \<Rightarrow> string" where
  "py_repr s =
     (let q = (if CHR 0x27 \<in> set s \<and> CHR 0x22 \<notin> set s then CHR 0x22 else CHR 0x27)
      in [q] @ concat (map (py_repr_char q) s) @ [q])"

section \<open>Lists\<close>

text \<open>Two separators at the same first place: the parts before and after agree.\<close>

lemma first_separator_unique:
  assumes "a @ c # x = b @ c # y" and "c \<notin> set a" and "c \<notin> set b"
  shows "a = b \<and> x = y"
  using assms
proof (induction a arbitrary: b)
  case Nil
  then show ?case by (cases b) auto
next
  case (Cons d a)
  then show ?case by (cases b) auto
qed

lemma find_Some_set: "find p xs = Some x \<Longrightarrow> x \<in> set xs \<and> p x"
  by (induction xs) (auto split: if_splits)

lemma find_None_set: "find p xs = None \<longleftrightarrow> (\<forall>x \<in> set xs. \<not> p x)"
  by (induction xs) auto

text \<open>Updating the rows a condition selects, in place.\<close>

definition map_if :: "('a \<Rightarrow> bool) \<Rightarrow> ('a \<Rightarrow> 'a) \<Rightarrow> 'a list \<Rightarrow> 'a list" where
  "map_if p f xs = map (\<lambda>x. if p x then f x else x) xs"

lemma map_if_Nil [simp]: "map_if p f [] = []"
  by (simp add: map_if_def)

lemma map_if_Cons [simp]: "map_if p f (x # xs) = (if p x then f x else x) # map_if p f xs"
  by (simp add: map_if_def)

lemma length_map_if [simp]: "length (map_if p f xs) = length xs"
  by (simp add: map_if_def)

lemma map_map_if: "(\<And>x. g (f x) = g x) \<Longrightarrow> map g (map_if p f xs) = map g xs"
  by (induction xs) auto

lemma set_map_if: "set (map_if p f xs) = {x \<in> set xs. \<not> p x} \<union> f ` {x \<in> set xs. p x}"
  by (auto simp: map_if_def)

lemma map_if_none: "(\<And>x. x \<in> set xs \<Longrightarrow> \<not> p x) \<Longrightarrow> map_if p f xs = xs"
  by (induction xs) auto

end
