(* ===== verification/Identity.thy ===== *)
theory Identity
  imports Prelude
begin

text \<open>
  The resolved identity of a request (\<open>src/audittrace/identity.py\<close>) and the scope predicates
  that decide writes to the shared corpus (\<open>identity.py\<close> and \<open>routes/memory.py\<close>).
\<close>

section \<open>The identity of a request\<close>

record user_context =
  uc_user_id :: string
  uc_username :: string
  uc_agent_type :: string
  uc_scopes :: "string list"
  uc_token_id :: "string option"
  uc_is_admin :: bool
  uc_extra :: "(string \<times> string) list"

section \<open>Scopes\<close>

definition is_admin_scope :: "string list \<Rightarrow> bool" where
  "is_admin_scope scopes \<longleftrightarrow>
     list_ex (\<lambda>s. s \<in> {''audittrace:admin'', ''memory:admin''} \<or> py_startswith s ''admin:'') scopes"

text \<open>\<open>fnmatch.fnmatchcase\<close> on patterns whose only wildcard is the star.\<close>

fun fnmatch_star :: "string \<Rightarrow> string \<Rightarrow> bool" where
  "fnmatch_star [] s \<longleftrightarrow> s = []"
| "fnmatch_star (p # ps) [] \<longleftrightarrow> p = CHR ''*'' \<and> fnmatch_star ps []"
| "fnmatch_star (p # ps) (c # s) \<longleftrightarrow>
     (if p = CHR ''*'' then fnmatch_star ps (c # s) \<or> fnmatch_star (p # ps) s
      else p = c \<and> fnmatch_star ps s)"

definition CORPUS_WRITE_SCOPE_GLOB :: string where
  "CORPUS_WRITE_SCOPE_GLOB = ''memory:corpus:*:write''"

definition is_privileged_scope :: "string list \<Rightarrow> bool" where
  "is_privileged_scope scopes \<longleftrightarrow>
     is_admin_scope scopes \<or> list_ex (fnmatch_star CORPUS_WRITE_SCOPE_GLOB) scopes"

definition has_corpus_scope :: "user_context \<Rightarrow> string \<Rightarrow> string \<Rightarrow> bool" where
  "has_corpus_scope user collection action \<longleftrightarrow>
     (let required = ''memory:corpus:'' @ collection @ '':'' @ action in
      uc_is_admin user \<or> ''audittrace:admin'' \<in> set (uc_scopes user) \<or>
      required \<in> set (uc_scopes user))"

definition corpus_write_authorized :: "user_context \<Rightarrow> string option \<Rightarrow> bool" where
  "corpus_write_authorized user collection =
     (case collection of
        None \<Rightarrow> uc_is_admin user \<or> ''audittrace:admin'' \<in> set (uc_scopes user)
      | Some c \<Rightarrow> has_corpus_scope user c ''write'')"

lemma fnmatch_star_literal:
  "CHR ''*'' \<notin> set p \<Longrightarrow> fnmatch_star (p @ q) (p @ s) = fnmatch_star q s"
  by (induction p) auto

lemma fnmatch_star_any: "CHR ''*'' \<notin> set p \<Longrightarrow> fnmatch_star (CHR ''*'' # p) (s @ p)"
proof (induction s)
  case Nil
  then have "fnmatch_star p p" using fnmatch_star_literal [of p "[]" "[]"] by simp
  then show ?case by (cases p) auto
next
  case (Cons c s)
  then show ?case by simp
qed

text \<open>A corpus-write grant ranks its holder as privileged and never makes it an administrator.\<close>

lemma corpus_scope_privileged:
  "is_privileged_scope [''memory:corpus:'' @ c @ '':write'']"
proof -
  have "fnmatch_star (''memory:corpus:'' @ ''*'' @ '':write'') (''memory:corpus:'' @ c @ '':write'')"
    using fnmatch_star_any [of "'':write''" c] by (subst fnmatch_star_literal) simp_all
  then show ?thesis by (simp add: is_privileged_scope_def CORPUS_WRITE_SCOPE_GLOB_def)
qed

lemma corpus_scope_not_admin:
  "\<not> is_admin_scope [''memory:corpus:'' @ c @ '':write'']"
  by (simp add: is_admin_scope_def py_startswith_def)

text \<open>What an administrator may write, every collection grant is a part of.\<close>

lemma corpus_write_authorized_None:
  "corpus_write_authorized user None \<Longrightarrow> corpus_write_authorized user c"
  by (auto simp: corpus_write_authorized_def has_corpus_scope_def Let_def split: option.splits)

end
