(* ===== verification/Keys.thy ===== *)
theory Keys
  imports Identity
begin

text \<open>
  Owner-in-the-key derivation and the shared resolver of memory writes and reads
  (\<open>src/audittrace/services/memory_keys.py\<close>), and the routing of object keys to collections
  (\<open>services/index_routing.py\<close>). A private row is stored under its owner's prefix; the
  resolver is a pure decision over the at most two rows a write or a read can touch.
\<close>

section \<open>Limits, tiers and errors\<close>

definition STORAGE_KEY_MAX :: nat where "STORAGE_KEY_MAX = 255"
definition SUB_MAX :: nat where "SUB_MAX = 36"
definition LOGICAL_KEY_MAX :: nat where "LOGICAL_KEY_MAX = STORAGE_KEY_MAX - SUB_MAX - 1"

lemmas key_limits = STORAGE_KEY_MAX_def SUB_MAX_def LOGICAL_KEY_MAX_def

definition TIERS :: "string list" where "TIERS = [''private'', ''corpus'']"

definition ID_FORM_LC9 :: string where "ID_FORM_LC9 = ''lc9''"

text \<open>
  The exceptions of the manifest. Where the code formats a message from the layer and the key,
  the constructor carries the two; the one refusal text of a cross-owner write is kept as text,
  since that it names no owner is a property of the code.
\<close>

datatype manifest_error =
    ManifestAuthorizationError string string
  | CrossOwnerWriteError string
  | InvalidPrivateSubjectError
  | LogicalKeyTooLongError
  | ConcurrentManifestWriteError string string
  | IntegrityError string
  | DataError string
  | ValueError string
  | LookupError string string
  | RuntimeError string string

text \<open>\<open>CrossOwnerWriteError\<close> and \<open>InvalidPrivateSubjectError\<close> are subclasses of the first.\<close>

fun is_authorization_error :: "manifest_error \<Rightarrow> bool" where
  "is_authorization_error (ManifestAuthorizationError _ _) = True"
| "is_authorization_error (CrossOwnerWriteError _) = True"
| "is_authorization_error InvalidPrivateSubjectError = True"
| "is_authorization_error _ = False"

definition tier_conflict_message :: "string \<Rightarrow> string \<Rightarrow> string" where
  "tier_conflict_message layer logical =
     ''tier conflict: '' @ layer @ '' key '' @ py_repr logical @ '' is not available for this write''"

definition ChromaIdConflict_message :: "string \<Rightarrow> string \<Rightarrow> string" where
  "ChromaIdConflict_message collection document_id =
     tier_conflict_message ''semantic'' (collection @ ''/'' @ document_id)"

section \<open>Subjects, logical keys, stored keys\<close>

definition sub_ok :: "string \<Rightarrow> bool" where
  "sub_ok sub \<longleftrightarrow>
     \<not> (sub = [] \<or> length sub > SUB_MAX \<or> py_contains sub ''/'' \<or> py_contains sub ''__''
        \<or> py_endswith sub ''_'')"

definition check_sub :: "string \<Rightarrow> (manifest_error, string) res" where
  "check_sub sub = (if sub_ok sub then Inr sub else Inl InvalidPrivateSubjectError)"

definition check_logical :: "string \<Rightarrow> (manifest_error, string) res" where
  "check_logical logical =
     (if length logical > LOGICAL_KEY_MAX then Inl LogicalKeyTooLongError else Inr logical)"

definition semantic_logical_key :: "string \<Rightarrow> string \<Rightarrow> (manifest_error, string) res" where
  "semantic_logical_key collection document_id = check_logical (collection @ ''/'' @ document_id)"

text \<open>The two checks run in this order: the subject first.\<close>

definition physical_key :: "string \<Rightarrow> string \<Rightarrow> (manifest_error, string) res" where
  "physical_key owner_sub logical =
     res_bind (check_sub owner_sub) (\<lambda>o'.
     res_bind (check_logical logical) (\<lambda>l. Inr (o' @ ''/'' @ l)))"

definition private_storage_key :: "user_context \<Rightarrow> string \<Rightarrow> (manifest_error, string) res" where
  "private_storage_key user logical = physical_key (uc_user_id user) logical"

definition private_physical_id :: "user_context \<Rightarrow> string \<Rightarrow> (manifest_error, string) res" where
  "private_physical_id user document_id =
     res_bind (check_sub (uc_user_id user)) (\<lambda>o'. Inr (o' @ ''__'' @ document_id))"

definition logical_key :: "string \<Rightarrow> string option \<Rightarrow> string option \<Rightarrow> string" where
  "logical_key stored tier owner =
     (case owner of
        None \<Rightarrow> stored
      | Some o' \<Rightarrow>
          if tier = Some ''private'' \<and> o' \<noteq> [] \<and> py_startswith stored (o' @ ''/'')
          then drop (length o' + 1) stored else stored)"

definition logical_id :: "string \<Rightarrow> string option \<Rightarrow> string" where
  "logical_id physical owner =
     (case owner of
        None \<Rightarrow> physical
      | Some o' \<Rightarrow>
          if o' \<noteq> [] \<and> py_startswith physical (o' @ ''__'') then drop (length o' + 2) physical
          else physical)"

text \<open>The metadata of a vector-store row: an absent mapping and an empty one read the same.\<close>

definition new_form_owner :: "(string \<times> pyval) list option \<Rightarrow> string option" where
  "new_form_owner meta =
     (case meta of
        None \<Rightarrow> None
      | Some m \<Rightarrow>
          if m = [] then None
          else (case map_of m ''user_id'' of
                  Some (PStr owner) \<Rightarrow>
                    if map_of m ''tier'' = Some (PStr ''private'') \<and>
                       map_of m ''id_form'' = Some (PStr ID_FORM_LC9) \<and> owner \<noteq> []
                    then Some owner else None
                | _ \<Rightarrow> None))"

definition deleted_key_candidates :: "string \<Rightarrow> string \<Rightarrow> string option \<Rightarrow> string set" where
  "deleted_key_candidates collection chunk_id owner =
     (case owner of
        Some o' \<Rightarrow>
          if o' \<noteq> [] then {o' @ ''/'' @ collection @ ''/'' @ logical_id chunk_id owner}
          else {collection @ ''/'' @ chunk_id}
      | None \<Rightarrow> {collection @ ''/'' @ chunk_id})"

section \<open>The resolver\<close>

record row_facts =
  rf_key :: string
  rf_tier :: string
  rf_created_by :: string
  rf_deleted_at_ms :: "int option"

datatype resolution_kind = KNew | KOwn | KLegacyOwn | KCorpus

record resolution =
  rs_storage_key :: string
  rs_kind :: resolution_kind
  rs_row :: "row_facts option"

definition Resolution :: "string \<Rightarrow> resolution_kind \<Rightarrow> row_facts option \<Rightarrow> resolution" where
  "Resolution k kind row = \<lparr>rs_storage_key = k, rs_kind = kind, rs_row = row\<rparr>"

lemma Resolution_sel [simp]:
  "rs_storage_key (Resolution k kind row) = k"
  "rs_kind (Resolution k kind row) = kind"
  "rs_row (Resolution k kind row) = row"
  by (simp_all add: Resolution_def)

lemma Resolution_eq [simp]:
  "Resolution k kind row = Resolution k' kind' row' \<longleftrightarrow> k = k' \<and> kind = kind' \<and> row = row'"
  by (auto simp: Resolution_def)

definition resolve_write ::
  "string \<Rightarrow> string \<Rightarrow> string \<Rightarrow> string \<Rightarrow> row_facts option \<Rightarrow> row_facts option
    \<Rightarrow> (manifest_error, resolution) res" where
  "resolve_write layer logical owner requested_tier target bare =
     (if requested_tier \<notin> set TIERS then Inl (ValueError requested_tier)
      else let refusal = tier_conflict_message layer logical in
      if requested_tier = ''corpus'' then
        (case bare of
           None \<Rightarrow> Inr (Resolution logical KNew None)
         | Some row \<Rightarrow>
             if rf_tier row = ''private'' then Inl (CrossOwnerWriteError refusal)
             else Inr (Resolution logical KCorpus (Some row)))
      else
        res_bind (physical_key owner logical) (\<lambda>storage.
          case target of
            Some t \<Rightarrow>
              if rf_tier t \<noteq> ''private'' then Inl (CrossOwnerWriteError refusal)
              else if rf_created_by t \<noteq> owner then Inl (CrossOwnerWriteError refusal)
              else Inr (Resolution storage KOwn (Some t))
          | None \<Rightarrow>
              (case bare of
                 None \<Rightarrow> Inr (Resolution storage KNew None)
               | Some b \<Rightarrow>
                   if rf_tier b = ''private'' \<and> rf_created_by b = owner \<and> rf_deleted_at_ms b = None
                   then Inr (Resolution storage KLegacyOwn (Some b))
                   else if rf_tier b = ''corpus'' then Inr (Resolution storage KCorpus (Some b))
                   else Inr (Resolution storage KNew None))))"

definition resolve_read_bare :: "string \<Rightarrow> row_facts option \<Rightarrow> resolution option" where
  "resolve_read_bare owner bare =
     (case bare of
        None \<Rightarrow> None
      | Some b \<Rightarrow>
          if rf_tier b = ''private'' \<and> rf_created_by b = owner
          then Some (Resolution (rf_key b) KLegacyOwn bare)
          else if rf_tier b = ''corpus'' then Some (Resolution (rf_key b) KCorpus bare)
          else None)"

definition resolve_read ::
  "string \<Rightarrow> row_facts option \<Rightarrow> row_facts option \<Rightarrow> resolution option" where
  "resolve_read owner target bare =
     (case target of
        None \<Rightarrow> resolve_read_bare owner bare
      | Some t \<Rightarrow>
          if rf_tier t = ''private'' \<and> rf_created_by t = owner
          then Some (Resolution (rf_key t) KOwn target)
          else resolve_read_bare owner bare)"

section \<open>Routing of object keys\<close>

text \<open>Only the ASCII letters decide whether the lower-cased key ends in the suffix.\<close>

definition py_lower :: "string \<Rightarrow> string" where
  "py_lower s = map (\<lambda>c. let n = (of_char c :: nat) in
     if 65 \<le> n \<and> n \<le> 90 \<or> 192 \<le> n \<and> n \<le> 222 \<and> n \<noteq> 215 then char_of (n + 32) else c) s"

definition collection_for_key :: "string \<Rightarrow> string" where
  "collection_for_key key =
     (if py_endswith (py_lower key) ''.pdf'' then ''ai_research_papers'' else ''semantic'')"

definition bare_key_from_uri :: "string \<Rightarrow> string" where
  "bare_key_from_uri uri =
     (if \<not> py_startswith uri ''s3://'' then uri
      else drop 1 (dropWhile (\<lambda>c. c \<noteq> CHR ''/'') (drop 5 uri)))"

section \<open>Owner prefixes\<close>

text \<open>
  The contract of an owner prefix: for valid owners the owner and the suffix are determined by
  the stored text, and the owner's own decoder gives the suffix back. The manifest key and the
  vector-store id are its two implementations.
\<close>

locale owner_prefix =
  fixes valid :: "string \<Rightarrow> bool"
    and enc :: "string \<Rightarrow> string \<Rightarrow> string"
    and dec :: "string \<Rightarrow> string \<Rightarrow> string"
  assumes enc_eq: "valid p \<Longrightarrow> valid q \<Longrightarrow> enc p k = enc q l \<Longrightarrow> p = q \<and> k = l"
    and dec_enc: "valid p \<Longrightarrow> dec p (enc p k) = k"
begin

lemma enc_inject: "valid p \<Longrightarrow> valid q \<Longrightarrow> enc p k = enc q l \<longleftrightarrow> p = q \<and> k = l"
  using enc_eq by blast

lemma inj_enc: "inj_on (\<lambda>(p, k). enc p k) ({p. valid p} \<times> UNIV)"
proof (rule inj_onI, clarify)
  fix p k q l
  assume "valid p" and "valid q" and "enc p k = enc q l"
  then show "p = q \<and> k = l" by (rule enc_eq)
qed

lemma ranges_disjoint: "valid p \<Longrightarrow> valid q \<Longrightarrow> p \<noteq> q \<Longrightarrow> range (enc p) \<inter> range (enc q) = {}"
  by (auto dest: enc_eq)

end

definition owner_key :: "string \<Rightarrow> string \<Rightarrow> string" where
  "owner_key owner k = owner @ ''/'' @ k"

definition owner_id :: "string \<Rightarrow> string \<Rightarrow> string" where
  "owner_id owner d = owner @ ''__'' @ d"

lemma sub_ok_no_slash: "sub_ok s \<Longrightarrow> CHR ''/'' \<notin> set s"
  using split_list [of "CHR ''/''" s] by (force simp: sub_ok_def py_contains_iff)

lemma sub_ok_nonempty: "sub_ok s \<Longrightarrow> s \<noteq> []"
  by (simp add: sub_ok_def)

lemma sub_ok_length: "sub_ok s \<Longrightarrow> length s \<le> SUB_MAX"
  by (simp add: sub_ok_def)

text \<open>
  A longer owner whose text continues a shorter one's separator would hold the separator or end
  in its first character; the subject rule refuses both.
\<close>

lemma double_underscore_le:
  assumes "sub_ok q" and eq: "p @ ''__'' @ k = q @ ''__'' @ l" and le: "length p \<le> length q"
  shows "p = q \<and> k = l"
proof -
  obtain x where q: "q = p @ x" and x: "''__'' @ k = x @ ''__'' @ l"
    using eq le by (metis append_eq_append_conv_if append_eq_conv_conj append_take_drop_id)
  show ?thesis
  proof (cases x)
    case Nil
    with q x show ?thesis by simp
  next
    case (Cons c x')
    show ?thesis
    proof (cases x')
      case Nil
      with x Cons q have "py_endswith q ''_''" by (auto simp: py_endswith_iff)
      with assms(1) show ?thesis by (simp add: sub_ok_def)
    next
      case (Cons d y)
      with x \<open>x = c # x'\<close> have "x = ''__'' @ y" by auto
      with q have "q = p @ ''__'' @ y" by simp
      then have "py_contains q ''__''" by (auto simp: py_contains_iff)
      with assms(1) show ?thesis by (simp add: sub_ok_def)
    qed
  qed
qed

interpretation mkey: owner_prefix sub_ok owner_key "\<lambda>p s. logical_key s (Some ''private'') (Some p)"
proof unfold_locales
  fix p q k l
  assume "sub_ok p" and "sub_ok q" and "owner_key p k = owner_key q l"
  then show "p = q \<and> k = l"
    using first_separator_unique [of p "CHR ''/''" k q l] by (simp add: owner_key_def sub_ok_no_slash)
next
  fix p k
  assume "sub_ok p"
  then show "logical_key (owner_key p k) (Some ''private'') (Some p) = k"
    by (simp add: logical_key_def owner_key_def sub_ok_nonempty py_startswith_def)
qed

interpretation vid: owner_prefix sub_ok owner_id "\<lambda>p s. logical_id s (Some p)"
proof unfold_locales
  fix p q k l
  assume ok: "sub_ok p" "sub_ok q" and eq: "owner_id p k = owner_id q l"
  show "p = q \<and> k = l"
  proof (cases "length p \<le> length q")
    case True
    with eq show ?thesis unfolding owner_id_def by (rule double_underscore_le [OF ok(2)])
  next
    case False
    then have "length q \<le> length p" by simp
    with eq [symmetric] have "q = p \<and> l = k"
      unfolding owner_id_def by (rule double_underscore_le [OF ok(1)])
    then show ?thesis by simp
  qed
next
  fix p k
  assume "sub_ok p"
  then show "logical_id (owner_id p k) (Some p) = k"
    by (simp add: logical_id_def owner_id_def sub_ok_nonempty py_startswith_def)
qed

lemma physical_key_Inr:
  "physical_key owner k = Inr s \<longleftrightarrow>
     sub_ok owner \<and> length k \<le> LOGICAL_KEY_MAX \<and> s = owner_key owner k"
  by (auto simp: physical_key_def check_sub_def check_logical_def owner_key_def)

lemma physical_key_Inl:
  "physical_key owner k = Inl e \<longleftrightarrow>
     (if sub_ok owner then length k > LOGICAL_KEY_MAX \<and> e = LogicalKeyTooLongError
      else e = InvalidPrivateSubjectError)"
  by (auto simp: physical_key_def check_sub_def check_logical_def)

lemma private_physical_id_Inr:
  "private_physical_id user d = Inr s \<longleftrightarrow>
     sub_ok (uc_user_id user) \<and> s = owner_id (uc_user_id user) d"
  by (auto simp: private_physical_id_def check_sub_def owner_id_def)

section \<open>Properties\<close>

text \<open>
  The stored key of a private row determines its owner and its logical key, fits the
  255-character column, and its own owner's decoder gives the logical key back.
\<close>

lemma physical_key_injective:
  assumes "physical_key p k = Inr s" and "physical_key q l = Inr s"
  shows "p = q \<and> k = l \<and> length s \<le> STORAGE_KEY_MAX
         \<and> logical_key s (Some ''private'') (Some p) = k"
  using assms mkey.enc_eq [of p q k l] mkey.dec_enc [of p k] sub_ok_length [of p]
  by (auto simp: physical_key_Inr owner_key_def key_limits)

lemma physical_key_injective_witness:
  "physical_key ''user-a'' ''notes.md'' = Inr ''user-a/notes.md''
   \<and> logical_key ''user-a/notes.md'' (Some ''private'') (Some ''user-a'') = ''notes.md''"
proof -
  have h: "physical_key ''user-a'' ''notes.md'' = Inr ''user-a/notes.md''" by code_simp
  show ?thesis using h physical_key_injective [OF h h] by simp
qed

text \<open>
  The vector-store id of a private chunk determines its owner and its document id, although
  the separator can occur inside a document id; the owner's decoder gives the document id back.
\<close>

lemma private_physical_id_injective:
  assumes "private_physical_id u d = Inr s" and "private_physical_id v e = Inr s"
  shows "uc_user_id u = uc_user_id v \<and> d = e \<and> logical_id s (Some (uc_user_id u)) = d"
  using assms vid.enc_eq [of "uc_user_id u" "uc_user_id v" d e] vid.dec_enc [of "uc_user_id u" d]
  by (auto simp: private_physical_id_Inr)

definition demo_user :: "string \<Rightarrow> user_context" where
  "demo_user sub = \<lparr>uc_user_id = sub, uc_username = sub, uc_agent_type = ''opencode'',
     uc_scopes = [''memory:episodic:write''], uc_token_id = None, uc_is_admin = False, uc_extra = []\<rparr>"

lemma private_physical_id_injective_witness:
  "private_physical_id (demo_user ''a_b'') ''x__y'' = Inr ''a_b__x__y''
   \<and> logical_id ''a_b__x__y'' (Some ''a_b'') = ''x__y''"
proof -
  have h: "private_physical_id (demo_user ''a_b'') ''x__y'' = Inr ''a_b__x__y''" by code_simp
  show ?thesis using h private_physical_id_injective [OF h h] by (simp add: demo_user_def)
qed

text \<open>
  No existence oracle. Another user's private row at the bare key does not change what a
  private write or a read decides: both decide as if the row were absent.
\<close>

lemma resolver_no_existence_oracle:
  assumes "rf_tier b = ''private''" and "rf_created_by b \<noteq> owner"
  shows "resolve_write layer k owner ''private'' target (Some b)
           = resolve_write layer k owner ''private'' target None
       \<and> resolve_read owner target (Some b) = resolve_read owner target None"
  using assms
  by (cases target)
    (simp_all add: resolve_write_def resolve_read_def resolve_read_bare_def TIERS_def)

lemma resolver_no_existence_oracle_witness:
  "resolve_write ''episodic'' ''k'' ''bob'' ''private'' None
     (Some \<lparr>rf_key = ''k'', rf_tier = ''private'', rf_created_by = ''alice'', rf_deleted_at_ms = None\<rparr>)
   = Inr (Resolution ''bob/k'' KNew None)
   \<and> resolve_read ''bob'' None
     (Some \<lparr>rf_key = ''k'', rf_tier = ''private'', rf_created_by = ''alice'', rf_deleted_at_ms = None\<rparr>) = None"
proof -
  let ?b = "\<lparr>rf_key = ''k'', rf_tier = ''private'', rf_created_by = ''alice'', rf_deleted_at_ms = None\<rparr>"
  have h: "rf_tier ?b = ''private''" "rf_created_by ?b \<noteq> ''bob''" by simp_all
  have w: "resolve_write ''episodic'' ''k'' ''bob'' ''private'' None None
             = Inr (Resolution ''bob/k'' KNew None)" by code_simp
  have r: "resolve_read ''bob'' None None = None" by code_simp
  show ?thesis
    using w r resolver_no_existence_oracle [OF h, of "''episodic''" "''k''" None] by simp
qed

text \<open>
  The outcomes of a private write, as an elimination rule: the caller's own row at the target,
  the caller's own live legacy row, a corpus row at the bare key, or nothing.
\<close>

lemma resolve_write_private_eq:
  "resolve_write layer k owner ''private'' target bare =
     res_bind (physical_key owner k) (\<lambda>storage.
       case target of
         Some t \<Rightarrow>
           if rf_tier t = ''private'' \<and> rf_created_by t = owner
           then Inr (Resolution storage KOwn (Some t))
           else Inl (CrossOwnerWriteError (tier_conflict_message layer k))
       | None \<Rightarrow>
           (case bare of
              None \<Rightarrow> Inr (Resolution storage KNew None)
            | Some b \<Rightarrow>
                if rf_tier b = ''private'' \<and> rf_created_by b = owner \<and> rf_deleted_at_ms b = None
                then Inr (Resolution storage KLegacyOwn (Some b))
                else if rf_tier b = ''corpus'' then Inr (Resolution storage KCorpus (Some b))
                else Inr (Resolution storage KNew None)))"
  by (cases "physical_key owner k"; cases target; cases bare)
    (simp_all add: resolve_write_def TIERS_def Let_def)

lemma resolve_write_private_cases:
  assumes "resolve_write layer k owner ''private'' target bare = Inr res"
  obtains
    (own) t where "target = Some t" "rf_tier t = ''private''" "rf_created_by t = owner"
      "res = Resolution (owner_key owner k) KOwn (Some t)" "physical_key owner k = Inr (owner_key owner k)"
  | (legacy) b where "target = None" "bare = Some b" "rf_tier b = ''private''"
      "rf_created_by b = owner" "rf_deleted_at_ms b = None"
      "res = Resolution (owner_key owner k) KLegacyOwn (Some b)"
      "physical_key owner k = Inr (owner_key owner k)"
  | (corpus) b where "target = None" "bare = Some b" "rf_tier b = ''corpus''"
      "res = Resolution (owner_key owner k) KCorpus (Some b)"
      "physical_key owner k = Inr (owner_key owner k)"
  | (new) "target = None" "res = Resolution (owner_key owner k) KNew None"
      "physical_key owner k = Inr (owner_key owner k)"
proof -
  obtain s where s: "physical_key owner k = Inr s" "s = owner_key owner k"
    using assms by (auto simp: resolve_write_private_eq res_bind_Inr_iff physical_key_Inr)
  show thesis
    using assms s
    by (cases target; cases bare)
      (auto simp: resolve_write_private_eq split: if_splits intro: own legacy corpus new)
qed

text \<open>A corpus write touches the bare key only, and never a private row.\<close>

lemma resolve_write_corpus_eq:
  "resolve_write layer k owner ''corpus'' target bare =
     (case bare of
        None \<Rightarrow> Inr (Resolution k KNew None)
      | Some row \<Rightarrow>
          if rf_tier row = ''private'' then Inl (CrossOwnerWriteError (tier_conflict_message layer k))
          else Inr (Resolution k KCorpus (Some row)))"
  by (simp add: resolve_write_def TIERS_def Let_def)

text \<open>
  A chunk of a private document points at exactly the stored manifest key of that document,
  so a tombstone of one owner's document never hides another's.
\<close>

lemma deleted_key_candidates_exact:
  assumes "private_physical_id u d = Inr pid"
    and "semantic_logical_key c d = Inr lk"
    and "physical_key (uc_user_id u) lk = Inr sk"
  shows "deleted_key_candidates c pid (Some (uc_user_id u)) = {sk}"
  using assms vid.dec_enc [of "uc_user_id u" d]
  by (auto simp: private_physical_id_Inr physical_key_Inr deleted_key_candidates_def
      semantic_logical_key_def check_logical_def owner_key_def sub_ok_nonempty split: if_splits)

lemma deleted_key_candidates_exact_witness:
  "deleted_key_candidates ''decisions'' ''bob__adr'' (Some ''bob'') = {''bob/decisions/adr''}"
proof -
  have h: "private_physical_id (demo_user ''bob'') ''adr'' = Inr ''bob__adr''"
    "semantic_logical_key ''decisions'' ''adr'' = Inr ''decisions/adr''"
    "physical_key (uc_user_id (demo_user ''bob'')) ''decisions/adr'' = Inr ''bob/decisions/adr''"
    by code_simp+
  show ?thesis using deleted_key_candidates_exact [OF h] by (simp add: demo_user_def)
qed

end
