(* ===== verification/Manifest.thy ===== *)
theory Manifest
  imports Keys
begin

text \<open>
  The memory manifest (\<open>src/audittrace/services/memory_manifest.py\<close>): the table
  \<open>memory_items\<close> with its UNIQUE and CHECK constraints, the Postgres-backed service that
  creates, updates, tombstones and lists its rows, and the pre-write authorization choke.

  A table is the list of its rows. An operation takes the clock, the identifier the database
  would generate and the table, and returns an error (the transaction was rolled back) or the
  new table with the returned entry.
\<close>

section \<open>Rows and entries\<close>

text \<open>The document columns a PDF index run writes (migrations 010 and 011).\<close>

record pdf_columns =
  pc_page_count :: "int option"
  pc_signature_status :: "string option"
  pc_ocr_coverage_pct :: "pyval option"
  pc_attachment_count :: "int option"
  pc_form_field_count :: "int option"
  pc_extraction_warnings :: "pyval option"
  pc_document_sha256 :: "string option"
  pc_pdf_title :: "string option"
  pc_pdf_author :: "string option"
  pc_pdf_creator :: "string option"
  pc_pdf_creation_date :: "string option"
  pc_pdfa_part :: "string option"
  pc_pdfa_conformance :: "string option"
  pc_ltv_data :: "pyval option"

definition no_pdf :: pdf_columns where
  "no_pdf = \<lparr>pc_page_count = None, pc_signature_status = None, pc_ocr_coverage_pct = None,
     pc_attachment_count = None, pc_form_field_count = None, pc_extraction_warnings = None,
     pc_document_sha256 = None, pc_pdf_title = None, pc_pdf_author = None, pc_pdf_creator = None,
     pc_pdf_creation_date = None, pc_pdfa_part = None, pc_pdfa_conformance = None,
     pc_ltv_data = None\<rparr>"

text \<open>What the column defaults of \<open>MemoryItem\<close> put into a row inserted without document columns.\<close>

definition default_pdf :: pdf_columns where
  "default_pdf = no_pdf\<lparr>pc_attachment_count := Some 0, pc_form_field_count := Some 0,
     pc_extraction_warnings := Some (PList [])\<rparr>"

record memory_item =
  mi_id :: string
  mi_layer :: string
  mi_key :: string
  mi_title :: "string option"
  mi_size_bytes :: "int option"
  mi_created_at_ms :: int
  mi_modified_at_ms :: int
  mi_created_by :: string
  mi_modified_by :: string
  mi_deleted_at_ms :: "int option"
  mi_deleted_by :: "string option"
  mi_tier :: string
  mi_pdf :: pdf_columns
  mi_indexed_at_ms :: "int option"
  mi_index_failed_at_ms :: "int option"
  mi_index_failure_code :: "string option"

text \<open>
  \<open>ManifestEntry\<close>: the same columns with the logical key beside the stored one. Its optional
  document fields are the group \<open>me_pdf\<close>.
\<close>

record manifest_entry =
  me_id :: string
  me_layer :: string
  me_key :: string
  me_title :: "string option"
  me_size_bytes :: "int option"
  me_created_at_ms :: int
  me_modified_at_ms :: int
  me_created_by :: string
  me_modified_by :: string
  me_deleted_at_ms :: "int option"
  me_deleted_by :: "string option"
  me_pdf :: pdf_columns
  me_tier :: string
  me_storage_key :: string

definition from_row :: "memory_item \<Rightarrow> manifest_entry" where
  "from_row r =
     \<lparr>me_id = mi_id r, me_layer = mi_layer r,
      me_key = logical_key (mi_key r) (Some (mi_tier r)) (Some (mi_created_by r)),
      me_title = mi_title r, me_size_bytes = mi_size_bytes r,
      me_created_at_ms = mi_created_at_ms r, me_modified_at_ms = mi_modified_at_ms r,
      me_created_by = mi_created_by r, me_modified_by = mi_modified_by r,
      me_deleted_at_ms = mi_deleted_at_ms r, me_deleted_by = mi_deleted_by r,
      me_pdf = mi_pdf r, me_tier = mi_tier r, me_storage_key = mi_key r\<rparr>"

definition facts :: "memory_item option \<Rightarrow> row_facts option" where
  "facts row =
     (case row of
        None \<Rightarrow> None
      | Some r \<Rightarrow> Some \<lparr>rf_key = mi_key r, rf_tier = mi_tier r,
          rf_created_by = mi_created_by r, rf_deleted_at_ms = mi_deleted_at_ms r\<rparr>)"

text \<open>An empty stored key falls back to the logical one, as the \<open>or\<close> of the code does.\<close>

definition entry_facts :: "manifest_entry option \<Rightarrow> row_facts option" where
  "entry_facts entry =
     (case entry of
        None \<Rightarrow> None
      | Some e \<Rightarrow> Some \<lparr>rf_key = (if me_storage_key e \<noteq> [] then me_storage_key e else me_key e),
          rf_tier = me_tier e, rf_created_by = me_created_by e,
          rf_deleted_at_ms = me_deleted_at_ms e\<rparr>)"

lemma facts_simps [simp]:
  "facts None = None"
  "facts (Some r) = Some \<lparr>rf_key = mi_key r, rf_tier = mi_tier r,
     rf_created_by = mi_created_by r, rf_deleted_at_ms = mi_deleted_at_ms r\<rparr>"
  by (simp_all add: facts_def)

section \<open>The table\<close>

type_synonym table = "memory_item list"

definition row_at :: "table \<Rightarrow> string \<Rightarrow> string \<Rightarrow> memory_item option" where
  "row_at tbl layer key = find (\<lambda>r. mi_layer r = layer \<and> mi_key r = key) tbl"

text \<open>\<open>UNIQUE (layer, key)\<close>.\<close>

definition layer_keys :: "table \<Rightarrow> (string \<times> string) list" where
  "layer_keys tbl = map (\<lambda>r. (mi_layer r, mi_key r)) tbl"

definition uq_layer_key :: "table \<Rightarrow> bool" where
  "uq_layer_key tbl \<longleftrightarrow> distinct (layer_keys tbl)"

text \<open>
  The CHECK of migration 034. It is declared NOT VALID: rows written before it stay
  unvalidated, every row written after it is checked.
\<close>

definition ck_private_key_owner :: "memory_item \<Rightarrow> sqlbool" where
  "ck_private_key_owner r =
     sql_or (sql_neq (Some (mi_tier r)) (Some ''private''))
       (sql_or (sql_of (mi_deleted_at_ms r \<noteq> None))
          (sql_eq (Some (take (length (mi_created_by r) + 1) (mi_key r)))
                  (Some (mi_created_by r @ ''/''))))"

text \<open>The widths of the VARCHAR columns; a longer value is refused by the database.\<close>

definition fits :: "nat \<Rightarrow> string option \<Rightarrow> bool" where
  "fits n s \<longleftrightarrow> (case s of None \<Rightarrow> True | Some x \<Rightarrow> length x \<le> n)"

definition widths_ok :: "memory_item \<Rightarrow> bool" where
  "widths_ok r \<longleftrightarrow>
     fits 36 (Some (mi_id r)) \<and> fits 16 (Some (mi_layer r)) \<and> fits 255 (Some (mi_key r)) \<and>
     fits 255 (mi_title r) \<and> fits 36 (Some (mi_created_by r)) \<and> fits 36 (Some (mi_modified_by r)) \<and>
     fits 36 (mi_deleted_by r) \<and> fits 16 (Some (mi_tier r)) \<and>
     fits 32 (pc_signature_status (mi_pdf r)) \<and> fits 64 (pc_document_sha256 (mi_pdf r)) \<and>
     fits 255 (pc_pdf_title (mi_pdf r)) \<and> fits 255 (pc_pdf_author (mi_pdf r)) \<and>
     fits 255 (pc_pdf_creator (mi_pdf r)) \<and> fits 4 (pc_pdfa_part (mi_pdf r)) \<and>
     fits 4 (pc_pdfa_conformance (mi_pdf r))"

fun first_row_error :: "memory_item list \<Rightarrow> manifest_error option" where
  "first_row_error [] = None"
| "first_row_error (r # rs) =
     (if \<not> widths_ok r then Some (DataError (mi_key r))
      else if \<not> sql_check_ok (ck_private_key_owner r)
      then Some (IntegrityError ''ck_memory_items_private_key_owner'')
      else first_row_error rs)"

text \<open>
  \<open>_commit_or_conflict\<close>: the rows written by the transaction are checked, then the UNIQUE
  constraint; only a unique violation becomes the retryable conflict. The plain commit of
  \<open>upsert_pdf_metadata\<close> and \<open>record_delete\<close> lets the violation through.
\<close>

definition commit_or_conflict ::
  "string \<Rightarrow> string \<Rightarrow> memory_item list \<Rightarrow> table \<Rightarrow> (manifest_error, table) res" where
  "commit_or_conflict layer key written tbl =
     (case first_row_error written of
        Some e \<Rightarrow> Inl e
      | None \<Rightarrow> if uq_layer_key tbl then Inr tbl else Inl (ConcurrentManifestWriteError layer key))"

definition commit_plain :: "memory_item list \<Rightarrow> table \<Rightarrow> (manifest_error, table) res" where
  "commit_plain written tbl =
     (case first_row_error written of
        Some e \<Rightarrow> Inl e
      | None \<Rightarrow> if uq_layer_key tbl then Inr tbl else Inl (IntegrityError ''uq_memory_items_layer_key''))"

text \<open>Writing a changed row back, at its layer and key.\<close>

definition put_row :: "memory_item \<Rightarrow> table \<Rightarrow> table" where
  "put_row r tbl = map_if (\<lambda>x. mi_layer x = mi_layer r \<and> mi_key x = mi_key r) (\<lambda>_. r) tbl"

section \<open>Guards\<close>

definition valid_layers :: "string list" where
  "valid_layers = [''episodic'', ''procedural'', ''semantic'']"

definition validate_layer :: "string \<Rightarrow> (manifest_error, unit) res" where
  "validate_layer layer = (if layer \<in> set valid_layers then Inr () else Inl (ValueError layer))"

definition tier_write_unauthorized :: "string \<Rightarrow> bool \<Rightarrow> bool" where
  "tier_write_unauthorized existing_tier caller_can_write_shared \<longleftrightarrow>
     existing_tier = ''corpus'' \<and> \<not> caller_can_write_shared"

definition pdf_private_row_foreign :: "string \<Rightarrow> string \<Rightarrow> string \<Rightarrow> bool" where
  "pdf_private_row_foreign existing_tier existing_owner caller_user_id \<longleftrightarrow>
     existing_tier = ''private'' \<and> existing_owner \<noteq> caller_user_id"

definition pdf_metadata_write_unauthorized ::
  "string \<Rightarrow> string \<Rightarrow> string \<Rightarrow> bool \<Rightarrow> bool" where
  "pdf_metadata_write_unauthorized existing_tier existing_owner caller_user_id shared \<longleftrightarrow>
     (if existing_tier \<noteq> ''corpus'' \<or> shared then False else existing_owner \<noteq> caller_user_id)"

section \<open>Resolution inside a transaction\<close>

definition resolve_write_in ::
  "table \<Rightarrow> string \<Rightarrow> string \<Rightarrow> string \<Rightarrow> string \<Rightarrow> (manifest_error, resolution) res" where
  "resolve_write_in tbl layer logical owner tier =
     res_bind (if tier = ''private'' then physical_key owner logical else Inr logical) (\<lambda>target_key.
       resolve_write layer logical owner tier
         (if target_key \<noteq> logical then facts (row_at tbl layer target_key) else None)
         (facts (row_at tbl layer logical)))"

text \<open>
  The owner key takes part in a read only when the subject and the key are valid; otherwise the
  read can only see the bare key.
\<close>

definition read_row :: "table \<Rightarrow> string \<Rightarrow> string \<Rightarrow> string \<Rightarrow> memory_item option" where
  "read_row tbl layer logical owner =
     (let fetched = (\<lambda>k. if k = logical \<or> physical_key owner logical = Inr k
                         then row_at tbl layer k else None);
          target = fetched (owner @ ''/'' @ logical)
      in case resolve_read owner (facts target) (facts (fetched logical)) of
           None \<Rightarrow> None
         | Some res \<Rightarrow> (case rs_row res of None \<Rightarrow> None | Some r \<Rightarrow> fetched (rf_key r)))"

definition resolve_read_entry ::
  "table \<Rightarrow> string \<Rightarrow> string \<Rightarrow> user_context \<Rightarrow> (manifest_error, manifest_entry option) res" where
  "resolve_read_entry tbl layer logical user =
     res_bind (validate_layer layer) (\<lambda>_.
       Inr (map_option from_row (read_row tbl layer logical (uc_user_id user))))"

section \<open>Operations\<close>

definition new_item ::
  "string \<Rightarrow> string \<Rightarrow> string \<Rightarrow> string option \<Rightarrow> int option \<Rightarrow> int \<Rightarrow> int \<Rightarrow> string \<Rightarrow> string \<Rightarrow> memory_item"
where
  "new_item uid layer key title sz created now user_id tier =
     \<lparr>mi_id = uid, mi_layer = layer, mi_key = key, mi_title = title, mi_size_bytes = sz,
      mi_created_at_ms = created, mi_modified_at_ms = now, mi_created_by = user_id,
      mi_modified_by = user_id, mi_deleted_at_ms = None, mi_deleted_by = None, mi_tier = tier,
      mi_pdf = default_pdf, mi_indexed_at_ms = None, mi_index_failed_at_ms = None,
      mi_index_failure_code = None\<rparr>"

definition tombstone :: "int \<Rightarrow> string \<Rightarrow> memory_item \<Rightarrow> memory_item" where
  "tombstone now user_id r = r\<lparr>mi_deleted_at_ms := Some now, mi_deleted_by := Some user_id\<rparr>"

text \<open>The existing row as \<open>record_create\<close> overwrites it, revived when it was tombstoned.\<close>

definition overwrite ::
  "int \<Rightarrow> string option \<Rightarrow> int option \<Rightarrow> string \<Rightarrow> memory_item \<Rightarrow> memory_item" where
  "overwrite now title sz user_id e =
     (let r = (if mi_deleted_at_ms e \<noteq> None
               then e\<lparr>mi_deleted_at_ms := None, mi_deleted_by := None\<rparr> else e)
      in r\<lparr>mi_title := title, mi_size_bytes := sz, mi_modified_at_ms := now,
           mi_modified_by := user_id\<rparr>)"

definition record_create ::
  "int \<Rightarrow> string \<Rightarrow> table \<Rightarrow> string \<Rightarrow> string \<Rightarrow> string option \<Rightarrow> int option \<Rightarrow> string \<Rightarrow> string \<Rightarrow> bool
    \<Rightarrow> (manifest_error, table \<times> manifest_entry) res" where
  "record_create now uid tbl layer key title sz user_id tier shared =
     res_bind (validate_layer layer) (\<lambda>_.
     res_bind (resolve_write_in tbl layer key user_id tier) (\<lambda>res.
       let existing = (case rs_row res of None \<Rightarrow> None | Some f \<Rightarrow> row_at tbl layer (rf_key f)) in
       if rs_kind res = KCorpus \<and> tier_write_unauthorized ''corpus'' shared
       then Inl (ManifestAuthorizationError layer key)
       else if existing \<noteq> None \<and> (rs_kind res = KOwn \<or> tier = ''corpus'')
       then let row = overwrite now title sz user_id (the existing) in
            res_bind (commit_or_conflict layer key [row] (put_row row tbl)) (\<lambda>t. Inr (t, from_row row))
       else if rs_kind res = KLegacyOwn \<and> existing \<noteq> None
       then let old = tombstone now user_id (the existing);
                row = new_item uid layer (rs_storage_key res) title sz
                        (mi_created_at_ms (the existing)) now user_id tier
            in res_bind (commit_or_conflict layer key [row, old] (put_row old tbl @ [row]))
                 (\<lambda>t. Inr (t, from_row row))
       else let row = new_item uid layer (rs_storage_key res) title sz now now user_id tier
            in res_bind (commit_or_conflict layer key [row] (tbl @ [row])) (\<lambda>t. Inr (t, from_row row))))"

definition record_update ::
  "int \<Rightarrow> string \<Rightarrow> table \<Rightarrow> string \<Rightarrow> string \<Rightarrow> int option \<Rightarrow> string \<Rightarrow> string option \<Rightarrow> bool
    \<Rightarrow> (manifest_error, table \<times> manifest_entry) res" where
  "record_update now uid tbl layer key sz user_id title shared =
     res_bind (validate_layer layer) (\<lambda>_.
       case read_row tbl layer key user_id of
         None \<Rightarrow> Inl (LookupError layer key)
       | Some row \<Rightarrow>
           if mi_deleted_at_ms row \<noteq> None then Inl (RuntimeError layer key)
           else if tier_write_unauthorized (mi_tier row) shared
           then Inl (ManifestAuthorizationError layer key)
           else if mi_tier row = ''private'' \<and> mi_key row = key
           then res_bind (physical_key user_id key) (\<lambda>k.
                  let new = new_item uid layer k (if title \<noteq> None then title else mi_title row) sz
                              (mi_created_at_ms row) now user_id ''private'';
                      old = tombstone now user_id row
                  in res_bind (commit_or_conflict layer key [new, old] (put_row old tbl @ [new]))
                       (\<lambda>t. Inr (t, from_row new)))
           else let row' = (if title \<noteq> None then row\<lparr>mi_title := title\<rparr> else row)
                             \<lparr>mi_size_bytes := sz, mi_modified_at_ms := now, mi_modified_by := user_id\<rparr>
                in res_bind (commit_or_conflict layer key [row'] (put_row row' tbl))
                     (\<lambda>t. Inr (t, from_row row')))"

definition record_delete ::
  "int \<Rightarrow> table \<Rightarrow> string \<Rightarrow> string \<Rightarrow> string \<Rightarrow> bool \<Rightarrow> (manifest_error, table \<times> manifest_entry) res" where
  "record_delete now tbl layer key user_id shared =
     res_bind (validate_layer layer) (\<lambda>_.
       case read_row tbl layer key user_id of
         None \<Rightarrow> Inl (LookupError layer key)
       | Some row \<Rightarrow>
           if tier_write_unauthorized (mi_tier row) shared
           then Inl (ManifestAuthorizationError layer key)
           else if mi_deleted_at_ms row = None
           then let row' = tombstone now user_id row in
                res_bind (commit_plain [row'] (put_row row' tbl)) (\<lambda>t. Inr (t, from_row row'))
           else Inr (tbl, from_row row))"

text \<open>
  The row an index run creates has no tier of its own: the column default makes it a corpus row.
\<close>

definition upsert_pdf_metadata ::
  "int \<Rightarrow> string \<Rightarrow> table \<Rightarrow> string \<Rightarrow> string \<Rightarrow> string \<Rightarrow> int option \<Rightarrow> pdf_columns \<Rightarrow> bool
    \<Rightarrow> (manifest_error, table \<times> manifest_entry) res" where
  "upsert_pdf_metadata now uid tbl layer key user_id sz pdf shared =
     res_bind (validate_layer layer) (\<lambda>_.
       case row_at tbl layer key of
         None \<Rightarrow>
           let row = (new_item uid layer key None sz now now user_id ''corpus'')\<lparr>mi_pdf := pdf\<rparr> in
           res_bind (commit_plain [row] (tbl @ [row])) (\<lambda>t. Inr (t, from_row row))
       | Some row \<Rightarrow>
           if pdf_private_row_foreign (mi_tier row) (mi_created_by row) user_id
           then Inl (CrossOwnerWriteError (tier_conflict_message layer key))
           else if pdf_metadata_write_unauthorized (mi_tier row) (mi_created_by row) user_id shared
           then Inl (ManifestAuthorizationError layer key)
           else let row' = row\<lparr>mi_modified_at_ms := now, mi_modified_by := user_id,
                               mi_size_bytes := (if sz \<noteq> None then sz else mi_size_bytes row),
                               mi_pdf := pdf\<rparr>
                in res_bind (commit_plain [row'] (put_row row' tbl)) (\<lambda>t. Inr (t, from_row row')))"

definition get_entry :: "table \<Rightarrow> string \<Rightarrow> string \<Rightarrow> (manifest_error, manifest_entry option) res" where
  "get_entry tbl layer key =
     res_bind (validate_layer layer) (\<lambda>_. Inr (map_option from_row (row_at tbl layer key)))"

definition entry_visible :: "user_context option \<Rightarrow> manifest_entry \<Rightarrow> bool" where
  "entry_visible caller e \<longleftrightarrow>
     (case caller of
        None \<Rightarrow> True
      | Some u \<Rightarrow> uc_is_admin u \<or> me_created_by e = uc_user_id u \<or> me_tier e = ''corpus'')"

definition rows_to_entries :: "memory_item list \<Rightarrow> user_context option \<Rightarrow> manifest_entry list" where
  "rows_to_entries rows caller = filter (entry_visible caller) (map from_row rows)"

text \<open>Rows with equal modification times come in an order the database does not promise.\<close>

definition list_for_layer ::
  "table \<Rightarrow> string \<Rightarrow> bool \<Rightarrow> user_context option \<Rightarrow> (manifest_error, manifest_entry list) res" where
  "list_for_layer tbl layer include_deleted caller =
     res_bind (validate_layer layer) (\<lambda>_.
       let q = filter (\<lambda>r. mi_layer r = layer) tbl;
           q' = (if include_deleted then q else filter (\<lambda>r. mi_deleted_at_ms r = None) q)
       in Inr (rows_to_entries (sort_key (\<lambda>r. - mi_modified_at_ms r) q') caller))"

definition get_deleted_keys ::
  "table \<Rightarrow> string \<Rightarrow> string list \<Rightarrow> (manifest_error, string set) res" where
  "get_deleted_keys tbl layer keys =
     res_bind (validate_layer layer) (\<lambda>_.
       if keys = [] then Inr {}
       else Inr (set (map mi_key (filter (\<lambda>r. mi_layer r = layer \<and> mi_key r \<in> set keys \<and>
                                              mi_deleted_at_ms r \<noteq> None) tbl))))"

end
