(* ===== verification/ManifestIsolation.thy ===== *)
theory ManifestIsolation
  imports Manifest
begin

text \<open>
  Isolation of private rows in the memory manifest: each operation of a user acts on the part of
  the table that user may see, and leaves every other user's private rows as they were.
\<close>

section \<open>The part of the table a user may see\<close>

definition visible_to :: "string \<Rightarrow> memory_item \<Rightarrow> bool" where
  "visible_to u r \<longleftrightarrow> mi_tier r \<noteq> ''private'' \<or> mi_created_by r = u"

definition view :: "string \<Rightarrow> table \<Rightarrow> table" where
  "view u tbl = filter (visible_to u) tbl"

definition foreign :: "string \<Rightarrow> table \<Rightarrow> table" where
  "foreign u tbl = filter (\<lambda>r. \<not> visible_to u r) tbl"

text \<open>No private row sits under the prefix of another valid subject.\<close>

definition no_squatter :: "table \<Rightarrow> bool" where
  "no_squatter tbl \<longleftrightarrow>
     (\<forall>r \<in> set tbl. mi_tier r = ''private'' \<longrightarrow>
        (\<forall>u k. sub_ok u \<longrightarrow> mi_key r = owner_key u k \<longrightarrow> mi_created_by r = u))"

definition manifest_inv :: "table \<Rightarrow> bool" where
  "manifest_inv tbl \<longleftrightarrow> uq_layer_key tbl \<and> no_squatter tbl"

section \<open>Lookups\<close>

lemma row_at_Some: "row_at tbl layer key = Some r \<Longrightarrow> r \<in> set tbl \<and> mi_layer r = layer \<and> mi_key r = key"
  by (auto simp: row_at_def dest: find_Some_set)

lemma row_at_None: "row_at tbl layer key = None \<longleftrightarrow> (\<forall>r \<in> set tbl. \<not> (mi_layer r = layer \<and> mi_key r = key))"
  by (simp add: row_at_def find_None_set)

lemma uq_Nil [simp]: "uq_layer_key []"
  by (simp add: uq_layer_key_def layer_keys_def)

lemma in_layer_keys: "(layer, key) \<in> set (layer_keys tbl) \<longleftrightarrow> row_at tbl layer key \<noteq> None"
  by (force simp: layer_keys_def row_at_None)

lemma uq_append1:
  "uq_layer_key (tbl @ [r]) \<longleftrightarrow> uq_layer_key tbl \<and> row_at tbl (mi_layer r) (mi_key r) = None"
  using in_layer_keys [of "mi_layer r" "mi_key r" tbl]
  by (simp add: uq_layer_key_def) (auto simp: layer_keys_def)

lemma uq_unique:
  assumes "uq_layer_key tbl" and "r \<in> set tbl" and "s \<in> set tbl"
    and "mi_layer r = mi_layer s" and "mi_key r = mi_key s"
  shows "r = s"
  using assms by (auto simp: uq_layer_key_def layer_keys_def distinct_map inj_on_def)

lemma uq_view: "uq_layer_key tbl \<Longrightarrow> uq_layer_key (view u tbl)"
  by (simp add: uq_layer_key_def layer_keys_def view_def distinct_map_filter)

lemma row_at_unique:
  assumes "uq_layer_key tbl"
  shows "row_at tbl layer key = Some r \<longleftrightarrow> r \<in> set tbl \<and> mi_layer r = layer \<and> mi_key r = key"
proof
  assume "row_at tbl layer key = Some r"
  then show "r \<in> set tbl \<and> mi_layer r = layer \<and> mi_key r = key" by (rule row_at_Some)
next
  assume r: "r \<in> set tbl \<and> mi_layer r = layer \<and> mi_key r = key"
  then obtain s where s: "row_at tbl layer key = Some s"
    using row_at_None [of tbl layer key] by (cases "row_at tbl layer key") auto
  with r assms show "row_at tbl layer key = Some r"
    using uq_unique row_at_Some [OF s] by metis
qed

lemma row_at_view:
  assumes "uq_layer_key tbl"
  shows "row_at (view u tbl) layer key =
    (case row_at tbl layer key of None \<Rightarrow> None | Some r \<Rightarrow> if visible_to u r then Some r else None)"
proof (cases "row_at tbl layer key")
  case None
  then have "row_at (view u tbl) layer key = None"
    by (auto simp: row_at_None view_def)
  with None show ?thesis by simp
next
  case (Some r)
  then have r: "r \<in> set tbl" "mi_layer r = layer" "mi_key r = key"
    using row_at_Some by metis+
  show ?thesis
  proof (cases "visible_to u r")
    case True
    with r have "row_at (view u tbl) layer key = Some r"
      by (simp add: row_at_unique uq_view assms) (simp add: view_def)
    with Some True show ?thesis by simp
  next
    case False
    have "x = r" if "x \<in> set tbl" "mi_layer x = layer \<and> mi_key x = key" for x
      using that r by (intro uq_unique [OF assms]) auto
    with False have "row_at (view u tbl) layer key = None"
      unfolding row_at_None view_def by auto
    with Some False show ?thesis by simp
  qed
qed

text \<open>At a valid subject's own key the user sees whatever there is.\<close>

lemma own_key_visible:
  assumes "no_squatter tbl" and "physical_key u k = Inr pk" and "row_at tbl layer pk = Some r"
  shows "visible_to u r"
  using assms row_at_Some [OF assms(3)]
  by (auto simp: no_squatter_def visible_to_def physical_key_Inr)

lemma row_at_view_own:
  assumes "manifest_inv tbl" and "physical_key u k = Inr pk"
  shows "row_at (view u tbl) layer pk = row_at tbl layer pk"
  using assms own_key_visible [of tbl u k pk layer]
  by (auto simp: manifest_inv_def row_at_view split: option.splits)

lemma owner_key_neq [simp]: "owner_key u k \<noteq> k" "k \<noteq> owner_key u k"
proof -
  have "length (owner_key u k) \<noteq> length k" by (simp add: owner_key_def)
  then show "owner_key u k \<noteq> k" and "k \<noteq> owner_key u k" by auto
qed

section \<open>Writing rows back\<close>

lemma filter_map_if:
  "(\<And>x. x \<in> set xs \<Longrightarrow> p x \<Longrightarrow> q (f x) \<longleftrightarrow> q x) \<Longrightarrow> filter q (map_if p f xs) = map_if p f (filter q xs)"
  by (induction xs) auto

lemma filter_map_if_out:
  "(\<And>x. x \<in> set xs \<Longrightarrow> p x \<Longrightarrow> \<not> q (f x) \<and> \<not> q x) \<Longrightarrow> filter q (map_if p f xs) = filter q xs"
  by (induction xs) auto

text \<open>A change of a row that keeps its place, its owner and its tier.\<close>

definition same_place :: "memory_item \<Rightarrow> memory_item \<Rightarrow> bool" where
  "same_place r e \<longleftrightarrow> mi_layer r = mi_layer e \<and> mi_key r = mi_key e \<and>
     mi_created_by r = mi_created_by e \<and> mi_tier r = mi_tier e"

lemma same_place_simps [simp]:
  "same_place (tombstone now v e) e"
  "same_place (overwrite now title sz v e) e"
  by (simp_all add: same_place_def tombstone_def overwrite_def Let_def)

lemma visible_same_place: "same_place r e \<Longrightarrow> visible_to u r \<longleftrightarrow> visible_to u e"
  by (simp add: same_place_def visible_to_def)

lemma layer_keys_put_row [simp]: "layer_keys (put_row r tbl) = layer_keys tbl"
  unfolding layer_keys_def put_row_def
  by (induction tbl) auto

lemma uq_put_row [simp]: "uq_layer_key (put_row r tbl) \<longleftrightarrow> uq_layer_key tbl"
  by (simp add: uq_layer_key_def)

lemma put_row_only:
  assumes "uq_layer_key tbl" and "e \<in> set tbl" and "same_place r e"
    and "x \<in> set tbl" and "mi_layer x = mi_layer r \<and> mi_key x = mi_key r"
  shows "x = e"
  using assms by (auto simp: same_place_def intro: uq_unique)

lemma view_put_row:
  assumes "uq_layer_key tbl" and "e \<in> set tbl" and "same_place r e"
  shows "view u (put_row r tbl) = put_row r (view u tbl)"
  unfolding view_def put_row_def
proof (rule filter_map_if)
  fix x
  assume "x \<in> set tbl" and "mi_layer x = mi_layer r \<and> mi_key x = mi_key r"
  then have "x = e" by (rule put_row_only [OF assms])
  then show "visible_to u r \<longleftrightarrow> visible_to u x" using visible_same_place [OF assms(3)] by simp
qed

lemma foreign_put_row:
  assumes "uq_layer_key tbl" and "e \<in> set tbl" and "same_place r e" and "visible_to u e"
  shows "foreign u (put_row r tbl) = foreign u tbl"
  unfolding foreign_def put_row_def
proof (rule filter_map_if_out)
  fix x
  assume "x \<in> set tbl" and "mi_layer x = mi_layer r \<and> mi_key x = mi_key r"
  then have "x = e" by (rule put_row_only [OF assms(1-3)])
  then show "\<not> \<not> visible_to u r \<and> \<not> \<not> visible_to u x"
    using assms(4) visible_same_place [OF assms(3), of u] by simp
qed

lemma set_put_row:
  "set (put_row r tbl) \<subseteq> insert r (set tbl)"
  by (auto simp: put_row_def set_map_if)

lemma row_at_put_row_same:
  assumes "row_at tbl layer key = Some e" and "same_place r e"
  shows "row_at (put_row r tbl) layer key = Some r"
proof -
  have e: "mi_layer r = layer" "mi_key r = key"
    using row_at_Some [OF assms(1)] assms(2) by (simp_all add: same_place_def)
  from assms(1) show ?thesis
    unfolding row_at_def put_row_def
    by (induction tbl) (auto simp: e split: if_splits)
qed

lemma row_at_put_row_other:
  assumes "mi_layer r \<noteq> layer \<or> mi_key r \<noteq> key"
  shows "row_at (put_row r tbl) layer key = row_at tbl layer key"
  unfolding row_at_def put_row_def using assms
  by (induction tbl) auto

lemma row_at_append1:
  "row_at (tbl @ [r]) layer key =
     (case row_at tbl layer key of Some e \<Rightarrow> Some e
      | None \<Rightarrow> if mi_layer r = layer \<and> mi_key r = key then Some r else None)"
  unfolding row_at_def by (induction tbl) auto

section \<open>Commits\<close>

lemma commit_or_conflict_Inr:
  "commit_or_conflict layer key ws tbl = Inr t \<longleftrightarrow> t = tbl \<and> first_row_error ws = None \<and> uq_layer_key tbl"
  by (auto simp: commit_or_conflict_def split: option.splits)

lemma commit_plain_Inr:
  "commit_plain ws tbl = Inr t \<longleftrightarrow> t = tbl \<and> first_row_error ws = None \<and> uq_layer_key tbl"
  by (auto simp: commit_plain_def split: option.splits)

lemma no_squatter_subset: "no_squatter tbl \<Longrightarrow> set t \<subseteq> set tbl \<Longrightarrow> no_squatter t"
  unfolding no_squatter_def by blast

lemma manifest_inv_view: "manifest_inv tbl \<Longrightarrow> manifest_inv (view u tbl)"
  unfolding manifest_inv_def using uq_view no_squatter_subset [of tbl "view u tbl"]
  by (simp add: view_def)

lemma no_squatter_put_row:
  assumes "no_squatter tbl" and "e \<in> set tbl" and "same_place r e"
  shows "no_squatter (put_row r tbl)"
proof -
  have "no_squatter (r # tbl)"
    using assms by (auto simp: no_squatter_def same_place_def)
  then show ?thesis
    by (rule no_squatter_subset) (use set_put_row in auto)
qed

lemma no_squatter_append_own:
  assumes "no_squatter tbl" and "sub_ok (mi_created_by r)" and "mi_key r = owner_key (mi_created_by r) k"
  shows "no_squatter (tbl @ [r])"
  unfolding no_squatter_def
proof (intro ballI allI impI)
  fix x u l
  assume x: "x \<in> set (tbl @ [r])" "mi_tier x = ''private''" and u: "sub_ok u" "mi_key x = owner_key u l"
  show "mi_created_by x = u"
  proof (cases "x \<in> set tbl")
    case True
    with assms(1) x(2) u show ?thesis unfolding no_squatter_def by blast
  next
    case False
    with x(1) have "x = r" by simp
    then have "owner_key (mi_created_by r) k = owner_key u l" using u(2) assms(3) by simp
    then have "mi_created_by r = u" using mkey.enc_eq [OF assms(2) u(1)] by blast
    with \<open>x = r\<close> show ?thesis by simp
  qed
qed

lemma no_squatter_append_shared:
  "no_squatter tbl \<Longrightarrow> mi_tier r \<noteq> ''private'' \<Longrightarrow> no_squatter (tbl @ [r])"
  by (auto simp: no_squatter_def)

section \<open>Normal forms of the operations\<close>

text \<open>
  The decision of a private create, spelled out over the two lookups: the caller's own row is
  overwritten, the caller's live legacy row is copied forward and tombstoned, a corpus row at the
  bare key needs the shared-write authorization, everything else inserts at the owner key.
\<close>

definition own_private :: "string \<Rightarrow> memory_item \<Rightarrow> bool" where
  "own_private u r \<longleftrightarrow> mi_tier r = ''private'' \<and> mi_created_by r = u"

lemma own_private_visible: "own_private u r \<Longrightarrow> visible_to u r"
  by (simp add: own_private_def visible_to_def)

lemma facts_eq_Some:
  "facts x = Some f \<longleftrightarrow> (\<exists>r. x = Some r \<and>
     f = \<lparr>rf_key = mi_key r, rf_tier = mi_tier r, rf_created_by = mi_created_by r,
          rf_deleted_at_ms = mi_deleted_at_ms r\<rparr>)"
  by (cases x) auto

lemma row_at_found: "row_at tbl layer key = Some r \<Longrightarrow> row_at tbl layer (mi_key r) = Some r"
  using row_at_Some by metis

definition insert_new where
  "insert_new now uid tbl layer key pk title sz user_id tier =
     (let row = new_item uid layer pk title sz now now user_id tier
      in res_bind (commit_or_conflict layer key [row] (tbl @ [row])) (\<lambda>t. Inr (t, from_row row)))"

definition overwrite_row where
  "overwrite_row now tbl layer key title sz user_id e =
     (let row = overwrite now title sz user_id e
      in res_bind (commit_or_conflict layer key [row] (put_row row tbl)) (\<lambda>t. Inr (t, from_row row)))"

definition copy_forward where
  "copy_forward now uid tbl layer key pk title sz user_id e =
     (let old = tombstone now user_id e;
          row = new_item uid layer pk title sz (mi_created_at_ms e) now user_id ''private''
      in res_bind (commit_or_conflict layer key [row, old] (put_row old tbl @ [row]))
           (\<lambda>t. Inr (t, from_row row)))"

lemma record_create_private:
  "record_create now uid tbl layer key title sz u ''private'' shared =
     res_bind (validate_layer layer) (\<lambda>_.
     res_bind (physical_key u key) (\<lambda>pk.
       case row_at tbl layer pk of
         Some e \<Rightarrow>
           if own_private u e then overwrite_row now tbl layer key title sz u e
           else Inl (CrossOwnerWriteError (tier_conflict_message layer key))
       | None \<Rightarrow>
           (case row_at tbl layer key of
              None \<Rightarrow> insert_new now uid tbl layer key pk title sz u ''private''
            | Some e \<Rightarrow>
                if own_private u e \<and> mi_deleted_at_ms e = None
                then copy_forward now uid tbl layer key pk title sz u e
                else if mi_tier e = ''corpus'' \<and> \<not> shared then Inl (ManifestAuthorizationError layer key)
                else insert_new now uid tbl layer key pk title sz u ''private'')))"
proof (cases "physical_key u key")
  case (Inl e)
  then show ?thesis
    by (cases "validate_layer layer")
      (simp_all add: record_create_def resolve_write_in_def)
next
  case (Inr pk)
  then have pk: "pk = owner_key u key" by (simp add: physical_key_Inr)
  have neq: "owner_key u key \<noteq> key" by simp
  show ?thesis
  proof (cases "row_at tbl layer pk")
    case (Some e)
    note e = Some
    from row_at_found [OF this] show ?thesis
      using Inr pk neq e
      by (cases "validate_layer layer")
        (simp_all add: record_create_def resolve_write_in_def resolve_write_private_eq
          own_private_def overwrite_row_def Let_def)
  next
    case None
    note n = None
    show ?thesis
    proof (cases "row_at tbl layer key")
      case None
      then show ?thesis using Inr pk neq n
        by (cases "validate_layer layer")
          (simp_all add: record_create_def resolve_write_in_def resolve_write_private_eq
            insert_new_def Let_def)
    next
      case (Some e)
      from row_at_found [OF this] show ?thesis using Some Inr pk neq n
        by (cases "validate_layer layer")
          (simp_all add: record_create_def resolve_write_in_def resolve_write_private_eq
            insert_new_def copy_forward_def own_private_def tier_write_unauthorized_def Let_def)
    qed
  qed
qed

text \<open>A corpus create touches the bare key only.\<close>

lemma record_create_corpus:
  "record_create now uid tbl layer key title sz u ''corpus'' shared =
     res_bind (validate_layer layer) (\<lambda>_.
       case row_at tbl layer key of
         None \<Rightarrow> insert_new now uid tbl layer key key title sz u ''corpus''
       | Some e \<Rightarrow>
           if mi_tier e = ''private'' then Inl (CrossOwnerWriteError (tier_conflict_message layer key))
           else if \<not> shared then Inl (ManifestAuthorizationError layer key)
           else overwrite_row now tbl layer key title sz u e)"
proof (cases "row_at tbl layer key")
  case None
  then show ?thesis
    by (cases "validate_layer layer")
      (simp_all add: record_create_def resolve_write_in_def resolve_write_corpus_eq
        insert_new_def Let_def)
next
  case (Some e)
  from row_at_found [OF this] show ?thesis using Some
    by (cases "validate_layer layer")
      (simp_all add: record_create_def resolve_write_in_def resolve_write_corpus_eq
        overwrite_row_def tier_write_unauthorized_def Let_def)
qed

lemma record_create_other:
  "tier \<noteq> ''private'' \<Longrightarrow> tier \<noteq> ''corpus'' \<Longrightarrow>
     record_create now uid tbl layer key title sz u tier shared =
       res_bind (validate_layer layer) (\<lambda>_. Inl (ValueError tier))"
  by (cases "validate_layer layer")
    (simp_all add: record_create_def resolve_write_in_def resolve_write_def TIERS_def)

text \<open>The row a read of a logical key finds.\<close>

definition readable_bare :: "string \<Rightarrow> memory_item option \<Rightarrow> memory_item option" where
  "readable_bare u bare =
     (case bare of None \<Rightarrow> None
      | Some e \<Rightarrow> if own_private u e \<or> mi_tier e = ''corpus'' then Some e else None)"

lemma read_row_eq:
  "read_row tbl layer key u =
     (case physical_key u key of
        Inl _ \<Rightarrow> readable_bare u (row_at tbl layer key)
      | Inr pk \<Rightarrow>
          (case row_at tbl layer pk of
             Some e \<Rightarrow> if own_private u e then Some e else readable_bare u (row_at tbl layer key)
           | None \<Rightarrow> readable_bare u (row_at tbl layer key)))"
proof -
  have neq: "u @ ''/'' @ key \<noteq> key" using owner_key_neq [of u key] by (simp add: owner_key_def)
  have bare: "(case resolve_read_bare u (facts (row_at tbl layer key)) of None \<Rightarrow> None
      | Some res \<Rightarrow> (case rs_row res of None \<Rightarrow> None
          | Some r \<Rightarrow> if c (rf_key r) then row_at tbl layer (rf_key r) else None))
      = readable_bare u (row_at tbl layer key)" if "c key" for c
    using row_at_Some [of tbl layer key] that
    by (cases "row_at tbl layer key")
      (auto simp: resolve_read_bare_def readable_bare_def own_private_def)
  show ?thesis
  proof (cases "physical_key u key")
    case (Inl e)
    then show ?thesis using neq bare [of "\<lambda>k. k = key"]
      by (simp add: read_row_def resolve_read_def Let_def)
  next
    case (Inr pk)
    then have pk: "u @ ''/'' @ key = pk" by (simp add: physical_key_Inr owner_key_def)
    show ?thesis
    proof (cases "row_at tbl layer pk")
      case None
      then show ?thesis using Inr pk neq bare [of "\<lambda>k. k = key \<or> pk = k"]
        by (simp add: read_row_def resolve_read_def Let_def)
    next
      case (Some e)
      then show ?thesis using Inr pk neq bare [of "\<lambda>k. k = key \<or> pk = k"] row_at_found [OF Some] row_at_Some [OF Some]
        by (cases "own_private u e")
          (auto simp: read_row_def resolve_read_def own_private_def Let_def)
    qed
  qed
qed

end
