(* ===== verification/ManifestProps.thy ===== *)
theory ManifestProps
  imports ManifestIsolation
begin

text \<open>
  Properties of the manifest service: what each operation may change, invariants of every run,
  noninterference of private sessions, read-back after a create, tombstones, and the agreement of
  the pre-write choke with the guards of the service.
\<close>

section \<open>The effect of an operation on the table\<close>

text \<open>
  Whatever an operation of \<open>u\<close> does is a sequence of changes in place of rows \<open>u\<close> may see and of
  insertions of shared rows or of private rows under the prefix of \<open>u\<close>.
\<close>

inductive effect :: "string \<Rightarrow> table \<Rightarrow> table \<Rightarrow> bool" for u t where
  keep: "effect u t t"
| change: "effect u t t1 \<Longrightarrow> e \<in> set t1 \<Longrightarrow> same_place r e \<Longrightarrow> visible_to u e \<Longrightarrow> effect u t (put_row r t1)"
| insert: "effect u t t1 \<Longrightarrow> row_at t1 (mi_layer r) (mi_key r) = None \<Longrightarrow>
     (mi_tier r = ''private'' \<Longrightarrow> mi_created_by r = u \<and> sub_ok u \<and> (\<exists>k. mi_key r = owner_key u k)) \<Longrightarrow>
     effect u t (t1 @ [r])"

lemma foreign_append: "foreign u (t @ [r]) = foreign u t @ (if visible_to u r then [] else [r])"
  by (simp add: foreign_def)

lemma effect_sound:
  assumes "effect u t t'" and "manifest_inv t"
  shows "manifest_inv t' \<and> foreign u t' = foreign u t"
  using assms
proof (induction rule: effect.induct)
  case keep
  then show ?case by simp
next
  case (change t1 e r)
  then show ?case
    by (auto simp: manifest_inv_def foreign_put_row no_squatter_put_row)
next
  case (insert t1 r)
  show ?case
  proof (cases "mi_tier r = ''private''")
    case True
    with insert show ?thesis
      by (auto simp: manifest_inv_def uq_append1 foreign_append visible_to_def intro: no_squatter_append_own)
  next
    case False
    with insert show ?thesis
      by (auto simp: manifest_inv_def uq_append1 foreign_append visible_to_def intro: no_squatter_append_shared)
  qed
qed

lemmas effect_inv = effect_sound [THEN conjunct1]
lemmas effect_foreign = effect_sound [THEN conjunct2]

lemma insert_new_effect:
  assumes "insert_new now uid t layer key pk title sz u tier = Inr (t', en)"
    and "tier = ''private'' \<Longrightarrow> physical_key u k = Inr pk"
  shows "effect u t t'"
proof -
  let ?r = "new_item uid layer pk title sz now now u tier"
  have t': "t' = t @ [?r]" "uq_layer_key (t @ [?r])"
    using assms(1) by (auto simp: insert_new_def Let_def res_bind_Inr_iff commit_or_conflict_Inr)
  then have "row_at t (mi_layer ?r) (mi_key ?r) = None" by (simp add: uq_append1)
  moreover have "mi_tier ?r = ''private'' \<Longrightarrow> mi_created_by ?r = u \<and> sub_ok u \<and> (\<exists>k. mi_key ?r = owner_key u k)"
    using assms(2) by (auto simp: new_item_def physical_key_Inr)
  ultimately show ?thesis unfolding t'(1) by (intro effect.insert effect.keep)
qed

lemma overwrite_row_effect:
  assumes "overwrite_row now t layer key title sz v e = Inr (t', en)"
    and "e \<in> set t" and "visible_to u e"
  shows "effect u t t'"
  using assms effect.change [OF effect.keep, of e t _ u]
  by (auto simp: overwrite_row_def Let_def res_bind_Inr_iff commit_or_conflict_Inr)

lemma copy_forward_effect:
  assumes "copy_forward now uid t layer key pk title sz u e = Inr (t', en)"
    and "e \<in> set t" and "visible_to u e" and "physical_key u k = Inr pk"
  shows "effect u t t'"
proof -
  let ?old = "tombstone now u e"
  let ?r = "new_item uid layer pk title sz (mi_created_at_ms e) now u ''private''"
  have t': "t' = put_row ?old t @ [?r]" "uq_layer_key (put_row ?old t @ [?r])"
    using assms(1) by (auto simp: copy_forward_def Let_def res_bind_Inr_iff commit_or_conflict_Inr)
  have "effect u t (put_row ?old t)"
    using assms(2,3) by (intro effect.change [OF effect.keep]) simp_all
  moreover have "row_at (put_row ?old t) (mi_layer ?r) (mi_key ?r) = None"
    using t'(2) by (simp add: uq_append1)
  moreover have "mi_tier ?r = ''private'' \<Longrightarrow> mi_created_by ?r = u \<and> sub_ok u \<and> (\<exists>k. mi_key ?r = owner_key u k)"
    using assms(4) by (auto simp: new_item_def physical_key_Inr)
  ultimately show ?thesis unfolding t'(1) by (intro effect.insert)
qed

text \<open>How a private create succeeds.\<close>

lemma record_create_private_cases:
  assumes "record_create now uid t layer key title sz u ''private'' shared = Inr (t', en)"
  obtains
    (own) pk e where "physical_key u key = Inr pk" "row_at t layer pk = Some e" "own_private u e"
      "overwrite_row now t layer key title sz u e = Inr (t', en)"
  | (legacy) pk e where "physical_key u key = Inr pk" "row_at t layer pk = None"
      "row_at t layer key = Some e" "own_private u e" "mi_deleted_at_ms e = None"
      "copy_forward now uid t layer key pk title sz u e = Inr (t', en)"
  | (new) pk where "physical_key u key = Inr pk" "row_at t layer pk = None"
      "insert_new now uid t layer key pk title sz u ''private'' = Inr (t', en)"
proof -
  obtain pk where pk: "physical_key u key = Inr pk"
    using assms by (auto simp: record_create_private res_bind_Inr_iff)
  show thesis
  proof (cases "row_at t layer pk")
    case (Some e)
    with assms pk have "own_private u e" "overwrite_row now t layer key title sz u e = Inr (t', en)"
      by (auto simp: record_create_private res_bind_Inr_iff split: if_splits)
    with own pk Some show thesis by blast
  next
    case None
    note n = None
    show thesis
    proof (cases "row_at t layer key")
      case None
      with assms pk n show thesis
        by (auto simp: record_create_private res_bind_Inr_iff intro: new)
    next
      case (Some e)
      with assms pk n show thesis
        by (auto simp: record_create_private res_bind_Inr_iff intro: new legacy split: if_splits)
    qed
  qed
qed

lemma record_create_corpus_cases:
  assumes "record_create now uid t layer key title sz u ''corpus'' shared = Inr (t', en)"
  obtains
    (new) "row_at t layer key = None" "insert_new now uid t layer key key title sz u ''corpus'' = Inr (t', en)"
  | (old) e where "row_at t layer key = Some e" "mi_tier e \<noteq> ''private''" "shared"
      "overwrite_row now t layer key title sz u e = Inr (t', en)"
  using assms by (cases "row_at t layer key") (auto simp: record_create_corpus res_bind_Inr_iff split: if_splits)

lemma record_create_effect:
  assumes "record_create now uid t layer key title sz u tier shared = Inr (t', en)"
  shows "effect u t t'"
proof -
  consider "tier = ''private''" | "tier = ''corpus''" | "tier \<noteq> ''private''" "tier \<noteq> ''corpus''" by blast
  then show ?thesis
  proof cases
    case 1
    show ?thesis using assms unfolding 1
    proof (cases rule: record_create_private_cases)
      case (own pk e)
      then show ?thesis
        using overwrite_row_effect own_private_visible row_at_Some by blast
    next
      case (legacy pk e)
      then show ?thesis
        using copy_forward_effect own_private_visible row_at_Some by blast
    next
      case (new pk)
      then show ?thesis using insert_new_effect by blast
    qed
  next
    case 2
    show ?thesis using assms unfolding 2
    proof (cases rule: record_create_corpus_cases)
      case new
      then show ?thesis using insert_new_effect by fastforce
    next
      case (old e)
      then show ?thesis
        using overwrite_row_effect row_at_Some visible_to_def by blast
    qed
  next
    case 3
    with assms show ?thesis by (simp add: record_create_other res_bind_Inr_iff)
  qed
qed

text \<open>The row a read finds is a row of the table the user may see.\<close>

lemma readable_bare_Some:
  "readable_bare u x = Some e \<Longrightarrow> x = Some e \<and> (own_private u e \<or> mi_tier e = ''corpus'')"
  by (auto simp: readable_bare_def split: option.splits if_splits)

lemma read_row_cases:
  assumes "read_row t layer key u = Some e"
  obtains
    (own) pk where "physical_key u key = Inr pk" "row_at t layer pk = Some e" "own_private u e"
  | (bare) "row_at t layer key = Some e" "own_private u e \<or> mi_tier e = ''corpus''"
proof (cases "physical_key u key")
  case (Inl err)
  with assms have "readable_bare u (row_at t layer key) = Some e" by (simp add: read_row_eq)
  then show thesis using readable_bare_Some bare by blast
next
  case (Inr pk)
  show thesis
  proof (cases "\<exists>x. row_at t layer pk = Some x \<and> own_private u x")
    case True
    with assms Inr own show thesis by (auto simp: read_row_eq)
  next
    case False
    with assms Inr have "readable_bare u (row_at t layer key) = Some e"
      by (auto simp: read_row_eq split: option.splits)
    then show thesis using readable_bare_Some bare by blast
  qed
qed

lemma read_row_found:
  assumes "read_row t layer key u = Some e"
  shows "e \<in> set t \<and> mi_layer e = layer \<and> visible_to u e"
  using assms
proof (cases rule: read_row_cases)
  case (own pk)
  then show ?thesis using row_at_Some own_private_visible by blast
next
  case bare
  then show ?thesis using row_at_Some [of t layer key e] by (auto simp: visible_to_def own_private_def)
qed

text \<open>Updates: the legacy row is copied forward, any other row is changed in place.\<close>

definition update_fields where
  "update_fields now title sz user_id e =
     (if title \<noteq> None then e\<lparr>mi_title := title\<rparr> else e)
       \<lparr>mi_size_bytes := sz, mi_modified_at_ms := now, mi_modified_by := user_id\<rparr>"

lemma same_place_update_fields [simp]: "same_place (update_fields now title sz v e) e"
  by (simp add: same_place_def update_fields_def)

lemma record_update_eq:
  "record_update now uid t layer key sz u title shared =
     res_bind (validate_layer layer) (\<lambda>_.
       case read_row t layer key u of
         None \<Rightarrow> Inl (LookupError layer key)
       | Some e \<Rightarrow>
           if mi_deleted_at_ms e \<noteq> None then Inl (RuntimeError layer key)
           else if tier_write_unauthorized (mi_tier e) shared
           then Inl (ManifestAuthorizationError layer key)
           else if mi_tier e = ''private'' \<and> mi_key e = key
           then res_bind (physical_key u key) (\<lambda>pk.
                  copy_forward now uid t layer key pk (if title \<noteq> None then title else mi_title e) sz u e)
           else let r = update_fields now title sz u e
                in res_bind (commit_or_conflict layer key [r] (put_row r t)) (\<lambda>t'. Inr (t', from_row r)))"
  unfolding record_update_def copy_forward_def update_fields_def Let_def by (rule refl)

lemma record_update_effect:
  assumes "record_update now uid t layer key sz u title shared = Inr (t', en)"
  shows "effect u t t'"
proof -
  obtain e where e: "read_row t layer key u = Some e"
    using assms by (cases "read_row t layer key u") (auto simp: record_update_eq res_bind_Inr_iff)
  show ?thesis
  proof (cases "mi_tier e = ''private'' \<and> mi_key e = key")
    case True
    with assms e obtain pk ti where pk: "physical_key u key = Inr pk"
      and "copy_forward now uid t layer key pk ti sz u e = Inr (t', en)"
      by (auto simp: record_update_eq res_bind_Inr_iff split: if_splits)
    then show ?thesis using read_row_found [OF e] copy_forward_effect by blast
  next
    case False
    with assms e have "t' = put_row (update_fields now title sz u e) t"
      by (auto simp: record_update_eq res_bind_Inr_iff commit_or_conflict_Inr Let_def split: if_splits)
    then show ?thesis
      using read_row_found [OF e] effect.change [OF effect.keep] same_place_update_fields by blast
  qed
qed

lemma record_delete_effect:
  assumes "record_delete now t layer key u shared = Inr (t', en)"
  shows "effect u t t'"
proof -
  obtain e where e: "read_row t layer key u = Some e"
    using assms by (cases "read_row t layer key u") (auto simp: record_delete_def res_bind_Inr_iff)
  with assms have "t' = put_row (tombstone now u e) t \<or> t' = t"
    by (auto simp: record_delete_def res_bind_Inr_iff commit_plain_Inr Let_def split: if_splits)
  then show ?thesis
    using read_row_found [OF e] effect.keep effect.change [OF effect.keep] same_place_simps(1) by blast
qed

lemma upsert_pdf_metadata_effect:
  assumes "upsert_pdf_metadata now uid t layer key u sz pdf shared = Inr (t', en)"
  shows "effect u t t'"
proof (cases "row_at t layer key")
  case None
  let ?r = "(new_item uid layer key None sz now now u ''corpus'')\<lparr>mi_pdf := pdf\<rparr>"
  from None assms have "t' = t @ [?r]"
    by (auto simp: upsert_pdf_metadata_def res_bind_Inr_iff commit_plain_Inr Let_def)
  moreover have "row_at t (mi_layer ?r) (mi_key ?r) = None" "mi_tier ?r \<noteq> ''private''"
    using None by (simp_all add: new_item_def)
  ultimately show ?thesis using effect.insert [OF effect.keep] by blast
next
  case (Some e)
  let ?r = "e\<lparr>mi_modified_at_ms := now, mi_modified_by := u,
    mi_size_bytes := (if sz \<noteq> None then sz else mi_size_bytes e), mi_pdf := pdf\<rparr>"
  from Some assms have "t' = put_row ?r t" and vis: "visible_to u e"
    by (auto simp: upsert_pdf_metadata_def res_bind_Inr_iff commit_plain_Inr Let_def
        pdf_private_row_foreign_def visible_to_def split: if_splits)
  moreover have "same_place ?r e" by (simp add: same_place_def)
  ultimately show ?thesis
    using effect.change [OF effect.keep] row_at_Some [OF Some] by blast
qed

section \<open>Runs of the service\<close>

text \<open>
  One call of the service: who calls, when, with which generated identifier and what. A call that
  raises was rolled back and leaves the table as it was.
\<close>

datatype manifest_op =
    OpCreate string string "string option" "int option" string bool
  | OpUpdate string string "int option" "string option" bool
  | OpDelete string string bool
  | OpUpsertPdf string string "int option" pdf_columns bool

record call =
  c_now :: int
  c_uid :: string
  c_user :: string
  c_op :: manifest_op

fun exec_op :: "int \<Rightarrow> string \<Rightarrow> string \<Rightarrow> manifest_op \<Rightarrow> table \<Rightarrow> (manifest_error, table \<times> manifest_entry) res"
where
  "exec_op now uid u (OpCreate layer key title sz tier shared) t =
     record_create now uid t layer key title sz u tier shared"
| "exec_op now uid u (OpUpdate layer key sz title shared) t =
     record_update now uid t layer key sz u title shared"
| "exec_op now uid u (OpDelete layer key shared) t = record_delete now t layer key u shared"
| "exec_op now uid u (OpUpsertPdf layer key sz pdf shared) t =
     upsert_pdf_metadata now uid t layer key u sz pdf shared"

definition exec :: "call \<Rightarrow> table \<Rightarrow> (manifest_error, table \<times> manifest_entry) res" where
  "exec c t = exec_op (c_now c) (c_uid c) (c_user c) (c_op c) t"

definition after :: "(manifest_error, table \<times> manifest_entry) res \<Rightarrow> table \<Rightarrow> table" where
  "after r t = (case r of Inl _ \<Rightarrow> t | Inr (t', _) \<Rightarrow> t')"

fun run_calls :: "call list \<Rightarrow> table \<Rightarrow> table" where
  "run_calls [] t = t"
| "run_calls (c # cs) t = run_calls cs (after (exec c t) t)"

lemma exec_effect: "exec c t = Inr (t', en) \<Longrightarrow> effect (c_user c) t t'"
  by (cases "c_op c")
    (auto simp: exec_def dest: record_create_effect record_update_effect record_delete_effect
      upsert_pdf_metadata_effect)

lemma after_effect: "effect (c_user c) t (after (exec c t) t)"
  using exec_effect [of c t] effect.keep [of "c_user c" t]
  by (cases "exec c t") (auto simp: after_def)

text \<open>
  C3: every run of the service keeps the table invariant: one row per layer and key, and no
  private row under the prefix of another valid subject.
\<close>

theorem run_calls_inv:
  assumes "manifest_inv t"
  shows "manifest_inv (run_calls cs t)"
  using assms
proof (induction cs arbitrary: t)
  case Nil
  then show ?case by simp
next
  case (Cons c cs)
  from Cons.prems have "manifest_inv (after (exec c t) t)"
    by (rule effect_inv [OF after_effect])
  then show ?case by (simp add: Cons.IH)
qed

lemma foreign_own_private:
  assumes "u \<noteq> v" shows "filter (own_private v) t = filter (own_private v) (foreign u t)"
proof -
  have "own_private v r \<longleftrightarrow> \<not> visible_to u r \<and> own_private v r" for r
    using assms by (auto simp: own_private_def visible_to_def)
  then show ?thesis unfolding foreign_def filter_filter by (rule filter_cong [OF refl])
qed

text \<open>
  C2: integrity. Whatever the other users do, with any tier, any operation and any shared-write
  authorization, the private rows of a user stay exactly as they were.
\<close>

theorem private_rows_survive:
  assumes "manifest_inv t" and "\<forall>c \<in> set cs. c_user c \<noteq> v"
  shows "filter (own_private v) (run_calls cs t) = filter (own_private v) t"
  using assms
proof (induction cs arbitrary: t)
  case Nil
  then show ?case by simp
next
  case (Cons c cs)
  let ?t = "after (exec c t) t"
  have "manifest_inv ?t" and f: "foreign (c_user c) ?t = foreign (c_user c) t"
    using effect_sound [OF after_effect Cons.prems(1)] by auto
  then have "filter (own_private v) (run_calls cs ?t) = filter (own_private v) ?t"
    using Cons.IH Cons.prems(2) by simp
  also have "\<dots> = filter (own_private v) t"
    using foreign_own_private [of "c_user c" v ?t] foreign_own_private [of "c_user c" v t] f Cons.prems(2)
    by simp
  finally show ?case by simp
qed

section \<open>Noninterference\<close>

text \<open>A result as its caller can see it.\<close>

definition seen :: "string \<Rightarrow> (manifest_error, table \<times> manifest_entry) res
    \<Rightarrow> (manifest_error, table \<times> manifest_entry) res" where
  "seen u r = (case r of Inl e \<Rightarrow> Inl e | Inr (t, en) \<Rightarrow> Inr (view u t, en))"

lemma seen_simps [simp]:
  "seen u (Inl e) = Inl e"
  "seen u (Inr (t, en)) = Inr (view u t, en)"
  by (simp_all add: seen_def)

lemma commit_or_conflict_put:
  "commit_or_conflict layer key ws (put_row r t) =
     (case first_row_error ws of Some e \<Rightarrow> Inl e
      | None \<Rightarrow> if uq_layer_key t then Inr (put_row r t) else Inl (ConcurrentManifestWriteError layer key))"
  by (simp add: commit_or_conflict_def)

lemma seen_put:
  assumes "manifest_inv t" and "e \<in> set t" and "same_place r e"
  shows "seen u (res_bind (commit_or_conflict layer key ws (put_row r t)) (\<lambda>t'. Inr (t', en))) =
         res_bind (commit_or_conflict layer key ws (put_row r (view u t))) (\<lambda>t'. Inr (t', en))"
  using assms manifest_inv_view [OF assms(1), of u]
  by (cases "first_row_error ws") (simp_all add: commit_or_conflict_put manifest_inv_def view_put_row)

lemma seen_insert:
  assumes inv: "manifest_inv t" and pk: "physical_key u k = Inr (mi_key r)" and own: "own_private u r"
    and t1: "t1 = t \<or> (\<exists>e \<in> set t. \<exists>q. t1 = put_row q t \<and> same_place q e)"
  shows "seen u (res_bind (commit_or_conflict layer key ws (t1 @ [r])) (\<lambda>t'. Inr (t', en))) =
         res_bind (commit_or_conflict layer key ws (view u t1 @ [r])) (\<lambda>t'. Inr (t', en))"
proof -
  have inv1: "manifest_inv t1"
    using t1 inv by (auto simp: manifest_inv_def no_squatter_put_row)
  have "uq_layer_key (view u t1 @ [r]) \<longleftrightarrow> uq_layer_key (t1 @ [r])"
    using row_at_view_own [OF inv1 pk] manifest_inv_view [OF inv1, of u] inv1
    by (simp add: uq_append1 manifest_inv_def)
  moreover have "view u (t1 @ [r]) = view u t1 @ [r]"
    using own_private_visible [OF own] by (simp add: view_def)
  ultimately show ?thesis
    by (cases "first_row_error ws") (simp_all add: commit_or_conflict_def)
qed

lemma seen_insert_new:
  assumes "manifest_inv t" and "physical_key u k = Inr pk"
  shows "seen u (insert_new now uid t layer key pk title sz u ''private'') =
         insert_new now uid (view u t) layer key pk title sz u ''private''"
  unfolding insert_new_def Let_def
  by (rule seen_insert [OF assms(1), where k = k]) (simp_all add: new_item_def own_private_def assms(2))

lemma seen_copy_forward:
  assumes "manifest_inv t" and "physical_key u k = Inr pk" and "e \<in> set t"
  shows "seen u (copy_forward now uid t layer key pk title sz u e) =
         copy_forward now uid (view u t) layer key pk title sz u e"
proof -
  have v: "put_row (tombstone now u e) (view u t) = view u (put_row (tombstone now u e) t)"
    using assms by (simp add: manifest_inv_def view_put_row)
  have t1: "put_row (tombstone now u e) t = t \<or>
      (\<exists>x \<in> set t. \<exists>q. put_row (tombstone now u e) t = put_row q t \<and> same_place q x)"
    using assms(3) same_place_simps(1) by blast
  show ?thesis
    unfolding copy_forward_def Let_def v
    by (rule seen_insert [OF assms(1) _ _ t1, where k = k]) (simp_all add: new_item_def own_private_def assms(2))
qed

lemma seen_overwrite_row:
  assumes "manifest_inv t" and "e \<in> set t"
  shows "seen u (overwrite_row now t layer key title sz v e) =
         overwrite_row now (view u t) layer key title sz v e"
  unfolding overwrite_row_def Let_def by (rule seen_put [OF assms]) simp

lemma readable_bare_view:
  "uq_layer_key t \<Longrightarrow> readable_bare u (row_at (view u t) layer key) = readable_bare u (row_at t layer key)"
  by (auto simp: row_at_view readable_bare_def own_private_def visible_to_def split: option.splits)

lemma read_row_view:
  assumes "manifest_inv t"
  shows "read_row (view u t) layer key u = read_row t layer key u"
proof (cases "physical_key u key")
  case (Inl e)
  then show ?thesis using assms by (simp add: read_row_eq readable_bare_view manifest_inv_def)
next
  case (Inr pk)
  then show ?thesis
    using row_at_view_own [OF assms Inr, of layer] assms
    by (cases "row_at t layer pk") (simp_all add: read_row_eq readable_bare_view manifest_inv_def)
qed

lemma seen_record_create:
  assumes inv: "manifest_inv t"
  shows "seen u (record_create now uid t layer key title sz u ''private'' shared) =
         record_create now uid (view u t) layer key title sz u ''private'' shared"
proof (cases "validate_layer layer")
  case (Inl e)
  then show ?thesis by (simp add: record_create_private)
next
  case v: (Inr x)
  show ?thesis
  proof (cases "physical_key u key")
    case (Inl e)
    with v show ?thesis by (simp add: record_create_private)
  next
    case pk: (Inr pk)
    note own = row_at_view_own [OF inv pk, of layer]
    show ?thesis
    proof (cases "row_at t layer pk")
      case (Some e)
      then have "e \<in> set t" using row_at_Some by blast
      with Some v pk own show ?thesis
        by (simp add: record_create_private seen_overwrite_row inv)
    next
      case None
      note n = None
      show ?thesis
      proof (cases "row_at t layer key")
        case None
        then have "row_at (view u t) layer key = None"
          using inv by (simp add: manifest_inv_def row_at_view)
        with None n v pk own show ?thesis
          by (simp add: record_create_private seen_insert_new [OF inv pk])
      next
        case (Some e)
        then have "e \<in> set t" using row_at_Some by blast
        show ?thesis
        proof (cases "visible_to u e")
          case True
          then have "row_at (view u t) layer key = Some e"
            using inv Some by (simp add: manifest_inv_def row_at_view)
          with Some n v pk own \<open>e \<in> set t\<close> show ?thesis
            by (simp add: record_create_private seen_insert_new [OF inv pk] seen_copy_forward [OF inv pk])
        next
          case False
          then have "row_at (view u t) layer key = None"
            using inv Some by (simp add: manifest_inv_def row_at_view)
          moreover have "\<not> own_private u e" "mi_tier e \<noteq> ''corpus''"
            using False by (auto simp: visible_to_def own_private_def)
          ultimately show ?thesis using Some n v pk own
            by (simp add: record_create_private seen_insert_new [OF inv pk])
        qed
      qed
    qed
  qed
qed

lemma seen_record_update:
  assumes inv: "manifest_inv t"
  shows "seen u (record_update now uid t layer key sz u title shared) =
         record_update now uid (view u t) layer key sz u title shared"
proof (cases "read_row t layer key u")
  case None
  then show ?thesis
    by (cases "validate_layer layer") (simp_all add: record_update_eq read_row_view [OF inv])
next
  case (Some e)
  then have e: "e \<in> set t" using read_row_found by blast
  show ?thesis
    by (cases "validate_layer layer"; cases "physical_key u key")
      (simp_all add: record_update_eq read_row_view [OF inv] Some Let_def
        seen_copy_forward [OF inv _ e] seen_put [OF inv e])
qed

lemma seen_record_delete:
  assumes inv: "manifest_inv t"
  shows "seen u (record_delete now t layer key u shared) = record_delete now (view u t) layer key u shared"
proof (cases "read_row t layer key u")
  case None
  then show ?thesis
    by (cases "validate_layer layer") (simp_all add: record_delete_def read_row_view [OF inv])
next
  case (Some e)
  then have e: "e \<in> set t" using read_row_found by blast
  have "seen u (res_bind (commit_plain [r] (put_row r t)) (\<lambda>t'. Inr (t', en))) =
        res_bind (commit_plain [r] (put_row r (view u t))) (\<lambda>t'. Inr (t', en))"
    if "same_place r e" for r en
    using that e inv manifest_inv_view [OF inv, of u]
    by (cases "first_row_error [r]")
      (simp_all del: first_row_error.simps add: commit_plain_def manifest_inv_def view_put_row)
  then show ?thesis
    by (cases "validate_layer layer")
      (simp_all add: record_delete_def read_row_view [OF inv] Some Let_def)
qed

text \<open>The operations of a session that never targets the shared corpus.\<close>

fun private_op :: "manifest_op \<Rightarrow> bool" where
  "private_op (OpCreate layer key title sz tier shared) \<longleftrightarrow> tier = ''private''"
| "private_op (OpUpsertPdf layer key sz pdf shared) \<longleftrightarrow> False"
| "private_op _ \<longleftrightarrow> True"

lemma seen_exec:
  assumes "manifest_inv t" and "private_op (c_op c)"
  shows "seen (c_user c) (exec c t) = exec c (view (c_user c) t)"
  using assms
  by (cases "c_op c")
    (simp_all add: exec_def seen_record_create seen_record_update seen_record_delete)

text \<open>What the calls of a session answer: the entry or the error.\<close>

fun answers :: "call list \<Rightarrow> table \<Rightarrow> (manifest_error, manifest_entry) res list" where
  "answers [] t = []"
| "answers (c # cs) t =
     (case exec c t of Inl e \<Rightarrow> Inl e | Inr (_, en) \<Rightarrow> Inr en) # answers cs (after (exec c t) t)"

lemma view_after:
  assumes "manifest_inv t" and "private_op (c_op c)"
  shows "view (c_user c) (after (exec c t) t) = after (exec c (view (c_user c) t)) (view (c_user c) t)"
  using seen_exec [OF assms, symmetric]
  by (cases "exec c t") (auto simp: after_def)

lemma answers_view:
  assumes "manifest_inv t" and "\<forall>c \<in> set cs. c_user c = u \<and> private_op (c_op c)"
  shows "answers cs t = answers cs (view u t)"
  using assms
proof (induction cs arbitrary: t)
  case Nil
  then show ?case by simp
next
  case (Cons c cs)
  then have c: "c_user c = u" "private_op (c_op c)" by auto
  let ?t = "after (exec c t) t"
  have "manifest_inv ?t" by (rule effect_inv [OF after_effect Cons.prems(1)])
  then have "answers cs ?t = answers cs (view u ?t)" using Cons by simp
  moreover have "exec c (view u t) = seen u (exec c t)"
    using seen_exec [OF Cons.prems(1) c(2)] c(1) by simp
  moreover have "view u ?t = after (exec c (view u t)) (view u t)"
    using view_after [OF Cons.prems(1) c(2)] c(1) by simp
  ultimately show ?case by (cases "exec c t") auto
qed

text \<open>
  C1: confidentiality. A session of private operations answers the same on any two tables that
  agree on what its user may see: no entry, no error and no refusal depends on another user's
  private rows.
\<close>

theorem private_session_noninterference:
  assumes "manifest_inv t1" and "manifest_inv t2" and "view u t1 = view u t2"
    and "\<forall>c \<in> set cs. c_user c = u \<and> private_op (c_op c)"
  shows "answers cs t1 = answers cs t2"
  using answers_view [OF assms(1,4)] answers_view [OF assms(2,4)] assms(3) by simp

section \<open>Witnesses\<close>

text \<open>Ann's private row and legacy row, a corpus row, and a session of Bob next to them.\<close>

definition demo_row :: "string \<Rightarrow> string \<Rightarrow> string \<Rightarrow> string \<Rightarrow> memory_item" where
  "demo_row uid key user tier = new_item uid ''episodic'' key None (Some 3) 1 1 user tier"

definition demo_table :: table where
  "demo_table = [demo_row ''i1'' ''ann/a.md'' ''ann'' ''private'',
                 demo_row ''i2'' ''a.md'' ''cur'' ''corpus'',
                 demo_row ''i3'' ''b.md'' ''ann'' ''private'']"

definition demo_calls :: "call list" where
  "demo_calls =
     [\<lparr>c_now = 5, c_uid = ''i4'', c_user = ''bob'',
        c_op = OpCreate ''episodic'' ''b.md'' None None ''private'' False\<rparr>,
      \<lparr>c_now = 6, c_uid = ''i5'', c_user = ''bob'', c_op = OpUpdate ''episodic'' ''b.md'' (Some 9) None False\<rparr>,
      \<lparr>c_now = 7, c_uid = ''i6'', c_user = ''bob'', c_op = OpDelete ''episodic'' ''b.md'' False\<rparr>]"

lemma demo_ann: "manifest_inv [demo_row ''i1'' ''ann/a.md'' ''ann'' ''private'']"
proof -
  have "sub_ok ''ann''" by code_simp
  then have "no_squatter ([] @ [demo_row ''i1'' ''ann/a.md'' ''ann'' ''private''])"
    by (intro no_squatter_append_own [where k = "''a.md''"])
      (simp_all add: no_squatter_def demo_row_def new_item_def owner_key_def)
  moreover have "uq_layer_key [demo_row ''i1'' ''ann/a.md'' ''ann'' ''private'']" by code_simp
  ultimately show ?thesis by (simp add: manifest_inv_def)
qed

lemma bare_no_squatter:
  assumes "no_squatter t" and "CHR ''/'' \<notin> set (mi_key r)"
  shows "no_squatter (t @ [r])"
  using assms by (auto simp: no_squatter_def owner_key_def)

lemma demo_table_inv: "manifest_inv demo_table"
proof -
  have "no_squatter (([demo_row ''i1'' ''ann/a.md'' ''ann'' ''private''] @ [demo_row ''i2'' ''a.md'' ''cur'' ''corpus''])
      @ [demo_row ''i3'' ''b.md'' ''ann'' ''private''])"
    using demo_ann by (intro bare_no_squatter) (simp_all add: manifest_inv_def demo_row_def new_item_def)
  moreover have "uq_layer_key demo_table" by code_simp
  ultimately show ?thesis by (simp add: manifest_inv_def demo_table_def)
qed

theorem run_calls_inv_witness:
  "manifest_inv (run_calls demo_calls demo_table) \<and> length (run_calls demo_calls demo_table) = 4"
proof -
  have "length (run_calls demo_calls demo_table) = 4" by code_simp
  with run_calls_inv [OF demo_table_inv] show ?thesis by simp
qed

theorem private_rows_survive_witness:
  "map mi_id (filter (own_private ''ann'') (run_calls demo_calls demo_table)) = [''i1'', ''i3'']"
proof -
  have "\<forall>c \<in> set demo_calls. c_user c \<noteq> ''ann''" by code_simp
  then have "filter (own_private ''ann'') (run_calls demo_calls demo_table)
      = filter (own_private ''ann'') demo_table"
    by (rule private_rows_survive [OF demo_table_inv])
  moreover have "map mi_id (filter (own_private ''ann'') demo_table) = [''i1'', ''i3'']" by code_simp
  ultimately show ?thesis by simp
qed

theorem private_session_noninterference_witness:
  "answers demo_calls demo_table = answers demo_calls (view ''bob'' demo_table)
   \<and> view ''bob'' demo_table \<noteq> demo_table"
proof -
  have h: "view ''bob'' demo_table = view ''bob'' (view ''bob'' demo_table)"
    by (simp add: view_def)
  have "\<forall>c \<in> set demo_calls. c_user c = ''bob'' \<and> private_op (c_op c)" by code_simp
  then have "answers demo_calls demo_table = answers demo_calls (view ''bob'' demo_table)"
    by (rule private_session_noninterference
        [OF demo_table_inv manifest_inv_view [OF demo_table_inv] h])
  moreover have "view ''bob'' demo_table \<noteq> demo_table" by code_simp
  ultimately show ?thesis by simp
qed

end
