(* ===== verification/ManifestMock.thy ===== *)
theory ManifestMock
  imports ManifestProps
begin

text \<open>
  The in-memory twin of the manifest service (\<open>memory_manifest.MockMemoryManifestService\<close>), the
  variant every route test runs on, and the simulation that makes those tests meaningful: each
  answer and each refusal of the Postgres service is the twin's.

  The twin keeps a dict from layer and key to a row dict, in insertion order. A row dict without
  a \<open>tier\<close> reads as a corpus row and one without document columns reads them as \<open>None\<close>, so a row
  is the record of what its readers see.
\<close>

section \<open>The twin\<close>

text \<open>Assignment to a dict: the value at a key the dict holds is replaced where it stands.\<close>

definition mock_put :: "memory_item \<Rightarrow> table \<Rightarrow> table" where
  "mock_put r m = (if row_at m (mi_layer r) (mi_key r) = None then m @ [r] else put_row r m)"

definition mock_item ::
  "string \<Rightarrow> string \<Rightarrow> string \<Rightarrow> string option \<Rightarrow> int option \<Rightarrow> int \<Rightarrow> int \<Rightarrow> string \<Rightarrow> string \<Rightarrow> memory_item"
where
  "mock_item uid layer key title sz created now user_id tier =
     (new_item uid layer key title sz created now user_id tier)\<lparr>mi_pdf := no_pdf\<rparr>"

definition mock_facts :: "table \<Rightarrow> string \<Rightarrow> string \<Rightarrow> row_facts option" where
  "mock_facts m layer key = facts (row_at m layer key)"

definition mock_resolve_write ::
  "table \<Rightarrow> string \<Rightarrow> string \<Rightarrow> string \<Rightarrow> string \<Rightarrow> (manifest_error, resolution) res" where
  "mock_resolve_write m layer logical owner tier =
     res_bind (if tier = ''private'' then physical_key owner logical else Inr logical) (\<lambda>target_key.
       resolve_write layer logical owner tier
         (if target_key \<noteq> logical then mock_facts m layer target_key else None)
         (mock_facts m layer logical))"

definition mock_read_row :: "table \<Rightarrow> string \<Rightarrow> string \<Rightarrow> string \<Rightarrow> memory_item option" where
  "mock_read_row m layer logical owner =
     (case resolve_read owner (mock_facts m layer (owner @ ''/'' @ logical)) (mock_facts m layer logical) of
        None \<Rightarrow> None
      | Some res \<Rightarrow> (case rs_row res of None \<Rightarrow> None | Some r \<Rightarrow> row_at m layer (rf_key r)))"

definition mock_record_create ::
  "int \<Rightarrow> string \<Rightarrow> table \<Rightarrow> string \<Rightarrow> string \<Rightarrow> string option \<Rightarrow> int option \<Rightarrow> string \<Rightarrow> string \<Rightarrow> bool
    \<Rightarrow> (manifest_error, table \<times> manifest_entry) res" where
  "mock_record_create now uid m layer key title sz user_id tier shared =
     res_bind (validate_layer layer) (\<lambda>_.
     res_bind (mock_resolve_write m layer key user_id tier) (\<lambda>res.
       let existing = (case rs_row res of None \<Rightarrow> None | Some f \<Rightarrow> row_at m layer (rf_key f)) in
       if rs_kind res = KCorpus \<and> tier_write_unauthorized ''corpus'' shared
       then Inl (ManifestAuthorizationError layer key)
       else if existing \<noteq> None \<and> (rs_kind res = KOwn \<or> tier = ''corpus'')
       then let row = overwrite now title sz user_id (the existing)
            in Inr (put_row row m, from_row row)
       else let created = (if rs_kind res = KLegacyOwn \<and> existing \<noteq> None
                           then mi_created_at_ms (the existing) else now);
                m' = (if rs_kind res = KLegacyOwn \<and> existing \<noteq> None
                      then put_row (tombstone now user_id (the existing)) m else m);
                row = mock_item uid layer (rs_storage_key res) title sz created now user_id tier
            in Inr (mock_put row m', from_row row)))"

definition mock_record_update ::
  "int \<Rightarrow> string \<Rightarrow> table \<Rightarrow> string \<Rightarrow> string \<Rightarrow> int option \<Rightarrow> string \<Rightarrow> string option \<Rightarrow> bool
    \<Rightarrow> (manifest_error, table \<times> manifest_entry) res" where
  "mock_record_update now uid m layer key sz user_id title shared =
     res_bind (validate_layer layer) (\<lambda>_.
       case mock_read_row m layer key user_id of
         None \<Rightarrow> Inl (LookupError layer key)
       | Some row \<Rightarrow>
           if mi_deleted_at_ms row \<noteq> None then Inl (RuntimeError layer key)
           else if tier_write_unauthorized (mi_tier row) shared
           then Inl (ManifestAuthorizationError layer key)
           else if mi_tier row = ''private'' \<and> mi_key row = key
           then res_bind (physical_key user_id key) (\<lambda>k.
                  let new = mock_item uid layer k (if title \<noteq> None then title else mi_title row) sz
                              (mi_created_at_ms row) now user_id ''private''
                  in Inr (mock_put new (put_row (tombstone now user_id row) m), from_row new))
           else let row' = (if title \<noteq> None then row\<lparr>mi_title := title\<rparr> else row)
                             \<lparr>mi_size_bytes := sz, mi_modified_at_ms := now, mi_modified_by := user_id\<rparr>
                in Inr (put_row row' m, from_row row'))"

definition mock_record_delete ::
  "int \<Rightarrow> table \<Rightarrow> string \<Rightarrow> string \<Rightarrow> string \<Rightarrow> bool \<Rightarrow> (manifest_error, table \<times> manifest_entry) res" where
  "mock_record_delete now m layer key user_id shared =
     res_bind (validate_layer layer) (\<lambda>_.
       case mock_read_row m layer key user_id of
         None \<Rightarrow> Inl (LookupError layer key)
       | Some row \<Rightarrow>
           if tier_write_unauthorized (mi_tier row) shared
           then Inl (ManifestAuthorizationError layer key)
           else let row' = (if mi_deleted_at_ms row = None then tombstone now user_id row else row)
                in Inr (put_row row' m, from_row row'))"

definition mock_upsert_pdf_metadata ::
  "int \<Rightarrow> string \<Rightarrow> table \<Rightarrow> string \<Rightarrow> string \<Rightarrow> string \<Rightarrow> int option \<Rightarrow> pdf_columns \<Rightarrow> bool
    \<Rightarrow> (manifest_error, table \<times> manifest_entry) res" where
  "mock_upsert_pdf_metadata now uid m layer key user_id sz pdf shared =
     res_bind (validate_layer layer) (\<lambda>_.
       case row_at m layer key of
         None \<Rightarrow>
           let row = (mock_item uid layer key None sz now now user_id ''corpus'')\<lparr>mi_pdf := pdf\<rparr>
           in Inr (mock_put row m, from_row row)
       | Some row \<Rightarrow>
           if pdf_private_row_foreign (mi_tier row) (mi_created_by row) user_id
           then Inl (CrossOwnerWriteError (tier_conflict_message layer key))
           else if pdf_metadata_write_unauthorized (mi_tier row) (mi_created_by row) user_id shared
           then Inl (ManifestAuthorizationError layer key)
           else let row' = row\<lparr>mi_modified_at_ms := now, mi_modified_by := user_id,
                               mi_size_bytes := (if sz \<noteq> None then sz else mi_size_bytes row),
                               mi_pdf := pdf\<rparr>
                in Inr (put_row row' m, from_row row'))"

definition mock_list_for_layer ::
  "table \<Rightarrow> string \<Rightarrow> bool \<Rightarrow> user_context option \<Rightarrow> (manifest_error, manifest_entry list) res" where
  "mock_list_for_layer m layer include_deleted caller =
     res_bind (validate_layer layer) (\<lambda>_.
       let rows = filter (\<lambda>r. mi_layer r = layer) m;
           rows1 = (if include_deleted then rows else filter (\<lambda>r. mi_deleted_at_ms r = None) rows);
           rows2 = (case caller of
                      Some u \<Rightarrow> if uc_is_admin u then rows1
                                else filter (\<lambda>r. mi_created_by r = uc_user_id u \<or> mi_tier r = ''corpus'') rows1
                    | None \<Rightarrow> rows1)
       in Inr (map from_row (sort_key (\<lambda>r. - mi_modified_at_ms r) rows2)))"

fun mock_exec_op ::
  "int \<Rightarrow> string \<Rightarrow> string \<Rightarrow> manifest_op \<Rightarrow> table \<Rightarrow> (manifest_error, table \<times> manifest_entry) res"
where
  "mock_exec_op now uid u (OpCreate layer key title sz tier shared) m =
     mock_record_create now uid m layer key title sz u tier shared"
| "mock_exec_op now uid u (OpUpdate layer key sz title shared) m =
     mock_record_update now uid m layer key sz u title shared"
| "mock_exec_op now uid u (OpDelete layer key shared) m = mock_record_delete now m layer key u shared"
| "mock_exec_op now uid u (OpUpsertPdf layer key sz pdf shared) m =
     mock_upsert_pdf_metadata now uid m layer key u sz pdf shared"

definition mock_exec :: "call \<Rightarrow> table \<Rightarrow> (manifest_error, table \<times> manifest_entry) res" where
  "mock_exec c m = mock_exec_op (c_now c) (c_uid c) (c_user c) (c_op c) m"

section \<open>The simulation\<close>

text \<open>
  Rows correspond when they agree outside the document columns and there either agree or are the
  column defaults on one side and absent on the other.
\<close>

definition pdf_sim :: "pdf_columns \<Rightarrow> pdf_columns \<Rightarrow> bool" where
  "pdf_sim p q \<longleftrightarrow> p = q \<or> p = default_pdf \<and> q = no_pdf"

definition row_sim :: "memory_item \<Rightarrow> memory_item \<Rightarrow> bool" where
  "row_sim r s \<longleftrightarrow> s = r\<lparr>mi_pdf := mi_pdf s\<rparr> \<and> pdf_sim (mi_pdf r) (mi_pdf s)"

definition entry_sim :: "manifest_entry \<Rightarrow> manifest_entry \<Rightarrow> bool" where
  "entry_sim e d \<longleftrightarrow> d = e\<lparr>me_pdf := me_pdf d\<rparr> \<and> pdf_sim (me_pdf e) (me_pdf d)"

abbreviation tbl_sim :: "table \<Rightarrow> table \<Rightarrow> bool" where
  "tbl_sim \<equiv> list_all2 row_sim"

text \<open>Errors only a database raises.\<close>

fun database_error :: "manifest_error \<Rightarrow> bool" where
  "database_error (ConcurrentManifestWriteError _ _) = True"
| "database_error (IntegrityError _) = True"
| "database_error (DataError _) = True"
| "database_error _ = False"

definition res_sim ::
  "(manifest_error, table \<times> manifest_entry) res \<Rightarrow> (manifest_error, table \<times> manifest_entry) res \<Rightarrow> bool" where
  "res_sim p m = (case p of
      Inl e \<Rightarrow> database_error e \<or> m = Inl e
    | Inr (t, en) \<Rightarrow> (\<exists>t' en'. m = Inr (t', en') \<and> tbl_sim t t' \<and> entry_sim en en'))"

lemma pdf_sim_refl [simp]: "pdf_sim p p"
  by (simp add: pdf_sim_def)

lemma row_sim_sel:
  assumes "row_sim r s"
  shows "mi_id s = mi_id r" "mi_layer s = mi_layer r" "mi_key s = mi_key r" "mi_title s = mi_title r"
    "mi_size_bytes s = mi_size_bytes r" "mi_created_at_ms s = mi_created_at_ms r"
    "mi_modified_at_ms s = mi_modified_at_ms r" "mi_created_by s = mi_created_by r"
    "mi_modified_by s = mi_modified_by r" "mi_deleted_at_ms s = mi_deleted_at_ms r"
    "mi_deleted_by s = mi_deleted_by r" "mi_tier s = mi_tier r"
    "mi_indexed_at_ms s = mi_indexed_at_ms r" "mi_index_failed_at_ms s = mi_index_failed_at_ms r"
    "mi_index_failure_code s = mi_index_failure_code r" "pdf_sim (mi_pdf r) (mi_pdf s)"
proof -
  from assms have "s = r\<lparr>mi_pdf := mi_pdf s\<rparr>" by (simp add: row_sim_def)
  then obtain p where "s = r\<lparr>mi_pdf := p\<rparr>" by blast
  then show "mi_id s = mi_id r" "mi_layer s = mi_layer r" "mi_key s = mi_key r" "mi_title s = mi_title r"
    "mi_size_bytes s = mi_size_bytes r" "mi_created_at_ms s = mi_created_at_ms r"
    "mi_modified_at_ms s = mi_modified_at_ms r" "mi_created_by s = mi_created_by r"
    "mi_modified_by s = mi_modified_by r" "mi_deleted_at_ms s = mi_deleted_at_ms r"
    "mi_deleted_by s = mi_deleted_by r" "mi_tier s = mi_tier r"
    "mi_indexed_at_ms s = mi_indexed_at_ms r" "mi_index_failed_at_ms s = mi_index_failed_at_ms r"
    "mi_index_failure_code s = mi_index_failure_code r" by simp_all
  show "pdf_sim (mi_pdf r) (mi_pdf s)" using assms by (simp add: row_sim_def)
qed

lemma row_sim_iff:
  "row_sim r s \<longleftrightarrow> (\<exists>p. s = r\<lparr>mi_pdf := p\<rparr> \<and> pdf_sim (mi_pdf r) p)"
proof
  assume "row_sim r s"
  then show "\<exists>p. s = r\<lparr>mi_pdf := p\<rparr> \<and> pdf_sim (mi_pdf r) p" unfolding row_sim_def by blast
next
  assume "\<exists>p. s = r\<lparr>mi_pdf := p\<rparr> \<and> pdf_sim (mi_pdf r) p"
  then show "row_sim r s" by (auto simp: row_sim_def)
qed

lemma row_sim_new:
  "row_sim (new_item uid l k ti sz c n u tier) (mock_item uid l k ti sz c n u tier)"
  unfolding row_sim_iff mock_item_def
  by (rule exI [of _ no_pdf]) (simp add: new_item_def pdf_sim_def)

lemma row_sim_changes:
  assumes "row_sim r s"
  shows "row_sim (tombstone now u r) (tombstone now u s)"
    and "row_sim (overwrite now ti sz u r) (overwrite now ti sz u s)"
    and "row_sim (update_fields now ti sz u r) (update_fields now ti sz u s)"
  using assms
  by (auto simp: row_sim_iff tombstone_def overwrite_def update_fields_def Let_def
      intro!: exI [of _ "mi_pdf s"])

lemma row_sim_pdf:
  assumes "row_sim r s"
  shows "row_sim (r\<lparr>mi_modified_at_ms := now, mi_modified_by := u, mi_size_bytes := x, mi_pdf := pdf\<rparr>)
                 (s\<lparr>mi_modified_at_ms := now, mi_modified_by := u, mi_size_bytes := x, mi_pdf := pdf\<rparr>)"
  using assms by (auto simp: row_sim_iff intro!: exI [of _ pdf])

lemma entry_sim_from_row: "row_sim r s \<Longrightarrow> entry_sim (from_row r) (from_row s)"
  by (auto simp: row_sim_iff entry_sim_def from_row_def)

lemma row_at_sim: "tbl_sim t m \<Longrightarrow> rel_option row_sim (row_at t l k) (row_at m l k)"
  unfolding row_at_def by (induction rule: list_all2_induct) (auto dest: row_sim_sel)

lemma facts_sim: "rel_option row_sim a b \<Longrightarrow> facts a = facts b"
  by (cases a; cases b) (auto dest: row_sim_sel)

lemma mock_facts_sim: "tbl_sim t m \<Longrightarrow> mock_facts m l k = facts (row_at t l k)"
  unfolding mock_facts_def using facts_sim [OF row_at_sim] by metis

lemma mock_resolve_sim:
  assumes "tbl_sim t m"
  shows "mock_resolve_write m l k u tier = resolve_write_in t l k u tier"
  unfolding mock_resolve_write_def resolve_write_in_def mock_facts_sim [OF assms] by (rule refl)

lemma put_row_sim: "tbl_sim t m \<Longrightarrow> row_sim r s \<Longrightarrow> tbl_sim (put_row r t) (put_row s m)"
  unfolding put_row_def
proof (induction rule: list_all2_induct)
  case Nil
  then show ?case by simp
next
  case (Cons x t y m)
  from Cons show ?case by (simp add: row_sim_sel(2,3) [OF Cons(1)] row_sim_sel(2,3) [OF Cons.prems])
qed

lemma mock_put_sim:
  assumes "tbl_sim t m" and "row_sim r s" and "uq_layer_key (t @ [r])"
  shows "tbl_sim (t @ [r]) (mock_put s m)"
proof -
  have "row_at t (mi_layer s) (mi_key s) = None"
    using assms(2,3) by (simp add: uq_append1 row_sim_sel)
  then have "row_at m (mi_layer s) (mi_key s) = None"
    using row_at_sim [OF assms(1), of "mi_layer s" "mi_key s"] by simp
  with assms show ?thesis by (simp add: mock_put_def list_all2_appendI)
qed

lemma commit_sim:
  assumes "tbl_sim t' m'" and "row_sim r s"
  shows "res_sim (res_bind (commit_or_conflict l k ws t') (\<lambda>t. Inr (t, from_row r))) (Inr (m', from_row s))"
    and "res_sim (res_bind (commit_plain ws t') (\<lambda>t. Inr (t, from_row r))) (Inr (m', from_row s))"
proof -
  have e: "first_row_error ws = Some e \<Longrightarrow> database_error e" for ws e
    by (induction ws) (auto split: if_splits)
  show "res_sim (res_bind (commit_or_conflict l k ws t') (\<lambda>t. Inr (t, from_row r))) (Inr (m', from_row s))"
    using assms entry_sim_from_row e
    by (cases "first_row_error ws") (simp_all add: commit_or_conflict_def res_sim_def)
  show "res_sim (res_bind (commit_plain ws t') (\<lambda>t. Inr (t, from_row r))) (Inr (m', from_row s))"
    using assms entry_sim_from_row e
    by (cases "first_row_error ws") (simp_all add: commit_plain_def res_sim_def)
qed

lemma commit_insert_sim:
  assumes "tbl_sim t m" and "row_sim r s"
  shows "res_sim (res_bind (commit_or_conflict l k ws (t @ [r])) (\<lambda>t. Inr (t, from_row r)))
           (Inr (mock_put s m, from_row s))"
    and "res_sim (res_bind (commit_plain ws (t @ [r])) (\<lambda>t. Inr (t, from_row r)))
           (Inr (mock_put s m, from_row s))"
proof -
  have e: "first_row_error ws = Some e \<Longrightarrow> database_error e" for ws e
    by (induction ws) (auto split: if_splits)
  show "res_sim (res_bind (commit_or_conflict l k ws (t @ [r])) (\<lambda>t. Inr (t, from_row r)))
           (Inr (mock_put s m, from_row s))"
    using assms entry_sim_from_row e mock_put_sim
    by (cases "first_row_error ws") (simp_all add: commit_or_conflict_def res_sim_def)
  show "res_sim (res_bind (commit_plain ws (t @ [r])) (\<lambda>t. Inr (t, from_row r)))
           (Inr (mock_put s m, from_row s))"
    using assms entry_sim_from_row e mock_put_sim
    by (cases "first_row_error ws") (simp_all add: commit_plain_def res_sim_def)
qed

lemma res_sim_same_error [simp]: "res_sim (Inl e) (Inl e)"
  by (simp add: res_sim_def)

lemma mock_record_create_sim:
  assumes "tbl_sim t m"
  shows "res_sim (record_create now uid t l k ti sz u tier shared)
    (mock_record_create now uid m l k ti sz u tier shared)"
proof (cases "validate_layer l")
  case (Inl e)
  then show ?thesis by (simp add: record_create_def mock_record_create_def)
next
  case v: (Inr x)
  show ?thesis
  proof (cases "resolve_write_in t l k u tier")
    case (Inl e)
    with v show ?thesis
      by (simp add: record_create_def mock_record_create_def mock_resolve_sim [OF assms])
  next
    case r: (Inr rs)
    define a where "a = (case rs_row rs of None \<Rightarrow> None | Some f \<Rightarrow> row_at t l (rf_key f))"
    define b where "b = (case rs_row rs of None \<Rightarrow> None | Some f \<Rightarrow> row_at m l (rf_key f))"
    have ab: "rel_option row_sim a b"
      using row_at_sim [OF assms] by (cases "rs_row rs") (simp_all add: a_def b_def)
    show ?thesis
    proof (cases a)
      case None
      with ab have "b = None" by simp
      with None v r show ?thesis
        unfolding record_create_def mock_record_create_def mock_resolve_sim [OF assms]
        by (simp add: a_def [symmetric] b_def [symmetric] Let_def commit_insert_sim [OF assms row_sim_new])
    next
      case (Some e)
      with ab obtain d where d: "b = Some d" "row_sim e d" by (auto simp: option_rel_Some1)
      have ca: "mi_created_at_ms d = mi_created_at_ms e" using row_sim_sel [OF d(2)] by simp
      show ?thesis using Some d v r ca
        unfolding record_create_def mock_record_create_def mock_resolve_sim [OF assms]
        by (simp add: a_def [symmetric] b_def [symmetric] Let_def commit_insert_sim [OF assms row_sim_new]
            commit_insert_sim [OF put_row_sim [OF assms row_sim_changes(1) [OF d(2)]] row_sim_new]
            commit_sim [OF put_row_sim [OF assms row_sim_changes(2) [OF d(2)]] row_sim_changes(2) [OF d(2)]])
    qed
  qed
qed

text \<open>
  The twin looks under the owner prefix without checking the subject and the key; the two reads
  agree where both are valid.
\<close>

lemma mock_read_row_sim:
  assumes "tbl_sim t m" and "physical_key u k = Inr pk"
  shows "rel_option row_sim (read_row t l k u) (mock_read_row m l k u)"
proof -
  have pk: "u @ CHR ''/'' # k = pk" using assms(2) by (simp add: physical_key_Inr owner_key_def)
  have k: "rs_row rs = Some f \<Longrightarrow> rf_key f = pk \<or> rf_key f = k"
    if "resolve_read u (facts (row_at t l pk)) (facts (row_at t l k)) = Some rs" for rs f
    using that row_at_Some [of t l pk] row_at_Some [of t l k]
    by (cases "row_at t l pk"; cases "row_at t l k")
      (auto simp: resolve_read_def resolve_read_bare_def split: if_splits)
  show ?thesis
  proof (cases "resolve_read u (facts (row_at t l pk)) (facts (row_at t l k))")
    case None
    then show ?thesis
      by (simp add: read_row_def mock_read_row_def mock_facts_sim [OF assms(1)] pk assms(2))
  next
    case (Some rs)
    show ?thesis
    proof (cases "rs_row rs")
      case None
      with Some show ?thesis
        by (simp add: read_row_def mock_read_row_def mock_facts_sim [OF assms(1)] pk assms(2))
    next
      case (Some f)
      with k [OF \<open>resolve_read _ _ _ = Some rs\<close>] have "rf_key f = pk \<or> rf_key f = k" by blast
      with Some \<open>resolve_read _ _ _ = Some rs\<close> show ?thesis
        using row_at_sim [OF assms(1), of l "rf_key f"]
        by (auto simp: read_row_def mock_read_row_def mock_facts_sim [OF assms(1)] pk assms(2) Let_def)
    qed
  qed
qed

lemma mock_record_update_sim:
  assumes "tbl_sim t m" and "physical_key u k = Inr pk"
  shows "res_sim (record_update now uid t l k sz u ti shared) (mock_record_update now uid m l k sz u ti shared)"
proof (cases "validate_layer l")
  case (Inl e)
  then show ?thesis by (simp add: record_update_def mock_record_update_def)
next
  case v: (Inr x)
  show ?thesis
  proof (cases "read_row t l k u")
    case None
    with mock_read_row_sim [OF assms, of l] v show ?thesis
      by (simp add: record_update_def mock_record_update_def)
  next
    case (Some e)
    with mock_read_row_sim [OF assms, of l] obtain d
      where d: "mock_read_row m l k u = Some d" "row_sim e d" by (auto simp: option_rel_Some1)
    note sel = row_sim_sel [OF d(2)]
    have upd: "(if ti \<noteq> None then x\<lparr>mi_title := ti\<rparr> else x)
        \<lparr>mi_size_bytes := sz, mi_modified_at_ms := now, mi_modified_by := u\<rparr> = update_fields now ti sz u x" for x
      by (simp add: update_fields_def)
    show ?thesis using v assms(2) Some d(1)
      unfolding record_update_def mock_record_update_def upd
      by (simp del: first_row_error.simps add: sel Let_def
          commit_insert_sim [OF put_row_sim [OF assms(1) row_sim_changes(1) [OF d(2)]] row_sim_new]
          commit_sim [OF put_row_sim [OF assms(1) row_sim_changes(3) [OF d(2)]] row_sim_changes(3) [OF d(2)]])
  qed
qed

lemma put_row_same:
  assumes "row_at m l k = Some d" and "uq_layer_key m"
  shows "put_row d m = m"
  unfolding put_row_def map_if_def
proof (rule map_idI)
  fix x
  assume x: "x \<in> set m"
  have d: "d \<in> set m" using row_at_Some [OF assms(1)] by blast
  show "(if mi_layer x = mi_layer d \<and> mi_key x = mi_key d then d else x) = x"
    using uq_unique [OF assms(2) x d] by auto
qed

lemma mock_record_delete_sim:
  assumes "tbl_sim t m" and "physical_key u k = Inr pk" and "uq_layer_key t"
  shows "res_sim (record_delete now t l k u shared) (mock_record_delete now m l k u shared)"
proof (cases "validate_layer l")
  case (Inl e)
  then show ?thesis by (simp add: record_delete_def mock_record_delete_def)
next
  case v: (Inr x)
  show ?thesis
  proof (cases "read_row t l k u")
    case None
    with mock_read_row_sim [OF assms(1,2), of l] v show ?thesis
      by (simp add: record_delete_def mock_record_delete_def)
  next
    case (Some e)
    with mock_read_row_sim [OF assms(1,2), of l] obtain d
      where d: "mock_read_row m l k u = Some d" "row_sim e d" by (auto simp: option_rel_Some1)
    note sel = row_sim_sel [OF d(2)]
    have "put_row e t = t"
      using Some by (cases rule: read_row_cases) (auto intro: put_row_same assms(3))
    then have same: "tbl_sim t (put_row d m)" using put_row_sim [OF assms(1) d(2)] by simp
    show ?thesis using v Some d(1) same entry_sim_from_row [OF d(2)]
      unfolding record_delete_def mock_record_delete_def
      by (simp del: first_row_error.simps add: sel Let_def res_sim_def [of "Inr _"]
          commit_sim [OF put_row_sim [OF assms(1) row_sim_changes(1) [OF d(2)]] row_sim_changes(1) [OF d(2)]])
  qed
qed

lemma mock_upsert_sim:
  assumes "tbl_sim t m"
  shows "res_sim (upsert_pdf_metadata now uid t l k u sz pdf shared)
    (mock_upsert_pdf_metadata now uid m l k u sz pdf shared)"
proof (cases "validate_layer l")
  case (Inl e)
  then show ?thesis by (simp add: upsert_pdf_metadata_def mock_upsert_pdf_metadata_def)
next
  case v: (Inr x)
  show ?thesis
  proof (cases "row_at t l k")
    case None
    with row_at_sim [OF assms, of l k] have "row_at m l k = None" by simp
    moreover have "row_sim ((new_item uid l k None sz now now u ''corpus'')\<lparr>mi_pdf := pdf\<rparr>)
        ((mock_item uid l k None sz now now u ''corpus'')\<lparr>mi_pdf := pdf\<rparr>)"
      by (simp add: row_sim_def mock_item_def)
    ultimately show ?thesis using v None
      unfolding upsert_pdf_metadata_def mock_upsert_pdf_metadata_def
      by (simp del: first_row_error.simps add: Let_def commit_insert_sim [OF assms])
  next
    case (Some e)
    with row_at_sim [OF assms, of l k] obtain d
      where d: "row_at m l k = Some d" "row_sim e d" by (auto simp: option_rel_Some1)
    note sel = row_sim_sel [OF d(2)]
    define y where "y = (if sz \<noteq> None then sz else mi_size_bytes e)"
    show ?thesis
      unfolding upsert_pdf_metadata_def mock_upsert_pdf_metadata_def v Some d(1) res_bind_simps option.case
        sel Let_def y_def [symmetric]
      by (simp del: first_row_error.simps add:
          commit_sim [OF put_row_sim [OF assms row_sim_pdf [OF d(2)]] row_sim_pdf [OF d(2)]])
  qed
qed

fun op_key :: "manifest_op \<Rightarrow> string" where
  "op_key (OpCreate layer key title sz tier shared) = key"
| "op_key (OpUpdate layer key sz title shared) = key"
| "op_key (OpDelete layer key shared) = key"
| "op_key (OpUpsertPdf layer key sz pdf shared) = key"

lemma exec_sim:
  assumes "tbl_sim t m" and "uq_layer_key t" and "physical_key (c_user c) (op_key (c_op c)) = Inr pk"
  shows "res_sim (exec c t) (mock_exec c m)"
  using assms
  by (cases "c_op c")
    (simp_all add: exec_def mock_exec_def mock_record_create_sim mock_record_update_sim
      mock_record_delete_sim mock_upsert_sim)

section \<open>Sessions and lists on the twin\<close>

fun mock_answers :: "call list \<Rightarrow> table \<Rightarrow> (manifest_error, manifest_entry) res list" where
  "mock_answers [] m = []"
| "mock_answers (c # cs) m =
     (case mock_exec c m of Inl e \<Rightarrow> Inl e | Inr (_, en) \<Rightarrow> Inr en) # mock_answers cs (after (mock_exec c m) m)"

definition answer_sim :: "(manifest_error, manifest_entry) res \<Rightarrow> (manifest_error, manifest_entry) res \<Rightarrow> bool" where
  "answer_sim a b = (case (a, b) of (Inl e, Inl f) \<Rightarrow> e = f | (Inr x, Inr y) \<Rightarrow> entry_sim x y | _ \<Rightarrow> False)"

fun refused_by_database :: "(manifest_error, manifest_entry) res \<Rightarrow> bool" where
  "refused_by_database (Inl e) = database_error e"
| "refused_by_database (Inr _) = False"

definition valid_call :: "call \<Rightarrow> bool" where
  "valid_call c \<longleftrightarrow> sub_ok (c_user c) \<and> length (op_key (c_op c)) \<le> LOGICAL_KEY_MAX"

text \<open>
  C5: tests on the twin speak for the service. From corresponding tables, a session the database
  itself never refuses gets the same answers from both: the same errors call by call, and the
  same entries up to the document columns only the database fills in by default.
\<close>

theorem twin_session:
  assumes "tbl_sim t m" and "manifest_inv t" and "\<forall>c \<in> set cs. valid_call c"
    and "\<forall>a \<in> set (answers cs t). \<not> refused_by_database a"
  shows "list_all2 answer_sim (answers cs t) (mock_answers cs m)"
  using assms
proof (induction cs arbitrary: t m)
  case Nil
  then show ?case by simp
next
  case (Cons c cs)
  have "physical_key (c_user c) (op_key (c_op c)) = Inr (owner_key (c_user c) (op_key (c_op c)))"
    using Cons.prems(3) by (simp add: valid_call_def physical_key_Inr)
  then have sim: "res_sim (exec c t) (mock_exec c m)"
    using Cons.prems by (intro exec_sim) (simp_all add: manifest_inv_def)
  have inv: "manifest_inv (after (exec c t) t)"
    by (rule effect_inv [OF after_effect Cons.prems(2)])
  have "answer_sim (case exec c t of Inl e \<Rightarrow> Inl e | Inr (_, en) \<Rightarrow> Inr en)
      (case mock_exec c m of Inl e \<Rightarrow> Inl e | Inr (_, en) \<Rightarrow> Inr en)"
    and "tbl_sim (after (exec c t) t) (after (mock_exec c m) m)"
    using sim Cons.prems(1,4)
    by (cases "exec c t"; fastforce simp: res_sim_def answer_sim_def after_def)+
  with Cons.IH [OF this(2) inv] Cons.prems(3,4) show ?case by simp
qed

lemma sort_key_sim:
  assumes "list_all2 R xs ys" and "\<And>x y. R x y \<Longrightarrow> f y = f x"
  shows "list_all2 R (sort_key f xs) (sort_key f ys)"
proof -
  have ins: "list_all2 R (insort_key f a xs) (insort_key f b ys)" if "R a b" "list_all2 R xs ys" for a b xs ys
    using that(2,1) by (induction rule: list_all2_induct) (simp_all add: assms(2))
  show ?thesis using assms(1) by (induction rule: list_all2_induct) (simp_all add: ins)
qed

lemma filter_sim:
  assumes "list_all2 R xs ys" and "\<And>x y. R x y \<Longrightarrow> p y = p x"
  shows "list_all2 R (filter p xs) (filter p ys)"
  using assms(1) by (induction rule: list_all2_induct) (simp_all add: assms(2))

text \<open>
  The lists correspond as well: the same entries in the same order for every layer and
  caller, although the one filters after sorting and building entries and the other before.
\<close>

lemma twin_list:
  assumes "tbl_sim t m"
  shows "(case (list_for_layer t layer incl caller, mock_list_for_layer m layer incl caller) of
            (Inl e, Inl f) \<Rightarrow> e = f | (Inr es, Inr fs) \<Rightarrow> list_all2 entry_sim es fs | _ \<Rightarrow> False)"
proof (cases "validate_layer layer")
  case (Inl e)
  then show ?thesis by (simp add: list_for_layer_def mock_list_for_layer_def)
next
  case (Inr x)
  define q where "q = (\<lambda>r::memory_item. mi_layer r = layer \<and> (incl \<or> mi_deleted_at_ms r = None) \<and>
    entry_visible caller (from_row r))"
  have "list_for_layer t layer incl caller =
      Inr (map from_row (sort_key (\<lambda>r. - mi_modified_at_ms r) (filter q t)))"
    using Inr
    by (auto simp: list_for_layer_def rows_to_entries_def Let_def filter_map o_def filter_sort q_def
        intro!: arg_cong [where f = "map from_row"] arg_cong [where f = "sort_key _"] filter_cong)
  moreover have "mock_list_for_layer m layer incl caller =
      Inr (map from_row (sort_key (\<lambda>r. - mi_modified_at_ms r) (filter q m)))"
    using Inr
    by (cases caller) (auto simp: mock_list_for_layer_def Let_def q_def entry_visible_def from_row_def
        intro!: arg_cong [where f = "map from_row"] arg_cong [where f = "sort_key _"] filter_cong)
  moreover have "tbl_sim (sort_key (\<lambda>r. - mi_modified_at_ms r) (filter q t))
      (sort_key (\<lambda>r. - mi_modified_at_ms r) (filter q m))"
    by (intro sort_key_sim filter_sim assms)
      (auto dest: row_sim_sel simp: q_def entry_visible_def from_row_def row_sim_sel split: option.splits)
  ultimately show ?thesis by (simp add: list_all2_map1 list_all2_map2) (erule list_all2_mono, rule entry_sim_from_row)
qed

section \<open>Witnesses\<close>

theorem twin_session_witness:
  "list_all2 answer_sim (answers demo_calls demo_table) (mock_answers demo_calls demo_table)
   \<and> length (mock_answers demo_calls demo_table) = 3"
proof -
  have "tbl_sim demo_table demo_table" by (simp add: list_all2_same row_sim_def)
  moreover have "\<forall>c \<in> set demo_calls. valid_call c" by code_simp
  moreover have "\<forall>a \<in> set (answers demo_calls demo_table). \<not> refused_by_database a" by code_simp
  ultimately have "list_all2 answer_sim (answers demo_calls demo_table) (mock_answers demo_calls demo_table)"
    using twin_session [OF _ demo_table_inv] by blast
  moreover have "length (mock_answers demo_calls demo_table) = 3" by code_simp
  ultimately show ?thesis ..
qed

lemma twin_list_witness:
  "case (list_for_layer demo_table ''episodic'' False None, mock_list_for_layer demo_table ''episodic'' False None) of
     (Inr es, Inr fs) \<Rightarrow> list_all2 entry_sim es fs \<and> length fs = 3 | _ \<Rightarrow> False"
proof -
  have "tbl_sim demo_table demo_table" by (simp add: list_all2_same row_sim_def)
  note twin_list [OF this, of "''episodic''" False None]
  moreover have "case mock_list_for_layer demo_table ''episodic'' False None of Inl _ \<Rightarrow> False
    | Inr fs \<Rightarrow> length fs = 3" by code_simp
  moreover have "case list_for_layer demo_table ''episodic'' False None of Inl _ \<Rightarrow> False | Inr fs \<Rightarrow> True"
    by code_simp
  ultimately show ?thesis by (auto split: sum.splits)
qed

end
