(* ===== verification/ManifestStatus.thy ===== *)
theory ManifestStatus
  imports ManifestMock
begin

text \<open>
  The index-status query of the read path (\<open>MemoryManifestService.index_status_summary\<close>) and its
  twin: how many documents the caller can see are pending or dead-lettered, and which of them the
  question names.
\<close>

section \<open>ILIKE\<close>

text \<open>
  A pattern of LIKE: a percent sign stands for any text, an underscore for one character, and a
  backslash takes the next character literally. ILIKE compares lower-cased texts.
\<close>

fun like :: "string \<Rightarrow> string \<Rightarrow> bool" where
  "like [] s \<longleftrightarrow> s = []"
| "like (c # p) s \<longleftrightarrow>
     (if c = CHR ''%'' then like p s \<or> (case s of [] \<Rightarrow> False | _ # s' \<Rightarrow> like (c # p) s')
      else if c = CHR ''_'' then (case s of [] \<Rightarrow> False | _ # s' \<Rightarrow> like p s')
      else if c = CHR 0x5C then
        (case p of [] \<Rightarrow> False
         | d # p' \<Rightarrow> (case s of [] \<Rightarrow> False | e # s' \<Rightarrow> d = e \<and> like p' s'))
      else (case s of [] \<Rightarrow> False | e # s' \<Rightarrow> c = e \<and> like p s'))"

definition ilike :: "string \<Rightarrow> string \<Rightarrow> bool" where
  "ilike s p \<longleftrightarrow> like (py_lower p) (py_lower s)"

definition literal_token :: "string \<Rightarrow> bool" where
  "literal_token t \<longleftrightarrow> set t \<inter> {CHR ''%'', CHR ''_'', CHR 0x5C} = {}"

section \<open>The query\<close>

definition MAX_MATCHED_UNINDEXED :: nat where "MAX_MATCHED_UNINDEXED = 5"

record matched_unindexed =
  mu_key :: string
  mu_state :: string
  mu_index_failure_code :: "string option"

record index_status =
  is_pending :: nat
  is_dead_lettered :: nat
  is_matched :: "matched_unindexed list"

definition matched_of :: "memory_item \<Rightarrow> matched_unindexed" where
  "matched_of r =
     \<lparr>mu_key = logical_key (mi_key r) (Some (mi_tier r)) (Some (mi_created_by r)),
      mu_state = (if mi_index_failed_at_ms r \<noteq> None then ''dead_lettered'' else ''pending''),
      mu_index_failure_code = mi_index_failure_code r\<rparr>"

text \<open>The filters every count and match shares.\<close>

definition accessible :: "user_context \<Rightarrow> memory_item \<Rightarrow> bool" where
  "accessible user r \<longleftrightarrow> mi_deleted_at_ms r = None \<and>
     (uc_is_admin user \<or> mi_tier r = ''corpus'' \<or> mi_created_by r = uc_user_id user)"

definition unindexed :: "memory_item \<Rightarrow> bool" where
  "unindexed r \<longleftrightarrow> mi_indexed_at_ms r = None \<or> mi_index_failed_at_ms r \<noteq> None"

definition token_clause :: "memory_item \<Rightarrow> string \<Rightarrow> sqlbool" where
  "token_clause r token =
     (let p = ''%'' @ token @ ''%'' in
      sql_or (sql_of (ilike (mi_key r) p)) (sql_cmp ilike (mi_title r) (Some p)))"

definition pending_count :: "memory_item list \<Rightarrow> nat" where
  "pending_count rows =
     length (filter (\<lambda>r. mi_indexed_at_ms r = None \<and> mi_index_failed_at_ms r = None) rows)"

definition dead_lettered_count :: "memory_item list \<Rightarrow> nat" where
  "dead_lettered_count rows = length (filter (\<lambda>r. mi_index_failed_at_ms r \<noteq> None) rows)"

text \<open>\<open>coll\<close> is the collation the database orders keys by.\<close>

definition index_status_summary ::
  "(string \<Rightarrow> 'k::linorder) \<Rightarrow> table \<Rightarrow> user_context \<Rightarrow> string list \<Rightarrow> bool \<Rightarrow> index_status" where
  "index_status_summary coll tbl user tokens skip_counts_if_no_match =
     (let rows = filter (accessible user) tbl;
          matched = (if tokens = [] then []
                     else map matched_of (take MAX_MATCHED_UNINDEXED (sort_key (\<lambda>r. coll (mi_key r))
                            (filter (\<lambda>r. unindexed r \<and> (\<exists>t \<in> set tokens. sql_holds (token_clause r t))) rows))))
      in if skip_counts_if_no_match \<and> matched = []
         then \<lparr>is_pending = 0, is_dead_lettered = 0, is_matched = []\<rparr>
         else \<lparr>is_pending = pending_count rows, is_dead_lettered = dead_lettered_count rows,
               is_matched = matched\<rparr>)"

section \<open>The twin\<close>

definition mock_named :: "string list \<Rightarrow> memory_item \<Rightarrow> bool" where
  "mock_named lowered r \<longleftrightarrow>
     (\<exists>token \<in> set lowered. py_contains (py_lower (mi_key r)) token \<or>
        py_contains (py_lower (case mi_title r of None \<Rightarrow> [] | Some t \<Rightarrow> t)) token)"

text \<open>The loop over the sorted candidates, which stops at the cap.\<close>

fun mock_collect :: "string list \<Rightarrow> memory_item list \<Rightarrow> matched_unindexed list \<Rightarrow> matched_unindexed list" where
  "mock_collect lowered [] matched = matched"
| "mock_collect lowered (r # rs) matched =
     (let matched' = (if mock_named lowered r then matched @ [matched_of r] else matched)
      in if MAX_MATCHED_UNINDEXED \<le> length matched' then matched' else mock_collect lowered rs matched')"

definition mock_index_status_summary ::
  "table \<Rightarrow> user_context \<Rightarrow> string list \<Rightarrow> bool \<Rightarrow> index_status" where
  "mock_index_status_summary m user tokens skip_counts_if_no_match =
     (let live = filter (\<lambda>r. mi_deleted_at_ms r = None) m;
          rows = (if uc_is_admin user then live
                  else filter (\<lambda>r. mi_created_by r = uc_user_id user \<or> mi_tier r = ''corpus'') live);
          matched = (if tokens = [] then []
                     else mock_collect (map py_lower tokens) (sort_key mi_key (filter unindexed rows)) [])
      in if skip_counts_if_no_match \<and> matched = []
         then \<lparr>is_pending = 0, is_dead_lettered = 0, is_matched = []\<rparr>
         else \<lparr>is_pending = pending_count rows, is_dead_lettered = dead_lettered_count rows,
               is_matched = matched\<rparr>)"

text \<open>The test seam that puts a row into an index state.\<close>

definition set_index_state ::
  "table \<Rightarrow> string \<Rightarrow> string \<Rightarrow> int option \<Rightarrow> int option \<Rightarrow> string option \<Rightarrow> (manifest_error, table) res" where
  "set_index_state m layer key indexed failed code =
     (case row_at m layer key of
        None \<Rightarrow> Inl (LookupError layer key)
      | Some r \<Rightarrow> Inr (put_row (r\<lparr>mi_indexed_at_ms := indexed, mi_index_failed_at_ms := failed,
                                  mi_index_failure_code := code\<rparr>) m))"

section \<open>Matching\<close>

lemma like_percent: "like [CHR ''%''] s"
  by (induction s) auto

lemma like_prefix:
  "literal_token t \<Longrightarrow> like (t @ ''%'') s \<longleftrightarrow> py_startswith s t"
proof (induction t arbitrary: s)
  case Nil
  then show ?case using like_percent [of s] by (simp add: py_startswith_def)
next
  case (Cons c t)
  then show ?case
    by (cases s) (auto simp: literal_token_def py_startswith_def)
qed

lemma like_literal: "literal_token t \<Longrightarrow> like (''%'' @ t @ ''%'') s \<longleftrightarrow> py_contains s t"
proof (induction s)
  case Nil
  then show ?case using like_prefix [of t "[]"] by (auto simp: py_startswith_def)
next
  case (Cons c s)
  then show ?case using like_prefix [of t "c # s"] by simp
qed

lemma py_lower_append [simp]: "py_lower (a @ b) = py_lower a @ py_lower b"
  by (simp add: py_lower_def)

lemma py_lower_percent [simp]: "py_lower ''%'' = ''%''"
  by code_simp

lemma py_contains_Nil [simp]: "py_contains s []"
  by (cases s) (simp_all add: py_startswith_def)

lemma token_clause_literal:
  assumes "literal_token (py_lower t)"
  shows "sql_holds (token_clause r t) \<longleftrightarrow> py_contains (py_lower (mi_key r)) (py_lower t) \<or>
    py_contains (py_lower (case mi_title r of None \<Rightarrow> [] | Some x \<Rightarrow> x)) (py_lower t)"
proof -
  have i: "ilike s (CHR ''%'' # t @ ''%'') \<longleftrightarrow> py_contains (py_lower s) (py_lower t)" for s
    using like_literal [OF assms, of "py_lower s"] py_lower_append [of "''%''" "t @ ''%''"]
    by (simp add: ilike_def)
  show ?thesis
  proof (cases "mi_title r")
    case None
    have "py_contains [] (py_lower t) \<Longrightarrow> py_lower t = []" by simp
    with None show ?thesis by (auto simp: token_clause_def Let_def sql_simps i py_lower_def)
  next
    case (Some x)
    then show ?thesis by (simp add: token_clause_def Let_def sql_simps i)
  qed
qed

lemma mock_collect_take:
  "length matched < MAX_MATCHED_UNINDEXED \<Longrightarrow>
   mock_collect lowered rs matched =
     take MAX_MATCHED_UNINDEXED (matched @ map matched_of (filter (mock_named lowered) rs))"
  by (induction rs arbitrary: matched) (auto simp: Let_def not_le take_Cons')

lemma mock_collect_filter:
  "mock_collect lowered rs [] = map matched_of (take MAX_MATCHED_UNINDEXED (filter (mock_named lowered) rs))"
  by (subst mock_collect_take) (simp_all add: MAX_MATCHED_UNINDEXED_def take_map)

lemma accessible_sim: "row_sim r s \<Longrightarrow> accessible user s = accessible user r"
  by (simp add: accessible_def row_sim_sel [of r s])

lemma map_matched_sim: "tbl_sim xs ys \<Longrightarrow> map matched_of ys = map matched_of xs"
proof (induction rule: list_all2_induct)
  case (Cons x xs y ys)
  then show ?case using row_sim_sel [OF Cons(1)] by (simp add: matched_of_def)
qed simp

lemma length_filter_sim:
  assumes "tbl_sim xs ys" and "\<And>r s. row_sim r s \<Longrightarrow> p s = p r"
  shows "length (filter p ys) = length (filter p xs)"
proof -
  have "tbl_sim (filter p xs) (filter p ys)"
    by (rule filter_sim [OF assms(1)]) (rule assms(2))
  then show ?thesis by (simp add: list_all2_lengthD)
qed

lemma counts_sim:
  assumes "tbl_sim xs ys"
  shows "pending_count ys = pending_count xs \<and> dead_lettered_count ys = dead_lettered_count xs"
  unfolding pending_count_def dead_lettered_count_def
  by (intro conjI length_filter_sim [OF assms]) (simp_all add: row_sim_sel)

text \<open>
  For tokens without the wildcards of LIKE, the twin's in-memory loop and the database query
  over code-point order give the same counts and the same first five matches.
\<close>

lemma twin_index_status:
  assumes "tbl_sim t m" and "\<forall>x \<in> set tokens. literal_token (py_lower x)"
  shows "mock_index_status_summary m user tokens skip = index_status_summary id t user tokens skip"
proof -
  have acc: "(if uc_is_admin user then filter (\<lambda>r. mi_deleted_at_ms r = None) m
      else filter (\<lambda>r. mi_created_by r = uc_user_id user \<or> mi_tier r = ''corpus'')
             (filter (\<lambda>r. mi_deleted_at_ms r = None) m)) = filter (accessible user) m"
    by (auto simp: accessible_def intro!: filter_cong)
  let ?t = "filter (accessible user) t" and ?m = "filter (accessible user) m"
  have sim: "tbl_sim ?t ?m" by (rule filter_sim [OF assms(1)]) (rule accessible_sim)
  have named: "(\<exists>x \<in> set tokens. sql_holds (token_clause r x)) \<longleftrightarrow> mock_named (map py_lower tokens) r" for r
    using token_clause_literal assms(2) by (auto simp: mock_named_def)
  let ?p = "\<lambda>r. unindexed r \<and> mock_named (map py_lower tokens) r"
  have psim: "?p s = ?p r" if "row_sim r s" for r s
    using row_sim_sel [OF that] by (simp add: unindexed_def mock_named_def)
  have "tbl_sim (sort_key mi_key (filter ?p ?t)) (sort_key mi_key (filter ?p ?m))"
    by (intro sort_key_sim filter_sim [OF sim]) (use psim row_sim_sel in blast)+
  then have take: "tbl_sim (take n (sort_key mi_key (filter ?p ?t))) (take n (sort_key mi_key (filter ?p ?m)))" for n
    by (rule list_all2_takeI)
  have "filter (mock_named (map py_lower tokens)) (sort_key mi_key (filter unindexed ?m)) =
      sort_key mi_key (filter ?p ?m)"
    unfolding filter_sort filter_filter by (intro arg_cong [where f = "sort_key _"] filter_cong) auto
  then have "mock_collect (map py_lower tokens) (sort_key mi_key (filter unindexed ?m)) [] =
      map matched_of (take MAX_MATCHED_UNINDEXED (sort_key mi_key (filter ?p ?t)))"
    unfolding mock_collect_filter using map_matched_sim [OF take] by simp
  then show ?thesis
    unfolding mock_index_status_summary_def index_status_summary_def Let_def acc named
    using counts_sim [OF sim] by simp
qed

text \<open>
  The counts and the matches of a caller without the admin flag depend on nothing but the
  rows the caller may see, and no more than five names are returned.
\<close>

lemma index_status_isolation:
  assumes "\<not> uc_is_admin user" and "view (uc_user_id user) t1 = view (uc_user_id user) t2"
  shows "index_status_summary coll t1 user tokens skip = index_status_summary coll t2 user tokens skip \<and>
    length (is_matched (index_status_summary coll t1 user tokens skip)) \<le> 5"
proof -
  have "filter (accessible user) (view (uc_user_id user) t) = filter (accessible user) t" for t
    unfolding view_def filter_filter using assms(1)
    by (intro filter_cong refl) (auto simp: accessible_def visible_to_def)
  then have "filter (accessible user) t1 = filter (accessible user) t2" using assms(2) by metis
  then show ?thesis
    by (simp add: index_status_summary_def Let_def MAX_MATCHED_UNINDEXED_def)
qed

section \<open>Witnesses\<close>

text \<open>A token with an underscore is a wildcard for the database and text for the twin.\<close>

lemma like_underscore_wildcard:
  "sql_holds (token_clause (demo_row ''i'' ''axb.md'' ''ann'' ''corpus'') ''a_b'') \<and>
   \<not> mock_named [py_lower ''a_b''] (demo_row ''i'' ''axb.md'' ''ann'' ''corpus'')"
  by code_simp

lemma twin_index_status_witness:
  "mock_index_status_summary demo_table (demo_user ''ann'') [''B.MD''] False
     = index_status_summary id demo_table (demo_user ''ann'') [''B.MD''] False
   \<and> map mu_key (is_matched (mock_index_status_summary demo_table (demo_user ''ann'') [''B.MD''] False)) = [''b.md'']"
proof -
  have "tbl_sim demo_table demo_table" by (simp add: list_all2_same row_sim_def)
  moreover have "\<forall>x \<in> set [''B.MD'']. literal_token (py_lower x)" by code_simp
  ultimately have "mock_index_status_summary demo_table (demo_user ''ann'') [''B.MD''] False
     = index_status_summary id demo_table (demo_user ''ann'') [''B.MD''] False" by (rule twin_index_status)
  moreover have "map mu_key (is_matched (mock_index_status_summary demo_table (demo_user ''ann'') [''B.MD''] False))
     = [''b.md'']" by code_simp
  ultimately show ?thesis ..
qed

lemma index_status_isolation_witness:
  "index_status_summary (\<lambda>k. k) demo_table (demo_user ''bob'') [''b.md''] False
   = index_status_summary (\<lambda>k. k) [demo_row ''i2'' ''a.md'' ''cur'' ''corpus''] (demo_user ''bob'') [''b.md''] False"
proof -
  have a: "\<not> uc_is_admin (demo_user ''bob'')" by (simp add: demo_user_def)
  have "view (uc_user_id (demo_user ''bob'')) demo_table
      = view (uc_user_id (demo_user ''bob'')) [demo_row ''i2'' ''a.md'' ''cur'' ''corpus'']" by code_simp
  from index_status_isolation [OF a this] show ?thesis by blast
qed

end
