(* ===== verification/ManifestOps.thy ===== *)
theory ManifestOps imports ManifestProps begin

text \<open>
  Functional behaviour of the manifest operations: what a read returns after a create, an update
  or a delete, what lists show, and which errors of the database can reach a caller.
\<close>

section \<open>Read-back\<close>

lemma from_row_own:
  assumes "physical_key u key = Inr pk" and "own_private u r" and "mi_key r = pk"
  shows "me_key (from_row r) = key"
  using assms mkey.dec_enc [of u key] by (simp add: from_row_def own_private_def physical_key_Inr)

lemma read_row_own:
  assumes "physical_key u key = Inr pk" and "row_at t layer pk = Some r" and "own_private u r"
  shows "read_row t layer key u = Some r"
  using assms by (simp add: read_row_eq)

lemma insert_new_Inr:
  assumes "insert_new now uid t layer key pk title sz u tier = Inr (t', en)"
  shows "en = from_row (new_item uid layer pk title sz now now u tier) \<and>
    row_at t' layer pk = Some (new_item uid layer pk title sz now now u tier) \<and>
    row_at t layer pk = None \<and> (\<forall>k. k \<noteq> pk \<longrightarrow> row_at t' layer k = row_at t layer k)"
  using assms
  by (auto simp: insert_new_def Let_def res_bind_Inr_iff commit_or_conflict_Inr uq_append1
      row_at_append1 new_item_def split: option.splits)

lemma overwrite_row_Inr:
  assumes "overwrite_row now t layer key title sz u e = Inr (t', en)" and "row_at t layer pk = Some e"
  shows "en = from_row (overwrite now title sz u e) \<and>
    row_at t' layer pk = Some (overwrite now title sz u e) \<and>
    (\<forall>k. k \<noteq> pk \<longrightarrow> row_at t' layer k = row_at t layer k)"
proof -
  have t': "t' = put_row (overwrite now title sz u e) t" "en = from_row (overwrite now title sz u e)"
    using assms(1) by (auto simp: overwrite_row_def Let_def res_bind_Inr_iff commit_or_conflict_Inr)
  have "mi_key (overwrite now title sz u e) = pk"
    using row_at_Some [OF assms(2)] by (simp add: overwrite_def)
  then show ?thesis
    using t' row_at_put_row_same [OF assms(2)] by (auto simp: row_at_put_row_other)
qed

lemma copy_forward_Inr:
  assumes "copy_forward now uid t layer key pk title sz u e = Inr (t', en)"
    and "row_at t layer k = Some e" and "k \<noteq> pk"
  shows "en = from_row (new_item uid layer pk title sz (mi_created_at_ms e) now u ''private'') \<and>
    row_at t' layer pk = Some (new_item uid layer pk title sz (mi_created_at_ms e) now u ''private'') \<and>
    row_at t' layer k = Some (tombstone now u e) \<and>
    (\<forall>l. l \<noteq> k \<and> l \<noteq> pk \<longrightarrow> row_at t' layer l = row_at t layer l)"
proof -
  let ?old = "tombstone now u e"
  let ?r = "new_item uid layer pk title sz (mi_created_at_ms e) now u ''private''"
  have t': "t' = put_row ?old t @ [?r]" "en = from_row ?r" "uq_layer_key (put_row ?old t @ [?r])"
    using assms(1) by (auto simp: copy_forward_def Let_def res_bind_Inr_iff commit_or_conflict_Inr)
  have key: "mi_key ?old = k" "mi_key ?r = pk" "mi_layer ?r = layer"
    using row_at_Some [OF assms(2)] by (simp_all add: tombstone_def new_item_def)
  have "row_at (put_row ?old t) layer pk = None" using t'(3) key by (simp add: uq_append1)
  moreover have "row_at (put_row ?old t) layer k = Some ?old"
    by (rule row_at_put_row_same [OF assms(2)]) simp
  ultimately show ?thesis
    using t'(1,2) key by (auto simp: row_at_append1 row_at_put_row_other split: option.splits)
qed

lemma overwrite_own: "own_private u e \<Longrightarrow> own_private u (overwrite now title sz v e)"
  by (simp add: own_private_def overwrite_def Let_def)

lemma overwrite_live: "mi_deleted_at_ms (overwrite now title sz v e) = None"
  by (simp add: overwrite_def Let_def)

lemma new_item_own: "own_private u (new_item uid layer pk title sz created now u ''private'')"
  by (simp add: own_private_def new_item_def)

text \<open>What a private create leaves behind, whichever branch it took.\<close>

lemma record_create_private_row:
  assumes "record_create now uid t layer key title sz u ''private'' shared = Inr (t', en)"
  obtains pk r where "physical_key u key = Inr pk" "row_at t' layer pk = Some r" "own_private u r"
    "mi_deleted_at_ms r = None" "mi_title r = title" "mi_size_bytes r = sz" "en = from_row r"
  using assms
proof (cases rule: record_create_private_cases)
  case (own pk e)
  then show thesis
    using that [of pk "overwrite now title sz u e"] overwrite_row_Inr [OF own(4,2)]
    by (simp add: overwrite_own overwrite_live) (simp add: overwrite_def Let_def)
next
  case (legacy pk e)
  then show thesis
    using that [of pk "new_item uid layer pk title sz (mi_created_at_ms e) now u ''private''"]
      copy_forward_Inr [OF legacy(6,3)]
    by (simp add: new_item_own physical_key_Inr) (simp add: new_item_def)
next
  case (new pk)
  then show thesis
    using that [of pk "new_item uid layer pk title sz now now u ''private''"] insert_new_Inr [OF new(3)]
    by (simp add: new_item_own) (simp add: new_item_def)
qed

text \<open>
  Whichever branch a private create takes (overwrite, revival, copy forward of a legacy row,
  insert), the next read of the same logical key returns the entry it answered: private, live,
  owned by the caller, at the caller's logical key and with the given title and size.
\<close>

lemma create_then_read:
  assumes "record_create now uid t layer key title sz (uc_user_id user) ''private'' shared = Inr (t', en)"
  shows "resolve_read_entry t' layer key user = Inr (Some en) \<and> me_key en = key \<and>
    me_tier en = ''private'' \<and> me_created_by en = uc_user_id user \<and>
    me_title en = title \<and> me_size_bytes en = sz \<and> me_deleted_at_ms en = None"
proof -
  from assms obtain pk r where r: "physical_key (uc_user_id user) key = Inr pk"
      "row_at t' layer pk = Some r" "own_private (uc_user_id user) r" "mi_deleted_at_ms r = None"
      "mi_title r = title" "mi_size_bytes r = sz" "en = from_row r"
    by (rule record_create_private_row)
  have "validate_layer layer = Inr ()" using assms by (auto simp: record_create_private res_bind_Inr_iff)
  moreover have "me_key en = key" using r from_row_own row_at_Some by blast
  ultimately show ?thesis
    using r read_row_own [OF r(1-3)]
    by (simp add: resolve_read_entry_def) (simp add: from_row_def own_private_def)
qed

section \<open>Updates\<close>

lemma update_fields_sel [simp]:
  "mi_tier (update_fields now title sz v e) = mi_tier e"
  "mi_key (update_fields now title sz v e) = mi_key e"
  "mi_layer (update_fields now title sz v e) = mi_layer e"
  "mi_created_by (update_fields now title sz v e) = mi_created_by e"
  "mi_deleted_at_ms (update_fields now title sz v e) = mi_deleted_at_ms e"
  by (simp_all add: update_fields_def)

lemma update_fields_own [simp]: "own_private u (update_fields now title sz v e) = own_private u e"
  by (simp add: own_private_def)

lemma own_same_place: "same_place r e \<Longrightarrow> own_private u r = own_private u e"
  by (simp add: same_place_def own_private_def)

text \<open>A change in place of the row a read finds is what the next read finds.\<close>

lemma read_row_put:
  assumes "read_row t layer key u = Some e" and sp: "same_place r e"
  shows "read_row (put_row r t) layer key u = Some r"
proof (cases "\<exists>pk. physical_key u key = Inr pk \<and> row_at t layer pk = Some e \<and> own_private u e")
  case True
  then obtain pk where pk: "physical_key u key = Inr pk" "row_at t layer pk = Some e" "own_private u e"
    by blast
  show ?thesis
    by (rule read_row_own [OF pk(1) row_at_put_row_same [OF pk(2) sp]])
      (simp add: own_same_place [OF sp] pk(3))
next
  case False
  with assms(1) have e: "row_at t layer key = Some e" "own_private u e \<or> mi_tier e = ''corpus''"
    by (auto elim!: read_row_cases)
  have bare: "readable_bare u (row_at (put_row r t) layer key) = Some r"
    using row_at_put_row_same [OF e(1) sp] e(2) own_same_place [OF sp] sp
    by (auto simp: readable_bare_def same_place_def)
  show ?thesis
  proof (cases "physical_key u key")
    case (Inl err)
    with bare show ?thesis by (simp add: read_row_eq)
  next
    case (Inr pk)
    have "pk \<noteq> key" using Inr by (auto simp: physical_key_Inr)
    then have o: "row_at (put_row r t) layer pk = row_at t layer pk"
      using row_at_Some [OF e(1)] sp by (intro row_at_put_row_other) (simp add: same_place_def)
    have "\<not> own_private u x" if "row_at t layer pk = Some x" for x
      using that False assms(1) Inr by (auto simp: read_row_eq)
    with bare o Inr show ?thesis by (cases "row_at t layer pk") (simp_all add: read_row_eq)
  qed
qed

text \<open>
  An update answers the entry the next read returns; it keeps the creation time, the
  creator and the tier of the row it found (also when it copies a legacy row forward), writes the
  size, keeps the title when none is given, and never leaves a tombstone.
\<close>

lemma update_then_read:
  assumes "record_update now uid t layer key sz (uc_user_id user) title shared = Inr (t', en)"
    and "read_row t layer key (uc_user_id user) = Some e"
  shows "resolve_read_entry t' layer key user = Inr (Some en) \<and>
    me_created_at_ms en = mi_created_at_ms e \<and> me_created_by en = mi_created_by e \<and>
    me_tier en = mi_tier e \<and> me_size_bytes en = sz \<and>
    me_title en = (if title \<noteq> None then title else mi_title e) \<and>
    me_deleted_at_ms en = None \<and> me_modified_by en = uc_user_id user \<and> me_modified_at_ms en = now"
proof -
  let ?u = "uc_user_id user"
  have v: "validate_layer layer = Inr ()" using assms(1) by (auto simp: record_update_eq res_bind_Inr_iff)
  have live: "mi_deleted_at_ms e = None" and auth: "\<not> tier_write_unauthorized (mi_tier e) shared"
    using assms(1) by (auto simp: record_update_eq assms(2) v split: if_splits)
  show ?thesis
  proof (cases "mi_tier e = ''private'' \<and> mi_key e = key")
    case True
    then obtain pk where pk: "physical_key ?u key = Inr pk" and
        cf: "copy_forward now uid t layer key pk (if title \<noteq> None then title else mi_title e) sz ?u e = Inr (t', en)"
      using assms(1) live auth by (auto simp: record_update_eq assms(2) v res_bind_Inr_iff split: if_splits)
    from assms(2) True have bare: "row_at t layer key = Some e" "own_private ?u e"
      by (auto elim!: read_row_cases dest: row_at_Some simp: own_private_def)
    have "key \<noteq> pk" using pk by (auto simp: physical_key_Inr)
    from copy_forward_Inr [OF cf bare(1) this] show ?thesis
      using pk v bare(2) read_row_own [OF pk, of t' layer]
      by (simp add: resolve_read_entry_def new_item_own) (simp add: from_row_def new_item_def own_private_def)
  next
    case False
    let ?e = "update_fields now title sz ?u e"
    from False assms(1) live auth have t': "t' = put_row ?e t" "en = from_row ?e"
      by (auto simp: record_update_eq assms(2) v res_bind_Inr_iff commit_or_conflict_Inr Let_def split: if_splits)
    have "read_row t' layer key ?u = Some ?e"
      unfolding t' by (rule read_row_put [OF assms(2)]) simp
    then show ?thesis
      using live t'(2) v by (simp add: resolve_read_entry_def) (simp add: from_row_def update_fields_def)
  qed
qed

section \<open>Deletes\<close>

text \<open>
  A delete leaves a tombstone: the row is reported by the tombstone query, appears in no
  list of live rows whoever asks, stays readable as deleted, and deleting it again changes nothing.
\<close>

lemma delete_hides:
  assumes "record_delete now t layer key (uc_user_id user) shared = Inr (t', en)"
    and "uq_layer_key t"
  shows "me_deleted_at_ms en \<noteq> None \<and>
    resolve_read_entry t' layer key user = Inr (Some en) \<and>
    get_deleted_keys t' layer [me_storage_key en] = Inr {me_storage_key en} \<and>
    (\<forall>es e caller. list_for_layer t' layer False caller = Inr es \<and> e \<in> set es \<longrightarrow>
       me_storage_key e \<noteq> me_storage_key en) \<and>
    record_delete later t' layer key (uc_user_id user) shared = Inr (t', en)"
proof -
  let ?u = "uc_user_id user"
  have v: "validate_layer layer = Inr ()" using assms(1) by (auto simp: record_delete_def res_bind_Inr_iff)
  obtain e where e: "read_row t layer key ?u = Some e"
    using assms(1) by (cases "read_row t layer key ?u") (auto simp: record_delete_def res_bind_Inr_iff)
  have auth: "\<not> tier_write_unauthorized (mi_tier e) shared"
    using assms(1) by (auto simp: record_delete_def v e split: if_splits)
  define r where "r = (if mi_deleted_at_ms e = None then tombstone now ?u e else e)"
  have sp: "same_place r e" by (simp add: r_def) (simp add: same_place_def)
  have r: "mi_deleted_at_ms r \<noteq> None" by (simp add: r_def tombstone_def)
  have en: "en = from_row r" and t': "t' = t \<and> r = e \<or> t' = put_row r t"
    using assms(1) auth
    by (auto simp: record_delete_def v e r_def res_bind_Inr_iff commit_plain_Inr Let_def split: if_splits)
  have rd: "read_row t' layer key ?u = Some r" using t' read_row_put [OF e sp] e by auto
  have uq: "uq_layer_key t'" using t' assms(2) by auto
  have mem: "r \<in> set t'" "mi_layer r = layer" using read_row_found [OF rd] by auto
  have only: "x = r" if "x \<in> set t'" "mi_layer x = layer" "mi_key x = mi_key r" for x
    using uq_unique [OF uq that(1) mem(1)] that mem(2) by simp
  have "set (map mi_key (filter (\<lambda>x. mi_layer x = layer \<and> mi_key x \<in> {mi_key r} \<and>
          mi_deleted_at_ms x \<noteq> None) t')) = {mi_key r}"
    using mem r by auto
  then have "get_deleted_keys t' layer [mi_key r] = Inr {mi_key r}"
    by (simp add: get_deleted_keys_def v)
  moreover have "me_storage_key x \<noteq> mi_key r"
    if "list_for_layer t' layer False caller = Inr es" "x \<in> set es" for es x caller
  proof -
    from that obtain y where y: "x = from_row y" "y \<in> set t'" "mi_layer y = layer" "mi_deleted_at_ms y = None"
      by (auto simp: list_for_layer_def v rows_to_entries_def Let_def)
    with only [of y] r show ?thesis by (auto simp: from_row_def)
  qed
  moreover have "record_delete later t' layer key ?u shared = Inr (t', en)"
    using auth sp r by (auto simp: record_delete_def v rd en same_place_def)
  ultimately show ?thesis
    using rd r v unfolding en by (auto simp: resolve_read_entry_def from_row_def)
qed

section \<open>Lists\<close>

lemma entry_visible_view:
  "\<not> uc_is_admin user \<Longrightarrow> entry_visible (Some user) (from_row r) \<Longrightarrow> visible_to (uc_user_id user) r"
  by (auto simp: entry_visible_def from_row_def visible_to_def)

text \<open>
  A caller without the admin flag lists the same entries, in the same order, on any two
  tables that agree on what the caller may see.
\<close>

lemma list_isolation:
  assumes "\<not> uc_is_admin user" and "view (uc_user_id user) t1 = view (uc_user_id user) t2"
  shows "list_for_layer t1 layer incl (Some user) = list_for_layer t2 layer incl (Some user)"
proof -
  have "list_for_layer t layer incl (Some user) = list_for_layer (view (uc_user_id user) t) layer incl (Some user)" for t
  proof (cases "validate_layer layer")
    case (Inl e)
    then show ?thesis by (simp add: list_for_layer_def)
  next
    case (Inr x)
    define q where "q = (\<lambda>r::memory_item. mi_layer r = layer \<and> (incl \<or> mi_deleted_at_ms r = None))"
    define vis where "vis = (\<lambda>r. entry_visible (Some user) (from_row r))"
    have sub: "filter (\<lambda>r. q r \<and> vis r) (filter (visible_to (uc_user_id user)) t) = filter (\<lambda>r. q r \<and> vis r) t"
      unfolding filter_filter using entry_visible_view [OF assms(1)]
      by (intro filter_cong refl) (auto simp: vis_def)
    have "list_for_layer s layer incl (Some user) =
        Inr (map from_row (sort_key (\<lambda>r. - mi_modified_at_ms r) (filter (\<lambda>r. q r \<and> vis r) s)))" for s :: table
      using Inr
      by (auto simp: list_for_layer_def rows_to_entries_def Let_def filter_map o_def filter_sort q_def vis_def
          intro!: arg_cong [where f = "map from_row"] arg_cong [where f = "sort_key _"] filter_cong)
    then show ?thesis using sub by (simp add: view_def)
  qed
  then show ?thesis using assms(2) by metis
qed

section \<open>The owner CHECK\<close>

definition owner_check :: "memory_item \<Rightarrow> bool" where
  "owner_check r \<longleftrightarrow> sql_check_ok (ck_private_key_owner r)"

lemma owner_check_iff:
  "owner_check r \<longleftrightarrow> mi_tier r = ''private'' \<longrightarrow> mi_deleted_at_ms r = None \<longrightarrow>
     py_startswith (mi_key r) (mi_created_by r @ ''/'')"
  by (simp add: owner_check_def ck_private_key_owner_def sql_check_ok_def sql_neq_def sql_eq_def
      sql_cmp_def sql_of_def py_startswith_def split: if_splits)

lemma first_row_error_check:
  "first_row_error ws = Some (IntegrityError m) \<Longrightarrow> \<exists>r \<in> set ws. \<not> owner_check r"
  by (induction ws) (auto simp: owner_check_def split: if_splits)

lemma commit_or_conflict_integrity:
  assumes "res_bind (commit_or_conflict layer key ws t) (\<lambda>t. Inr (f t)) = Inl (IntegrityError m)"
  shows "\<exists>r \<in> set ws. \<not> owner_check r"
  using assms first_row_error_check [of ws m]
  by (auto simp: res_bind_Inl_iff commit_or_conflict_def split: option.splits if_splits)

lemma commit_plain_integrity:
  assumes "res_bind (commit_plain ws t) (\<lambda>t. Inr (f t)) = Inl (IntegrityError m)" and "uq_layer_key t"
  shows "\<exists>r \<in> set ws. \<not> owner_check r"
  using assms first_row_error_check [of ws m]
  by (auto simp: res_bind_Inl_iff commit_plain_def split: option.splits if_splits)

lemma validate_layer_no_integrity: "validate_layer layer \<noteq> Inl (IntegrityError m)"
  by (simp add: validate_layer_def)

lemma physical_key_no_integrity: "physical_key u k \<noteq> Inl (IntegrityError m)"
  by (auto simp: physical_key_Inl)

lemma owner_check_tombstone [simp]: "owner_check (tombstone now v e)"
  by (simp add: owner_check_iff tombstone_def)

lemma owner_check_shared: "mi_tier r \<noteq> ''private'' \<Longrightarrow> owner_check r"
  by (simp add: owner_check_iff)

lemma owner_check_own:
  assumes "physical_key u k = Inr pk" and "own_private u r" and "mi_key r = pk"
  shows "owner_check r"
  using assms by (simp add: owner_check_iff own_private_def physical_key_Inr owner_key_def py_startswith_def)

lemma insert_new_integrity:
  assumes "tier = ''private'' \<Longrightarrow> physical_key u k = Inr pk"
  shows "insert_new now uid t layer key pk title sz u tier \<noteq> Inl (IntegrityError m)"
proof
  let ?r = "new_item uid layer pk title sz now now u tier"
  assume "insert_new now uid t layer key pk title sz u tier = Inl (IntegrityError m)"
  then have "\<not> owner_check ?r"
    unfolding insert_new_def Let_def using commit_or_conflict_integrity by fastforce
  moreover have "owner_check ?r"
    using assms owner_check_own [of u k pk ?r] owner_check_shared [of ?r]
    by (cases "tier = ''private''") (auto simp: own_private_def new_item_def)
  ultimately show False by simp
qed

lemma overwrite_row_integrity:
  assumes "row_at t layer pk = Some e"
    and "mi_tier e = ''private'' \<Longrightarrow> own_private u e \<and> physical_key u k = Inr pk"
  shows "overwrite_row now t layer key title sz v e \<noteq> Inl (IntegrityError m)"
proof
  let ?r = "overwrite now title sz v e"
  assume "overwrite_row now t layer key title sz v e = Inl (IntegrityError m)"
  then have "\<not> owner_check ?r"
    unfolding overwrite_row_def Let_def using commit_or_conflict_integrity by fastforce
  moreover have sp: "same_place ?r e" by simp
  ultimately have "own_private u e \<and> physical_key u k = Inr pk"
    using assms(2) owner_check_shared [of ?r] by (auto simp: same_place_def)
  then have "owner_check ?r"
    using own_same_place [OF sp] sp row_at_Some [OF assms(1)]
    by (intro owner_check_own) (auto simp: same_place_def)
  with \<open>\<not> owner_check ?r\<close> show False by simp
qed

lemma copy_forward_integrity:
  assumes "physical_key u k = Inr pk"
  shows "copy_forward now uid t layer key pk title sz u e \<noteq> Inl (IntegrityError m)"
proof
  let ?r = "new_item uid layer pk title sz (mi_created_at_ms e) now u ''private''"
  assume "copy_forward now uid t layer key pk title sz u e = Inl (IntegrityError m)"
  then have "\<not> owner_check ?r"
    unfolding copy_forward_def Let_def using commit_or_conflict_integrity by fastforce
  moreover have "owner_check ?r"
    by (rule owner_check_own [OF assms]) (simp_all add: own_private_def new_item_def)
  ultimately show False by simp
qed

lemma record_create_integrity:
  "record_create now uid t layer key title sz u tier shared \<noteq> Inl (IntegrityError m)"
proof -
  consider (p) "tier = ''private''" | (c) "tier = ''corpus''" | (o) "tier \<noteq> ''private''" "tier \<noteq> ''corpus''"
    by blast
  then show ?thesis
  proof cases
    case p
    show ?thesis unfolding p
    proof (cases "physical_key u key")
      case (Inl e)
      then show "record_create now uid t layer key title sz u ''private'' shared \<noteq> Inl (IntegrityError m)"
        using physical_key_no_integrity [of u key m]
        by (auto simp: record_create_private res_bind_Inl_iff validate_layer_no_integrity)
    next
      case (Inr pk)
      have "overwrite_row now t layer key title sz u e \<noteq> Inl (IntegrityError m)"
        if "row_at t layer pk = Some e" "own_private u e" for e
        using that Inr by (intro overwrite_row_integrity) auto
      then show "record_create now uid t layer key title sz u ''private'' shared \<noteq> Inl (IntegrityError m)"
        using Inr insert_new_integrity [where pk = pk] copy_forward_integrity [OF Inr]
        by (auto simp: record_create_private res_bind_Inl_iff validate_layer_no_integrity
            split: option.splits if_splits)
    qed
  next
    case c
    have "overwrite_row now t layer key title sz u e \<noteq> Inl (IntegrityError m)"
      if "row_at t layer key = Some e" "mi_tier e \<noteq> ''private''" for e
      using that by (intro overwrite_row_integrity) auto
    then show ?thesis unfolding c
      using insert_new_integrity [of "''corpus''" u key key]
      by (auto simp: record_create_corpus res_bind_Inl_iff validate_layer_no_integrity
          split: option.splits if_splits)
  next
    case o
    then show ?thesis by (auto simp: record_create_other res_bind_Inl_iff validate_layer_no_integrity)
  qed
qed

lemma record_update_integrity:
  "record_update now uid t layer key sz u title shared \<noteq> Inl (IntegrityError m)"
proof (cases "read_row t layer key u")
  case None
  then show ?thesis by (auto simp: record_update_eq res_bind_Inl_iff validate_layer_no_integrity)
next
  case (Some e)
  have "owner_check (update_fields now title sz u e)" if "\<not> (mi_tier e = ''private'' \<and> mi_key e = key)"
    using Some
  proof (cases rule: read_row_cases)
    case (own pk)
    then show ?thesis using row_at_Some [OF own(2)] by (intro owner_check_own [OF own(1)]) simp_all
  next
    case bare
    then show ?thesis using that row_at_Some [OF bare(1)]
      by (intro owner_check_shared) (auto simp: own_private_def)
  qed
  then have "res_bind (commit_or_conflict layer key [update_fields now title sz u e] t') (\<lambda>t. Inr (f t))
      \<noteq> Inl (IntegrityError m)" if "\<not> (mi_tier e = ''private'' \<and> mi_key e = key)" for t' and f :: "table \<Rightarrow> table \<times> manifest_entry"
    using that commit_or_conflict_integrity by fastforce
  moreover have "res_bind (physical_key u key) (\<lambda>pk. copy_forward now uid t layer key pk ti sz u e) \<noteq> Inl (IntegrityError m)" for ti
    using copy_forward_integrity physical_key_no_integrity by (auto simp: res_bind_Inl_iff)
  ultimately show ?thesis
    by (auto simp: record_update_eq res_bind_Inl_iff validate_layer_no_integrity Some Let_def split: if_splits)
qed

lemma record_delete_integrity:
  assumes "uq_layer_key t"
  shows "record_delete now t layer key u shared \<noteq> Inl (IntegrityError m)"
proof -
  have "res_bind (commit_plain [tombstone now u e] (put_row r t)) (\<lambda>t. Inr (f t)) \<noteq> Inl (IntegrityError m)"
    for e r and f :: "table \<Rightarrow> table \<times> manifest_entry"
    using assms commit_plain_integrity by fastforce
  then show ?thesis
    by (auto simp: record_delete_def res_bind_Inl_iff validate_layer_no_integrity Let_def split: option.splits if_splits)
qed

text \<open>
  The owner CHECK of the table never fails a create, an update or a delete. The only
  call it fails is the PDF upsert over the caller's own live legacy row, a private row still at a
  key without its owner prefix.
\<close>

lemma integrity_error_only_legacy_pdf:
  assumes "uq_layer_key t" and "exec c t = Inl (IntegrityError m)"
  shows "\<exists>layer key sz pdf shared e. c_op c = OpUpsertPdf layer key sz pdf shared \<and>
    row_at t layer key = Some e \<and> own_private (c_user c) e \<and> mi_deleted_at_ms e = None \<and>
    \<not> py_startswith key (c_user c @ ''/'')"
proof (cases "c_op c")
  case (OpUpsertPdf layer key sz pdf shared)
  then have u: "upsert_pdf_metadata (c_now c) (c_uid c) t layer key (c_user c) sz pdf shared = Inl (IntegrityError m)"
    using assms(2) by (simp add: exec_def)
  show ?thesis
  proof (cases "row_at t layer key")
    case None
    let ?r = "(new_item (c_uid c) layer key None sz (c_now c) (c_now c) (c_user c) ''corpus'')\<lparr>mi_pdf := pdf\<rparr>"
    have "uq_layer_key (t @ [?r])" using None assms(1) by (simp add: uq_append1 new_item_def)
    moreover have "owner_check ?r" by (rule owner_check_shared) (simp add: new_item_def)
    ultimately have False
      using u None commit_plain_integrity [of "[?r]" "t @ [?r]"]
      by (auto simp: upsert_pdf_metadata_def res_bind_Inl_iff [of "validate_layer layer"] validate_layer_no_integrity Let_def)
    then show ?thesis ..
  next
    case (Some e)
    let ?r = "e\<lparr>mi_modified_at_ms := c_now c, mi_modified_by := c_user c,
        mi_size_bytes := (if sz \<noteq> None then sz else mi_size_bytes e), mi_pdf := pdf\<rparr>"
    have "res_bind (commit_plain [?r] (put_row ?r t)) (\<lambda>t. Inr (t, from_row ?r)) = Inl (IntegrityError m)"
      and f: "\<not> pdf_private_row_foreign (mi_tier e) (mi_created_by e) (c_user c)"
      using u Some
      by (auto simp: upsert_pdf_metadata_def res_bind_Inl_iff [of "validate_layer layer"]
          validate_layer_no_integrity Let_def split: if_splits)
    then have "\<not> owner_check ?r" using commit_plain_integrity [of "[?r]" "put_row ?r t"] assms(1) by auto
    with f Some OpUpsertPdf row_at_Some [OF Some] show ?thesis
      by (auto simp: owner_check_iff own_private_def pdf_private_row_foreign_def)
  qed
qed (use assms in \<open>simp_all add: exec_def record_create_integrity record_update_integrity record_delete_integrity\<close>)

section \<open>Witnesses\<close>

definition ann :: user_context where
  "ann = demo_user ''ann''"

text \<open>Ann writes \<open>b.md\<close>, held by a legacy row of hers: the row is copied forward.\<close>

lemma create_then_read_witness:
  "\<exists>t en. record_create 5 ''i4'' demo_table ''episodic'' ''b.md'' None (Some 9) (uc_user_id ann) ''private'' False
      = Inr (t, en) \<and> resolve_read_entry t ''episodic'' ''b.md'' ann = Inr (Some en)
    \<and> me_storage_key en = ''ann/b.md'' \<and> me_key en = ''b.md''"
proof -
  let ?r = "record_create 5 ''i4'' demo_table ''episodic'' ''b.md'' None (Some 9) (uc_user_id ann) ''private'' False"
  have "case ?r of Inl _ \<Rightarrow> False | Inr (t, en) \<Rightarrow> me_storage_key en = ''ann/b.md''" by code_simp
  then obtain t en where "?r = Inr (t, en)" "me_storage_key en = ''ann/b.md''"
    by (auto split: sum.splits)
  with create_then_read [of 5 "''i4''" demo_table "''episodic''" "''b.md''" None "Some 9" ann False t en]
  show ?thesis by blast
qed

lemma update_then_read_witness:
  "\<exists>t en. record_update 5 ''i4'' demo_table ''episodic'' ''a.md'' (Some 9) (uc_user_id ann) None False
      = Inr (t, en) \<and> resolve_read_entry t ''episodic'' ''a.md'' ann = Inr (Some en)
    \<and> me_size_bytes en = Some 9"
proof -
  let ?r = "record_update 5 ''i4'' demo_table ''episodic'' ''a.md'' (Some 9) (uc_user_id ann) None False"
  have "case ?r of Inl _ \<Rightarrow> False | Inr (t, en) \<Rightarrow> True" by code_simp
  then obtain t en where r: "?r = Inr (t, en)" by (auto split: sum.splits)
  have "read_row demo_table ''episodic'' ''a.md'' (uc_user_id ann)
      = Some (demo_row ''i1'' ''ann/a.md'' ''ann'' ''private'')" by code_simp
  from update_then_read [OF r this] r show ?thesis by blast
qed

lemma delete_hides_witness:
  "\<exists>t en. record_delete 5 demo_table ''episodic'' ''a.md'' (uc_user_id ann) False = Inr (t, en)
    \<and> get_deleted_keys t ''episodic'' [''ann/a.md''] = Inr {''ann/a.md''}
    \<and> record_delete 6 t ''episodic'' ''a.md'' (uc_user_id ann) False = Inr (t, en)"
proof -
  let ?r = "record_delete 5 demo_table ''episodic'' ''a.md'' (uc_user_id ann) False"
  have "case ?r of Inl _ \<Rightarrow> False | Inr (t, en) \<Rightarrow> me_storage_key en = ''ann/a.md''" by code_simp
  then obtain t en where r: "?r = Inr (t, en)" and k: "me_storage_key en = ''ann/a.md''"
    by (auto split: sum.splits)
  have "uq_layer_key demo_table" by code_simp
  from delete_hides [OF r this, of 6] r k show ?thesis by auto
qed

lemma list_isolation_witness:
  "list_for_layer demo_table ''episodic'' True (Some (demo_user ''bob''))
   = list_for_layer [demo_row ''i2'' ''a.md'' ''cur'' ''corpus''] ''episodic'' True (Some (demo_user ''bob''))"
proof (rule list_isolation)
  show "\<not> uc_is_admin (demo_user ''bob'')" by (simp add: demo_user_def)
  show "view (uc_user_id (demo_user ''bob'')) demo_table
      = view (uc_user_id (demo_user ''bob'')) [demo_row ''i2'' ''a.md'' ''cur'' ''corpus'']" by code_simp
qed

lemma integrity_error_only_legacy_pdf_witness:
  "\<exists>m. exec \<lparr>c_now = 5, c_uid = ''i4'', c_user = ''ann'',
         c_op = OpUpsertPdf ''episodic'' ''b.md'' None no_pdf False\<rparr> demo_table = Inl (IntegrityError m)
     \<and> (\<exists>e. row_at demo_table ''episodic'' ''b.md'' = Some e \<and> own_private ''ann'' e)"
proof -
  let ?c = "\<lparr>c_now = 5, c_uid = ''i4'', c_user = ''ann'',
         c_op = OpUpsertPdf ''episodic'' ''b.md'' None no_pdf False\<rparr> :: call"
  have r: "exec ?c demo_table = Inl (IntegrityError ''ck_memory_items_private_key_owner'')" by code_simp
  have "uq_layer_key demo_table" by code_simp
  from integrity_error_only_legacy_pdf [OF this r] r show ?thesis by auto
qed

end
