(* ===== verification/ManifestChoke.thy ===== *)
theory ManifestChoke
  imports ManifestOps
begin

text \<open>
  The authorization choke that runs before any content is written
  (\<open>memory_manifest.authorize_write\<close>). It reads the target through the manifest's \<open>get\<close> and
  decides as the guards inside the service will decide after the content has landed.
\<close>

section \<open>The choke\<close>

definition key_collection :: "string \<Rightarrow> string \<Rightarrow> string option" where
  "key_collection layer key =
     (if layer = ''semantic'' then Some (takeWhile (\<lambda>c. c \<noteq> CHR ''/'') key) else None)"

text \<open>\<open>get\<close> is the manifest service the choke is given.\<close>

definition authorize_write ::
  "(string \<Rightarrow> string \<Rightarrow> (manifest_error, manifest_entry option) res) \<Rightarrow> user_context \<Rightarrow>
   string \<Rightarrow> string \<Rightarrow> string \<Rightarrow> bool \<Rightarrow> (manifest_error, unit) res" where
  "authorize_write get user layer key requested_tier owner_exempt =
     res_bind (validate_layer layer) (\<lambda>_.
     let shared = corpus_write_authorized user (key_collection layer key);
         owner = uc_user_id user in
     if requested_tier = ''corpus'' \<and> \<not> shared then Inl (ManifestAuthorizationError layer key)
     else
     res_bind (if requested_tier = ''private'' then physical_key owner key else Inr key) (\<lambda>target_key.
     res_bind (if target_key \<noteq> key then res_bind (get layer target_key) (\<lambda>e. Inr (entry_facts e))
               else Inr None) (\<lambda>target.
     res_bind (get layer key) (\<lambda>b.
     res_bind (resolve_write layer key owner requested_tier target (entry_facts b)) (\<lambda>resolution.
       case rs_row resolution of
         None \<Rightarrow> Inr ()
       | Some existing \<Rightarrow>
           if rs_kind resolution \<noteq> KCorpus then Inr ()
           else if owner_exempt \<and> \<not> shared \<and> rf_tier existing = ''corpus''
                   \<and> rf_created_by existing = owner then Inr ()
           else if tier_write_unauthorized (rf_tier existing) shared
           then Inl (ManifestAuthorizationError layer key)
           else Inr ())))))"

section \<open>What the choke relies on\<close>

text \<open>
  The contract of \<open>get\<close>: it refuses only an invalid layer, and the facts of what it returns are
  those of the row \<open>stored\<close> at that layer and key.
\<close>

locale manifest_reader =
  fixes get :: "'s \<Rightarrow> string \<Rightarrow> string \<Rightarrow> (manifest_error, manifest_entry option) res"
    and stored :: "'s \<Rightarrow> string \<Rightarrow> string \<Rightarrow> memory_item option"
  assumes get_invalid: "validate_layer layer = Inl e \<Longrightarrow> get s layer key = Inl e"
    and get_total: "validate_layer layer = Inr () \<Longrightarrow>
      \<exists>en. get s layer key = Inr en \<and> entry_facts en = facts (stored s layer key)"
begin

lemma authorize_private:
  "authorize_write (get s) user layer key ''private'' exempt =
     res_bind (validate_layer layer) (\<lambda>_.
     res_bind (physical_key (uc_user_id user) key) (\<lambda>pk.
       case stored s layer pk of
         Some e \<Rightarrow>
           if own_private (uc_user_id user) e then Inr ()
           else Inl (CrossOwnerWriteError (tier_conflict_message layer key))
       | None \<Rightarrow>
           (case stored s layer key of
              None \<Rightarrow> Inr ()
            | Some e \<Rightarrow>
                if mi_tier e = ''corpus'' \<and> \<not> (exempt \<and> mi_created_by e = uc_user_id user)
                   \<and> \<not> corpus_write_authorized user (key_collection layer key)
                then Inl (ManifestAuthorizationError layer key) else Inr ())))"
proof (cases "validate_layer layer")
  case (Inl e)
  then show ?thesis by (simp add: authorize_write_def)
next
  case v: (Inr x)
  show ?thesis
  proof (cases "physical_key (uc_user_id user) key")
    case (Inl e)
    then show ?thesis by (simp add: authorize_write_def v Let_def)
  next
    case (Inr pk)
    then have neq: "pk \<noteq> key" by (auto simp: physical_key_Inr)
    have v': "validate_layer layer = Inr ()" using v by simp
    obtain a b where a: "get s layer pk = Inr a" "entry_facts a = facts (stored s layer pk)"
      and b: "get s layer key = Inr b" "entry_facts b = facts (stored s layer key)"
      using get_total [OF v'] by blast
    show ?thesis
    proof (cases "stored s layer pk")
      case (Some e)
      then show ?thesis using v Inr neq a b
        by (simp add: authorize_write_def resolve_write_private_eq own_private_def Let_def)
    next
      case None
      then show ?thesis using v Inr neq a b
        by (cases "stored s layer key")
          (simp_all add: authorize_write_def resolve_write_private_eq tier_write_unauthorized_def Let_def)
    qed
  qed
qed

lemma authorize_corpus:
  "authorize_write (get s) user layer key ''corpus'' exempt =
     res_bind (validate_layer layer) (\<lambda>_.
       if \<not> corpus_write_authorized user (key_collection layer key)
       then Inl (ManifestAuthorizationError layer key)
       else (case stored s layer key of
               None \<Rightarrow> Inr ()
             | Some e \<Rightarrow>
                 if mi_tier e = ''private'' then Inl (CrossOwnerWriteError (tier_conflict_message layer key))
                 else Inr ()))"
proof (cases "validate_layer layer")
  case (Inl e)
  then show ?thesis by (simp add: authorize_write_def)
next
  case v: (Inr x)
  obtain b where b: "get s layer key = Inr b" "entry_facts b = facts (stored s layer key)"
    using get_total [of layer s key] v by auto
  show ?thesis using v b
    by (cases "stored s layer key")
      (simp_all add: authorize_write_def resolve_write_corpus_eq tier_write_unauthorized_def Let_def)
qed

end

text \<open>The Postgres service is such a reader.\<close>

lemma entry_facts_from_row: "entry_facts (map_option from_row x) = facts x"
  by (cases x) (auto simp: entry_facts_def from_row_def logical_key_def)

interpretation pg: manifest_reader get_entry row_at
proof unfold_locales
  fix layer e s key
  assume "validate_layer layer = Inl e"
  then show "get_entry s layer key = Inl e" by (simp add: get_entry_def)
next
  fix layer s key
  assume "validate_layer layer = Inr ()"
  then show "\<exists>en. get_entry s layer key = Inr en \<and> entry_facts en = facts (row_at s layer key)"
    by (simp add: get_entry_def entry_facts_from_row)
qed

section \<open>Agreement with the guards\<close>

lemma commit_not_authorization:
  "res_bind (commit_or_conflict layer key ws t) (\<lambda>t. Inr (f t)) = Inl e \<Longrightarrow> \<not> is_authorization_error e"
proof -
  have "first_row_error ws = Some e \<Longrightarrow> \<not> is_authorization_error e" for ws e
    by (induction ws) (auto split: if_splits)
  moreover assume "res_bind (commit_or_conflict layer key ws t) (\<lambda>t. Inr (f t)) = Inl e"
  ultimately show ?thesis by (auto simp: commit_or_conflict_def res_bind_Inl_iff split: option.splits if_splits)
qed

lemma branch_not_authorization:
  "insert_new now uid t layer key pk title sz u tier = Inl e \<Longrightarrow> \<not> is_authorization_error e"
  "overwrite_row now t layer key title sz u r = Inl e \<Longrightarrow> \<not> is_authorization_error e"
  "copy_forward now uid t layer key pk title sz u r = Inl e \<Longrightarrow> \<not> is_authorization_error e"
  unfolding insert_new_def overwrite_row_def copy_forward_def Let_def
  by (erule commit_not_authorization)+

text \<open>
  C4: before a private write, the choke refuses exactly the creates the service refuses for
  authorization, with the same error: no content lands for a write the audit row will refuse, and
  no write the service would take is refused.
\<close>

theorem choke_agrees_private:
  assumes "is_authorization_error e"
  shows "authorize_write (get_entry t) user layer key ''private'' False = Inl e \<longleftrightarrow>
    record_create now uid t layer key title sz (uc_user_id user) ''private''
      (corpus_write_authorized user (key_collection layer key)) = Inl e"
proof (cases "validate_layer layer")
  case (Inl x)
  then show ?thesis by (simp add: pg.authorize_private record_create_private)
next
  case v: (Inr x)
  show ?thesis
  proof (cases "physical_key (uc_user_id user) key")
    case (Inl x)
    with v show ?thesis by (simp add: pg.authorize_private record_create_private)
  next
    case pk: (Inr pk)
    show ?thesis
    proof (cases "row_at t layer pk")
      case (Some r)
      with v pk show ?thesis using branch_not_authorization(2) assms
        by (auto simp: pg.authorize_private record_create_private)
    next
      case None
      note n = None
      show ?thesis
      proof (cases "row_at t layer key")
        case None
        with n v pk show ?thesis using branch_not_authorization(1) assms
          by (auto simp: pg.authorize_private record_create_private)
      next
        case (Some r)
        with n v pk show ?thesis using branch_not_authorization(1,3) assms
          by (auto simp: pg.authorize_private record_create_private own_private_def)
      qed
    qed
  qed
qed

text \<open>
  Before a corpus write the choke is the stricter of the two: whatever the service refuses
  for authorization it has already refused, and without the shared-write authorization it refuses
  a new key too, which the service alone would insert.
\<close>

lemma choke_covers_corpus:
  assumes "validate_layer layer = Inr ()"
    and "s = corpus_write_authorized user (key_collection layer key)"
  shows "(\<forall>e. record_create now uid t layer key title sz (uc_user_id user) ''corpus'' s = Inl e \<and>
        is_authorization_error e \<longrightarrow>
        (\<exists>e'. authorize_write (get_entry t) user layer key ''corpus'' False = Inl e' \<and> is_authorization_error e')) \<and>
    (\<not> s \<longrightarrow> authorize_write (get_entry t) user layer key ''corpus'' False = Inl (ManifestAuthorizationError layer key))"
proof (cases "row_at t layer key")
  case None
  with assms show ?thesis using branch_not_authorization(1)
    by (auto simp: pg.authorize_corpus record_create_corpus)
next
  case (Some r)
  with assms show ?thesis using branch_not_authorization(2)
    by (auto simp: pg.authorize_corpus record_create_corpus)
qed

section \<open>The fold of a PDF\<close>

lemma commit_plain_not_authorization:
  "res_bind (commit_plain ws t) (\<lambda>t. Inr (f t)) = Inl e \<Longrightarrow> \<not> is_authorization_error e"
proof -
  have "first_row_error ws = Some e \<Longrightarrow> \<not> is_authorization_error e" for ws e
    by (induction ws) (auto split: if_splits)
  moreover assume "res_bind (commit_plain ws t) (\<lambda>t. Inr (f t)) = Inl e"
  ultimately show ?thesis by (auto simp: commit_plain_def res_bind_Inl_iff split: option.splits if_splits)
qed

text \<open>The refusals of the PDF upsert.\<close>

lemma upsert_refusal:
  assumes "upsert_pdf_metadata now uid t layer key u sz pdf shared = Inl e" and "is_authorization_error e"
  obtains r where "row_at t layer key = Some r"
    "mi_tier r = ''private'' \<and> mi_created_by r \<noteq> u \<or>
     mi_tier r = ''corpus'' \<and> mi_created_by r \<noteq> u \<and> \<not> shared"
proof -
  have v: "validate_layer layer = Inr ()"
    using assms by (cases "validate_layer layer") (auto simp: upsert_pdf_metadata_def validate_layer_def split: if_splits)
  show thesis
  proof (cases "row_at t layer key")
    case None
    with assms v show thesis using commit_plain_not_authorization
      unfolding upsert_pdf_metadata_def Let_def by fastforce
  next
    case (Some r)
    let ?r = "r\<lparr>mi_modified_at_ms := now, mi_modified_by := u,
        mi_size_bytes := (if sz \<noteq> None then sz else mi_size_bytes r), mi_pdf := pdf\<rparr>"
    have "pdf_private_row_foreign (mi_tier r) (mi_created_by r) u \<or>
        pdf_metadata_write_unauthorized (mi_tier r) (mi_created_by r) u shared"
    proof (rule ccontr)
      assume "\<not> ?thesis"
      with assms(1) Some v have "res_bind (commit_plain [?r] (put_row ?r t)) (\<lambda>t. Inr (t, from_row ?r)) = Inl e"
        by (simp add: upsert_pdf_metadata_def Let_def)
      from commit_plain_not_authorization [OF this] assms(2) show False by simp
    qed
    with Some that show thesis
      by (auto simp: pdf_private_row_foreign_def pdf_metadata_write_unauthorized_def split: if_splits)
  qed
qed

text \<open>
  What the choke of the PDF fold lets through and the service then refuses, after the
  content was written: a fold over another user's private row at the bare key, and a fold by the
  holder of an own private row over another's corpus row at the bare key. Nothing else.
\<close>

lemma pdf_choke_gap:
  assumes "authorize_write (get_entry t) user layer key ''private'' True = Inr ()"
    and "upsert_pdf_metadata now uid t layer key (uc_user_id user) sz pdf
           (corpus_write_authorized user (key_collection layer key)) = Inl e"
    and "is_authorization_error e"
  shows "\<exists>r. row_at t layer key = Some r \<and> mi_created_by r \<noteq> uc_user_id user \<and>
    (mi_tier r = ''private'' \<or>
     mi_tier r = ''corpus'' \<and> (\<exists>pk own. physical_key (uc_user_id user) key = Inr pk \<and>
        row_at t layer pk = Some own \<and> own_private (uc_user_id user) own))"
proof -
  let ?s = "corpus_write_authorized user (key_collection layer key)"
  from assms(2,3) obtain r where r: "row_at t layer key = Some r"
      "mi_tier r = ''private'' \<and> mi_created_by r \<noteq> uc_user_id user \<or>
       mi_tier r = ''corpus'' \<and> mi_created_by r \<noteq> uc_user_id user \<and> \<not> ?s"
    by (rule upsert_refusal)
  show ?thesis
  proof (cases "mi_tier r = ''private''")
    case True
    with r show ?thesis by auto
  next
    case False
    with r have c: "mi_tier r = ''corpus''" "mi_created_by r \<noteq> uc_user_id user" "\<not> ?s" by auto
    from assms(1) obtain pk where v: "validate_layer layer = Inr ()"
        and pk: "physical_key (uc_user_id user) key = Inr pk"
      by (auto simp: pg.authorize_private res_bind_Inr_iff)
    have "\<exists>own. row_at t layer pk = Some own \<and> own_private (uc_user_id user) own"
    proof (cases "row_at t layer pk")
      case None
      with assms(1) c r(1) v pk show ?thesis by (simp add: pg.authorize_private)
    next
      case (Some o')
      with assms(1) v pk show ?thesis by (auto simp: pg.authorize_private split: if_splits)
    qed
    with pk c r(1) show ?thesis by blast
  qed
qed

section \<open>Witnesses\<close>

text \<open>Bob's private write over a corpus key, without the shared-write authorization.\<close>

theorem choke_agrees_private_witness:
  "authorize_write (get_entry demo_table) (demo_user ''bob'') ''episodic'' ''a.md'' ''private'' False
     = Inl (ManifestAuthorizationError ''episodic'' ''a.md'')
   \<and> record_create 5 ''i4'' demo_table ''episodic'' ''a.md'' None None (uc_user_id (demo_user ''bob''))
      ''private'' (corpus_write_authorized (demo_user ''bob'') (key_collection ''episodic'' ''a.md''))
     = Inl (ManifestAuthorizationError ''episodic'' ''a.md'')"
proof -
  have a: "is_authorization_error (ManifestAuthorizationError ''episodic'' ''a.md'')" by simp
  have "authorize_write (get_entry demo_table) (demo_user ''bob'') ''episodic'' ''a.md'' ''private'' False
     = Inl (ManifestAuthorizationError ''episodic'' ''a.md'')" by code_simp
  with choke_agrees_private [OF a, of demo_table "demo_user ''bob''" "''episodic''" "''a.md''" 5 "''i4''" None None]
  show ?thesis by blast
qed

lemma choke_covers_corpus_witness:
  "\<exists>e. authorize_write (get_entry demo_table) (demo_user ''bob'') ''episodic'' ''b.md'' ''corpus'' False = Inl e
     \<and> is_authorization_error e"
proof -
  let ?s = "corpus_write_authorized (demo_user ''bob'') (key_collection ''episodic'' ''b.md'')"
  have v: "validate_layer ''episodic'' = Inr ()" by code_simp
  have "case record_create 5 ''i4'' demo_table ''episodic'' ''b.md'' None None
      (uc_user_id (demo_user ''bob'')) ''corpus'' ?s of Inl e \<Rightarrow> is_authorization_error e | Inr _ \<Rightarrow> False"
    by code_simp
  then obtain e where "record_create 5 ''i4'' demo_table ''episodic'' ''b.md'' None None
      (uc_user_id (demo_user ''bob'')) ''corpus'' ?s = Inl e" "is_authorization_error e"
    by (auto split: sum.splits)
  with choke_covers_corpus [OF v refl, of 5 "''i4''" demo_table "''b.md''" None None "demo_user ''bob''"]
  show ?thesis by blast
qed

text \<open>Bob folds a PDF at the bare key of Ann's legacy private row.\<close>

lemma pdf_choke_gap_witness:
  "authorize_write (get_entry demo_table) (demo_user ''bob'') ''episodic'' ''b.md'' ''private'' True = Inr ()
   \<and> (\<exists>e r. upsert_pdf_metadata 5 ''i4'' demo_table ''episodic'' ''b.md'' (uc_user_id (demo_user ''bob''))
        None no_pdf (corpus_write_authorized (demo_user ''bob'') (key_collection ''episodic'' ''b.md'')) = Inl e
      \<and> is_authorization_error e
      \<and> row_at demo_table ''episodic'' ''b.md'' = Some r \<and> mi_created_by r \<noteq> ''bob'')"
proof -
  let ?s = "corpus_write_authorized (demo_user ''bob'') (key_collection ''episodic'' ''b.md'')"
  have a: "authorize_write (get_entry demo_table) (demo_user ''bob'') ''episodic'' ''b.md'' ''private'' True = Inr ()"
    by code_simp
  have "case upsert_pdf_metadata 5 ''i4'' demo_table ''episodic'' ''b.md'' (uc_user_id (demo_user ''bob''))
      None no_pdf ?s of Inl e \<Rightarrow> is_authorization_error e | Inr _ \<Rightarrow> False" by code_simp
  then obtain e where e: "upsert_pdf_metadata 5 ''i4'' demo_table ''episodic'' ''b.md''
      (uc_user_id (demo_user ''bob'')) None no_pdf ?s = Inl e" "is_authorization_error e"
    by (auto split: sum.splits)
  from pdf_choke_gap [OF a e] obtain r where "row_at demo_table ''episodic'' ''b.md'' = Some r"
    "mi_created_by r \<noteq> uc_user_id (demo_user ''bob'')" by blast
  with a e show ?thesis by (auto simp: demo_user_def)
qed

end
