(* ===== verification/Acl.thy ===== *)
theory Acl
  imports Identity "HOL-Library.Word"
begin

unbundle bit_operations_syntax

text \<open>
  The table \<open>console_acl_entries\<close> (\<open>services/console_acl/__init__.py\<close>, \<open>db/models.py\<close>): its rows,
  the constants shared with the console, and what the migrations 031 to 033 enforce below the
  application: the CHECK constraints, the row-level policies with their ownership subquery, and
  the two partial unique indexes.
\<close>

section \<open>Constants\<close>

definition PRINCIPAL_TYPE_USER :: string where "PRINCIPAL_TYPE_USER = ''user''"
definition PRINCIPAL_TYPE_PUBLIC :: string where "PRINCIPAL_TYPE_PUBLIC = ''public''"
definition PRINCIPAL_TYPE_ROLE :: string where "PRINCIPAL_TYPE_ROLE = ''role''"

definition ALLOWED_PRINCIPAL_TYPES :: "string list" where
  "ALLOWED_PRINCIPAL_TYPES = [PRINCIPAL_TYPE_USER, PRINCIPAL_TYPE_PUBLIC, PRINCIPAL_TYPE_ROLE]"

definition PRINCIPAL_MODEL_USER :: string where "PRINCIPAL_MODEL_USER = ''User''"
definition PRINCIPAL_MODEL_ROLE :: string where "PRINCIPAL_MODEL_ROLE = ''Role''"

definition RESOURCE_TYPES :: "string list" where
  "RESOURCE_TYPES = [''agent'', ''promptGroup'', ''mcpServer'', ''remoteAgent'', ''skill'', ''sharedLink'']"

definition PERMISSION_BIT_VIEW :: int where "PERMISSION_BIT_VIEW = 1"
definition PERMISSION_BIT_EDIT :: int where "PERMISSION_BIT_EDIT = 2"
definition PERMISSION_BIT_DELETE :: int where "PERMISSION_BIT_DELETE = 4"
definition PERMISSION_BIT_SHARE :: int where "PERMISSION_BIT_SHARE = 8"

definition MAX_PERM_BITS :: int where
  "MAX_PERM_BITS = PERMISSION_BIT_VIEW OR PERMISSION_BIT_EDIT OR PERMISSION_BIT_DELETE OR PERMISSION_BIT_SHARE"

definition OWNER_PERMISSION_BITS :: int where "OWNER_PERMISSION_BITS = MAX_PERM_BITS"

lemmas acl_constants = PRINCIPAL_TYPE_USER_def PRINCIPAL_TYPE_PUBLIC_def PRINCIPAL_TYPE_ROLE_def
  PRINCIPAL_MODEL_USER_def PRINCIPAL_MODEL_ROLE_def

lemma MAX_PERM_BITS_eq: "MAX_PERM_BITS = 15"
  by (simp add: MAX_PERM_BITS_def PERMISSION_BIT_VIEW_def PERMISSION_BIT_EDIT_def
      PERMISSION_BIT_DELETE_def PERMISSION_BIT_SHARE_def)

section \<open>Rows\<close>

text \<open>The columns of \<open>ConsoleAclEntry\<close>; a row of the mock has no trace.\<close>

record acl_entry =
  ae_id :: string
  ae_user_sub :: string
  ae_principal_type :: string
  ae_principal_id :: "string option"
  ae_principal_model :: "string option"
  ae_resource_type :: string
  ae_resource_id :: string
  ae_perm_bits :: int
  ae_tenant_id :: "string option"
  ae_role_id :: "string option"
  ae_inherited_from :: "string option"
  ae_granted_by :: "string option"
  ae_granted_at_ms :: int
  ae_expired_at_ms :: "int option"
  ae_created_at_ms :: int
  ae_updated_at_ms :: int
  ae_trace_id :: "string option"

type_synonym acl_table = "acl_entry list"

text \<open>One operation of a bulk grant, and the fields of a single grant.\<close>

record acl_grant_op =
  go_principal_type :: string
  go_principal_id :: "string option"
  go_resource_type :: string
  go_resource_id :: string
  go_perm_bits :: int
  go_role_id :: "string option"
  go_expired_at_ms :: "int option"
  go_tenant_id :: "string option"

text \<open>The caller as a user principal, and the public principal; nothing a caller supplies.\<close>

definition caller_principals :: "user_context \<Rightarrow> (string \<times> string option) list" where
  "caller_principals user = [(PRINCIPAL_TYPE_USER, Some (uc_user_id user)), (PRINCIPAL_TYPE_PUBLIC, None)]"

section \<open>CHECK constraints\<close>

definition ck_principal_type :: "acl_entry \<Rightarrow> sqlbool" where
  "ck_principal_type r = sql_of (ae_principal_type r \<in> {''user'', ''public'', ''role''})"

definition ck_public_principal_null :: "acl_entry \<Rightarrow> sqlbool" where
  "ck_public_principal_null r =
     sql_or (sql_and (sql_of (ae_principal_type r = ''public''))
               (sql_and (sql_is_null (ae_principal_id r)) (sql_is_null (ae_principal_model r))))
            (sql_and (sql_of (ae_principal_type r \<noteq> ''public''))
               (sql_and (sql_of (ae_principal_id r \<noteq> None)) (sql_of (ae_principal_model r \<noteq> None))))"

definition ck_principal_model_matches_type :: "acl_entry \<Rightarrow> sqlbool" where
  "ck_principal_model_matches_type r =
     sql_or (sql_or (sql_and (sql_of (ae_principal_type r = ''user'')) (sql_eq (ae_principal_model r) (Some ''User'')))
                    (sql_and (sql_of (ae_principal_type r = ''role'')) (sql_eq (ae_principal_model r) (Some ''Role''))))
            (sql_and (sql_of (ae_principal_type r = ''public'')) (sql_is_null (ae_principal_model r)))"

definition ck_perm_bits_range :: "acl_entry \<Rightarrow> sqlbool" where
  "ck_perm_bits_range r = sql_and (sql_of (0 \<le> ae_perm_bits r)) (sql_of (ae_perm_bits r \<le> 15))"

section \<open>Row-level policies\<close>

text \<open>\<open>guc\<close> is the setting \<open>app.current_user_id\<close>, NULL when unset.\<close>

definition rls_select :: "string option \<Rightarrow> acl_entry \<Rightarrow> sqlbool" where
  "rls_select guc r =
     sql_or (sql_or (sql_eq (Some (ae_user_sub r)) guc)
                    (sql_and (sql_of (ae_principal_type r = ''user'')) (sql_eq (ae_principal_id r) guc)))
            (sql_of (ae_principal_type r = ''public''))"

definition rls_owner_only :: "string option \<Rightarrow> acl_entry \<Rightarrow> sqlbool" where
  "rls_owner_only guc r = sql_eq (Some (ae_user_sub r)) guc"

text \<open>The rows of the stores the ownership subquery reads: agents and prompt groups.\<close>

record store_row =
  sr_id :: string
  sr_user_sub :: string
  sr_deleted_at_ms :: "int option"

record resource_stores =
  rs_agents :: "store_row list"
  rs_prompt_groups :: "store_row list"

definition live_own :: "string option \<Rightarrow> string \<Rightarrow> store_row list \<Rightarrow> bool" where
  "live_own guc rid rows \<longleftrightarrow>
     (\<exists>s \<in> set rows. sql_holds (sql_and (sql_of (sr_id s = rid))
        (sql_and (sql_eq (Some (sr_user_sub s)) guc) (sql_is_null (sr_deleted_at_ms s)))))"

definition ownership_subquery :: "resource_stores \<Rightarrow> string option \<Rightarrow> acl_entry \<Rightarrow> sqlbool" where
  "ownership_subquery stores guc r =
     sql_or (sql_and (sql_of (ae_resource_type r = ''agent''))
               (sql_of (live_own guc (ae_resource_id r) (rs_agents stores))))
            (sql_and (sql_of (ae_resource_type r = ''promptGroup''))
               (sql_of (live_own guc (ae_resource_id r) (rs_prompt_groups stores))))"

text \<open>The WITH CHECK of the insert and the update policy.\<close>

definition rls_write_check :: "resource_stores \<Rightarrow> string option \<Rightarrow> acl_entry \<Rightarrow> sqlbool" where
  "rls_write_check stores guc r = sql_and (rls_owner_only guc r) (ownership_subquery stores guc r)"

section \<open>Unique indexes\<close>

text \<open>
  At most one public row per resource, expired or not; and at most one row without an expiry per
  grant key, where two absent identifiers count as equal.
\<close>

definition grant_key :: "acl_entry \<Rightarrow> string \<times> string option \<times> string \<times> string \<times> string option" where
  "grant_key r = (ae_principal_type r, ae_principal_id r, ae_resource_type r, ae_resource_id r, ae_tenant_id r)"

definition uq_public_resource :: "acl_table \<Rightarrow> bool" where
  "uq_public_resource t \<longleftrightarrow>
     distinct (map (\<lambda>r. (ae_resource_type r, ae_resource_id r)) (filter (\<lambda>r. ae_principal_type r = ''public'') t))"

definition uq_active_grant :: "acl_table \<Rightarrow> bool" where
  "uq_active_grant t \<longleftrightarrow> distinct (map grant_key (filter (\<lambda>r. ae_expired_at_ms r = None) t))"

section \<open>Bits\<close>

definition contains_bits :: "int \<Rightarrow> int \<Rightarrow> bool" where
  "contains_bits bits required \<longleftrightarrow> bits AND required = required"

lemma contains_bits_iff: "contains_bits b c \<longleftrightarrow> (\<forall>n. bit c n \<longrightarrow> bit b n)"
  unfolding contains_bits_def by (auto simp: bit_eq_iff bit_and_iff)

lemma contains_bits_or: "contains_bits b c \<Longrightarrow> contains_bits (a OR b) c \<and> contains_bits (b OR a) c"
  by (auto simp: contains_bits_iff bit_or_iff)

text \<open>For one bit, containment in a union is containment in a part.\<close>

lemma contains_single_or:
  "contains_bits (a OR b) (2 ^ n) \<longleftrightarrow> contains_bits a (2 ^ n) \<or> contains_bits b (2 ^ n)"
  by (auto simp: contains_bits_iff bit_or_iff bit_exp_iff)

definition union_bits :: "int list \<Rightarrow> int" where
  "union_bits = foldl (\<lambda>a b. a OR b) 0"

lemma foldl_or: "foldl (\<lambda>a b. a OR b) (x :: int) bs = x OR foldl (\<lambda>a b. a OR b) 0 bs"
proof (induction bs arbitrary: x)
  case Nil
  then show ?case by simp
next
  case (Cons b bs)
  have "foldl (\<lambda>a b. a OR b) x (b # bs) = (x OR b) OR foldl (\<lambda>a b. a OR b) 0 bs"
    using Cons.IH [of "x OR b"] by simp
  also have "\<dots> = x OR (b OR foldl (\<lambda>a b. a OR b) 0 bs)" by (rule or.assoc)
  also have "\<dots> = x OR foldl (\<lambda>a b. a OR b) 0 (b # bs)"
    using Cons.IH [of b] by simp
  finally show ?case .
qed

lemma union_bits_Nil [simp]: "union_bits [] = 0"
  by (simp add: union_bits_def)

lemma union_bits_Cons [simp]: "union_bits (b # bs) = b OR union_bits bs"
  unfolding union_bits_def using foldl_or [of b bs] by simp

lemma contains_zero [simp]: "\<not> contains_bits 0 (2 ^ n)"
  by (simp add: contains_bits_def)

lemma contains_union_bits:
  "contains_bits (union_bits bs) (2 ^ n) \<longleftrightarrow> (\<exists>b \<in> set bs. contains_bits b (2 ^ n))"
  by (induction bs) (auto simp: contains_single_or)

lemma union_bits_contains: "b \<in> set bs \<Longrightarrow> contains_bits b c \<Longrightarrow> contains_bits (union_bits bs) c"
  by (induction bs) (auto dest: contains_bits_or)

end
