(* ===== verification/Integrity.thy ===== *)
theory Integrity
  imports Prelude
begin

text \<open>
  The content hash of audit rows (\<open>src/audittrace/integrity.py\<close>): a digest over a canonical JSON
  rendering of the immutable fields. The digest function of the library is the parameter \<open>sha\<close>.
\<close>

section \<open>JSON text\<close>

definition hex4 :: "nat \<Rightarrow> string" where
  "hex4 n = [CHR ''0'', CHR ''0'', hex_digit (n div 16), hex_digit (n mod 16)]"

text \<open>A character of a JSON string, with the characters above ASCII escaped.\<close>

definition json_char :: "char \<Rightarrow> string" where
  "json_char c =
     (let n = (of_char c :: nat) in
      if n = 34 \<or> n = 92 then [CHR 0x5C, c]
      else if n = 10 then [CHR 0x5C, CHR ''n'']
      else if n = 13 then [CHR 0x5C, CHR ''r'']
      else if n = 9 then [CHR 0x5C, CHR ''t'']
      else if n = 8 then [CHR 0x5C, CHR ''b'']
      else if n = 12 then [CHR 0x5C, CHR ''f'']
      else if 32 \<le> n \<and> n < 128 then [c]
      else [CHR 0x5C, CHR ''u''] @ hex4 n)"

definition json_string :: "string \<Rightarrow> string" where
  "json_string s = [CHR 0x22] @ concat (map json_char s) @ [CHR 0x22]"

fun join :: "string \<Rightarrow> string list \<Rightarrow> string" where
  "join sep [] = []"
| "join sep [x] = x"
| "join sep (x # y # xs) = x @ sep @ join sep (y # xs)"

text \<open>
  \<open>json.dumps(v, sort_keys=True)\<close> with the two separators given. The entries of a dict are
  rendered and then put in the order of their keys.
\<close>

fun json_dumps :: "string \<Rightarrow> string \<Rightarrow> pyval \<Rightarrow> string"
  and json_list :: "string \<Rightarrow> string \<Rightarrow> pyval list \<Rightarrow> string list"
  and json_items :: "string \<Rightarrow> string \<Rightarrow> (string \<times> pyval) list \<Rightarrow> (string \<times> string) list" where
  "json_dumps isep ksep PNone = ''null''"
| "json_dumps isep ksep (PBool b) = (if b then ''true'' else ''false'')"
| "json_dumps isep ksep (PInt i) = py_str_int i"
| "json_dumps isep ksep (PFloat f) = f"
| "json_dumps isep ksep (PStr s) = json_string s"
| "json_dumps isep ksep (PList xs) = ''['' @ join isep (json_list isep ksep xs) @ '']''"
| "json_dumps isep ksep (PDict kvs) =
     ''{'' @ join isep (map (\<lambda>(k, v). json_string k @ ksep @ v) (sort_key fst (json_items isep ksep kvs))) @ ''}''"
| "json_list isep ksep [] = []"
| "json_list isep ksep (x # xs) = json_dumps isep ksep x # json_list isep ksep xs"
| "json_items isep ksep [] = []"
| "json_items isep ksep ((k, v) # kvs) = (k, json_dumps isep ksep v) # json_items isep ksep kvs"

definition py_opt_str :: "string option \<Rightarrow> pyval" where
  "py_opt_str x = (case x of None \<Rightarrow> PNone | Some s \<Rightarrow> PStr s)"

definition py_opt_int :: "int option \<Rightarrow> pyval" where
  "py_opt_int x = (case x of None \<Rightarrow> PNone | Some i \<Rightarrow> PInt i)"

section \<open>The hash\<close>

definition CONTENT_FIELDS :: "string list" where
  "CONTENT_FIELDS = [''project'', ''source'', ''question'', ''answer'', ''prompt_tokens'',
     ''completion_tokens'', ''timestamp'', ''session_id'', ''model'', ''user_id'', ''status'',
     ''failure_class'', ''error_detail'', ''duration_ms'', ''trace_id'', ''event_class'']"

text \<open>A field the mapping lacks reads as \<open>None\<close>.\<close>

definition content_payload :: "(string \<rightharpoonup> pyval) \<Rightarrow> pyval" where
  "content_payload fields =
     PDict (map (\<lambda>k. (k, case fields k of None \<Rightarrow> PNone | Some v \<Rightarrow> v)) CONTENT_FIELDS)"

definition content_hash :: "(string \<Rightarrow> string) \<Rightarrow> (string \<rightharpoonup> pyval) \<Rightarrow> string" where
  "content_hash sha fields = sha (json_dumps '','' '':'' (content_payload fields))"

definition verify_content_hash ::
  "(string \<Rightarrow> string) \<Rightarrow> (string \<rightharpoonup> pyval) \<Rightarrow> string option \<Rightarrow> bool" where
  "verify_content_hash sha row stored \<longleftrightarrow>
     (case stored of
        None \<Rightarrow> False
      | Some h \<Rightarrow> if h = [] then False
                  else content_hash sha (\<lambda>k. if k \<in> set CONTENT_FIELDS then row k else None) = h)"

lemma content_payload_restrict:
  "content_payload (\<lambda>k. if k \<in> set CONTENT_FIELDS then row k else None) = content_payload row"
  by (simp add: content_payload_def CONTENT_FIELDS_def)

lemma verify_own_hash:
  "content_hash sha fields \<noteq> [] \<Longrightarrow> verify_content_hash sha fields (Some (content_hash sha fields))"
  by (simp add: verify_content_hash_def content_hash_def content_payload_restrict)

end
