(* ===== verification/AclAudit.thy ===== *)
theory AclAudit
  imports Acl Integrity
begin

text \<open>
  What every ACL write shares: the request it runs in, the write stamp
  (\<open>console_store/_context.py\<close>), the errors (\<open>console_acl/_errors.py\<close>) and the audit writer
  (\<open>console_acl/_audit.py\<close>), which stages a success row in the caller's transaction and commits a
  denial row in one of its own.
\<close>

section \<open>Audit rows\<close>

record audit_row =
  ar_project :: string
  ar_source :: string
  ar_question :: string
  ar_answer :: string
  ar_prompt_tokens :: int
  ar_completion_tokens :: int
  ar_timestamp :: string
  ar_session_id :: "string option"
  ar_model :: "string option"
  ar_user_id :: string
  ar_status :: string
  ar_failure_class :: "string option"
  ar_error_detail :: "string option"
  ar_duration_ms :: "int option"
  ar_trace_id :: "string option"
  ar_event_class :: string
  ar_content_hash :: string

definition audit_fields :: "audit_row \<Rightarrow> (string \<rightharpoonup> pyval)" where
  "audit_fields r = map_of
     [(''project'', PStr (ar_project r)), (''source'', PStr (ar_source r)),
      (''question'', PStr (ar_question r)), (''answer'', PStr (ar_answer r)),
      (''prompt_tokens'', PInt (ar_prompt_tokens r)), (''completion_tokens'', PInt (ar_completion_tokens r)),
      (''timestamp'', PStr (ar_timestamp r)), (''session_id'', py_opt_str (ar_session_id r)),
      (''model'', py_opt_str (ar_model r)), (''user_id'', PStr (ar_user_id r)),
      (''status'', PStr (ar_status r)), (''failure_class'', py_opt_str (ar_failure_class r)),
      (''error_detail'', py_opt_str (ar_error_detail r)), (''duration_ms'', py_opt_int (ar_duration_ms r)),
      (''trace_id'', py_opt_str (ar_trace_id r)), (''event_class'', PStr (ar_event_class r))]"

section \<open>Requests, states, errors\<close>

text \<open>
  An exception of the database driver: its class, its SQLSTATE where it has one, and its text.
\<close>

datatype db_error = DbError (de_type: string) (de_sqlstate: "string option") (de_text: string)

text \<open>
  One request: the identity the route passes, the subject bound to the request (the row-level
  setting of its sessions), session and trace, the clock, the identifiers \<open>uuid4\<close> gives in order,
  the rows of the stores the ownership policy reads, the digest function, and what the database
  answers to the insertion of an audit row and to a commit where its own rules do not refuse it.
  \<open>ev_column_error\<close> is the driver's refusal of a row whose values do not fit the types of their
  columns, \<open>ev_statement\<close> the statement and parameters the driver appends to the text of an error
  about a row.
\<close>

record acl_env =
  ev_user :: user_context
  ev_bound :: "string option"
  ev_session :: "string option"
  ev_trace :: "string option"
  ev_now :: int
  ev_iso :: string
  ev_uuid :: "nat \<Rightarrow> string"
  ev_stores :: resource_stores
  ev_sha :: "string \<Rightarrow> string"
  ev_column_error :: "acl_entry \<Rightarrow> db_error option"
  ev_statement :: "acl_entry \<Rightarrow> string"
  ev_audit_error :: "audit_row \<Rightarrow> db_error option"
  ev_commit_error :: "db_error option"

record acl_state =
  as_entries :: acl_table
  as_audit :: "audit_row list"

text \<open>
  The errors a write can end in: the refusals with their failure and database class, an exception
  of the database passed on as it is, and the two errors raised before any access.
\<close>

datatype acl_error =
    ConsoleStoreScopeError string
  | AclWriteRefused (refused_class: string) (refused_db_class: string)
  | DatabaseError db_error
  | AclValueError string

type_synonym 'a acl_out = "(acl_error, 'a) res \<times> acl_state"

section \<open>The write stamp\<close>

definition resolve_user_sub :: "acl_env \<Rightarrow> (acl_error, string) res" where
  "resolve_user_sub env =
     (let sub = uc_user_id (ev_user env) in
      if py_strip sub = [] then Inl (ConsoleStoreScopeError ''user_context.user_id is empty'')
      else if ev_bound env \<noteq> None \<and> ev_bound env \<noteq> Some sub
      then Inl (ConsoleStoreScopeError ''user_context.user_id disagrees with the RLS request ContextVar'')
      else Inr sub)"

record write_stamp =
  ws_user_sub :: string
  ws_trace_id :: "string option"
  ws_session_id :: "string option"
  ws_now_ms :: int

definition build_write_stamp :: "acl_env \<Rightarrow> (acl_error, write_stamp) res" where
  "build_write_stamp env =
     res_bind (resolve_user_sub env) (\<lambda>sub.
       Inr \<lparr>ws_user_sub = sub, ws_trace_id = ev_trace env, ws_session_id = ev_session env,
            ws_now_ms = ev_now env\<rparr>)"

section \<open>Failure classes\<close>

definition FAILURE_CLASS_ACL_DENIED_POLICY :: string where
  "FAILURE_CLASS_ACL_DENIED_POLICY = ''acl_denied_policy''"
definition FAILURE_CLASS_ACL_DENIED_PRINCIPAL_TYPE :: string where
  "FAILURE_CLASS_ACL_DENIED_PRINCIPAL_TYPE = ''acl_denied_principal_type''"
definition FAILURE_CLASS_ACL_DENIED_PAST_EXPIRY :: string where
  "FAILURE_CLASS_ACL_DENIED_PAST_EXPIRY = ''acl_denied_past_expiry''"
definition FAILURE_CLASS_ACL_DENIED_BULK_ROLLBACK :: string where
  "FAILURE_CLASS_ACL_DENIED_BULK_ROLLBACK = ''acl_denied_bulk_rollback''"
definition FAILURE_CLASS_ACL_AUDIT_WRITE_FAILED :: string where
  "FAILURE_CLASS_ACL_AUDIT_WRITE_FAILED = ''acl_audit_write_failed''"

lemmas failure_classes = FAILURE_CLASS_ACL_DENIED_POLICY_def FAILURE_CLASS_ACL_DENIED_PRINCIPAL_TYPE_def
  FAILURE_CLASS_ACL_DENIED_PAST_EXPIRY_def FAILURE_CLASS_ACL_DENIED_BULK_ROLLBACK_def
  FAILURE_CLASS_ACL_AUDIT_WRITE_FAILED_def

definition ACL_DENIAL_FAILURE_CLASSES :: "string list" where
  "ACL_DENIAL_FAILURE_CLASSES = [FAILURE_CLASS_ACL_DENIED_POLICY, FAILURE_CLASS_ACL_DENIED_PRINCIPAL_TYPE,
     FAILURE_CLASS_ACL_DENIED_PAST_EXPIRY, FAILURE_CLASS_ACL_DENIED_BULK_ROLLBACK,
     FAILURE_CLASS_ACL_AUDIT_WRITE_FAILED]"

section \<open>The audit writer\<close>

definition NAMED_BITS :: "(string \<times> int) list" where
  "NAMED_BITS = [(''VIEW'', PERMISSION_BIT_VIEW), (''EDIT'', PERMISSION_BIT_EDIT),
     (''DELETE'', PERMISSION_BIT_DELETE), (''SHARE'', PERMISSION_BIT_SHARE)]"

definition bit_breakdown :: "int \<Rightarrow> pyval" where
  "bit_breakdown perm_bits = PDict (map (\<lambda>(name, b). (name, PBool (perm_bits AND b \<noteq> 0))) NAMED_BITS)"

definition principal_repr :: "string \<Rightarrow> string option \<Rightarrow> string" where
  "principal_repr ptype pid = ptype @ '':'' @ (case pid of None \<Rightarrow> ''-'' | Some p \<Rightarrow> p)"

text \<open>The key a write acts on, as its audit row names it.\<close>

record acl_key =
  ak_principal_type :: string
  ak_principal_id :: "string option"
  ak_resource_type :: string
  ak_resource_id :: string
  ak_tenant_id :: "string option"

definition question :: "string \<Rightarrow> acl_key \<Rightarrow> int \<Rightarrow> string" where
  "question opname k perm_bits =
     ''op='' @ opname @ '' principal='' @ principal_repr (ak_principal_type k) (ak_principal_id k) @
     '' resource='' @ ak_resource_type k @ '':'' @ ak_resource_id k @ '' bits='' @ py_str_int perm_bits @
     '' tenant='' @ (case ak_tenant_id k of None \<Rightarrow> ''-'' | Some t \<Rightarrow> if t = [] then ''-'' else t)"

definition with_hash :: "acl_env \<Rightarrow> audit_row \<Rightarrow> audit_row" where
  "with_hash env r = r\<lparr>ar_content_hash := content_hash (ev_sha env) (audit_fields r)\<rparr>"

definition base_row :: "acl_env \<Rightarrow> string \<Rightarrow> string \<Rightarrow> acl_key \<Rightarrow> int \<Rightarrow> audit_row" where
  "base_row env user_id opname k perm_bits =
     \<lparr>ar_project = ''console-acl'', ar_source = ''console-acl'', ar_question = question opname k perm_bits,
      ar_answer = ''{}'', ar_prompt_tokens = 0, ar_completion_tokens = 0, ar_timestamp = ev_iso env,
      ar_session_id = ev_session env, ar_model = None, ar_user_id = user_id, ar_status = ''success'',
      ar_failure_class = None, ar_error_detail = None, ar_duration_ms = None,
      ar_trace_id = ev_trace env, ar_event_class = ''acl_authz'', ar_content_hash = []\<rparr>"

definition answer_payload ::
  "string \<Rightarrow> string list \<Rightarrow> string list \<Rightarrow> int option \<Rightarrow> int \<Rightarrow> int option \<Rightarrow> pyval" where
  "answer_payload granted_by acl_entry_ids expired_ids visible perm_bits expired_at_ms =
     PDict [(''acl_entry_ids'', PList (map PStr acl_entry_ids)), (''expired_ids'', PList (map PStr expired_ids)),
            (''visible_matched_count'', py_opt_int visible), (''perm_bits'', PInt perm_bits),
            (''bits'', bit_breakdown perm_bits), (''granted_by'', PStr granted_by),
            (''expired_at_ms'', py_opt_int expired_at_ms)]"

text \<open>The success row \<open>record\<close> stages on the caller's session.\<close>

definition record_success ::
  "acl_env \<Rightarrow> string \<Rightarrow> acl_key \<Rightarrow> int \<Rightarrow> string list \<Rightarrow> string list \<Rightarrow> int option \<Rightarrow> int option
    \<Rightarrow> (acl_error, audit_row) res" where
  "record_success env opname k perm_bits acl_entry_ids expired_ids visible expired_at_ms =
     res_bind (resolve_user_sub env) (\<lambda>user_id.
       Inr (with_hash env ((base_row env user_id opname k perm_bits)
         \<lparr>ar_answer := json_dumps '', '' '': ''
            (answer_payload user_id acl_entry_ids expired_ids visible perm_bits expired_at_ms)\<rparr>)))"

text \<open>
  What the database answers when an audit row is inserted: the policy on \<open>interactions\<close> refuses a
  row whose user is not the bound subject.
\<close>

definition audit_insert_error :: "acl_env \<Rightarrow> audit_row \<Rightarrow> db_error option" where
  "audit_insert_error env r =
     (if ev_bound env \<noteq> Some (ar_user_id r) then Some (DbError ''ProgrammingError'' (Some ''42501'')
        ''new row violates row-level security policy for table \"interactions\"'')
      else ev_audit_error env r)"

definition denial_row ::
  "acl_env \<Rightarrow> string \<Rightarrow> string \<Rightarrow> acl_key \<Rightarrow> int \<Rightarrow> string \<Rightarrow> pyval \<Rightarrow> string option \<Rightarrow> audit_row" where
  "denial_row env user_id opname k perm_bits failure_class attempted db_error_class =
     with_hash env ((base_row env user_id opname k perm_bits)
       \<lparr>ar_status := ''failed'', ar_failure_class := Some failure_class,
        ar_error_detail := Some (json_dumps '', '' '': ''
          (PDict [(''predicate_or_attempted_row'', attempted), (''db_error_class'', py_opt_str db_error_class)]))\<rparr>)"

text \<open>\<open>record_denial\<close>: a row in its own transaction, or the error that kept it from being written.\<close>

definition record_denial ::
  "acl_env \<Rightarrow> string \<Rightarrow> acl_key \<Rightarrow> int \<Rightarrow> string \<Rightarrow> pyval \<Rightarrow> string option \<Rightarrow> acl_state \<Rightarrow> unit acl_out" where
  "record_denial env opname k perm_bits failure_class attempted db_error_class st =
     (if failure_class \<notin> set ACL_DENIAL_FAILURE_CLASSES
      then (Inl (AclValueError ''failure_class''), st)
      else case resolve_user_sub env of
             Inl e \<Rightarrow> (Inl e, st)
           | Inr user_id \<Rightarrow>
               let r = denial_row env user_id opname k perm_bits failure_class attempted db_error_class in
               (case audit_insert_error env r of
                  Some e \<Rightarrow> (Inl (DatabaseError e), st)
                | None \<Rightarrow> (Inr (), st\<lparr>as_audit := as_audit st @ [r]\<rparr>)))"

text \<open>
  The two ways a write ends in a denial: the named refusal raised after its row, and the original
  exception raised after an \<open>acl_audit_write_failed\<close> row. Where the denial row cannot be written
  either, its error is what the caller sees.
\<close>

definition refuse ::
  "acl_env \<Rightarrow> string \<Rightarrow> acl_key \<Rightarrow> int \<Rightarrow> string \<Rightarrow> pyval \<Rightarrow> string \<Rightarrow> acl_state \<Rightarrow> 'a acl_out" where
  "refuse env opname k perm_bits failure_class attempted db_error_class st =
     (case record_denial env opname k perm_bits failure_class attempted (Some db_error_class) st of
        (Inl e, st') \<Rightarrow> (Inl e, st')
      | (Inr _, st') \<Rightarrow> (Inl (AclWriteRefused failure_class db_error_class), st'))"

fun error_type_name :: "acl_error \<Rightarrow> string" where
  "error_type_name (ConsoleStoreScopeError _) = ''ConsoleStoreScopeError''"
| "error_type_name (DatabaseError e) = de_type e"
| "error_type_name (AclValueError _) = ''ValueError''"
| "error_type_name (AclWriteRefused _ _) = ''AclWriteRefused''"

definition audit_failed ::
  "acl_env \<Rightarrow> string \<Rightarrow> acl_key \<Rightarrow> int \<Rightarrow> pyval \<Rightarrow> acl_error \<Rightarrow> acl_state \<Rightarrow> 'a acl_out" where
  "audit_failed env opname k perm_bits attempted err st =
     (case record_denial env opname k perm_bits FAILURE_CLASS_ACL_AUDIT_WRITE_FAILED attempted
             (Some (error_type_name err)) st of
        (Inl e, st') \<Rightarrow> (Inl e, st')
      | (Inr _, st') \<Rightarrow> (Inl err, st'))"

section \<open>What the writes share\<close>

definition principal_model :: "string \<Rightarrow> string option" where
  "principal_model ptype =
     (if ptype = PRINCIPAL_TYPE_USER then Some PRINCIPAL_MODEL_USER
      else if ptype = PRINCIPAL_TYPE_ROLE then Some PRINCIPAL_MODEL_ROLE
      else None)"

definition new_entry ::
  "string \<Rightarrow> write_stamp \<Rightarrow> acl_key \<Rightarrow> int \<Rightarrow> string option \<Rightarrow> int option \<Rightarrow> string option \<Rightarrow> acl_entry" where
  "new_entry uid stamp k perm_bits role_id expired_at_ms trace =
     \<lparr>ae_id = uid, ae_user_sub = ws_user_sub stamp, ae_principal_type = ak_principal_type k,
      ae_principal_id = ak_principal_id k, ae_principal_model = principal_model (ak_principal_type k),
      ae_resource_type = ak_resource_type k, ae_resource_id = ak_resource_id k, ae_perm_bits = perm_bits,
      ae_tenant_id = ak_tenant_id k, ae_role_id = role_id, ae_inherited_from = None,
      ae_granted_by = Some (ws_user_sub stamp), ae_granted_at_ms = ws_now_ms stamp,
      ae_expired_at_ms = expired_at_ms, ae_created_at_ms = ws_now_ms stamp,
      ae_updated_at_ms = ws_now_ms stamp, ae_trace_id = trace\<rparr>"

definition expire_row :: "int \<Rightarrow> acl_entry \<Rightarrow> acl_entry" where
  "expire_row now r = r\<lparr>ae_expired_at_ms := Some now, ae_updated_at_ms := now\<rparr>"

text \<open>An expiry that is asked for and is not in the future.\<close>

definition past_expiry :: "int option \<Rightarrow> int \<Rightarrow> bool" where
  "past_expiry expired_at_ms now = (case expired_at_ms of None \<Rightarrow> False | Some e \<Rightarrow> e \<le> now)"

lemma not_past_expiry: "\<not> past_expiry ex now \<longleftrightarrow> (\<forall>e. ex = Some e \<longrightarrow> now < e)"
  by (auto simp: past_expiry_def split: option.splits)

definition key_of_op :: "acl_grant_op \<Rightarrow> acl_key" where
  "key_of_op g = \<lparr>ak_principal_type = go_principal_type g, ak_principal_id = go_principal_id g,
     ak_resource_type = go_resource_type g, ak_resource_id = go_resource_id g, ak_tenant_id = go_tenant_id g\<rparr>"

definition attempted_key :: "acl_key \<Rightarrow> (string \<times> pyval) list" where
  "attempted_key k = [(''principal_type'', PStr (ak_principal_type k)), (''principal_id'', py_opt_str (ak_principal_id k)),
     (''resource_type'', PStr (ak_resource_type k)), (''resource_id'', PStr (ak_resource_id k)),
     (''tenant_id'', py_opt_str (ak_tenant_id k))]"

definition attempted_grant :: "acl_key \<Rightarrow> int \<Rightarrow> pyval" where
  "attempted_grant k perm_bits = PDict (attempted_key k @ [(''perm_bits'', PInt perm_bits)])"

definition attempted_op :: "nat \<Rightarrow> acl_grant_op \<Rightarrow> nat \<Rightarrow> pyval" where
  "attempted_op index g op_count =
     PDict [(''op_index'', PInt (int index)), (''op'', attempted_grant (key_of_op g) (go_perm_bits g)),
            (''op_count'', PInt (int op_count))]"

text \<open>\<open>modify_permission_bits\<close> checks its operands before any access.\<close>

definition bits_out_of_range :: "int option \<Rightarrow> bool" where
  "bits_out_of_range bits = (case bits of None \<Rightarrow> False | Some v \<Rightarrow> \<not> (0 \<le> v \<and> v \<le> MAX_PERM_BITS))"

definition validate_bit_operands :: "int option \<Rightarrow> int option \<Rightarrow> (acl_error, unit) res" where
  "validate_bit_operands add_bits remove_bits =
     (if add_bits = None \<and> remove_bits = None then Inl (AclValueError ''operands'')
      else if bits_out_of_range add_bits then Inl (AclValueError ''add_bits'')
      else if bits_out_of_range remove_bits then Inl (AclValueError ''remove_bits'')
      else Inr ())"

text \<open>A predicate of \<open>delete_acl_entries\<close> is a dict, here its entries in order.\<close>

type_synonym acl_predicate = "(string \<times> pyval) list"

definition ALLOWED_PREDICATE_KEYS :: "string list" where
  "ALLOWED_PREDICATE_KEYS = [''principal_type'', ''principal_id'', ''resource_type'', ''resource_id'', ''tenant_id'']"

fun nonempty_str :: "pyval \<Rightarrow> bool" where
  "nonempty_str (PStr s) \<longleftrightarrow> s \<noteq> []"
| "nonempty_str _ \<longleftrightarrow> False"

definition validate_predicate :: "acl_predicate \<Rightarrow> (acl_error, unit) res" where
  "validate_predicate pred =
     (if pred = [] then Inl (AclValueError ''predicate must not be empty'')
      else if \<exists>k \<in> set (map fst pred). k \<notin> set ALLOWED_PREDICATE_KEYS then Inl (AclValueError ''unknown predicate key'')
      else if \<exists>v \<in> set (map snd pred). \<not> nonempty_str v then Inl (AclValueError ''must be a non-empty str'')
      else if \<not> (map_of pred ''principal_id'' \<noteq> None \<or> map_of pred ''resource_id'' \<noteq> None \<or>
                 map_of pred ''principal_type'' = Some (PStr ''public''))
      then Inl (AclValueError ''predicate must name principal_id, resource_id, or principal_type=public'')
      else Inr ())"

fun validate_predicates :: "acl_predicate list \<Rightarrow> (acl_error, unit) res" where
  "validate_predicates [] = Inr ()"
| "validate_predicates (p # ps) = res_bind (validate_predicate p) (\<lambda>_. validate_predicates ps)"

definition str_of :: "pyval option \<Rightarrow> string option" where
  "str_of v = (case v of Some (PStr s) \<Rightarrow> Some s | _ \<Rightarrow> None)"

definition pred_fields :: "acl_predicate \<Rightarrow> acl_key" where
  "pred_fields pred =
     \<lparr>ak_principal_type = (case str_of (map_of pred ''principal_type'') of None \<Rightarrow> ''-'' | Some s \<Rightarrow> s),
      ak_principal_id = str_of (map_of pred ''principal_id''),
      ak_resource_type = (case str_of (map_of pred ''resource_type'') of None \<Rightarrow> ''-'' | Some s \<Rightarrow> s),
      ak_resource_id = (case str_of (map_of pred ''resource_id'') of None \<Rightarrow> ''-'' | Some s \<Rightarrow> s),
      ak_tenant_id = str_of (map_of pred ''tenant_id'')\<rparr>"

text \<open>The column a predicate key names.\<close>

definition column :: "string \<Rightarrow> acl_entry \<Rightarrow> string option" where
  "column key r =
     (if key = ''principal_type'' then Some (ae_principal_type r)
      else if key = ''principal_id'' then ae_principal_id r
      else if key = ''resource_type'' then Some (ae_resource_type r)
      else if key = ''resource_id'' then Some (ae_resource_id r)
      else ae_tenant_id r)"

definition attempted_predicate :: "nat \<Rightarrow> acl_predicate \<Rightarrow> nat \<Rightarrow> pyval" where
  "attempted_predicate index pred count =
     PDict [(''predicate_index'', PInt (int index)), (''predicate'', PDict pred), (''predicate_count'', PInt (int count))]"

fun new_ids :: "string list \<Rightarrow> string list \<Rightarrow> string list" where
  "new_ids seen [] = seen"
| "new_ids seen (x # xs) = new_ids (if x \<in> set seen then seen else seen @ [x]) xs"

end
