(* ===== verification/AclRead.thy ===== *)
theory AclRead
  imports Acl
begin

text \<open>
  The read path of the console ACL: the in-process mock (\<open>console_acl/_mock.py\<close>), the Postgres
  queries (\<open>console_acl/_postgres.py\<close>) over the rows the row-level policy lets through, and the
  contract both keep.

  Each read takes the clock. A list of a query without an order is in table order here.
\<close>

section \<open>The mock\<close>

definition mock_matches_principal :: "acl_entry \<Rightarrow> string \<Rightarrow> string option \<Rightarrow> bool" where
  "mock_matches_principal row ptype pid \<longleftrightarrow>
     (if ptype = PRINCIPAL_TYPE_PUBLIC then ae_principal_type row = PRINCIPAL_TYPE_PUBLIC
      else ae_principal_type row = ptype \<and> ae_principal_id row = pid)"

definition mock_not_expired :: "acl_entry \<Rightarrow> int \<Rightarrow> bool" where
  "mock_not_expired row now \<longleftrightarrow> (case ae_expired_at_ms row of None \<Rightarrow> True | Some e \<Rightarrow> now < e)"

definition mock_rls_visible :: "acl_entry \<Rightarrow> user_context \<Rightarrow> bool" where
  "mock_rls_visible row user \<longleftrightarrow>
     (if ae_user_sub row = uc_user_id user then True
      else if ae_principal_type row = PRINCIPAL_TYPE_USER \<and> ae_principal_id row = Some (uc_user_id user) then True
      else ae_principal_type row = PRINCIPAL_TYPE_PUBLIC)"

definition mock_any_principal :: "user_context \<Rightarrow> acl_entry \<Rightarrow> bool" where
  "mock_any_principal user row \<longleftrightarrow>
     (\<exists>p \<in> set (caller_principals user). mock_matches_principal row (fst p) (snd p))"

fun mock_has_permission ::
  "acl_table \<Rightarrow> int \<Rightarrow> user_context \<Rightarrow> string \<Rightarrow> string \<Rightarrow> int \<Rightarrow> bool" where
  "mock_has_permission [] now user rt rid pbit = False"
| "mock_has_permission (row # rows) now user rt rid pbit =
     (if \<not> mock_rls_visible row user then mock_has_permission rows now user rt rid pbit
      else if ae_resource_type row \<noteq> rt \<or> ae_resource_id row \<noteq> rid
      then mock_has_permission rows now user rt rid pbit
      else if \<not> mock_any_principal user row then mock_has_permission rows now user rt rid pbit
      else if ae_perm_bits row AND pbit \<noteq> pbit then mock_has_permission rows now user rt rid pbit
      else if \<not> mock_not_expired row now then mock_has_permission rows now user rt rid pbit
      else True)"

fun mock_effective_loop ::
  "acl_table \<Rightarrow> int \<Rightarrow> user_context \<Rightarrow> string \<Rightarrow> string \<Rightarrow> int \<Rightarrow> int" where
  "mock_effective_loop [] now user rt rid effective = effective"
| "mock_effective_loop (row # rows) now user rt rid effective =
     mock_effective_loop rows now user rt rid
       (if \<not> mock_rls_visible row user then effective
        else if ae_resource_type row \<noteq> rt \<or> ae_resource_id row \<noteq> rid then effective
        else if \<not> mock_any_principal user row then effective
        else if \<not> mock_not_expired row now then effective
        else effective OR ae_perm_bits row)"

definition mock_get_effective_permissions ::
  "acl_table \<Rightarrow> int \<Rightarrow> user_context \<Rightarrow> string \<Rightarrow> string \<Rightarrow> int" where
  "mock_get_effective_permissions t now user rt rid = mock_effective_loop t now user rt rid 0"

fun mock_batch_loop ::
  "acl_table \<Rightarrow> int \<Rightarrow> user_context \<Rightarrow> string \<Rightarrow> string list \<Rightarrow> (string \<rightharpoonup> int) \<Rightarrow> (string \<rightharpoonup> int)" where
  "mock_batch_loop [] now user rt wanted result = result"
| "mock_batch_loop (row # rows) now user rt wanted result =
     mock_batch_loop rows now user rt wanted
       (if \<not> mock_rls_visible row user then result
        else if ae_resource_type row \<noteq> rt \<or> ae_resource_id row \<notin> set wanted then result
        else if \<not> mock_any_principal user row then result
        else if \<not> mock_not_expired row now then result
        else result(ae_resource_id row \<mapsto>
               (case result (ae_resource_id row) of None \<Rightarrow> 0 | Some b \<Rightarrow> b) OR ae_perm_bits row))"

definition mock_get_effective_permissions_for_resources ::
  "acl_table \<Rightarrow> int \<Rightarrow> user_context \<Rightarrow> string \<Rightarrow> string list \<Rightarrow> (string \<rightharpoonup> int)" where
  "mock_get_effective_permissions_for_resources t now user rt rids =
     (if rids = [] then Map.empty else mock_batch_loop t now user rt rids Map.empty)"

text \<open>The resources of the selected rows, each once, at its first row.\<close>

fun collect_ids :: "(acl_entry \<Rightarrow> bool) \<Rightarrow> acl_table \<Rightarrow> string list \<Rightarrow> string list" where
  "collect_ids p [] found = found"
| "collect_ids p (row # rows) found =
     collect_ids p rows
       (if p row \<and> ae_resource_id row \<notin> set found then found @ [ae_resource_id row] else found)"

definition in_bound :: "string list option \<Rightarrow> acl_entry \<Rightarrow> bool" where
  "in_bound bound row \<longleftrightarrow> (case bound of None \<Rightarrow> True | Some rids \<Rightarrow> ae_resource_id row \<in> set rids)"

definition mock_find_accessible_resources ::
  "acl_table \<Rightarrow> int \<Rightarrow> user_context \<Rightarrow> string \<Rightarrow> int \<Rightarrow> string list option \<Rightarrow> string list" where
  "mock_find_accessible_resources t now user rt required rids =
     collect_ids (\<lambda>row. mock_rls_visible row user \<and> ae_resource_type row = rt \<and> in_bound rids row \<and>
        mock_any_principal user row \<and> ae_perm_bits row AND required = required \<and>
        mock_not_expired row now) t []"

definition mock_find_public_resource_ids ::
  "acl_table \<Rightarrow> int \<Rightarrow> user_context \<Rightarrow> string \<Rightarrow> int \<Rightarrow> string list option \<Rightarrow> string list" where
  "mock_find_public_resource_ids t now user rt required rids =
     collect_ids (\<lambda>row. ae_principal_type row = PRINCIPAL_TYPE_PUBLIC \<and> ae_resource_type row = rt \<and>
        in_bound rids row \<and> ae_perm_bits row AND required = required \<and> mock_not_expired row now) t []"

definition mock_get_sole_owned_resource_ids ::
  "acl_table \<Rightarrow> int \<Rightarrow> user_context \<Rightarrow> string list \<Rightarrow> string list" where
  "mock_get_sole_owned_resource_ids t now user rts =
     (let is_caller = (\<lambda>row. ae_principal_type row = PRINCIPAL_TYPE_USER \<and>
                         ae_principal_id row = Some (uc_user_id user));
          holds_delete = (\<lambda>row. ae_perm_bits row AND PERMISSION_BIT_DELETE = PERMISSION_BIT_DELETE);
          owned = collect_ids (\<lambda>row. mock_rls_visible row user \<and> ae_resource_type row \<in> set rts \<and>
                     is_caller row \<and> holds_delete row \<and> mock_not_expired row now) t [];
          multi_owner = set (map ae_resource_id (filter (\<lambda>row. ae_resource_type row \<in> set rts \<and>
                     ae_resource_id row \<in> set owned \<and> holds_delete row \<and> mock_not_expired row now \<and>
                     \<not> is_caller row) t))
      in if owned = [] then [] else filter (\<lambda>rid. rid \<notin> multi_owner) owned)"

definition mock_find_entries_by_principal ::
  "acl_table \<Rightarrow> user_context \<Rightarrow> string \<Rightarrow> string option \<Rightarrow> string option \<Rightarrow> acl_table" where
  "mock_find_entries_by_principal t user ptype pid rt =
     filter (\<lambda>row. ae_user_sub row = uc_user_id user \<and> ae_principal_type row = ptype \<and>
       \<not> (ptype \<noteq> PRINCIPAL_TYPE_PUBLIC \<and> ae_principal_id row \<noteq> pid) \<and>
       \<not> (rt \<noteq> None \<and> Some (ae_resource_type row) \<noteq> rt)) t"

definition mock_find_entries_by_resource ::
  "acl_table \<Rightarrow> user_context \<Rightarrow> string \<Rightarrow> string \<Rightarrow> acl_table" where
  "mock_find_entries_by_resource t user rt rid =
     filter (\<lambda>row. ae_user_sub row = uc_user_id user \<and> ae_resource_type row = rt \<and>
       ae_resource_id row = rid) t"

definition mock_find_entries_by_principals_and_resource ::
  "acl_table \<Rightarrow> user_context \<Rightarrow> string \<Rightarrow> string \<Rightarrow> acl_table" where
  "mock_find_entries_by_principals_and_resource t user rt rid =
     filter (\<lambda>row. \<not> (ae_resource_type row \<noteq> rt \<or> ae_resource_id row \<noteq> rid) \<and> mock_any_principal user row) t"

text \<open>Sorting by resource, grant time, creation time and identifier, in that order of weight.\<close>

definition owner_order :: "acl_table \<Rightarrow> acl_table" where
  "owner_order rows =
     sort_key ae_resource_id (sort_key ae_granted_at_ms (sort_key ae_created_at_ms (sort_key ae_id rows)))"

fun first_owners :: "acl_table \<Rightarrow> (string \<rightharpoonup> string) \<Rightarrow> (string \<rightharpoonup> string)" where
  "first_owners [] owners = owners"
| "first_owners (row # rows) owners =
     first_owners rows
       (case ae_principal_id row of
          Some p \<Rightarrow> if owners (ae_resource_id row) = None then owners(ae_resource_id row \<mapsto> p) else owners
        | None \<Rightarrow> owners)"

definition mock_get_owner_principal_ids ::
  "acl_table \<Rightarrow> int \<Rightarrow> user_context \<Rightarrow> string \<Rightarrow> string list \<Rightarrow> (string \<rightharpoonup> string)" where
  "mock_get_owner_principal_ids t now user rt rids =
     (if rids = [] then Map.empty
      else first_owners (owner_order (filter (\<lambda>row. mock_rls_visible row user \<and> ae_resource_type row = rt \<and>
             ae_resource_id row \<in> set rids \<and> ae_principal_type row = PRINCIPAL_TYPE_USER \<and>
             ae_perm_bits row = OWNER_PERMISSION_BITS \<and> mock_not_expired row now) t)) Map.empty)"

definition seed_entry :: "acl_entry \<Rightarrow> acl_table \<Rightarrow> (string, acl_table \<times> acl_entry) res" where
  "seed_entry row t =
     (if ae_principal_type row \<notin> set ALLOWED_PRINCIPAL_TYPES
      then Inl (''invalid principal_type: '' @ py_repr (ae_principal_type row))
      else Inr (t @ [row], row))"

section \<open>The Postgres queries\<close>

definition not_expired_clause :: "int \<Rightarrow> acl_entry \<Rightarrow> sqlbool" where
  "not_expired_clause now r =
     sql_or (sql_is_null (ae_expired_at_ms r)) (sql_cmp (\<lambda>e n. n < e) (ae_expired_at_ms r) (Some now))"

text \<open>A comparison with a Python \<open>None\<close> is rendered as IS NULL.\<close>

definition sql_eq_param :: "'a option \<Rightarrow> 'a option \<Rightarrow> sqlbool" where
  "sql_eq_param col p = (if p = None then sql_is_null col else sql_eq col p)"

fun principals_clause :: "(string \<times> string option) list \<Rightarrow> acl_entry \<Rightarrow> sqlbool" where
  "principals_clause [] r = SFalse"
| "principals_clause ((ptype, pid) # ps) r =
     sql_or (if ptype = PRINCIPAL_TYPE_PUBLIC then sql_of (ae_principal_type r = PRINCIPAL_TYPE_PUBLIC)
             else sql_and (sql_of (ae_principal_type r = ptype)) (sql_eq_param (ae_principal_id r) pid))
            (principals_clause ps r)"

definition contains_bit :: "int \<Rightarrow> acl_entry \<Rightarrow> sqlbool" where
  "contains_bit required r = sql_of (ae_perm_bits r AND required = required)"

definition owner_scope_clause :: "user_context \<Rightarrow> acl_entry \<Rightarrow> sqlbool" where
  "owner_scope_clause user r = sql_of (ae_user_sub r = uc_user_id user)"

definition rls_mirror_clause :: "user_context \<Rightarrow> acl_entry \<Rightarrow> sqlbool" where
  "rls_mirror_clause user r =
     sql_or (sql_or (sql_of (ae_user_sub r = uc_user_id user))
                    (sql_and (sql_of (ae_principal_type r = PRINCIPAL_TYPE_USER))
                             (sql_eq (ae_principal_id r) (Some (uc_user_id user)))))
            (sql_of (ae_principal_type r = PRINCIPAL_TYPE_PUBLIC))"

text \<open>
  The session of a caller carries the caller's subject in the row-level setting; a query sees the
  rows the SELECT policy lets through. \<open>where_all\<close> is a chain of filters.
\<close>

definition rls_rows :: "user_context \<Rightarrow> acl_table \<Rightarrow> acl_table" where
  "rls_rows user t = sql_select (rls_select (Some (uc_user_id user))) t"

definition where_all :: "sqlbool list \<Rightarrow> sqlbool" where
  "where_all cs = foldl sql_and STrue cs"

definition in_ids :: "string list option \<Rightarrow> acl_entry \<Rightarrow> sqlbool" where
  "in_ids rids r = (case rids of None \<Rightarrow> STrue | Some ids \<Rightarrow> sql_of (ae_resource_id r \<in> set ids))"

definition has_permission ::
  "acl_table \<Rightarrow> int \<Rightarrow> user_context \<Rightarrow> string \<Rightarrow> string \<Rightarrow> int \<Rightarrow> bool" where
  "has_permission t now user rt rid pbit \<longleftrightarrow>
     take 1 (sql_select (\<lambda>r. where_all [rls_mirror_clause user r, principals_clause (caller_principals user) r,
        sql_of (ae_resource_type r = rt), sql_of (ae_resource_id r = rid), contains_bit pbit r,
        not_expired_clause now r]) (rls_rows user t)) \<noteq> []"

definition get_effective_permissions ::
  "acl_table \<Rightarrow> int \<Rightarrow> user_context \<Rightarrow> string \<Rightarrow> string \<Rightarrow> int" where
  "get_effective_permissions t now user rt rid =
     foldl (\<lambda>effective bits. effective OR bits) 0 (map ae_perm_bits
       (sql_select (\<lambda>r. where_all [rls_mirror_clause user r, principals_clause (caller_principals user) r,
          sql_of (ae_resource_type r = rt), sql_of (ae_resource_id r = rid), not_expired_clause now r])
        (rls_rows user t)))"

definition get_effective_permissions_for_resources ::
  "acl_table \<Rightarrow> int \<Rightarrow> user_context \<Rightarrow> string \<Rightarrow> string list \<Rightarrow> (string \<rightharpoonup> int)" where
  "get_effective_permissions_for_resources t now user rt rids =
     (if rids = [] then Map.empty
      else foldl (\<lambda>result r. result(ae_resource_id r \<mapsto>
             (case result (ae_resource_id r) of None \<Rightarrow> 0 | Some b \<Rightarrow> b) OR ae_perm_bits r)) Map.empty
           (sql_select (\<lambda>r. where_all [rls_mirror_clause user r, principals_clause (caller_principals user) r,
              sql_of (ae_resource_type r = rt), in_ids (Some rids) r, not_expired_clause now r])
            (rls_rows user t)))"

text \<open>\<open>distinct\<close> promises no order.\<close>

definition select_distinct_ids :: "(acl_entry \<Rightarrow> sqlbool) \<Rightarrow> acl_table \<Rightarrow> string list" where
  "select_distinct_ids c t = remdups (map ae_resource_id (sql_select c t))"

definition find_accessible_resources ::
  "acl_table \<Rightarrow> int \<Rightarrow> user_context \<Rightarrow> string \<Rightarrow> int \<Rightarrow> string list option \<Rightarrow> string list" where
  "find_accessible_resources t now user rt required rids =
     select_distinct_ids (\<lambda>r. where_all [rls_mirror_clause user r, principals_clause (caller_principals user) r,
        sql_of (ae_resource_type r = rt), contains_bit required r, not_expired_clause now r, in_ids rids r])
       (rls_rows user t)"

definition find_public_resource_ids ::
  "acl_table \<Rightarrow> int \<Rightarrow> user_context \<Rightarrow> string \<Rightarrow> int \<Rightarrow> string list option \<Rightarrow> string list" where
  "find_public_resource_ids t now user rt required rids =
     select_distinct_ids (\<lambda>r. where_all [sql_of (ae_principal_type r = PRINCIPAL_TYPE_PUBLIC),
        sql_of (ae_resource_type r = rt), contains_bit required r, not_expired_clause now r, in_ids rids r])
       (rls_rows user t)"

definition get_sole_owned_resource_ids ::
  "acl_table \<Rightarrow> int \<Rightarrow> user_context \<Rightarrow> string list \<Rightarrow> string list" where
  "get_sole_owned_resource_ids t now user rts =
     (let owned = select_distinct_ids (\<lambda>r. where_all [rls_mirror_clause user r,
            sql_of (ae_principal_type r = PRINCIPAL_TYPE_USER),
            sql_eq (ae_principal_id r) (Some (uc_user_id user)), sql_of (ae_resource_type r \<in> set rts),
            contains_bit PERMISSION_BIT_DELETE r, not_expired_clause now r]) (rls_rows user t);
          multi_owner = set (select_distinct_ids (\<lambda>r. where_all [sql_of (ae_resource_type r \<in> set rts),
            sql_of (ae_resource_id r \<in> set owned), contains_bit PERMISSION_BIT_DELETE r,
            not_expired_clause now r,
            sql_or (sql_neq (ae_principal_id r) (Some (uc_user_id user)))
                   (sql_of (ae_principal_type r \<noteq> PRINCIPAL_TYPE_USER))]) (rls_rows user t))
      in if owned = [] then [] else filter (\<lambda>rid. rid \<notin> multi_owner) owned)"

definition find_entries_by_principal ::
  "acl_table \<Rightarrow> user_context \<Rightarrow> string \<Rightarrow> string option \<Rightarrow> string option \<Rightarrow> acl_table" where
  "find_entries_by_principal t user ptype pid rt =
     sql_select (\<lambda>r. where_all
       ([owner_scope_clause user r, sql_of (ae_principal_type r = ptype)] @
        (if ptype \<noteq> PRINCIPAL_TYPE_PUBLIC then [sql_eq_param (ae_principal_id r) pid] else []) @
        (case rt of None \<Rightarrow> [] | Some x \<Rightarrow> [sql_of (ae_resource_type r = x)]))) (rls_rows user t)"

definition find_entries_by_resource ::
  "acl_table \<Rightarrow> user_context \<Rightarrow> string \<Rightarrow> string \<Rightarrow> acl_table" where
  "find_entries_by_resource t user rt rid =
     sql_select (\<lambda>r. where_all [owner_scope_clause user r, sql_of (ae_resource_type r = rt),
       sql_of (ae_resource_id r = rid)]) (rls_rows user t)"

definition find_entries_by_principals_and_resource ::
  "acl_table \<Rightarrow> user_context \<Rightarrow> string \<Rightarrow> string \<Rightarrow> acl_table" where
  "find_entries_by_principals_and_resource t user rt rid =
     sql_select (\<lambda>r. where_all [principals_clause (caller_principals user) r,
       sql_of (ae_resource_type r = rt), sql_of (ae_resource_id r = rid)]) (rls_rows user t)"

definition get_owner_principal_ids ::
  "acl_table \<Rightarrow> int \<Rightarrow> user_context \<Rightarrow> string \<Rightarrow> string list \<Rightarrow> (string \<rightharpoonup> string)" where
  "get_owner_principal_ids t now user rt rids =
     (if rids = [] then Map.empty
      else first_owners (owner_order (sql_select (\<lambda>r. where_all [rls_mirror_clause user r,
             sql_of (ae_resource_type r = rt), in_ids (Some rids) r,
             sql_of (ae_principal_type r = PRINCIPAL_TYPE_USER),
             sql_of (ae_perm_bits r = OWNER_PERMISSION_BITS), not_expired_clause now r])
           (rls_rows user t))) Map.empty)"

end
