(* ===== verification/AclMockWrite.thy ===== *)
theory AclMockWrite
  imports AclAudit AclRead
begin

text \<open>
  The write path of the mock (\<open>console_acl/_mock_write.py\<close>): the five writes over the in-memory
  rows, each with the undo record that puts the rows back when its audit row cannot be written.
\<close>

section \<open>Matching and expiring\<close>

definition key_matches :: "acl_key \<Rightarrow> acl_entry \<Rightarrow> bool" where
  "key_matches k row \<longleftrightarrow> ae_principal_type row = ak_principal_type k \<and> ae_principal_id row = ak_principal_id k \<and>
     ae_resource_type row = ak_resource_type k \<and> ae_resource_id row = ak_resource_id k \<and>
     ae_tenant_id row = ak_tenant_id k"

definition visible_matching_rows ::
  "acl_table \<Rightarrow> user_context \<Rightarrow> write_stamp \<Rightarrow> (acl_entry \<Rightarrow> bool) \<Rightarrow> acl_table" where
  "visible_matching_rows entries user stamp match =
     filter (\<lambda>row. mock_rls_visible row user \<and> match row \<and> mock_not_expired row (ws_now_ms stamp)) entries"

definition visible_matching_ids ::
  "acl_table \<Rightarrow> user_context \<Rightarrow> write_stamp \<Rightarrow> (acl_entry \<Rightarrow> bool) \<Rightarrow> string list" where
  "visible_matching_ids entries user stamp match = map ae_id (visible_matching_rows entries user stamp match)"

text \<open>
  An undo record names the object it restores; an object of the list is its position, which no
  write changes before the record is used.
\<close>

type_synonym undo_log = "(nat \<times> int option \<times> int) list"

definition undo :: "undo_log \<Rightarrow> acl_table \<Rightarrow> acl_table" where
  "undo log entries =
     foldl (\<lambda>es (i, e, u). es[i := (es ! i)\<lparr>ae_expired_at_ms := e, ae_updated_at_ms := u\<rparr>]) entries (rev log)"

definition undo_records :: "(acl_entry \<Rightarrow> bool) \<Rightarrow> acl_table \<Rightarrow> undo_log" where
  "undo_records p entries =
     map (\<lambda>(i, r). (i, ae_expired_at_ms r, ae_updated_at_ms r)) (filter (\<lambda>(i, r). p r) (enumerate 0 entries))"

text \<open>The expire seam of revoke, modify and delete: active, matching and owned by the caller.\<close>

definition expirable :: "write_stamp \<Rightarrow> (acl_entry \<Rightarrow> bool) \<Rightarrow> acl_entry \<Rightarrow> bool" where
  "expirable stamp match row \<longleftrightarrow> mock_not_expired row (ws_now_ms stamp) \<and> match row \<and> ae_user_sub row = ws_user_sub stamp"

definition expire_matching ::
  "acl_table \<Rightarrow> write_stamp \<Rightarrow> (acl_entry \<Rightarrow> bool) \<Rightarrow> undo_log \<Rightarrow> acl_table \<times> undo_log \<times> (string \<times> int) list" where
  "expire_matching entries stamp match log =
     (map_if (expirable stamp match) (expire_row (ws_now_ms stamp)) entries,
      log @ undo_records (expirable stamp match) entries,
      map (\<lambda>r. (ae_id r, ae_created_at_ms r)) (filter (expirable stamp match) entries))"

text \<open>The success row is staged, flushed and committed on a session of the mock's own.\<close>

definition flush_row :: "acl_env \<Rightarrow> (acl_error, audit_row) res \<Rightarrow> (acl_error, audit_row) res" where
  "flush_row env staged =
     res_bind staged (\<lambda>row. case audit_insert_error env row of
       Some e \<Rightarrow> Inl (DatabaseError e) | None \<Rightarrow> Inr row)"

definition commit_row :: "acl_env \<Rightarrow> (acl_error, audit_row) res \<Rightarrow> (acl_error, audit_row) res" where
  "commit_row env staged =
     res_bind (flush_row env staged) (\<lambda>row. case ev_commit_error env of
       Some e \<Rightarrow> Inl (DatabaseError e) | None \<Rightarrow> Inr row)"

section \<open>Grants\<close>

definition prior_state :: "string list \<Rightarrow> acl_table \<Rightarrow> (string \<rightharpoonup> int option \<times> int)" where
  "prior_state expired_ids entries =
     foldl (\<lambda>m r. if ae_id r \<in> set expired_ids then m(ae_id r \<mapsto> (ae_expired_at_ms r, ae_updated_at_ms r)) else m)
       Map.empty entries"

definition restore_prior :: "string list \<Rightarrow> (string \<rightharpoonup> int option \<times> int) \<Rightarrow> acl_table \<Rightarrow> acl_table" where
  "restore_prior expired_ids prior entries =
     map_if (\<lambda>r. ae_id r \<in> set expired_ids)
       (\<lambda>r. case prior (ae_id r) of None \<Rightarrow> r
             | Some (e, u) \<Rightarrow> r\<lparr>ae_expired_at_ms := e, ae_updated_at_ms := u\<rparr>) entries"

definition mock_grant_permission ::
  "acl_env \<Rightarrow> acl_key \<Rightarrow> int \<Rightarrow> string option \<Rightarrow> int option \<Rightarrow> acl_state \<Rightarrow> acl_entry acl_out" where
  "mock_grant_permission env k perm_bits role_id expired_at_ms st =
     (case build_write_stamp env of
        Inl e \<Rightarrow> (Inl e, st)
      | Inr stamp \<Rightarrow>
          if past_expiry expired_at_ms (ws_now_ms stamp)
          then refuse env ''grantPermission'' k perm_bits FAILURE_CLASS_ACL_DENIED_PAST_EXPIRY
                 (PDict [(''expired_at_ms'', py_opt_int expired_at_ms), (''now_ms'', PInt (ws_now_ms stamp))])
                 ''app:past_expiry'' st
          else if ak_principal_type k \<notin> set ALLOWED_PRINCIPAL_TYPES
          then refuse env ''grantPermission'' k perm_bits FAILURE_CLASS_ACL_DENIED_PRINCIPAL_TYPE
                 (attempted_grant k perm_bits) ''ck_console_acl_entries_principal_type'' st
          else
            let expired_ids = map ae_id (filter (\<lambda>r. mock_not_expired r (ws_now_ms stamp) \<and> key_matches k r) (as_entries st));
                prior = prior_state expired_ids (as_entries st);
                entries1 = map_if (\<lambda>r. ae_id r \<in> set expired_ids) (expire_row (ws_now_ms stamp)) (as_entries st);
                new_row = new_entry (ev_uuid env 0) stamp k perm_bits role_id expired_at_ms None
            in case commit_row env (record_success env ''grantPermission'' k perm_bits [ae_id new_row] expired_ids
                      None expired_at_ms) of
                 Inl err \<Rightarrow> audit_failed env ''grantPermission'' k perm_bits (attempted_grant k perm_bits) err
                              (st\<lparr>as_entries := restore_prior expired_ids prior entries1\<rparr>)
               | Inr row \<Rightarrow> (Inr new_row, st\<lparr>as_entries := entries1 @ [new_row], as_audit := as_audit st @ [row]\<rparr>))"

section \<open>Revocations\<close>

definition mock_revoke_permission ::
  "acl_env \<Rightarrow> acl_key \<Rightarrow> acl_state \<Rightarrow> (string list \<times> nat) acl_out" where
  "mock_revoke_permission env k st =
     (case build_write_stamp env of
        Inl e \<Rightarrow> (Inl e, st)
      | Inr stamp \<Rightarrow>
          let visible = length (visible_matching_ids (as_entries st) (ev_user env) stamp (key_matches k));
              (entries1, log, pairs) = expire_matching (as_entries st) stamp (key_matches k) [];
              expired_ids = map fst pairs
          in case commit_row env (record_success env ''revokePermission'' k 0 [] expired_ids (Some (int visible)) None) of
               Inl err \<Rightarrow> audit_failed env ''revokePermission'' k 0 (PDict (attempted_key k)) err
                            (st\<lparr>as_entries := undo log entries1\<rparr>)
             | Inr row \<Rightarrow> (Inr (expired_ids, visible), st\<lparr>as_entries := entries1, as_audit := as_audit st @ [row]\<rparr>))"

section \<open>Changing bits\<close>

text \<open>The first of the latest-created rows, as \<open>max\<close> with a key finds it.\<close>

fun latest :: "acl_entry \<Rightarrow> acl_table \<Rightarrow> acl_entry" where
  "latest best [] = best"
| "latest best (r # rs) = latest (if ae_created_at_ms best < ae_created_at_ms r then r else best) rs"

definition or0 :: "int option \<Rightarrow> int" where
  "or0 x = (case x of None \<Rightarrow> 0 | Some b \<Rightarrow> b)"

definition old_bits :: "acl_table \<Rightarrow> int" where
  "old_bits active = foldl (\<lambda>b r. b OR ae_perm_bits r) 0 active"

definition modified_bits :: "acl_table \<Rightarrow> int option \<Rightarrow> int option \<Rightarrow> int" where
  "modified_bits active add_bits remove_bits = (old_bits active OR or0 add_bits) AND NOT (or0 remove_bits)"

definition inherited_expiry :: "acl_table \<Rightarrow> int option" where
  "inherited_expiry active =
     (let expiries = map ae_expired_at_ms active in
      if None \<in> set expiries then None else Some (Max (set (map the expiries))))"

definition attempted_modify :: "acl_key \<Rightarrow> int option \<Rightarrow> int option \<Rightarrow> pyval" where
  "attempted_modify k add_bits remove_bits =
     PDict (attempted_key k @ [(''add_bits'', py_opt_int add_bits), (''remove_bits'', py_opt_int remove_bits)])"

definition mock_modify_permission_bits ::
  "acl_env \<Rightarrow> acl_key \<Rightarrow> int option \<Rightarrow> int option \<Rightarrow> acl_state \<Rightarrow> acl_entry option acl_out" where
  "mock_modify_permission_bits env k add_bits remove_bits st =
     (case validate_bit_operands add_bits remove_bits of
        Inl e \<Rightarrow> (Inl e, st)
      | Inr _ \<Rightarrow>
     (case build_write_stamp env of
        Inl e \<Rightarrow> (Inl e, st)
      | Inr stamp \<Rightarrow>
          let active = visible_matching_rows (as_entries st) (ev_user env) stamp (key_matches k);
              new_bits = modified_bits active add_bits remove_bits;
              (entries1, log, pairs) = (if active = [] then (as_entries st, [], [])
                                        else expire_matching (as_entries st) stamp (key_matches k) []);
              expired_ids = map fst pairs;
              inherited = (if active \<noteq> [] \<and> expired_ids \<noteq> [] then inherited_expiry active else None);
              new_row = (if active \<noteq> [] \<and> expired_ids \<noteq> []
                         then Some (new_entry (ev_uuid env 0) stamp k new_bits
                                (ae_role_id (latest (hd active) (tl active))) inherited None)
                         else None)
          in case commit_row env (record_success env ''modifyPermissionBits'' k new_bits
                    (case new_row of None \<Rightarrow> [] | Some r \<Rightarrow> [ae_id r]) expired_ids
                    (Some (int (length active))) inherited) of
               Inl err \<Rightarrow> audit_failed env ''modifyPermissionBits'' k new_bits (attempted_modify k add_bits remove_bits) err
                            (st\<lparr>as_entries := undo log entries1\<rparr>)
             | Inr row \<Rightarrow> (Inr new_row,
                 st\<lparr>as_entries := entries1 @ (case new_row of None \<Rightarrow> [] | Some r \<Rightarrow> [r]),
                    as_audit := as_audit st @ [row]\<rparr>)))"

section \<open>Bulk grants\<close>

text \<open>
  The loop: rows expired so far, the undo log, the staged new rows and audit rows, the identifiers
  expired. An operation that is refused ends the call; the staged rows are not in the list yet, so
  a later operation does not see them.
\<close>

fun mock_bulk_loop ::
  "acl_env \<Rightarrow> write_stamp \<Rightarrow> nat \<Rightarrow> nat \<Rightarrow> acl_grant_op list \<Rightarrow> acl_table \<Rightarrow> undo_log \<Rightarrow> acl_table \<Rightarrow>
   audit_row list \<Rightarrow> string list \<Rightarrow> acl_state \<Rightarrow> (string list \<times> string list) acl_out" where
  "mock_bulk_loop env stamp index count [] entries log staged rows expired st =
     (case ev_commit_error env of
        Some e \<Rightarrow> (Inl (DatabaseError e), st\<lparr>as_entries := entries\<rparr>)
      | None \<Rightarrow> (Inr (map ae_id staged, expired),
                 st\<lparr>as_entries := entries @ staged, as_audit := as_audit st @ rows\<rparr>))"
| "mock_bulk_loop env stamp index count (g # gs) entries log staged rows expired st =
     (let k = key_of_op g;
          refused = (\<lambda>es lg. refuse env ''bulkWriteAclEntries'' k (go_perm_bits g)
             FAILURE_CLASS_ACL_DENIED_BULK_ROLLBACK (attempted_op index g count)
             (''mock:'' @ FAILURE_CLASS_ACL_DENIED_BULK_ROLLBACK) (st\<lparr>as_entries := undo lg es\<rparr>))
      in if go_principal_type g \<notin> set ALLOWED_PRINCIPAL_TYPES then refused entries log
         else if past_expiry (go_expired_at_ms g) (ws_now_ms stamp) then refused entries log
         else
           let hit = (\<lambda>r. mock_not_expired r (ws_now_ms stamp) \<and> key_matches k r);
               expired_ids = map ae_id (filter hit entries);
               entries1 = map_if hit (expire_row (ws_now_ms stamp)) entries;
               log1 = log @ undo_records hit entries;
               new_row = new_entry (ev_uuid env index) stamp k (go_perm_bits g) (go_role_id g) (go_expired_at_ms g) None
           in case flush_row env (record_success env ''bulkWriteAclEntries'' k (go_perm_bits g) [ae_id new_row]
                     expired_ids None (go_expired_at_ms g)) of
                Inl err \<Rightarrow> refused entries1 log1
              | Inr row \<Rightarrow> mock_bulk_loop env stamp (Suc index) count gs entries1 log1 (staged @ [new_row])
                             (rows @ [row]) (expired @ expired_ids) st)"

definition mock_bulk_write_acl_entries ::
  "acl_env \<Rightarrow> acl_grant_op list \<Rightarrow> acl_state \<Rightarrow> (string list \<times> string list) acl_out" where
  "mock_bulk_write_acl_entries env gs st =
     (case build_write_stamp env of
        Inl e \<Rightarrow> (Inl e, st)
      | Inr stamp \<Rightarrow> mock_bulk_loop env stamp 0 (length gs) gs (as_entries st) [] [] [] [] st)"

section \<open>Deletes\<close>

definition pred_matches :: "acl_predicate \<Rightarrow> acl_entry \<Rightarrow> bool" where
  "pred_matches pred row \<longleftrightarrow> (\<forall>kv \<in> set pred. column (fst kv) row = str_of (Some (snd kv)))"

definition sort_pairs :: "(string \<times> int) list \<Rightarrow> (string \<times> int) list" where
  "sort_pairs pairs = sort_key snd (sort_key fst pairs)"

fun mock_delete_loop ::
  "acl_env \<Rightarrow> write_stamp \<Rightarrow> nat \<Rightarrow> nat \<Rightarrow> nat \<Rightarrow> acl_table \<Rightarrow> acl_predicate list \<Rightarrow> acl_table \<Rightarrow> undo_log \<Rightarrow>
   audit_row list \<Rightarrow> string list \<Rightarrow> acl_state \<Rightarrow> (string list \<times> nat) acl_out" where
  "mock_delete_loop env stamp index count visible_all before [] entries log rows expired st =
     (case ev_commit_error env of
        Some e \<Rightarrow> (Inl (DatabaseError e), st\<lparr>as_entries := entries\<rparr>)
      | None \<Rightarrow> (Inr (expired, visible_all), st\<lparr>as_entries := entries, as_audit := as_audit st @ rows\<rparr>))"
| "mock_delete_loop env stamp index count visible_all before (p # ps) entries log rows expired st =
     (let visible = length (visible_matching_ids before (ev_user env) stamp (pred_matches p));
          (entries1, log1, pairs) = expire_matching entries stamp (pred_matches p) log;
          expired_ids = map fst (sort_pairs pairs)
      in case flush_row env (record_success env ''deleteAclEntries'' (pred_fields p) 0 [] expired_ids
                (Some (int visible)) None) of
           Inl err \<Rightarrow> audit_failed env ''deleteAclEntries'' (pred_fields p) 0 (attempted_predicate index p count) err
                        (st\<lparr>as_entries := undo log1 entries1\<rparr>)
         | Inr row \<Rightarrow> mock_delete_loop env stamp (Suc index) count visible_all before ps entries1 log1
                        (rows @ [row]) (new_ids expired expired_ids) st)"

definition mock_delete_acl_entries ::
  "acl_env \<Rightarrow> acl_predicate list \<Rightarrow> acl_state \<Rightarrow> (string list \<times> nat) acl_out" where
  "mock_delete_acl_entries env preds st =
     (if preds = [] then (Inl (AclValueError ''predicates must not be empty''), st)
      else case validate_predicates preds of
        Inl e \<Rightarrow> (Inl e, st)
      | Inr _ \<Rightarrow>
     (case build_write_stamp env of
        Inl e \<Rightarrow> (Inl e, st)
      | Inr stamp \<Rightarrow>
          let visible_all = length (visible_matching_ids (as_entries st) (ev_user env) stamp
                (\<lambda>r. \<exists>p \<in> set preds. pred_matches p r))
          in mock_delete_loop env stamp 0 (length preds) visible_all (as_entries st) preds (as_entries st) [] [] [] st))"

end
