(* ===== verification/AclPgWrite.thy ===== *)
theory AclPgWrite
  imports AclMockWrite
begin

text \<open>
  The write path of the Postgres service (\<open>console_acl/_postgres_write.py\<close>) as the statements it
  issues: each runs over the committed rows under the row-level policies of migration 032, the CHECK
  constraints and the public index of 031 and the active-grant index of 033. A transaction is the
  table it has reached; a rollback is the table it began with. One writer at a time; UPDATE and
  SELECT return rows in table order.
\<close>

section \<open>Statements\<close>

text \<open>The setting the policies read is the subject bound to the request, NULL where none is.\<close>

definition pg_visible :: "acl_env \<Rightarrow> acl_table \<Rightarrow> acl_table" where
  "pg_visible env t = sql_select (rls_select (ev_bound env)) t"

definition eq_or_null :: "string option \<Rightarrow> string option \<Rightarrow> sqlbool" where
  "eq_or_null col v = (if v = None then sql_is_null col else sql_eq col v)"

definition key_clause :: "acl_key \<Rightarrow> acl_entry \<Rightarrow> sqlbool" where
  "key_clause k r = where_all
     [sql_of (ae_principal_type r = ak_principal_type k), sql_of (ae_resource_type r = ak_resource_type k),
      sql_of (ae_resource_id r = ak_resource_id k), eq_or_null (ae_principal_id r) (ak_principal_id k),
      eq_or_null (ae_tenant_id r) (ak_tenant_id k)]"

definition predicate_clause :: "acl_predicate \<Rightarrow> acl_entry \<Rightarrow> sqlbool" where
  "predicate_clause pred r = where_all (map (\<lambda>(key, v). eq_or_null (column key r) (str_of (Some v))) pred)"

definition any_clause :: "(acl_entry \<Rightarrow> sqlbool) list \<Rightarrow> acl_entry \<Rightarrow> sqlbool" where
  "any_clause cs r = foldl sql_or SFalse (map (\<lambda>c. c r) cs)"

definition active_rows :: "acl_env \<Rightarrow> acl_table \<Rightarrow> (acl_entry \<Rightarrow> sqlbool) \<Rightarrow> int \<Rightarrow> acl_table" where
  "active_rows env t c now = sql_select (\<lambda>r. where_all [c r, not_expired_clause now r]) (pg_visible env t)"

definition visible_ids :: "acl_env \<Rightarrow> acl_table \<Rightarrow> (acl_entry \<Rightarrow> sqlbool) \<Rightarrow> int \<Rightarrow> string list" where
  "visible_ids env t c now = map ae_id (active_rows env t c now)"

definition pg_error :: "acl_env \<Rightarrow> string \<Rightarrow> string \<Rightarrow> string \<Rightarrow> acl_entry \<Rightarrow> db_error" where
  "pg_error env cls sqlstate message r = DbError cls (Some sqlstate) (message @ ev_statement env r)"

definition policy_error :: "acl_env \<Rightarrow> acl_entry \<Rightarrow> db_error" where
  "policy_error env r = pg_error env ''ProgrammingError'' ''42501''
     ''new row violates row-level security policy for table \"console_acl_entries\"'' r"

definition check_error :: "acl_env \<Rightarrow> string \<Rightarrow> acl_entry \<Rightarrow> db_error" where
  "check_error env constraint r = pg_error env ''IntegrityError'' ''23514''
     (''new row for relation \"console_acl_entries\" violates check constraint \"'' @ constraint @ ''\"'') r"

definition unique_error :: "acl_env \<Rightarrow> string \<Rightarrow> acl_entry \<Rightarrow> db_error" where
  "unique_error env constraint r = pg_error env ''IntegrityError'' ''23505''
     (''duplicate key value violates unique constraint \"'' @ constraint @ ''\"'') r"

text \<open>
  An UPDATE reaches the rows its own policy and the policy of the reading clauses let through; a row
  it changes has to pass the WITH CHECK. The columns of the constraints and of the unique keys are not
  among those an expiry writes, and no row gets an absent expiry from it.
\<close>

definition reachable :: "acl_env \<Rightarrow> (acl_entry \<Rightarrow> sqlbool) \<Rightarrow> int \<Rightarrow> acl_entry \<Rightarrow> bool" where
  "reachable env c now r \<longleftrightarrow> sql_holds (where_all [rls_owner_only (ev_bound env) r, rls_select (ev_bound env) r,
     c r, not_expired_clause now r])"

definition expire_where ::
  "acl_env \<Rightarrow> acl_table \<Rightarrow> (acl_entry \<Rightarrow> sqlbool) \<Rightarrow> int \<Rightarrow> (db_error, acl_table \<times> (string \<times> int) list) res" where
  "expire_where env t c now =
     (case find (\<lambda>r. reachable env c now r \<and>
              \<not> sql_holds (rls_write_check (ev_stores env) (ev_bound env) (expire_row now r))) t of
        Some r \<Rightarrow> Inl (policy_error env r)
      | None \<Rightarrow> Inr (map_if (reachable env c now) (expire_row now) t,
                 map (\<lambda>r. (ae_id r, ae_created_at_ms r)) (filter (reachable env c now) t)))"

text \<open>The constraints in the order of their names, in which Postgres checks them.\<close>

definition checks :: "acl_entry \<Rightarrow> (string \<times> sqlbool) list" where
  "checks r =
     [(''ck_console_acl_entries_perm_bits_range'', ck_perm_bits_range r),
      (''ck_console_acl_entries_principal_model_matches_type'', ck_principal_model_matches_type r),
      (''ck_console_acl_entries_principal_type'', ck_principal_type r),
      (''ck_console_acl_entries_public_principal_null'', ck_public_principal_null r)]"

text \<open>An INSERT: column types, policy, constraints, indexes.\<close>

definition insert_error :: "acl_env \<Rightarrow> acl_table \<Rightarrow> acl_entry \<Rightarrow> db_error option" where
  "insert_error env t r =
     (case ev_column_error env r of
        Some e \<Rightarrow> Some e
      | None \<Rightarrow>
          if \<not> sql_holds (rls_write_check (ev_stores env) (ev_bound env) r) then Some (policy_error env r)
          else case find (\<lambda>(name, c). \<not> sql_check_ok c) (checks r) of
                 Some (name, c) \<Rightarrow> Some (check_error env name r)
               | None \<Rightarrow>
                   if ae_id r \<in> set (map ae_id t) then Some (unique_error env ''console_acl_entries_pkey'' r)
                   else if \<not> uq_public_resource (t @ [r])
                   then Some (unique_error env ''uq_console_acl_entries_public_resource'' r)
                   else if \<not> uq_active_grant (t @ [r])
                   then Some (unique_error env ''uq_console_acl_entries_active_grant'' r)
                   else None)"

definition insert_entry :: "acl_env \<Rightarrow> acl_table \<Rightarrow> acl_entry \<Rightarrow> (acl_error, acl_table) res" where
  "insert_entry env t r =
     (case insert_error env t r of Some e \<Rightarrow> Inl (DatabaseError e) | None \<Rightarrow> Inr (t @ [r]))"

section \<open>Denials\<close>

definition PRINCIPAL_TYPE_CONSTRAINTS :: "string list" where
  "PRINCIPAL_TYPE_CONSTRAINTS =
     [''ck_console_acl_entries_principal_type'', ''ck_console_acl_entries_principal_model_matches_type'']"

definition word_char :: "char \<Rightarrow> bool" where
  "word_char c \<longleftrightarrow> (let n = (of_char c :: nat) in 48 \<le> n \<and> n \<le> 57 \<or> 65 \<le> n \<and> n \<le> 90 \<or> 97 \<le> n \<and> n \<le> 122 \<or> n = 95)"

text \<open>The first word in double quotes.\<close>

fun quoted_word :: "string \<Rightarrow> string option" where
  "quoted_word [] = None"
| "quoted_word (c # cs) =
     (if c = CHR 0x22 \<and> takeWhile word_char cs \<noteq> [] \<and> take 1 (dropWhile word_char cs) = [CHR 0x22]
      then Some (takeWhile word_char cs) else quoted_word cs)"

fun error_text :: "acl_error \<Rightarrow> string" where
  "error_text (ConsoleStoreScopeError s) = s"
| "error_text (DatabaseError e) = de_text e"
| "error_text (AclValueError s) = s"
| "error_text (AclWriteRefused fc dbe) = []"

fun error_sqlstate :: "acl_error \<Rightarrow> string option" where
  "error_sqlstate (DatabaseError e) = de_sqlstate e"
| "error_sqlstate _ = None"

definition classify :: "acl_error \<Rightarrow> string \<times> string" where
  "classify err =
     (case find (py_contains (error_text err)) PRINCIPAL_TYPE_CONSTRAINTS of
        Some constraint \<Rightarrow> (FAILURE_CLASS_ACL_DENIED_PRINCIPAL_TYPE, constraint)
      | None \<Rightarrow>
          (FAILURE_CLASS_ACL_DENIED_POLICY,
           case error_sqlstate err of
             Some (c # s) \<Rightarrow> c # s
           | _ \<Rightarrow> (case quoted_word (error_text err) of Some w \<Rightarrow> w | None \<Rightarrow> error_type_name err)))"

text \<open>A denial that is classified, and one whose class the place of the refusal decides.\<close>

definition write_denial ::
  "acl_env \<Rightarrow> string \<Rightarrow> acl_key \<Rightarrow> int \<Rightarrow> pyval \<Rightarrow> acl_error \<Rightarrow> acl_state \<Rightarrow> 'a acl_out" where
  "write_denial env opname k perm_bits attempted err st =
     refuse env opname k perm_bits (fst (classify err)) attempted (snd (classify err)) st"

end
