(* ===== verification/AclPgOps.thy ===== *)
theory AclPgOps
  imports AclPgWrite
begin

text \<open>
  The five writes of the Postgres service (\<open>_PostgresAclWrites\<close>). Each is one transaction in
  stages; what leaves a stage by an exception is rolled back, which here means that the state of
  the answer still holds the rows the transaction began with.
\<close>

section \<open>Stages\<close>


definition commit_error :: "acl_env \<Rightarrow> (acl_error, unit) res" where
  "commit_error env = (case ev_commit_error env of Some e \<Rightarrow> Inl (DatabaseError e) | None \<Rightarrow> Inr ())"

text \<open>A commit that still has the new row and the audit row to flush, in this order.\<close>

definition flush_and_commit :: "acl_env \<Rightarrow> acl_table \<Rightarrow> acl_entry \<Rightarrow> audit_row \<Rightarrow> (acl_error, acl_table) res" where
  "flush_and_commit env t new_row row =
     res_bind (insert_entry env t new_row) (\<lambda>t'.
     res_bind (flush_row env (Inr row)) (\<lambda>_.
     res_bind (commit_error env) (\<lambda>_. Inr t')))"

definition stored :: "acl_state \<Rightarrow> acl_table \<Rightarrow> audit_row list \<Rightarrow> acl_state" where
  "stored st t rows = st\<lparr>as_entries := t, as_audit := as_audit st @ rows\<rparr>"

section \<open>Grants\<close>

definition grant_permission ::
  "acl_env \<Rightarrow> acl_key \<Rightarrow> int \<Rightarrow> string option \<Rightarrow> int option \<Rightarrow> acl_state \<Rightarrow> acl_entry acl_out" where
  "grant_permission env k perm_bits role_id expired_at_ms st =
     (case build_write_stamp env of
        Inl e \<Rightarrow> (Inl e, st)
      | Inr stamp \<Rightarrow>
          if past_expiry expired_at_ms (ws_now_ms stamp)
          then refuse env ''grantPermission'' k perm_bits FAILURE_CLASS_ACL_DENIED_PAST_EXPIRY
                 (PDict [(''expired_at_ms'', py_opt_int expired_at_ms), (''now_ms'', PInt (ws_now_ms stamp))])
                 ''app:past_expiry'' st
          else case expire_where env (as_entries st) (key_clause k) (ws_now_ms stamp) of
            Inl e \<Rightarrow> write_denial env ''grantPermission'' k perm_bits (attempted_grant k perm_bits) (DatabaseError e) st
          | Inr (t1, pairs) \<Rightarrow>
              let new_row = new_entry (ev_uuid env 0) stamp k perm_bits role_id expired_at_ms (ws_trace_id stamp)
              in case record_success env ''grantPermission'' k perm_bits [ae_id new_row] (map fst pairs) None expired_at_ms of
                   Inl err \<Rightarrow> audit_failed env ''grantPermission'' k perm_bits (attempted_grant k perm_bits) err st
                 | Inr row \<Rightarrow>
                     (case flush_and_commit env t1 new_row row of
                        Inl err \<Rightarrow> write_denial env ''grantPermission'' k perm_bits (attempted_grant k perm_bits) err st
                      | Inr t2 \<Rightarrow> (Inr new_row, stored st t2 [row])))"

section \<open>Revocations\<close>

definition revoke_permission :: "acl_env \<Rightarrow> acl_key \<Rightarrow> acl_state \<Rightarrow> (string list \<times> nat) acl_out" where
  "revoke_permission env k st =
     (case build_write_stamp env of
        Inl e \<Rightarrow> (Inl e, st)
      | Inr stamp \<Rightarrow>
          let visible = length (visible_ids env (as_entries st) (key_clause k) (ws_now_ms stamp));
              attempted = PDict (attempted_key k)
          in case expire_where env (as_entries st) (key_clause k) (ws_now_ms stamp) of
               Inl e \<Rightarrow> write_denial env ''revokePermission'' k 0 attempted (DatabaseError e) st
             | Inr (t1, pairs) \<Rightarrow>
                 (case flush_row env (record_success env ''revokePermission'' k 0 [] (map fst pairs) (Some (int visible)) None) of
                    Inl err \<Rightarrow> audit_failed env ''revokePermission'' k 0 attempted err st
                  | Inr row \<Rightarrow>
                      (case commit_error env of
                         Inl err \<Rightarrow> write_denial env ''revokePermission'' k 0 attempted err st
                       | Inr _ \<Rightarrow> (Inr (map fst pairs, visible), stored st t1 [row]))))"

section \<open>Changing bits\<close>

text \<open>The domain write: nothing where no row is active, else the expiry and, where it reached a row,
  the insertion.\<close>

definition modify_stage ::
  "acl_env \<Rightarrow> write_stamp \<Rightarrow> acl_key \<Rightarrow> acl_table \<Rightarrow> int \<Rightarrow> acl_table
    \<Rightarrow> (acl_error, acl_table \<times> string list \<times> acl_entry option \<times> int option) res" where
  "modify_stage env stamp k active new_bits t =
     (if active = [] then Inr (t, [], None, None)
      else case expire_where env t (key_clause k) (ws_now_ms stamp) of
             Inl e \<Rightarrow> Inl (DatabaseError e)
           | Inr (t1, pairs) \<Rightarrow>
               if pairs = [] then Inr (t1, [], None, None)
               else let inherited = inherited_expiry active;
                        new_row = new_entry (ev_uuid env 0) stamp k new_bits
                          (ae_role_id (latest (hd active) (tl active))) inherited (ws_trace_id stamp)
                    in res_bind (insert_entry env t1 new_row) (\<lambda>t2. Inr (t2, map fst pairs, Some new_row, inherited)))"

definition modify_permission_bits ::
  "acl_env \<Rightarrow> acl_key \<Rightarrow> int option \<Rightarrow> int option \<Rightarrow> acl_state \<Rightarrow> acl_entry option acl_out" where
  "modify_permission_bits env k add_bits remove_bits st =
     (case validate_bit_operands add_bits remove_bits of
        Inl e \<Rightarrow> (Inl e, st)
      | Inr _ \<Rightarrow>
     (case build_write_stamp env of
        Inl e \<Rightarrow> (Inl e, st)
      | Inr stamp \<Rightarrow>
          let active = active_rows env (as_entries st) (key_clause k) (ws_now_ms stamp);
              new_bits = modified_bits active add_bits remove_bits;
              attempted = attempted_modify k add_bits remove_bits
          in case modify_stage env stamp k active new_bits (as_entries st) of
               Inl err \<Rightarrow> write_denial env ''modifyPermissionBits'' k new_bits attempted err st
             | Inr (t2, expired_ids, new_row, inherited) \<Rightarrow>
                 (case flush_row env (record_success env ''modifyPermissionBits'' k new_bits
                         (case new_row of None \<Rightarrow> [] | Some r \<Rightarrow> [ae_id r]) expired_ids
                         (Some (int (length active))) inherited) of
                    Inl err \<Rightarrow> audit_failed env ''modifyPermissionBits'' k new_bits attempted err st
                  | Inr row \<Rightarrow>
                      (case commit_error env of
                         Inl err \<Rightarrow> write_denial env ''modifyPermissionBits'' k new_bits attempted err st
                       | Inr _ \<Rightarrow> (Inr new_row, stored st t2 [row])))))"

section \<open>Bulk grants\<close>

definition past_expiry_text :: "int option \<Rightarrow> int \<Rightarrow> string" where
  "past_expiry_text expired_at_ms now =
     ''expired_at_ms='' @ (case expired_at_ms of None \<Rightarrow> ''None'' | Some e \<Rightarrow> py_str_int e) @
     '' is not strictly after now_ms='' @ py_str_int now"

text \<open>One operation: the table after it, its new row, the identifiers it expired, its audit row.\<close>

definition bulk_op ::
  "acl_env \<Rightarrow> write_stamp \<Rightarrow> nat \<Rightarrow> acl_grant_op \<Rightarrow> acl_table
    \<Rightarrow> (acl_error, acl_table \<times> string \<times> string list \<times> audit_row) res" where
  "bulk_op env stamp index g t =
     (if past_expiry (go_expired_at_ms g) (ws_now_ms stamp)
      then Inl (AclValueError (past_expiry_text (go_expired_at_ms g) (ws_now_ms stamp)))
      else case expire_where env t (key_clause (key_of_op g)) (ws_now_ms stamp) of
             Inl e \<Rightarrow> Inl (DatabaseError e)
           | Inr (t1, pairs) \<Rightarrow>
               let new_row = new_entry (ev_uuid env index) stamp (key_of_op g) (go_perm_bits g) (go_role_id g)
                     (go_expired_at_ms g) (ws_trace_id stamp)
               in res_bind (record_success env ''bulkWriteAclEntries'' (key_of_op g) (go_perm_bits g) [ae_id new_row]
                    (map fst pairs) None (go_expired_at_ms g)) (\<lambda>row.
                  res_bind (insert_entry env t1 new_row) (\<lambda>t2.
                  res_bind (flush_row env (Inr row)) (\<lambda>row.
                    Inr (t2, ae_id new_row, map fst pairs, row)))))"

fun bulk_loop ::
  "acl_env \<Rightarrow> write_stamp \<Rightarrow> nat \<Rightarrow> nat \<Rightarrow> acl_grant_op list \<Rightarrow> acl_table \<Rightarrow> string list \<Rightarrow> string list \<Rightarrow>
   audit_row list \<Rightarrow> acl_state \<Rightarrow> (string list \<times> string list) acl_out" where
  "bulk_loop env stamp index count [] t ids expired rows st =
     (case commit_error env of
        Inl err \<Rightarrow> (Inl err, st)
      | Inr _ \<Rightarrow> (Inr (ids, expired), stored st t rows))"
| "bulk_loop env stamp index count (g # gs) t ids expired rows st =
     (case bulk_op env stamp index g t of
        Inl err \<Rightarrow> refuse env ''bulkWriteAclEntries'' (key_of_op g) (go_perm_bits g)
                     FAILURE_CLASS_ACL_DENIED_BULK_ROLLBACK (attempted_op index g count) (snd (classify err)) st
      | Inr (t', new_id, expired_ids, row) \<Rightarrow>
          bulk_loop env stamp (Suc index) count gs t' (ids @ [new_id]) (expired @ expired_ids) (rows @ [row]) st)"

definition bulk_write_acl_entries ::
  "acl_env \<Rightarrow> acl_grant_op list \<Rightarrow> acl_state \<Rightarrow> (string list \<times> string list) acl_out" where
  "bulk_write_acl_entries env gs st =
     (case build_write_stamp env of
        Inl e \<Rightarrow> (Inl e, st)
      | Inr stamp \<Rightarrow> bulk_loop env stamp 0 (length gs) gs (as_entries st) [] [] [] st)"

section \<open>Deletes\<close>

text \<open>The fields and the attempt of a denial that belongs to no single predicate.\<close>

definition no_fields :: acl_key where
  "no_fields = \<lparr>ak_principal_type = ''-'', ak_principal_id = None, ak_resource_type = ''-'', ak_resource_id = ''-'',
     ak_tenant_id = None\<rparr>"

definition attempted_none :: "nat \<Rightarrow> pyval" where
  "attempted_none count = PDict [(''predicate_index'', PNone), (''predicate'', PNone), (''predicate_count'', PInt (int count))]"

fun delete_loop ::
  "acl_env \<Rightarrow> write_stamp \<Rightarrow> nat \<Rightarrow> nat \<Rightarrow> nat \<Rightarrow> (acl_predicate \<times> nat) list \<Rightarrow> acl_table \<Rightarrow> string list \<Rightarrow>
   audit_row list \<Rightarrow> acl_state \<Rightarrow> (string list \<times> nat) acl_out" where
  "delete_loop env stamp index count visible_all [] t expired rows st =
     (case commit_error env of
        Inl err \<Rightarrow> write_denial env ''deleteAclEntries'' no_fields 0 (attempted_none count) err st
      | Inr _ \<Rightarrow> (Inr (expired, visible_all), stored st t rows))"
| "delete_loop env stamp index count visible_all ((p, visible) # ps) t expired rows st =
     (case expire_where env t (predicate_clause p) (ws_now_ms stamp) of
        Inl e \<Rightarrow> write_denial env ''deleteAclEntries'' (pred_fields p) 0 (attempted_predicate index p count) (DatabaseError e) st
      | Inr (t1, pairs) \<Rightarrow>
          let expired_ids = map fst (sort_pairs pairs)
          in case flush_row env (record_success env ''deleteAclEntries'' (pred_fields p) 0 [] expired_ids
                    (Some (int visible)) None) of
               Inl err \<Rightarrow> audit_failed env ''deleteAclEntries'' (pred_fields p) 0 (attempted_predicate index p count) err st
             | Inr row \<Rightarrow> delete_loop env stamp (Suc index) count visible_all ps t1 (new_ids expired expired_ids)
                            (rows @ [row]) st)"

definition delete_acl_entries ::
  "acl_env \<Rightarrow> acl_predicate list \<Rightarrow> acl_state \<Rightarrow> (string list \<times> nat) acl_out" where
  "delete_acl_entries env preds st =
     (if preds = [] then (Inl (AclValueError ''predicates must not be empty''), st)
      else case validate_predicates preds of
        Inl e \<Rightarrow> (Inl e, st)
      | Inr _ \<Rightarrow>
     (case build_write_stamp env of
        Inl e \<Rightarrow> (Inl e, st)
      | Inr stamp \<Rightarrow>
          let visible_by_predicate =
                map (\<lambda>p. length (visible_ids env (as_entries st) (predicate_clause p) (ws_now_ms stamp))) preds;
              visible_all = length (visible_ids env (as_entries st) (any_clause (map predicate_clause preds)) (ws_now_ms stamp))
          in delete_loop env stamp 0 (length preds) visible_all (zip preds visible_by_predicate) (as_entries st) [] [] st))"


end
