(* ===== verification/AclReadProps.thy ===== *)
theory AclReadProps
  imports AclRead Keys
begin

text \<open>
  What the reads of the console ACL promise: an abstract reading of the table, the contract of the
  authorization reads as a locale that the Postgres service and the mock both interpret, and the
  agreement of the two.
\<close>

section \<open>The abstract reading\<close>

definition mine :: "user_context \<Rightarrow> acl_entry \<Rightarrow> bool" where
  "mine user r \<longleftrightarrow> ae_principal_type r = ''user'' \<and> ae_principal_id r = Some (uc_user_id user) \<or>
     ae_principal_type r = ''public''"

definition applies :: "user_context \<Rightarrow> int \<Rightarrow> string \<Rightarrow> string \<Rightarrow> acl_entry \<Rightarrow> bool" where
  "applies user now rt rid r \<longleftrightarrow> mine user r \<and> ae_resource_type r = rt \<and> ae_resource_id r = rid \<and>
     mock_not_expired r now"

named_theorems acl_sql \<open>meaning of the clauses of the ACL queries\<close>

lemma where_all_holds [acl_sql]: "sql_holds (where_all cs) \<longleftrightarrow> list_all sql_holds cs"
proof -
  have "sql_holds (foldl sql_and b cs) \<longleftrightarrow> sql_holds b \<and> list_all sql_holds cs" for b
    by (induction cs arbitrary: b) (auto simp: sql_simps)
  then show ?thesis by (simp add: where_all_def sql_holds_def)
qed

lemma mock_any_principal_eq [acl_sql]: "mock_any_principal user r = mine user r"
  by (auto simp: mock_any_principal_def caller_principals_def mock_matches_principal_def mine_def acl_constants)

lemma principals_clause_eq [acl_sql]:
  "sql_holds (principals_clause (caller_principals user) r) = mine user r"
  by (auto simp: caller_principals_def mine_def acl_constants sql_simps sql_eq_param_def sql_holds_def [of SFalse])

lemma not_expired_eq [acl_sql]: "sql_holds (not_expired_clause now r) = mock_not_expired r now"
  by (auto simp: not_expired_clause_def mock_not_expired_def sql_simps split: option.splits)

lemma rls_mirror_eq [acl_sql]: "sql_holds (rls_mirror_clause user r) = mock_rls_visible r user"
  by (auto simp: rls_mirror_clause_def mock_rls_visible_def sql_simps)

lemma rls_select_eq [acl_sql]: "sql_holds (rls_select (Some (uc_user_id user)) r) = mock_rls_visible r user"
  by (auto simp: rls_select_def mock_rls_visible_def sql_simps acl_constants)

lemma contains_bit_eq [acl_sql]: "sql_holds (contains_bit b r) = contains_bits (ae_perm_bits r) b"
  by (simp add: contains_bit_def contains_bits_def sql_simps)

lemma owner_scope_eq [acl_sql]: "sql_holds (owner_scope_clause user r) \<longleftrightarrow> ae_user_sub r = uc_user_id user"
  by (simp add: owner_scope_clause_def sql_simps)

lemma in_ids_eq [acl_sql]: "sql_holds (in_ids rids r) = in_bound rids r"
  by (cases rids) (simp_all add: in_ids_def in_bound_def sql_simps sql_holds_def [of STrue])

lemma sql_eq_param_holds [acl_sql]: "sql_holds (sql_eq_param c p) \<longleftrightarrow> c = p"
  by (auto simp: sql_eq_param_def sql_simps)

lemma mine_visible: "mine user r \<Longrightarrow> mock_rls_visible r user"
  by (auto simp: mine_def mock_rls_visible_def acl_constants)

lemma owner_visible: "ae_user_sub r = uc_user_id user \<Longrightarrow> mock_rls_visible r user"
  by (simp add: mock_rls_visible_def)

lemma rls_rows_eq: "rls_rows user t = filter (\<lambda>r. mock_rls_visible r user) t"
  by (simp add: rls_rows_def sql_select_def acl_sql)

lemma select_rls:
  assumes "\<And>r. sql_holds (c r) \<longleftrightarrow> p r" and "\<And>r. p r \<Longrightarrow> mock_rls_visible r user"
  shows "sql_select c (rls_rows user t) = filter p t"
  using assms by (auto simp: sql_select_def rls_rows_eq intro: filter_cong)

lemma collect_ids_set: "set (collect_ids p t found) = set found \<union> ae_resource_id ` {r \<in> set t. p r}"
  by (induction t arbitrary: found) auto

lemma collect_ids_distinct: "distinct found \<Longrightarrow> distinct (collect_ids p t found)"
  by (induction t arbitrary: found) auto

section \<open>The contract\<close>

locale acl_reads =
  fixes has :: "acl_table \<Rightarrow> int \<Rightarrow> user_context \<Rightarrow> string \<Rightarrow> string \<Rightarrow> int \<Rightarrow> bool"
    and eff :: "acl_table \<Rightarrow> int \<Rightarrow> user_context \<Rightarrow> string \<Rightarrow> string \<Rightarrow> int"
    and batch :: "acl_table \<Rightarrow> int \<Rightarrow> user_context \<Rightarrow> string \<Rightarrow> string list \<Rightarrow> (string \<rightharpoonup> int)"
    and acc :: "acl_table \<Rightarrow> int \<Rightarrow> user_context \<Rightarrow> string \<Rightarrow> int \<Rightarrow> string list option \<Rightarrow> string list"
  assumes has_law: "has t now user rt rid b \<longleftrightarrow>
      (\<exists>r \<in> set t. applies user now rt rid r \<and> contains_bits (ae_perm_bits r) b)"
    and eff_law: "eff t now user rt rid = union_bits (map ae_perm_bits (filter (applies user now rt rid) t))"
    and batch_law: "batch t now user rt rids rid =
      (if rid \<in> set rids \<and> (\<exists>r \<in> set t. applies user now rt rid r) then Some (eff t now user rt rid) else None)"
    and acc_set: "set (acc t now user rt b bound) =
      {rid. (case bound of None \<Rightarrow> True | Some ids \<Rightarrow> rid \<in> set ids) \<and> has t now user rt rid b}"
    and acc_distinct: "distinct (acc t now user rt b bound)"
begin

lemma has_contained: "has t now user rt rid b \<Longrightarrow> contains_bits (eff t now user rt rid) b"
  by (auto simp: has_law eff_law intro!: union_bits_contains)

lemma has_single: "has t now user rt rid (2 ^ n) \<longleftrightarrow> contains_bits (eff t now user rt rid) (2 ^ n)"
  by (auto simp: has_law eff_law contains_union_bits)

lemma deny_by_default:
  assumes "\<forall>r \<in> set t. \<not> applies user now rt rid r"
  shows "\<not> has t now user rt rid b \<and> eff t now user rt rid = 0 \<and> batch t now user rt rids rid = None"
  using assms by (auto simp: has_law eff_law batch_law filter_empty_conv)

lemma same_grants:
  assumes "filter (\<lambda>r. mine user r \<and> mock_not_expired r now) t1 = filter (\<lambda>r. mine user r \<and> mock_not_expired r now) t2"
  shows "has t1 now user rt rid b = has t2 now user rt rid b \<and>
    eff t1 now user rt rid = eff t2 now user rt rid \<and>
    batch t1 now user rt rids = batch t2 now user rt rids \<and>
    set (acc t1 now user rt b bound) = set (acc t2 now user rt b bound)"
proof -
  have f: "filter (applies user now rt rid) t = filter (\<lambda>r. ae_resource_type r = rt \<and> ae_resource_id r = rid)
      (filter (\<lambda>r. mine user r \<and> mock_not_expired r now) t)" for t rid
    unfolding filter_filter by (rule filter_cong) (auto simp: applies_def)
  have e: "filter (applies user now rt rid) t1 = filter (applies user now rt rid) t2" for rid
    unfolding f assms by (rule refl)
  have ex: "(\<exists>r \<in> set t. applies user now rt rid r \<and> p r) \<longleftrightarrow>
      (\<exists>r \<in> set (filter (applies user now rt rid) t). p r)" for t rid p by auto
  have h: "has t1 now user rt rid b = has t2 now user rt rid b" for rid
    unfolding has_law ex e by (rule refl)
  have ef: "eff t1 now user rt rid = eff t2 now user rt rid" for rid
    unfolding eff_law e by (rule refl)
  have "(\<exists>r \<in> set t1. applies user now rt rid r) = (\<exists>r \<in> set t2. applies user now rt rid r)" for rid
    using ex [of t1 rid "\<lambda>_. True"] ex [of t2 rid "\<lambda>_. True"] e by simp
  with h ef show ?thesis by (auto simp: batch_law acc_set)
qed

text \<open>Time only takes permissions away.\<close>

lemma has_antimono:
  assumes "now \<le> later" and "has t later user rt rid b"
  shows "has t now user rt rid b"
  using assms by (fastforce simp: has_law applies_def mock_not_expired_def split: option.splits)

end

section \<open>The Postgres service keeps it\<close>

lemma has_permission_eq:
  "has_permission t now user rt rid b \<longleftrightarrow>
     (\<exists>r \<in> set t. applies user now rt rid r \<and> contains_bits (ae_perm_bits r) b)"
proof -
  have "sql_select (\<lambda>r. where_all [rls_mirror_clause user r, principals_clause (caller_principals user) r,
        sql_of (ae_resource_type r = rt), sql_of (ae_resource_id r = rid), contains_bit b r,
        not_expired_clause now r]) (rls_rows user t)
      = filter (\<lambda>r. applies user now rt rid r \<and> contains_bits (ae_perm_bits r) b) t"
    by (rule select_rls) (auto simp: acl_sql sql_simps applies_def dest: mine_visible)
  then show ?thesis by (auto simp: has_permission_def filter_empty_conv)
qed

lemma effective_select:
  "sql_select (\<lambda>r. where_all [rls_mirror_clause user r, principals_clause (caller_principals user) r,
      sql_of (ae_resource_type r = rt), sql_of (ae_resource_id r = rid), not_expired_clause now r])
     (rls_rows user t) = filter (applies user now rt rid) t"
  by (rule select_rls) (auto simp: acl_sql sql_simps applies_def dest: mine_visible)

lemma get_effective_eq:
  "get_effective_permissions t now user rt rid = union_bits (map ae_perm_bits (filter (applies user now rt rid) t))"
  by (simp add: get_effective_permissions_def effective_select union_bits_def)

definition add_bits_to :: "(string \<rightharpoonup> int) \<Rightarrow> acl_entry \<Rightarrow> (string \<rightharpoonup> int)" where
  "add_bits_to result r = result(ae_resource_id r \<mapsto>
     (case result (ae_resource_id r) of None \<Rightarrow> 0 | Some b \<Rightarrow> b) OR ae_perm_bits r)"

lemma fold_add_bits:
  "foldl add_bits_to m rows rid =
     (if \<exists>r \<in> set rows. ae_resource_id r = rid
      then Some ((case m rid of None \<Rightarrow> 0 | Some b \<Rightarrow> b) OR
                 union_bits (map ae_perm_bits (filter (\<lambda>r. ae_resource_id r = rid) rows)))
      else m rid)"
proof (induction rows arbitrary: m)
  case Nil
  then show ?case by simp
next
  case (Cons r rows)
  have none: "filter (\<lambda>r. ae_resource_id r = rid) rows = []" if "\<not> (\<exists>r \<in> set rows. ae_resource_id r = rid)"
    using that by (auto simp: filter_empty_conv)
  show ?case using Cons.IH [of "add_bits_to m r"] none
    by (auto simp: add_bits_to_def or.assoc split: option.splits)
qed

lemma batch_of_fold:
  assumes "rids \<noteq> []"
  shows "foldl add_bits_to Map.empty (filter (\<lambda>r. mine user r \<and> ae_resource_type r = rt \<and>
      ae_resource_id r \<in> set rids \<and> mock_not_expired r now) t) rid =
    (if rid \<in> set rids \<and> (\<exists>r \<in> set t. applies user now rt rid r)
     then Some (union_bits (map ae_perm_bits (filter (applies user now rt rid) t))) else None)"
proof -
  let ?rows = "filter (\<lambda>r. mine user r \<and> ae_resource_type r = rt \<and>
      ae_resource_id r \<in> set rids \<and> mock_not_expired r now) t"
  have "(\<exists>r \<in> set ?rows. ae_resource_id r = rid) \<longleftrightarrow> rid \<in> set rids \<and> (\<exists>r \<in> set t. applies user now rt rid r)"
    by (auto simp: applies_def)
  moreover have "filter (\<lambda>r. ae_resource_id r = rid) ?rows = filter (applies user now rt rid) t" if "rid \<in> set rids"
    unfolding filter_filter using that by (intro filter_cong) (auto simp: applies_def)
  ultimately show ?thesis by (auto simp: fold_add_bits)
qed

lemma batch_select:
  "sql_select (\<lambda>r. where_all [rls_mirror_clause user r, principals_clause (caller_principals user) r,
      sql_of (ae_resource_type r = rt), in_ids (Some rids) r, not_expired_clause now r]) (rls_rows user t)
   = filter (\<lambda>r. mine user r \<and> ae_resource_type r = rt \<and> ae_resource_id r \<in> set rids \<and> mock_not_expired r now) t"
  by (rule select_rls) (auto simp: acl_sql sql_simps in_bound_def dest: mine_visible)

lemma batch_eq:
  "get_effective_permissions_for_resources t now user rt rids rid =
     (if rid \<in> set rids \<and> (\<exists>r \<in> set t. applies user now rt rid r)
      then Some (get_effective_permissions t now user rt rid) else None)"
proof (cases "rids = []")
  case True
  then show ?thesis by (simp add: get_effective_permissions_for_resources_def)
next
  case False
  have "get_effective_permissions_for_resources t now user rt rids = foldl add_bits_to Map.empty
      (filter (\<lambda>r. mine user r \<and> ae_resource_type r = rt \<and> ae_resource_id r \<in> set rids \<and> mock_not_expired r now) t)"
    using False
    by (simp add: get_effective_permissions_for_resources_def batch_select add_bits_to_def [abs_def])
  then show ?thesis using batch_of_fold [OF False] by (simp add: get_effective_eq)
qed

lemma accessible_select:
  "sql_select (\<lambda>r. where_all [rls_mirror_clause user r, principals_clause (caller_principals user) r,
      sql_of (ae_resource_type r = rt), contains_bit b r, not_expired_clause now r, in_ids rids r]) (rls_rows user t)
   = filter (\<lambda>r. mine user r \<and> ae_resource_type r = rt \<and> contains_bits (ae_perm_bits r) b \<and>
       mock_not_expired r now \<and> in_bound rids r) t"
  by (rule select_rls) (auto simp: acl_sql sql_simps dest: mine_visible)

interpretation pg: acl_reads has_permission get_effective_permissions
  get_effective_permissions_for_resources find_accessible_resources
proof unfold_locales
  show "set (find_accessible_resources t now user rt b rids) =
      {rid. (case rids of None \<Rightarrow> True | Some ids \<Rightarrow> rid \<in> set ids) \<and> has_permission t now user rt rid b}"
    for t now user rt b rids
    by (auto simp: find_accessible_resources_def select_distinct_ids_def accessible_select has_permission_eq
        applies_def in_bound_def split: option.splits)
qed (simp_all add: has_permission_eq get_effective_eq batch_eq find_accessible_resources_def select_distinct_ids_def)

section \<open>The mock keeps it\<close>

lemma mock_has_eq:
  "mock_has_permission t now user rt rid b \<longleftrightarrow>
     (\<exists>r \<in> set t. applies user now rt rid r \<and> contains_bits (ae_perm_bits r) b)"
  by (induction t) (auto simp: acl_sql applies_def contains_bits_def dest: mine_visible)

lemma mock_effective_loop_eq:
  "mock_effective_loop t now user rt rid e = e OR union_bits (map ae_perm_bits (filter (applies user now rt rid) t))"
  by (induction t arbitrary: e) (auto simp: acl_sql applies_def or.assoc dest: mine_visible)

lemma mock_batch_loop_eq:
  "mock_batch_loop t now user rt rids m = foldl add_bits_to m
     (filter (\<lambda>r. mine user r \<and> ae_resource_type r = rt \<and> ae_resource_id r \<in> set rids \<and> mock_not_expired r now) t)"
  by (induction t arbitrary: m) (auto simp: acl_sql add_bits_to_def dest: mine_visible)

lemma mock_batch_eq:
  "mock_get_effective_permissions_for_resources t now user rt rids rid =
     (if rid \<in> set rids \<and> (\<exists>r \<in> set t. applies user now rt rid r)
      then Some (mock_get_effective_permissions t now user rt rid) else None)"
  using batch_of_fold [of rids user rt now t rid]
  by (auto simp: mock_get_effective_permissions_for_resources_def mock_batch_loop_eq
      mock_get_effective_permissions_def mock_effective_loop_eq)

lemma mock_accessible_set:
  "set (mock_find_accessible_resources t now user rt b rids) =
     {rid. (case rids of None \<Rightarrow> True | Some ids \<Rightarrow> rid \<in> set ids) \<and> mock_has_permission t now user rt rid b}"
  by (auto simp: mock_find_accessible_resources_def collect_ids_set mock_has_eq acl_sql applies_def in_bound_def
      contains_bits_def mine_visible split: option.splits)

interpretation mk: acl_reads mock_has_permission mock_get_effective_permissions
  mock_get_effective_permissions_for_resources mock_find_accessible_resources
proof unfold_locales
  show "mock_get_effective_permissions t now user rt rid =
      union_bits (map ae_perm_bits (filter (applies user now rt rid) t))" for t now user rt rid
    by (simp add: mock_get_effective_permissions_def mock_effective_loop_eq)
  show "distinct (mock_find_accessible_resources t now user rt b rids)" for t now user rt b rids
    by (simp add: mock_find_accessible_resources_def collect_ids_distinct)
qed (simp_all add: mock_has_eq mock_batch_eq mock_accessible_set)

section \<open>Properties of the authorization reads\<close>

text \<open>
  The single-bit question and the effective mask agree: the caller holds a bit on a resource
  exactly when the mask contains it, the batch form reports exactly the resources with a grant, at
  their masks, and the accessible resources are exactly those on which the bit is held.
\<close>

lemma permission_reads_agree:
  "(has_permission t now user rt rid (2 ^ n) \<longleftrightarrow>
      contains_bits (get_effective_permissions t now user rt rid) (2 ^ n)) \<and>
   get_effective_permissions_for_resources t now user rt rids rid =
     (if rid \<in> set rids \<and> (\<exists>r \<in> set t. applies user now rt rid r)
      then Some (get_effective_permissions t now user rt rid) else None) \<and>
   set (find_accessible_resources t now user rt b None) = {x. has_permission t now user rt x b}"
  by (simp add: pg.has_single pg.batch_law pg.acc_set)

text \<open>
  Deny by default and isolation. An authorization read depends on nothing but the unexpired
  grants to the caller or to the public: two tables with the same such grants answer alike, and a
  table without one on the resource gives no bit at all.
\<close>

lemma only_live_grants_matter:
  assumes "filter (\<lambda>r. mine user r \<and> mock_not_expired r now) t1 = filter (\<lambda>r. mine user r \<and> mock_not_expired r now) t2"
  shows "has_permission t1 now user rt rid b = has_permission t2 now user rt rid b \<and>
    get_effective_permissions t1 now user rt rid = get_effective_permissions t2 now user rt rid \<and>
    get_effective_permissions_for_resources t1 now user rt rids = get_effective_permissions_for_resources t2 now user rt rids \<and>
    ((\<exists>r \<in> set t1. applies user now rt rid r) \<or> get_effective_permissions t1 now user rt rid = 0)"
  using pg.same_grants [OF assms] pg.deny_by_default by blast

text \<open>
  With the table unchanged, time only takes permissions away, and a grant gives nothing from
  the millisecond of its expiry on.
\<close>

lemma permissions_expire:
  assumes "now \<le> later" and "has_permission t later user rt rid b"
  shows "has_permission t now user rt rid b \<and>
    (\<exists>r \<in> set t. ae_resource_id r = rid \<and> contains_bits (ae_perm_bits r) b \<and>
       (\<forall>e. ae_expired_at_ms r \<noteq> Some e \<or> later < e))"
  using pg.has_antimono [OF assms] assms(2)
  by (fastforce simp: pg.has_law applies_def mock_not_expired_def)

lemma public_select:
  "sql_select (\<lambda>r. where_all [sql_of (ae_principal_type r = PRINCIPAL_TYPE_PUBLIC),
      sql_of (ae_resource_type r = rt), contains_bit b r, not_expired_clause now r, in_ids rids r]) (rls_rows user t)
   = filter (\<lambda>r. ae_principal_type r = PRINCIPAL_TYPE_PUBLIC \<and> ae_resource_type r = rt \<and>
       contains_bits (ae_perm_bits r) b \<and> mock_not_expired r now \<and> in_bound rids r) t"
  by (rule select_rls) (auto simp: acl_sql sql_simps mock_rls_visible_def)

lemma public_ids:
  "set (find_public_resource_ids t now user rt b rids) = set (mock_find_public_resource_ids t now user rt b rids)"
  unfolding find_public_resource_ids_def select_distinct_ids_def public_select mock_find_public_resource_ids_def
  by (auto simp: collect_ids_set contains_bits_def)

lemma owners_select:
  "sql_select (\<lambda>r. where_all [rls_mirror_clause user r, sql_of (ae_resource_type r = rt), in_ids (Some rids) r,
      sql_of (ae_principal_type r = PRINCIPAL_TYPE_USER), sql_of (ae_perm_bits r = OWNER_PERMISSION_BITS),
      not_expired_clause now r]) (rls_rows user t)
   = filter (\<lambda>row. mock_rls_visible row user \<and> ae_resource_type row = rt \<and>
       ae_resource_id row \<in> set rids \<and> ae_principal_type row = PRINCIPAL_TYPE_USER \<and>
       ae_perm_bits row = OWNER_PERMISSION_BITS \<and> mock_not_expired row now) t"
  by (rule select_rls) (auto simp: acl_sql sql_simps in_bound_def)

lemma entries_by_principal_eq:
  "find_entries_by_principal t user ptype pid rt = mock_find_entries_by_principal t user ptype pid rt"
  unfolding find_entries_by_principal_def mock_find_entries_by_principal_def
  by (rule select_rls) (auto simp: acl_sql sql_simps owner_visible split: option.splits if_splits)

lemma entries_by_resource_eq:
  "find_entries_by_resource t user rt rid = mock_find_entries_by_resource t user rt rid"
  unfolding find_entries_by_resource_def mock_find_entries_by_resource_def
  by (rule select_rls) (auto simp: acl_sql sql_simps owner_visible)

lemma entries_by_principals_eq:
  "find_entries_by_principals_and_resource t user rt rid = mock_find_entries_by_principals_and_resource t user rt rid"
  unfolding find_entries_by_principals_and_resource_def mock_find_entries_by_principals_and_resource_def
  by (rule select_rls) (auto simp: acl_sql sql_simps mine_visible)

text \<open>
  The mock answers every read but one as the database does through its row-level policy: the
  permission and mask reads, the batch, the accessible and the public resources (as sets, the
  database promises no order), the owner fold and the three audit reads.
\<close>

lemma mock_reads_agree:
  "mock_has_permission t now user rt rid b = has_permission t now user rt rid b \<and>
   mock_get_effective_permissions t now user rt rid = get_effective_permissions t now user rt rid \<and>
   mock_get_effective_permissions_for_resources t now user rt rids = get_effective_permissions_for_resources t now user rt rids \<and>
   set (mock_find_accessible_resources t now user rt b bound) = set (find_accessible_resources t now user rt b bound) \<and>
   set (mock_find_public_resource_ids t now user rt b bound) = set (find_public_resource_ids t now user rt b bound) \<and>
   mock_get_owner_principal_ids t now user rt rids = get_owner_principal_ids t now user rt rids \<and>
   mock_find_entries_by_principal t user ptype pid ort = find_entries_by_principal t user ptype pid ort \<and>
   mock_find_entries_by_resource t user rt rid = find_entries_by_resource t user rt rid \<and>
   mock_find_entries_by_principals_and_resource t user rt rid = find_entries_by_principals_and_resource t user rt rid"
proof -
  have h: "mock_has_permission t now user rt rid b = has_permission t now user rt rid b" for rid
    by (simp add: mk.has_law pg.has_law)
  have e: "mock_get_effective_permissions t now user rt rid = get_effective_permissions t now user rt rid" for rid
    by (simp add: mk.eff_law pg.eff_law)
  have "mock_get_effective_permissions_for_resources t now user rt rids = get_effective_permissions_for_resources t now user rt rids"
    by (rule ext) (simp add: mk.batch_law pg.batch_law e)
  moreover have "mock_get_owner_principal_ids t now user rt rids = get_owner_principal_ids t now user rt rids"
    unfolding mock_get_owner_principal_ids_def get_owner_principal_ids_def owners_select by (rule refl)
  ultimately show ?thesis
    using h e
    by (simp add: mk.acc_set pg.acc_set public_ids entries_by_principal_eq entries_by_resource_eq entries_by_principals_eq)
qed

section \<open>Sole ownership\<close>

definition own_delete :: "user_context \<Rightarrow> int \<Rightarrow> string list \<Rightarrow> acl_entry \<Rightarrow> bool" where
  "own_delete user now rts r \<longleftrightarrow> ae_resource_type r \<in> set rts \<and> ae_principal_type r = ''user'' \<and>
     ae_principal_id r = Some (uc_user_id user) \<and> contains_bits (ae_perm_bits r) PERMISSION_BIT_DELETE \<and>
     mock_not_expired r now"

definition other_delete :: "user_context \<Rightarrow> int \<Rightarrow> string list \<Rightarrow> acl_entry \<Rightarrow> bool" where
  "other_delete user now rts r \<longleftrightarrow> ae_resource_type r \<in> set rts \<and>
     \<not> (ae_principal_type r = ''user'' \<and> ae_principal_id r = Some (uc_user_id user)) \<and>
     contains_bits (ae_perm_bits r) PERMISSION_BIT_DELETE \<and> mock_not_expired r now"

lemma own_delete_visible: "own_delete user now rts r \<Longrightarrow> mock_rls_visible r user"
  by (simp add: own_delete_def mock_rls_visible_def acl_constants)

lemma mock_sole_owned_set:
  "set (mock_get_sole_owned_resource_ids t now user rts) =
     {rid. (\<exists>r \<in> set t. own_delete user now rts r \<and> ae_resource_id r = rid) \<and>
           \<not> (\<exists>r \<in> set t. other_delete user now rts r \<and> ae_resource_id r = rid)}"
proof -
  define owned where "owned = collect_ids (\<lambda>row. mock_rls_visible row user \<and> ae_resource_type row \<in> set rts \<and>
      (ae_principal_type row = PRINCIPAL_TYPE_USER \<and> ae_principal_id row = Some (uc_user_id user)) \<and>
      ae_perm_bits row AND PERMISSION_BIT_DELETE = PERMISSION_BIT_DELETE \<and> mock_not_expired row now) t []"
  have o: "set owned = ae_resource_id ` {r \<in> set t. own_delete user now rts r}"
    unfolding owned_def collect_ids_set using own_delete_visible
    by (auto simp: own_delete_def contains_bits_def acl_constants)
  have "set (mock_get_sole_owned_resource_ids t now user rts) =
      {rid \<in> set owned. rid \<notin> ae_resource_id ` {r \<in> set t. other_delete user now rts r \<and> ae_resource_id r \<in> set owned}}"
    unfolding mock_get_sole_owned_resource_ids_def Let_def owned_def [symmetric]
    by (auto simp: other_delete_def contains_bits_def acl_constants)
  then show ?thesis unfolding o by (simp only:) (auto simp: image_iff)
qed

lemma sole_owned_set:
  "set (get_sole_owned_resource_ids t now user rts) =
     {rid. (\<exists>r \<in> set t. own_delete user now rts r \<and> ae_resource_id r = rid) \<and>
           \<not> (\<exists>r \<in> set t. other_delete user now rts r \<and> mock_rls_visible r user \<and>
                ae_resource_id r = rid \<and> \<not> (ae_principal_id r = None \<and> ae_principal_type r = ''user''))}"
proof -
  define owned where "owned = select_distinct_ids (\<lambda>r. where_all [rls_mirror_clause user r,
            sql_of (ae_principal_type r = PRINCIPAL_TYPE_USER),
            sql_eq (ae_principal_id r) (Some (uc_user_id user)), sql_of (ae_resource_type r \<in> set rts),
            contains_bit PERMISSION_BIT_DELETE r, not_expired_clause now r]) (rls_rows user t)"
  have o: "set owned = ae_resource_id ` {r \<in> set t. own_delete user now rts r}"
    unfolding owned_def select_distinct_ids_def using own_delete_visible
    by (auto simp: set_sql_select rls_rows_eq acl_sql sql_simps own_delete_def acl_constants)
  have "set (get_sole_owned_resource_ids t now user rts) =
      {rid \<in> set owned. rid \<notin> ae_resource_id ` {r \<in> set t. other_delete user now rts r \<and> mock_rls_visible r user \<and>
         ae_resource_id r \<in> set owned \<and> \<not> (ae_principal_id r = None \<and> ae_principal_type r = ''user'')}}"
    unfolding get_sole_owned_resource_ids_def Let_def owned_def [symmetric]
    by (auto simp: select_distinct_ids_def set_sql_select rls_rows_eq acl_sql sql_simps other_delete_def acl_constants)
  then show ?thesis unfolding o by (simp only:) (auto simp: image_iff)
qed

text \<open>
  What the database calls solely owned and the mock does not: exactly the resources on which
  some other principal holds DELETE by a row the row-level policy hides from the caller, a row
  neither granted by the caller nor to the caller nor to the public. Nothing is lost in the other
  direction. (Rows satisfying the CHECK that pairs a principal with its identifier.)
\<close>

lemma sole_owned_gap:
  assumes "\<forall>r \<in> set t. sql_check_ok (ck_public_principal_null r)"
  shows "set (mock_get_sole_owned_resource_ids t now user rts) \<subseteq> set (get_sole_owned_resource_ids t now user rts) \<and>
    (\<forall>rid. rid \<in> set (get_sole_owned_resource_ids t now user rts) \<and>
           rid \<notin> set (mock_get_sole_owned_resource_ids t now user rts) \<longrightarrow>
       (\<exists>r \<in> set t. other_delete user now rts r \<and> ae_resource_id r = rid \<and> ae_user_sub r \<noteq> uc_user_id user \<and>
          \<not> mine user r))"
proof -
  have none: "\<not> (ae_principal_id r = None \<and> ae_principal_type r = ''user'')" if "r \<in> set t" for r
    using assms that by (cases "ae_principal_model r")
      (force simp: ck_public_principal_null_def sql_check_ok_def sql_of_def sql_is_null_def)+
  have hid: "ae_user_sub r \<noteq> uc_user_id user \<and> \<not> mine user r" if "\<not> mock_rls_visible r user" for r
    using that mine_visible owner_visible by blast
  show ?thesis
    unfolding mock_sole_owned_set sole_owned_set using none hid by blast
qed

section \<open>The owner fold\<close>

lemma first_owners_eq:
  "first_owners rows m rid =
     (case m rid of Some p \<Rightarrow> Some p
      | None \<Rightarrow> map_option (\<lambda>r. the (ae_principal_id r))
                  (find (\<lambda>r. ae_resource_id r = rid \<and> ae_principal_id r \<noteq> None) rows))"
  by (induction rows arbitrary: m) (auto split: option.splits)

text \<open>The weight of a row among the rows of its resource.\<close>

definition grant_le :: "acl_entry \<Rightarrow> acl_entry \<Rightarrow> bool" where
  "grant_le r s \<longleftrightarrow> ae_granted_at_ms r < ae_granted_at_ms s \<or>
     ae_granted_at_ms r = ae_granted_at_ms s \<and>
       (ae_created_at_ms r < ae_created_at_ms s \<or> ae_created_at_ms r = ae_created_at_ms s \<and> ae_id r \<le> ae_id s)"

lemma insort_lex:
  assumes "sorted_wrt (\<lambda>a b. f a < f b \<or> f a = f b \<and> R a b) ys" and "\<forall>y \<in> set ys. R x y"
  shows "sorted_wrt (\<lambda>a b. f a < f b \<or> f a = f b \<and> R a b) (insort_key f x ys)"
  using assms by (induction ys) (auto simp: set_insort_key dest: order_le_imp_less_or_eq)

lemma sort_lex:
  "sorted_wrt R xs \<Longrightarrow> sorted_wrt (\<lambda>a b. f a < f b \<or> f a = f b \<and> R a b) (sort_key f xs)"
  by (induction xs) (simp_all add: insort_lex)

lemma owner_order_sorted:
  "sorted_wrt (\<lambda>a b. ae_resource_id a < ae_resource_id b \<or> ae_resource_id a = ae_resource_id b \<and> grant_le a b)
     (owner_order rows)"
proof -
  have "sorted_wrt (\<lambda>a b. ae_id a \<le> ae_id b) (sort_key ae_id rows)"
    using sorted_sort_key [of ae_id rows] by (simp add: sorted_map)
  note sort_lex [OF this, of ae_created_at_ms]
  note sort_lex [OF this, of ae_granted_at_ms]
  note sort_lex [OF this, of ae_resource_id]
  then show ?thesis unfolding owner_order_def
    by (rule sorted_wrt_mono_rel [rotated]) (auto simp: grant_le_def)
qed

lemma set_owner_order [simp]: "set (owner_order rows) = set rows"
  by (simp add: owner_order_def)

lemma find_first:
  assumes "find p xs = Some r" and "sorted_wrt Q xs" and "s \<in> set xs" and "p s"
  shows "s = r \<or> Q r s"
  using assms by (induction xs) (auto split: if_splits)

text \<open>The rows that make their principal an owner in the caller's eyes.\<close>

definition owner_row :: "user_context \<Rightarrow> int \<Rightarrow> string \<Rightarrow> string \<Rightarrow> acl_entry \<Rightarrow> bool" where
  "owner_row user now rt rid r \<longleftrightarrow> mock_rls_visible r user \<and> ae_resource_type r = rt \<and> ae_resource_id r = rid \<and>
     ae_principal_type r = ''user'' \<and> ae_principal_id r \<noteq> None \<and> ae_perm_bits r = 15 \<and> mock_not_expired r now"

text \<open>
  The owner fold reports, for each resource asked about, the principal of the earliest
  visible unexpired grant of all four bits to a user, with ties by creation time and identifier;
  and reports nothing exactly where there is no such grant.
\<close>

lemma owner_fold_earliest:
  "case get_owner_principal_ids t now user rt rids rid of
     None \<Rightarrow> rid \<notin> set rids \<or> (\<forall>r \<in> set t. \<not> owner_row user now rt rid r)
   | Some p \<Rightarrow> rid \<in> set rids \<and> (\<exists>r \<in> set t. owner_row user now rt rid r \<and> ae_principal_id r = Some p \<and>
       (\<forall>s \<in> set t. owner_row user now rt rid s \<and> s \<noteq> r \<longrightarrow> grant_le r s))"
proof (cases "rids = []")
  case True
  then show ?thesis by (simp add: get_owner_principal_ids_def)
next
  case False
  define rows where "rows = owner_order (filter (\<lambda>row. mock_rls_visible row user \<and> ae_resource_type row = rt \<and>
       ae_resource_id row \<in> set rids \<and> ae_principal_type row = PRINCIPAL_TYPE_USER \<and>
       ae_perm_bits row = OWNER_PERMISSION_BITS \<and> mock_not_expired row now) t)"
  let ?p = "\<lambda>r. ae_resource_id r = rid \<and> ae_principal_id r \<noteq> None"
  have g: "get_owner_principal_ids t now user rt rids rid = map_option (\<lambda>r. the (ae_principal_id r)) (find ?p rows)"
    unfolding get_owner_principal_ids_def owners_select rows_def using False by (simp add: first_owners_eq)
  have mem: "r \<in> set rows \<and> ?p r \<longleftrightarrow> r \<in> set t \<and> rid \<in> set rids \<and> owner_row user now rt rid r" for r
    by (auto simp: rows_def owner_row_def acl_constants OWNER_PERMISSION_BITS_def MAX_PERM_BITS_eq)
  show ?thesis
  proof (cases "find ?p rows")
    case None
    then have "\<forall>r \<in> set rows. \<not> ?p r" by (simp add: find_None_set)
    with mem have "rid \<notin> set rids \<or> (\<forall>r \<in> set t. \<not> owner_row user now rt rid r)" by blast
    with None g show ?thesis by simp
  next
    case (Some r)
    then have r: "r \<in> set rows" "?p r" using find_Some_set by fastforce+
    have srt: "sorted_wrt (\<lambda>a b. ae_resource_id a < ae_resource_id b \<or>
        ae_resource_id a = ae_resource_id b \<and> grant_le a b) rows"
      unfolding rows_def by (rule owner_order_sorted)
    have "grant_le r s" if "s \<in> set rows" "?p s" "s \<noteq> r" for s
      using find_first [OF Some srt that(1,2)] that r by auto
    note le = this
    obtain p where p: "ae_principal_id r = Some p" using r by blast
    have rt: "r \<in> set t" "rid \<in> set rids" "owner_row user now rt rid r" using mem r by blast+
    have "\<forall>s \<in> set t. owner_row user now rt rid s \<and> s \<noteq> r \<longrightarrow> grant_le r s"
      using le mem rt(2) by blast
    then have "\<exists>r \<in> set t. owner_row user now rt rid r \<and> ae_principal_id r = Some p \<and>
        (\<forall>s \<in> set t. owner_row user now rt rid s \<and> s \<noteq> r \<longrightarrow> grant_le r s)"
      using rt p by blast
    moreover have "get_owner_principal_ids t now user rt rids rid = Some p" using g Some p by simp
    ultimately show ?thesis using rt(2) by simp
  qed
qed

section \<open>Witnesses\<close>

definition demo_entry :: "string \<Rightarrow> string \<Rightarrow> string \<Rightarrow> int \<Rightarrow> int option \<Rightarrow> acl_entry" where
  "demo_entry eid owner grantee bits expiry =
     \<lparr>ae_id = eid, ae_user_sub = owner, ae_principal_type = ''user'', ae_principal_id = Some grantee,
      ae_principal_model = Some ''User'', ae_resource_type = ''agent'', ae_resource_id = ''r1'',
      ae_perm_bits = bits, ae_tenant_id = None, ae_role_id = None, ae_inherited_from = None,
      ae_granted_by = Some owner, ae_granted_at_ms = 1, ae_expired_at_ms = expiry,
      ae_created_at_ms = 1, ae_updated_at_ms = 1, ae_trace_id = None\<rparr>"

text \<open>Ann grants Bob all bits; Ann grants Cem all bits; an expired grant to Bob.\<close>

definition demo_acl :: acl_table where
  "demo_acl = [demo_entry ''e1'' ''ann'' ''bob'' 15 None, demo_entry ''e2'' ''ann'' ''cem'' 15 None,
               demo_entry ''e3'' ''ann'' ''bob'' 2 (Some 5)]"

lemma only_live_grants_matter_witness:
  "get_effective_permissions demo_acl 9 (demo_user ''bob'') ''agent'' ''r1''
     = get_effective_permissions [demo_entry ''e1'' ''ann'' ''bob'' 15 None] 9 (demo_user ''bob'') ''agent'' ''r1''
   \<and> get_effective_permissions demo_acl 9 (demo_user ''bob'') ''agent'' ''r1'' = 15"
proof -
  have "filter (\<lambda>r. mine (demo_user ''bob'') r \<and> mock_not_expired r 9) demo_acl =
      filter (\<lambda>r. mine (demo_user ''bob'') r \<and> mock_not_expired r 9) [demo_entry ''e1'' ''ann'' ''bob'' 15 None]"
    by code_simp
  from only_live_grants_matter [OF this, of "''agent''" "''r1''"]
  have "get_effective_permissions demo_acl 9 (demo_user ''bob'') ''agent'' ''r1''
     = get_effective_permissions [demo_entry ''e1'' ''ann'' ''bob'' 15 None] 9 (demo_user ''bob'') ''agent'' ''r1''"
    by blast
  moreover have "get_effective_permissions demo_acl 9 (demo_user ''bob'') ''agent'' ''r1'' = 15" by code_simp
  ultimately show ?thesis ..
qed

lemma permissions_expire_witness:
  "has_permission demo_acl 4 (demo_user ''bob'') ''agent'' ''r1'' 2"
proof -
  have "has_permission demo_acl 9 (demo_user ''bob'') ''agent'' ''r1'' 2" by code_simp
  from permissions_expire [OF _ this, of 4] show ?thesis by simp
qed

text \<open>Bob, asking for his own resources, does not see that Cem may delete the agent too.\<close>

lemma sole_owned_gap_witness:
  "get_sole_owned_resource_ids demo_acl 9 (demo_user ''bob'') [''agent''] = [''r1'']
   \<and> mock_get_sole_owned_resource_ids demo_acl 9 (demo_user ''bob'') [''agent''] = []
   \<and> (\<exists>r \<in> set demo_acl. other_delete (demo_user ''bob'') 9 [''agent''] r \<and> \<not> mine (demo_user ''bob'') r)"
proof -
  have c: "\<forall>r \<in> set demo_acl. sql_check_ok (ck_public_principal_null r)" by code_simp
  have g: "get_sole_owned_resource_ids demo_acl 9 (demo_user ''bob'') [''agent''] = [''r1'']"
    and m: "mock_get_sole_owned_resource_ids demo_acl 9 (demo_user ''bob'') [''agent''] = []" by code_simp+
  have "\<exists>r \<in> set demo_acl. other_delete (demo_user ''bob'') 9 [''agent''] r \<and> ae_resource_id r = ''r1'' \<and>
      ae_user_sub r \<noteq> uc_user_id (demo_user ''bob'') \<and> \<not> mine (demo_user ''bob'') r"
    using sole_owned_gap [OF c, of 9 "demo_user ''bob''" "[''agent'']"] g m by simp
  with g m show ?thesis by blast
qed

lemma owner_fold_earliest_witness:
  "\<exists>r \<in> set demo_acl. owner_row (demo_user ''ann'') 9 ''agent'' ''r1'' r \<and> ae_principal_id r = Some ''bob'' \<and>
     grant_le r (demo_entry ''e2'' ''ann'' ''cem'' 15 None)"
proof -
  let ?s = "demo_entry ''e2'' ''ann'' ''cem'' 15 None"
  have "get_owner_principal_ids demo_acl 9 (demo_user ''ann'') ''agent'' [''r1''] ''r1'' = Some ''bob''"
    by code_simp
  with owner_fold_earliest [where t = demo_acl and now = 9 and user = "demo_user ''ann''" and rt = "''agent''"
      and rids = "[''r1'']" and rid = "''r1''"]
  obtain r where r: "r \<in> set demo_acl" "owner_row (demo_user ''ann'') 9 ''agent'' ''r1'' r"
      "ae_principal_id r = Some ''bob''"
      "\<forall>s \<in> set demo_acl. owner_row (demo_user ''ann'') 9 ''agent'' ''r1'' s \<and> s \<noteq> r \<longrightarrow> grant_le r s"
    by auto
  have "?s \<in> set demo_acl" by (simp add: demo_acl_def)
  moreover have "owner_row (demo_user ''ann'') 9 ''agent'' ''r1'' ?s" by code_simp
  moreover have "?s \<noteq> r" using r(3) by (auto simp: demo_entry_def)
  ultimately show ?thesis using r by blast
qed

end
