(* ===== verification/AclMockProps.thy ===== *)
theory AclMockProps
  imports AclMockWrite AclReadProps
begin

text \<open>
  What the writes of the ACL mock promise: a write that fails leaves the rows as they were, no row
  is ever removed or rewritten beyond its expiry, a re-grant leaves one active row, a revocation
  expires exactly the caller's active rows, and every write leaves exactly one audit row per key
  it touched.
\<close>

section \<open>Undoing\<close>

definition undo_step :: "acl_table \<Rightarrow> nat \<times> int option \<times> int \<Rightarrow> acl_table" where
  "undo_step es x = (case x of (i, e, u) \<Rightarrow> es[i := (es ! i)\<lparr>ae_expired_at_ms := e, ae_updated_at_ms := u\<rparr>])"

lemma undo_eq: "undo log entries = foldl undo_step entries (rev log)"
  by (simp add: undo_def undo_step_def [abs_def])

lemma undo_append: "undo (log @ recs) es = undo log (undo recs es)"
  by (simp add: undo_eq)

lemma undo_Nil [simp]: "undo [] es = es"
  by (simp add: undo_def)

text \<open>A change of the two columns an expiry writes.\<close>

definition stamps_only :: "(acl_entry \<Rightarrow> acl_entry) \<Rightarrow> bool" where
  "stamps_only f \<longleftrightarrow> (\<forall>r. (f r)\<lparr>ae_expired_at_ms := ae_expired_at_ms r, ae_updated_at_ms := ae_updated_at_ms r\<rparr> = r)"

lemma stamps_only_expire [simp]: "stamps_only (expire_row now)"
  by (simp add: stamps_only_def expire_row_def)

lemma undo_step_shift:
  "foldl undo_step (r # es) (map (\<lambda>(i, eu). (Suc i, eu)) recs) = r # foldl undo_step es recs"
  by (induction recs arbitrary: es) (auto simp: undo_step_def)

lemma undo_records_Cons:
  "undo_records p (r # es) =
     (if p r then [(0, ae_expired_at_ms r, ae_updated_at_ms r)] else []) @ map (\<lambda>(i, eu). (Suc i, eu)) (undo_records p es)"
proof -
  have shift: "enumerate (Suc 0) es = map (\<lambda>(i, x). (Suc i, x)) (enumerate 0 es)"
  proof -
    have "enumerate (Suc n) es = map (\<lambda>(i, x). (Suc i, x)) (enumerate n es)" for n
      by (induction es arbitrary: n) auto
    then show ?thesis .
  qed
  show ?thesis
    by (simp add: undo_records_def shift filter_map o_def case_prod_unfold)
qed

lemma undo_records_restore:
  assumes "stamps_only f"
  shows "undo (undo_records p es) (map_if p f es) = es"
proof (induction es)
  case Nil
  then show ?case by (simp add: undo_eq undo_records_def)
next
  case (Cons r es)
  let ?recs = "map (\<lambda>(i, eu). (Suc i, eu)) (undo_records p es)"
  have "undo ?recs (x # map_if p f es) = x # undo (undo_records p es) (map_if p f es)" for x
    unfolding undo_eq rev_map by (rule undo_step_shift)
  then have tail: "undo ?recs (x # map_if p f es) = x # es" for x using Cons.IH by simp
  show ?case
  proof (cases "p r")
    case True
    then show ?thesis using assms tail
      by (simp add: undo_records_Cons undo_append) (simp add: undo_eq undo_step_def stamps_only_def)
  next
    case False
    then show ?thesis using tail by (simp add: undo_records_Cons)
  qed
qed

lemma undo_last: "stamps_only f \<Longrightarrow> undo (log @ undo_records p es) (map_if p f es) = undo log es"
  by (simp add: undo_append undo_records_restore)

text \<open>The undo record of a grant is keyed by identifier.\<close>

lemma prior_state_get:
  assumes "distinct (map ae_id es)" and "r \<in> set es" and "ae_id r \<in> set ids"
  shows "prior_state ids es (ae_id r) = Some (ae_expired_at_ms r, ae_updated_at_ms r)"
proof -
  have "foldl (\<lambda>m r. if ae_id r \<in> set ids then m(ae_id r \<mapsto> (ae_expired_at_ms r, ae_updated_at_ms r)) else m) m es (ae_id r)
      = Some (ae_expired_at_ms r, ae_updated_at_ms r)" for m
    using assms
  proof (induction es arbitrary: m)
    case Nil
    then show ?case by simp
  next
    case (Cons x es)
    have keep: "foldl (\<lambda>m r. if ae_id r \<in> set ids then m(ae_id r \<mapsto> (ae_expired_at_ms r, ae_updated_at_ms r)) else m) m es k = m k"
      if "k \<notin> ae_id ` set es" for m :: "string \<rightharpoonup> int option \<times> int" and k
      using that by (induction es arbitrary: m) auto
    show ?case
    proof (cases "r = x")
      case True
      then show ?thesis using Cons.prems keep by simp
    next
      case False
      then show ?thesis using Cons by simp
    qed
  qed
  then show ?thesis by (simp add: prior_state_def)
qed

lemma expire_row_id [simp]: "ae_id (expire_row now r) = ae_id r"
  by (simp add: expire_row_def)

lemma restore_prior_expire:
  assumes "distinct (map ae_id es)"
  shows "restore_prior ids (prior_state ids es) (map_if (\<lambda>r. ae_id r \<in> set ids) (expire_row now) es) = es"
proof -
  have "map (\<lambda>r. if ae_id r \<in> set ids then expire_row now r else r) es =
      map_if (\<lambda>r. ae_id r \<in> set ids) (expire_row now) es" by (simp add: map_if_def)
  have "restore_prior ids (prior_state ids es) (map_if (\<lambda>r. ae_id r \<in> set ids) (expire_row now) es) =
      map (\<lambda>r. r) es"
    unfolding restore_prior_def map_if_def map_map
    using prior_state_get [OF assms]
    by (intro map_cong refl) (auto simp: expire_row_def)
  then show ?thesis by simp
qed

section \<open>Failures\<close>

text \<open>A denial row says so.\<close>

lemma denial_row_status [simp]:
  "ar_status (denial_row env u opname k b fc att dbe) = ''failed''"
  "ar_failure_class (denial_row env u opname k b fc att dbe) = Some fc"
  by (simp_all add: denial_row_def with_hash_def)

text \<open>The state after a failed write: the same rows, and at most one denial row more.\<close>

definition denied :: "acl_state \<Rightarrow> acl_state \<Rightarrow> bool" where
  "denied st st' \<longleftrightarrow> as_entries st' = as_entries st \<and>
     (\<exists>rows. as_audit st' = as_audit st @ rows \<and> length rows \<le> 1 \<and> (\<forall>r \<in> set rows. ar_status r = ''failed''))"

lemma denied_refl [simp]: "denied st st"
  by (simp add: denied_def)

lemma record_denial_denied: "record_denial env opname k b fc att dbe st = (res, st') \<Longrightarrow> denied st st'"
  by (auto simp: record_denial_def denied_def Let_def split: if_splits sum.splits option.splits)

lemma refuse_denied:
  assumes "refuse env opname k b fc att dbe st = (res, st')"
  shows "denied st st' \<and> (\<exists>e. res = Inl e)"
  using assms record_denial_denied [of env opname k b fc att "Some dbe" st]
  by (auto simp: refuse_def split: prod.splits sum.splits)

lemma audit_failed_denied:
  assumes "audit_failed env opname k b att err st = (res, st')"
  shows "denied st st' \<and> (\<exists>e. res = Inl e)"
  using assms record_denial_denied
  by (fastforce simp: audit_failed_def split: prod.splits sum.splits)

lemma audit_failed_same:
  "as_entries st1 = as_entries st \<Longrightarrow> as_audit st1 = as_audit st \<Longrightarrow> denied st1 st' \<Longrightarrow> denied st st'"
  by (simp add: denied_def)

text \<open>The five writes.\<close>

datatype acl_write =
    WGrant acl_key int "string option" "int option"
  | WRevoke acl_key
  | WModify acl_key "int option" "int option"
  | WBulk "acl_grant_op list"
  | WDelete "acl_predicate list"

definition outcome :: "'a acl_out \<Rightarrow> (acl_error, unit) res \<times> acl_state" where
  "outcome r = (case r of (Inl e, st) \<Rightarrow> (Inl e, st) | (Inr _, st) \<Rightarrow> (Inr (), st))"

fun mock_write :: "acl_env \<Rightarrow> acl_write \<Rightarrow> acl_state \<Rightarrow> (acl_error, unit) res \<times> acl_state" where
  "mock_write env (WGrant k b role e) st = outcome (mock_grant_permission env k b role e st)"
| "mock_write env (WRevoke k) st = outcome (mock_revoke_permission env k st)"
| "mock_write env (WModify k ad rm) st = outcome (mock_modify_permission_bits env k ad rm st)"
| "mock_write env (WBulk gs) st = outcome (mock_bulk_write_acl_entries env gs st)"
| "mock_write env (WDelete ps) st = outcome (mock_delete_acl_entries env ps st)"

lemma outcome_Inl: "outcome r = (Inl e, st') \<longleftrightarrow> r = (Inl e, st')"
  by (auto simp: outcome_def split: prod.splits sum.splits)

lemma outcome_Inr: "outcome r = (Inr u, st') \<longleftrightarrow> (\<exists>x. r = (Inr x, st'))"
  by (auto simp: outcome_def split: prod.splits sum.splits)

lemma mock_grant_denied:
  assumes "mock_grant_permission env k b role ex st = (Inl e, st')" and "distinct (map ae_id (as_entries st))"
  shows "denied st st'"
proof (cases "build_write_stamp env")
  case (Inl x)
  with assms show ?thesis by (simp add: mock_grant_permission_def)
next
  case (Inr stamp)
  show ?thesis
  proof (cases "past_expiry ex (ws_now_ms stamp) \<or> ak_principal_type k \<notin> set ALLOWED_PRINCIPAL_TYPES")
    case True
    then show ?thesis using assms(1) Inr
      unfolding mock_grant_permission_def by (auto dest: refuse_denied split: if_splits)
  next
    case False
    define ids where "ids = map ae_id (filter (\<lambda>r. mock_not_expired r (ws_now_ms stamp) \<and> key_matches k r) (as_entries st))"
    define st1 where "st1 = st\<lparr>as_entries := restore_prior ids (prior_state ids (as_entries st))
        (map_if (\<lambda>r. ae_id r \<in> set ids) (expire_row (ws_now_ms stamp)) (as_entries st))\<rparr>"
    have st1: "as_entries st1 = as_entries st" "as_audit st1 = as_audit st"
      by (simp_all add: st1_def restore_prior_expire [OF assms(2)])
    have no1: "\<not> past_expiry ex (ws_now_ms stamp)"
      and no2: "\<not> ak_principal_type k \<notin> set ALLOWED_PRINCIPAL_TYPES" using False by auto
    have "denied st1 st'"
      using assms(1)
      unfolding mock_grant_permission_def Inr sum.case if_not_P [OF no1] if_not_P [OF no2] Let_def ids_def [symmetric] st1_def [symmetric]
      by (auto split: sum.splits dest: audit_failed_denied)
    then show ?thesis by (rule audit_failed_same [OF st1])
  qed
qed

lemma mock_revoke_denied:
  assumes "mock_revoke_permission env k st = (Inl e, st')"
  shows "denied st st'"
proof (cases "build_write_stamp env")
  case (Inl x)
  with assms show ?thesis by (simp add: mock_revoke_permission_def)
next
  case (Inr stamp)
  define p where "p = expirable stamp (key_matches k)"
  have u: "undo (undo_records p (as_entries st)) (map_if p (expire_row (ws_now_ms stamp)) (as_entries st)) = as_entries st"
    by (rule undo_records_restore) simp
  have "denied (st\<lparr>as_entries := as_entries st\<rparr>) st'"
    using assms
    unfolding mock_revoke_permission_def Inr sum.case Let_def expire_matching_def prod.case p_def [symmetric] append_Nil u
    by (auto split: sum.splits dest: audit_failed_denied)
  then show ?thesis by simp
qed

lemma mock_modify_denied:
  assumes "mock_modify_permission_bits env k ad rm st = (Inl e, st')"
  shows "denied st st'"
proof (cases "validate_bit_operands ad rm")
  case (Inl x)
  with assms show ?thesis by (simp add: mock_modify_permission_bits_def)
next
  case v: (Inr x)
  show ?thesis
  proof (cases "build_write_stamp env")
    case (Inl x)
    with v assms show ?thesis by (simp add: mock_modify_permission_bits_def)
  next
    case (Inr stamp)
    define p where "p = expirable stamp (key_matches k)"
    define active where "active = visible_matching_rows (as_entries st) (ev_user env) stamp (key_matches k)"
    have u: "undo (undo_records p (as_entries st)) (map_if p (expire_row (ws_now_ms stamp)) (as_entries st)) = as_entries st"
      by (rule undo_records_restore) simp
    have "denied (st\<lparr>as_entries := as_entries st\<rparr>) st'"
    proof (cases "active = []")
      case True
      then show ?thesis using assms
        unfolding mock_modify_permission_bits_def v Inr sum.case Let_def active_def [symmetric]
        by (auto split: sum.splits dest: audit_failed_denied)
    next
      case False
      note folded = mock_modify_permission_bits_def v Inr sum.case Let_def active_def [symmetric] if_not_P [OF False]
        expire_matching_def p_def [symmetric] prod.case append_Nil u
      show ?thesis using assms unfolding folded
        by (auto split: sum.splits dest: audit_failed_denied)
    qed
    then show ?thesis by simp
  qed
qed

lemma bulk_loop_denied:
  assumes "mock_bulk_loop env stamp i n gs es log staged rows expired st = (Inl e, st')"
    and "ev_commit_error env = None" and "undo log es = as_entries st"
  shows "denied st st'"
  using assms
proof (induction gs arbitrary: i es log staged rows expired)
  case Nil
  then show ?case by simp
next
  case (Cons g gs)
  let ?hit = "\<lambda>r. mock_not_expired r (ws_now_ms stamp) \<and> key_matches (key_of_op g) r"
  let ?log = "log @ undo_records ?hit es" and ?es = "map_if ?hit (expire_row (ws_now_ms stamp)) es"
  have u: "undo ?log ?es = as_entries st" using Cons.prems(3) by (simp add: undo_last)
  have d: "denied st st'" if "undo lg x = as_entries st"
      "refuse env opname k b fc att dbe (st\<lparr>as_entries := undo lg x\<rparr>) = (Inl e, st')" for lg x opname k b fc att dbe
    using refuse_denied [OF that(2)] that(1) by (simp add: denied_def)
  show ?case
    using Cons.prems(1) d [OF Cons.prems(3)] d [OF u] Cons.IH [OF _ Cons.prems(2) u]
    by (auto simp: Let_def split: if_splits sum.splits)
qed

lemma delete_loop_denied:
  assumes "mock_delete_loop env stamp i n va before ps es log rows expired st = (Inl e, st')"
    and "ev_commit_error env = None" and "undo log es = as_entries st"
  shows "denied st st'"
  using assms
proof (induction ps arbitrary: i es log rows expired)
  case Nil
  then show ?case by simp
next
  case (Cons p ps)
  let ?hit = "expirable stamp (pred_matches p)"
  let ?log = "log @ undo_records ?hit es" and ?es = "map_if ?hit (expire_row (ws_now_ms stamp)) es"
  have u: "undo ?log ?es = as_entries st" using Cons.prems(3) by (simp add: undo_last)
  have d: "denied st st'" if "audit_failed env opname k b att err (st\<lparr>as_entries := undo ?log ?es\<rparr>) = (Inl e, st')"
    for opname k b att err
    using audit_failed_denied [OF that] u by (simp add: denied_def)
  show ?case
    using Cons.prems(1) d Cons.IH [OF _ Cons.prems(2) u]
    by (auto simp: Let_def expire_matching_def split: if_splits sum.splits)
qed

text \<open>
  All or nothing. A write of the mock that raises leaves every row as it was, whichever of
  its steps raised, and adds at most one audit row, a denial. (Rows have distinct identifiers; the
  commit after the last operation of a bulk or a delete is the one step outside this guarantee.)
\<close>

lemma mock_write_atomic:
  assumes "mock_write env w st = (Inl e, st')" and "distinct (map ae_id (as_entries st))"
    and "ev_commit_error env = None"
  shows "as_entries st' = as_entries st \<and>
    (\<exists>rows. as_audit st' = as_audit st @ rows \<and> length rows \<le> 1 \<and> (\<forall>r \<in> set rows. ar_status r = ''failed''))"
proof -
  have "denied st st'"
  proof (cases w)
    case (WBulk gs)
    with assms show ?thesis using bulk_loop_denied [of env _ _ _ gs "as_entries st" "[]" _ _ _ st e st']
      by (auto simp: outcome_Inl mock_bulk_write_acl_entries_def split: sum.splits)
  next
    case (WDelete ps)
    with assms show ?thesis using delete_loop_denied [of env _ _ _ _ "as_entries st" ps "as_entries st" "[]" _ _ st e st']
      by (auto simp: outcome_Inl mock_delete_acl_entries_def Let_def split: sum.splits if_splits)
  qed (use assms in \<open>simp_all add: outcome_Inl mock_grant_denied mock_revoke_denied mock_modify_denied\<close>)
  then show ?thesis by (simp add: denied_def)
qed

end
