(* ===== verification/AclMockEffects.thy ===== *)
theory AclMockEffects
  imports AclMockProps
begin

text \<open>
  What a write of the ACL mock that succeeds does to the rows and to the audit trail: which rows it
  expires, which it adds, what it reports, and that the trail records it.
\<close>

section \<open>A successful write, unfolded\<close>

lemma stamp_Inr:
  assumes "build_write_stamp env = Inr stamp"
  shows "ws_now_ms stamp = ev_now env" and "ws_user_sub stamp = uc_user_id (ev_user env)"
    and "resolve_user_sub env = Inr (uc_user_id (ev_user env))"
  using assms by (auto simp: build_write_stamp_def resolve_user_sub_def res_bind_Inr_iff Let_def split: if_splits)

lemma commit_row_flush: "commit_row env s = Inr row \<Longrightarrow> flush_row env s = Inr row"
  by (auto simp: commit_row_def res_bind_Inr_iff split: option.splits)

lemma flush_row_staged: "flush_row env s = Inr row \<Longrightarrow> s = Inr row \<and> audit_insert_error env row = None"
  by (auto simp: flush_row_def res_bind_Inr_iff split: option.splits)

lemmas commit_row_staged = flush_row_staged [OF commit_row_flush]

definition grant_hit :: "acl_env \<Rightarrow> acl_key \<Rightarrow> acl_entry \<Rightarrow> bool" where
  "grant_hit env k r \<longleftrightarrow> mock_not_expired r (ev_now env) \<and> key_matches k r"

definition own_hit :: "acl_env \<Rightarrow> (acl_entry \<Rightarrow> bool) \<Rightarrow> acl_entry \<Rightarrow> bool" where
  "own_hit env match r \<longleftrightarrow> mock_not_expired r (ev_now env) \<and> match r \<and> ae_user_sub r = uc_user_id (ev_user env)"

lemma expirable_own: "build_write_stamp env = Inr stamp \<Longrightarrow> expirable stamp match = own_hit env match"
  by (auto simp: fun_eq_iff expirable_def own_hit_def stamp_Inr)

lemma map_if_by_id:
  assumes "distinct (map ae_id es)"
  shows "map_if (\<lambda>r. ae_id r \<in> set (map ae_id (filter p es))) f es = map_if p f es"
  unfolding map_if_def
proof (rule map_cong [OF refl])
  fix r assume r: "r \<in> set es"
  have "inj_on ae_id (set es)" using assms by (simp add: distinct_map)
  then have "ae_id r \<in> set (map ae_id (filter p es)) \<longleftrightarrow> p r" using r by (auto simp: inj_on_def)
  then show "(if ae_id r \<in> set (map ae_id (filter p es)) then f r else r) = (if p r then f r else r)" by simp
qed

lemma new_entry_id [simp]: "ae_id (new_entry i stamp k b role ex tr) = i"
  by (simp add: new_entry_def)

lemma mock_grant_ok:
  assumes "mock_grant_permission env k b role ex st = (Inr new, st')" and "distinct (map ae_id (as_entries st))"
  obtains stamp row where "build_write_stamp env = Inr stamp"
    and "new = new_entry (ev_uuid env 0) stamp k b role ex None"
    and "ak_principal_type k \<in> set ALLOWED_PRINCIPAL_TYPES" and "\<forall>e. ex = Some e \<longrightarrow> ev_now env < e"
    and "commit_row env (record_success env ''grantPermission'' k b [ae_id new]
           (map ae_id (filter (grant_hit env k) (as_entries st))) None ex) = Inr row"
    and "as_entries st' = map_if (grant_hit env k) (expire_row (ev_now env)) (as_entries st) @ [new]"
    and "as_audit st' = as_audit st @ [row]"
proof (cases "build_write_stamp env")
  case (Inl x)
  with assms show ?thesis by (simp add: mock_grant_permission_def)
next
  case (Inr stamp)
  note now = stamp_Inr(1) [OF Inr]
  have no1: "\<not> past_expiry ex (ev_now env)"
  proof
    assume "past_expiry ex (ev_now env)"
    then show False using assms(1) Inr unfolding mock_grant_permission_def by (auto simp: now dest: refuse_denied)
  qed
  have no2: "\<not> ak_principal_type k \<notin> set ALLOWED_PRINCIPAL_TYPES"
  proof
    assume "ak_principal_type k \<notin> set ALLOWED_PRINCIPAL_TYPES"
    then show False using assms(1) Inr no1 unfolding mock_grant_permission_def by (auto simp: now dest: refuse_denied)
  qed
  have hit: "(\<lambda>r. mock_not_expired r (ev_now env) \<and> key_matches k r) = grant_hit env k"
    by (auto simp: fun_eq_iff grant_hit_def)
  note unfolded = assms(1) [unfolded mock_grant_permission_def Inr sum.case now if_not_P [OF no1] if_not_P [OF no2] Let_def
    hit map_if_by_id [OF assms(2)] new_entry_id]
  show ?thesis
  proof (cases "commit_row env (record_success env ''grantPermission'' k b [ev_uuid env 0]
           (map ae_id (filter (grant_hit env k) (as_entries st))) None ex)")
    case (Inl x)
    with unfolded show ?thesis by (auto dest: audit_failed_denied)
  next
    case row: (Inr row)
    note final = unfolded [unfolded row sum.case]
    show ?thesis
    proof (rule that [OF Inr])
      show "new = new_entry (ev_uuid env 0) stamp k b role ex None" using final by simp
      then show "commit_row env (record_success env ''grantPermission'' k b [ae_id new]
           (map ae_id (filter (grant_hit env k) (as_entries st))) None ex) = Inr row" using row by simp
    qed (use final no1 no2 in \<open>auto simp: not_past_expiry\<close>)
  qed
qed

lemma mock_revoke_ok:
  assumes "mock_revoke_permission env k st = (Inr (ids, visible), st')"
  obtains stamp row where "build_write_stamp env = Inr stamp"
    and "ids = map ae_id (filter (own_hit env (key_matches k)) (as_entries st))"
    and "visible = length (visible_matching_ids (as_entries st) (ev_user env) stamp (key_matches k))"
    and "commit_row env (record_success env ''revokePermission'' k 0 [] ids (Some (int visible)) None) = Inr row"
    and "as_entries st' = map_if (own_hit env (key_matches k)) (expire_row (ev_now env)) (as_entries st)"
    and "as_audit st' = as_audit st @ [row]"
proof (cases "build_write_stamp env")
  case (Inl x)
  with assms show ?thesis by (simp add: mock_revoke_permission_def)
next
  case (Inr stamp)
  have pairs: "map fst (map (\<lambda>r. (ae_id r, ae_created_at_ms r)) xs) = map ae_id xs" for xs by simp
  note unfolded = assms [unfolded mock_revoke_permission_def Inr sum.case Let_def expire_matching_def prod.case
    expirable_own [OF Inr] pairs stamp_Inr(1) [OF Inr]]
  show ?thesis using unfolded
    by (auto intro!: that [OF Inr] split: sum.splits dest: audit_failed_denied)
qed

lemma mock_modify_ok:
  assumes "mock_modify_permission_bits env k ad rm st = (Inr out, st')"
  obtains stamp active expired row where "build_write_stamp env = Inr stamp" and "validate_bit_operands ad rm = Inr ()"
    and "active = visible_matching_rows (as_entries st) (ev_user env) stamp (key_matches k)"
    and "expired = (if active = [] then [] else filter (own_hit env (key_matches k)) (as_entries st))"
    and "out = (if expired = [] then None else Some (new_entry (ev_uuid env 0) stamp k (modified_bits active ad rm)
           (ae_role_id (latest (hd active) (tl active))) (inherited_expiry active) None))"
    and "as_entries st' = (if active = [] then as_entries st
           else map_if (own_hit env (key_matches k)) (expire_row (ev_now env)) (as_entries st)) @
           (case out of None \<Rightarrow> [] | Some r \<Rightarrow> [r])"
    and "commit_row env (record_success env ''modifyPermissionBits'' k (modified_bits active ad rm)
           (case out of None \<Rightarrow> [] | Some r \<Rightarrow> [ae_id r]) (map ae_id expired) (Some (int (length active)))
           (if expired = [] then None else inherited_expiry active)) = Inr row"
    and "as_audit st' = as_audit st @ [row]"
proof (cases "validate_bit_operands ad rm")
  case (Inl x)
  with assms show ?thesis by (simp add: mock_modify_permission_bits_def)
next
  case v: (Inr x)
  show ?thesis
  proof (cases "build_write_stamp env")
    case (Inl x)
    with v assms show ?thesis by (simp add: mock_modify_permission_bits_def)
  next
    case (Inr stamp)
    have pairs: "map fst (map (\<lambda>r. (ae_id r, ae_created_at_ms r)) xs) = map ae_id xs" for xs by simp
    define active where "active = visible_matching_rows (as_entries st) (ev_user env) stamp (key_matches k)"
    note opened = assms [unfolded mock_modify_permission_bits_def v Inr sum.case Let_def active_def [symmetric]
      expire_matching_def expirable_own [OF Inr] stamp_Inr(1) [OF Inr]]
    show ?thesis
    proof (cases "active = []")
      case True
      have "prod.fst (as_entries st, [], []) = as_entries st" by simp
      show ?thesis using opened True v
        by (auto intro!: that [OF Inr _ active_def, of "[]"] split: sum.splits dest: audit_failed_denied)
    next
      case False
      note opened' = opened [unfolded if_not_P [OF False] prod.case pairs]
      define expired where "expired = filter (own_hit env (key_matches k)) (as_entries st)"
      show ?thesis using opened' False v unfolding expired_def [symmetric]
        by (auto intro!: that [OF Inr _ active_def, of expired] simp: expired_def [symmetric]
            split: sum.splits if_splits dest: audit_failed_denied)
    qed
  qed
qed

section \<open>The audit trail\<close>

text \<open>A row that names the caller as its user, says the write succeeded and carries its own hash.\<close>

definition audited :: "acl_env \<Rightarrow> string \<Rightarrow> acl_key \<Rightarrow> audit_row \<Rightarrow> bool" where
  "audited env opname k r \<longleftrightarrow> ar_status r = ''success'' \<and> ar_failure_class r = None \<and>
     ar_user_id r = uc_user_id (ev_user env) \<and> ar_event_class r = ''acl_authz'' \<and>
     (\<exists>b. ar_question r = question opname k b) \<and>
     ar_content_hash r = content_hash (ev_sha env) (audit_fields r)"

lemma audit_fields_hash [simp]: "audit_fields (r\<lparr>ar_content_hash := h\<rparr>) = audit_fields r"
  by (simp add: audit_fields_def)

lemma with_hash_simps [simp]:
  "ar_status (with_hash env r) = ar_status r" "ar_failure_class (with_hash env r) = ar_failure_class r"
  "ar_user_id (with_hash env r) = ar_user_id r" "ar_event_class (with_hash env r) = ar_event_class r"
  "ar_question (with_hash env r) = ar_question r"
  "ar_content_hash (with_hash env r) = content_hash (ev_sha env) (audit_fields (with_hash env r))"
  by (simp_all add: with_hash_def)

lemma record_success_audited:
  assumes "record_success env opname k b ids ex v e = Inr row"
  shows "audited env opname k row"
  using assms
  by (auto simp: record_success_def res_bind_Inr_iff resolve_user_sub_def Let_def audited_def base_row_def
      split: if_splits)

section \<open>History\<close>

text \<open>No row moves, and the only change of a row is the expiry of one that was active.\<close>

definition history_kept :: "int \<Rightarrow> acl_table \<Rightarrow> acl_table \<Rightarrow> bool" where
  "history_kept now = list_all2 (\<lambda>r r'. r' = r \<or> mock_not_expired r now \<and> r' = expire_row now r)"

lemma history_refl [simp]: "history_kept now es es"
  by (auto simp: history_kept_def intro: list_all2_refl)

lemma history_map_if: "(\<And>r. p r \<Longrightarrow> mock_not_expired r now) \<Longrightarrow> history_kept now es (map_if p (expire_row now) es)"
  by (auto simp: history_kept_def map_if_def list_all2_conv_all_nth)

lemma expired_now [simp]: "\<not> mock_not_expired (expire_row now r) now"
  by (simp add: mock_not_expired_def expire_row_def)

lemma map_if_twice:
  assumes "\<And>r. p r \<Longrightarrow> mock_not_expired r now" and "\<And>r. q r \<Longrightarrow> mock_not_expired r now"
  shows "map_if q (expire_row now) (map_if p (expire_row now) es) = map_if (\<lambda>r. p r \<or> q r) (expire_row now) es"
  unfolding map_if_def map_map
proof (rule map_cong [OF refl])
  fix x assume "x \<in> set es"
  have "\<not> q (expire_row now x)" using assms(2) expired_now by blast
  then show "((\<lambda>x. if q x then expire_row now x else x) \<circ> (\<lambda>x. if p x then expire_row now x else x)) x =
      (if p x \<or> q x then expire_row now x else x)" by simp
qed

section \<open>The two loops\<close>

lemma ids_twice:
  assumes "\<And>r. q r \<Longrightarrow> mock_not_expired r now"
  shows "ae_id ` {r \<in> set (map_if p (expire_row now) es). q r} \<union> ae_id ` {r \<in> set es. p r} =
    ae_id ` {r \<in> set es. p r \<or> q r}"
proof -
  have "\<not> q (expire_row now r)" for r using assms expired_now by blast
  then have "{r \<in> set (map_if p (expire_row now) es). q r} = {r \<in> set es. \<not> p r \<and> q r}"
    by (auto simp: set_map_if)
  then show ?thesis by auto
qed

definition op_hit :: "acl_env \<Rightarrow> acl_grant_op list \<Rightarrow> acl_entry \<Rightarrow> bool" where
  "op_hit env gs r \<longleftrightarrow> mock_not_expired r (ev_now env) \<and> (\<exists>g \<in> set gs. key_matches (key_of_op g) r)"

text \<open>The rows a bulk write adds: one per operation, in order.\<close>

definition op_rows :: "acl_env \<Rightarrow> write_stamp \<Rightarrow> nat \<Rightarrow> acl_grant_op list \<Rightarrow> acl_table" where
  "op_rows env stamp i gs =
     map (\<lambda>(j, g). new_entry (ev_uuid env j) stamp (key_of_op g) (go_perm_bits g) (go_role_id g) (go_expired_at_ms g) None)
       (enumerate i gs)"

lemma op_rows_Cons:
  "op_rows env stamp i (g # gs) =
     new_entry (ev_uuid env i) stamp (key_of_op g) (go_perm_bits g) (go_role_id g) (go_expired_at_ms g) None
       # op_rows env stamp (Suc i) gs"
  by (simp add: op_rows_def)

lemma hit_Cons:
  "map_if (op_hit env gs) (expire_row (ev_now env)) (map_if (grant_hit env (key_of_op g)) (expire_row (ev_now env)) es)
   = map_if (op_hit env (g # gs)) (expire_row (ev_now env)) es"
  by (subst map_if_twice)
    (auto simp: op_hit_def grant_hit_def fun_eq_iff intro!: arg_cong [where f = "\<lambda>p. map_if p _ _"])

lemma bulk_loop_ok:
  assumes "mock_bulk_loop env stamp i n gs es log staged rows expired st = (Inr out, st')"
    and "ws_now_ms stamp = ev_now env"
  shows "as_entries st' = map_if (op_hit env gs) (expire_row (ev_now env)) es @ staged @ op_rows env stamp i gs \<and>
    fst out = map ae_id (staged @ op_rows env stamp i gs) \<and>
    set (snd out) = set expired \<union> ae_id ` {r \<in> set es. op_hit env gs r} \<and>
    (\<exists>rs. as_audit st' = as_audit st @ rows @ rs \<and>
       list_all2 (\<lambda>g r. audited env ''bulkWriteAclEntries'' (key_of_op g) r) gs rs)"
  using assms(1)
proof (induction gs arbitrary: i es log staged rows expired)
  case Nil
  then show ?case by (auto simp: op_rows_def op_hit_def map_if_none split: option.splits)
next
  case (Cons g gs)
  let ?k = "key_of_op g" and ?now = "ev_now env"
  let ?new = "new_entry (ev_uuid env i) stamp ?k (go_perm_bits g) (go_role_id g) (go_expired_at_ms g) None"
  have hit: "(\<lambda>r. mock_not_expired r ?now \<and> key_matches ?k r) = grant_hit env ?k"
    by (auto simp: fun_eq_iff grant_hit_def)
  have no1: "\<not> go_principal_type g \<notin> set ALLOWED_PRINCIPAL_TYPES"
  proof
    assume "go_principal_type g \<notin> set ALLOWED_PRINCIPAL_TYPES"
    then show False using Cons.prems by (auto dest: refuse_denied)
  qed
  have no2: "\<not> past_expiry (go_expired_at_ms g) ?now"
  proof
    assume "past_expiry (go_expired_at_ms g) ?now"
    then show False using Cons.prems no1 by (auto simp: assms(2) dest: refuse_denied)
  qed
  note opened = Cons.prems [unfolded mock_bulk_loop.simps Let_def assms(2) hit if_not_P [OF no1] if_not_P [OF no2]]
  let ?es1 = "map_if (grant_hit env ?k) (expire_row ?now) es"
  let ?ids = "map ae_id (filter (grant_hit env ?k) es)"
  obtain row where row: "flush_row env (record_success env ''bulkWriteAclEntries'' ?k (go_perm_bits g) [ae_id ?new]
       ?ids None (go_expired_at_ms g)) = Inr row"
    and rest: "mock_bulk_loop env stamp (Suc i) n gs ?es1 (log @ undo_records (grant_hit env ?k) es) (staged @ [?new])
       (rows @ [row]) (expired @ ?ids) st = (Inr out, st')"
    using opened by (auto split: sum.splits dest: refuse_denied)
  have aud: "audited env ''bulkWriteAclEntries'' ?k row"
    using flush_row_staged [OF row] by (blast intro: record_success_audited)
  note ih = Cons.IH [OF rest]
  have ids: "ae_id ` {r \<in> set ?es1. op_hit env gs r} \<union> ae_id ` {r \<in> set es. grant_hit env ?k r} =
      ae_id ` {r \<in> set es. op_hit env (g # gs) r}"
    by (subst ids_twice) (auto simp: op_hit_def grant_hit_def intro!: arg_cong [where f = "image ae_id"])
  obtain rs where "as_audit st' = as_audit st @ (rows @ [row]) @ rs"
    and "list_all2 (\<lambda>g r. audited env ''bulkWriteAclEntries'' (key_of_op g) r) gs rs" using ih by blast
  then have "\<exists>rs. as_audit st' = as_audit st @ rows @ rs \<and>
       list_all2 (\<lambda>g r. audited env ''bulkWriteAclEntries'' (key_of_op g) r) (g # gs) rs"
    using aud by (intro exI [of _ "row # rs"]) simp
  moreover have "set (snd out) = set expired \<union> ae_id ` {r \<in> set es. op_hit env (g # gs) r}"
  proof -
    have a: "set (snd out) = set (expired @ ?ids) \<union> ae_id ` {r \<in> set ?es1. op_hit env gs r}" using ih by (elim conjE)
    have b: "set (expired @ ?ids) = set expired \<union> ae_id ` {r \<in> set es. grant_hit env ?k r}" by simp
    show ?thesis unfolding a b ids [symmetric] by (simp only: Un_ac)
  qed
  ultimately show ?case using ih by (simp add: hit_Cons op_rows_Cons)
qed

definition preds_match :: "acl_predicate list \<Rightarrow> acl_entry \<Rightarrow> bool" where
  "preds_match ps r \<longleftrightarrow> (\<exists>p \<in> set ps. pred_matches p r)"

lemma set_new_ids: "set (new_ids seen xs) = set seen \<union> set xs"
  by (induction xs arbitrary: seen) auto

lemma distinct_new_ids: "distinct seen \<Longrightarrow> distinct (new_ids seen xs)"
  by (induction xs arbitrary: seen) auto

lemma set_sort_pairs: "set (map fst (sort_pairs xs)) = fst ` set xs"
  by (simp add: sort_pairs_def)

lemma delete_loop_ok:
  assumes "mock_delete_loop env stamp i n va before ps es log rows expired st = (Inr out, st')"
    and "build_write_stamp env = Inr stamp" and "distinct expired"
  shows "as_entries st' = map_if (own_hit env (preds_match ps)) (expire_row (ev_now env)) es \<and>
    set (fst out) = set expired \<union> ae_id ` {r \<in> set es. own_hit env (preds_match ps) r} \<and>
    distinct (fst out) \<and> snd out = va \<and>
    (\<exists>rs. as_audit st' = as_audit st @ rows @ rs \<and>
       list_all2 (\<lambda>p r. audited env ''deleteAclEntries'' (pred_fields p) r) ps rs)"
  using assms(1,3)
proof (induction ps arbitrary: i es log rows expired)
  case Nil
  then show ?case by (auto simp: own_hit_def preds_match_def map_if_none split: option.splits)
next
  case (Cons p ps)
  let ?now = "ev_now env" and ?hit = "own_hit env (pred_matches p)"
  let ?es1 = "map_if ?hit (expire_row ?now) es"
  let ?ids = "map fst (sort_pairs (map (\<lambda>r. (ae_id r, ae_created_at_ms r)) (filter ?hit es)))"
  note opened = Cons.prems(1) [unfolded mock_delete_loop.simps Let_def expire_matching_def prod.case expirable_own [OF assms(2)]
    stamp_Inr(1) [OF assms(2)]]
  obtain row v where row: "flush_row env (record_success env ''deleteAclEntries'' (pred_fields p) 0 [] ?ids v None) = Inr row"
    and rest: "mock_delete_loop env stamp (Suc i) n va before ps ?es1 (log @ undo_records ?hit es)
       (rows @ [row]) (new_ids expired ?ids) st = (Inr out, st')"
    using opened by (auto split: sum.splits dest: audit_failed_denied)
  have aud: "audited env ''deleteAclEntries'' (pred_fields p) row"
    using flush_row_staged [OF row] by (blast intro: record_success_audited)
  note ih = Cons.IH [OF rest distinct_new_ids [OF Cons.prems(2)]]
  have same: "map_if (own_hit env (preds_match ps)) (expire_row ?now) ?es1 = map_if (own_hit env (preds_match (p # ps))) (expire_row ?now) es"
    by (subst map_if_twice)
      (auto simp: own_hit_def preds_match_def fun_eq_iff intro!: arg_cong [where f = "\<lambda>p. map_if p _ _"])
  have ids: "set ?ids = ae_id ` {r \<in> set es. ?hit r}" unfolding set_sort_pairs by (simp add: image_image)
  have both: "ae_id ` {r \<in> set ?es1. own_hit env (preds_match ps) r} \<union> ae_id ` {r \<in> set es. ?hit r} =
      ae_id ` {r \<in> set es. own_hit env (preds_match (p # ps)) r}"
    by (subst ids_twice) (auto simp: own_hit_def preds_match_def intro!: arg_cong [where f = "image ae_id"])
  obtain rs where "as_audit st' = as_audit st @ (rows @ [row]) @ rs"
    and "list_all2 (\<lambda>p r. audited env ''deleteAclEntries'' (pred_fields p) r) ps rs" using ih by blast
  then have "\<exists>rs. as_audit st' = as_audit st @ rows @ rs \<and>
       list_all2 (\<lambda>p r. audited env ''deleteAclEntries'' (pred_fields p) r) (p # ps) rs"
    using aud by (intro exI [of _ "row # rs"]) simp
  moreover have "set (fst out) = set expired \<union> ae_id ` {r \<in> set es. own_hit env (preds_match (p # ps)) r}"
  proof -
    have a: "set (fst out) = set (new_ids expired ?ids) \<union> ae_id ` {r \<in> set ?es1. own_hit env (preds_match ps) r}"
      using ih by (elim conjE)
    show ?thesis unfolding a set_new_ids ids both [symmetric] by (simp only: Un_ac)
  qed
  ultimately show ?case using ih same by simp
qed

end
