(* ===== verification/AclMockLaws.thy ===== *)
theory AclMockLaws
  imports AclMockEffects
begin

text \<open>
  The laws of the five writes of the ACL mock, over \<open>mock_write\<close> where they are common and over the
  single write where they are not, and what a later read sees of them.
\<close>

section \<open>What every write keeps\<close>

fun write_ops :: "acl_write \<Rightarrow> (string \<times> acl_key) list" where
  "write_ops (WGrant k b role e) = [(''grantPermission'', k)]"
| "write_ops (WRevoke k) = [(''revokePermission'', k)]"
| "write_ops (WModify k ad rm) = [(''modifyPermissionBits'', k)]"
| "write_ops (WBulk gs) = map (\<lambda>g. (''bulkWriteAclEntries'', key_of_op g)) gs"
| "write_ops (WDelete ps) = map (\<lambda>p. (''deleteAclEntries'', pred_fields p)) ps"

definition added_row :: "acl_env \<Rightarrow> acl_entry \<Rightarrow> bool" where
  "added_row env r \<longleftrightarrow> ae_user_sub r = uc_user_id (ev_user env) \<and> ae_granted_by r = Some (uc_user_id (ev_user env)) \<and>
     ae_granted_at_ms r = ev_now env \<and> ae_created_at_ms r = ev_now env \<and> ae_updated_at_ms r = ev_now env"

lemma added_new_entry: "build_write_stamp env = Inr stamp \<Longrightarrow> added_row env (new_entry i stamp k b role e tr)"
  by (simp add: added_row_def new_entry_def stamp_Inr)

lemma added_op_rows: "build_write_stamp env = Inr stamp \<Longrightarrow> \<forall>r \<in> set (op_rows env stamp i gs). added_row env r"
  by (induction gs arbitrary: i) (simp_all add: op_rows_Cons added_new_entry, simp add: op_rows_def)

lemma hits_active:
  "grant_hit env k r \<Longrightarrow> mock_not_expired r (ev_now env)"
  "own_hit env match r \<Longrightarrow> mock_not_expired r (ev_now env)"
  "op_hit env gs r \<Longrightarrow> mock_not_expired r (ev_now env)"
  by (simp_all add: grant_hit_def own_hit_def op_hit_def)

definition written :: "acl_env \<Rightarrow> acl_write \<Rightarrow> acl_state \<Rightarrow> acl_state \<Rightarrow> bool" where
  "written env w st st' \<longleftrightarrow>
     (\<exists>old new. as_entries st' = old @ new \<and> history_kept (ev_now env) (as_entries st) old \<and> (\<forall>r \<in> set new. added_row env r)) \<and>
     (\<exists>rs. as_audit st' = as_audit st @ rs \<and> list_all2 (\<lambda>(opname, k) r. audited env opname k r) (write_ops w) rs)"

lemma writtenI:
  assumes "as_entries st' = old @ new" and "history_kept (ev_now env) (as_entries st) old"
    and "\<forall>r \<in> set new. added_row env r" and "as_audit st' = as_audit st @ rs"
    and "list_all2 (\<lambda>(opname, k) r. audited env opname k r) (write_ops w) rs"
  shows "written env w st st'"
  using assms by (auto simp: written_def)

lemma grant_written:
  assumes "mock_grant_permission env k b role ex st = (Inr new, st')" and "distinct (map ae_id (as_entries st))"
  shows "written env (WGrant k b role ex) st st'"
proof (rule mock_grant_ok [OF assms])
  fix stamp row
  assume stamp: "build_write_stamp env = Inr stamp" and new: "new = new_entry (ev_uuid env 0) stamp k b role ex None"
    and row: "commit_row env (record_success env ''grantPermission'' k b [ae_id new]
           (map ae_id (filter (grant_hit env k) (as_entries st))) None ex) = Inr row"
    and es: "as_entries st' = map_if (grant_hit env k) (expire_row (ev_now env)) (as_entries st) @ [new]"
    and au: "as_audit st' = as_audit st @ [row]"
  show ?thesis
    by (rule writtenI [OF es _ _ au])
      (use new stamp record_success_audited commit_row_staged [OF row] in
        \<open>auto simp: added_new_entry hits_active intro!: history_map_if\<close>)
qed

lemma revoke_written:
  assumes "mock_revoke_permission env k st = (Inr out, st')"
  shows "written env (WRevoke k) st st'"
proof (cases out)
  case (Pair ids visible)
  show ?thesis
  proof (rule mock_revoke_ok [OF assms [unfolded Pair]])
    fix stamp row
    assume row: "commit_row env (record_success env ''revokePermission'' k 0 [] ids (Some (int visible)) None) = Inr row"
      and es: "as_entries st' = map_if (own_hit env (key_matches k)) (expire_row (ev_now env)) (as_entries st)"
      and au: "as_audit st' = as_audit st @ [row]"
    show ?thesis
      by (rule writtenI [OF _ _ _ au, of "as_entries st'" "[]"])
        (use es record_success_audited commit_row_staged [OF row] in \<open>auto simp: hits_active intro!: history_map_if\<close>)
  qed
qed

lemma modify_written:
  assumes "mock_modify_permission_bits env k ad rm st = (Inr out, st')"
  shows "written env (WModify k ad rm) st st'"
proof (rule mock_modify_ok [OF assms])
  fix stamp active expired row
  assume stamp: "build_write_stamp env = Inr stamp"
    and out: "out = (if expired = [] then None else Some (new_entry (ev_uuid env 0) stamp k (modified_bits active ad rm)
           (ae_role_id (latest (hd active) (tl active))) (inherited_expiry active) None))"
    and es: "as_entries st' = (if active = [] then as_entries st
           else map_if (own_hit env (key_matches k)) (expire_row (ev_now env)) (as_entries st)) @
           (case out of None \<Rightarrow> [] | Some r \<Rightarrow> [r])"
    and row: "commit_row env (record_success env ''modifyPermissionBits'' k (modified_bits active ad rm)
           (case out of None \<Rightarrow> [] | Some r \<Rightarrow> [ae_id r]) (map ae_id expired) (Some (int (length active)))
           (if expired = [] then None else inherited_expiry active)) = Inr row"
    and au: "as_audit st' = as_audit st @ [row]"
  show ?thesis
    by (rule writtenI [OF es _ _ au])
      (use out stamp record_success_audited commit_row_staged [OF row] in
        \<open>auto simp: added_new_entry hits_active intro!: history_map_if\<close>)
qed

lemma bulk_written:
  assumes "mock_bulk_write_acl_entries env gs st = (Inr out, st')"
  shows "written env (WBulk gs) st st'"
proof -
  obtain stamp where stamp: "build_write_stamp env = Inr stamp"
    and loop: "mock_bulk_loop env stamp 0 (length gs) gs (as_entries st) [] [] [] [] st = (Inr out, st')"
    using assms by (auto simp: mock_bulk_write_acl_entries_def split: sum.splits)
  note l = bulk_loop_ok [OF loop stamp_Inr(1) [OF stamp]]
  from l obtain rs where "as_audit st' = as_audit st @ rs"
    and "list_all2 (\<lambda>g r. audited env ''bulkWriteAclEntries'' (key_of_op g) r) gs rs" by auto
  then show ?thesis
    by (intro writtenI [of st' "map_if (op_hit env gs) (expire_row (ev_now env)) (as_entries st)" "op_rows env stamp 0 gs"])
      (use l added_op_rows [OF stamp] in \<open>auto simp: list.rel_map hits_active intro!: history_map_if\<close>)
qed

lemma mock_delete_ok:
  assumes "mock_delete_acl_entries env ps st = (Inr out, st')"
  obtains stamp where "build_write_stamp env = Inr stamp"
    and "mock_delete_loop env stamp 0 (length ps)
      (length (visible_matching_ids (as_entries st) (ev_user env) stamp (preds_match ps)))
      (as_entries st) ps (as_entries st) [] [] [] st = (Inr out, st')"
    and "ps \<noteq> []" and "validate_predicates ps = Inr ()"
proof -
  have "(\<lambda>r. \<exists>p \<in> set ps. pred_matches p r) = preds_match ps" by (auto simp: fun_eq_iff preds_match_def)
  then show ?thesis using assms that
    by (auto simp: mock_delete_acl_entries_def Let_def split: sum.splits if_splits)
qed

lemma delete_written:
  assumes "mock_delete_acl_entries env ps st = (Inr out, st')"
  shows "written env (WDelete ps) st st'"
proof (rule mock_delete_ok [OF assms])
  fix stamp
  assume stamp: "build_write_stamp env = Inr stamp"
    and loop: "mock_delete_loop env stamp 0 (length ps)
      (length (visible_matching_ids (as_entries st) (ev_user env) stamp (preds_match ps)))
      (as_entries st) ps (as_entries st) [] [] [] st = (Inr out, st')"
  note l = delete_loop_ok [OF loop stamp distinct.simps(1) [THEN iffD2, OF TrueI]]
  from l obtain rs where "as_audit st' = as_audit st @ rs"
    and "list_all2 (\<lambda>p r. audited env ''deleteAclEntries'' (pred_fields p) r) ps rs" by auto
  then show ?thesis
    by (intro writtenI [of st' "map_if (own_hit env (preds_match ps)) (expire_row (ev_now env)) (as_entries st)" "[]"])
      (use l in \<open>auto simp: list.rel_map hits_active intro!: history_map_if\<close>)
qed

lemma mock_write_written:
  assumes "mock_write env w st = (Inr (), st')" and "distinct (map ae_id (as_entries st))"
  shows "written env w st st'"
  using assms
  by (cases w) (auto simp: outcome_Inr grant_written revoke_written modify_written bulk_written delete_written)

section \<open>Properties\<close>

text \<open>
  A grant supersedes. After it the only active row of its key is the new one, with the bits,
  role and expiry asked for; the rows of other keys are untouched, and the new row is active.
\<close>

lemma mock_grant_supersedes:
  assumes "mock_grant_permission env k b role ex st = (Inr new, st')" and "distinct (map ae_id (as_entries st))"
  shows "filter (\<lambda>r. key_matches k r \<and> mock_not_expired r (ev_now env)) (as_entries st') = [new] \<and>
    ae_perm_bits new = b \<and> ae_role_id new = role \<and> ae_expired_at_ms new = ex \<and>
    filter (\<lambda>r. \<not> key_matches k r) (as_entries st') = filter (\<lambda>r. \<not> key_matches k r) (as_entries st)"
proof (rule mock_grant_ok [OF assms])
  fix stamp row
  assume new: "new = new_entry (ev_uuid env 0) stamp k b role ex None" and live: "\<forall>e. ex = Some e \<longrightarrow> ev_now env < e"
    and es: "as_entries st' = map_if (grant_hit env k) (expire_row (ev_now env)) (as_entries st) @ [new]"
  have key: "key_matches k (expire_row now r) = key_matches k r" for now r by (simp add: key_matches_def expire_row_def)
  have knew: "key_matches k new" "mock_not_expired new (ev_now env)"
    using live by (auto simp: new new_entry_def key_matches_def mock_not_expired_def split: option.splits)
  have "filter (\<lambda>r. key_matches k r \<and> mock_not_expired r (ev_now env)) (map_if (grant_hit env k) (expire_row (ev_now env)) es) = []" for es
    by (induction es) (auto simp: grant_hit_def)
  moreover have "filter (\<lambda>r. \<not> key_matches k r) (map_if (grant_hit env k) (expire_row (ev_now env)) es) = filter (\<lambda>r. \<not> key_matches k r) es" for es
    by (induction es) (auto simp: grant_hit_def key)
  ultimately show ?thesis using knew by (simp add: es) (simp add: new new_entry_def)
qed

text \<open>
  A grant can be read. Once a user is granted bits on a resource, that user has every subset of
  them on it from the write until the grant's expiry.
\<close>

lemma mock_grant_then_read:
  assumes "mock_grant_permission env k b role ex st = (Inr new, st')" and "distinct (map ae_id (as_entries st))"
    and "ak_principal_type k = PRINCIPAL_TYPE_USER" and "ak_principal_id k = Some (uc_user_id user)"
    and "contains_bits b needed" and "\<forall>e. ex = Some e \<longrightarrow> later < e"
  shows "mock_has_permission (as_entries st') later user (ak_resource_type k) (ak_resource_id k) needed"
proof (rule mock_grant_ok [OF assms(1,2)])
  fix stamp row
  assume new: "new = new_entry (ev_uuid env 0) stamp k b role ex None"
    and es: "as_entries st' = map_if (grant_hit env k) (expire_row (ev_now env)) (as_entries st) @ [new]"
  have "applies user later (ak_resource_type k) (ak_resource_id k) new"
    using assms(3,4,6) by (auto simp: new new_entry_def applies_def mine_def mock_not_expired_def acl_constants split: option.splits)
  then show ?thesis using assms(5) by (auto simp: mock_has_eq es) (auto simp: new new_entry_def)
qed

text \<open>
  A revocation takes back exactly the caller's own grants. It reports the caller's active rows
  of the key and no others, expires them for good, and leaves every row of another owner and every
  row of another key as it was.
\<close>

lemma mock_revoke_own:
  assumes "mock_revoke_permission env k st = (Inr (ids, visible), st')" and "ev_now env \<le> later"
  shows "ids = map ae_id (filter (\<lambda>r. mock_not_expired r (ev_now env) \<and> key_matches k r \<and>
      ae_user_sub r = uc_user_id (ev_user env)) (as_entries st)) \<and>
    filter (\<lambda>r. key_matches k r \<and> ae_user_sub r = uc_user_id (ev_user env) \<and> mock_not_expired r later) (as_entries st') = [] \<and>
    filter (\<lambda>r. \<not> key_matches k r \<or> ae_user_sub r \<noteq> uc_user_id (ev_user env)) (as_entries st') =
      filter (\<lambda>r. \<not> key_matches k r \<or> ae_user_sub r \<noteq> uc_user_id (ev_user env)) (as_entries st)"
proof (rule mock_revoke_ok [OF assms(1)])
  fix stamp row
  assume ids: "ids = map ae_id (filter (own_hit env (key_matches k)) (as_entries st))"
    and es: "as_entries st' = map_if (own_hit env (key_matches k)) (expire_row (ev_now env)) (as_entries st)"
  have hit: "own_hit env (key_matches k) = (\<lambda>r. mock_not_expired r (ev_now env) \<and> key_matches k r \<and>
      ae_user_sub r = uc_user_id (ev_user env))" by (simp add: fun_eq_iff own_hit_def)
  have key: "key_matches k (expire_row now r) = key_matches k r" "ae_user_sub (expire_row now r) = ae_user_sub r" for now r
    by (simp_all add: key_matches_def expire_row_def)
  have gone: "\<not> mock_not_expired (expire_row (ev_now env) r) later" for r
    using assms(2) by (simp add: mock_not_expired_def expire_row_def)
  have still: "\<not> mock_not_expired r later" if "\<not> mock_not_expired r (ev_now env)" for r
    using that assms(2) by (auto simp: mock_not_expired_def split: option.splits)
  have "filter (\<lambda>r. key_matches k r \<and> ae_user_sub r = uc_user_id (ev_user env) \<and> mock_not_expired r later)
      (map_if (own_hit env (key_matches k)) (expire_row (ev_now env)) es) = []" for es
    by (induction es) (auto simp: hit gone dest: still)
  moreover have "filter (\<lambda>r. \<not> key_matches k r \<or> ae_user_sub r \<noteq> uc_user_id (ev_user env))
      (map_if (own_hit env (key_matches k)) (expire_row (ev_now env)) es) =
      filter (\<lambda>r. \<not> key_matches k r \<or> ae_user_sub r \<noteq> uc_user_id (ev_user env)) es" for es
    by (induction es) (auto simp: hit key)
  ultimately show ?thesis by (simp add: ids es hit)
qed

lemma bit_old_bits: "bit (old_bits active) n \<longleftrightarrow> (\<exists>r \<in> set active. bit (ae_perm_bits r) n)"
proof -
  have "bit (foldl (\<lambda>b r. b OR ae_perm_bits r) b active) n \<longleftrightarrow> bit b n \<or> (\<exists>r \<in> set active. bit (ae_perm_bits r) n)" for b
    by (induction active arbitrary: b) (auto simp: bit_or_iff)
  then show ?thesis by (simp add: old_bits_def)
qed

lemma bit_modified_bits:
  "bit (modified_bits active ad rm) n \<longleftrightarrow>
     ((\<exists>r \<in> set active. bit (ae_perm_bits r) n) \<or> (\<exists>a. ad = Some a \<and> bit a n)) \<and> \<not> (\<exists>m. rm = Some m \<and> bit m n)"
  by (auto simp: modified_bits_def bit_and_iff bit_or_iff bit_not_iff bit_old_bits or0_def split: option.splits)

text \<open>
  A change of bits is the set operation it says. A bit of the row it creates is set exactly
  when an active row the caller can see at the key has it or it is added, and it is not removed;
  where the caller owns no active row at the key, or sees none, no row is created or touched.
\<close>

lemma mock_modify_bits:
  assumes "mock_modify_permission_bits env k ad rm st = (Inr out, st')"
  shows "(\<forall>new n. out = Some new \<longrightarrow> (bit (ae_perm_bits new) n \<longleftrightarrow>
      ((\<exists>r \<in> set (as_entries st). mock_rls_visible r (ev_user env) \<and> key_matches k r \<and>
          mock_not_expired r (ev_now env) \<and> bit (ae_perm_bits r) n) \<or>
        (\<exists>a. ad = Some a \<and> bit a n)) \<and> \<not> (\<exists>m. rm = Some m \<and> bit m n))) \<and>
    (out = None \<longleftrightarrow> (\<forall>r \<in> set (as_entries st). \<not> own_hit env (key_matches k) r)) \<and>
    (out = None \<longrightarrow> as_entries st' = as_entries st)"
proof (rule mock_modify_ok [OF assms])
  fix stamp active expired row
  assume stamp: "build_write_stamp env = Inr stamp"
    and active: "active = visible_matching_rows (as_entries st) (ev_user env) stamp (key_matches k)"
    and expired: "expired = (if active = [] then [] else filter (own_hit env (key_matches k)) (as_entries st))"
    and out: "out = (if expired = [] then None else Some (new_entry (ev_uuid env 0) stamp k (modified_bits active ad rm)
           (ae_role_id (latest (hd active) (tl active))) (inherited_expiry active) None))"
    and es: "as_entries st' = (if active = [] then as_entries st
           else map_if (own_hit env (key_matches k)) (expire_row (ev_now env)) (as_entries st)) @
           (case out of None \<Rightarrow> [] | Some r \<Rightarrow> [r])"
  have own: "active = [] \<Longrightarrow> r \<in> set (as_entries st) \<Longrightarrow> \<not> own_hit env (key_matches k) r" for r
    by (auto simp: active visible_matching_rows_def own_hit_def mock_rls_visible_def filter_empty_conv stamp_Inr(1) [OF stamp])
  have none: "out = None \<longleftrightarrow> (\<forall>r \<in> set (as_entries st). \<not> own_hit env (key_matches k) r)"
    using own by (auto simp: out expired filter_empty_conv)
  moreover have "as_entries st' = as_entries st" if "out = None"
    using that none by (simp add: es map_if_none)
  moreover have "bit (ae_perm_bits new) n \<longleftrightarrow>
      ((\<exists>r \<in> set (as_entries st). mock_rls_visible r (ev_user env) \<and> key_matches k r \<and>
          mock_not_expired r (ev_now env) \<and> bit (ae_perm_bits r) n) \<or>
        (\<exists>a. ad = Some a \<and> bit a n)) \<and> \<not> (\<exists>m. rm = Some m \<and> bit m n)" if "out = Some new" for new n
  proof -
    have "ae_perm_bits new = modified_bits active ad rm" using that by (auto simp: out new_entry_def split: if_splits)
    then show ?thesis
      by (auto simp: bit_modified_bits active visible_matching_rows_def stamp_Inr(1) [OF stamp])
  qed
  ultimately show ?thesis by blast
qed

text \<open>
  A delete expires exactly the caller's active rows that some predicate matches, reports each
  of them once, and touches no other row, whatever the predicates name.
\<close>

lemma mock_delete_scoped:
  assumes "mock_delete_acl_entries env ps st = (Inr (ids, visible), st')"
  shows "as_entries st' = map_if (\<lambda>r. mock_not_expired r (ev_now env) \<and> (\<exists>p \<in> set ps. pred_matches p r) \<and>
      ae_user_sub r = uc_user_id (ev_user env)) (expire_row (ev_now env)) (as_entries st) \<and>
    distinct ids \<and>
    set ids = {ae_id r | r. r \<in> set (as_entries st) \<and> mock_not_expired r (ev_now env) \<and>
      (\<exists>p \<in> set ps. pred_matches p r) \<and> ae_user_sub r = uc_user_id (ev_user env)}"
proof (rule mock_delete_ok [OF assms])
  fix stamp
  assume stamp: "build_write_stamp env = Inr stamp"
    and loop: "mock_delete_loop env stamp 0 (length ps)
      (length (visible_matching_ids (as_entries st) (ev_user env) stamp (preds_match ps)))
      (as_entries st) ps (as_entries st) [] [] [] st = (Inr (ids, visible), st')"
  have hit: "own_hit env (preds_match ps) = (\<lambda>r. mock_not_expired r (ev_now env) \<and> (\<exists>p \<in> set ps. pred_matches p r) \<and>
      ae_user_sub r = uc_user_id (ev_user env))" by (auto simp: fun_eq_iff own_hit_def preds_match_def)
  show ?thesis
    using delete_loop_ok [OF loop stamp distinct.simps(1) [THEN iffD2, OF TrueI]] unfolding hit
    by (simp add: image_Collect)
qed

section \<open>Witnesses\<close>

definition demo_env :: "string \<Rightarrow> db_error option \<Rightarrow> acl_env" where
  "demo_env sub audit_error =
     \<lparr>ev_user = demo_user sub, ev_bound = Some sub, ev_session = None, ev_trace = None, ev_now = 4,
      ev_iso = ''2026-01-01'', ev_uuid = (\<lambda>n. if n = 0 then ''u0'' else ''u1''),
      ev_stores = \<lparr>rs_agents = [\<lparr>sr_id = ''r1'', sr_user_sub = ''ann'', sr_deleted_at_ms = None\<rparr>], rs_prompt_groups = []\<rparr>, ev_sha = (\<lambda>s. ''h''),
      ev_column_error = (\<lambda>r. None), ev_statement = (\<lambda>r. []),
      ev_audit_error = (\<lambda>r. if ar_status r = ''success'' then audit_error else None), ev_commit_error = None\<rparr>"

definition demo_key :: acl_key where
  "demo_key = \<lparr>ak_principal_type = ''user'', ak_principal_id = Some ''bob'', ak_resource_type = ''agent'',
     ak_resource_id = ''r1'', ak_tenant_id = None\<rparr>"

definition demo_state :: acl_state where
  "demo_state = \<lparr>as_entries = demo_acl, as_audit = []\<rparr>"

lemma demo_distinct: "distinct (map ae_id (as_entries demo_state))"
  by code_simp

lemma out_Inr: "\<not> isl (fst r) \<Longrightarrow> r = (Inr (projr (fst r)), snd r)"
  by (cases r; cases "fst r") auto

lemma demo_grant_ok:
  "\<not> isl (fst (mock_grant_permission (demo_env ''ann'' None) demo_key 3 None (Some 20) demo_state))"
  by code_simp

lemma demo_write_ok: "mock_write (demo_env ''ann'' None) (WGrant demo_key 3 None (Some 20)) demo_state =
    (Inr (), snd (mock_grant_permission (demo_env ''ann'' None) demo_key 3 None (Some 20) demo_state))"
  using out_Inr [OF demo_grant_ok] by (simp add: outcome_Inr) blast

lemma mock_grant_supersedes_witness:
  "\<exists>new. filter (\<lambda>r. key_matches demo_key r \<and> mock_not_expired r 4)
      (as_entries (snd (mock_grant_permission (demo_env ''ann'' None) demo_key 3 None (Some 20) demo_state))) = [new] \<and>
    ae_perm_bits new = 3 \<and> ae_expired_at_ms new = Some 20"
  using mock_grant_supersedes [OF out_Inr [OF demo_grant_ok] demo_distinct] by (auto simp: demo_env_def)

lemma mock_grant_then_read_witness:
  "mock_has_permission
     (as_entries (snd (mock_grant_permission (demo_env ''ann'' None) demo_key 3 None (Some 20) demo_state)))
     19 (demo_user ''bob'') ''agent'' ''r1'' 2"
  using mock_grant_then_read [OF out_Inr [OF demo_grant_ok] demo_distinct, where user = "demo_user ''bob''" and needed = 2 and later = 19]
  by (simp add: demo_key_def demo_user_def acl_constants contains_bits_def)

lemma mock_revoke_own_witness:
  "fst (mock_revoke_permission (demo_env ''ann'' None) demo_key demo_state) = Inr ([''e1'', ''e3''], 2) \<and>
   filter (\<lambda>r. key_matches demo_key r \<and> ae_user_sub r = ''ann'' \<and> mock_not_expired r 50)
     (as_entries (snd (mock_revoke_permission (demo_env ''ann'' None) demo_key demo_state))) = []"
proof -
  have r: "fst (mock_revoke_permission (demo_env ''ann'' None) demo_key demo_state) = Inr ([''e1'', ''e3''], 2)" by code_simp
  then have "mock_revoke_permission (demo_env ''ann'' None) demo_key demo_state =
      (Inr ([''e1'', ''e3''], 2), snd (mock_revoke_permission (demo_env ''ann'' None) demo_key demo_state))"
    by (simp add: prod_eq_iff)
  from mock_revoke_own [OF this, of 50] r show ?thesis by (simp add: demo_env_def demo_user_def)
qed

lemma mock_modify_bits_witness:
  "\<exists>new. fst (mock_modify_permission_bits (demo_env ''ann'' None) demo_key (Some 1) (Some 8) demo_state) = Inr (Some new) \<and>
     bit (ae_perm_bits new) 1 \<and> \<not> bit (ae_perm_bits new) 3"
proof -
  let ?r = "mock_modify_permission_bits (demo_env ''ann'' None) demo_key (Some 1) (Some 8) demo_state"
  have "\<not> isl (fst ?r)" by code_simp
  note m = mock_modify_bits [OF out_Inr [OF this]]
  have some: "\<exists>r \<in> set (as_entries demo_state). own_hit (demo_env ''ann'' None) (key_matches demo_key) r"
    by code_simp
  then obtain new where new: "projr (fst ?r) = Some new" using m by auto
  have "fst ?r = Inr (Some new)" using out_Inr [OF \<open>\<not> isl (fst ?r)\<close>] new by (metis fst_conv)
  moreover have b1: "\<exists>r \<in> set (as_entries demo_state). mock_rls_visible r (ev_user (demo_env ''ann'' None)) \<and>
      key_matches demo_key r \<and> mock_not_expired r (ev_now (demo_env ''ann'' None)) \<and> bit (ae_perm_bits r) 1"
    by code_simp
  have eq: "bit (ae_perm_bits new) n \<longleftrightarrow>
      ((\<exists>r \<in> set (as_entries demo_state). mock_rls_visible r (ev_user (demo_env ''ann'' None)) \<and>
          key_matches demo_key r \<and> mock_not_expired r (ev_now (demo_env ''ann'' None)) \<and> bit (ae_perm_bits r) n) \<or>
        (\<exists>a. Some (1 :: int) = Some a \<and> bit a n)) \<and> \<not> (\<exists>m. Some (8 :: int) = Some m \<and> bit m n)" for n
    using m new by blast
  have "bit (ae_perm_bits new) 1 \<and> \<not> bit (ae_perm_bits new) 3"
  proof -
    have b8: "\<not> bit (8 :: int) 1" "bit (8 :: int) 3" by (simp_all add: bit_iff_odd)
    show ?thesis using eq [of 1] eq [of 3] b1 b8 by blast
  qed
  ultimately show ?thesis by blast
qed

lemma mock_delete_scoped_witness:
  "distinct (fst (projr (fst (mock_delete_acl_entries (demo_env ''ann'' None) [[(''resource_id'', PStr ''r1'')]] demo_state)))) \<and>
   fst (mock_delete_acl_entries (demo_env ''bob'' None) [[(''resource_id'', PStr ''r1'')]] demo_state) = Inr ([], 2)"
proof -
  let ?r = "mock_delete_acl_entries (demo_env ''ann'' None) [[(''resource_id'', PStr ''r1'')]] demo_state"
  have "fst (mock_delete_acl_entries (demo_env ''bob'' None) [[(''resource_id'', PStr ''r1'')]] demo_state) = Inr ([], 2)"
    by code_simp
  moreover have "\<not> isl (fst ?r)" by code_simp
  ultimately show ?thesis
    using mock_delete_scoped [of "demo_env ''ann'' None" "[[(''resource_id'', PStr ''r1'')]]" demo_state
      "fst (projr (fst ?r))" "snd (projr (fst ?r))" "snd ?r"] out_Inr [of ?r] by simp
qed

lemma mock_write_atomic_witness:
  "as_entries (snd (mock_write (demo_env ''ann'' (Some (DbError ''OperationalError'' None []))) (WRevoke demo_key) demo_state)) = demo_acl"
proof -
  let ?r = "mock_write (demo_env ''ann'' (Some (DbError ''OperationalError'' None []))) (WRevoke demo_key) demo_state"
  have "isl (fst ?r)" by code_simp
  then have "?r = (Inl (projl (fst ?r)), snd ?r)" by (cases ?r; cases "fst ?r") auto
  from mock_write_atomic [OF this demo_distinct] show ?thesis by (simp add: demo_env_def demo_state_def)
qed

end
