(* ===== verification/AclPgProps.thy ===== *)
theory AclPgProps
  imports AclPgOps AclMockLaws
begin

text \<open>
  What the writes of the Postgres service promise: all or nothing, the constraints of the table, no
  reach beyond the caller's own rows and resources, and agreement with the mock.
\<close>

section \<open>What the clauses mean\<close>

lemma eq_or_null_holds [acl_sql]: "sql_holds (eq_or_null col v) \<longleftrightarrow> col = v"
  by (auto simp: eq_or_null_def sql_simps)

lemma key_clause_eq [acl_sql]: "sql_holds (key_clause k r) = key_matches k r"
  by (auto simp: key_clause_def key_matches_def acl_sql sql_simps)

lemma predicate_clause_eq [acl_sql]: "sql_holds (predicate_clause p r) = pred_matches p r"
  by (auto simp: predicate_clause_def pred_matches_def acl_sql list_all_iff)

lemma any_clause_eq [acl_sql]: "sql_holds (any_clause cs r) \<longleftrightarrow> (\<exists>c \<in> set cs. sql_holds (c r))"
proof -
  have "sql_holds (foldl sql_or b (map (\<lambda>c. c r) cs)) \<longleftrightarrow> sql_holds b \<or> (\<exists>c \<in> set cs. sql_holds (c r))" for b
    by (induction cs arbitrary: b) (auto simp: sql_simps)
  then show ?thesis by (simp add: any_clause_def sql_holds_def [of SFalse])
qed

lemma reachable_iff:
  "reachable env c now r \<longleftrightarrow> Some (ae_user_sub r) = ev_bound env \<and> sql_holds (c r) \<and> mock_not_expired r now"
  by (auto simp: reachable_def acl_sql rls_owner_only_def rls_select_def sql_simps)

lemma reachable_active: "reachable env c now r \<Longrightarrow> mock_not_expired r now"
  by (simp add: reachable_iff)

text \<open>A statement that expires succeeds only where every row it reaches passes the policy.\<close>

lemma expire_where_ok:
  assumes "expire_where env t c now = Inr (t', pairs)"
  shows "t' = map_if (reachable env c now) (expire_row now) t \<and>
    pairs = map (\<lambda>r. (ae_id r, ae_created_at_ms r)) (filter (reachable env c now) t) \<and>
    (\<forall>r \<in> set t. reachable env c now r \<longrightarrow> sql_holds (rls_write_check (ev_stores env) (ev_bound env) r))"
proof -
  have same: "rls_write_check s g (expire_row now r) = rls_write_check s g r" for s g r
    by (simp add: rls_write_check_def rls_owner_only_def ownership_subquery_def expire_row_def)
  have "find (\<lambda>r. reachable env c now r \<and> \<not> sql_holds (rls_write_check (ev_stores env) (ev_bound env) (expire_row now r))) t = None"
    using assms by (auto simp: expire_where_def split: option.splits)
  note none = this
  then have "\<forall>r \<in> set t. reachable env c now r \<longrightarrow> sql_holds (rls_write_check (ev_stores env) (ev_bound env) r)"
    by (simp add: find_None_set same)
  then show ?thesis using assms by (simp add: expire_where_def none)
qed

section \<open>All or nothing\<close>

fun pg_write :: "acl_env \<Rightarrow> acl_write \<Rightarrow> acl_state \<Rightarrow> (acl_error, unit) res \<times> acl_state" where
  "pg_write env (WGrant k b role e) st = outcome (grant_permission env k b role e st)"
| "pg_write env (WRevoke k) st = outcome (revoke_permission env k st)"
| "pg_write env (WModify k ad rm) st = outcome (modify_permission_bits env k ad rm st)"
| "pg_write env (WBulk gs) st = outcome (bulk_write_acl_entries env gs st)"
| "pg_write env (WDelete ps) st = outcome (delete_acl_entries env ps st)"

lemma write_denial_denied: "write_denial env opname k b att err st = (res, st') \<Longrightarrow> denied st st' \<and> (\<exists>e. res = Inl e)"
  unfolding write_denial_def by (rule refuse_denied)

lemmas denials = refuse_denied audit_failed_denied write_denial_denied

lemmas raised = denials [THEN conjunct1]

lemma never_returns [simp]:
  "refuse env opname k b fc att dbe st = (Inr x, st') \<longleftrightarrow> False"
  "audit_failed env opname k b att err st = (Inr x, st') \<longleftrightarrow> False"
  "write_denial env opname k b att err st = (Inr x, st') \<longleftrightarrow> False"
  by (auto dest: denials)

lemma pg_bulk_loop_denied:
  "bulk_loop env stamp i n gs t ids ex rows st = (Inl e, st') \<Longrightarrow> denied st st'"
  by (induction gs arbitrary: i t ids ex rows) (auto split: sum.splits intro: raised)

lemma pg_delete_loop_denied:
  "delete_loop env stamp i n va ps t ex rows st = (Inl e, st') \<Longrightarrow> denied st st'"
proof (induction ps arbitrary: i t ex rows)
  case Nil
  then show ?case by (auto split: sum.splits intro: raised)
next
  case (Cons pv ps)
  obtain p v where pv: "pv = (p, v)" by (cases pv)
  show ?case
  proof (cases "expire_where env t (predicate_clause p) (ws_now_ms stamp)")
    case (Inl e)
    with Cons.prems pv show ?thesis by (auto intro: raised)
  next
    case (Inr tp)
    then show ?thesis using Cons.prems Cons.IH raised(2)
      by (cases tp) (auto simp: pv Let_def split: sum.splits)
  qed
qed

lemma pg_write_denied:
  assumes "pg_write env w st = (Inl e, st')"
  shows "denied st st'"
proof (cases w)
  case (WGrant k b role ex)
  with assms show ?thesis
    by (auto simp: outcome_Inl grant_permission_def Let_def split: sum.splits if_splits intro: raised)
next
  case (WRevoke k)
  with assms show ?thesis
    by (auto simp: outcome_Inl revoke_permission_def Let_def split: sum.splits intro: raised)
next
  case (WModify k ad rm)
  with assms show ?thesis
    by (auto simp: outcome_Inl modify_permission_bits_def Let_def split: sum.splits intro: raised)
next
  case (WBulk gs)
  with assms show ?thesis
    by (auto simp: outcome_Inl bulk_write_acl_entries_def split: sum.splits dest: pg_bulk_loop_denied)
next
  case (WDelete ps)
  with assms show ?thesis
    by (auto simp: outcome_Inl delete_acl_entries_def Let_def split: sum.splits if_splits dest: pg_delete_loop_denied)
qed

text \<open>
  C7: all or nothing. A write of the Postgres service that raises leaves the rows as they were,
  whichever stage raised, and at most one audit row more, a denial.
\<close>

theorem pg_write_atomic:
  assumes "pg_write env w st = (Inl e, st')"
  shows "as_entries st' = as_entries st \<and>
    (\<exists>rows. as_audit st' = as_audit st @ rows \<and> length rows \<le> 1 \<and> (\<forall>r \<in> set rows. ar_status r = ''failed''))"
  using pg_write_denied [OF assms] by (simp add: denied_def)

section \<open>One statement at a time\<close>

text \<open>What a write does to the rows: it expires rows it may expire and appends rows it may insert.\<close>

inductive pg_step :: "acl_env \<Rightarrow> acl_table \<Rightarrow> acl_table \<Rightarrow> bool" for env where
  expires: "expire_where env t c (ev_now env) = Inr (t', pairs) \<Longrightarrow> pg_step env t t'"
| inserts: "insert_entry env t r = Inr t' \<Longrightarrow> added_row env r \<Longrightarrow> pg_step env t t'"

abbreviation pg_steps :: "acl_env \<Rightarrow> acl_table \<Rightarrow> acl_table \<Rightarrow> bool" where
  "pg_steps env \<equiv> (pg_step env)\<^sup>*\<^sup>*"

lemma modify_stage_steps:
  assumes "modify_stage env stamp k active nb t = Inr (t2, ids, new, inh)" and "build_write_stamp env = Inr stamp"
  shows "pg_steps env t t2"
proof -
  note now = stamp_Inr(1) [OF assms(2)]
  consider "t2 = t" | pairs where "expire_where env t (key_clause k) (ev_now env) = Inr (t2, pairs)"
    | pairs t1 i role where "expire_where env t (key_clause k) (ev_now env) = Inr (t1, pairs)"
      "insert_entry env t1 (new_entry i stamp k nb role (inherited_expiry active) (ws_trace_id stamp)) = Inr t2"
    using assms(1) by (auto simp: modify_stage_def now Let_def res_bind_Inr_iff split: if_splits sum.splits)
  then show ?thesis
  proof cases
    case 1
    then show ?thesis by simp
  next
    case 2
    then show ?thesis by (blast intro: expires)
  next
    case 3
    from expires [OF 3(1)] inserts [OF 3(2) added_new_entry [OF assms(2)]] show ?thesis by (meson r_into_rtranclp rtranclp_trans)
  qed
qed

lemma bulk_op_steps:
  assumes "bulk_op env stamp i g t = Inr (t', new_id, ids, row)" and "build_write_stamp env = Inr stamp"
  shows "pg_steps env t t'"
proof -
  obtain t1 pairs where "expire_where env t (key_clause (key_of_op g)) (ev_now env) = Inr (t1, pairs)"
    and ins: "insert_entry env t1 (new_entry (ev_uuid env i) stamp (key_of_op g) (go_perm_bits g) (go_role_id g)
       (go_expired_at_ms g) (ws_trace_id stamp)) = Inr t'"
    using assms(1) by (auto simp: bulk_op_def stamp_Inr(1) [OF assms(2)] Let_def res_bind_Inr_iff split: if_splits sum.splits)
  from expires [OF this(1)] inserts [OF ins added_new_entry [OF assms(2)]] show ?thesis
    by (meson r_into_rtranclp rtranclp_trans)
qed

lemma pg_bulk_loop_steps:
  assumes "bulk_loop env stamp i n gs t ids ex rows st = (Inr out, st')" and "build_write_stamp env = Inr stamp"
  shows "pg_steps env t (as_entries st')"
  using assms(1)
proof (induction gs arbitrary: i t ids ex rows)
  case Nil
  then show ?case by (auto simp: stored_def split: sum.splits)
next
  case (Cons g gs)
  then obtain t' new_id expired row where bop: "bulk_op env stamp i g t = Inr (t', new_id, expired, row)"
    and rest: "bulk_loop env stamp (Suc i) n gs t' (ids @ [new_id]) (ex @ expired) (rows @ [row]) st = (Inr out, st')"
    by (auto split: sum.splits intro: raised)
  from bulk_op_steps [OF bop assms(2)] Cons.IH [OF rest] show ?case by (rule rtranclp_trans)
qed

lemma pg_delete_loop_steps:
  assumes "delete_loop env stamp i n va ps t ex rows st = (Inr out, st')" and "build_write_stamp env = Inr stamp"
  shows "pg_steps env t (as_entries st')"
  using assms(1)
proof (induction ps arbitrary: i t ex rows)
  case Nil
  then show ?case by (auto simp: stored_def split: sum.splits intro: raised)
next
  case (Cons pv ps)
  obtain p v where pv: "pv = (p, v)" by (cases pv)
  from Cons.prems obtain t1 pairs ex' rows' where "expire_where env t (predicate_clause p) (ev_now env) = Inr (t1, pairs)"
    and rest: "delete_loop env stamp (Suc i) n va ps t1 ex' rows' st = (Inr out, st')"
    by (auto simp: pv stamp_Inr(1) [OF assms(2)] Let_def split: sum.splits intro: raised)
  from expires [OF this(1)] Cons.IH [OF rest] show ?case by (rule converse_rtranclp_into_rtranclp)
qed

lemma pg_write_steps:
  assumes "pg_write env w st = (Inr (), st')"
  shows "pg_steps env (as_entries st) (as_entries st')"
proof (cases "build_write_stamp env")
  case (Inl e)
  with assms show ?thesis
    by (cases w) (auto simp: outcome_Inr grant_permission_def revoke_permission_def modify_permission_bits_def
        bulk_write_acl_entries_def delete_acl_entries_def split: sum.splits if_splits)
next
  case (Inr stamp)
  note now = stamp_Inr(1) [OF Inr]
  show ?thesis
  proof (cases w)
    case (WGrant k b role ex)
    with assms Inr obtain t1 pairs i where e: "expire_where env (as_entries st) (key_clause k) (ev_now env) = Inr (t1, pairs)"
      and ins: "insert_entry env t1 (new_entry i stamp k b role ex (ws_trace_id stamp)) = Inr (as_entries st')"
      by (auto simp: outcome_Inr grant_permission_def Let_def now flush_and_commit_def res_bind_Inr_iff stored_def
          split: sum.splits if_splits intro: raised)
    from expires [OF e] inserts [OF ins added_new_entry [OF Inr]] show ?thesis
      by (meson r_into_rtranclp rtranclp_trans)
  next
    case (WRevoke k)
    with assms Inr obtain pairs where "expire_where env (as_entries st) (key_clause k) (ev_now env) = Inr (as_entries st', pairs)"
      by (auto simp: outcome_Inr revoke_permission_def Let_def now stored_def split: sum.splits intro: raised)
    then show ?thesis by (blast intro: expires)
  next
    case (WModify k ad rm)
    with assms Inr obtain active nb ids new inh where
      "modify_stage env stamp k active nb (as_entries st) = Inr (as_entries st', ids, new, inh)"
      by (auto simp: outcome_Inr modify_permission_bits_def Let_def stored_def split: sum.splits)
    from modify_stage_steps [OF this Inr] show ?thesis .
  next
    case (WBulk gs)
    with assms Inr show ?thesis
      by (auto simp: outcome_Inr bulk_write_acl_entries_def dest: pg_bulk_loop_steps)
  next
    case (WDelete ps)
    with assms Inr show ?thesis
      by (auto simp: outcome_Inr delete_acl_entries_def Let_def split: sum.splits if_splits dest: pg_delete_loop_steps)
  qed
qed

section \<open>The table's own rules\<close>

text \<open>The rules of the schema: the primary key, the CHECK constraints and the two unique indexes.\<close>

definition acl_valid :: "acl_table \<Rightarrow> bool" where
  "acl_valid t \<longleftrightarrow> distinct (map ae_id t) \<and> (\<forall>r \<in> set t. \<forall>c \<in> set (checks r). sql_check_ok (snd c)) \<and>
     uq_public_resource t \<and> uq_active_grant t"

lemma checks_expire [simp]: "checks (expire_row now r) = checks r"
  by (simp add: checks_def expire_row_def ck_perm_bits_range_def ck_principal_model_matches_type_def
      ck_principal_type_def ck_public_principal_null_def)

lemma uq_public_expire [simp]: "uq_public_resource (map_if p (expire_row now) t) = uq_public_resource t"
proof -
  have "map (\<lambda>r. (ae_resource_type r, ae_resource_id r)) (filter (\<lambda>r. ae_principal_type r = ''public'') (map_if p (expire_row now) t))
      = map (\<lambda>r. (ae_resource_type r, ae_resource_id r)) (filter (\<lambda>r. ae_principal_type r = ''public'') t)"
    by (induction t) (auto simp: expire_row_def)
  then show ?thesis unfolding uq_public_resource_def by presburger
qed

lemma uq_active_expire: "uq_active_grant t \<Longrightarrow> uq_active_grant (map_if p (expire_row now) t)"
proof -
  have eq: "filter (\<lambda>r. ae_expired_at_ms r = None) (map_if p (expire_row now) t) =
      filter (\<lambda>r. \<not> p r) (filter (\<lambda>r. ae_expired_at_ms r = None) t)"
    by (induction t) (auto simp: expire_row_def)
  show "uq_active_grant t \<Longrightarrow> uq_active_grant (map_if p (expire_row now) t)"
    unfolding uq_active_grant_def eq by (rule distinct_map_filter)
qed

lemma insert_entry_Inr:
  assumes "insert_entry env t r = Inr t'"
  shows "t' = t @ [r] \<and> sql_holds (rls_write_check (ev_stores env) (ev_bound env) r) \<and>
    (\<forall>c \<in> set (checks r). sql_check_ok (snd c)) \<and> ae_id r \<notin> set (map ae_id t) \<and>
    uq_public_resource t' \<and> uq_active_grant t'"
proof -
  have ok: "insert_error env t r = None" and t': "t' = t @ [r]"
    using assms by (auto simp: insert_entry_def split: option.splits)
  have "find (\<lambda>(name, c). \<not> sql_check_ok c) (checks r) = None"
    using ok by (auto simp: insert_error_def split: option.splits if_splits)
  then have "\<forall>c \<in> set (checks r). sql_check_ok (snd c)" by (auto simp: find_None_set)
  with ok t' show ?thesis by (auto simp: insert_error_def split: option.splits if_splits)
qed

lemma pg_step_valid:
  assumes "pg_step env t t'" and "acl_valid t"
  shows "acl_valid t'"
  using assms(1)
proof cases
  case (expires c pairs)
  have "distinct (map ae_id (map_if p (expire_row now) t))" for p now
    using assms(2) by (simp add: acl_valid_def map_map_if)
  then show ?thesis
    using expire_where_ok [OF expires] assms(2)
    by (simp add: acl_valid_def uq_active_expire set_map_if) (force simp del: split_paired_All)
next
  case (inserts r)
  with insert_entry_Inr [OF inserts(1)] assms(2) show ?thesis by (auto simp: acl_valid_def)
qed


section \<open>Confinement\<close>

text \<open>A row the caller may write: its own, on a live resource of its own.\<close>

definition writable :: "acl_env \<Rightarrow> acl_entry \<Rightarrow> bool" where
  "writable env r \<longleftrightarrow> Some (ae_user_sub r) = ev_bound env \<and> sql_holds (ownership_subquery (ev_stores env) (ev_bound env) r)"

lemma write_check_writable: "sql_holds (rls_write_check (ev_stores env) (ev_bound env) r) = writable env r"
  by (auto simp: rls_write_check_def rls_owner_only_def writable_def sql_simps)

lemma writable_expire [simp]: "writable env (expire_row now r) = writable env r"
  by (simp add: writable_def ownership_subquery_def expire_row_def)

lemma added_expire [simp]: "added_row env r \<Longrightarrow> added_row env (expire_row (ev_now env) r)"
  by (simp add: added_row_def expire_row_def)

definition confined :: "acl_env \<Rightarrow> acl_table \<Rightarrow> acl_table \<Rightarrow> bool" where
  "confined env t t' \<longleftrightarrow> (\<exists>old new. t' = old @ new \<and>
     list_all2 (\<lambda>r r'. r' = r \<or> writable env r \<and> mock_not_expired r (ev_now env) \<and> r' = expire_row (ev_now env) r) t old \<and>
     (\<forall>r \<in> set new. writable env r \<and> added_row env r))"

lemma confined_refl [simp]: "confined env t t"
  unfolding confined_def by (intro exI [of _ t] exI [of _ "[]"]) (simp add: list.rel_refl)

lemma confined_step:
  assumes "confined env t t1" and "pg_step env t1 t2"
  shows "confined env t t2"
proof -
  from assms(1) obtain old new where t1: "t1 = old @ new"
    and old: "list_all2 (\<lambda>r r'. r' = r \<or> writable env r \<and> mock_not_expired r (ev_now env) \<and> r' = expire_row (ev_now env) r) t old"
    and new: "\<forall>r \<in> set new. writable env r \<and> added_row env r"
    by (auto simp: confined_def)
  from assms(2) show ?thesis
  proof cases
    case (expires c pairs)
    note e = expire_where_ok [OF expires]
    let ?p = "reachable env c (ev_now env)" and ?f = "expire_row (ev_now env)"
    have t2: "t2 = map_if ?p ?f old @ map_if ?p ?f new" using e by (simp add: t1 map_if_def)
    have w: "r \<in> set old \<Longrightarrow> ?p r \<Longrightarrow> writable env r" for r
      using e by (auto simp: t1 write_check_writable)
    have "list_all2 (\<lambda>r r'. r' = r \<or> writable env r \<and> mock_not_expired r (ev_now env) \<and> r' = ?f r) t (map_if ?p ?f old)"
      unfolding map_if_def list.rel_map
      using old w
    proof (induction rule: list_all2_induct)
      case Nil
      then show ?case by simp
    next
      case (Cons r rs r' rs')
      have "\<not> ?p (?f r)" by (auto simp: reachable_iff)
      with Cons show ?case by (auto dest: reachable_active)
    qed
    moreover have "\<forall>r \<in> set (map_if ?p ?f new). writable env r \<and> added_row env r"
      using new by (auto simp: set_map_if)
    ultimately show ?thesis unfolding confined_def t2 by blast
  next
    case (inserts r)
    with insert_entry_Inr [OF inserts(1)] have t2: "t2 = old @ (new @ [r])" and "writable env r"
      by (auto simp: t1 write_check_writable)
    with new inserts(2) have "\<forall>r \<in> set (new @ [r]). writable env r \<and> added_row env r" by auto
    with old t2 show ?thesis unfolding confined_def by blast
  qed
qed

text \<open>
  C6: no one writes beyond the own resources. A row a successful write of the Postgres service
  expires, and a row it adds, is the caller's own and on a live agent or prompt group of the caller;
  every other row is as it was, in place.
\<close>

theorem pg_write_confined:
  assumes "pg_write env w st = (Inr (), st')"
  shows "\<exists>old new. as_entries st' = old @ new \<and>
    list_all2 (\<lambda>r r'. r' = r \<or> writable env r \<and> mock_not_expired r (ev_now env) \<and> r' = expire_row (ev_now env) r)
      (as_entries st) old \<and>
    (\<forall>r \<in> set new. writable env r \<and> added_row env r)"
proof -
  from pg_write_steps [OF assms] have "confined env (as_entries st) (as_entries st')"
    by (induction rule: rtranclp_induct) (auto intro: confined_step)
  then show ?thesis by (simp add: confined_def)
qed

end
