(* ===== verification/AclTwin.thy ===== *)
theory AclTwin
  imports AclPgProps
begin

text \<open>
  The Postgres writes and the mock's: where a Postgres write returns, the mock answers the same and
  reaches the same rows and the same audit trail, as long as no one else holds an active row the
  write would supersede; and what differs where someone does.
\<close>

section \<open>The statements of a bound caller\<close>

lemma flush_bound:
  assumes "flush_row env (record_success env opname k b ids ex v e) = Inr row"
  shows "ev_bound env = Some (uc_user_id (ev_user env)) \<and> record_success env opname k b ids ex v e = Inr row \<and>
    audited env opname k row"
proof -
  from flush_row_staged [OF assms] have r: "record_success env opname k b ids ex v e = Inr row"
    and a: "audit_insert_error env row = None" by auto
  from record_success_audited [OF r] a show ?thesis
    using r by (auto simp: audited_def audit_insert_error_def split: if_splits)
qed

lemma flush_commit:
  assumes "flush_row env s = Inr row" and "commit_error env = Inr ()"
  shows "commit_row env s = Inr row"
  using assms by (auto simp: commit_row_def commit_error_def split: option.splits)

lemma reachable_own:
  assumes "ev_bound env = Some (uc_user_id (ev_user env))"
  shows "reachable env c (ev_now env) = own_hit env (\<lambda>r. sql_holds (c r))"
  using assms by (auto simp: fun_eq_iff reachable_iff own_hit_def)

lemma active_rows_mock:
  assumes "ev_bound env = Some (uc_user_id (ev_user env))" and "build_write_stamp env = Inr stamp"
  shows "active_rows env t c (ev_now env) = visible_matching_rows t (ev_user env) stamp (\<lambda>r. sql_holds (c r))"
proof -
  have "sql_select (rls_select (Some (uc_user_id (ev_user env)))) t = filter (\<lambda>r. mock_rls_visible r (ev_user env)) t"
    by (simp add: sql_select_def acl_sql)
  then show ?thesis
    unfolding active_rows_def pg_visible_def visible_matching_rows_def assms(1) stamp_Inr(1) [OF assms(2)]
    by (simp add: sql_select_def acl_sql)
qed

lemma visible_ids_mock:
  assumes "ev_bound env = Some (uc_user_id (ev_user env))" and "build_write_stamp env = Inr stamp"
  shows "visible_ids env t c (ev_now env) = visible_matching_ids t (ev_user env) stamp (\<lambda>r. sql_holds (c r))"
  by (simp add: visible_ids_def visible_matching_ids_def active_rows_mock [OF assms])

lemma key_match_fun: "(\<lambda>r. sql_holds (key_clause k r)) = key_matches k"
  by (simp add: fun_eq_iff acl_sql)

lemma pred_match_fun: "(\<lambda>r. sql_holds (predicate_clause p r)) = pred_matches p"
  by (simp add: fun_eq_iff acl_sql)

lemma expire_where_own:
  assumes "expire_where env t c (ev_now env) = Inr (t', pairs)" and "ev_bound env = Some (uc_user_id (ev_user env))"
  shows "t' = map_if (own_hit env (\<lambda>r. sql_holds (c r))) (expire_row (ev_now env)) t \<and>
    pairs = map (\<lambda>r. (ae_id r, ae_created_at_ms r)) (filter (own_hit env (\<lambda>r. sql_holds (c r))) t) \<and>
    map fst pairs = map ae_id (filter (own_hit env (\<lambda>r. sql_holds (c r))) t)"
  using expire_where_ok [OF assms(1)] by (simp add: reachable_own [OF assms(2)])

section \<open>Each write, unfolded\<close>

lemma pg_grant_ok:
  assumes "grant_permission env k b role ex st = (Inr new, st')"
  obtains stamp row where "build_write_stamp env = Inr stamp" and "ev_bound env = Some (uc_user_id (ev_user env))"
    and "new = new_entry (ev_uuid env 0) stamp k b role ex (ws_trace_id stamp)" and "\<not> past_expiry ex (ev_now env)"
    and "flush_row env (record_success env ''grantPermission'' k b [ae_id new]
           (map ae_id (filter (own_hit env (key_matches k)) (as_entries st))) None ex) = Inr row"
    and "commit_error env = Inr ()"
    and "insert_entry env (map_if (own_hit env (key_matches k)) (expire_row (ev_now env)) (as_entries st)) new = Inr (as_entries st')"
    and "as_audit st' = as_audit st @ [row]" and "st' = st\<lparr>as_entries := as_entries st', as_audit := as_audit st'\<rparr>"
proof (cases "build_write_stamp env")
  case (Inl x)
  with assms show ?thesis by (simp add: grant_permission_def)
next
  case (Inr stamp)
  note now = stamp_Inr(1) [OF Inr]
  from assms Inr obtain t1 pairs t2 row where past: "\<not> past_expiry ex (ev_now env)"
    and e: "expire_where env (as_entries st) (key_clause k) (ev_now env) = Inr (t1, pairs)"
    and new: "new = new_entry (ev_uuid env 0) stamp k b role ex (ws_trace_id stamp)"
    and rec: "record_success env ''grantPermission'' k b [ae_id new] (map fst pairs) None ex = Inr row"
    and ins: "insert_entry env t1 new = Inr t2"
    and fl: "flush_row env (Inr row) = Inr row" and cm: "commit_error env = Inr ()"
    and st': "st' = stored st t2 [row]"
    by (auto simp: grant_permission_def Let_def now flush_and_commit_def res_bind_Inr_iff split: sum.splits if_splits)
      (auto dest: flush_row_staged)
  have flush: "flush_row env (record_success env ''grantPermission'' k b [ae_id new] (map fst pairs) None ex) = Inr row"
    using rec fl by simp
  note bound = conjunct1 [OF flush_bound [OF flush]]
  note own = expire_where_own [OF e bound, unfolded key_match_fun]
  show ?thesis
  proof (rule that [OF Inr bound new past _ cm])
    show "flush_row env (record_success env ''grantPermission'' k b [ae_id new]
           (map ae_id (filter (own_hit env (key_matches k)) (as_entries st))) None ex) = Inr row"
      using flush unfolding own [THEN conjunct2, THEN conjunct2] .
  qed (use own ins st' in \<open>auto simp: stored_def\<close>)
qed

lemma pg_revoke_ok:
  assumes "revoke_permission env k st = (Inr (ids, visible), st')"
  obtains stamp row where "build_write_stamp env = Inr stamp" and "ev_bound env = Some (uc_user_id (ev_user env))"
    and "ids = map ae_id (filter (own_hit env (key_matches k)) (as_entries st))"
    and "visible = length (visible_matching_ids (as_entries st) (ev_user env) stamp (key_matches k))"
    and "flush_row env (record_success env ''revokePermission'' k 0 [] ids (Some (int visible)) None) = Inr row"
    and "commit_error env = Inr ()"
    and "st' = stored st (map_if (own_hit env (key_matches k)) (expire_row (ev_now env)) (as_entries st)) [row]"
proof (cases "build_write_stamp env")
  case (Inl x)
  with assms show ?thesis by (simp add: revoke_permission_def)
next
  case (Inr stamp)
  note now = stamp_Inr(1) [OF Inr]
  from assms Inr obtain t1 pairs row where e: "expire_where env (as_entries st) (key_clause k) (ev_now env) = Inr (t1, pairs)"
    and fl: "flush_row env (record_success env ''revokePermission'' k 0 [] (map fst pairs) (Some (int visible)) None) = Inr row"
    and cm: "commit_error env = Inr ()" and ids: "ids = map fst pairs" and st': "st' = stored st t1 [row]"
    and vis: "visible = length (visible_ids env (as_entries st) (key_clause k) (ev_now env))"
    by (auto simp: revoke_permission_def Let_def now split: sum.splits)
  note bound = conjunct1 [OF flush_bound [OF fl]]
  note own = expire_where_own [OF e bound, unfolded key_match_fun]
  show ?thesis
    by (rule that [OF Inr bound _ _ _ cm])
      (use fl own [THEN conjunct1] own [THEN conjunct2, THEN conjunct2] ids st' vis
        visible_ids_mock [OF bound Inr, of "as_entries st" "key_clause k"] in \<open>simp_all add: key_match_fun\<close>)
qed

section \<open>The mock follows\<close>

lemma allowed_type:
  assumes "insert_entry env t (new_entry i stamp k b role ex tr) = Inr t'"
  shows "ak_principal_type k \<in> set ALLOWED_PRINCIPAL_TYPES"
proof -
  have "sql_check_ok (ck_principal_type (new_entry i stamp k b role ex tr))"
    using insert_entry_Inr [OF assms] by (simp add: checks_def)
  then show ?thesis by (auto simp: ck_principal_type_def new_entry_def acl_constants ALLOWED_PRINCIPAL_TYPES_def sql_check_ok_def sql_of_def split: if_splits)
qed

lemma grant_hit_own:
  assumes "\<forall>r \<in> set t. grant_hit env k r \<longrightarrow> ae_user_sub r = uc_user_id (ev_user env)"
  shows "map_if (grant_hit env k) f t = map_if (own_hit env (key_matches k)) f t \<and>
    filter (grant_hit env k) t = filter (own_hit env (key_matches k)) t"
  using assms by (auto simp: map_if_def grant_hit_def own_hit_def intro!: filter_cong)

lemma twin_grant:
  assumes "grant_permission env k b role ex st = (Inr new, st')" and "distinct (map ae_id (as_entries st))"
    and "\<forall>r \<in> set (as_entries st). grant_hit env k r \<longrightarrow> ae_user_sub r = uc_user_id (ev_user env)"
    and "ev_trace env = None"
  shows "mock_grant_permission env k b role ex st = (Inr new, st')"
proof (rule pg_grant_ok [OF assms(1)])
  fix stamp row
  assume stamp: "build_write_stamp env = Inr stamp" and past: "\<not> past_expiry ex (ev_now env)"
    and new: "new = new_entry (ev_uuid env 0) stamp k b role ex (ws_trace_id stamp)"
    and fl: "flush_row env (record_success env ''grantPermission'' k b [ae_id new]
           (map ae_id (filter (own_hit env (key_matches k)) (as_entries st))) None ex) = Inr row"
    and cm: "commit_error env = Inr ()"
    and ins: "insert_entry env (map_if (own_hit env (key_matches k)) (expire_row (ev_now env)) (as_entries st)) new = Inr (as_entries st')"
    and au: "as_audit st' = as_audit st @ [row]" and st': "st' = st\<lparr>as_entries := as_entries st', as_audit := as_audit st'\<rparr>"
  have trace: "ws_trace_id stamp = None" using stamp assms(4) by (auto simp: build_write_stamp_def res_bind_Inr_iff)
  have permitted: "\<not> ak_principal_type k \<notin> set ALLOWED_PRINCIPAL_TYPES" using allowed_type ins new by blast
  have hit: "(\<lambda>r. mock_not_expired r (ev_now env) \<and> key_matches k r) = grant_hit env k"
    by (auto simp: fun_eq_iff grant_hit_def)
  note own = grant_hit_own [OF assms(3)]
  have es: "as_entries st' = map_if (own_hit env (key_matches k)) (expire_row (ev_now env)) (as_entries st) @ [new]"
    using insert_entry_Inr [OF ins] by simp
  have cr: "commit_row env (record_success env ''grantPermission'' k b [ev_uuid env 0]
       (map ae_id (filter (own_hit env (key_matches k)) (as_entries st))) None ex) = Inr row"
    using flush_commit [OF fl cm] new by simp
  have "mock_grant_permission env k b role ex st = (Inr new, st\<lparr>as_entries := as_entries st', as_audit := as_audit st'\<rparr>)"
    unfolding mock_grant_permission_def stamp sum.case stamp_Inr(1) [OF stamp] if_not_P [OF past] if_not_P [OF permitted] Let_def
      hit map_if_by_id [OF assms(2)] own [THEN conjunct1] own [THEN conjunct2] new_entry_id cr
    by (simp add: es au new trace)
  then show ?thesis using st' by simp
qed

lemma twin_revoke:
  assumes "revoke_permission env k st = (Inr out, st')"
  shows "mock_revoke_permission env k st = (Inr out, st')"
proof (cases out)
  case (Pair ids visible)
  show ?thesis
  proof (rule pg_revoke_ok [OF assms [unfolded Pair]])
    fix stamp row
    assume stamp: "build_write_stamp env = Inr stamp"
      and ids: "ids = map ae_id (filter (own_hit env (key_matches k)) (as_entries st))"
      and vis: "visible = length (visible_matching_ids (as_entries st) (ev_user env) stamp (key_matches k))"
      and fl: "flush_row env (record_success env ''revokePermission'' k 0 [] ids (Some (int visible)) None) = Inr row"
      and cm: "commit_error env = Inr ()"
      and st': "st' = stored st (map_if (own_hit env (key_matches k)) (expire_row (ev_now env)) (as_entries st)) [row]"
    have pairs: "map fst (map (\<lambda>r. (ae_id r, ae_created_at_ms r)) xs) = map ae_id xs" for xs by simp
    note cr = flush_commit [OF fl cm, unfolded ids vis]
    show ?thesis
      unfolding mock_revoke_permission_def stamp sum.case Let_def expire_matching_def prod.case expirable_own [OF stamp]
        pairs stamp_Inr(1) [OF stamp] cr
      by (simp add: Pair ids vis st' stored_def)
  qed
qed

lemma twin_modify:
  assumes "modify_permission_bits env k ad rm st = (Inr out, st')" and "ev_trace env = None"
  shows "mock_modify_permission_bits env k ad rm st = (Inr out, st')"
proof (cases "validate_bit_operands ad rm")
  case (Inl x)
  with assms show ?thesis by (simp add: modify_permission_bits_def)
next
  case v: (Inr u)
  show ?thesis
  proof (cases "build_write_stamp env")
    case (Inl x)
    with v assms show ?thesis by (simp add: modify_permission_bits_def)
  next
    case (Inr stamp)
    note now = stamp_Inr(1) [OF Inr]
    have trace: "ws_trace_id stamp = None" using Inr assms(2) by (auto simp: build_write_stamp_def res_bind_Inr_iff)
    define active where "active = active_rows env (as_entries st) (key_clause k) (ev_now env)"
    obtain t2 ids inh row where stage: "modify_stage env stamp k active (modified_bits active ad rm) (as_entries st) = Inr (t2, ids, out, inh)"
      and fl: "flush_row env (record_success env ''modifyPermissionBits'' k (modified_bits active ad rm)
           (case out of None \<Rightarrow> [] | Some r \<Rightarrow> [ae_id r]) ids (Some (int (length active))) inh) = Inr row"
      and cm: "commit_error env = Inr ()" and st': "st' = stored st t2 [row]"
      using assms(1) v Inr
      by (auto simp: modify_permission_bits_def Let_def now active_def [symmetric] split: sum.splits)
    note bound = conjunct1 [OF flush_bound [OF fl]]
    have act: "visible_matching_rows (as_entries st) (ev_user env) stamp (key_matches k) = active"
      by (simp add: active_def active_rows_mock [OF bound Inr] key_match_fun)
    have pairs: "map fst (map (\<lambda>r. (ae_id r, ae_created_at_ms r)) xs) = map ae_id xs" for xs by simp
    note cr = flush_commit [OF fl cm]
    note opened = mock_modify_permission_bits_def v Inr sum.case Let_def act expire_matching_def prod.case
      expirable_own [OF Inr] pairs now
    show ?thesis
    proof (cases "active = []")
      case True
      with stage have s: "t2 = as_entries st" "ids = []" "out = None" "inh = None" by (auto simp: modify_stage_def)
      show ?thesis unfolding opened using cr by (simp add: True s st' stored_def)
    next
      case False
      from stage obtain t1 prs where e: "expire_where env (as_entries st) (key_clause k) (ev_now env) = Inr (t1, prs)"
        by (auto simp: modify_stage_def False now split: sum.splits)
      note own = expire_where_own [OF e bound, unfolded key_match_fun]
      let ?own = "filter (own_hit env (key_matches k)) (as_entries st)"
      show ?thesis
      proof (cases "?own = []")
        case True
        with stage own e False have s: "t2 = t1" "ids = []" "out = None" "inh = None" by (auto simp: modify_stage_def now)
        show ?thesis unfolding opened using cr own by (simp add: False True s st' stored_def)
      next
        case some: False
        let ?new = "new_entry (ev_uuid env 0) stamp k (modified_bits active ad rm)
              (ae_role_id (latest (hd active) (tl active))) (inherited_expiry active) None"
        from stage own e False some have s: "t2 = t1 @ [?new]" "ids = map ae_id ?own" "out = Some ?new" "inh = inherited_expiry active"
          by (auto simp: modify_stage_def now Let_def res_bind_Inr_iff trace dest: insert_entry_Inr)
        show ?thesis unfolding opened using cr own by (simp add: False some s st' stored_def o_def)
      qed
    qed
  qed
qed

text \<open>
  In a bulk the mock keeps the new rows apart until the end; the two tables agree as long as no later
  operation names the key of an earlier one.
\<close>

lemma new_entry_key: "key_matches k (new_entry i stamp k' b role ex tr) \<longleftrightarrow> k = k'"
  by (cases k; cases k') (auto simp: key_matches_def new_entry_def)

lemma twin_bulk_loop:
  assumes "bulk_loop env stamp i n gs (es @ staged) (map ae_id staged) expired rows st = (Inr out, st')"
    and "build_write_stamp env = Inr stamp" and "ev_trace env = None"
    and "\<forall>g \<in> set gs. \<forall>r \<in> set staged. \<not> key_matches (key_of_op g) r" and "distinct (map key_of_op gs)"
    and "\<forall>g \<in> set gs. \<forall>r \<in> set es. grant_hit env (key_of_op g) r \<longrightarrow> ae_user_sub r = uc_user_id (ev_user env)"
  shows "mock_bulk_loop env stamp i n gs es log staged rows expired st = (Inr out, st')"
  using assms(1,4-6)
proof (induction gs arbitrary: i es log staged rows expired)
  case Nil
  then show ?case by (auto simp: commit_error_def stored_def split: option.splits sum.splits)
next
  case (Cons g gs)
  let ?k = "key_of_op g" and ?now = "ev_now env"
  let ?new = "new_entry (ev_uuid env i) stamp ?k (go_perm_bits g) (go_role_id g) (go_expired_at_ms g) None"
  note now = stamp_Inr(1) [OF assms(2)]
  have trace: "ws_trace_id stamp = None" using assms(2,3) by (auto simp: build_write_stamp_def res_bind_Inr_iff)
  obtain t2 new_id ids row where bop: "bulk_op env stamp i g (es @ staged) = Inr (t2, new_id, ids, row)"
    and rest: "bulk_loop env stamp (Suc i) n gs t2 (map ae_id staged @ [new_id]) (expired @ ids) (rows @ [row]) st = (Inr out, st')"
    using Cons.prems(1) by (auto split: sum.splits)
  from bop obtain t1 pairs where past: "\<not> past_expiry (go_expired_at_ms g) ?now"
    and e: "expire_where env (es @ staged) (key_clause ?k) ?now = Inr (t1, pairs)"
    and rec: "record_success env ''bulkWriteAclEntries'' ?k (go_perm_bits g) [ae_id ?new] (map fst pairs) None (go_expired_at_ms g) = Inr row"
    and ins: "insert_entry env t1 ?new = Inr t2" and fl: "flush_row env (Inr row) = Inr row"
    and ids: "ids = map fst pairs" and nid: "new_id = ae_id ?new"
    by (auto simp: bulk_op_def now Let_def trace res_bind_Inr_iff split: if_splits sum.splits) (auto dest: flush_row_staged)
  have flush: "flush_row env (record_success env ''bulkWriteAclEntries'' ?k (go_perm_bits g) [ae_id ?new] (map fst pairs) None (go_expired_at_ms g)) = Inr row"
    using rec fl by simp
  note bound = conjunct1 [OF flush_bound [OF flush]]
  note own = expire_where_own [OF e bound, unfolded key_match_fun]
  have staged: "r \<in> set staged \<Longrightarrow> \<not> own_hit env (key_matches ?k) r" for r
    using Cons.prems(2) by (auto simp: own_hit_def)
  have foreign: "\<forall>r \<in> set es. grant_hit env ?k r \<longrightarrow> ae_user_sub r = uc_user_id (ev_user env)"
    using Cons.prems(4) by simp
  note hits = grant_hit_own [OF foreign]
  let ?es1 = "map_if (own_hit env (key_matches ?k)) (expire_row ?now) es"
  have t2: "t2 = ?es1 @ (staged @ [?new])"
    using insert_entry_Inr [OF ins] own [THEN conjunct1] map_if_none [of staged "own_hit env (key_matches ?k)"] staged
    by (simp add: map_if_def)
  have ids': "ids = map ae_id (filter (own_hit env (key_matches ?k)) es)"
    using own [THEN conjunct2, THEN conjunct2] staged by (simp add: ids filter_empty_conv)
  have permitted: "\<not> go_principal_type g \<notin> set ALLOWED_PRINCIPAL_TYPES"
    using allowed_type [OF ins] by (simp add: key_of_op_def)
  have hit: "(\<lambda>r. mock_not_expired r ?now \<and> key_matches ?k r) = grant_hit env ?k"
    by (auto simp: fun_eq_iff grant_hit_def)
  have ih: "mock_bulk_loop env stamp (Suc i) n gs ?es1 lg (staged @ [?new]) (rows @ [row]) (expired @ ids) st = (Inr out, st')" for lg
  proof (rule Cons.IH)
    show "bulk_loop env stamp (Suc i) n gs (?es1 @ (staged @ [?new])) (map ae_id (staged @ [?new])) (expired @ ids) (rows @ [row]) st = (Inr out, st')"
      using rest unfolding t2 nid by simp
    show "\<forall>g \<in> set gs. \<forall>r \<in> set (staged @ [?new]). \<not> key_matches (key_of_op g) r"
      using Cons.prems(2,3) by (auto simp: new_entry_key image_iff)
    show "\<forall>g \<in> set gs. \<forall>r \<in> set ?es1. grant_hit env (key_of_op g) r \<longrightarrow> ae_user_sub r = uc_user_id (ev_user env)"
      using Cons.prems(4) by (auto simp: set_map_if grant_hit_def)
  qed (use Cons.prems(3) in simp)
  have fr: "flush_row env (record_success env ''bulkWriteAclEntries'' ?k (go_perm_bits g) [ae_id ?new]
      (map ae_id (filter (grant_hit env ?k) es)) None (go_expired_at_ms g)) = Inr row"
    using flush ids ids' hits by simp
  show ?case
    unfolding mock_bulk_loop.simps Let_def now hit if_not_P [OF past] if_not_P [OF permitted] fr sum.case
    using ih by (simp add: hits ids')
qed

lemma delete_zip_Nil: "zip ps vs = [] \<Longrightarrow> length vs = length ps \<Longrightarrow> ps = []"
  by (cases ps) auto

lemma twin_delete_loop:
  assumes "delete_loop env stamp i n va (zip ps (map (\<lambda>p. length (visible_matching_ids before (ev_user env) stamp (pred_matches p))) ps))
      t ex rows st = (Inr out, st')"
    and "build_write_stamp env = Inr stamp"
  shows "mock_delete_loop env stamp i n va before ps t log rows ex st = (Inr out, st')"
  using assms(1)
proof (induction ps arbitrary: i t log rows ex)
  case Nil
  then show ?case by (auto simp: commit_error_def stored_def split: option.splits sum.splits)
next
  case (Cons p ps)
  note now = stamp_Inr(1) [OF assms(2)]
  let ?v = "length (visible_matching_ids before (ev_user env) stamp (pred_matches p))"
  obtain t1 pairs row where e: "expire_where env t (predicate_clause p) (ev_now env) = Inr (t1, pairs)"
    and fl: "flush_row env (record_success env ''deleteAclEntries'' (pred_fields p) 0 [] (map fst (sort_pairs pairs))
      (Some (int ?v)) None) = Inr row"
    and rest: "delete_loop env stamp (Suc i) n va (zip ps (map (\<lambda>p. length (visible_matching_ids before (ev_user env) stamp (pred_matches p))) ps))
      t1 (new_ids ex (map fst (sort_pairs pairs))) (rows @ [row]) st = (Inr out, st')"
    using Cons.prems by (auto simp: now Let_def split: sum.splits)
  note bound = conjunct1 [OF flush_bound [OF fl]]
  note own = expire_where_own [OF e bound, unfolded pred_match_fun]
  note pairs = own [THEN conjunct2, THEN conjunct1]
  show ?case
    unfolding mock_delete_loop.simps Let_def expire_matching_def prod.case expirable_own [OF assms(2)] now
      pairs [symmetric] fl sum.case own [THEN conjunct1, symmetric]
    by (rule Cons.IH [OF rest])
qed

text \<open>Where the mock follows: no one else's active row stands in the way of a grant, and a bulk names
  each key once.\<close>

fun twin_safe :: "acl_env \<Rightarrow> acl_write \<Rightarrow> acl_table \<Rightarrow> bool" where
  "twin_safe env (WGrant k b role ex) t \<longleftrightarrow> (\<forall>r \<in> set t. grant_hit env k r \<longrightarrow> ae_user_sub r = uc_user_id (ev_user env))"
| "twin_safe env (WBulk gs) t \<longleftrightarrow> distinct (map key_of_op gs) \<and>
     (\<forall>g \<in> set gs. \<forall>r \<in> set t. grant_hit env (key_of_op g) r \<longrightarrow> ae_user_sub r = uc_user_id (ev_user env))"
| "twin_safe env _ t \<longleftrightarrow> True"

lemma delete_bound:
  assumes "delete_loop env stamp i n va (pv # ps) t ex rows st = (Inr out, st')"
  shows "ev_bound env = Some (uc_user_id (ev_user env))"
  using assms by (cases pv) (auto simp: Let_def split: sum.splits dest!: flush_bound)

lemma twin_delete:
  assumes "delete_acl_entries env ps st = (Inr out, st')"
  shows "mock_delete_acl_entries env ps st = (Inr out, st')"
proof -
  from assms obtain stamp where ne: "ps \<noteq> []" and va: "validate_predicates ps = Inr ()" and stamp: "build_write_stamp env = Inr stamp"
    and loop: "delete_loop env stamp 0 (length ps) (length (visible_ids env (as_entries st) (any_clause (map predicate_clause ps)) (ev_now env)))
      (zip ps (map (\<lambda>p. length (visible_ids env (as_entries st) (predicate_clause p) (ev_now env))) ps)) (as_entries st) [] [] st = (Inr out, st')"
    by (auto simp: delete_acl_entries_def Let_def stamp_Inr split: sum.splits if_splits)
  obtain p qs where pqs: "ps = p # qs" using ne by (cases ps) auto
  note bound = delete_bound [OF loop [unfolded pqs list.map zip_Cons_Cons]]
  have any: "(\<lambda>r. sql_holds (any_clause (map predicate_clause ps) r)) = (\<lambda>r. \<exists>p \<in> set ps. pred_matches p r)"
    by (simp add: fun_eq_iff acl_sql)
  note loop' = loop [unfolded visible_ids_mock [OF bound stamp] any pred_match_fun]
  show ?thesis
    using twin_delete_loop [OF loop' stamp] ne va stamp by (simp add: mock_delete_acl_entries_def Let_def)
qed


section \<open>Where the two differ\<close>

text \<open>
  What a Postgres grant leaves active. After it the active rows of the key are those of other
  owners that were active before, every one of them with an expiry where the new row has none, and
  the new row: the policy hides the rows of others from the expiring statement, so a grant
  supersedes the caller's own grants only, and the reads still take the union with the others.
\<close>

lemma pg_grant_supersedes_own:
  assumes "grant_permission env k b role ex st = (Inr new, st')"
  shows "filter (\<lambda>r. key_matches k r \<and> mock_not_expired r (ev_now env)) (as_entries st') =
      filter (\<lambda>r. key_matches k r \<and> mock_not_expired r (ev_now env) \<and> ae_user_sub r \<noteq> uc_user_id (ev_user env)) (as_entries st) @ [new] \<and>
    ae_perm_bits new = b \<and> ae_expired_at_ms new = ex \<and>
    (ex = None \<longrightarrow> (\<forall>r \<in> set (as_entries st). key_matches k r \<and> ae_user_sub r \<noteq> uc_user_id (ev_user env) \<longrightarrow>
       ae_expired_at_ms r \<noteq> None))"
proof (rule pg_grant_ok [OF assms])
  fix stamp row
  assume stamp: "build_write_stamp env = Inr stamp" and past: "\<not> past_expiry ex (ev_now env)"
    and new: "new = new_entry (ev_uuid env 0) stamp k b role ex (ws_trace_id stamp)"
    and ins: "insert_entry env (map_if (own_hit env (key_matches k)) (expire_row (ev_now env)) (as_entries st)) new = Inr (as_entries st')"
  let ?t1 = "map_if (own_hit env (key_matches k)) (expire_row (ev_now env)) (as_entries st)"
  have es: "as_entries st' = ?t1 @ [new]" and uq: "uq_active_grant (as_entries st')" using insert_entry_Inr [OF ins] by blast+
  have knew: "key_matches k new" "mock_not_expired new (ev_now env)"
    using past by (auto simp: new new_entry_def key_matches_def mock_not_expired_def past_expiry_def split: option.splits)
  have "filter (\<lambda>r. key_matches k r \<and> mock_not_expired r (ev_now env)) (map_if (own_hit env (key_matches k)) (expire_row (ev_now env)) t) =
      filter (\<lambda>r. key_matches k r \<and> mock_not_expired r (ev_now env) \<and> ae_user_sub r \<noteq> uc_user_id (ev_user env)) t" for t
    by (induction t) (auto simp: own_hit_def)
  moreover have "ae_expired_at_ms r \<noteq> None"
    if "ex = None" "r \<in> set (as_entries st)" "key_matches k r" "ae_user_sub r \<noteq> uc_user_id (ev_user env)" for r
  proof
    assume none: "ae_expired_at_ms r = None"
    have "r \<in> set ?t1" using that by (auto simp: set_map_if own_hit_def)
    moreover have "grant_key new = grant_key r" "ae_expired_at_ms new = None"
      using that knew by (simp_all add: grant_key_def key_matches_def new new_entry_def)
    ultimately show False using uq none by (auto simp: uq_active_grant_def es)
  qed
  ultimately show ?thesis using knew by (auto simp: es) (simp_all add: new new_entry_def)
qed

text \<open>
  The public grant of a resource is for one time. Once a resource has had a public row, expired
  or not, every later public grant on it is refused and changes nothing: revoking a public grant
  and granting it again, or changing its bits, is impossible.
\<close>

lemma pg_public_grant_once:
  assumes "r \<in> set (as_entries st)" and "ae_principal_type r = PRINCIPAL_TYPE_PUBLIC"
    and "ae_resource_type r = ak_resource_type k" and "ae_resource_id r = ak_resource_id k"
    and "ak_principal_type k = PRINCIPAL_TYPE_PUBLIC"
  shows "isl (fst (grant_permission env k b role ex st)) \<and>
    as_entries (snd (grant_permission env k b role ex st)) = as_entries st \<and>
    (\<forall>new. fst (modify_permission_bits env k ad rm st) \<noteq> Inr (Some new))"
proof -
  have stuck: "insert_entry env (map_if p (expire_row now) (as_entries st)) (new_entry i stamp k bits rl e tr) \<noteq> Inr t" for p now i stamp bits rl e tr t
  proof
    assume a: "insert_entry env (map_if p (expire_row now) (as_entries st)) (new_entry i stamp k bits rl e tr) = Inr t"
    have "t = map_if p (expire_row now) (as_entries st) @ [new_entry i stamp k bits rl e tr]" and "uq_public_resource t"
      using insert_entry_Inr [OF a] by blast+
    then have "distinct (map (\<lambda>r. (ae_resource_type r, ae_resource_id r)) (filter (\<lambda>r. ae_principal_type r = ''public'')
        (map_if p (expire_row now) (as_entries st) @ [new_entry i stamp k bits rl e tr])))"
      unfolding uq_public_resource_def by blast
    moreover have "\<exists>r' \<in> set (map_if p (expire_row now) (as_entries st)). ae_principal_type r' = ''public'' \<and>
        ae_resource_type r' = ak_resource_type k \<and> ae_resource_id r' = ak_resource_id k"
    proof (rule bexI [of _ "if p r then expire_row now r else r"])
      show "(if p r then expire_row now r else r) \<in> set (map_if p (expire_row now) (as_entries st))"
        using assms(1) by (simp add: set_map_if)
    qed (use assms(2-4) in \<open>simp add: acl_constants expire_row_def\<close>)
    moreover have "ae_principal_type (new_entry i stamp k bits rl e tr) = ''public''"
      "ae_resource_type (new_entry i stamp k bits rl e tr) = ak_resource_type k"
      "ae_resource_id (new_entry i stamp k bits rl e tr) = ak_resource_id k"
      using assms(5) by (simp_all add: new_entry_def acl_constants)
    ultimately show False by force
  qed
  have g: "fst (grant_permission env k b role ex st) \<noteq> Inr new" for new
  proof
    assume "fst (grant_permission env k b role ex st) = Inr new"
    then have "grant_permission env k b role ex st = (Inr new, snd (grant_permission env k b role ex st))" by (simp add: prod_eq_iff)
    then show False by (rule pg_grant_ok) (use stuck in blast)
  qed
  then have l: "isl (fst (grant_permission env k b role ex st))" by (cases "fst (grant_permission env k b role ex st)") auto
  then have "pg_write env (WGrant k b role ex) st =
      (Inl (projl (fst (grant_permission env k b role ex st))), snd (grant_permission env k b role ex st))"
    by (cases "grant_permission env k b role ex st") (auto simp: outcome_def isl_def)
  from pg_write_denied [OF this] have same: "as_entries (snd (grant_permission env k b role ex st)) = as_entries st"
    by (simp add: denied_def)
  have "fst (modify_permission_bits env k ad rm st) \<noteq> Inr (Some new)" for new
  proof
    assume "fst (modify_permission_bits env k ad rm st) = Inr (Some new)"
    then obtain stamp active nb t2 ids inh where "modify_stage env stamp k active nb (as_entries st) = Inr (t2, ids, Some new, inh)"
      by (auto simp: modify_permission_bits_def Let_def split: sum.splits)
        (metis never_returns prod.collapse)+
    then show False using stuck
      by (auto simp: modify_stage_def Let_def res_bind_Inr_iff split: if_splits sum.splits) (use expire_where_ok in blast)
  qed
  with l same show ?thesis by blast
qed

end
