(* ===== verification/AclPgLaws.thy ===== *)
theory AclPgLaws
  imports AclTwin
begin

text \<open>
  The audit trail of the Postgres writes, the classes their denials carry, and the witnesses of the
  properties of the Postgres write path.
\<close>

section \<open>The audit trail\<close>

lemma pg_bulk_loop_audited:
  assumes "bulk_loop env stamp i n gs t ids ex rows st = (Inr out, st')"
  shows "\<exists>rs. as_audit st' = as_audit st @ rows @ rs \<and>
    list_all2 (\<lambda>g r. audited env ''bulkWriteAclEntries'' (key_of_op g) r) gs rs"
  using assms
proof (induction gs arbitrary: i t ids ex rows)
  case Nil
  then show ?case by (auto simp: stored_def split: sum.splits)
next
  case (Cons g gs)
  then obtain t' new_id expired row where bop: "bulk_op env stamp i g t = Inr (t', new_id, expired, row)"
    and rest: "bulk_loop env stamp (Suc i) n gs t' (ids @ [new_id]) (ex @ expired) (rows @ [row]) st = (Inr out, st')"
    by (auto split: sum.splits)
  from bop have "audited env ''bulkWriteAclEntries'' (key_of_op g) row"
    by (auto simp: bulk_op_def Let_def res_bind_Inr_iff split: if_splits sum.splits
        dest!: flush_row_staged intro: record_success_audited)
  moreover obtain rs where "as_audit st' = as_audit st @ (rows @ [row]) @ rs"
    and "list_all2 (\<lambda>g r. audited env ''bulkWriteAclEntries'' (key_of_op g) r) gs rs"
    using Cons.IH [OF rest] by blast
  ultimately show ?case by (intro exI [of _ "row # rs"]) simp
qed

lemma pg_delete_loop_audited:
  assumes "delete_loop env stamp i n va ps t ex rows st = (Inr out, st')"
  shows "\<exists>rs. as_audit st' = as_audit st @ rows @ rs \<and>
    list_all2 (\<lambda>pv r. audited env ''deleteAclEntries'' (pred_fields (fst pv)) r) ps rs"
  using assms
proof (induction ps arbitrary: i t ex rows)
  case Nil
  then show ?case by (auto simp: stored_def split: sum.splits)
next
  case (Cons pv ps)
  obtain p v where pv: "pv = (p, v)" by (cases pv)
  from Cons.prems obtain t1 ids row ex' where
    fl: "flush_row env (record_success env ''deleteAclEntries'' (pred_fields p) 0 [] ids (Some (int v)) None) = Inr row"
    and rest: "delete_loop env stamp (Suc i) n va ps t1 ex' (rows @ [row]) st = (Inr out, st')"
    by (auto simp: pv Let_def split: sum.splits)
  obtain rs where "as_audit st' = as_audit st @ (rows @ [row]) @ rs"
    and "list_all2 (\<lambda>pv r. audited env ''deleteAclEntries'' (pred_fields (fst pv)) r) ps rs"
    using Cons.IH [OF rest] by blast
  with flush_bound [OF fl] show ?case by (intro exI [of _ "row # rs"]) (simp add: pv)
qed

lemma pg_write_audit_rows:
  assumes "pg_write env w st = (Inr (), st')"
  shows "\<exists>rs. as_audit st' = as_audit st @ rs \<and> list_all2 (\<lambda>(opname, k) r. audited env opname k r) (write_ops w) rs"
proof (cases w)
  case (WGrant k b role ex)
  with assms obtain new where g: "grant_permission env k b role ex st = (Inr new, st')" by (auto simp: outcome_Inr)
  show ?thesis by (rule pg_grant_ok [OF g]) (auto simp: WGrant dest: flush_bound)
next
  case (WRevoke k)
  with assms obtain ids v where g: "revoke_permission env k st = (Inr (ids, v), st')" by (auto simp: outcome_Inr)
  show ?thesis by (rule pg_revoke_ok [OF g]) (auto simp: WRevoke stored_def dest: flush_bound)
next
  case (WModify k ad rm)
  with assms obtain b ids ex v e row t2 where
    fl: "flush_row env (record_success env ''modifyPermissionBits'' k b ids ex v e) = Inr row"
    and st': "st' = stored st t2 [row]"
    by (auto simp: outcome_Inr modify_permission_bits_def Let_def split: sum.splits)
  from flush_bound [OF fl] show ?thesis by (simp add: WModify st' stored_def)
next
  case (WBulk gs)
  with assms show ?thesis
    by (auto simp: outcome_Inr bulk_write_acl_entries_def list.rel_map split: sum.splits dest!: pg_bulk_loop_audited)
next
  case (WDelete ps)
  with assms obtain stamp va vs out where loop: "delete_loop env stamp 0 (length ps) va (zip ps vs) (as_entries st) [] [] st = (Inr out, st')"
    and len: "length vs = length ps"
    by (auto simp: outcome_Inr delete_acl_entries_def Let_def split: sum.splits if_splits)
  from pg_delete_loop_audited [OF loop] obtain rs where rs: "as_audit st' = as_audit st @ rs"
    and la: "list_all2 (\<lambda>pv r. audited env ''deleteAclEntries'' (pred_fields (fst pv)) r) (zip ps vs) rs" by auto
  from la have "list_all2 (\<lambda>p r. audited env ''deleteAclEntries'' (pred_fields p) r) (map fst (zip ps vs)) rs"
    unfolding list.rel_map .
  with rs len show ?thesis by (auto simp: WDelete list.rel_map)
qed

text \<open>
  C9: every Postgres write that returns is on the audit trail, in the same transaction: one row per
  key it was asked about, in order, each in the name of the caller, a success, and passing the check
  of its own hash.
\<close>

theorem pg_write_audited:
  assumes "pg_write env w st = (Inr (), st')" and "\<forall>s. ev_sha env s \<noteq> []"
  shows "\<exists>rs. as_audit st' = as_audit st @ rs \<and>
    list_all2 (\<lambda>(opname, k) r. (\<exists>b. ar_question r = question opname k b) \<and> ar_status r = ''success'' \<and>
        ar_user_id r = uc_user_id (ev_user env) \<and>
        verify_content_hash (ev_sha env) (audit_fields r) (Some (ar_content_hash r))) (write_ops w) rs"
proof -
  have verified: "verify_content_hash (ev_sha env) (audit_fields r) (Some (ar_content_hash r))"
    if "audited env opname k r" for opname k r
    using that verify_own_hash [of "ev_sha env" "audit_fields r"] assms(2) by (simp add: audited_def content_hash_def)
  obtain rs where rs: "as_audit st' = as_audit st @ rs"
    and "list_all2 (\<lambda>(opname, k) r. audited env opname k r) (write_ops w) rs"
    using pg_write_audit_rows [OF assms(1)] by blast
  then have "list_all2 (\<lambda>(opname, k) r. (\<exists>b. ar_question r = question opname k b) \<and> ar_status r = ''success'' \<and>
        ar_user_id r = uc_user_id (ev_user env) \<and>
        verify_content_hash (ev_sha env) (audit_fields r) (Some (ar_content_hash r))) (write_ops w) rs"
    by (elim list_all2_mono) (auto simp: verified, auto simp: audited_def)
  with rs show ?thesis by blast
qed

section \<open>Deviations\<close>

text \<open>An audit row the database refuses: a grant, which does not flush it in the audit stage, reports a
  denied policy; a revocation, which does, passes the error on.\<close>

lemma grant_audit_failure_is_policy:
  "fst (grant_permission (demo_env ''ann'' (Some (DbError ''DBAPIError'' (Some ''53100'') ''disk full''))) demo_key 3 None None demo_state)
     = Inl (AclWriteRefused ''acl_denied_policy'' ''53100'') \<and>
   fst (revoke_permission (demo_env ''ann'' (Some (DbError ''DBAPIError'' (Some ''53100'') ''disk full''))) demo_key demo_state)
     = Inl (DatabaseError (DbError ''DBAPIError'' (Some ''53100'') ''disk full''))"
proof
  show "fst (grant_permission (demo_env ''ann'' (Some (DbError ''DBAPIError'' (Some ''53100'') ''disk full''))) demo_key 3 None None demo_state)
     = Inl (AclWriteRefused ''acl_denied_policy'' ''53100'')" by code_simp
  show "fst (revoke_permission (demo_env ''ann'' (Some (DbError ''DBAPIError'' (Some ''53100'') ''disk full''))) demo_key demo_state)
     = Inl (DatabaseError (DbError ''DBAPIError'' (Some ''53100'') ''disk full''))" by code_simp
qed

text \<open>The class of a denial follows the whole text of the error, its parameters included.\<close>

lemma py_contains_appended: "py_contains t p \<Longrightarrow> py_contains (s @ t) p"
  by (metis append.assoc py_contains_iff)

lemma classify_by_parameters:
  assumes "py_contains (ev_statement env r) ''ck_console_acl_entries_principal_type''"
  shows "fst (classify (DatabaseError (policy_error env r))) = FAILURE_CLASS_ACL_DENIED_PRINCIPAL_TYPE"
proof -
  let ?text = "error_text (DatabaseError (policy_error env r))"
  have "py_contains ?text ''ck_console_acl_entries_principal_type''"
    unfolding policy_error_def pg_error_def error_text.simps db_error.sel by (rule py_contains_appended [OF assms])
  then show ?thesis
    unfolding classify_def PRINCIPAL_TYPE_CONSTRAINTS_def List.find.simps if_P option.case fst_conv by (simp only: if_P option.case fst_conv)
qed

text \<open>A bulk of the mock whose last commit fails has expired the rows all the same.\<close>

lemma mock_bulk_commit_not_undone:
  "isl (fst (mock_bulk_write_acl_entries ((demo_env ''ann'' None)\<lparr>ev_commit_error := Some (DbError ''OperationalError'' None [])\<rparr>)
     [\<lparr>go_principal_type = ''user'', go_principal_id = Some ''bob'', go_resource_type = ''agent'', go_resource_id = ''r1'',
       go_perm_bits = 1, go_role_id = None, go_expired_at_ms = None, go_tenant_id = None\<rparr>] demo_state)) \<and>
   ae_expired_at_ms (hd (as_entries (snd (mock_bulk_write_acl_entries ((demo_env ''ann'' None)\<lparr>ev_commit_error := Some (DbError ''OperationalError'' None [])\<rparr>)
     [\<lparr>go_principal_type = ''user'', go_principal_id = Some ''bob'', go_resource_type = ''agent'', go_resource_id = ''r1'',
       go_perm_bits = 1, go_role_id = None, go_expired_at_ms = None, go_tenant_id = None\<rparr>] demo_state)))) = Some 4"
  by code_simp

section \<open>Witnesses\<close>

lemma demo_pg_grant_ok:
  "\<not> isl (fst (grant_permission (demo_env ''ann'' None) demo_key 3 None (Some 20) demo_state))"
  by code_simp

lemma demo_pg_write_ok: "pg_write (demo_env ''ann'' None) (WGrant demo_key 3 None (Some 20)) demo_state =
    (Inr (), snd (grant_permission (demo_env ''ann'' None) demo_key 3 None (Some 20) demo_state))"
  using out_Inr [OF demo_pg_grant_ok] by (simp add: outcome_Inr) blast

theorem pg_write_audited_witness:
  "\<exists>r. as_audit (snd (grant_permission (demo_env ''ann'' None) demo_key 3 None (Some 20) demo_state)) = [r] \<and>
    ar_user_id r = ''ann'' \<and> verify_content_hash (\<lambda>s. ''h'') (audit_fields r) (Some (ar_content_hash r))"
proof -
  have "\<forall>s. ev_sha (demo_env ''ann'' None) s \<noteq> []" by (simp add: demo_env_def)
  from pg_write_audited [OF demo_pg_write_ok this]
  show ?thesis by (auto simp: demo_env_def demo_user_def demo_state_def list_all2_Cons1)
qed

text \<open>Bob owns no agent: his grant is refused, and the rows stay.\<close>

theorem pg_write_atomic_witness:
  "isl (fst (pg_write (demo_env ''bob'' None) (WGrant demo_key 3 None None) demo_state)) \<and>
   as_entries (snd (pg_write (demo_env ''bob'' None) (WGrant demo_key 3 None None) demo_state)) = demo_acl"
proof -
  let ?r = "pg_write (demo_env ''bob'' None) (WGrant demo_key 3 None None) demo_state"
  have l: "isl (fst ?r)" by code_simp
  then have "?r = (Inl (projl (fst ?r)), snd ?r)" by (cases ?r; cases "fst ?r") auto
  from pg_write_atomic [OF this] l show ?thesis by (simp add: demo_state_def)
qed


theorem pg_write_confined_witness:
  "\<exists>old new. as_entries (snd (grant_permission (demo_env ''ann'' None) demo_key 3 None (Some 20) demo_state)) = old @ new \<and>
    list_all2 (\<lambda>r r'. r' = r \<or> writable (demo_env ''ann'' None) r \<and> mock_not_expired r 4 \<and> r' = expire_row 4 r) demo_acl old \<and>
    (\<forall>r \<in> set new. writable (demo_env ''ann'' None) r \<and> added_row (demo_env ''ann'' None) r)"
  using pg_write_confined [OF demo_pg_write_ok] by (simp add: demo_env_def demo_state_def)


text \<open>A time-limited grant of Cem's on the same key stays beside Ann's new one.\<close>

definition demo_shared_state :: acl_state where
  "demo_shared_state = \<lparr>as_entries = [demo_entry ''e1'' ''cem'' ''bob'' 8 (Some 9)], as_audit = []\<rparr>"

lemma pg_grant_supersedes_own_witness:
  "\<exists>new. filter (\<lambda>r. key_matches demo_key r \<and> mock_not_expired r 4)
      (as_entries (snd (grant_permission (demo_env ''ann'' None) demo_key 3 None None demo_shared_state))) =
      [demo_entry ''e1'' ''cem'' ''bob'' 8 (Some 9), new] \<and> ae_perm_bits new = 3"
proof -
  let ?r = "grant_permission (demo_env ''ann'' None) demo_key 3 None None demo_shared_state"
  have "\<not> isl (fst ?r)" by code_simp
  note g = pg_grant_supersedes_own [OF out_Inr [OF this]]
  have "filter (\<lambda>r. key_matches demo_key r \<and> mock_not_expired r (ev_now (demo_env ''ann'' None)) \<and>
      ae_user_sub r \<noteq> uc_user_id (ev_user (demo_env ''ann'' None))) (as_entries demo_shared_state) =
      [demo_entry ''e1'' ''cem'' ''bob'' 8 (Some 9)]" by code_simp
  with g show ?thesis by (simp add: demo_env_def)
qed

text \<open>Ann's agent was public once; it cannot be made public again.\<close>

definition demo_public_key :: acl_key where
  "demo_public_key = \<lparr>ak_principal_type = ''public'', ak_principal_id = None, ak_resource_type = ''agent'',
     ak_resource_id = ''r1'', ak_tenant_id = None\<rparr>"

definition demo_public_state :: acl_state where
  "demo_public_state = \<lparr>as_entries = [(demo_entry ''e1'' ''ann'' ''-'' 1 (Some 2))
     \<lparr>ae_principal_type := ''public'', ae_principal_id := None, ae_principal_model := None\<rparr>], as_audit = []\<rparr>"

lemma pg_public_grant_once_witness:
  "acl_valid (as_entries demo_public_state) \<and>
   \<not> isl (fst (grant_permission (demo_env ''ann'' None) demo_public_key 1 None None (demo_public_state\<lparr>as_entries := []\<rparr>))) \<and>
   isl (fst (grant_permission (demo_env ''ann'' None) demo_public_key 1 None None demo_public_state))"
proof -
  have v: "acl_valid (as_entries demo_public_state)" by code_simp
  have c: "\<not> isl (fst (grant_permission (demo_env ''ann'' None) demo_public_key 1 None None (demo_public_state\<lparr>as_entries := []\<rparr>)))"
    by code_simp
  have "hd (as_entries demo_public_state) \<in> set (as_entries demo_public_state)" by code_simp
  from pg_public_grant_once [OF this, of demo_public_key] v c show ?thesis
    by (simp add: demo_public_state_def demo_public_key_def demo_entry_def acl_constants)
qed

end
