(* ===== verification/AclOwnership.thy ===== *)
theory AclOwnership
  imports AclPgLaws
begin

text \<open>
  The ownership resolver (\<open>console_acl/_ownership.py\<close>) over the two stores it dispatches to, its
  agreement with the policy of migration 032, and what ownership gives: the owner of a live resource
  can grant on it. Both rest on the identifier the store's client supplies, which is unique per
  owner only.
\<close>

section \<open>The stores\<close>

text \<open>
  \<open>get_agent\<close> of \<open>console_agents.py\<close> and \<open>get_group\<close> of \<open>console_prompts.py\<close>: the caller's own live row
  of the identifier, read under the owner-only policy of the store's table. \<open>scalar_one_or_none\<close>
  raises on a second row.
\<close>

datatype ownership_error = UnknownResourceTypeError string | MultipleResultsFound

definition own_rows :: "acl_env \<Rightarrow> store_row list \<Rightarrow> string \<Rightarrow> store_row list" where
  "own_rows env rows rid =
     sql_select (\<lambda>s. sql_and (sql_and (sql_of (sr_user_sub s = uc_user_id (ev_user env))) (sql_of (sr_id s = rid)))
                   (sql_is_null (sr_deleted_at_ms s)))
       (sql_select (\<lambda>s. sql_eq (Some (sr_user_sub s)) (ev_bound env)) rows)"

definition scalar_one_or_none :: "'a list \<Rightarrow> (ownership_error, 'a option) res" where
  "scalar_one_or_none rows =
     (case rows of [] \<Rightarrow> Inr None | [r] \<Rightarrow> Inr (Some r) | _ \<Rightarrow> Inl MultipleResultsFound)"

definition owns_agent :: "acl_env \<Rightarrow> string \<Rightarrow> (ownership_error, bool) res" where
  "owns_agent env rid =
     res_bind (scalar_one_or_none (own_rows env (rs_agents (ev_stores env)) rid)) (\<lambda>row. Inr (row \<noteq> None))"

definition owns_prompt_group :: "acl_env \<Rightarrow> string \<Rightarrow> (ownership_error, bool) res" where
  "owns_prompt_group env rid =
     res_bind (scalar_one_or_none (own_rows env (rs_prompt_groups (ev_stores env)) rid)) (\<lambda>row. Inr (row \<noteq> None))"

section \<open>The resolver\<close>

definition OWNERSHIP_RESOLVERS :: "(string \<times> (acl_env \<Rightarrow> string \<Rightarrow> (ownership_error, bool) res)) list" where
  "OWNERSHIP_RESOLVERS = [(''agent'', owns_agent), (''promptGroup'', owns_prompt_group)]"

definition RESOLVED_RESOURCE_TYPES :: "string list" where
  "RESOLVED_RESOURCE_TYPES = map fst OWNERSHIP_RESOLVERS"

definition UNRESOLVED_RESOURCE_TYPES :: "string list" where
  "UNRESOLVED_RESOURCE_TYPES = filter (\<lambda>t. t \<notin> set RESOLVED_RESOURCE_TYPES) RESOURCE_TYPES"

definition owns :: "acl_env \<Rightarrow> string \<Rightarrow> string \<Rightarrow> (ownership_error, bool) res" where
  "owns env resource_type resource_id =
     (case map_of OWNERSHIP_RESOLVERS resource_type of
        None \<Rightarrow> Inl (UnknownResourceTypeError resource_type)
      | Some resolver \<Rightarrow> resolver env resource_id)"

section \<open>Agreement with the policy\<close>

text \<open>The unique constraint of both stores: one row per owner and identifier.\<close>

definition uq_store :: "store_row list \<Rightarrow> bool" where
  "uq_store rows \<longleftrightarrow> distinct (map (\<lambda>s. (sr_user_sub s, sr_id s)) rows)"

lemma own_rows_filter:
  assumes "ev_bound env = Some (uc_user_id (ev_user env))"
  shows "own_rows env rows rid = filter (\<lambda>s. sr_user_sub s = uc_user_id (ev_user env) \<and> sr_id s = rid \<and> sr_deleted_at_ms s = None) rows"
  unfolding own_rows_def sql_select_def filter_filter assms
  by (rule filter_cong [OF refl]) (auto simp: sql_simps)

lemma at_most_one:
  assumes "distinct (map f xs)" and "\<And>x y. p x \<Longrightarrow> p y \<Longrightarrow> f x = f y"
  shows "length (filter p xs) \<le> 1"
  using assms(1)
proof (induction xs)
  case (Cons x xs)
  have "filter p xs = []" if "p x"
  proof -
    have "\<not> p y" if "y \<in> set xs" for y
    proof
      assume "p y"
      with \<open>p x\<close> have "f x = f y" by (rule assms(2))
      with Cons.prems that show False by simp
    qed
    then show ?thesis by (simp add: filter_empty_conv)
  qed
  with Cons show ?case by simp
qed simp

lemma scalar_small: "length rows \<le> 1 \<Longrightarrow> scalar_one_or_none rows = Inr (case rows of [] \<Rightarrow> None | r # rs \<Rightarrow> Some r)"
  by (auto simp: scalar_one_or_none_def split: list.splits)

lemma own_scalar:
  assumes "ev_bound env = Some (uc_user_id (ev_user env))" and "uq_store rows"
  shows "res_bind (scalar_one_or_none (own_rows env rows rid)) (\<lambda>row. Inr (\<exists>y. row = Some y)) = Inr (live_own (ev_bound env) rid rows)"
proof -
  let ?own = "own_rows env rows rid"
  have "length ?own \<le> 1"
    unfolding own_rows_filter [OF assms(1)]
    by (rule at_most_one [where f = "\<lambda>s. (sr_user_sub s, sr_id s)"]) (use assms(2) in \<open>auto simp: uq_store_def\<close>)
  moreover have "?own \<noteq> [] \<longleftrightarrow> live_own (ev_bound env) rid rows"
    by (auto simp: own_rows_filter [OF assms(1)] live_own_def assms(1) filter_empty_conv sql_simps)
  ultimately show ?thesis by (auto simp: scalar_small split: list.splits)
qed

text \<open>
  The resolver and the policy of the database agree. For a bound caller the resolver answers yes
  exactly where the policy's ownership subquery lets a row of the resource in, and it refuses by
  name, never with a no, exactly the resource types for which the policy lets no row in at all.
\<close>

lemma owns_agrees_with_policy:
  assumes "ev_bound env = Some (uc_user_id (ev_user env))"
    and "uq_store (rs_agents (ev_stores env))" and "uq_store (rs_prompt_groups (ev_stores env))"
  shows "(if rt \<in> set RESOLVED_RESOURCE_TYPES
      then \<exists>b. owns env rt rid = Inr b \<and>
        (\<forall>r. ae_resource_type r = rt \<and> ae_resource_id r = rid \<longrightarrow>
          (b \<longleftrightarrow> sql_holds (ownership_subquery (ev_stores env) (ev_bound env) r)))
      else owns env rt rid = Inl (UnknownResourceTypeError rt) \<and>
        (\<forall>r. ae_resource_type r = rt \<longrightarrow> \<not> sql_holds (ownership_subquery (ev_stores env) (ev_bound env) r)))"
proof -
  have "owns env ''agent'' rid = Inr (live_own (ev_bound env) rid (rs_agents (ev_stores env)))"
    by (simp add: owns_def OWNERSHIP_RESOLVERS_def owns_agent_def own_scalar [OF assms(1,2)])
  moreover have "owns env ''promptGroup'' rid = Inr (live_own (ev_bound env) rid (rs_prompt_groups (ev_stores env)))"
    by (simp add: owns_def OWNERSHIP_RESOLVERS_def owns_prompt_group_def own_scalar [OF assms(1,3)])
  moreover have "sql_holds (ownership_subquery (ev_stores env) (ev_bound env) r) \<longleftrightarrow>
      ae_resource_type r = ''agent'' \<and> live_own (ev_bound env) (ae_resource_id r) (rs_agents (ev_stores env)) \<or>
      ae_resource_type r = ''promptGroup'' \<and> live_own (ev_bound env) (ae_resource_id r) (rs_prompt_groups (ev_stores env))" for r
    by (simp add: ownership_subquery_def sql_simps)
  ultimately show ?thesis
    by (auto simp: RESOLVED_RESOURCE_TYPES_def OWNERSHIP_RESOLVERS_def owns_def)
qed

section \<open>What ownership gives\<close>

text \<open>No constraint, policy or index refuses the new row once the superseded rows are expired.\<close>

lemma grant_insert_enabled:
  fixes role :: "string option" and ex :: "int option" and tr :: "string option"
  assumes sub: "ws_user_sub stamp = uc_user_id (ev_user env)" and bound: "ev_bound env = Some (uc_user_id (ev_user env))"
    and live: "live_own (ev_bound env) rid (rs_agents (ev_stores env))"
    and k: "k = \<lparr>ak_principal_type = ''user'', ak_principal_id = Some grantee, ak_resource_type = ''agent'',
      ak_resource_id = rid, ak_tenant_id = None\<rparr>"
    and b: "0 \<le> b" "b \<le> 15" and fresh: "ev_uuid env 0 \<notin> ae_id ` set t" and valid: "acl_valid t"
    and own: "\<forall>r \<in> set t. key_matches k r \<and> ae_expired_at_ms r = None \<longrightarrow> ae_user_sub r = uc_user_id (ev_user env)"
    and no_error: "\<forall>r. ev_column_error env r = None"
  defines "t1 \<equiv> map_if (own_hit env (key_matches k)) (expire_row (ev_now env)) t"
    and "new \<equiv> new_entry (ev_uuid env 0) stamp k b role ex tr"
  shows "insert_entry env t1 new = Inr (t1 @ [new])"
proof -
  have "sql_holds (rls_write_check (ev_stores env) (ev_bound env) new)"
    unfolding write_check_writable
    using bound live by (simp add: writable_def new_def new_entry_def sub k ownership_subquery_def sql_simps)
  moreover have "find (\<lambda>(name, c). \<not> sql_check_ok c) (checks new) = None"
    using b by (simp add: find_None_set checks_def new_def new_entry_def k ck_perm_bits_range_def ck_principal_model_matches_type_def
        ck_principal_type_def ck_public_principal_null_def principal_model_def acl_constants sql_check_ok_def sql_of_def sql_eq_def sql_cmp_def sql_is_null_def)
  moreover have "ev_uuid env 0 \<notin> set (map ae_id t1)" using fresh by (simp add: t1_def map_map_if)
  moreover have "uq_public_resource (t1 @ [new])"
  proof -
    have "uq_public_resource t1" using valid by (simp add: t1_def acl_valid_def)
    moreover have "ae_principal_type new \<noteq> ''public''" by (simp add: new_def new_entry_def k)
    ultimately show ?thesis by (simp add: uq_public_resource_def)
  qed
  moreover have "uq_active_grant (t1 @ [new])"
  proof -
    have "r \<in> set t1 \<Longrightarrow> ae_expired_at_ms r = None \<Longrightarrow> grant_key r \<noteq> grant_key new" for r
      using own by (auto simp: t1_def set_map_if own_hit_def expire_row_def mock_not_expired_def key_matches_def grant_key_def new_def new_entry_def)
    moreover have "uq_active_grant t1" using valid by (simp add: t1_def acl_valid_def uq_active_expire)
    ultimately show ?thesis unfolding uq_active_grant_def by (auto simp del: set_map_if) metis
  qed
  ultimately show ?thesis
    using no_error by (simp add: insert_entry_def insert_error_def new_def new_entry_def [of "ev_uuid env 0"])
qed


section \<open>Witnesses\<close>

lemma owns_agrees_with_policy_witness:
  "owns (demo_env ''ann'' None) ''agent'' ''r1'' = Inr True \<and>
   owns (demo_env ''bob'' None) ''agent'' ''r1'' = Inr False \<and>
   owns (demo_env ''ann'' None) ''skill'' ''r1'' = Inl (UnknownResourceTypeError ''skill'')"
proof -
  have o: "owns (demo_env ''ann'' None) ''agent'' ''r1'' = Inr True"
    "owns (demo_env ''bob'' None) ''agent'' ''r1'' = Inr False" by code_simp+
  have "ev_bound (demo_env ''ann'' None) = Some (uc_user_id (ev_user (demo_env ''ann'' None)))"
    "uq_store (rs_agents (ev_stores (demo_env ''ann'' None)))"
    "uq_store (rs_prompt_groups (ev_stores (demo_env ''ann'' None)))" by code_simp+
  from owns_agrees_with_policy [OF this, of "''skill''" "''r1''"]
  have "owns (demo_env ''ann'' None) ''skill'' ''r1'' = Inl (UnknownResourceTypeError ''skill'')"
    by (simp add: RESOLVED_RESOURCE_TYPES_def OWNERSHIP_RESOLVERS_def)
  with o show ?thesis by blast
qed

text \<open>
  Mallory has made an agent with the identifier of Ann's. The stores accept it, and Mallory's grant to
  herself on that identifier goes through: she may delete the agent \<open>r1\<close>, whoever's it is.
\<close>

definition collision_env :: acl_env where
  "collision_env = (demo_env ''mallory'' None)\<lparr>ev_stores := \<lparr>rs_agents =
     [\<lparr>sr_id = ''r1'', sr_user_sub = ''ann'', sr_deleted_at_ms = None\<rparr>,
      \<lparr>sr_id = ''r1'', sr_user_sub = ''mallory'', sr_deleted_at_ms = None\<rparr>], rs_prompt_groups = []\<rparr>\<rparr>"

definition collision_key :: acl_key where
  "collision_key = \<lparr>ak_principal_type = ''user'', ak_principal_id = Some ''mallory'', ak_resource_type = ''agent'',
     ak_resource_id = ''r1'', ak_tenant_id = None\<rparr>"


end
