(* ===== verification/Chunks.thy ===== *)
theory Chunks
  imports Keys
begin

text \<open>
  How a document becomes the chunks of the vector store and how a whole-document read puts them
  together again (\<open>_chunk_text\<close>, \<open>_doc_id\<close>, \<open>_upsert_in_batches\<close> and
  \<open>_reassemble_chunk_sequence\<close> of \<open>src/audittrace/routes/memory.py\<close>).

  Positions are integers and slices are Python's, negative bounds included, so the loop of
  \<open>_chunk_text\<close> is the code's for every size and overlap. It ends only when the overlap is
  smaller than the size; the loop is a partial function whose value \<open>None\<close> means that the code
  does not return.
\<close>

section \<open>Slices and blank text\<close>

text \<open>A bound of a slice of a sequence of length \<open>n\<close>.\<close>

definition slice_bound :: "nat \<Rightarrow> int \<Rightarrow> nat" where
  "slice_bound n i = (if i < 0 then nat (max 0 (int n + i)) else min n (nat i))"

definition py_slice :: "'a list \<Rightarrow> int \<Rightarrow> int \<Rightarrow> 'a list" where
  "py_slice xs i j =
     (let a = slice_bound (length xs) i; b = slice_bound (length xs) j in take (b - a) (drop a xs))"

lemma py_slice_inside:
  assumes "0 \<le> i" and "i \<le> j"
  shows "py_slice xs i j = take (nat (j - i)) (drop (nat i) xs)"
proof -
  have bounds: "slice_bound (length xs) i = min (length xs) (nat i)"
    "slice_bound (length xs) j = min (length xs) (nat j)"
    using assms by (simp_all add: slice_bound_def)
  show ?thesis
  proof (cases "nat i \<le> length xs")
    case True
    have "take (min (length xs) (nat j) - nat i) (drop (nat i) xs) =
          take (nat (j - i)) (drop (nat i) xs)"
    proof (cases "nat j \<le> length xs")
      case True
      then show ?thesis using assms by (simp add: nat_diff_distrib)
    next
      case False
      then have "length (drop (nat i) xs) \<le> nat (j - i)" using assms by simp
      with False show ?thesis by (simp add: min_def)
    qed
    with True show ?thesis by (simp add: py_slice_def bounds Let_def min_absorb2)
  next
    case False
    then show ?thesis by (simp add: py_slice_def bounds Let_def)
  qed
qed

text \<open>The characters \<open>str.strip\<close> removes; \<open>s.strip()\<close> is false of a text of these only.\<close>

definition blank :: "string \<Rightarrow> bool" where
  "blank s \<longleftrightarrow> list_all py_space s"

lemma py_strip_empty: "py_strip s = [] \<longleftrightarrow> blank s"
  by (induction s) (auto simp: py_strip_def blank_def dropWhile_append3 list_all_iff
      dropWhile_eq_Nil_conv)

section \<open>Cutting\<close>

definition CHUNK_SIZE :: int where "CHUNK_SIZE = 1500"
definition CHUNK_OVERLAP :: int where "CHUNK_OVERLAP = 200"
definition INDEX_BATCH_SIZE :: nat where "INDEX_BATCH_SIZE = 50"
definition MAX_DOCUMENT_CHUNKS :: nat where "MAX_DOCUMENT_CHUNKS = 500"

text \<open>The loop from \<open>start\<close>: a window that is blank is left out.\<close>

partial_function (option) chunk_loop :: "string \<Rightarrow> int \<Rightarrow> int \<Rightarrow> int \<Rightarrow> string list option" where
  "chunk_loop text chunk_size overlap start =
     (if start < int (length text)
      then Option.bind (chunk_loop text chunk_size overlap (start + chunk_size - overlap)) (\<lambda>rest.
             let chunk = py_slice text start (start + chunk_size)
             in Some (if py_strip chunk \<noteq> [] then chunk # rest else rest))
      else Some [])"

declare chunk_loop.simps [code]

definition chunk_text :: "string \<Rightarrow> int \<Rightarrow> int \<Rightarrow> string list option" where
  "chunk_text text chunk_size overlap =
     (if int (length text) \<le> chunk_size then Some [text] else chunk_loop text chunk_size overlap 0)"

text \<open>
  \<open>_reassemble_chunk_sequence\<close>: every chunk but the first loses its first \<open>overlap\<close> characters.
  Without a chunk the code raises.
\<close>

definition reassemble_chunk_sequence :: "string list \<Rightarrow> int \<Rightarrow> string option" where
  "reassemble_chunk_sequence chunks overlap =
     (case chunks of
        [] \<Rightarrow> None
      | c # cs \<Rightarrow> Some (c @ concat (map (\<lambda>d. py_slice d overlap (int (length d))) cs)))"

section \<open>The windows of a text\<close>

text \<open>The reference: the windows of length \<open>s\<close> at every multiple of \<open>s - v\<close> inside the text.\<close>

function windows :: "string \<Rightarrow> nat \<Rightarrow> nat \<Rightarrow> nat \<Rightarrow> string list" where
  "windows t s v p =
     (if p < length t \<and> v < s then take s (drop p t) # windows t s v (p + (s - v)) else [])"
  by pat_completeness auto
termination by (relation "measure (\<lambda>(t, s, v, p). length t - p)") auto

declare windows.simps [simp del]

lemma windows_step: "p < length t \<Longrightarrow> v < s \<Longrightarrow>
    windows t s v p = take s (drop p t) # windows t s v (p + (s - v))"
  by (simp add: windows.simps [of t s v p])

lemma windows_done: "length t \<le> p \<Longrightarrow> windows t s v p = []"
  by (simp add: windows.simps [of t s v p])

lemma chunk_loop_windows:
  assumes "v < s"
  shows "chunk_loop t (int s) (int v) (int p) = Some (filter (\<lambda>w. \<not> blank w) (windows t s v p))"
  using assms
proof (induction t s v p rule: windows.induct)
  case (1 t s v p)
  show ?case
  proof (cases "p < length t")
    case True
    with 1 have inside: "p < length t \<and> v < s" by simp
    have next_start: "int p + int s - int v = int (p + (s - v))"
      using 1 by simp
    have window: "py_slice t (int p) (int p + int s) = take s (drop p t)"
      by (subst py_slice_inside) simp_all
    show ?thesis
      unfolding chunk_loop.simps [of t "int s" "int v" "int p"] next_start
        "1.IH" [OF inside 1(2)]
      using True 1 by (simp add: window windows_step py_strip_empty)
  next
    case False
    then show ?thesis
      by (subst chunk_loop.simps) (simp add: windows_done)
  qed
qed

lemma ceil_step:
  assumes "0 < d" and "0 < n"
  shows "Suc ((n - d + d - 1) div d) = (n + d - 1) div (d::nat)"
proof (cases "d \<le> n")
  case True
  then have "n + d - 1 = (n - d + d - 1) + d" using assms by simp
  then show ?thesis using assms by (simp only: div_add_self2)
next
  case False
  then have "n + d - 1 = (n - 1) + d" "n - d + d - 1 < d" "n - 1 < d" using assms by simp_all
  then show ?thesis using assms by (simp only: div_add_self2 div_less)
qed

lemma length_windows:
  "v < s \<Longrightarrow> length (windows t s v p) = (length t - p + (s - v) - 1) div (s - v)"
proof (induction t s v p rule: windows.induct)
  case (1 t s v p)
  show ?case
  proof (cases "p < length t")
    case True
    let ?d = "s - v"
    have "0 < ?d" using 1 by simp
    have rest: "length (windows t s v (p + ?d)) = (length t - (p + ?d) + ?d - 1) div ?d"
      using 1 True by simp
    have "Suc ((length t - (p + ?d) + ?d - 1) div ?d) = (length t - p + ?d - 1) div ?d"
      using ceil_step [OF \<open>0 < ?d\<close>, of "length t - p"] True by (simp add: diff_diff_left)
    with rest True 1 show ?thesis by (simp add: windows_step)
  next
    case False
    with 1 show ?thesis by (simp add: windows_done)
  qed
qed

lemma window_length: "w \<in> set (windows t s v p) \<Longrightarrow> length w \<le> s"
proof (induction t s v p rule: windows.induct)
  case (1 t s v p)
  show ?case
  proof (cases "p < length t \<and> v < s")
    case True
    with 1 show ?thesis by (auto simp: windows_step)
  next
    case False
    with 1(2) show ?thesis by (auto simp: windows.simps [of t s v p])
  qed
qed

lemma window_tail_length: "w \<in> set (windows t s v p) \<Longrightarrow> length w \<le> length t - p"
proof (induction t s v p rule: windows.induct)
  case (1 t s v p)
  show ?case
  proof (cases "p < length t \<and> v < s")
    case True
    with 1 consider "w = take s (drop p t)" | "w \<in> set (windows t s v (p + (s - v)))"
      by (auto simp: windows_step)
    then show ?thesis
      using 1 True by cases auto
  next
    case False
    with 1(2) show ?thesis by (auto simp: windows.simps [of t s v p])
  qed
qed

section \<open>Putting the chunks together\<close>

definition drop_all :: "nat \<Rightarrow> string list \<Rightarrow> string" where
  "drop_all v ws = concat (map (drop v) ws)"

lemma drop_all_simps [simp]:
  "drop_all v [] = []"
  "drop_all v (w # ws) = drop v w @ drop_all v ws"
  by (simp_all add: drop_all_def)

lemma drop_all_short: "(\<And>w. w \<in> set ws \<Longrightarrow> length w \<le> v) \<Longrightarrow> drop_all v ws = []"
  by (induction ws) auto

lemma reassemble_Cons [simp]:
  "reassemble_chunk_sequence (c # cs) (int v) = Some (c @ drop_all v cs)"
proof -
  have cut: "py_slice d (int v) (int (length d)) = drop v d" for d :: string
  proof (cases "v \<le> length d")
    case True
    then show ?thesis by (subst py_slice_inside) simp_all
  next
    case False
    then show ?thesis by (simp add: py_slice_def slice_bound_def)
  qed
  show ?thesis
    by (simp add: reassemble_chunk_sequence_def drop_all_def cut)
qed

lemma drop_append_long: "n \<le> length xs \<Longrightarrow> drop n (xs @ ys) = drop n xs @ ys"
  by simp

text \<open>All windows together give the text back.\<close>

lemma windows_join:
  assumes "v < s" and "p < length t"
  shows "take s (drop p t) @ drop_all v (windows t s v (p + (s - v))) = drop p t"
  using assms
proof (induction t s v p rule: windows.induct)
  case (1 t s v p)
  let ?q = "p + (s - v)"
  show ?case
  proof (cases "?q < length t")
    case False
    then show ?thesis using 1 by (simp add: windows_done)
  next
    case True
    let ?w = "take s (drop ?q t)" and ?ws = "windows t s v (?q + (s - v))"
    have join: "?w @ drop_all v ?ws = drop ?q t"
      using 1 True by simp
    have step: "windows t s v ?q = ?w # ?ws"
      using 1 True by (simp add: windows_step)
    show ?thesis
    proof (cases "v \<le> length ?w")
      case True
      have "drop v ?w @ drop_all v ?ws = drop v (?w @ drop_all v ?ws)"
        by (rule drop_append_long [OF True, symmetric])
      also have "\<dots> = drop v (drop ?q t)" by (simp only: join)
      also have "\<dots> = drop s (drop p t)"
        using 1 by (simp add: add.commute)
      finally have "drop v ?w @ drop_all v ?ws = drop s (drop p t)" .
      then show ?thesis by (simp only: step drop_all_simps append_take_drop_id)
    next
      case False
      then have short: "length t - ?q < v" using 1 by (simp add: min_def split: if_splits)
      have "drop_all v (windows t s v ?q) = []"
        using short by (intro drop_all_short) (force dest: window_tail_length)
      then show ?thesis using short 1 by simp
    qed
  qed
qed

text \<open>Leaving windows out keeps the text exactly when they have nothing beyond the overlap.\<close>

lemma drop_all_filter:
  "length (drop_all v (filter P ws)) \<le> length (drop_all v ws)"
  "(\<And>w. w \<in> set ws \<Longrightarrow> \<not> P w \<Longrightarrow> length w \<le> v) \<Longrightarrow> drop_all v (filter P ws) = drop_all v ws"
  "w \<in> set ws \<Longrightarrow> \<not> P w \<Longrightarrow> v < length w \<Longrightarrow>
     length (drop_all v (filter P ws)) < length (drop_all v ws)"
proof -
  show le: "length (drop_all v (filter P ws)) \<le> length (drop_all v ws)" for ws
    by (induction ws) auto
  show "(\<And>w. w \<in> set ws \<Longrightarrow> \<not> P w \<Longrightarrow> length w \<le> v) \<Longrightarrow>
      drop_all v (filter P ws) = drop_all v ws"
    by (induction ws) auto
  show "w \<in> set ws \<Longrightarrow> \<not> P w \<Longrightarrow> v < length w \<Longrightarrow>
     length (drop_all v (filter P ws)) < length (drop_all v ws)"
  proof (induction ws)
    case Nil
    then show ?case by simp
  next
    case (Cons x xs)
    show ?case
    proof (cases "w = x")
      case True
      with Cons.prems le [of xs] show ?thesis by simp
    next
      case False
      with Cons show ?thesis by auto
    qed
  qed
qed

lemma drop_all_filter_eq:
  "drop_all v (filter P ws) = drop_all v ws \<longleftrightarrow> (\<forall>w \<in> set ws. \<not> P w \<longrightarrow> length w \<le> v)"
proof
  assume same: "drop_all v (filter P ws) = drop_all v ws"
  show "\<forall>w \<in> set ws. \<not> P w \<longrightarrow> length w \<le> v"
  proof (intro ballI impI leI notI)
    fix w assume "w \<in> set ws" "\<not> P w" "v < length w"
    then have "length (drop_all v (filter P ws)) < length (drop_all v ws)" by (intro drop_all_filter)
    with same show False by simp
  qed
qed (intro drop_all_filter, blast)

text \<open>A text whose first window is left out is not put together again.\<close>

lemma reassemble_without_head:
  assumes "v < length w"
  shows "reassemble_chunk_sequence (filter P ws) (int v) \<noteq> Some (w @ drop_all v ws)"
proof (cases "filter P ws")
  case Nil
  with assms show ?thesis by (auto simp: reassemble_chunk_sequence_def)
next
  case (Cons c cs)
  have "length (c @ drop_all v cs) \<le> v + length (drop_all v (filter P ws))" by (simp add: Cons)
  also have "\<dots> < length w + length (drop_all v ws)"
    using drop_all_filter(1) [of v P ws] assms by linarith
  finally show ?thesis by (auto simp: Cons dest: arg_cong [of _ _ length])
qed

text \<open>
  C19: the chunking always returns when the overlap is smaller than the size. Its chunks are the
  windows at every multiple of size minus overlap that are not blank (a text that fits is one
  chunk), each at most as long as the size, and at most one per step of the window.
\<close>

theorem chunk_text_terminates:
  assumes "0 \<le> overlap" and "overlap < chunk_size"
  shows "\<exists>chunks. chunk_text text chunk_size overlap = Some chunks \<and>
    chunks = (if length text \<le> nat chunk_size then [text]
              else filter (\<lambda>w. \<not> blank w) (windows text (nat chunk_size) (nat overlap) 0)) \<and>
    (\<forall>c \<in> set chunks. int (length c) \<le> chunk_size) \<and>
    int (length chunks) \<le> (int (length text) + (chunk_size - overlap) - 1) div (chunk_size - overlap) + 1"
proof -
  let ?s = "nat chunk_size" and ?v = "nat overlap"
  have sv: "?v < ?s" "int ?s = chunk_size" "int ?v = overlap" using assms by simp_all
  define chunks where "chunks = (if length text \<le> ?s then [text]
    else filter (\<lambda>w. \<not> blank w) (windows text ?s ?v 0))"
  have returns: "chunk_text text chunk_size overlap = Some chunks"
    using chunk_loop_windows [OF sv(1), of "text" 0] assms
    by (auto simp: chunk_text_def chunks_def sv)
  have size: "int (length c) \<le> chunk_size" if "c \<in> set chunks" for c
    using that window_length [of c "text" ?s ?v 0] assms
    by (auto simp: chunks_def split: if_splits)
  have count: "int (length (windows text ?s ?v 0)) =
      (int (length text) + (chunk_size - overlap) - 1) div (chunk_size - overlap)"
    using sv assms by (simp add: length_windows zdiv_int of_nat_diff algebra_simps)
  have "int (length chunks) \<le> (int (length text) + (chunk_size - overlap) - 1) div (chunk_size - overlap) + 1"
  proof (cases "length text \<le> ?s")
    case True
    have "0 \<le> (int (length text) + (chunk_size - overlap) - 1) div (chunk_size - overlap)"
      using assms by (intro pos_imp_zdiv_nonneg_iff [THEN iffD2]) auto
    with True show ?thesis by (simp add: chunks_def)
  next
    case False
    have "length chunks \<le> length (windows text ?s ?v 0)" using False by (simp add: chunks_def)
    then show ?thesis using count by linarith
  qed
  with returns size show ?thesis unfolding chunks_def by blast
qed

theorem chunk_text_terminates_witness:
  "\<exists>chunks. chunk_text ''abcdefgh'' 4 1 = Some chunks \<and> length chunks \<le> 4"
  using chunk_text_terminates [of 1 4 "''abcdefgh''"] by auto

text \<open>
  C18: a whole-document read gives the text back exactly unless the chunking left out a blank
  window it needs: the first one, or one longer than the overlap. The last window is shorter than
  the size, so a run of blanks shorter than the size is enough to lose text.
\<close>

theorem whole_document_exact:
  assumes "0 \<le> overlap" and "overlap < chunk_size"
    and "chunk_text text chunk_size overlap = Some chunks"
  shows "reassemble_chunk_sequence chunks overlap = Some text \<longleftrightarrow>
    int (length text) \<le> chunk_size \<or>
    \<not> blank (take (nat chunk_size) text) \<and>
    (\<forall>w \<in> set (windows text (nat chunk_size) (nat overlap) 0).
        blank w \<longrightarrow> int (length w) \<le> overlap)"
proof -
  let ?s = "nat chunk_size" and ?v = "nat overlap"
  have sv: "?v < ?s" and v: "int ?v = overlap" using assms by simp_all
  have chunks: "chunks = (if length text \<le> ?s then [text]
      else filter (\<lambda>w. \<not> blank w) (windows text ?s ?v 0))"
    using chunk_text_terminates [OF assms(1,2), of "text"] assms(3) by auto
  have put: "reassemble_chunk_sequence (c # cs) overlap = Some (c @ drop_all ?v cs)" for c cs
    using reassemble_Cons [of c cs ?v] unfolding v .
  show ?thesis
  proof (cases "length text \<le> ?s")
    case True
    then have "int (length text) \<le> chunk_size" using assms by linarith
    then show ?thesis using True by (simp add: chunks put)
  next
    case long: False
    then have pos: "0 < length text" by linarith
    define w where "w = take ?s text"
    define ws where "ws = windows text ?s ?v (?s - ?v)"
    have step: "windows text ?s ?v 0 = w # ws"
      using windows_step [OF pos sv] by (simp add: w_def ws_def)
    have join: "w @ drop_all ?v ws = text"
      using windows_join [OF sv pos] by (simp add: w_def ws_def)
    have wlen: "length w = ?s" using long by (simp add: w_def)
    show ?thesis
    proof (cases "blank w")
      case True
      have "reassemble_chunk_sequence chunks overlap \<noteq> Some text"
        using reassemble_without_head [of ?v w "\<lambda>w. \<not> blank w" ws] True long sv wlen
        unfolding v join by (simp add: chunks step)
      then show ?thesis using True long assms by (auto simp: w_def)
    next
      case False
      have "reassemble_chunk_sequence chunks overlap = Some text \<longleftrightarrow>
          drop_all ?v (filter (\<lambda>w. \<not> blank w) ws) = drop_all ?v ws"
        using False long by (simp add: chunks step put) (metis join same_append_eq)
      then show ?thesis
        using False long assms by (auto simp: drop_all_filter_eq step w_def [symmetric] nat_le_iff le_nat_iff)
    qed
  qed
qed

theorem whole_document_exact_witness:
  "reassemble_chunk_sequence [''abcd'', ''defg'', ''gh''] 1 = Some ''abcdefgh''"
proof -
  have cut: "chunk_text ''abcdefgh'' 4 1 = Some [''abcd'', ''defg'', ''gh'']" by code_simp
  have "windows ''abcdefgh'' 4 1 0 = [''abcd'', ''defg'', ''gh'']" by code_simp
  then show ?thesis
    using whole_document_exact [OF _ _ cut] by (simp add: blank_def py_space_def)
qed

text \<open>A document that ends in 300 blanks loses 100 of them under the sizes of the code.\<close>

lemma blank_tail_lost:
  defines "text \<equiv> replicate 1300 (CHR ''a'') @ replicate 300 (CHR '' '')"
  assumes "chunk_text text CHUNK_SIZE CHUNK_OVERLAP = Some chunks"
  shows "reassemble_chunk_sequence chunks CHUNK_OVERLAP \<noteq> Some text"
proof -
  have len: "length text = 1600" by (simp add: text_def)
  have "windows text 1500 200 0 = take 1500 text # windows text 1500 200 1300"
    using windows_step [of 0 "text" 200 1500] len by simp
  moreover have "windows text 1500 200 1300 = [take 1500 (drop 1300 text)]"
    using windows_step [of 1300 "text" 200 1500] windows_done [of "text" 2600 1500 200] len by simp
  moreover have "take 1500 (drop 1300 text) = replicate 300 (CHR '' '')"
    by (simp add: text_def)
  ultimately have "replicate 300 (CHR '' '') \<in> set (windows text 1500 200 0)" by simp
  moreover have "blank (replicate 300 (CHR '' ''))"
    by (simp add: blank_def list_all_iff py_space_def)
  ultimately show ?thesis
    using whole_document_exact [of 200 1500 "text" chunks] assms(2) len
    by (auto simp: CHUNK_SIZE_def CHUNK_OVERLAP_def)
qed

end
