(* ===== verification/PdfDoc.thy ===== *)
theory PdfDoc
  imports Manifest Chunks
begin

text \<open>
  A PDF as the index pipeline sees it, and the helpers that read it
  (\<open>src/audittrace/routes/memory_pdf/\<close>: \<open>classification.py\<close>, \<open>extraction.py\<close>, \<open>metadata.py\<close>,
  \<open>toc.py\<close>, \<open>redactions.py\<close>).

  A \<open>pdf_doc\<close> holds the answers of the third-party parser to the calls the helpers make; a call
  that raises answers on the left. Coordinates are only compared, so they are integers here. The
  date parser, the XMP patterns and the OCR engine are represented by their results.
\<close>

section \<open>Exceptions\<close>

text \<open>
  An exception of a library by its class and text; the two families the pipeline treats apart
  keep their own constructors.
\<close>

datatype exc =
    Exc string string
  | ManifestExc manifest_error
  | ChromaIdConflict string string

fun exc_class :: "exc \<Rightarrow> string" where
  "exc_class (Exc c _) = c"
| "exc_class (ManifestExc e) =
     (case e of ManifestAuthorizationError _ _ \<Rightarrow> ''ManifestAuthorizationError''
        | CrossOwnerWriteError _ \<Rightarrow> ''CrossOwnerWriteError''
        | InvalidPrivateSubjectError \<Rightarrow> ''InvalidPrivateSubjectError''
        | LogicalKeyTooLongError \<Rightarrow> ''LogicalKeyTooLongError''
        | ConcurrentManifestWriteError _ _ \<Rightarrow> ''ConcurrentManifestWriteError''
        | IntegrityError _ \<Rightarrow> ''IntegrityError'' | DataError _ \<Rightarrow> ''DataError''
        | ValueError _ \<Rightarrow> ''ValueError'' | LookupError _ _ \<Rightarrow> ''LookupError''
        | RuntimeError _ _ \<Rightarrow> ''RuntimeError'')"
| "exc_class (ChromaIdConflict _ _) = ''ChromaIdConflictError''"

text \<open>The text of an exception; of the manifest's, what its constructor carries.\<close>

fun exc_text :: "exc \<Rightarrow> string" where
  "exc_text (Exc _ m) = m"
| "exc_text (ManifestExc e) =
     (case e of ManifestAuthorizationError l k \<Rightarrow> l @ k | CrossOwnerWriteError m \<Rightarrow> m
        | InvalidPrivateSubjectError \<Rightarrow> [] | LogicalKeyTooLongError \<Rightarrow> []
        | ConcurrentManifestWriteError l k \<Rightarrow> l @ k | IntegrityError m \<Rightarrow> m | DataError m \<Rightarrow> m
        | ValueError m \<Rightarrow> m | LookupError l k \<Rightarrow> l @ k | RuntimeError l k \<Rightarrow> l @ k)"
| "exc_text (ChromaIdConflict c d) = ChromaIdConflict_message c d"

section \<open>Warnings\<close>

definition PDF_WARNING_CODES :: "string list" where
  "PDF_WARNING_CODES =
     [''max_size'', ''max_pages'', ''max_xref'', ''max_page_text'', ''parse_timeout'',
      ''redaction_clipped'', ''redaction_rejected'',
      ''encrypted'', ''no_text_layer'', ''ocr_low_confidence'', ''attachment'',
      ''attachment_quarantine_failed'', ''form_fields'',
      ''pdf_corrupted_xref'', ''pdf_corrupted_structure'', ''pdf_metadata_parse_error'']"

definition PERMANENT_INDEX_FAILURE_CODES :: "string list" where
  "PERMANENT_INDEX_FAILURE_CODES = [''pdf_corrupted_structure'', ''pdf_corrupted_xref'']"

definition classify_pdf_extraction_error :: "exc \<Rightarrow> string" where
  "classify_pdf_extraction_error e =
     (let cls = py_lower (exc_class e); msg = py_lower (exc_text e) in
      if py_contains msg ''xref'' \<or> py_contains msg ''trailer'' then ''pdf_corrupted_xref''
      else if py_contains cls ''empty'' \<or> py_contains cls ''filedata'' \<or> py_contains msg ''format''
      then ''pdf_corrupted_structure''
      else ''pdf_corrupted_structure'')"

text \<open>A warning: its code and the details beside it.\<close>

definition warn :: "string \<Rightarrow> (string \<times> pyval) list \<Rightarrow> pyval" where
  "warn code details = PDict ((''code'', PStr code) # details)"

definition page_warn :: "string \<Rightarrow> nat \<Rightarrow> (string \<times> pyval) list \<Rightarrow> pyval" where
  "page_warn code n details = warn code ((''page'', PInt (int n)) # details)"

fun warning_code :: "pyval \<Rightarrow> string option" where
  "warning_code (PDict d) = (case map_of d ''code'' of Some (PStr c) \<Rightarrow> Some c | _ \<Rightarrow> None)"
| "warning_code _ = None"

lemma warning_code_warn [simp]:
  "warning_code (warn c d) = Some c" "warning_code (page_warn c n d) = Some c"
  by (simp_all add: warn_def page_warn_def)

section \<open>The parsed document\<close>

type_synonym rect = "int \<times> int \<times> int \<times> int"

record annotation =
  an_type :: "(int \<times> string) option"
  an_rect :: rect

text \<open>A text block; a tuple of fewer than five fields is \<open>None\<close>.\<close>

type_synonym block = "(rect \<times> pyval) option"

record widget =
  wd_name :: "string option"
  wd_value :: pyval
  wd_label :: "string option"

text \<open>OCR of a page: the words joined, and the mean confidence in thousandths.\<close>

record pdf_page =
  pp_annots :: "(exc, annotation list) res"
  pp_text :: "(exc, string) res"
  pp_blocks :: "(exc, block list) res"
  pp_images :: "(exc, bool) res"
  pp_widgets :: "(exc, widget list) res"
  pp_ocr :: "(string \<times> int) option"
  pp_bbox :: "string \<times> string \<times> string \<times> string"

record attachment =
  at_filename :: "string option"
  at_mime :: "string option"
  at_data :: "(exc, string) res"

record pdf_doc =
  pd_is_encrypted :: bool
  pd_needs_pass :: bool
  pd_metadata :: "(exc, pyval) res"
  pd_pdfa :: "string option \<times> string option"
  pd_toc :: "(exc, pyval list list) res"
  pd_page_count :: int
  pd_xref_length :: "(exc, int) res"
  pd_embfiles :: "(exc, (exc, attachment) res list) res"
  pd_pages :: "(exc, pdf_page) res list"

section \<open>Helpers\<close>

definition pdf_is_encrypted :: "pdf_doc \<Rightarrow> bool" where
  "pdf_is_encrypted doc \<longleftrightarrow> pd_is_encrypted doc \<and> pd_needs_pass doc"

fun trim_pdf_metadata_string :: "pyval option \<Rightarrow> string option" where
  "trim_pdf_metadata_string (Some (PStr s)) =
     (let t = py_strip s in if t = [] then None else Some (take 255 t))"
| "trim_pdf_metadata_string _ = None"

text \<open>Title, author, creator, creation date and warning codes; \<open>parse\<close> is the date parser.\<close>

definition extract_pdf_metadata ::
  "(string \<Rightarrow> string option) \<Rightarrow> pdf_doc
    \<Rightarrow> string option \<times> string option \<times> string option \<times> string option \<times> string list" where
  "extract_pdf_metadata parse doc =
     (case pd_metadata doc of
        Inl _ \<Rightarrow> (None, None, None, None, [''pdf_metadata_parse_error''])
      | Inr (PDict meta) \<Rightarrow>
          let get = (\<lambda>k. trim_pdf_metadata_string (map_of meta k));
              (date, codes) =
                (case map_of meta ''creationDate'' of
                   None \<Rightarrow> (None, [])
                 | Some PNone \<Rightarrow> (None, [])
                 | Some (PStr raw) \<Rightarrow>
                     if blank raw then (None, [])
                     else (case parse raw of
                             None \<Rightarrow> (None, [''pdf_metadata_parse_error''])
                           | Some d \<Rightarrow> (Some d, []))
                 | Some _ \<Rightarrow> (None, [''pdf_metadata_parse_error'']))
          in (get ''title'', get ''author'', get ''creator'', date, codes)
      | Inr _ \<Rightarrow> (None, None, None, None, []))"

text \<open>
  \<open>_build_toc_index\<close>. An entry needs three fields, a whole page number of at least one and a
  title that is not blank; \<open>int\<close> of a text is not followed.
\<close>

fun toc_entry :: "pyval list \<Rightarrow> (int \<times> string) option" where
  "toc_entry (_ # PStr title # page # _) =
     (case page of
        PInt n \<Rightarrow> let t = py_strip title in
                  if n \<le> 0 \<or> t = [] then None else Some (n, take 255 t)
      | PBool b \<Rightarrow> let t = py_strip title in
                  if \<not> b \<or> t = [] then None else Some (1, take 255 t)
      | _ \<Rightarrow> None)"
| "toc_entry _ = None"

definition toc_entries :: "pyval list list \<Rightarrow> (int \<times> string) list" where
  "toc_entries toc = sort_key fst (List.map_filter toc_entry toc)"

text \<open>The forward fill: the title in force, and the entries not yet reached.\<close>

fun toc_advance :: "int \<Rightarrow> string option \<Rightarrow> (int \<times> string) list \<Rightarrow> string option \<times> (int \<times> string) list" where
  "toc_advance n current [] = (current, [])"
| "toc_advance n current ((p, t) # es) =
     (if p \<le> n then toc_advance n (Some t) es else (current, (p, t) # es))"

fun toc_fill :: "int list \<Rightarrow> string option \<Rightarrow> (int \<times> string) list \<Rightarrow> (int \<times> string) list" where
  "toc_fill [] current es = []"
| "toc_fill (n # ns) current es =
     (let (current', es') = toc_advance n current es in
      (case current' of None \<Rightarrow> [] | Some t \<Rightarrow> [(n, t)]) @ toc_fill ns current' es')"

definition build_toc_index :: "pdf_doc \<Rightarrow> (int \<times> string) list" where
  "build_toc_index doc =
     (case pd_toc doc of
        Inl _ \<Rightarrow> []
      | Inr toc \<Rightarrow>
          let es = toc_entries toc in
          if es = [] then []
          else let count = (if pd_page_count doc \<le> 0 then fst (last es) else pd_page_count doc)
               in toc_fill [1..count] None es)"

text \<open>Redactions.\<close>

definition redaction_rects :: "pdf_page \<Rightarrow> rect list" where
  "redaction_rects page =
     (case pp_annots page of
        Inl _ \<Rightarrow> []
      | Inr annots \<Rightarrow> List.map_filter (\<lambda>a.
          case an_type a of
            None \<Rightarrow> None
          | Some (code, name) \<Rightarrow>
              if code = 12 \<or> name = ''Redact'' then Some (an_rect a) else None) annots)"

fun rects_intersect :: "rect \<Rightarrow> rect \<Rightarrow> bool" where
  "rects_intersect (ax0, ay0, ax1, ay1) (bx0, by0, bx1, by1) \<longleftrightarrow>
     \<not> (ax1 < bx0 \<or> ax0 > bx1 \<or> ay1 < by0 \<or> ay0 > by1)"

definition safe_block :: "rect list \<Rightarrow> block \<Rightarrow> string option" where
  "safe_block rects b =
     (case b of
        Some (bbox, PStr t) \<Rightarrow>
          if blank t \<or> list_ex (rects_intersect bbox) rects then None else Some t
      | _ \<Rightarrow> None)"

fun join_with :: "string \<Rightarrow> string list \<Rightarrow> string" where
  "join_with sep [] = []"
| "join_with sep [x] = x"
| "join_with sep (x # y # zs) = x @ sep @ join_with sep (y # zs)"

definition newline :: string where "newline = [CHR 0x0A]"

definition text_clipped_around_redactions :: "pdf_page \<Rightarrow> rect list \<Rightarrow> (exc, string) res" where
  "text_clipped_around_redactions page rects =
     res_bind (pp_blocks page) (\<lambda>blocks.
       Inr (join_with newline (List.map_filter (safe_block rects) blocks)))"

text \<open>Form fields: one \<open>label: value\<close> line per field that has a value.\<close>

fun py_repr_value :: "pyval \<Rightarrow> string" where
  "py_repr_value PNone = ''None''"
| "py_repr_value (PBool b) = (if b then ''True'' else ''False'')"
| "py_repr_value (PInt i) = py_str_int i"
| "py_repr_value (PFloat f) = f"
| "py_repr_value (PStr s) = py_repr s"
| "py_repr_value (PList xs) = ''['' @ join_with '', '' (map py_repr_value xs) @ '']''"
| "py_repr_value (PDict d) =
     CHR 0x7B # join_with '', '' (map (\<lambda>(k, v). py_repr k @ '': '' @ py_repr_value v) d) @ [CHR 0x7D]"

definition py_str_value :: "pyval \<Rightarrow> string" where
  "py_str_value v = (case v of PStr s \<Rightarrow> s | _ \<Rightarrow> py_repr_value v)"

definition non_empty_or :: "string option \<Rightarrow> string \<Rightarrow> string" where
  "non_empty_or x d = (case x of None \<Rightarrow> d | Some s \<Rightarrow> if s = [] then d else s)"

definition widget_line :: "widget \<Rightarrow> string option" where
  "widget_line w =
     (let name = non_empty_or (wd_name w) []; label = non_empty_or (wd_label w) name in
      if wd_value w = PNone \<or> wd_value w = PStr [] then None
      else Some (py_strip (label @ '': '' @ py_str_value (wd_value w))))"

definition acroform_text_for_page :: "pdf_page \<Rightarrow> string option \<times> nat" where
  "acroform_text_for_page page =
     (case pp_widgets page of
        Inl _ \<Rightarrow> (None, 0)
      | Inr ws \<Rightarrow>
          let ls = List.map_filter widget_line ws in
          if ls = [] then (None, 0) else (Some (join_with newline ls), length ls))"

text \<open>The text, its source and the confidence in thousandths.\<close>

definition ocr_render_page :: "bool \<Rightarrow> pdf_page \<Rightarrow> string \<times> string \<times> int" where
  "ocr_render_page enabled page =
     (case (if enabled then pp_ocr page else None) of
        None \<Rightarrow> ([], ''no_text_layer'', 0)
      | Some (t, conf) \<Rightarrow> (t, ''ocr'', conf))"

text \<open>
  Attachments: what is written to the object store, in order, how many were, and the warnings.
\<close>

definition attachment_failed :: "nat \<Rightarrow> exc \<Rightarrow> pyval" where
  "attachment_failed i e =
     warn ''attachment_quarantine_failed''
       [(''index'', PInt (int i)), (''error'', PStr (exc_class e))]"

definition quarantine_one ::
  "(string \<Rightarrow> string) \<Rightarrow> (string \<Rightarrow> exc option) \<Rightarrow> string \<Rightarrow> nat \<Rightarrow> (exc, attachment) res
    \<Rightarrow> (string \<times> string) option \<times> pyval" where
  "quarantine_one sha put_error base i entry =
     (case entry of
        Inl e \<Rightarrow> (None, attachment_failed i e)
      | Inr a \<Rightarrow>
          let name = non_empty_or (at_filename a) (''attachment-'' @ py_str_int (int i));
              mime = non_empty_or (at_mime a) ''application/octet-stream'' in
          (case at_data a of
             Inl e \<Rightarrow> (None, attachment_failed i e)
           | Inr data \<Rightarrow>
               let key = base @ ''/attachments/'' @ name in
               (case put_error key of
                  Some e \<Rightarrow> (None, attachment_failed i e)
                | None \<Rightarrow>
                    (Some (key, data),
                     warn ''attachment''
                       [(''name'', PStr name), (''mime'', PStr mime), (''size'', PInt (int (length data))),
                        (''sha256'', PStr (sha data)), (''minio_key'', PStr key)]))))"

definition quarantine_pdf_attachments ::
  "(string \<Rightarrow> string) \<Rightarrow> (string \<Rightarrow> exc option) \<Rightarrow> pdf_doc \<Rightarrow> string \<Rightarrow> string
    \<Rightarrow> (string \<times> string) list \<times> nat \<times> pyval list" where
  "quarantine_pdf_attachments sha put_error doc parent_filename layer_prefix =
     (case pd_embfiles doc of
        Inl _ \<Rightarrow> ([], 0, [])
      | Inr entries \<Rightarrow>
          if entries = [] then ([], 0, [])
          else if 256 < length entries then
            ([], 0, [warn ''attachment_quarantine_failed''
                       [(''error'', PStr ''too_many_attachments''), (''count'', PInt (int (length entries)))]])
          else
            let rs = map (\<lambda>(i, e). quarantine_one sha put_error (layer_prefix @ parent_filename) i e)
                       (enumerate 0 entries);
                puts = List.map_filter fst rs
            in (puts, length puts, map snd rs))"

section \<open>The index of sections is the forward fill of the table of contents\<close>

definition title_in_force :: "int \<Rightarrow> (int \<times> string) list \<Rightarrow> string option" where
  "title_in_force n es =
     (let xs = filter (\<lambda>e. fst e \<le> n) es in if xs = [] then None else Some (snd (last xs)))"

lemma toc_advance_sorted:
  assumes "sorted (map fst es)"
  shows "toc_advance n current es =
    ((let xs = filter (\<lambda>e. fst e \<le> n) es in if xs = [] then current else Some (snd (last xs))),
     filter (\<lambda>e. n < fst e) es)"
  using assms
proof (induction n current es rule: toc_advance.induct)
  case (1 n current)
  then show ?case by simp
next
  case (2 n current p t es)
  show ?case
  proof (cases "p \<le> n")
    case True
    with 2 show ?thesis by (auto simp: Let_def)
  next
    case False
    with 2 have "filter (\<lambda>e. fst e \<le> n) es = []" "filter (\<lambda>e. n < fst e) es = es"
      by (auto simp: filter_empty_conv filter_id_conv)
    with False show ?thesis by simp
  qed
qed

lemma title_in_force_append:
  assumes "sorted (map fst es)" and "m \<le> n"
  shows "title_in_force n es =
    (let xs = filter (\<lambda>e. fst e \<le> n) (filter (\<lambda>e. m < fst e) es) in
       if xs = [] then title_in_force m es else Some (snd (last xs)))"
proof -
  have split: "filter (\<lambda>e. fst e \<le> n) es =
      filter (\<lambda>e. fst e \<le> m) es @ filter (\<lambda>e. fst e \<le> n) (filter (\<lambda>e. m < fst e) es)"
    using assms
  proof (induction es)
    case Nil
    then show ?case by simp
  next
    case (Cons e es)
    show ?case
    proof (cases "fst e \<le> m")
      case True
      with Cons show ?thesis by auto
    next
      case False
      with Cons.prems have "filter (\<lambda>e. fst e \<le> m) es = []" by (auto simp: filter_empty_conv)
      with False Cons show ?thesis by auto
    qed
  qed
  show ?thesis
    unfolding title_in_force_def split by (simp add: Let_def)
qed

lemma toc_fill_lookup:
  assumes "sorted (map fst es)" and "m \<le> a"
  shows "map_of (toc_fill [a..b] (title_in_force m es) (filter (\<lambda>e. m < fst e) es)) n =
    (if a \<le> n \<and> n \<le> b then title_in_force n es else None)"
  using assms(2)
proof (induction "nat (b + 1 - a)" arbitrary: a m)
  case 0
  then show ?case by auto
next
  case (Suc k)
  then have "a \<le> b" by simp
  have adv: "toc_advance a (title_in_force m es) (filter (\<lambda>e. m < fst e) es) =
      (title_in_force a es, filter (\<lambda>e. a < fst e) es)"
  proof -
    have "filter (\<lambda>e. a < fst e) (filter (\<lambda>e. m < fst e) es) = filter (\<lambda>e. a < fst e) es"
      using Suc.prems by (auto simp: filter_filter intro!: filter_cong)
    moreover have "sorted (map fst (filter (\<lambda>e. m < fst e) es))"
      using assms(1) by (rule sorted_filter)
    ultimately show ?thesis
      using title_in_force_append [OF assms(1) Suc.prems] by (simp add: toc_advance_sorted)
  qed
  have rest: "map_of (toc_fill [a + 1..b] (title_in_force a es) (filter (\<lambda>e. a < fst e) es)) n =
      (if a + 1 \<le> n \<and> n \<le> b then title_in_force n es else None)"
    using Suc.hyps(2) by (intro Suc.hyps(1)) auto
  show ?case
    using \<open>a \<le> b\<close> rest
    by (cases "n = a"; cases "title_in_force a es") (auto simp: upto_rec1 adv)
qed

text \<open>
  The section of a page is the title of the last entry of the table of contents, in page
  order, at or before the page; pages before the first entry have none.
\<close>

lemma toc_index_forward_fill:
  assumes "pd_toc doc = Inr toc" and "1 \<le> n" and "n \<le> pd_page_count doc"
  shows "map_of (build_toc_index doc) n = title_in_force n (toc_entries toc)"
proof (cases "toc_entries toc = []")
  case True
  then show ?thesis using assms(1) by (simp add: build_toc_index_def title_in_force_def)
next
  case False
  let ?es = "toc_entries toc"
  have sorted: "sorted (map fst ?es)" by (simp add: toc_entries_def)
  have positive: "0 < fst e" if "e \<in> set ?es" for e
  proof -
    from that obtain r where "r \<in> set toc" "toc_entry r = Some e"
      by (auto simp: toc_entries_def List.map_filter_def)
    then show ?thesis
      by (auto elim!: toc_entry.elims simp: Let_def split: pyval.splits if_splits)
  qed
  then have start: "filter (\<lambda>e. fst e \<le> 0) ?es = []" "filter (\<lambda>e. 0 < fst e) ?es = ?es"
    by (simp_all add: filter_empty_conv filter_id_conv linorder_not_le)
  then have none: "title_in_force 0 ?es = None" by (simp add: title_in_force_def)
  show ?thesis
    using toc_fill_lookup [OF sorted, of 0 1 "pd_page_count doc" n] False assms
    by (simp add: build_toc_index_def Let_def start none)
qed

definition demo_doc :: pdf_doc where
  "demo_doc = \<lparr>pd_is_encrypted = False, pd_needs_pass = False, pd_metadata = Inr PNone,
     pd_pdfa = (None, None),
     pd_toc = Inr [[PInt 1, PStr ''Methods'', PInt 3], [PInt 1, PStr '' Intro '', PInt 2]],
     pd_page_count = 4, pd_xref_length = Inr 10, pd_embfiles = Inr [], pd_pages = []\<rparr>"

lemma toc_index_forward_fill_witness:
  "map_of (build_toc_index demo_doc) 1 = None \<and> map_of (build_toc_index demo_doc) 2 = Some ''Intro'' \<and>
   map_of (build_toc_index demo_doc) 4 = Some ''Methods''"
proof -
  have toc: "pd_toc demo_doc = Inr [[PInt 1, PStr ''Methods'', PInt 3], [PInt 1, PStr '' Intro '', PInt 2]]"
    and count: "pd_page_count demo_doc = 4"
    by (simp_all add: demo_doc_def)
  have es: "toc_entries [[PInt 1, PStr ''Methods'', PInt 3], [PInt 1, PStr '' Intro '', PInt 2]] =
      [(2, ''Intro''), (3, ''Methods'')]"
    by code_simp
  show ?thesis
    using toc_index_forward_fill [OF toc, of 1] toc_index_forward_fill [OF toc, of 2]
      toc_index_forward_fill [OF toc, of 4]
    unfolding es count by (simp add: title_in_force_def)
qed

end
