(* ===== verification/PdfPipeline.thy ===== *)
theory PdfPipeline
  imports PdfDoc ManifestChoke "HOL-Library.AList"
begin

text \<open>
  The PDF index pipeline (\<open>src/audittrace/routes/memory_pdf/pipeline.py\<close>, \<open>manifest.py\<close>, and the
  writers of the vector store it calls in \<open>routes/memory.py\<close> and \<open>services/semantic.py\<close>).

  A run carries the stores the pipeline writes (vector store, object store, manifest table, the
  caller's outcome and detail lists) and the per-document variables that the exception handler
  reads, so that a raise leaves exactly what the code would leave. The environment answers for
  the third-party parts: the parser, the object store, the digest, the signature check, the clock.
\<close>

section \<open>Environment, call and run\<close>

record pdf_settings =
  ps_max_size_mb :: int
  ps_max_pages :: int
  ps_max_xref_count :: int
  ps_parse_timeout_seconds :: int
  ps_max_page_text_bytes :: int
  ps_redaction_policy :: string
  ps_ocr_enabled :: bool

type_synonym vstore = "(string \<times> string \<times> metadata) list"

text \<open>
  \<open>pe_elapsed\<close> answers in milliseconds; \<open>pe_batch_error\<close> is the failure of embedding or
  upserting a batch of chunks; \<open>pe_percent\<close> is the literal of the rounded ratio of two counts.
\<close>

record pdf_env =
  pe_settings :: pdf_settings
  pe_read :: "string \<Rightarrow> string option"
  pe_open :: "string \<Rightarrow> (exc, pdf_doc) res"
  pe_sha256 :: "string \<Rightarrow> string"
  pe_signature :: "string \<Rightarrow> string"
  pe_ltv :: "string \<Rightarrow> pyval option"
  pe_parse_date :: "string \<Rightarrow> string option"
  pe_percent :: "nat \<Rightarrow> int \<Rightarrow> string"
  pe_elapsed :: "nat \<Rightarrow> int"
  pe_batch_error :: "string list \<Rightarrow> exc option"
  pe_get_error :: "string list \<Rightarrow> exc option"
  pe_put_error :: "string \<Rightarrow> exc option"
  pe_manifest_error :: "string \<Rightarrow> bool"
  pe_now :: int
  pe_uid :: "string \<Rightarrow> string"

record pdf_call =
  pl_col_name :: string
  pl_category :: string
  pl_layer_prefix :: string
  pl_user_id :: string
  pl_ingestion_ts_ms :: int
  pl_user :: user_context
  pl_manifest :: bool
  pl_details :: bool
  pl_dry_run :: bool
  pl_shared :: bool
  pl_tier :: string

record pdf_run =
  r_store :: vstore
  r_objects :: "(string \<times> string) list"
  r_table :: table
  r_outcomes :: "bool list"
  r_total :: nat
  r_details :: "pyval list"
  r_warnings :: "pyval list"
  r_attachments :: nat
  r_forms :: nat
  r_ocr_pages :: nat
  r_page_count :: "int option"
  r_title :: "string option"
  r_author :: "string option"
  r_creator :: "string option"
  r_date :: "string option"
  r_pdfa :: "string option \<times> string option"
  r_ltv :: "pyval option"
  r_chunks :: nat

definition run_bind ::
  "pdf_run \<times> (exc, 'a) res \<Rightarrow> (pdf_run \<Rightarrow> 'a \<Rightarrow> pdf_run \<times> (exc, 'b) res) \<Rightarrow> pdf_run \<times> (exc, 'b) res" where
  "run_bind x f = (case x of (r, Inl e) \<Rightarrow> (r, Inl e) | (r, Inr a) \<Rightarrow> f r a)"

lemma run_bind_simps [simp]:
  "run_bind (r, Inl e) f = (r, Inl e)" "run_bind (r, Inr a) f = f r a"
  by (simp_all add: run_bind_def)

definition add_warnings :: "pyval list \<Rightarrow> pdf_run \<Rightarrow> pdf_run" where
  "add_warnings ws r = r\<lparr>r_warnings := r_warnings r @ ws\<rparr>"

definition record_outcome :: "bool \<Rightarrow> pdf_run \<Rightarrow> pdf_run" where
  "record_outcome ok r = r\<lparr>r_outcomes := r_outcomes r @ [ok]\<rparr>"

definition manifest_layer :: "pdf_call \<Rightarrow> string" where
  "manifest_layer c = rev (dropWhile (\<lambda>x. x = CHR ''/'') (rev (pl_layer_prefix c)))"

section \<open>The vector store\<close>

definition doc_id :: "(string \<Rightarrow> string) \<Rightarrow> string \<Rightarrow> string \<Rightarrow> nat \<Rightarrow> string" where
  "doc_id sha collection source i =
     take 16 (sha (collection @ '':'' @ source @ '':'' @ py_str_int (int i)))"

fun map_res :: "('a \<Rightarrow> ('e, 'b) res) \<Rightarrow> 'a list \<Rightarrow> ('e, 'b list) res" where
  "map_res f [] = Inr []"
| "map_res f (x # xs) = res_bind (f x) (\<lambda>y. res_bind (map_res f xs) (\<lambda>ys. Inr (y # ys)))"

definition lift_manifest :: "(manifest_error, 'a) res \<Rightarrow> (exc, 'a) res" where
  "lift_manifest r = (case r of Inl e \<Rightarrow> Inl (ManifestExc e) | Inr x \<Rightarrow> Inr x)"

definition chroma_ids :: "user_context \<Rightarrow> string \<Rightarrow> string list \<Rightarrow> (exc, string list) res" where
  "chroma_ids user tier ids =
     (if tier = ''corpus'' then Inr ids else lift_manifest (map_res (private_physical_id user) ids))"

text \<open>
  \<open>check_private_targets\<close>: every target that holds a row must hold a new-form row of the caller.
\<close>

fun foreign_target :: "vstore \<Rightarrow> string \<Rightarrow> (string \<times> string) list \<Rightarrow> string option" where
  "foreign_target store owner [] = None"
| "foreign_target store owner ((cid, logical) # ts) =
     (case map_of store cid of
        None \<Rightarrow> foreign_target store owner ts
      | Some (_, meta) \<Rightarrow>
          if new_form_owner (Some meta) \<noteq> Some owner then Some logical
          else foreign_target store owner ts)"

definition check_private_targets ::
  "(string list \<Rightarrow> exc option) \<Rightarrow> vstore \<Rightarrow> user_context \<Rightarrow> string \<Rightarrow> string list \<Rightarrow> (exc, unit) res" where
  "check_private_targets get_error store user collection ids =
     res_bind (lift_manifest (map_res (private_physical_id user) ids)) (\<lambda>cids.
       if ids = [] then Inr ()
       else (case get_error cids of
               Some e \<Rightarrow> Inl e
             | None \<Rightarrow>
                 (case foreign_target store (uc_user_id user) (zip cids ids) of
                    Some logical \<Rightarrow> Inl (ChromaIdConflict collection logical)
                  | None \<Rightarrow> Inr ())))"

definition store_put :: "vstore \<Rightarrow> (string \<times> string \<times> metadata) list \<Rightarrow> vstore" where
  "store_put store rows = foldl (\<lambda>s (k, v). AList.update k v s) store rows"

function upsert_in_batches ::
  "pdf_env \<Rightarrow> (string \<times> string \<times> metadata) list \<Rightarrow> vstore \<Rightarrow> vstore \<times> (exc, unit) res" where
  "upsert_in_batches env rows store =
     (if rows = [] then (store, Inr ())
      else let batch = take INDEX_BATCH_SIZE rows in
           case pe_batch_error env (map (fst \<circ> snd) batch) of
             Some e \<Rightarrow> (store, Inl e)
           | None \<Rightarrow> upsert_in_batches env (drop INDEX_BATCH_SIZE rows) (store_put store batch))"
  by pat_completeness auto
termination
  by (relation "measure (\<lambda>(env, rows, store). length rows)") (auto simp: INDEX_BATCH_SIZE_def)

declare upsert_in_batches.simps [simp del]

section \<open>The manifest write\<close>

definition opt_str :: "string option \<Rightarrow> pyval" where
  "opt_str x = (case x of None \<Rightarrow> PNone | Some s \<Rightarrow> PStr s)"

definition flush_pdf_manifest ::
  "pdf_env \<Rightarrow> pdf_call \<Rightarrow> string \<Rightarrow> nat \<Rightarrow> pdf_columns \<Rightarrow> nat \<Rightarrow> bool \<Rightarrow> string option \<Rightarrow> bool \<Rightarrow> pdf_run
    \<Rightarrow> pdf_run \<times> (exc, unit) res" where
  "flush_pdf_manifest env c key sz cols chunks ok error with_manifest r =
     (let layer = manifest_layer c;
          entry = PDict
            [(''file'', PStr (if py_startswith key (layer @ ''/'') then key else layer @ ''/'' @ key)),
             (''chunks'', PInt (int chunks)), (''signature_status'', opt_str (pc_signature_status cols)),
             (''page_count'', case pc_page_count cols of None \<Rightarrow> PNone | Some n \<Rightarrow> PInt n),
             (''extraction_warnings'', case pc_extraction_warnings cols of None \<Rightarrow> PNone | Some w \<Rightarrow> w),
             (''document_sha256'', opt_str (pc_document_sha256 cols)),
             (''pdf_title'', opt_str (pc_pdf_title cols)), (''pdf_author'', opt_str (pc_pdf_author cols)),
             (''pdf_creator'', opt_str (pc_pdf_creator cols)),
             (''pdf_creation_date'', opt_str (pc_pdf_creation_date cols)),
             (''pdfa_part'', opt_str (pc_pdfa_part cols)),
             (''pdfa_conformance'', opt_str (pc_pdfa_conformance cols)),
             (''ltv_data'', case pc_ltv_data cols of None \<Rightarrow> PNone | Some v \<Rightarrow> v),
             (''ok'', PBool ok), (''error'', opt_str error)];
          r' = (if pl_details c then r\<lparr>r_details := r_details r @ [entry]\<rparr> else r)
      in if \<not> (pl_manifest c \<and> with_manifest) \<or> pe_manifest_error env key then (r', Inr ())
         else (case upsert_pdf_metadata (pe_now env) (pe_uid env key) (r_table r') layer key
                      (pl_user_id c) (Some (int sz)) cols (pl_shared c) of
                 Inr (t, _) \<Rightarrow> (r'\<lparr>r_table := t\<rparr>, Inr ())
               | Inl e \<Rightarrow> if is_authorization_error e then (r', Inl (ManifestExc e)) else (r', Inr ())))"

text \<open>The columns of a rejection before the document is parsed, and of one after.\<close>

definition early_columns :: "pyval list \<Rightarrow> string option \<Rightarrow> string option \<Rightarrow> pdf_columns" where
  "early_columns warnings signature sha =
     no_pdf\<lparr>pc_signature_status := signature, pc_attachment_count := Some 0,
       pc_form_field_count := Some 0, pc_extraction_warnings := Some (PList warnings),
       pc_document_sha256 := sha\<rparr>"

definition shape_columns :: "pdf_run \<Rightarrow> string \<Rightarrow> string \<Rightarrow> pdf_columns" where
  "shape_columns r signature sha =
     (early_columns (r_warnings r) (Some signature) (Some sha))
       \<lparr>pc_page_count := r_page_count r, pc_pdf_title := r_title r, pc_pdf_author := r_author r,
        pc_pdf_creator := r_creator r, pc_pdf_creation_date := r_date r\<rparr>"

definition final_columns :: "pdf_run \<Rightarrow> string \<Rightarrow> string \<Rightarrow> pyval option \<Rightarrow> pdf_columns" where
  "final_columns r signature sha ocr =
     (shape_columns r signature sha)
       \<lparr>pc_ocr_coverage_pct := ocr, pc_attachment_count := Some (int (r_attachments r)),
        pc_form_field_count := Some (int (r_forms r)), pc_pdfa_part := fst (r_pdfa r),
        pc_pdfa_conformance := snd (r_pdfa r), pc_ltv_data := r_ltv r\<rparr>"

section \<open>One page\<close>

datatype page_sel =
    SelBreak "pyval list"
  | SelText string string "pyval list"

text \<open>The text of a page under the redaction policy, with the status of its chunks.\<close>

definition page_select :: "pdf_env \<Rightarrow> nat \<Rightarrow> pdf_page \<Rightarrow> (exc, page_sel) res" where
  "page_select env n page =
     (let rects = redaction_rects page;
          policy = ps_redaction_policy (pe_settings env);
          count = [(''redaction_count'', PInt (int (length rects)))]
      in if rects \<noteq> []
         then if policy = ''reject'' then Inr (SelBreak [page_warn ''redaction_rejected'' n count])
              else if policy = ''clip-extract''
              then res_bind (text_clipped_around_redactions page rects) (\<lambda>t.
                     Inr (SelText t ''clipped'' [page_warn ''redaction_clipped'' n count]))
              else Inr (SelBreak [])
         else res_bind (pp_text page) (\<lambda>t. Inr (SelText t ''none'' [])))"

text \<open>The literal of a confidence in thousandths.\<close>

definition strip_zeros :: "string \<Rightarrow> string" where
  "strip_zeros s = (let t = rev (dropWhile (\<lambda>c. c = CHR ''0'') (rev s)) in if t = [] then ''0'' else t)"

definition conf_literal :: "int \<Rightarrow> string" where
  "conf_literal c =
     py_str_int (c div 1000) @ ''.'' @
     strip_zeros (drop 1 (digits_of (nat (1000 + c mod 1000))))"

text \<open>
  The text that is chunked: what remains of the page text, else what OCR finds on a page with
  images. \<open>Inl\<close> holds the warnings of a page without text, \<open>Inr\<close> the text, its source, the
  confidence, the OCR pages counted and the warnings.
\<close>

definition page_content ::
  "pdf_env \<Rightarrow> nat \<Rightarrow> pdf_page \<Rightarrow> string \<Rightarrow> pyval list + string \<times> string \<times> int \<times> nat \<times> pyval list" where
  "page_content env n page raw_text =
     (let t = py_strip raw_text in
      if t \<noteq> [] then Inr (t, ''native'', 1000, 0, [])
      else if (case pp_images page of Inl _ \<Rightarrow> False | Inr b \<Rightarrow> b)
      then let (ocr_text, source, conf) = ocr_render_page (ps_ocr_enabled (pe_settings env)) page in
           if source = ''ocr'' \<and> ocr_text \<noteq> []
           then Inr (ocr_text, ''ocr'', conf, 1,
                  if conf < 600 then [page_warn ''ocr_low_confidence'' n [(''confidence'', PFloat (conf_literal conf))]] else [])
           else Inl [page_warn ''no_text_layer'' n []]
      else Inl [])"

definition chunk_metadata ::
  "pdf_call \<Rightarrow> string \<Rightarrow> string \<Rightarrow> string \<Rightarrow> string \<Rightarrow> nat \<Rightarrow> string option \<Rightarrow> pdf_page \<Rightarrow> string \<Rightarrow> int
    \<Rightarrow> string \<Rightarrow> bool \<Rightarrow> nat \<Rightarrow> metadata" where
  "chunk_metadata c filename source_key sha signature n section page src conf redaction is_form i =
     (case pp_bbox page of (x0, y0, x1, y1) \<Rightarrow>
     [(''source'', PStr filename), (''source_key'', PStr source_key),
      (''category'', PStr (pl_category c)), (''file_type'', PStr ''pdf''),
      (''page'', PInt (int n)), (''chunk'', PInt (int i))] @
     (case section of None \<Rightarrow> [] | Some t \<Rightarrow> [(''toc_section'', PStr t)]) @
     [(''bbox_x0'', PFloat x0), (''bbox_y0'', PFloat y0),
      (''bbox_x1'', PFloat x1), (''bbox_y1'', PFloat y1),
      (''text_source'', PStr (if is_form then ''form_field'' else src)),
      (''extraction_confidence'', PFloat (conf_literal conf)),
      (''document_hash'', PStr sha), (''signature_status'', PStr signature),
      (''redaction_status'', PStr redaction), (''user_id'', PStr (pl_user_id c)),
      (''ingestion_ts_ms'', PInt (pl_ingestion_ts_ms c)),
      (''chunk_type'', PStr (if is_form then ''form_field'' else ''text'')),
      (''tier'', PStr (pl_tier c))] @
     (if pl_tier c \<noteq> ''corpus'' then [(''id_form'', PStr ID_FORM_LC9)] else []))"

text \<open>The chunks of a page are written to the vector store, a private page only over own rows.\<close>

definition write_page ::
  "pdf_env \<Rightarrow> pdf_call \<Rightarrow> string list \<Rightarrow> string list \<Rightarrow> metadata list \<Rightarrow> pdf_run \<Rightarrow> pdf_run \<times> (exc, unit) res" where
  "write_page env c ids chunks metas r =
     (if pl_dry_run c then (r, Inr ())
      else
        case (if pl_tier c \<noteq> ''corpus''
              then check_private_targets (pe_get_error env) (r_store r) (pl_user c) (pl_col_name c) ids
              else Inr ()) of
          Inl e \<Rightarrow> (r, Inl e)
        | Inr _ \<Rightarrow>
            (case chroma_ids (pl_user c) (pl_tier c) ids of
               Inl e \<Rightarrow> (r, Inl e)
             | Inr cids \<Rightarrow>
                 (case upsert_in_batches env (zip cids (zip chunks metas)) (r_store r) of
                    (store, Inl e) \<Rightarrow> (r\<lparr>r_store := store\<rparr>, Inl e)
                  | (store, Inr _) \<Rightarrow>
                      (r\<lparr>r_store := store, r_total := r_total r + length chunks\<rparr>, Inr ()))))"

definition chunks_of :: "string \<Rightarrow> string list" where
  "chunks_of t = the (chunk_text t CHUNK_SIZE CHUNK_OVERLAP)"

definition index_page ::
  "pdf_env \<Rightarrow> pdf_call \<Rightarrow> string \<Rightarrow> string \<Rightarrow> string \<Rightarrow> string \<Rightarrow> (int \<times> string) list
    \<Rightarrow> nat \<Rightarrow> pdf_page \<Rightarrow> string \<Rightarrow> string \<Rightarrow> pdf_run \<Rightarrow> pdf_run \<times> (exc, unit) res" where
  "index_page env c filename source_key sha signature toc n page raw_text redaction r =
     (let cap = ps_max_page_text_bytes (pe_settings env) in
      if int (length raw_text) > cap
      then (add_warnings [page_warn ''max_page_text'' n
              [(''extracted_bytes'', PInt (int (length raw_text))), (''cap'', PInt cap)]] r, Inr ())
      else
        case page_content env n page raw_text of
          Inl ws \<Rightarrow> (add_warnings ws r, Inr ())
        | Inr (t, src, conf, ocr, ws) \<Rightarrow>
            let (form_text, fields) = acroform_text_for_page page;
                form = (case form_text of None \<Rightarrow> [] | Some f \<Rightarrow> f);
                has_form = form \<noteq> [] \<and> 0 < fields;
                r1 = (add_warnings (ws @ (if has_form
                        then [page_warn ''form_fields'' n [(''field_count'', PInt (int fields))]] else [])) r)
                       \<lparr>r_ocr_pages := r_ocr_pages r + ocr,
                        r_forms := r_forms r + (if has_form then fields else 0)\<rparr>;
                chunks = (if t \<noteq> [] then chunks_of t else []) @ (if form \<noteq> [] then [form] else [])
            in if chunks = [] then (r1, Inr ())
               else
                 let ids = map (doc_id (pe_sha256 env) (pl_col_name c)
                                  (source_key @ '':p'' @ py_str_int (int n))) [0..<length chunks];
                     metas = map (\<lambda>i. chunk_metadata c filename source_key sha signature n
                                  (map_of toc (int n)) page src conf redaction
                                  (form \<noteq> [] \<and> i = length chunks - 1) i) [0..<length chunks]
                 in run_bind (write_page env c ids chunks metas r1) (\<lambda>r2 _.
                      (r2\<lparr>r_chunks := r_chunks r2 + length chunks\<rparr>, Inr ())))"

text \<open>The pages in order, until the budget is spent or a redaction stops the document.\<close>

fun page_loop ::
  "pdf_env \<Rightarrow> pdf_call \<Rightarrow> string \<Rightarrow> string \<Rightarrow> string \<Rightarrow> string \<Rightarrow> (int \<times> string) list
    \<Rightarrow> (nat \<times> (exc, pdf_page) res) list \<Rightarrow> pdf_run \<Rightarrow> pdf_run \<times> (exc, unit) res" where
  "page_loop env c filename source_key sha signature toc [] r = (r, Inr ())"
| "page_loop env c filename source_key sha signature toc ((n, loaded) # ps) r =
     (case loaded of
        Inl e \<Rightarrow> (r, Inl e)
      | Inr page \<Rightarrow>
          if pe_elapsed env n > ps_parse_timeout_seconds (pe_settings env) * 1000
          then (add_warnings [warn ''parse_timeout'' [(''pages_processed'', PInt (int n - 1))]] r, Inr ())
          else
            case page_select env n page of
              Inl e \<Rightarrow> (r, Inl e)
            | Inr (SelBreak ws) \<Rightarrow> (add_warnings ws r, Inr ())
            | Inr (SelText t redaction ws) \<Rightarrow>
                run_bind
                  (index_page env c filename source_key sha signature toc n page t redaction (add_warnings ws r))
                  (\<lambda>r' _. page_loop env c filename source_key sha signature toc ps r'))"

section \<open>One document\<close>

text \<open>
  A rejection: the warning, the manifest write, the outcome. The answer tells whether the document
  was accepted.
\<close>

definition reject ::
  "pdf_env \<Rightarrow> pdf_call \<Rightarrow> string \<Rightarrow> nat \<Rightarrow> string \<Rightarrow> (string \<times> pyval) list \<Rightarrow> (pdf_run \<Rightarrow> pdf_columns)
    \<Rightarrow> pdf_run \<Rightarrow> pdf_run \<times> (exc, bool) res" where
  "reject env c key sz code details columns r =
     (let r' = add_warnings [warn code details] r in
      run_bind (flush_pdf_manifest env c key sz (columns r') 0 False (Some code) True r') (\<lambda>r'' _.
        (record_outcome False r'', Inr False)))"

definition read_metadata :: "pdf_env \<Rightarrow> pdf_doc \<Rightarrow> pdf_run \<Rightarrow> pdf_run" where
  "read_metadata env doc r =
     (let (title, author, creator, date, codes) = extract_pdf_metadata (pe_parse_date env) doc
      in add_warnings (map (\<lambda>code. warn code [(''page'', PNone)]) codes) r
           \<lparr>r_title := title, r_author := author, r_creator := creator, r_date := date,
            r_pdfa := pd_pdfa doc, r_page_count := Some (pd_page_count doc)\<rparr>)"

text \<open>The part of the code under its \<open>try\<close>.\<close>

definition extract_document ::
  "pdf_env \<Rightarrow> pdf_call \<Rightarrow> string \<Rightarrow> string \<Rightarrow> string \<Rightarrow> string \<Rightarrow> string \<Rightarrow> string \<Rightarrow> pdf_run
    \<Rightarrow> pdf_run \<times> (exc, bool) res" where
  "extract_document env c key filename source_key raw sha signature r =
     (let st = pe_settings env; sz = length raw in
      case pe_open env raw of
        Inl e \<Rightarrow> (r, Inl e)
      | Inr doc \<Rightarrow>
          if pdf_is_encrypted doc
          then reject env c key sz ''encrypted'' [(''page'', PNone)]
                 (\<lambda>r'. early_columns (r_warnings r') (Some signature) (Some sha)) r
          else
            let r1 = read_metadata env doc r; toc = build_toc_index doc in
            if pd_page_count doc > ps_max_pages st
            then reject env c key sz ''max_pages''
                   [(''page_count'', PInt (pd_page_count doc)), (''cap'', PInt (ps_max_pages st))]
                   (\<lambda>r'. shape_columns r' signature sha) r1
            else
              case pd_xref_length doc of
                Inl e \<Rightarrow> (r1, Inl e)
              | Inr xrefs \<Rightarrow>
                  if xrefs > ps_max_xref_count st
                  then reject env c key sz ''max_xref''
                         [(''xref_count'', PInt xrefs), (''cap'', PInt (ps_max_xref_count st))]
                         (\<lambda>r'. shape_columns r' signature sha) r1
                  else
                    let (puts, n_att, att_warnings) =
                          quarantine_pdf_attachments (pe_sha256 env) (pe_put_error env) doc source_key
                            (pl_layer_prefix c);
                        r2 = add_warnings att_warnings r1
                               \<lparr>r_objects := r_objects r1 @ puts, r_attachments := n_att\<rparr>
                    in run_bind (page_loop env c filename source_key sha signature toc
                                   (enumerate 1 (pd_pages doc)) r2) (\<lambda>r3 _.
                       let ocr = (if 0 < pd_page_count doc
                                  then Some (PFloat (pe_percent env (r_ocr_pages r3) (pd_page_count doc)))
                                  else None)
                       in run_bind (flush_pdf_manifest env c key sz (final_columns r3 signature sha ocr)
                                      (r_chunks r3) True None (\<not> pl_dry_run c) r3) (\<lambda>r4 _.
                            (record_outcome True r4, Inr True))))"

text \<open>The handler: a conflict of vector-store ids passes, everything else is classified.\<close>

definition handle_failure ::
  "pdf_env \<Rightarrow> pdf_call \<Rightarrow> string \<Rightarrow> nat \<Rightarrow> string \<Rightarrow> string \<Rightarrow> exc \<Rightarrow> pdf_run \<Rightarrow> pdf_run \<times> (exc, bool) res" where
  "handle_failure env c key sz sha signature e r =
     (case e of
        ChromaIdConflict col d \<Rightarrow> (r, Inl e)
      | _ \<Rightarrow>
          let code = classify_pdf_extraction_error e;
              r' = add_warnings [warn code [(''page'', PNone)]] r
          in run_bind (flush_pdf_manifest env c key sz (final_columns r' signature sha None) (r_chunks r')
                         False (Some (if exc_text e \<noteq> [] then exc_text e else code)) True r') (\<lambda>r'' _.
               (record_outcome False r'', Inr False)))"

definition fresh_document :: "pdf_run \<Rightarrow> pdf_run" where
  "fresh_document r = r\<lparr>r_warnings := [], r_attachments := 0, r_forms := 0, r_ocr_pages := 0,
     r_page_count := None, r_title := None, r_author := None, r_creator := None, r_date := None,
     r_pdfa := (None, None), r_ltv := None, r_chunks := 0\<rparr>"

text \<open>One object: suffix, bytes, authorization, then the document. A raise ends the whole call.\<close>

definition index_pdf_object ::
  "pdf_env \<Rightarrow> pdf_call \<Rightarrow> string \<times> string \<Rightarrow> pdf_run \<Rightarrow> pdf_run \<times> (exc, bool) res" where
  "index_pdf_object env c obj r =
     (let (key, filename) = obj; st = pe_settings env in
      if \<not> py_endswith (py_lower filename) ''.pdf'' then (record_outcome False r, Inr False)
      else case pe_read env key of
        None \<Rightarrow> (record_outcome False r, Inr False)
      | Some raw \<Rightarrow>
          (case (if pl_manifest c
                 then authorize_write (get_entry (r_table r)) (pl_user c) (manifest_layer c) key ''private'' True
                 else Inr ()) of
             Inl e \<Rightarrow> (r, Inl (ManifestExc e))
           | Inr _ \<Rightarrow>
               let r0 = fresh_document r; sz = length raw;
                   cap = ps_max_size_mb st * 1024 * 1024 in
               if int sz > cap
               then reject env c key sz ''max_size''
                      [(''size_bytes'', PInt (int sz)), (''cap_bytes'', PInt cap)]
                      (\<lambda>r'. early_columns (r_warnings r') None None) r0
               else
                 let source_key = (if py_startswith key (pl_layer_prefix c)
                                   then drop (length (pl_layer_prefix c)) key else key);
                     sha = pe_sha256 env raw; signature = pe_signature env raw;
                     r1 = r0\<lparr>r_ltv := pe_ltv env raw\<rparr>
                 in (case extract_document env c key filename source_key raw sha signature r1 of
                       (r2, Inr ok) \<Rightarrow> (r2, Inr ok)
                     | (r2, Inl e) \<Rightarrow> handle_failure env c key sz sha signature e r2)))"

fun index_pdf_objects ::
  "pdf_env \<Rightarrow> pdf_call \<Rightarrow> (string \<times> string) list \<Rightarrow> pdf_run \<Rightarrow> pdf_run \<times> (exc, nat) res" where
  "index_pdf_objects env c [] r = (r, Inr (r_total r))"
| "index_pdf_objects env c (obj # objs) r =
     run_bind (index_pdf_object env c obj r) (\<lambda>r' _. index_pdf_objects env c objs r')"

end
