(* ===== verification/PdfProps.thy ===== *)
theory PdfProps
  imports PdfPipeline
begin

text \<open>
  What the PDF pipeline does to its stores: the effect of a page, of a document and of a call;
  the closed vocabulary of warnings; private folds write only over the caller's rows; a dry run
  writes no chunk; what a redaction stops and what redacted text can influence.
\<close>

section \<open>The effect of a page\<close>

definition codes_ok :: "pyval list \<Rightarrow> bool" where
  "codes_ok ws \<longleftrightarrow> (\<forall>w \<in> set ws. \<exists>c \<in> set PDF_WARNING_CODES. warning_code w = Some c)"

lemma codes_ok_simps [simp]:
  "codes_ok []"
  "codes_ok (w # ws) \<longleftrightarrow> (\<exists>c \<in> set PDF_WARNING_CODES. warning_code w = Some c) \<and> codes_ok ws"
  "codes_ok (vs @ ws) \<longleftrightarrow> codes_ok vs \<and> codes_ok ws"
  by (auto simp: codes_ok_def)

text \<open>
  Rows the caller does not own as new-form rows stay, when the fold is private; and what a fold adds
  carries its user, so that a filter that leaves out the rows of a user sees nothing new.
\<close>

definition by_user :: "string \<Rightarrow> string \<times> string \<times> metadata \<Rightarrow> bool" where
  "by_user u row \<longleftrightarrow> map_of (snd (snd row)) ''user_id'' = Some (PStr u)"

definition adds_by :: "string \<Rightarrow> bool \<Rightarrow> vstore \<Rightarrow> vstore \<Rightarrow> bool" where
  "adds_by u own_targets s s' \<longleftrightarrow>
     (\<forall>row \<in> set s'. row \<in> set s \<or> by_user u row) \<and>
     (own_targets \<longrightarrow> (\<forall>p. (\<forall>row. by_user u row \<longrightarrow> \<not> p row) \<longrightarrow> filter p s' = filter p s))"

definition protects :: "pdf_call \<Rightarrow> vstore \<Rightarrow> vstore \<Rightarrow> bool" where
  "protects c s s' \<longleftrightarrow>
     (pl_tier c \<noteq> ''corpus'' \<longrightarrow>
       (\<forall>i t m. map_of s i = Some (t, m) \<longrightarrow> new_form_owner (Some m) \<noteq> Some (uc_user_id (pl_user c)) \<longrightarrow>
          map_of s' i = Some (t, m))) \<and>
     adds_by (pl_user_id c) (pl_tier c \<noteq> ''corpus'' \<and> uc_user_id (pl_user c) = pl_user_id c) s s'"

lemma adds_by_refl [simp]: "adds_by u b s s"
  by (simp add: adds_by_def)

lemma adds_by_trans: "adds_by u b s s' \<Longrightarrow> adds_by u b s' s'' \<Longrightarrow> adds_by u b s s''"
  unfolding adds_by_def by (intro conjI ballI impI allI) (blast, simp)

lemma protects_refl [simp]: "protects c s s"
  by (simp add: protects_def)

lemma protects_trans: "protects c s s' \<Longrightarrow> protects c s' s'' \<Longrightarrow> protects c s s''"
  unfolding protects_def using adds_by_trans by blast

definition page_effect :: "pdf_call \<Rightarrow> pdf_run \<Rightarrow> pdf_run \<Rightarrow> bool" where
  "page_effect c r r' \<longleftrightarrow>
     (\<exists>ws. r_warnings r' = r_warnings r @ ws \<and> codes_ok ws) \<and>
     r_outcomes r' = r_outcomes r \<and> r_table r' = r_table r \<and> r_details r' = r_details r \<and>
     r_objects r' = r_objects r \<and> r_total r \<le> r_total r' \<and>
     (pl_dry_run c \<longrightarrow> r_store r' = r_store r \<and> r_total r' = r_total r) \<and>
     protects c (r_store r) (r_store r')"

lemma page_effect_refl [simp]: "page_effect c r r"
  by (simp add: page_effect_def)

lemma page_effect_trans: "page_effect c r r' \<Longrightarrow> page_effect c r' r'' \<Longrightarrow> page_effect c r r''"
  unfolding page_effect_def
  by (auto intro: protects_trans dest: order_trans)

lemma page_effect_warn: "codes_ok ws \<Longrightarrow> page_effect c r (add_warnings ws r)"
  by (auto simp: page_effect_def add_warnings_def)

lemma page_effect_count:
  "page_effect c r (r\<lparr>r_ocr_pages := a, r_forms := b\<rparr>)" "page_effect c r (r\<lparr>r_chunks := k\<rparr>)"
  by (simp_all add: page_effect_def)

subsection \<open>Writing to the vector store\<close>

lemma map_of_store_put_other:
  "i \<notin> fst ` set rows \<Longrightarrow> map_of (store_put store rows) i = map_of store i"
  unfolding store_put_def
  by (induction rows arbitrary: store) (auto simp: update_conv' split: prod.splits)

lemma upsert_in_batches_other:
  "upsert_in_batches env rows store = (store', x) \<Longrightarrow> i \<notin> fst ` set rows \<Longrightarrow>
     map_of store' i = map_of store i"
proof (induction env rows store arbitrary: store' x rule: upsert_in_batches.induct)
  case (1 env rows store)
  show ?case
  proof (cases "rows = []")
    case True
    with 1 show ?thesis by (simp add: upsert_in_batches.simps [of env "[]"])
  next
    case False
    let ?b = "take INDEX_BATCH_SIZE rows"
    show ?thesis
    proof (cases "pe_batch_error env (map (fst \<circ> snd) ?b)")
      case (Some e)
      with False 1 show ?thesis by (simp add: upsert_in_batches.simps [of env rows])
    next
      case None
      have "i \<notin> fst ` set ?b" "i \<notin> fst ` set (drop INDEX_BATCH_SIZE rows)"
        using 1(3) by (auto dest: in_set_takeD in_set_dropD)
      moreover have "upsert_in_batches env (drop INDEX_BATCH_SIZE rows) (store_put store ?b) = (store', x)"
        using 1(2) False None by (simp add: upsert_in_batches.simps [of env rows])
      ultimately show ?thesis
        using 1(1) [OF False refl None] by (simp add: map_of_store_put_other)
    qed
  qed
qed

text \<open>Whatever batch fails, a prefix of the rows is written.\<close>

lemma store_put_append: "store_put s (xs @ ys) = store_put (store_put s xs) ys"
  by (simp add: store_put_def)

lemma upsert_in_batches_prefix:
  "upsert_in_batches env rows store = (store', x) \<Longrightarrow> \<exists>k. store' = store_put store (take k rows) \<and> (x = Inr () \<longrightarrow> k = length rows)"
proof (induction env rows store arbitrary: store' x rule: upsert_in_batches.induct)
  case (1 env rows store)
  show ?case
  proof (cases "rows = []")
    case True
    with 1 show ?thesis by (simp add: upsert_in_batches.simps [of env "[]"] store_put_def)
  next
    case False
    let ?n = INDEX_BATCH_SIZE
    show ?thesis
    proof (cases "pe_batch_error env (map (fst \<circ> snd) (take ?n rows))")
      case (Some e)
      with False 1 show ?thesis
        by (auto simp: upsert_in_batches.simps [of env rows] store_put_def intro: exI [of _ 0])
    next
      case None
      then have "upsert_in_batches env (drop ?n rows) (store_put store (take ?n rows)) = (store', x)"
        using 1(2) False by (simp add: upsert_in_batches.simps [of env rows])
      from 1(1) [OF False refl None this] obtain k where
        k: "store' = store_put (store_put store (take ?n rows)) (take k (drop ?n rows))"
          "x = Inr () \<longrightarrow> k = length (drop ?n rows)" by blast
      show ?thesis
      proof (cases "?n \<le> length rows")
        case True
        then have "take ?n rows @ take k (drop ?n rows) = take (?n + k) rows" by (simp add: take_add)
        with k True show ?thesis by (intro exI [of _ "?n + k"]) (simp add: store_put_append [symmetric])
      next
        case False
        with k show ?thesis by (intro exI [of _ "length rows"]) (simp add: store_put_def)
      qed
    qed
  qed
qed

lemma set_update: "set (AList.update k v s) \<subseteq> insert (k, v) (set s)"
  by (induction s) auto

lemma filter_update:
  "\<not> p (k, v) \<Longrightarrow> (\<And>w. map_of s k = Some w \<Longrightarrow> \<not> p (k, w)) \<Longrightarrow> filter p (AList.update k v s) = filter p s"
  by (induction s) (auto split: if_splits)

lemma adds_by_store_put:
  assumes "\<forall>row \<in> set rows. by_user u row"
    and "b \<Longrightarrow> \<forall>row \<in> set rows. \<forall>w. map_of s (fst row) = Some w \<longrightarrow> by_user u (fst row, w)"
  shows "adds_by u b s (store_put s rows)"
  using assms
proof (induction rows arbitrary: s)
  case (Cons row rows)
  obtain k v where row: "row = (k, v)" by (cases row)
  have new: "by_user u (k, v)" using Cons.prems(1) row by simp
  have "adds_by u b s (AList.update k v s)"
    unfolding adds_by_def
  proof (intro conjI ballI impI allI)
    fix r assume "r \<in> set (AList.update k v s)"
    then show "r \<in> set s \<or> by_user u r" using set_update [of k v s] new by blast
  next
    fix p :: "string \<times> string \<times> metadata \<Rightarrow> bool" assume b and out: "\<forall>r. by_user u r \<longrightarrow> \<not> p r"
    then have "\<And>w. map_of s k = Some w \<Longrightarrow> by_user u (k, w)" using Cons.prems(2) row by auto
    with new out have "\<not> p (k, v)" "\<And>w. map_of s k = Some w \<Longrightarrow> \<not> p (k, w)" by blast+
    then show "filter p (AList.update k v s) = filter p s" by (rule filter_update)
  qed
  moreover have "adds_by u b (AList.update k v s) (store_put (AList.update k v s) rows)"
    by (rule Cons.IH) (use Cons.prems new row in \<open>auto simp: update_conv' by_user_def\<close>)
  ultimately show ?case by (auto simp: store_put_def row intro: adds_by_trans)
qed (simp add: store_put_def)

lemma adds_by_batches:
  assumes "upsert_in_batches env rows s = (s', x)" and "\<forall>row \<in> set rows. by_user u row"
    and "b \<Longrightarrow> \<forall>row \<in> set rows. \<forall>w. map_of s (fst row) = Some w \<longrightarrow> by_user u (fst row, w)"
  shows "adds_by u b s s'"
proof -
  from upsert_in_batches_prefix [OF assms(1)] obtain k where "s' = store_put s (take k rows)" by blast
  then show ?thesis using assms(2,3) by (auto intro!: adds_by_store_put dest: in_set_takeD)
qed

lemma map_res_Inr: "map_res f xs = Inr ys \<Longrightarrow> list_all2 (\<lambda>x y. f x = Inr y) xs ys"
  by (induction xs arbitrary: ys) (auto simp: res_bind_Inr_iff)

lemma foreign_target_None:
  "foreign_target store owner ts = None \<Longrightarrow> (cid, l) \<in> set ts \<Longrightarrow> map_of store cid = Some (t, m) \<Longrightarrow>
     new_form_owner (Some m) = Some owner"
  by (induction store owner ts rule: foreign_target.induct) (auto split: option.splits if_splits)

lemma foreign_target_zip:
  assumes "foreign_target store owner (zip cids ids) = None" and "length cids = length ids"
    and "i \<in> set cids" and "map_of store i = Some (t, m)"
  shows "new_form_owner (Some m) = Some owner"
proof -
  from assms(2,3) obtain l where "(i, l) \<in> set (zip cids ids)" by (rule in_set_impl_in_set_zip1)
  with assms show ?thesis by (blast dest: foreign_target_None)
qed

text \<open>After the check of the private targets, what stands at them is the caller's own.\<close>

lemma checked_targets_own:
  assumes "check_private_targets get_error store u col ids = Inr ()" and cids: "chroma_ids u tier ids = Inr cids"
    and "tier \<noteq> ''corpus''" and i: "i \<in> set cids" "map_of store i = Some (t, m)"
  shows "new_form_owner (Some m) = Some (uc_user_id u)"
proof -
  have ids: "map_res (private_physical_id u) ids = Inr cids"
    using cids assms(3) by (auto simp: chroma_ids_def lift_manifest_def split: sum.splits)
  then have "length cids = length ids" using list_all2_lengthD [OF map_res_Inr [OF ids]] by simp
  moreover have "ids = [] \<or> foreign_target store (uc_user_id u) (zip cids ids) = None"
    using assms(1) ids by (auto simp: check_private_targets_def lift_manifest_def split: option.splits if_splits)
  ultimately show ?thesis
    using foreign_target_zip [of _ _ cids ids i t m] i by (cases "ids = []") auto
qed

lemma new_form_owner_user:
  "new_form_owner (Some m) = Some u \<Longrightarrow> map_of m ''user_id'' = Some (PStr u)"
  by (auto simp: new_form_owner_def split: if_splits option.splits pyval.splits)

lemma write_page_effect:
  assumes run: "write_page env c ids chunks metas r = (r', x)"
    and metas: "\<forall>m \<in> set metas. map_of m ''user_id'' = Some (PStr (pl_user_id c))"
  shows "page_effect c r r'"
proof (cases "pl_dry_run c")
  case True
  with run show ?thesis by (simp add: write_page_def)
next
  case real: False
  show ?thesis
  proof (cases "\<exists>cids. chroma_ids (pl_user c) (pl_tier c) ids = Inr cids \<and>
      (pl_tier c \<noteq> ''corpus'' \<longrightarrow> check_private_targets (pe_get_error env) (r_store r) (pl_user c) (pl_col_name c) ids = Inr ())")
    case False
    with run real have "r' = r"
      by (auto simp: write_page_def split: sum.splits if_splits)
    then show ?thesis by simp
  next
    case True
    then obtain cids where cids: "chroma_ids (pl_user c) (pl_tier c) ids = Inr cids"
      and check: "pl_tier c \<noteq> ''corpus'' \<Longrightarrow>
        check_private_targets (pe_get_error env) (r_store r) (pl_user c) (pl_col_name c) ids = Inr ()"
      by auto
    obtain store y where up: "upsert_in_batches env (zip cids (zip chunks metas)) (r_store r) = (store, y)"
      by fastforce
    have r': "\<exists>k. r' = r\<lparr>r_store := store, r_total := r_total r + k\<rparr>"
      using run real cids check up
      by (cases "pl_tier c = ''corpus''"; cases y) (auto simp: write_page_def intro: exI [of _ 0])
    have own: "new_form_owner (Some m) = Some (uc_user_id (pl_user c))"
      if "pl_tier c \<noteq> ''corpus''" "i \<in> set cids" "map_of (r_store r) i = Some (t, m)" for i t m
      using checked_targets_own [OF check cids] that by blast
    have targets: "fst ` set (zip cids (zip chunks metas)) \<subseteq> set cids" by (auto dest: set_zip_leftD)
    have "adds_by (pl_user_id c) (pl_tier c \<noteq> ''corpus'' \<and> uc_user_id (pl_user c) = pl_user_id c) (r_store r) store"
    proof (rule adds_by_batches [OF up])
      show "\<forall>row \<in> set (zip cids (zip chunks metas)). by_user (pl_user_id c) row"
        using metas by (auto simp: by_user_def dest!: set_zip_rightD)
      assume priv: "pl_tier c \<noteq> ''corpus'' \<and> uc_user_id (pl_user c) = pl_user_id c"
      show "\<forall>row \<in> set (zip cids (zip chunks metas)). \<forall>w. map_of (r_store r) (fst row) = Some w \<longrightarrow>
          by_user (pl_user_id c) (fst row, w)"
      proof (intro ballI allI impI)
        fix row w assume row: "row \<in> set (zip cids (zip chunks metas))" "map_of (r_store r) (fst row) = Some w"
        then have "fst row \<in> set cids" using targets by auto
        with own [of "fst row" "fst w" "snd w"] row priv show "by_user (pl_user_id c) (fst row, w)"
          by (simp add: by_user_def new_form_owner_user)
      qed
    qed
    moreover have "map_of store i = Some (t, m)"
      if "pl_tier c \<noteq> ''corpus''" "map_of (r_store r) i = Some (t, m)"
        "new_form_owner (Some m) \<noteq> Some (uc_user_id (pl_user c))" for i t m
    proof -
      have "i \<notin> fst ` set (zip cids (zip chunks metas))" using own [of i t m] that targets by auto
      then show ?thesis using upsert_in_batches_other [OF up] that by simp
    qed
    ultimately have "protects c (r_store r) store" by (simp add: protects_def)
    with r' real show ?thesis by (auto simp: page_effect_def)
  qed
qed

lemma chunk_metadata_user:
  "map_of (chunk_metadata c fname sk sha sg n sec page src conf red is_form i) ''user_id'' = Some (PStr (pl_user_id c))"
  by (cases "pp_bbox page") (auto simp: chunk_metadata_def split: option.splits)

subsection \<open>Pages\<close>

lemma page_select_ok: "page_select env n page = Inr (SelBreak ws) \<Longrightarrow> codes_ok ws"
  "page_select env n page = Inr (SelText t st ws) \<Longrightarrow> codes_ok ws"
  by (auto simp: page_select_def Let_def res_bind_Inr_iff PDF_WARNING_CODES_def split: if_splits)

lemma page_content_ok: "page_content env n page t = Inl ws \<Longrightarrow> codes_ok ws"
  "page_content env n page t = Inr (u, s, k, o', ws) \<Longrightarrow> codes_ok ws"
  by (auto simp: page_content_def Let_def PDF_WARNING_CODES_def split: if_splits prod.splits)

lemma run_bind_effect:
  assumes "run_bind x f = (r', y)"
    and "\<And>r1 v. x = (r1, v) \<Longrightarrow> page_effect c r r1"
    and "\<And>r1 a. x = (r1, Inr a) \<Longrightarrow> f r1 a = (r', y) \<Longrightarrow> page_effect c r1 r'"
  shows "page_effect c r r'"
  using assms by (cases x; cases "snd x") (auto simp: run_bind_def intro: page_effect_trans)

lemma index_page_effect:
  assumes "index_page env c fname sk sha sg toc n page t st r = (r', x)"
  shows "page_effect c r r'"
proof (cases "int (length t) > ps_max_page_text_bytes (pe_settings env)")
  case True
  with assms show ?thesis
    by (auto simp: index_page_def Let_def PDF_WARNING_CODES_def intro!: page_effect_warn)
next
  case small: False
  show ?thesis
  proof (cases "page_content env n page t")
    case (Inl ws)
    with assms small show ?thesis
      by (auto simp: index_page_def Let_def intro!: page_effect_warn dest: page_content_ok)
  next
    case (Inr v)
    obtain u s k oc ws where v: "v = (u, s, k, oc, ws)" by (cases v) auto
    obtain form_text fields where f: "acroform_text_for_page page = (form_text, fields)" by fastforce
    define form where "form = (case form_text of None \<Rightarrow> [] | Some f \<Rightarrow> f)"
    define fw where "fw = (if form \<noteq> [] \<and> 0 < fields
      then [page_warn ''form_fields'' n [(''field_count'', PInt (int fields))]] else [])"
    define r1 where "r1 = (add_warnings (ws @ fw) r)\<lparr>r_ocr_pages := r_ocr_pages r + oc,
      r_forms := r_forms r + (if form \<noteq> [] \<and> 0 < fields then fields else 0)\<rparr>"
    have ok: "codes_ok (ws @ fw)"
      using Inr v by (auto simp: fw_def PDF_WARNING_CODES_def dest: page_content_ok)
    have r1: "page_effect c r r1"
      unfolding r1_def by (rule page_effect_trans [OF page_effect_warn [OF ok] page_effect_count(1)])
    define chunks where "chunks = (if u \<noteq> [] then chunks_of u else []) @ (if form \<noteq> [] then [form] else [])"
    define ids where "ids = map (doc_id (pe_sha256 env) (pl_col_name c) (sk @ '':p'' @ py_str_int (int n))) [0..<length chunks]"
    define metas where "metas = map (\<lambda>i. chunk_metadata c fname sk sha sg n (map_of toc (int n)) page s k st
      (form \<noteq> [] \<and> i = length chunks - 1) i) [0..<length chunks]"
    have by_caller: "\<forall>m \<in> set metas. map_of m ''user_id'' = Some (PStr (pl_user_id c))"
      by (auto simp: metas_def chunk_metadata_user)
    have "(r', x) = (if chunks = [] then (r1, Inr ()) else run_bind (write_page env c ids chunks metas r1)
        (\<lambda>r2 _. (r2\<lparr>r_chunks := r_chunks r2 + length chunks\<rparr>, Inr ())))"
      using assms small Inr v f
      unfolding index_page_def Let_def chunks_def ids_def metas_def r1_def fw_def form_def by simp
    then have "r' = r1 \<or> (\<exists>r2 y. write_page env c ids chunks metas r1 = (r2, y) \<and>
        (r' = r2 \<or> (\<exists>k. r' = r2\<lparr>r_chunks := k\<rparr>)))"
      by (cases "write_page env c ids chunks metas r1") (auto simp: run_bind_def split: if_splits sum.splits)
    then show ?thesis
      using r1 by (auto intro: page_effect_trans page_effect_count(2) dest: write_page_effect [OF _ by_caller])
  qed
qed

lemma page_loop_effect:
  "page_loop env c fname sk sha sg toc ps r = (r', x) \<Longrightarrow> page_effect c r r'"
proof (induction env c fname sk sha sg toc ps r arbitrary: r' x rule: page_loop.induct)
  case (1 env c fname sk sha sg toc r)
  then show ?case by simp
next
  case (2 env c fname sk sha sg toc n loaded ps r)
  show ?case
  proof (cases loaded)
    case (Inl e)
    with 2 show ?thesis by simp
  next
    case (Inr page)
    show ?thesis
    proof (cases "pe_elapsed env n > ps_parse_timeout_seconds (pe_settings env) * 1000")
      case True
      with 2(2) Inr show ?thesis
        by (auto simp: PDF_WARNING_CODES_def intro!: page_effect_warn)
    next
      case intime: False
      show ?thesis
      proof (cases "page_select env n page")
        case (Inl e)
        with 2(2) Inr intime show ?thesis by simp
      next
        case sel: (Inr ps')
        show ?thesis
        proof (cases ps')
          case (SelBreak ws)
          with 2(2) Inr intime sel show ?thesis
            by (auto intro!: page_effect_warn dest: page_select_ok)
        next
          case (SelText t st ws)
          have first: "page_effect c r (add_warnings ws r)"
            using sel SelText by (auto intro!: page_effect_warn dest: page_select_ok)
          have "run_bind (index_page env c fname sk sha sg toc n page t st (add_warnings ws r))
              (\<lambda>r1 _. page_loop env c fname sk sha sg toc ps r1) = (r', x)"
            using 2(2) Inr intime sel SelText by simp
          then have "page_effect c (add_warnings ws r) r'"
            by (rule run_bind_effect)
              (auto intro: index_page_effect 2(1) [OF Inr intime sel SelText])
          with first show ?thesis by (rule page_effect_trans)
        qed
      qed
    qed
  qed
qed

section \<open>The effect of a document\<close>

definition cols_ok :: "pdf_columns \<Rightarrow> bool" where
  "cols_ok cols \<longleftrightarrow>
     (case pc_extraction_warnings cols of None \<Rightarrow> True | Some (PList ws) \<Rightarrow> codes_ok ws | Some _ \<Rightarrow> False)"

definition table_ok :: "table \<Rightarrow> bool" where
  "table_ok t \<longleftrightarrow> (\<forall>row \<in> set t. cols_ok (mi_pdf row))"

lemma upsert_table_ok:
  assumes "upsert_pdf_metadata now uid t layer key u sz cols shared = Inr (t', en)"
    and "table_ok t" and "cols_ok cols"
  shows "table_ok t'"
proof -
  have "set t' \<subseteq> set t \<union> {row. mi_pdf row = cols}"
    using assms(1) set_put_row
    by (fastforce simp: upsert_pdf_metadata_def res_bind_Inr_iff new_item_def Let_def
        commit_plain_Inr split: option.splits if_splits)
  then show ?thesis using assms(2,3) by (auto simp: table_ok_def)
qed

text \<open>
  A manifest write of the pipeline changes rows in place and only at its keys, keeps everything
  of them but the document columns and the modification, and adds rows only at its keys.
\<close>

definition same_row :: "memory_item \<Rightarrow> memory_item \<Rightarrow> bool" where
  "same_row x y \<longleftrightarrow>
     mi_id y = mi_id x \<and> mi_layer y = mi_layer x \<and> mi_key y = mi_key x \<and> mi_title y = mi_title x \<and>
     mi_created_at_ms y = mi_created_at_ms x \<and> mi_created_by y = mi_created_by x \<and>
     mi_deleted_at_ms y = mi_deleted_at_ms x \<and> mi_tier y = mi_tier x \<and>
     mi_indexed_at_ms y = mi_indexed_at_ms x \<and> mi_index_failed_at_ms y = mi_index_failed_at_ms x \<and>
     mi_index_failure_code y = mi_index_failure_code x"

lemma same_row_refl [simp]: "same_row x x"
  by (simp add: same_row_def)

lemma same_row_trans: "same_row x y \<Longrightarrow> same_row y z \<Longrightarrow> same_row x z"
  by (simp add: same_row_def)

definition never_indexed :: "memory_item \<Rightarrow> bool" where
  "never_indexed x \<longleftrightarrow> mi_indexed_at_ms x = None \<and> mi_index_failed_at_ms x = None \<and>
     mi_index_failure_code x = None"

definition only_at :: "string set \<Rightarrow> table \<Rightarrow> table \<Rightarrow> bool" where
  "only_at K t t' \<longleftrightarrow>
     length t \<le> length t' \<and>
     (\<forall>i < length t. same_row (t ! i) (t' ! i) \<and> (mi_key (t ! i) \<notin> K \<longrightarrow> t' ! i = t ! i)) \<and>
     (\<forall>i. length t \<le> i \<longrightarrow> i < length t' \<longrightarrow>
        mi_key (t' ! i) \<in> K \<and> never_indexed (t' ! i))"

lemma only_at_refl [simp]: "only_at K t t"
  by (simp add: only_at_def)

lemma only_at_mono: "only_at K t t' \<Longrightarrow> K \<subseteq> L \<Longrightarrow> only_at L t t'"
  unfolding only_at_def by blast

lemma only_at_trans:
  assumes "only_at K t t'" and "only_at K t' t''"
  shows "only_at K t t''"
proof -
  have "same_row (t ! i) (t'' ! i) \<and> (mi_key (t ! i) \<notin> K \<longrightarrow> t'' ! i = t ! i)" if "i < length t" for i
  proof -
    have "i < length t'" using assms(1) that by (simp add: only_at_def)
    then show ?thesis
      using assms that unfolding only_at_def by (metis same_row_trans)
  qed
  moreover have "mi_key (t'' ! i) \<in> K \<and> never_indexed (t'' ! i)"
    if "length t \<le> i" "i < length t''" for i
  proof (cases "i < length t'")
    case True
    then have "same_row (t' ! i) (t'' ! i)" "mi_key (t' ! i) \<in> K \<and> never_indexed (t' ! i)"
      using assms that by (auto simp: only_at_def)
    then show ?thesis by (simp add: same_row_def never_indexed_def)
  next
    case False
    then show ?thesis using assms(2) that by (simp add: only_at_def)
  qed
  ultimately show ?thesis using assms by (auto simp: only_at_def)
qed

lemma upsert_only_at:
  assumes "upsert_pdf_metadata now uid t layer key u sz cols shared = Inr (t', en)"
  shows "only_at {key} t t'"
proof (cases "row_at t layer key")
  case None
  then have "t' = t @ [(new_item uid layer key None sz now now u ''corpus'')\<lparr>mi_pdf := cols\<rparr>]"
    using assms by (auto simp: upsert_pdf_metadata_def res_bind_Inr_iff Let_def commit_plain_Inr)
  then show ?thesis by (auto simp: only_at_def nth_append new_item_def never_indexed_def)
next
  case (Some row)
  define row' where "row' = row\<lparr>mi_modified_at_ms := now, mi_modified_by := u,
    mi_size_bytes := (if sz \<noteq> None then sz else mi_size_bytes row), mi_pdf := cols\<rparr>"
  have t': "t' = put_row row' t" and uq: "uq_layer_key (put_row row' t)"
    using assms Some
    by (auto simp: upsert_pdf_metadata_def res_bind_Inr_iff Let_def commit_plain_Inr row'_def split: if_splits)
  have row: "row \<in> set t" "mi_layer row = layer" "mi_key row = key" using row_at_Some [OF Some] by auto
  have place: "same_place row' row" by (simp add: same_place_def row'_def)
  have "same_row (t ! i) (t' ! i) \<and> (mi_key (t ! i) \<noteq> key \<longrightarrow> t' ! i = t ! i)" if "i < length t" for i
  proof (cases "mi_layer (t ! i) = layer \<and> mi_key (t ! i) = key")
    case True
    then have "t ! i = row"
      using put_row_only [OF _ row(1) place, of "t ! i"] uq that row by (simp add: row'_def)
    then show ?thesis
      using that row by (simp add: t' put_row_def map_if_def same_row_def row'_def)
  next
    case False
    then have "t' ! i = t ! i"
      using that row by (auto simp: t' put_row_def map_if_def row'_def)
    then show ?thesis by simp
  qed
  then show ?thesis by (simp add: only_at_def t' put_row_def)
qed

text \<open>What every later effect keeps: the vocabulary, the rows of others, the store of a dry run.\<close>

definition doc_effect :: "pdf_call \<Rightarrow> string set \<Rightarrow> pdf_run \<Rightarrow> pdf_run \<Rightarrow> bool" where
  "doc_effect c K r r' \<longleftrightarrow>
     (codes_ok (r_warnings r) \<longrightarrow> codes_ok (r_warnings r') \<and> (table_ok (r_table r) \<longrightarrow> table_ok (r_table r'))) \<and>
     (pl_dry_run c \<longrightarrow> r_store r' = r_store r \<and> r_total r' = r_total r) \<and>
     protects c (r_store r) (r_store r') \<and> only_at K (r_table r) (r_table r')"

lemma doc_effect_trans: "doc_effect c K r r' \<Longrightarrow> doc_effect c K r' r'' \<Longrightarrow> doc_effect c K r r''"
  unfolding doc_effect_def by (auto intro: protects_trans only_at_trans)

lemma doc_effect_mono: "doc_effect c K r r' \<Longrightarrow> K \<subseteq> L \<Longrightarrow> doc_effect c L r r'"
  unfolding doc_effect_def by (auto intro: only_at_mono)

lemma doc_effect_record [simp]: "doc_effect c K r (record_outcome b r') \<longleftrightarrow> doc_effect c K r r'"
  by (simp add: doc_effect_def record_outcome_def)

lemma page_doc_effect: "page_effect c r r' \<Longrightarrow> doc_effect c K r r'"
  by (auto simp: page_effect_def doc_effect_def)

lemma flush_effect:
  assumes "flush_pdf_manifest env c key sz cols n ok er wm r = (r', x)"
  shows "r_store r' = r_store r \<and> r_total r' = r_total r \<and> r_warnings r' = r_warnings r \<and>
    r_outcomes r' = r_outcomes r \<and> (\<not> wm \<longrightarrow> r_table r' = r_table r) \<and>
    (cols_ok cols \<longrightarrow> table_ok (r_table r) \<longrightarrow> table_ok (r_table r')) \<and>
    only_at {key} (r_table r) (r_table r')"
proof -
  have "\<exists>d t. r' = r\<lparr>r_details := d, r_table := t\<rparr> \<and>
      (t = r_table r \<or> wm \<and> (\<exists>en. upsert_pdf_metadata (pe_now env) (pe_uid env key) (r_table r)
        (manifest_layer c) key (pl_user_id c) (Some (int sz)) cols (pl_shared c) = Inr (t, en)))"
    using assms
    by (intro exI [of _ "r_details r'"] exI [of _ "r_table r'"])
      (auto simp: flush_pdf_manifest_def Let_def split: if_splits sum.splits)
  then show ?thesis
    by (auto intro: upsert_table_ok upsert_only_at)
qed

lemma flush_doc_effect:
  assumes "flush_pdf_manifest env c key sz cols n ok er wm r = (r', x)"
    and "codes_ok (r_warnings r) \<Longrightarrow> cols_ok cols"
  shows "doc_effect c {key} r r'"
  using flush_effect [OF assms(1)] assms(2) by (auto simp: doc_effect_def)

lemma cols_ok_columns:
  "cols_ok (early_columns ws sg sha) \<longleftrightarrow> codes_ok ws"
  "cols_ok (shape_columns r s1 s2) \<longleftrightarrow> codes_ok (r_warnings r)"
  "cols_ok (final_columns r s1 s2 oc) \<longleftrightarrow> codes_ok (r_warnings r)"
  by (simp_all add: cols_ok_def early_columns_def shape_columns_def final_columns_def)

text \<open>An outcome is recorded exactly when the code goes on to the next object.\<close>

definition outcome_recorded :: "pdf_run \<Rightarrow> pdf_run \<times> (exc, bool) res \<Rightarrow> bool" where
  "outcome_recorded r res \<longleftrightarrow>
     r_outcomes (fst res) = r_outcomes r @ (case snd res of Inl _ \<Rightarrow> [] | Inr ok \<Rightarrow> [ok])"

lemma reject_effect:
  assumes "reject env c key sz code details columns r = (r', x)"
    and "code \<in> set PDF_WARNING_CODES"
    and "\<And>r1. codes_ok (r_warnings r1) \<Longrightarrow> cols_ok (columns r1)"
  shows "doc_effect c {key} r r' \<and> outcome_recorded r (r', x)"
proof -
  define r1 where "r1 = add_warnings [warn code details] r"
  obtain r2 y where fl: "flush_pdf_manifest env c key sz (columns r1) 0 False (Some code) True r1 = (r2, y)"
    by fastforce
  have "doc_effect c {key} r r1"
    unfolding r1_def by (intro page_doc_effect page_effect_warn) (simp add: assms(2))
  then have "doc_effect c {key} r r2"
    by (rule doc_effect_trans) (rule flush_doc_effect [OF fl assms(3)])
  moreover have "r_outcomes r2 = r_outcomes r"
    using flush_effect [OF fl] by (simp add: r1_def add_warnings_def)
  moreover have "(case y of Inl e \<Rightarrow> r' = r2 \<and> x = Inl e | Inr _ \<Rightarrow> r' = record_outcome False r2 \<and> x = Inr False)"
    using assms(1) fl unfolding reject_def Let_def r1_def [symmetric]
    by (auto split: sum.splits)
  ultimately show ?thesis
    by (cases y) (auto simp: outcome_recorded_def, simp add: record_outcome_def)
qed

lemma classify_permanent:
  "classify_pdf_extraction_error e \<in> set PERMANENT_INDEX_FAILURE_CODES"
  by (simp add: classify_pdf_extraction_error_def PERMANENT_INDEX_FAILURE_CODES_def Let_def)

lemma permanent_codes: "set PERMANENT_INDEX_FAILURE_CODES \<subseteq> set PDF_WARNING_CODES"
  by (simp add: PERMANENT_INDEX_FAILURE_CODES_def PDF_WARNING_CODES_def)

lemma attachment_codes:
  "quarantine_pdf_attachments sha put_error doc pf lp = (puts, k, ws) \<Longrightarrow> codes_ok ws"
  by (auto simp: quarantine_pdf_attachments_def quarantine_one_def attachment_failed_def Let_def
      codes_ok_def PDF_WARNING_CODES_def split: sum.splits option.splits if_splits)

lemma codes_ok_map:
  "codes_ok (map (\<lambda>code. warn code d) codes) \<longleftrightarrow> set codes \<subseteq> set PDF_WARNING_CODES"
  by (auto simp: codes_ok_def)

lemma read_metadata_effect: "page_effect c r (read_metadata env doc r)"
proof -
  obtain t a k d codes where m: "extract_pdf_metadata (pe_parse_date env) doc = (t, a, k, d, codes)"
    by (cases "extract_pdf_metadata (pe_parse_date env) doc") auto
  have "set codes \<subseteq> {''pdf_metadata_parse_error''}"
    using m by (auto simp: extract_pdf_metadata_def Let_def split: sum.splits pyval.splits option.splits if_splits)
  moreover have "''pdf_metadata_parse_error'' \<in> set PDF_WARNING_CODES"
    by (simp add: PDF_WARNING_CODES_def)
  ultimately have "codes_ok (map (\<lambda>code. warn code [(''page'', PNone)]) codes)"
    unfolding codes_ok_map by blast
  then show ?thesis
    by (simp add: read_metadata_def m page_effect_def add_warnings_def)
qed

lemma outcome_keep: "r_outcomes r = r_outcomes r0 \<Longrightarrow> outcome_recorded r x \<Longrightarrow> outcome_recorded r0 x"
  by (simp add: outcome_recorded_def)

lemma shape_reject:
  assumes "reject env c key sz code details columns r1 = (r', x)" and "code \<in> set PDF_WARNING_CODES"
    and "\<And>r1. codes_ok (r_warnings r1) \<Longrightarrow> cols_ok (columns r1)" and "page_effect c r r1"
  shows "doc_effect c {key} r r' \<and> outcome_recorded r (r', x)"
  using reject_effect [OF assms(1-3)] page_doc_effect [OF assms(4)] assms(4)
  by (auto intro: doc_effect_trans outcome_keep simp: page_effect_def)

lemma finish_document:
  assumes "run_bind (flush_pdf_manifest env c key sz cols n True None wm r3)
      (\<lambda>r4 _. (record_outcome True r4, Inr True)) = (r', x)"
    and "codes_ok (r_warnings r3) \<Longrightarrow> cols_ok cols"
  shows "doc_effect c {key} r3 r' \<and> outcome_recorded r3 (r', x)"
proof -
  obtain r4 y where fl: "flush_pdf_manifest env c key sz cols n True None wm r3 = (r4, y)" by fastforce
  have "doc_effect c {key} r3 r4" by (rule flush_doc_effect [OF fl assms(2)])
  moreover have "r_outcomes r4 = r_outcomes r3" using flush_effect [OF fl] by simp
  ultimately show ?thesis
    using assms(1) fl
    by (auto simp: run_bind_def outcome_recorded_def record_outcome_def doc_effect_def split: sum.splits)
qed

lemma extract_document_effect:
  assumes "extract_document env c key fname sk raw sha sg r = (r', x)"
  shows "doc_effect c {key} r r' \<and> outcome_recorded r (r', x)"
proof (cases "pe_open env raw")
  case (Inl e)
  with assms show ?thesis by (auto simp: extract_document_def doc_effect_def outcome_recorded_def)
next
  case (Inr doc)
  let ?r1 = "read_metadata env doc r"
  note r1 = read_metadata_effect [of c r env doc]
  consider "pdf_is_encrypted doc"
    | "\<not> pdf_is_encrypted doc" "pd_page_count doc > ps_max_pages (pe_settings env)"
    | e where "\<not> pdf_is_encrypted doc" "\<not> pd_page_count doc > ps_max_pages (pe_settings env)"
        "pd_xref_length doc = Inl e"
    | xrefs where "\<not> pdf_is_encrypted doc" "\<not> pd_page_count doc > ps_max_pages (pe_settings env)"
        "pd_xref_length doc = Inr xrefs"
    by (cases "pd_xref_length doc") auto
  then show ?thesis
  proof cases
    case 1
    with assms Inr have "reject env c key (length raw) ''encrypted'' [(''page'', PNone)]
        (\<lambda>r'. early_columns (r_warnings r') (Some sg) (Some sha)) r = (r', x)"
      by (simp add: extract_document_def Let_def)
    then show ?thesis
      by (rule reject_effect) (simp_all add: PDF_WARNING_CODES_def cols_ok_columns)
  next
    case 2
    with assms Inr show ?thesis
      by (intro shape_reject [OF _ _ _ r1, of env key "length raw" "''max_pages''" _
            "\<lambda>r'. shape_columns r' sg sha"])
        (simp_all add: extract_document_def Let_def PDF_WARNING_CODES_def cols_ok_columns)
  next
    case 3
    with assms Inr have "r' = ?r1" "x = Inl e" by (simp_all add: extract_document_def Let_def)
    with r1 show ?thesis by (auto simp: outcome_recorded_def page_effect_def doc_effect_def)
  next
    case 4
    show ?thesis
    proof (cases "xrefs > ps_max_xref_count (pe_settings env)")
      case True
      with 4 assms Inr show ?thesis
        by (intro shape_reject [OF _ _ _ r1, of env key "length raw" "''max_xref''" _
              "\<lambda>r'. shape_columns r' sg sha"])
          (simp_all add: extract_document_def Let_def PDF_WARNING_CODES_def cols_ok_columns)
    next
      case False
      obtain puts k aw where att: "quarantine_pdf_attachments (pe_sha256 env) (pe_put_error env) doc sk
          (pl_layer_prefix c) = (puts, k, aw)"
        by (cases "quarantine_pdf_attachments (pe_sha256 env) (pe_put_error env) doc sk (pl_layer_prefix c)") auto
      define r2 where "r2 = add_warnings aw ?r1\<lparr>r_objects := r_objects ?r1 @ puts, r_attachments := k\<rparr>"
      have r2: "doc_effect c {key} r r2" "r_outcomes r2 = r_outcomes r"
        using r1 attachment_codes [OF att]
        by (auto simp: r2_def add_warnings_def page_effect_def doc_effect_def)
      obtain r3 y where loop: "page_loop env c fname sk sha sg (build_toc_index doc)
          (enumerate 1 (pd_pages doc)) r2 = (r3, y)"
        by fastforce
      note r3 = page_loop_effect [OF loop]
      have r3': "doc_effect c {key} r r3" "r_outcomes r3 = r_outcomes r"
        using doc_effect_trans [OF r2(1) page_doc_effect [OF r3]] r2(2) r3 by (auto simp: page_effect_def)
      show ?thesis
      proof (cases y)
        case (Inl e)
        with 4 False assms Inr att loop have "r' = r3" "x = Inl e"
          by (simp_all add: extract_document_def Let_def r2_def [symmetric])
        with r3' show ?thesis by (simp add: outcome_recorded_def)
      next
        case (Inr v)
        define ocr where "ocr = (if 0 < pd_page_count doc
          then Some (PFloat (pe_percent env (r_ocr_pages r3) (pd_page_count doc))) else None)"
        have "run_bind (flush_pdf_manifest env c key (length raw) (final_columns r3 sg sha ocr)
            (r_chunks r3) True None (\<not> pl_dry_run c) r3) (\<lambda>r4 _. (record_outcome True r4, Inr True)) = (r', x)"
          using 4 False assms \<open>pe_open env raw = Inr doc\<close> att loop Inr
          by (simp add: extract_document_def Let_def r2_def [symmetric] ocr_def)
        then have "doc_effect c {key} r3 r' \<and> outcome_recorded r3 (r', x)"
          by (rule finish_document) (simp add: cols_ok_columns)
        with r3' show ?thesis by (auto intro: doc_effect_trans outcome_keep)
      qed
    qed
  qed
qed

lemma handle_failure_effect:
  assumes "handle_failure env c key sz sha sg e r = (r', x)"
  shows "doc_effect c {key} r r' \<and> outcome_recorded r (r', x)"
proof (cases "\<exists>col d. e = ChromaIdConflict col d")
  case True
  with assms show ?thesis by (auto simp: handle_failure_def doc_effect_def outcome_recorded_def)
next
  case False
  define code where "code = classify_pdf_extraction_error e"
  define r1 where "r1 = add_warnings [warn code [(''page'', PNone)]] r"
  let ?er = "Some (if exc_text e \<noteq> [] then exc_text e else code)"
  obtain r2 y where fl: "flush_pdf_manifest env c key sz (final_columns r1 sg sha None) (r_chunks r1)
      False ?er True r1 = (r2, y)" by fastforce
  have res: "case y of Inl e \<Rightarrow> r' = r2 \<and> x = Inl e | Inr _ \<Rightarrow> r' = record_outcome False r2 \<and> x = Inr False"
  proof -
    have "handle_failure env c key sz sha sg e r =
        run_bind (flush_pdf_manifest env c key sz (final_columns r1 sg sha None) (r_chunks r1) False ?er True r1)
          (\<lambda>r'' _. (record_outcome False r'', Inr False))"
      using False by (cases e) (simp_all add: handle_failure_def Let_def r1_def code_def)
    with assms fl show ?thesis by (auto split: sum.splits)
  qed
  have "code \<in> set PDF_WARNING_CODES"
    using classify_permanent permanent_codes by (auto simp: code_def)
  then have "doc_effect c {key} r r1"
    unfolding r1_def by (intro page_doc_effect page_effect_warn) simp
  then have "doc_effect c {key} r r2"
    by (rule doc_effect_trans) (rule flush_doc_effect [OF fl], simp add: cols_ok_columns)
  moreover have "r_outcomes r2 = r_outcomes r"
    using flush_effect [OF fl] by (simp add: r1_def add_warnings_def)
  ultimately show ?thesis
    using res by (cases y) (auto simp: outcome_recorded_def, simp add: record_outcome_def)
qed

section \<open>The effect of a call\<close>

lemma fresh_effect:
  "doc_effect c K r (fresh_document r) \<and> r_outcomes (fresh_document r) = r_outcomes r \<and>
   r_table (fresh_document r) = r_table r"
  by (simp_all add: doc_effect_def fresh_document_def)

lemma index_pdf_object_effect:
  assumes "index_pdf_object env c obj r = (r', x)"
  shows "doc_effect c {fst obj} r r' \<and> outcome_recorded r (r', x)"
proof -
  obtain key fname where obj: "obj = (key, fname)" by fastforce
  let ?choke = "if pl_manifest c
    then authorize_write (get_entry (r_table r)) (pl_user c) (manifest_layer c) key ''private'' True else Inr ()"
  have skip: "doc_effect c {fst obj} r r'" "outcome_recorded r (r', x)"
    if "r' = record_outcome False r \<and> x = Inr False \<or> r' = r \<and> x = Inl e" for e
    using that by (auto simp: doc_effect_def outcome_recorded_def record_outcome_def)
  show ?thesis
  proof (cases "\<exists>raw. py_endswith (py_lower fname) ''.pdf'' \<and> pe_read env key = Some raw \<and> ?choke = Inr ()")
    case False
    then have "r' = record_outcome False r \<and> x = Inr False \<or> (\<exists>e. r' = r \<and> x = Inl e)"
      using assms by (auto simp: index_pdf_object_def obj Let_def split: option.splits sum.splits if_splits)
    then show ?thesis using skip by blast
  next
    case True
    then obtain raw where raw: "py_endswith (py_lower fname) ''.pdf''" "pe_read env key = Some raw" "?choke = Inr ()"
      by blast
    let ?r0 = "fresh_document r" and ?cap = "ps_max_size_mb (pe_settings env) * 1024 * 1024"
    show ?thesis
    proof (cases "int (length raw) > ?cap")
      case True
      with assms raw have "reject env c key (length raw) ''max_size''
          [(''size_bytes'', PInt (int (length raw))), (''cap_bytes'', PInt ?cap)]
          (\<lambda>r'. early_columns (r_warnings r') None None) ?r0 = (r', x)"
        by (simp add: index_pdf_object_def obj Let_def)
      then have "doc_effect c {key} ?r0 r' \<and> outcome_recorded ?r0 (r', x)"
        by (rule reject_effect) (simp_all add: PDF_WARNING_CODES_def cols_ok_columns)
      then show ?thesis
        using fresh_effect [of c "{key}" r] by (auto simp: obj intro: doc_effect_trans outcome_keep)
    next
      case False
      define r1 where "r1 = ?r0\<lparr>r_ltv := pe_ltv env raw\<rparr>"
      let ?sk = "if py_startswith key (pl_layer_prefix c) then drop (length (pl_layer_prefix c)) key else key"
      obtain r2 y where ex: "extract_document env c key fname ?sk raw (pe_sha256 env raw)
          (pe_signature env raw) r1 = (r2, y)" by fastforce
      have r1: "doc_effect c {fst obj} r r1" "r_outcomes r1 = r_outcomes r"
        using fresh_effect [of c "{key}" r] by (auto simp: obj r1_def doc_effect_def)
      note r2 = extract_document_effect [OF ex]
      show ?thesis
      proof (cases y)
        case (Inl e)
        then have "handle_failure env c key (length raw) (pe_sha256 env raw) (pe_signature env raw) e r2 = (r', x)"
          using assms raw False ex by (simp add: index_pdf_object_def obj Let_def r1_def)
        then have "doc_effect c {key} r2 r' \<and> outcome_recorded r2 (r', x)" by (rule handle_failure_effect)
        moreover have "r_outcomes r2 = r_outcomes r" using r2 r1 Inl by (simp add: outcome_recorded_def)
        ultimately show ?thesis using r1 r2 by (auto simp: obj intro: doc_effect_trans outcome_keep)
      next
        case (Inr v)
        then have "(r', x) = (r2, y)"
          using assms raw False ex by (simp add: index_pdf_object_def obj Let_def r1_def)
        with r1 r2 show ?thesis by (auto simp: obj intro: doc_effect_trans outcome_keep)
      qed
    qed
  qed
qed

lemma index_pdf_objects_effect:
  "index_pdf_objects env c objs r = (r', x) \<Longrightarrow> doc_effect c (fst ` set objs) r r'"
proof (induction objs arbitrary: r)
  case Nil
  then show ?case by (simp add: doc_effect_def)
next
  case (Cons obj objs)
  obtain r1 y where one: "index_pdf_object env c obj r = (r1, y)" by fastforce
  have first: "doc_effect c (fst ` set (obj # objs)) r r1"
    using index_pdf_object_effect [OF one] by (auto intro: doc_effect_mono)
  show ?case
  proof (cases y)
    case (Inl e)
    with Cons.prems one first show ?thesis by simp
  next
    case (Inr ok)
    with Cons.prems one have "index_pdf_objects env c objs r1 = (r', x)" by simp
    then have "doc_effect c (fst ` set (obj # objs)) r1 r'"
      by (intro doc_effect_mono [OF Cons.IH]) auto
    with first show ?thesis by (rule doc_effect_trans)
  qed
qed

text \<open>
  A call of the pipeline that returns has recorded one outcome per object, in order; a call
  that raises has recorded one per object it finished, and stopped at the next.
\<close>

lemma pdf_outcomes:
  assumes "index_pdf_objects env c objs r = (r', x)"
  shows "\<exists>oks. r_outcomes r' = r_outcomes r @ oks \<and>
    (case x of Inr n \<Rightarrow> length oks = length objs \<and> n = r_total r' | Inl e \<Rightarrow> length oks < length objs)"
  using assms
proof (induction objs arbitrary: r)
  case Nil
  then show ?case by auto
next
  case (Cons obj objs)
  obtain r1 y where one: "index_pdf_object env c obj r = (r1, y)" by fastforce
  note rec = index_pdf_object_effect [OF one, THEN conjunct2, unfolded outcome_recorded_def, simplified]
  show ?case
  proof (cases y)
    case (Inl e)
    with Cons.prems one rec show ?thesis by auto
  next
    case (Inr ok)
    with Cons.prems one have "index_pdf_objects env c objs r1 = (r', x)" by simp
    from Cons.IH [OF this] Inr rec show ?thesis
      by (auto split: sum.splits)
  qed
qed

text \<open>
  Whatever is indexed, and however it fails, every warning that reaches a manifest row has a
  code of the closed vocabulary.
\<close>

lemma pdf_warnings_closed:
  assumes "index_pdf_objects env c objs r = (r', x)" and "codes_ok (r_warnings r)"
    and "table_ok (r_table r)"
  shows "table_ok (r_table r')"
  using index_pdf_objects_effect [OF assms(1)] assms(2,3) by (simp add: doc_effect_def)

text \<open>
  C16: a private fold leaves every row of the vector store alone that the caller does not own as a
  new-form row, whatever its identifier and whoever chose the file names.
\<close>

theorem private_fold_protects:
  assumes "index_pdf_objects env c objs r = (r', x)" and "pl_tier c \<noteq> ''corpus''"
    and "map_of (r_store r) i = Some (t, m)"
    and "new_form_owner (Some m) \<noteq> Some (uc_user_id (pl_user c))"
  shows "map_of (r_store r') i = Some (t, m)"
  using index_pdf_objects_effect [OF assms(1)] assms(2-4) by (simp add: doc_effect_def protects_def)

section \<open>Dry runs\<close>

lemma reject_not_accepted: "reject env c key sz code details columns r \<noteq> (r', Inr True)"
  by (auto simp: reject_def Let_def run_bind_def split: prod.splits sum.splits)

lemma handle_failure_not_accepted: "handle_failure env c key sz sha sg e r \<noteq> (r', Inr True)"
  by (cases e) (auto simp: handle_failure_def Let_def run_bind_def split: prod.splits sum.splits)

lemma extract_accepted:
  assumes "extract_document env c key fname sk raw sha sg r = (r', Inr True)"
  shows "\<exists>r3 cols n r4. r_table r3 = r_table r \<and>
    flush_pdf_manifest env c key (length raw) cols n True None (\<not> pl_dry_run c) r3 = (r4, Inr ()) \<and>
    r' = record_outcome True r4"
proof (cases "pe_open env raw")
  case (Inl e)
  with assms show ?thesis by (simp add: extract_document_def)
next
  case (Inr doc)
  let ?r1 = "read_metadata env doc r"
  obtain puts k aw where att: "quarantine_pdf_attachments (pe_sha256 env) (pe_put_error env) doc sk
      (pl_layer_prefix c) = (puts, k, aw)"
    by (cases "quarantine_pdf_attachments (pe_sha256 env) (pe_put_error env) doc sk (pl_layer_prefix c)") auto
  define r2 where "r2 = add_warnings aw ?r1\<lparr>r_objects := r_objects ?r1 @ puts, r_attachments := k\<rparr>"
  obtain r3 y where loop: "page_loop env c fname sk sha sg (build_toc_index doc)
      (enumerate 1 (pd_pages doc)) r2 = (r3, y)" by fastforce
  have "r_table r2 = r_table r"
    using read_metadata_effect [of undefined r env doc]
    by (simp add: r2_def add_warnings_def page_effect_def)
  then have "r_table r3 = r_table r"
    using page_loop_effect [OF loop] by (simp add: page_effect_def)
  moreover have "\<exists>cols n r4. flush_pdf_manifest env c key (length raw) cols n True None (\<not> pl_dry_run c) r3 =
      (r4, Inr ()) \<and> r' = record_outcome True r4"
    using assms Inr att loop
    by (auto simp: extract_document_def Let_def reject_not_accepted r2_def [symmetric] run_bind_def
        split: if_splits sum.splits prod.splits)
  ultimately show ?thesis by blast
qed

text \<open>
  A dry run writes no chunk, and no manifest row for a document it would accept. (For a
  document it would reject it does write the row: lemma dry_run_rejection_writes.)
\<close>

lemma dry_run_effects:
  assumes "index_pdf_object env c obj r = (r', x)" and "pl_dry_run c"
  shows "r_store r' = r_store r \<and> r_total r' = r_total r \<and> (x = Inr True \<longrightarrow> r_table r' = r_table r)"
proof (intro conjI impI)
  show "r_store r' = r_store r" "r_total r' = r_total r"
    using index_pdf_object_effect [OF assms(1)] assms(2) by (simp_all add: doc_effect_def)
  assume "x = Inr True"
  then obtain key fname raw r1 sk where
    "extract_document env c key fname sk raw (pe_sha256 env raw) (pe_signature env raw) r1 = (r', Inr True)"
    and r1: "r_table r1 = r_table r"
    using assms(1)
    by (cases obj) (auto simp: index_pdf_object_def Let_def reject_not_accepted handle_failure_not_accepted
        record_outcome_def fresh_document_def split: option.splits sum.splits prod.splits if_splits)
  from extract_accepted [OF this(1)] obtain r3 cols n r4 where
    "r_table r3 = r_table r1" and fl: "flush_pdf_manifest env c key (length raw) cols n True None False r3 = (r4, Inr ())"
    and "r' = record_outcome True r4"
    using assms(2) by auto
  then show "r_table r' = r_table r"
    using flush_effect [OF fl] r1 by (simp add: record_outcome_def)
qed

section \<open>Redactions\<close>

definition loop_stores :: "pdf_run \<times> (exc, unit) res \<Rightarrow> vstore \<times> nat \<times> nat \<times> (exc, unit) res" where
  "loop_stores x = (r_store (fst x), r_total (fst x), r_chunks (fst x), snd x)"

text \<open>
  Under the policy that rejects, a page with a redaction ends the document there: nothing of
  it or of any later page is read, and the document ends as the pages before it end it, with their
  chunks in the store and without a failure.
\<close>

lemma redaction_rejects_rest_only:
  assumes "ps_redaction_policy (pe_settings env) = ''reject''" and "redaction_rects page \<noteq> []"
  shows "loop_stores (page_loop env c fname sk sha sg toc (pre @ (n, Inr page) # post) r) =
         loop_stores (page_loop env c fname sk sha sg toc pre r)"
proof (induction pre arbitrary: r)
  case Nil
  have "page_select env n page =
      Inr (SelBreak [page_warn ''redaction_rejected'' n
        [(''redaction_count'', PInt (int (length (redaction_rects page))))]])"
    using assms by (simp add: page_select_def Let_def)
  then show ?case by (simp add: loop_stores_def add_warnings_def)
next
  case (Cons p pre)
  obtain m loaded where p: "p = (m, loaded)" by fastforce
  show ?case
    using Cons by (auto simp: p run_bind_def split: sum.splits page_sel.splits prod.splits)
qed

text \<open>
  Two pages that differ at most in the text a redaction covers: the same annotations, and where a
  redaction is present the same blocks outside of it. Images, form fields and what the OCR engine
  reads are compared as they are: the policy does not clip them.
\<close>

definition same_visible :: "pdf_page \<Rightarrow> pdf_page \<Rightarrow> bool" where
  "same_visible p q \<longleftrightarrow>
     pp_annots p = pp_annots q \<and> pp_images p = pp_images q \<and> pp_widgets p = pp_widgets q \<and>
     pp_ocr p = pp_ocr q \<and> pp_bbox p = pp_bbox q \<and>
     (if redaction_rects p = [] then pp_text p = pp_text q
      else text_clipped_around_redactions p (redaction_rects p) =
           text_clipped_around_redactions q (redaction_rects p))"

fun same_loaded :: "nat \<times> (exc, pdf_page) res \<Rightarrow> nat \<times> (exc, pdf_page) res \<Rightarrow> bool" where
  "same_loaded (n, Inr p) (m, Inr q) \<longleftrightarrow> n = m \<and> same_visible p q"
| "same_loaded (n, Inl e) (m, Inl e') \<longleftrightarrow> n = m \<and> e = e'"
| "same_loaded _ _ \<longleftrightarrow> False"

lemma same_visible_rects: "same_visible p q \<Longrightarrow> redaction_rects q = redaction_rects p"
  by (simp add: same_visible_def redaction_rects_def)

lemma same_visible_select:
  assumes "same_visible p q"
  shows "page_select env n q = page_select env n p"
proof (cases "redaction_rects p = []")
  case True
  then have "pp_text q = pp_text p" using assms by (simp add: same_visible_def)
  with True show ?thesis by (simp add: page_select_def same_visible_rects [OF assms])
next
  case False
  then have "text_clipped_around_redactions q (redaction_rects p) =
      text_clipped_around_redactions p (redaction_rects p)"
    using assms by (simp add: same_visible_def)
  with False show ?thesis by (simp add: page_select_def Let_def same_visible_rects [OF assms])
qed

lemma same_visible_index:
  assumes "same_visible p q"
  shows "index_page env c fname sk sha sg toc n q t st r = index_page env c fname sk sha sg toc n p t st r"
proof -
  have "page_content env n q t = page_content env n p t"
    using assms by (simp add: page_content_def Let_def ocr_render_page_def same_visible_def)
  moreover have "acroform_text_for_page q = acroform_text_for_page p"
    using assms by (simp add: acroform_text_for_page_def same_visible_def)
  moreover have "chunk_metadata c fname sk sha sg n sec q = chunk_metadata c fname sk sha sg n sec p" for sec
    using assms by (intro ext) (simp add: chunk_metadata_def same_visible_def)
  ultimately show ?thesis by (simp only: index_page_def)
qed


section \<open>Failures\<close>

text \<open>
  Whatever raises while a document is read, embedded or written, an identifier conflict apart,
  is recorded as a permanent corruption of the document: an outage of the embedding server too.
\<close>

lemma every_failure_permanent:
  assumes "extract_document env c key fname sk raw sha sg r = (r2, Inl e)"
    and "\<And>col d. e \<noteq> ChromaIdConflict col d"
    and "handle_failure env c key sz sha sg e r2 = (r', Inr ok)"
  shows "\<not> ok \<and> (\<exists>code \<in> set PERMANENT_INDEX_FAILURE_CODES.
    r_warnings r' = r_warnings r2 @ [warn code [(''page'', PNone)]])"
proof -
  have "\<not> ok" using assms(3) handle_failure_not_accepted by (cases ok) auto
  moreover have "r_warnings r' = r_warnings r2 @ [warn (classify_pdf_extraction_error e) [(''page'', PNone)]]"
    using assms(2,3) flush_effect
    by (cases e) (auto simp: handle_failure_def Let_def run_bind_def add_warnings_def record_outcome_def
        split: prod.splits sum.splits dest!: flush_effect)
  ultimately show ?thesis using classify_permanent by blast
qed

end
