(* ===== verification/ScanPipeline.thy ===== *)
theory ScanPipeline
  imports PdfProps ManifestProps
begin

text \<open>
  The upload-scan-index pipeline (\<open>src/audittrace/routes/memory_upload/\<close>,
  \<open>services/scan_request_publisher.py\<close>, \<open>scan_request_janitor.py\<close>, \<open>scan_verdict_consumer.py\<close>,
  \<open>index_worker.py\<close>, \<open>index_janitor.py\<close>).

  A row is a manifest row with the columns of the scan and index outboxes, so the manifest service
  and the PDF pipeline act on the same table. The two in-process queues, the messages handed to
  the broker and the object store are part of the state. The queues hold at most 10000 envelopes
  and a put on a full one waits; an event here is a put that was made.
\<close>

section \<open>Rows, envelopes and state\<close>

record scan_row =
  sr_item :: memory_item
  sr_scan_status :: "string option"
  sr_published_at_ms :: "int option"
  sr_trace_id :: "string option"
  sr_index_attempts :: int

abbreviation sr_id :: "scan_row \<Rightarrow> string" where "sr_id r \<equiv> mi_id (sr_item r)"
abbreviation sr_key :: "scan_row \<Rightarrow> string" where "sr_key r \<equiv> mi_key (sr_item r)"

record scan_request =
  sq_scan_id :: string
  sq_user_id :: string
  sq_trace_id :: string
  sq_object_uri :: string
  sq_object_sha256 :: string
  sq_size_bytes :: int
  sq_claimed_content_type :: string
  sq_traceparent :: string

definition as_amqp_payload :: "int \<Rightarrow> scan_request \<Rightarrow> (string \<times> pyval) list" where
  "as_amqp_payload now q =
     [(''scan_id'', PStr (sq_scan_id q)), (''user_id'', PStr (sq_user_id q)),
      (''trace_id'', PStr (sq_trace_id q)), (''traceparent'', PStr (sq_traceparent q)),
      (''object_uri'', PStr (sq_object_uri q)), (''object_sha256'', PStr (sq_object_sha256 q)),
      (''object_size_bytes'', PInt (sq_size_bytes q)),
      (''claimed_content_type'', PStr (sq_claimed_content_type q)), (''enqueued_at_ms'', PInt now)]"

record index_request =
  ix_scan_id :: string
  ix_key :: string
  ix_collection :: string
  ix_user_id :: string
  ix_trace_id :: string

record scan_settings =
  ss_scan_pipeline_enabled :: bool
  ss_object_storage_backend :: string
  ss_aws_bucket :: string
  ss_minio_shared_bucket :: string
  ss_scan_janitor_grace_seconds :: int
  ss_index_janitor_grace_seconds :: int
  ss_index_max_attempts :: int

record scan_state =
  st_rows :: "scan_row list"
  st_scan_queue :: "scan_request list"
  st_index_queue :: "index_request list"
  st_broker :: "(string \<times> pyval) list list"
  st_objects :: "(string \<times> string \<times> string) list"
  st_store :: vstore

datatype scan_error =
    HttpException int string
  | KeyError string
  | TypeError
  | UnknownVerdict string
  | DatabaseError

definition shared_bucket :: "scan_settings \<Rightarrow> string" where
  "shared_bucket st =
     (if ss_object_storage_backend st = ''aws'' then ss_aws_bucket st else ss_minio_shared_bucket st)"

text \<open>A commit checks the primary key, the widths, the CHECK and the UNIQUE constraint.\<close>

definition scan_widths_ok :: "scan_row \<Rightarrow> bool" where
  "scan_widths_ok r \<longleftrightarrow> fits 32 (sr_scan_status r) \<and> fits 64 (sr_trace_id r)"

definition commit_scan :: "scan_row list \<Rightarrow> scan_row list \<Rightarrow> (scan_error, scan_row list) res" where
  "commit_scan written rows =
     (if first_row_error (map sr_item written) = None \<and> list_all scan_widths_ok written \<and>
         distinct (map sr_id rows) \<and> uq_layer_key (map sr_item rows)
      then Inr rows else Inl DatabaseError)"

section \<open>Upload\<close>

definition pdf_magic :: string where "pdf_magic = ''%PDF-''"

definition is_pdf_upload :: "string option \<Rightarrow> string \<Rightarrow> bool" where
  "is_pdf_upload claimed content \<longleftrightarrow>
     (case claimed of
        None \<Rightarrow> False
      | Some t \<Rightarrow> t \<noteq> [] \<and> py_startswith (py_lower t) ''application/pdf'' \<and> py_startswith content pdf_magic)"

definition quarantine_key :: "string \<Rightarrow> string \<Rightarrow> string \<Rightarrow> string" where
  "quarantine_key user_id scan_id filename =
     ''quarantine/'' @ user_id @ ''/'' @ scan_id @ ''/'' @ filename"

definition quarantine_uri :: "string \<Rightarrow> string \<Rightarrow> string" where
  "quarantine_uri bucket key = ''s3://'' @ bucket @ ''/'' @ key"

text \<open>An active span gives its trace, span and flags as numbers; no span gives empty texts.\<close>

fun hex_of :: "nat \<Rightarrow> string" where
  "hex_of n = (if n < 16 then [hex_digit n] else hex_of (n div 16) @ [hex_digit (n mod 16)])"

declare hex_of.simps [simp del]

definition hex_pad :: "nat \<Rightarrow> nat \<Rightarrow> string" where
  "hex_pad w n = replicate (w - length (hex_of n)) (CHR ''0'') @ hex_of n"

definition current_traceparent :: "(nat \<times> nat \<times> nat) option \<Rightarrow> string \<times> string" where
  "current_traceparent span =
     (case span of
        None \<Rightarrow> ([], [])
      | Some (trace, sp, flags) \<Rightarrow>
          (hex_pad 32 trace, ''00-'' @ hex_pad 32 trace @ ''-'' @ hex_pad 16 sp @ ''-'' @ hex_pad 2 flags))"

text \<open>What the object store answers to a PUT.\<close>

datatype put_result = PutOk | PutHttpException int string | PutFailed

definition put_quarantine ::
  "scan_settings \<Rightarrow> put_result \<Rightarrow> string \<Rightarrow> string \<Rightarrow> string \<Rightarrow> string
    \<Rightarrow> (string \<times> string \<times> string) list \<Rightarrow> (scan_error, (string \<times> string \<times> string) list \<times> string) res" where
  "put_quarantine st put user_id scan_id filename content objects =
     (let bucket = shared_bucket st; key = quarantine_key user_id scan_id filename in
      case put of
        PutHttpException n m \<Rightarrow> Inl (HttpException n m)
      | PutFailed \<Rightarrow> Inl (HttpException 502 ''Object storage write failed'')
      | PutOk \<Rightarrow> Inr (objects @ [(bucket, key, content)], quarantine_uri bucket key))"

definition scan_item ::
  "string \<Rightarrow> string \<Rightarrow> string \<Rightarrow> string \<Rightarrow> int \<Rightarrow> string \<Rightarrow> string \<Rightarrow> int \<Rightarrow> scan_row" where
  "scan_item scan_id user_id uri sha sz title trace_id now =
     \<lparr>sr_item = (new_item scan_id ''episodic'' uri (Some title) (Some sz) now now user_id ''corpus'')
        \<lparr>mi_pdf := default_pdf\<lparr>pc_document_sha256 := Some sha\<rparr>\<rparr>,
      sr_scan_status = Some ''pending_scan'', sr_published_at_ms = None,
      sr_trace_id = Some trace_id, sr_index_attempts = 0\<rparr>"

definition insert_pending_scan ::
  "bool \<Rightarrow> scan_row \<Rightarrow> scan_row list \<Rightarrow> (scan_error, scan_row list) res" where
  "insert_pending_scan db_ok row rows =
     (if db_ok then commit_scan [row] (rows @ [row]) else Inl DatabaseError)"

record upload =
  up_now :: int
  up_scan_id :: string
  up_put :: put_result
  up_db_ok :: bool
  up_user_id :: string
  up_filename :: string
  up_content :: string
  up_content_type :: string
  up_span :: "(nat \<times> nat \<times> nat) option"

definition handle_pdf_upload ::
  "(string \<Rightarrow> string) \<Rightarrow> scan_settings \<Rightarrow> upload \<Rightarrow> scan_state
    \<Rightarrow> scan_state \<times> (scan_error, (string \<times> pyval) list) res" where
  "handle_pdf_upload sha st u s =
     (if \<not> ss_scan_pipeline_enabled st
      then (s, Inl (HttpException 503
              ''scan pipeline disabled (AUDITTRACE_SCAN_PIPELINE_ENABLED=false)''))
      else
        let (trace_id, traceparent) = current_traceparent (up_span u);
            digest = sha (up_content u); sz = int (length (up_content u)) in
        case put_quarantine st (up_put u) (up_user_id u) (up_scan_id u) (up_filename u) (up_content u)
               (st_objects s) of
          Inl e \<Rightarrow> (s, Inl e)
        | Inr (objects, uri) \<Rightarrow>
            let s1 = s\<lparr>st_objects := objects\<rparr>;
                row = scan_item (up_scan_id u) (up_user_id u) uri digest sz (up_filename u) trace_id (up_now u)
            in (case insert_pending_scan (up_db_ok u) row (st_rows s1) of
                  Inl e \<Rightarrow> (s1, Inl e)
                | Inr rows \<Rightarrow>
                    let q = \<lparr>sq_scan_id = up_scan_id u, sq_user_id = up_user_id u, sq_trace_id = trace_id,
                             sq_object_uri = uri, sq_object_sha256 = digest, sq_size_bytes = sz,
                             sq_claimed_content_type = up_content_type u, sq_traceparent = traceparent\<rparr>
                    in (s1\<lparr>st_rows := rows, st_scan_queue := st_scan_queue s1 @ [q]\<rparr>,
                        Inr [(''scan_id'', PStr (up_scan_id u)), (''status'', PStr ''pending_scan''),
                             (''poll_url'', PStr (''/memory/upload/status?scan_id='' @ up_scan_id u)),
                             (''object_uri'', PStr uri), (''object_sha256'', PStr digest),
                             (''size_bytes'', PInt sz)])))"

text \<open>\<open>get_upload_status\<close>: the row of the caller, or of anyone for an administrator.\<close>

definition get_upload_status ::
  "user_context \<Rightarrow> string \<Rightarrow> scan_row list \<Rightarrow> (scan_error, scan_row) res" where
  "get_upload_status user scan_id rows =
     (case find (\<lambda>r. sr_id r = scan_id) rows of
        None \<Rightarrow> Inl (HttpException 404 (''scan_id not found: '' @ scan_id))
      | Some r \<Rightarrow>
          if uc_is_admin user \<or> ''audittrace:admin'' \<in> set (uc_scopes user) \<or>
             mi_created_by (sr_item r) = uc_user_id user
          then Inr r else Inl (HttpException 404 (''scan_id not found: '' @ scan_id)))"

section \<open>The scan-request outbox\<close>

text \<open>
  What the broker does with a message: it has it and says so, it never gets it, or it has it and
  the client still raises.
\<close>

datatype publish_outcome = Published | NotPublished | PublishedUnconfirmed

definition mark_published :: "int \<Rightarrow> string \<Rightarrow> scan_row list \<Rightarrow> scan_row list" where
  "mark_published now scan_id rows =
     map_if (\<lambda>r. sr_id r = scan_id \<and> sr_published_at_ms r = None)
       (\<lambda>r. r\<lparr>sr_published_at_ms := Some now\<rparr>) rows"

definition publish_one ::
  "int \<Rightarrow> publish_outcome \<Rightarrow> bool \<Rightarrow> scan_request \<Rightarrow> scan_state \<Rightarrow> scan_state" where
  "publish_one now outcome db_ok q s =
     (let sent = s\<lparr>st_broker := st_broker s @ [as_amqp_payload now q]\<rparr> in
      case outcome of
        NotPublished \<Rightarrow> s
      | PublishedUnconfirmed \<Rightarrow> sent
      | Published \<Rightarrow>
          if db_ok then sent\<lparr>st_rows := mark_published now (sq_scan_id q) (st_rows s)\<rparr> else sent)"

definition JANITOR_BATCH_SIZE :: nat where "JANITOR_BATCH_SIZE = 100"
definition REQUIRED_OBJECT_URI_SCHEME :: string where "REQUIRED_OBJECT_URI_SCHEME = ''s3''"

text \<open>\<open>urlparse(url).scheme\<close>.\<close>

definition is_letter :: "char \<Rightarrow> bool" where
  "is_letter c \<longleftrightarrow> (let n = (of_char c :: nat) in 65 \<le> n \<and> n \<le> 90 \<or> 97 \<le> n \<and> n \<le> 122)"

definition is_scheme_char :: "char \<Rightarrow> bool" where
  "is_scheme_char c \<longleftrightarrow>
     is_letter c \<or> (let n = (of_char c :: nat) in 48 \<le> n \<and> n \<le> 57) \<or> c \<in> {CHR ''+'', CHR ''-'', CHR ''.''}"

definition url_scheme :: "string \<Rightarrow> string" where
  "url_scheme url =
     (let u = filter (\<lambda>c. (of_char c :: nat) \<notin> {9, 10, 13})
                (dropWhile (\<lambda>c. (of_char c :: nat) \<le> 32) url);
          scheme = takeWhile (\<lambda>c. c \<noteq> CHR '':'') u
      in if length scheme < length u \<and> scheme \<noteq> [] \<and> is_letter (hd scheme) \<and> list_all is_scheme_char scheme
         then py_lower scheme else [])"

text \<open>
  A query without ORDER BY returns its rows in an order of the database's choice: the numbers say
  which, and anything that is not an order of the rows is the order of the table.
\<close>

definition db_order :: "nat list \<Rightarrow> 'a list \<Rightarrow> 'a list" where
  "db_order is xs =
     (if distinct is \<and> length is = length xs \<and> list_all (\<lambda>i. i < length xs) is
      then map (nth xs) is else xs)"

definition scan_orphan :: "scan_settings \<Rightarrow> int \<Rightarrow> scan_row \<Rightarrow> sqlbool" where
  "scan_orphan st now r =
     sql_and (sql_is_null (sr_published_at_ms r))
       (sql_and (sql_of (sr_scan_status r \<noteq> None))
          (sql_and (sql_of (mi_created_at_ms (sr_item r) < now - ss_scan_janitor_grace_seconds st * 1000))
                   (sql_is_null (mi_deleted_at_ms (sr_item r)))))"

definition request_of_row :: "scan_row \<Rightarrow> scan_request" where
  "request_of_row r =
     (let pdf = mi_pdf (sr_item r) in
      \<lparr>sq_scan_id = sr_id r, sq_user_id = mi_created_by (sr_item r),
       sq_trace_id = (case sr_trace_id r of None \<Rightarrow> [] | Some t \<Rightarrow> t), sq_object_uri = sr_key r,
       sq_object_sha256 = (case pc_document_sha256 pdf of None \<Rightarrow> [] | Some d \<Rightarrow> d),
       sq_size_bytes = (case mi_size_bytes (sr_item r) of None \<Rightarrow> 0 | Some n \<Rightarrow> n),
       sq_claimed_content_type = ''application/pdf'', sq_traceparent = []\<rparr>)"

definition scan_orphans :: "scan_settings \<Rightarrow> int \<Rightarrow> nat list \<Rightarrow> scan_row list \<Rightarrow> scan_request list" where
  "scan_orphans st now order rows =
     map request_of_row
       (filter (\<lambda>r. url_scheme (sr_key r) = REQUIRED_OBJECT_URI_SCHEME)
          (take JANITOR_BATCH_SIZE (db_order order (sql_select (scan_orphan st now) rows))))"

section \<open>Verdicts\<close>

definition VERDICT_TO_SCAN_STATUS :: "(string \<times> string) list" where
  "VERDICT_TO_SCAN_STATUS =
     [(''clean'', ''scanned_clean''), (''rejected'', ''rejected_malware''), (''scan_failed'', ''scan_failed'')]"

definition SCAN_STATUS_CODES :: "string list" where
  "SCAN_STATUS_CODES =
     [''pending_scan'', ''scanning'', ''scanned_clean'', ''rejected_malware'', ''scan_failed'',
      ''scan_unrecoverable'']"

definition EPISODIC_BUCKET :: string where "EPISODIC_BUCKET = ''memory-shared''"
definition EPISODIC_PREFIX :: string where "EPISODIC_PREFIX = ''episodic/papers/''"

text \<open>The last path component.\<close>

definition last_component :: "string \<Rightarrow> string" where
  "last_component s = rev (takeWhile (\<lambda>c. c \<noteq> CHR ''/'') (rev s))"

definition episodic_bare_key :: "string \<Rightarrow> string \<Rightarrow> string \<Rightarrow> string" where
  "episodic_bare_key pfx scan_id qkey =
     (let filename = (if last_component qkey \<noteq> [] then last_component qkey
                      else ''object.bin'')
      in pfx @ scan_id @ ''/'' @ filename)"

definition episodic_uri :: "string \<Rightarrow> string \<Rightarrow> string \<Rightarrow> string \<Rightarrow> string" where
  "episodic_uri bucket pfx scan_id qkey =
     ''s3://'' @ bucket @ ''/'' @ episodic_bare_key pfx scan_id qkey"

text \<open>The status a verdict stands for; a kind that cannot be a dictionary key raises otherwise.\<close>

definition verdict_status :: "pyval \<Rightarrow> (scan_error, string) res" where
  "verdict_status kind =
     (case kind of
        PStr k \<Rightarrow> (case map_of VERDICT_TO_SCAN_STATUS k of Some s \<Rightarrow> Inr s | None \<Rightarrow> Inl (UnknownVerdict k))
      | PList _ \<Rightarrow> Inl TypeError
      | PDict _ \<Rightarrow> Inl TypeError
      | _ \<Rightarrow> Inl (UnknownVerdict (py_repr_value kind)))"

text \<open>An identifier that is not a text is refused by the driver; \<open>None\<close> finds no row.\<close>

definition row_by_id :: "pyval \<Rightarrow> scan_row list \<Rightarrow> (scan_error, scan_row option) res" where
  "row_by_id v rows =
     (case v of
        PStr i \<Rightarrow> Inr (find (\<lambda>r. sr_id r = i) rows)
      | PNone \<Rightarrow> Inr None
      | _ \<Rightarrow> Inl DatabaseError)"

definition verdict_row :: "int \<Rightarrow> string \<Rightarrow> string option \<Rightarrow> scan_row \<Rightarrow> scan_row" where
  "verdict_row now status bare r =
     (let item = (sr_item r)\<lparr>mi_modified_at_ms := now\<rparr> in
      r\<lparr>sr_scan_status := Some status,
        sr_item := (case bare of
            None \<Rightarrow> item
          | Some k \<Rightarrow> item\<lparr>mi_key := ''s3://'' @ EPISODIC_BUCKET @ ''/'' @ k, mi_indexed_at_ms := None\<rparr>)\<rparr>)"

definition index_request_of :: "scan_row \<Rightarrow> string \<Rightarrow> index_request" where
  "index_request_of r bare =
     \<lparr>ix_scan_id = sr_id r, ix_key = bare, ix_collection = collection_for_key bare,
      ix_user_id = mi_created_by (sr_item r),
      ix_trace_id = (case sr_trace_id r of None \<Rightarrow> [] | Some t \<Rightarrow> t)\<rparr>"

definition apply_verdict ::
  "int \<Rightarrow> bool \<Rightarrow> (string \<times> pyval) list \<Rightarrow> scan_state \<Rightarrow> scan_state \<times> (scan_error, unit) res" where
  "apply_verdict now db_ok payload s =
     (case (map_of payload ''scan_id'', map_of payload ''kind'') of
        (None, _) \<Rightarrow> (s, Inl (KeyError ''scan_id''))
      | (_, None) \<Rightarrow> (s, Inl (KeyError ''kind''))
      | (Some scan_id, Some kind) \<Rightarrow>
          (case verdict_status kind of
             Inl e \<Rightarrow> (s, Inl e)
           | Inr status \<Rightarrow>
               if \<not> db_ok then (s, Inl DatabaseError)
               else case row_by_id scan_id (st_rows s) of
                 Inl e \<Rightarrow> (s, Inl e)
               | Inr None \<Rightarrow> (s, Inr ())
               | Inr (Some row) \<Rightarrow>
                   let bare = (if kind = PStr ''clean''
                               then Some (episodic_bare_key EPISODIC_PREFIX (sr_id row) (sr_key row)) else None);
                       row' = verdict_row now status bare row
                   in (case commit_scan [row'] (map_if (\<lambda>r. sr_id r = sr_id row) (\<lambda>_. row') (st_rows s)) of
                         Inl e \<Rightarrow> (s, Inl e)
                       | Inr rows \<Rightarrow>
                           (s\<lparr>st_rows := rows,
                              st_index_queue := st_index_queue s @
                                (case bare of None \<Rightarrow> [] | Some k \<Rightarrow> [index_request_of row k])\<rparr>, Inr ()))))"

text \<open>A message body that is not a JSON object raises; every raise loses the message.\<close>

definition process_verdict :: "int \<Rightarrow> bool \<Rightarrow> pyval option \<Rightarrow> scan_state \<Rightarrow> scan_state" where
  "process_verdict now db_ok body s =
     (case body of Some (PDict payload) \<Rightarrow> fst (apply_verdict now db_ok payload s) | _ \<Rightarrow> s)"

section \<open>The index outbox\<close>

definition mark_indexed :: "int \<Rightarrow> bool \<Rightarrow> string \<Rightarrow> scan_row list \<Rightarrow> scan_row list" where
  "mark_indexed now db_ok scan_id rows =
     (if db_ok
      then map_if (\<lambda>r. sr_id r = scan_id \<and> mi_indexed_at_ms (sr_item r) = None)
             (\<lambda>r. r\<lparr>sr_item := (sr_item r)\<lparr>mi_indexed_at_ms := Some now\<rparr>\<rparr>) rows
      else rows)"

text \<open>The codes of the stored warnings; a value that is not a list of objects raises.\<close>

definition stored_codes :: "pyval option \<Rightarrow> string list option" where
  "stored_codes w =
     (case w of
        None \<Rightarrow> Some []
      | Some PNone \<Rightarrow> Some []
      | Some (PList ws) \<Rightarrow>
          if list_all (\<lambda>x. case x of PDict _ \<Rightarrow> True | _ \<Rightarrow> False) ws
          then Some (List.map_filter warning_code ws) else None
      | Some _ \<Rightarrow> None)"

definition failure_code :: "int \<Rightarrow> int \<Rightarrow> string list \<Rightarrow> string option" where
  "failure_code max_attempts attempts codes =
     (let hits = filter (\<lambda>c. c \<in> set PERMANENT_INDEX_FAILURE_CODES) codes in
      if hits \<noteq> [] then Some (hd (sort hits))
      else if attempts \<ge> max_attempts then Some ''max_attempts_exceeded'' else None)"

definition failed_row :: "int \<Rightarrow> int \<Rightarrow> string option \<Rightarrow> scan_row \<Rightarrow> scan_row" where
  "failed_row now attempts code r =
     r\<lparr>sr_index_attempts := attempts,
       sr_item := (sr_item r)\<lparr>mi_index_failed_at_ms := (if code \<noteq> None then Some now else None),
                              mi_index_failure_code := code\<rparr>\<rparr>"

definition record_failure :: "int \<Rightarrow> bool \<Rightarrow> int \<Rightarrow> string \<Rightarrow> scan_row list \<Rightarrow> scan_row list" where
  "record_failure now db_ok max_attempts scan_id rows =
     (if \<not> db_ok then rows
      else case find (\<lambda>r. sr_id r = scan_id) rows of
        None \<Rightarrow> rows
      | Some row \<Rightarrow>
          (case stored_codes (pc_extraction_warnings (mi_pdf (sr_item row))) of
             None \<Rightarrow> rows
           | Some codes \<Rightarrow>
               let attempts = sr_index_attempts row + 1 in
               map_if (\<lambda>r. sr_id r = scan_id)
                 (failed_row now attempts (failure_code max_attempts attempts codes)) rows))"

text \<open>
  The indexer: the PDF pipeline over the one object, as a system writer of the shared corpus. It
  writes the vector store, the object store and, through the manifest service, the same table the
  outboxes live in.
\<close>

definition with_items :: "scan_row list \<Rightarrow> table \<Rightarrow> scan_row list" where
  "with_items rows t =
     map2 (\<lambda>r i. r\<lparr>sr_item := i\<rparr>) rows t @
     map (\<lambda>i. \<lparr>sr_item = i, sr_scan_status = None, sr_published_at_ms = None, sr_trace_id = None,
              sr_index_attempts = 0\<rparr>) (drop (length rows) t)"

definition system_user :: "string \<Rightarrow> user_context" where
  "system_user user_id =
     \<lparr>uc_user_id = user_id, uc_username = user_id, uc_agent_type = ''system'', uc_scopes = [],
      uc_token_id = None, uc_is_admin = True, uc_extra = []\<rparr>"

definition first_component :: "string \<Rightarrow> string" where
  "first_component s = takeWhile (\<lambda>c. c \<noteq> CHR ''/'') s"

definition index_call :: "int \<Rightarrow> index_request \<Rightarrow> pdf_call" where
  "index_call now q =
     \<lparr>pl_col_name = ix_collection q, pl_category = first_component (ix_key q),
      pl_layer_prefix = first_component (ix_key q) @ ''/'', pl_user_id = ix_user_id q,
      pl_ingestion_ts_ms = now, pl_user = system_user (ix_user_id q), pl_manifest = True,
      pl_details = False, pl_dry_run = False, pl_shared = True, pl_tier = ''corpus''\<rparr>"

definition start_run :: "vstore \<Rightarrow> table \<Rightarrow> pdf_run" where
  "start_run store t =
     \<lparr>r_store = store, r_objects = [], r_table = t, r_outcomes = [], r_total = 0, r_details = [],
      r_warnings = [], r_attachments = 0, r_forms = 0, r_ocr_pages = 0, r_page_count = None,
      r_title = None, r_author = None, r_creator = None, r_date = None, r_pdfa = (None, None),
      r_ltv = None, r_chunks = 0\<rparr>"

text \<open>\<open>col_error\<close> is the failure to open the collection.\<close>

definition default_indexer ::
  "scan_settings \<Rightarrow> int \<Rightarrow> exc option \<Rightarrow> pdf_env \<Rightarrow> index_request \<Rightarrow> scan_state
    \<Rightarrow> scan_state \<times> (exc, bool) res" where
  "default_indexer st now col_error env q s =
     (if ix_collection q \<noteq> ''ai_research_papers'' then (s, Inr False)
      else case col_error of
        Some e \<Rightarrow> (s, Inl e)
      | None \<Rightarrow>
          (case index_pdf_objects env (index_call now q) [(ix_key q, last_component (ix_key q))]
                  (start_run (st_store s) (map sr_item (st_rows s))) of
             (r, x) \<Rightarrow>
               let s' = s\<lparr>st_rows := with_items (st_rows s) (r_table r), st_store := r_store r,
                          st_objects := st_objects s @ map (\<lambda>(k, d). (shared_bucket st, k, d)) (r_objects r)\<rparr>
               in (s', case x of Inl e \<Rightarrow> Inl e
                       | Inr _ \<Rightarrow> Inr (r_outcomes r \<noteq> [] \<and> last (r_outcomes r)))))"

definition index_one ::
  "scan_settings \<Rightarrow> int \<Rightarrow> bool \<Rightarrow> exc option \<Rightarrow> pdf_env \<Rightarrow> index_request \<Rightarrow> scan_state \<Rightarrow> scan_state" where
  "index_one st now db_ok col_error env q s =
     (case default_indexer st now col_error env q s of
        (s', Inr True) \<Rightarrow> s'\<lparr>st_rows := mark_indexed now db_ok (ix_scan_id q) (st_rows s')\<rparr>
      | (s', _) \<Rightarrow>
          s'\<lparr>st_rows := record_failure now db_ok (ss_index_max_attempts st) (ix_scan_id q) (st_rows s')\<rparr>)"

definition ELIGIBLE_SCAN_STATUS :: string where "ELIGIBLE_SCAN_STATUS = ''scanned_clean''"

definition index_orphan :: "scan_settings \<Rightarrow> int \<Rightarrow> scan_row \<Rightarrow> sqlbool" where
  "index_orphan st now r =
     sql_and (sql_eq (sr_scan_status r) (Some ELIGIBLE_SCAN_STATUS))
       (sql_and (sql_is_null (mi_indexed_at_ms (sr_item r)))
          (sql_and (sql_of (mi_created_at_ms (sr_item r) < now - ss_index_janitor_grace_seconds st * 1000))
             (sql_and (sql_is_null (mi_deleted_at_ms (sr_item r)))
                      (sql_is_null (mi_index_failed_at_ms (sr_item r))))))"

definition index_orphans :: "scan_settings \<Rightarrow> int \<Rightarrow> nat list \<Rightarrow> scan_row list \<Rightarrow> index_request list" where
  "index_orphans st now order rows =
     map (\<lambda>r. index_request_of r (bare_key_from_uri (sr_key r)))
       (take JANITOR_BATCH_SIZE (db_order order (sql_select (index_orphan st now) rows)))"

section \<open>Runs\<close>

text \<open>
  One event: a request, a turn of a background task, a message, a call of the manifest service, or
  a restart of the process, which loses the queues. A janitor whose query fails does nothing.
\<close>

datatype scan_event =
    EvUpload upload
  | EvPublish int publish_outcome bool
  | EvScanTick int bool "nat list"
  | EvVerdict int bool "pyval option"
  | EvIndex int bool "exc option" pdf_env
  | EvIndexTick int bool "nat list"
  | EvManifest call
  | EvRestart

fun scan_step :: "(string \<Rightarrow> string) \<Rightarrow> scan_settings \<Rightarrow> scan_event \<Rightarrow> scan_state \<Rightarrow> scan_state" where
  "scan_step sha st (EvUpload u) s = fst (handle_pdf_upload sha st u s)"
| "scan_step sha st (EvPublish now outcome db_ok) s =
     (case st_scan_queue s of
        [] \<Rightarrow> s
      | q # qs \<Rightarrow> publish_one now outcome db_ok q (s\<lparr>st_scan_queue := qs\<rparr>))"
| "scan_step sha st (EvScanTick now db_ok order) s =
     (if db_ok then s\<lparr>st_scan_queue := st_scan_queue s @ scan_orphans st now order (st_rows s)\<rparr> else s)"
| "scan_step sha st (EvVerdict now db_ok body) s = process_verdict now db_ok body s"
| "scan_step sha st (EvIndex now db_ok col_error env) s =
     (case st_index_queue s of
        [] \<Rightarrow> s
      | q # qs \<Rightarrow> index_one st now db_ok col_error env q (s\<lparr>st_index_queue := qs\<rparr>))"
| "scan_step sha st (EvIndexTick now db_ok order) s =
     (if db_ok then s\<lparr>st_index_queue := st_index_queue s @ index_orphans st now order (st_rows s)\<rparr> else s)"
| "scan_step sha st (EvManifest c) s =
     (case exec c (map sr_item (st_rows s)) of
        Inl _ \<Rightarrow> s
      | Inr (t, _) \<Rightarrow> s\<lparr>st_rows := with_items (st_rows s) t\<rparr>)"
| "scan_step sha st EvRestart s = s\<lparr>st_scan_queue := [], st_index_queue := []\<rparr>"

text \<open>A run from a table without rows of the pipeline.\<close>

definition scan_start :: "scan_state \<Rightarrow> bool" where
  "scan_start s \<longleftrightarrow>
     st_scan_queue s = [] \<and> st_index_queue s = [] \<and> st_broker s = [] \<and>
     (\<forall>r \<in> set (st_rows s). sr_scan_status r = None \<and> sr_published_at_ms r = None \<and>
        mi_indexed_at_ms (sr_item r) = None \<and> mi_index_failed_at_ms (sr_item r) = None \<and>
        sr_index_attempts r = 0)"

inductive scan_run ::
  "(string \<Rightarrow> string) \<Rightarrow> scan_settings \<Rightarrow> scan_event list \<Rightarrow> scan_state \<Rightarrow> bool"
  for sha st where
  start: "scan_start s \<Longrightarrow> scan_run sha st [] s"
| step: "scan_run sha st es s \<Longrightarrow> scan_run sha st (es @ [e]) (scan_step sha st e s)"

end
