(* ===== verification/ScanProps.thy ===== *)
theory ScanProps
  imports ScanPipeline
begin

text \<open>
  Properties of the upload-scan-index pipeline: what one event can do to one row, the invariants
  of every run, and what the two janitors recover.
\<close>

section \<open>Manifest operations keep the outbox columns\<close>

definition keeps :: "memory_item \<Rightarrow> memory_item \<Rightarrow> bool" where
  "keeps x y \<longleftrightarrow>
     mi_id y = mi_id x \<and> mi_layer y = mi_layer x \<and> mi_key y = mi_key x \<and>
     mi_created_at_ms y = mi_created_at_ms x \<and> mi_created_by y = mi_created_by x \<and>
     mi_tier y = mi_tier x \<and> mi_indexed_at_ms y = mi_indexed_at_ms x \<and>
     mi_index_failed_at_ms y = mi_index_failed_at_ms x \<and>
     mi_index_failure_code y = mi_index_failure_code x"

lemma keeps_refl [simp]: "keeps x x"
  by (simp add: keeps_def)

lemma fresh_new_item [simp]: "never_indexed (new_item uid layer key title sz created now u tier)"
  by (simp add: never_indexed_def new_item_def)

definition stable :: "table \<Rightarrow> table \<Rightarrow> bool" where
  "stable t t' \<longleftrightarrow>
     length t \<le> length t' \<and> (\<forall>i < length t. keeps (t ! i) (t' ! i)) \<and>
     (\<forall>i. length t \<le> i \<longrightarrow> i < length t' \<longrightarrow> never_indexed (t' ! i))"

lemma stable_refl [simp]: "stable t t"
  by (simp add: stable_def)

lemma nth_map_if: "i < length xs \<Longrightarrow> map_if p f xs ! i = (if p (xs ! i) then f (xs ! i) else xs ! i)"
  by (simp add: map_if_def)

lemma stable_put:
  assumes "uq_layer_key t" and "e \<in> set t" and "keeps e r"
  shows "stable t (put_row r t)"
proof -
  have place: "same_place r e" using assms(3) by (simp add: keeps_def same_place_def)
  have "keeps (t ! i) (put_row r t ! i)" if i: "i < length t" for i
  proof (cases "mi_layer (t ! i) = mi_layer r \<and> mi_key (t ! i) = mi_key r")
    case True
    then have "t ! i = e" using put_row_only [OF assms(1,2) place] i by simp
    with True i assms(3) show ?thesis by (simp add: put_row_def nth_map_if)
  next
    case False
    then show ?thesis using i by (auto simp: put_row_def nth_map_if)
  qed
  then show ?thesis by (simp add: stable_def put_row_def)
qed

lemma stable_append: "stable t t' \<Longrightarrow> never_indexed r \<Longrightarrow> stable t (t' @ [r])"
  by (auto simp: stable_def nth_append less_Suc_eq)

lemma keeps_ops [simp]:
  "keeps e (tombstone now u e)" "keeps e (overwrite now title sz u e)"
  "keeps e (update_fields now title sz u e)"
  by (simp_all add: keeps_def tombstone_def overwrite_def update_fields_def Let_def)

lemma insert_new_stable:
  "insert_new now uid t layer key pk title sz u tier = Inr (t', en) \<Longrightarrow> stable t t'"
  by (auto simp: insert_new_def Let_def res_bind_Inr_iff commit_or_conflict_Inr intro: stable_append)

lemma overwrite_row_stable:
  "overwrite_row now t layer key title sz u e = Inr (t', en) \<Longrightarrow> e \<in> set t \<Longrightarrow> stable t t'"
  by (auto simp: overwrite_row_def Let_def res_bind_Inr_iff commit_or_conflict_Inr intro: stable_put)

lemma copy_forward_stable:
  "copy_forward now uid t layer key pk title sz u e = Inr (t', en) \<Longrightarrow> e \<in> set t \<Longrightarrow> stable t t'"
  by (auto simp: copy_forward_def Let_def res_bind_Inr_iff commit_or_conflict_Inr uq_append1
      intro!: stable_append stable_put)

lemma record_create_stable:
  assumes "record_create now uid t layer key title sz u tier shared = Inr (t', en)"
  shows "stable t t'"
proof -
  consider "tier = ''private''" | "tier = ''corpus''" | "tier \<noteq> ''private''" "tier \<noteq> ''corpus''" by blast
  then show ?thesis
  proof cases
    case 1
    with assms show ?thesis
      by (auto simp: record_create_private res_bind_Inr_iff dest: row_at_Some
          dest!: overwrite_row_stable copy_forward_stable insert_new_stable split: option.splits if_splits)
  next
    case 2
    with assms show ?thesis
      by (auto simp: record_create_corpus res_bind_Inr_iff dest: row_at_Some
          dest!: overwrite_row_stable insert_new_stable split: option.splits if_splits)
  next
    case 3
    with assms show ?thesis by (simp add: record_create_other res_bind_Inr_iff)
  qed
qed

lemma record_update_stable:
  assumes "record_update now uid t layer key sz u title shared = Inr (t', en)"
  shows "stable t t'"
proof -
  obtain e where e: "read_row t layer key u = Some e"
    using assms by (cases "read_row t layer key u") (auto simp: record_update_eq res_bind_Inr_iff)
  have mem: "e \<in> set t" using read_row_found [OF e] by blast
  show ?thesis
  proof (cases "mi_tier e = ''private'' \<and> mi_key e = key")
    case True
    with assms e obtain pk ti where "copy_forward now uid t layer key pk ti sz u e = Inr (t', en)"
      by (auto simp: record_update_eq res_bind_Inr_iff split: if_splits)
    then show ?thesis using mem by (rule copy_forward_stable)
  next
    case False
    with assms e have "t' = put_row (update_fields now title sz u e) t" "uq_layer_key t"
      by (auto simp: record_update_eq res_bind_Inr_iff commit_or_conflict_Inr Let_def split: if_splits)
    then show ?thesis using mem by (auto intro: stable_put)
  qed
qed

lemma record_delete_stable:
  assumes "record_delete now t layer key u shared = Inr (t', en)"
  shows "stable t t'"
proof -
  obtain e where e: "read_row t layer key u = Some e"
    using assms by (cases "read_row t layer key u") (auto simp: record_delete_def res_bind_Inr_iff)
  with assms have "t' = put_row (tombstone now u e) t \<and> uq_layer_key t \<or> t' = t"
    by (auto simp: record_delete_def res_bind_Inr_iff commit_plain_Inr Let_def split: if_splits)
  then show ?thesis using read_row_found [OF e] by (auto intro: stable_put)
qed

lemma only_at_stable: "only_at K t t' \<Longrightarrow> stable t t'"
  unfolding only_at_def stable_def by (auto simp: same_row_def keeps_def)

lemma exec_stable: "exec c t = Inr (t', en) \<Longrightarrow> stable t t'"
  by (cases "c_op c")
    (auto simp: exec_def dest: record_create_stable record_update_stable record_delete_stable
      only_at_stable [OF upsert_only_at])

section \<open>What one event does to one row\<close>

fun verdict_for :: "scan_event \<Rightarrow> string \<Rightarrow> string \<Rightarrow> bool" where
  "verdict_for (EvVerdict now db_ok (Some (PDict p))) i status \<longleftrightarrow>
     db_ok \<and> map_of p ''scan_id'' = Some (PStr i) \<and>
     (case map_of p ''kind'' of Some kind \<Rightarrow> verdict_status kind = Inr status | None \<Rightarrow> False)"
| "verdict_for _ i status \<longleftrightarrow> False"

fun indexing :: "scan_event \<Rightarrow> scan_state \<Rightarrow> string \<Rightarrow> bool" where
  "indexing (EvIndex now db_ok col_error env) s i \<longleftrightarrow>
     st_index_queue s \<noteq> [] \<and> ix_scan_id (hd (st_index_queue s)) = i"
| "indexing _ s i \<longleftrightarrow> False"

fun publishing :: "scan_event \<Rightarrow> scan_state \<Rightarrow> string \<Rightarrow> bool" where
  "publishing (EvPublish now outcome db_ok) s i \<longleftrightarrow>
     outcome = Published \<and> db_ok \<and> st_scan_queue s \<noteq> [] \<and> sq_scan_id (hd (st_scan_queue s)) = i"
| "publishing _ s i \<longleftrightarrow> False"

definition row_change :: "scan_event \<Rightarrow> scan_state \<Rightarrow> scan_row \<Rightarrow> scan_row \<Rightarrow> bool" where
  "row_change e s r r' \<longleftrightarrow>
     sr_id r' = sr_id r \<and>
     (sr_published_at_ms r' = sr_published_at_ms r \<or>
        sr_published_at_ms r = None \<and> publishing e s (sr_id r)) \<and>
     (sr_scan_status r' = sr_scan_status r \<and> sr_key r' = sr_key r \<or>
        (\<exists>status. verdict_for e (sr_id r) status \<and> sr_scan_status r' = Some status \<and>
           sr_key r' = (if status = ''scanned_clean''
                        then episodic_uri EPISODIC_BUCKET EPISODIC_PREFIX (sr_id r) (sr_key r)
                        else sr_key r))) \<and>
     (mi_indexed_at_ms (sr_item r') = mi_indexed_at_ms (sr_item r) \<or>
        mi_indexed_at_ms (sr_item r') = None \<or> indexing e s (sr_id r)) \<and>
     (mi_index_failed_at_ms (sr_item r') = mi_index_failed_at_ms (sr_item r) \<and>
        mi_index_failure_code (sr_item r') = mi_index_failure_code (sr_item r) \<and>
        sr_index_attempts r' = sr_index_attempts r \<or> indexing e s (sr_id r))"

lemma row_change_refl [simp]: "row_change e s r r"
  by (simp add: row_change_def)

definition row_new :: "scan_event \<Rightarrow> scan_state \<Rightarrow> scan_row \<Rightarrow> bool" where
  "row_new e s r \<longleftrightarrow>
     sr_published_at_ms r = None \<and> (never_indexed (sr_item r) \<or> indexing e s (sr_id r)) \<and>
     (sr_scan_status r = None \<or>
        (\<exists>u. e = EvUpload u \<and> sr_id r = up_scan_id u) \<and> sr_scan_status r = Some ''pending_scan'' \<and>
        py_startswith (sr_key r) ''s3://'')"

definition rows_step :: "scan_event \<Rightarrow> scan_state \<Rightarrow> scan_row list \<Rightarrow> scan_row list \<Rightarrow> bool" where
  "rows_step e s rows rows' \<longleftrightarrow>
     length rows \<le> length rows' \<and> (\<forall>i < length rows. row_change e s (rows ! i) (rows' ! i)) \<and>
     (\<forall>i. length rows \<le> i \<longrightarrow> i < length rows' \<longrightarrow> row_new e s (rows' ! i))"

lemma rows_step_refl [simp]: "rows_step e s rows rows"
  by (simp add: rows_step_def)

lemma rows_step_map_if:
  "(\<And>r. r \<in> set rows \<Longrightarrow> p r \<Longrightarrow> row_change e s r (f r)) \<Longrightarrow> rows_step e s rows (map_if p f rows)"
  by (simp add: rows_step_def nth_map_if)

lemma with_items_simps:
  assumes "length rows \<le> length t"
  shows "length (with_items rows t) = length t"
    and "i < length rows \<Longrightarrow> with_items rows t ! i = (rows ! i)\<lparr>sr_item := t ! i\<rparr>"
    and "length rows \<le> i \<Longrightarrow> i < length t \<Longrightarrow>
      with_items rows t ! i = \<lparr>sr_item = t ! i, sr_scan_status = None, sr_published_at_ms = None,
        sr_trace_id = None, sr_index_attempts = 0\<rparr>"
  using assms by (auto simp: with_items_def nth_append)

lemma with_items_step:
  assumes "stable (map sr_item rows) t"
  shows "rows_step e s rows (with_items rows t)"
proof -
  have len: "length rows \<le> length t" using assms(1) by (simp add: stable_def)
  have "row_change e s (rows ! i) (with_items rows t ! i)" if "i < length rows" for i
  proof -
    have "keeps (sr_item (rows ! i)) (t ! i)" using assms(1) that by (simp add: stable_def)
    then show ?thesis using that by (simp add: with_items_simps [OF len] row_change_def keeps_def)
  qed
  moreover have "row_new e s (with_items rows t ! i)" if "length rows \<le> i" "i < length t" for i
    using assms that by (simp add: with_items_simps [OF len] stable_def row_new_def)
  ultimately show ?thesis using len by (simp add: rows_step_def with_items_simps [OF len])
qed

lemma find_id: "find (\<lambda>r. sr_id r = i) rows = Some r \<Longrightarrow> r \<in> set rows \<and> sr_id r = i"
  by (drule find_Some_set) simp

lemma distinct_id:
  "distinct (map sr_id rows) \<Longrightarrow> r \<in> set rows \<Longrightarrow> r' \<in> set rows \<Longrightarrow> sr_id r = sr_id r' \<Longrightarrow> r = r'"
  by (simp add: distinct_map inj_on_def)

lemma commit_scan_Inr: "commit_scan written rows = Inr rows' \<longleftrightarrow>
    rows' = rows \<and> first_row_error (map sr_item written) = None \<and> list_all scan_widths_ok written \<and>
    distinct (map sr_id rows) \<and> uq_layer_key (map sr_item rows)"
  by (auto simp: commit_scan_def)

subsection \<open>Verdicts\<close>

lemma apply_verdict_cases:
  assumes "apply_verdict now db_ok p s = (s', x)"
  shows "s' = s \<or>
    (\<exists>i kind status row. db_ok \<and> map_of p ''scan_id'' = Some (PStr i) \<and> map_of p ''kind'' = Some kind \<and>
       verdict_status kind = Inr status \<and> row \<in> set (st_rows s) \<and> sr_id row = i \<and>
       distinct (map sr_id (st_rows s)) \<and>
       (let bare = (if kind = PStr ''clean'' then Some (episodic_bare_key EPISODIC_PREFIX i (sr_key row)) else None)
        in s' = s\<lparr>st_rows := map_if (\<lambda>r. sr_id r = i) (\<lambda>_. verdict_row now status bare row) (st_rows s),
                  st_index_queue := st_index_queue s @
                    (case bare of None \<Rightarrow> [] | Some k \<Rightarrow> [index_request_of row k])\<rparr>))"
proof (cases "s' = s")
  case False
  then obtain scan_id kind status where
    p: "map_of p ''scan_id'' = Some scan_id" "map_of p ''kind'' = Some kind"
    and st: "verdict_status kind = Inr status" and db: db_ok
    using assms by (auto simp: apply_verdict_def split: option.splits sum.splits if_splits)
  obtain i where i: "scan_id = PStr i"
    using False assms p st db
    by (cases scan_id) (auto simp: apply_verdict_def row_by_id_def)
  obtain row where row: "find (\<lambda>r. sr_id r = i) (st_rows s) = Some row"
    using False assms p st db i
    by (cases "find (\<lambda>r. sr_id r = i) (st_rows s)") (auto simp: apply_verdict_def row_by_id_def)
  define bare where "bare = (if kind = PStr ''clean'' then Some (episodic_bare_key EPISODIC_PREFIX i (sr_key row)) else None)"
  have id: "row \<in> set (st_rows s)" "sr_id row = i" using find_id [OF row] by auto
  have "case commit_scan [verdict_row now status bare row]
        (map_if (\<lambda>r. sr_id r = i) (\<lambda>_. verdict_row now status bare row) (st_rows s)) of
      Inl e \<Rightarrow> s' = s
    | Inr rows \<Rightarrow> s' = s\<lparr>st_rows := rows, st_index_queue := st_index_queue s @
        (case bare of None \<Rightarrow> [] | Some k \<Rightarrow> [index_request_of row k])\<rparr>"
    using assms p st db i row id
    by (auto simp: apply_verdict_def row_by_id_def Let_def bare_def split: sum.splits)
  with False have "distinct (map sr_id (map_if (\<lambda>r. sr_id r = i) (\<lambda>_. verdict_row now status bare row) (st_rows s)))"
    and s': "s' = s\<lparr>st_rows := map_if (\<lambda>r. sr_id r = i) (\<lambda>_. verdict_row now status bare row) (st_rows s),
        st_index_queue := st_index_queue s @ (case bare of None \<Rightarrow> [] | Some k \<Rightarrow> [index_request_of row k])\<rparr>"
    by (auto simp: commit_scan_Inr split: sum.splits)
  moreover have "map sr_id (map_if (\<lambda>r. sr_id r = i) (\<lambda>_. verdict_row now status bare row) (st_rows s)) =
      map sr_id (st_rows s)"
    using id by (auto simp: map_if_def verdict_row_def Let_def split: option.splits)
  ultimately have "distinct (map sr_id (st_rows s))" by simp
  then show ?thesis using p st db i id s' unfolding bare_def Let_def by blast
qed simp

lemma verdict_status_clean: "verdict_status kind = Inr status \<Longrightarrow>
    (kind = PStr ''clean'' \<longleftrightarrow> status = ''scanned_clean'') \<and> status \<in> set SCAN_STATUS_CODES"
  by (auto simp: verdict_status_def VERDICT_TO_SCAN_STATUS_def SCAN_STATUS_CODES_def
      split: pyval.splits if_splits option.splits)

lemma verdict_row_change:
  assumes "verdict_for e (sr_id r) status" and "verdict_status kind = Inr status"
    and "bare = (if kind = PStr ''clean'' then Some (episodic_bare_key EPISODIC_PREFIX (sr_id r) (sr_key r)) else None)"
  shows "row_change e s r (verdict_row now status bare r)"
  using assms verdict_status_clean [OF assms(2)]
  by (auto simp: row_change_def verdict_row_def Let_def episodic_uri_def)

lemma apply_verdict_step:
  assumes "apply_verdict now db_ok p s = (s', x)"
  shows "rows_step (EvVerdict now db_ok (Some (PDict p))) s0 (st_rows s) (st_rows s')"
  using apply_verdict_cases [OF assms]
proof (elim disjE exE conjE)
  assume "s' = s"
  then show ?thesis by simp
next
  fix i kind status row
  let ?bare = "if kind = PStr ''clean'' then Some (episodic_bare_key EPISODIC_PREFIX i (sr_key row)) else None"
  assume db: db_ok and p: "map_of p ''scan_id'' = Some (PStr i)" "map_of p ''kind'' = Some kind"
    and st: "verdict_status kind = Inr status" and row: "row \<in> set (st_rows s)" "sr_id row = i"
    and d: "distinct (map sr_id (st_rows s))"
    and s': "let bare = ?bare
        in s' = s\<lparr>st_rows := map_if (\<lambda>r. sr_id r = i) (\<lambda>_. verdict_row now status bare row) (st_rows s),
                  st_index_queue := st_index_queue s @
                    (case bare of None \<Rightarrow> [] | Some k \<Rightarrow> [index_request_of row k])\<rparr>"
  have "rows_step (EvVerdict now db_ok (Some (PDict p))) s0 (st_rows s)
      (map_if (\<lambda>r. sr_id r = i) (\<lambda>_. verdict_row now status ?bare row) (st_rows s))"
  proof (rule rows_step_map_if)
    fix r assume r: "r \<in> set (st_rows s)" "sr_id r = i"
    then have "r = row" using distinct_id [OF d r(1) row(1)] row(2) by simp
    then show "row_change (EvVerdict now db_ok (Some (PDict p))) s0 r (verdict_row now status ?bare row)"
      using verdict_row_change [OF _ st refl, of "EvVerdict now db_ok (Some (PDict p))" row s0 now]
        db p st row(2) by (auto split: if_splits)
  qed
  with s' show ?thesis by (simp add: Let_def)
qed

subsection \<open>The index worker\<close>

lemma rows_step_trans_indexing:
  assumes "rows_step (EvManifest c) s rows rows1"
    and "\<And>r. r \<in> set rows1 \<Longrightarrow> p r \<Longrightarrow> indexing e s (sr_id r)"
    and "\<And>r. sr_id (f r) = sr_id r \<and> sr_published_at_ms (f r) = sr_published_at_ms r \<and>
        sr_scan_status (f r) = sr_scan_status r \<and> sr_key (f r) = sr_key r"
  shows "rows_step e s rows (map_if p f rows1)"
proof -
  have "row_change e s (rows ! i) (map_if p f rows1 ! i)" if i: "i < length rows" for i
  proof -
    have len: "i < length rows1" using assms(1) i by (simp add: rows_step_def)
    have ch: "row_change (EvManifest c) s (rows ! i) (rows1 ! i)" using assms(1) i by (simp add: rows_step_def)
    show ?thesis
    proof (cases "p (rows1 ! i)")
      case True
      then have "indexing e s (sr_id (rows ! i))"
        using assms(2) [of "rows1 ! i"] ch len by (simp add: row_change_def)
      with True ch assms(3) [of "rows1 ! i"] len show ?thesis
        by (auto simp: row_change_def nth_map_if)
    next
      case False
      with ch len show ?thesis by (auto simp: row_change_def nth_map_if)
    qed
  qed
  moreover have "row_new e s (map_if p f rows1 ! i)" if "length rows \<le> i" "i < length rows1" for i
  proof -
    have "row_new (EvManifest c) s (rows1 ! i)" using assms(1) that by (simp add: rows_step_def)
    with assms(2) [of "rows1 ! i"] assms(3) [of "rows1 ! i"] that show ?thesis
      by (auto simp: nth_map_if row_new_def)
  qed
  ultimately show ?thesis using assms(1) by (simp add: rows_step_def)
qed

lemma items_with_items: "length rows \<le> length t \<Longrightarrow> map sr_item (with_items rows t) = t"
proof -
  assume len: "length rows \<le> length t"
  have "map sr_item (with_items rows t) = map snd (zip rows t) @ drop (length rows) t"
    by (auto simp: with_items_def o_def case_prod_beta)
  also have "\<dots> = t" using len by (simp add: map_snd_zip_take min_absorb1)
  finally show ?thesis .
qed

lemma indexer_step:
  assumes "default_indexer st now col_error env q s = (s', x)"
  shows "rows_step (EvManifest c) s0 (st_rows s) (st_rows s') \<and> st_index_queue s' = st_index_queue s \<and>
    st_scan_queue s' = st_scan_queue s \<and> st_broker s' = st_broker s \<and>
    only_at {ix_key q} (map sr_item (st_rows s)) (map sr_item (st_rows s'))"
proof (cases "ix_collection q = ''ai_research_papers'' \<and> col_error = None")
  case False
  with assms show ?thesis by (auto simp: default_indexer_def split: if_splits option.splits)
next
  case True
  obtain r y where run: "index_pdf_objects env (index_call now q) [(ix_key q, last_component (ix_key q))]
      (start_run (st_store s) (map sr_item (st_rows s))) = (r, y)" by fastforce
  have at: "only_at {ix_key q} (map sr_item (st_rows s)) (r_table r)"
    using index_pdf_objects_effect [OF run] by (simp add: doc_effect_def start_run_def)
  have len: "length (st_rows s) \<le> length (r_table r)" using at by (simp add: only_at_def)
  have "map sr_item (with_items (st_rows s) (r_table r)) = r_table r"
    by (rule items_with_items [OF len])
  then show ?thesis
    using assms True run with_items_step [OF only_at_stable [OF at]] at
    by (auto simp: default_indexer_def Let_def)
qed

lemma index_one_step:
  assumes "indexing e s0 (ix_scan_id q)"
  shows "rows_step e s0 (st_rows s) (st_rows (index_one st now db_ok col_error env q s)) \<and>
    st_index_queue (index_one st now db_ok col_error env q s) = st_index_queue s \<and>
    st_scan_queue (index_one st now db_ok col_error env q s) = st_scan_queue s \<and>
    st_broker (index_one st now db_ok col_error env q s) = st_broker s"
proof -
  obtain s1 x where ind: "default_indexer st now col_error env q s = (s1, x)" by fastforce
  note one = indexer_step [OF ind, of undefined s0]
  have same: "sr_id (f r) = sr_id r \<and> sr_published_at_ms (f r) = sr_published_at_ms r \<and>
      sr_scan_status (f r) = sr_scan_status r \<and> sr_key (f r) = sr_key r"
    if "f = (\<lambda>r. r\<lparr>sr_item := (sr_item r)\<lparr>mi_indexed_at_ms := Some now\<rparr>\<rparr>) \<or>
        (\<exists>a k. f = failed_row now a k)" for f :: "scan_row \<Rightarrow> scan_row" and r
    using that by (auto simp: failed_row_def)
  have none: "map_if (\<lambda>r. False) f rows = rows" for f and rows :: "scan_row list"
    by (simp add: map_if_def)
  have triv: "\<exists>p f. rows = map_if p f rows \<and> (\<forall>r. p r \<longrightarrow> sr_id r = ix_scan_id q) \<and>
      (f = (\<lambda>r. r\<lparr>sr_item := (sr_item r)\<lparr>mi_indexed_at_ms := Some now\<rparr>\<rparr>) \<or> (\<exists>a k. f = failed_row now a k))" for rows
    by (rule exI [of _ "\<lambda>_. False"], rule exI [of _ "failed_row now 0 None"]) (auto simp: none)
  have "\<exists>p f. st_rows (index_one st now db_ok col_error env q s) = map_if p f (st_rows s1) \<and>
      (\<forall>r. p r \<longrightarrow> sr_id r = ix_scan_id q) \<and>
      (f = (\<lambda>r. r\<lparr>sr_item := (sr_item r)\<lparr>mi_indexed_at_ms := Some now\<rparr>\<rparr>) \<or> (\<exists>a k. f = failed_row now a k))"
  proof (cases "x = Inr True")
    case True
    with ind triv show ?thesis
      by (cases db_ok) (auto simp: index_one_def mark_indexed_def)
  next
    case False
    have "st_rows (index_one st now db_ok col_error env q s) =
        record_failure now db_ok (ss_index_max_attempts st) (ix_scan_id q) (st_rows s1)"
      using False ind by (auto simp: index_one_def split: sum.splits bool.splits)
    moreover have "\<exists>p a k. record_failure now db_ok m i rows = map_if p (failed_row now a k) rows \<and>
        (\<forall>r. p r \<longrightarrow> sr_id r = i)" for m i rows
      by (cases "db_ok \<and> find (\<lambda>r. sr_id r = i) rows \<noteq> None")
        (auto simp: record_failure_def none Let_def split: option.splits intro: exI [of _ "\<lambda>r. False"])
    ultimately show ?thesis by metis
  qed
  then obtain p f where rows: "st_rows (index_one st now db_ok col_error env q s) = map_if p f (st_rows s1)"
    and p: "\<And>r. p r \<Longrightarrow> sr_id r = ix_scan_id q"
    and f: "f = (\<lambda>r. r\<lparr>sr_item := (sr_item r)\<lparr>mi_indexed_at_ms := Some now\<rparr>\<rparr>) \<or> (\<exists>a k. f = failed_row now a k)"
    by blast
  have "rows_step e s0 (st_rows s) (map_if p f (st_rows s1))"
    by (rule rows_step_trans_indexing [OF one [THEN conjunct1]])
      (use p assms same [OF f] in auto)
  moreover have "st_index_queue (index_one st now db_ok col_error env q s) = st_index_queue s1 \<and>
      st_scan_queue (index_one st now db_ok col_error env q s) = st_scan_queue s1 \<and>
      st_broker (index_one st now db_ok col_error env q s) = st_broker s1"
    using ind by (auto simp: index_one_def split: sum.splits bool.splits)
  ultimately show ?thesis using one rows by simp
qed

subsection \<open>All events\<close>

lemma scan_item_simps [simp]:
  "sr_id (scan_item i u uri d sz t tr now) = i" "sr_key (scan_item i u uri d sz t tr now) = uri"
  "sr_scan_status (scan_item i u uri d sz t tr now) = Some ''pending_scan''"
  "sr_published_at_ms (scan_item i u uri d sz t tr now) = None"
  "never_indexed (sr_item (scan_item i u uri d sz t tr now))"
  by (simp_all add: scan_item_def new_item_def never_indexed_def)

lemma upload_cases:
  assumes "handle_pdf_upload sha st u s = (s', x)"
  shows "st_rows s' = st_rows s \<and> st_scan_queue s' = st_scan_queue s \<or>
    (\<exists>uri digest sz title trace q. st_rows s' = st_rows s @
        [scan_item (up_scan_id u) (up_user_id u) uri digest sz title trace (up_now u)] \<and>
      py_startswith uri ''s3://'' \<and> distinct (map sr_id (st_rows s')) \<and>
      st_scan_queue s' = st_scan_queue s @ [q] \<and> sq_scan_id q = up_scan_id u \<and>
      uri = quarantine_uri (shared_bucket st) (quarantine_key (up_user_id u) (up_scan_id u) (up_filename u)))"
proof -
  have uri: "put_quarantine st (up_put u) (up_user_id u) (up_scan_id u) (up_filename u) (up_content u) objs =
      Inr (objs', uri) \<Longrightarrow>
      uri = quarantine_uri (shared_bucket st) (quarantine_key (up_user_id u) (up_scan_id u) (up_filename u))"
    for objs objs' uri
    by (auto simp: put_quarantine_def Let_def split: put_result.splits)
  have s3: "py_startswith (quarantine_uri b k) ''s3://''" for b k
    by (simp add: quarantine_uri_def py_startswith_def)
  show ?thesis
    using assms
    by (auto simp: handle_pdf_upload_def insert_pending_scan_def commit_scan_Inr Let_def s3
        split: if_splits sum.splits prod.splits dest!: uri) blast+
qed

lemma upload_frame:
  "st_index_queue (fst (handle_pdf_upload sha st u s)) = st_index_queue s"
  "st_broker (fst (handle_pdf_upload sha st u s)) = st_broker s"
  by (auto simp: handle_pdf_upload_def Let_def split: sum.splits prod.splits)

lemma rows_step_append1:
  "row_new e s r \<Longrightarrow> rows_step e s rows (rows @ [r])"
  by (auto simp: rows_step_def nth_append less_Suc_eq)

lemma scan_step_rows: "rows_step e s (st_rows s) (st_rows (scan_step sha st e s))"
proof (cases e)
  case (EvUpload u)
  obtain s' x where up: "handle_pdf_upload sha st u s = (s', x)" by fastforce
  from upload_cases [OF up] show ?thesis
    by (auto simp: EvUpload up row_new_def intro!: rows_step_append1)
next
  case (EvPublish now outcome db_ok)
  show ?thesis
  proof (cases "st_scan_queue s")
    case (Cons q qs)
    have "rows_step e s (st_rows s) (mark_published now (sq_scan_id q) (st_rows s))"
      if "outcome = Published" "db_ok"
      unfolding mark_published_def
      by (rule rows_step_map_if) (use that Cons EvPublish in \<open>auto simp: row_change_def\<close>)
    then show ?thesis
      by (cases outcome) (auto simp: EvPublish Cons publish_one_def Let_def)
  qed (simp add: EvPublish)
next
  case (EvVerdict now db_ok body)
  show ?thesis
  proof (cases "\<exists>p. body = Some (PDict p)")
    case True
    then obtain p where p: "body = Some (PDict p)" by blast
    obtain s' x where ap: "apply_verdict now db_ok p s = (s', x)" by fastforce
    from apply_verdict_step [OF ap] show ?thesis by (simp add: EvVerdict p process_verdict_def ap)
  next
    case False
    then show ?thesis by (auto simp: EvVerdict process_verdict_def split: option.splits pyval.splits)
  qed
next
  case (EvIndex now db_ok col_error env)
  show ?thesis
  proof (cases "st_index_queue s")
    case (Cons q qs)
    then show ?thesis
      using index_one_step [of e s q "s\<lparr>st_index_queue := qs\<rparr>" st now db_ok col_error env]
      by (simp add: EvIndex)
  qed (simp add: EvIndex)
next
  case (EvManifest c)
  show ?thesis
  proof (cases "exec c (map sr_item (st_rows s))")
    case (Inr v)
    obtain t en where v: "v = (t, en)" by fastforce
    show ?thesis using with_items_step [OF exec_stable] Inr v by (auto simp: EvManifest)
  qed (simp add: EvManifest)
qed simp_all

end
