(* ===== verification/ScanInv.thy ===== *)
theory ScanInv
  imports ScanProps
begin

text \<open>
  Invariants of every run of the upload-scan-index pipeline.
\<close>

section \<open>The index queue\<close>

lemma default_indexer_queue:
  "st_index_queue (fst (default_indexer st now ce env q s)) = st_index_queue s"
  by (auto simp: default_indexer_def Let_def split: option.splits prod.splits)

lemma db_order_subset: "set (db_order is xs) \<subseteq> set xs"
  by (auto simp: db_order_def list_all_iff)

lemma index_orphans_mem:
  assumes "q \<in> set (index_orphans st now order rows)"
  shows "\<exists>r \<in> set rows. q = index_request_of r (bare_key_from_uri (sr_key r)) \<and>
    sr_scan_status r = Some ''scanned_clean'' \<and> mi_indexed_at_ms (sr_item r) = None \<and>
    mi_deleted_at_ms (sr_item r) = None \<and> mi_index_failed_at_ms (sr_item r) = None \<and>
    mi_created_at_ms (sr_item r) < now - ss_index_janitor_grace_seconds st * 1000"
proof -
  obtain r where r: "r \<in> set (take JANITOR_BATCH_SIZE (db_order order (sql_select (index_orphan st now) rows)))"
    and q: "q = index_request_of r (bare_key_from_uri (sr_key r))"
    using assms by (auto simp: index_orphans_def)
  have "r \<in> set (sql_select (index_orphan st now) rows)"
    using r db_order_subset by (metis in_set_takeD subsetD)
  then show ?thesis
    using q by (auto simp: set_sql_select index_orphan_def sql_simps ELIGIBLE_SCAN_STATUS_def)
qed

lemma index_queue_step:
  assumes "q \<in> set (st_index_queue (scan_step sha st e s))"
  shows "q \<in> set (st_index_queue s) \<or>
    (\<exists>r \<in> set (st_rows s). sr_scan_status r = Some ''scanned_clean'' \<and>
       q = index_request_of r (bare_key_from_uri (sr_key r))) \<or>
    (\<exists>r \<in> set (st_rows s). verdict_for e (sr_id r) ''scanned_clean'' \<and>
       q = index_request_of r (episodic_bare_key EPISODIC_PREFIX (sr_id r) (sr_key r)))"
proof (cases e)
  case (EvUpload u)
  with assms show ?thesis by (simp add: upload_frame)
next
  case (EvPublish now outcome db_ok)
  with assms show ?thesis
    by (auto simp: publish_one_def Let_def split: list.splits publish_outcome.splits if_splits)
next
  case (EvVerdict now db_ok body)
  show ?thesis
  proof (cases "\<exists>p. body = Some (PDict p)")
    case True
    then obtain p where p: "body = Some (PDict p)" by blast
    obtain s' x where ap: "apply_verdict now db_ok p s = (s', x)" by fastforce
    have q: "q \<in> set (st_index_queue s')" using assms by (simp add: EvVerdict p process_verdict_def ap)
    from apply_verdict_cases [OF ap] show ?thesis
    proof (elim disjE exE conjE)
      assume "s' = s"
      with q show ?thesis by simp
    next
      fix i kind status row
      assume "db_ok" "map_of p ''scan_id'' = Some (PStr i)" "map_of p ''kind'' = Some kind"
        and st: "verdict_status kind = Inr status" and row: "row \<in> set (st_rows s)" "sr_id row = i"
        and s': "let bare = (if kind = PStr ''clean'' then Some (episodic_bare_key EPISODIC_PREFIX i (sr_key row)) else None)
          in s' = s\<lparr>st_rows := map_if (\<lambda>r. sr_id r = i) (\<lambda>_. verdict_row now status bare row) (st_rows s),
                    st_index_queue := st_index_queue s @
                      (case bare of None \<Rightarrow> [] | Some k \<Rightarrow> [index_request_of row k])\<rparr>"
      then have "verdict_for e i status" by (simp add: EvVerdict p)
      with q s' row verdict_status_clean [OF st] show ?thesis
        by (auto simp: Let_def split: if_splits)
    qed
  next
    case False
    with assms show ?thesis by (auto simp: EvVerdict process_verdict_def split: option.splits pyval.splits)
  qed
next
  case (EvIndex now db_ok col_error env)
  show ?thesis
  proof (cases "st_index_queue s")
    case (Cons q' qs)
    then show ?thesis
      using assms index_one_step [of e s q' "s\<lparr>st_index_queue := qs\<rparr>" st now db_ok col_error env]
      by (auto simp: EvIndex)
  qed (use assms in \<open>simp add: EvIndex\<close>)
next
  case (EvIndexTick now db_ok order)
  with assms show ?thesis by (auto dest: index_orphans_mem split: if_splits)
next
  case (EvManifest c)
  with assms show ?thesis by (auto split: sum.splits prod.splits)
qed (use assms in \<open>auto split: if_splits\<close>)

section \<open>Rows one by one\<close>

lemma rows_step_cases:
  assumes "rows_step e s rows rows'" and "r' \<in> set rows'"
  obtains r where "r \<in> set rows" and "row_change e s r r'" | "row_new e s r'"
proof -
  from assms(2) obtain i where i: "i < length rows'" "r' = rows' ! i" by (auto simp: in_set_conv_nth)
  show thesis
  proof (cases "i < length rows")
    case True
    with assms(1) i that(1) [of "rows ! i"] show thesis by (simp add: rows_step_def)
  next
    case False
    with assms(1) i that(2) show thesis by (simp add: rows_step_def)
  qed
qed

definition clean_seen :: "scan_event list \<Rightarrow> string \<Rightarrow> bool" where
  "clean_seen es i \<longleftrightarrow> list_ex (\<lambda>e. verdict_for e i ''scanned_clean'') es"

lemma clean_seen_append [simp]:
  "clean_seen (es @ [e]) i \<longleftrightarrow> clean_seen es i \<or> verdict_for e i ''scanned_clean''"
  by (simp add: clean_seen_def)

lemma verdict_for_unique: "verdict_for e i a \<Longrightarrow> verdict_for e i b \<Longrightarrow> a = b"
  by (induction e i a rule: verdict_for.induct) (auto split: option.splits)

lemma ix_scan_id_request [simp]: "ix_scan_id (index_request_of r k) = sr_id r"
  by (simp add: index_request_of_def)

lemma indexing_seen: "indexing e s i \<Longrightarrow> \<forall>q \<in> set (st_index_queue s). p (ix_scan_id q) \<Longrightarrow> p i"
  by (induction e s i rule: indexing.induct) auto

lemma indexing_queue: "indexing e s i \<Longrightarrow> \<exists>q \<in> set (st_index_queue s). ix_scan_id q = i"
  by (induction e s i rule: indexing.induct) (auto simp: hd_in_set)

definition index_inv :: "scan_event list \<Rightarrow> scan_state \<Rightarrow> bool" where
  "index_inv es s \<longleftrightarrow>
     (\<forall>r \<in> set (st_rows s). mi_indexed_at_ms (sr_item r) \<noteq> None \<or> sr_scan_status r = Some ''scanned_clean''
        \<longrightarrow> clean_seen es (sr_id r)) \<and>
     (\<forall>q \<in> set (st_index_queue s). clean_seen es (ix_scan_id q))"

lemma index_inv_run: "scan_run sha st es s \<Longrightarrow> index_inv es s"
proof (induction rule: scan_run.induct)
  case (start s)
  then show ?case by (simp add: scan_start_def index_inv_def)
next
  case (step es s e)
  have rows: "clean_seen (es @ [e]) (sr_id r')"
    if r': "r' \<in> set (st_rows (scan_step sha st e s))"
      and marked: "mi_indexed_at_ms (sr_item r') \<noteq> None \<or> sr_scan_status r' = Some ''scanned_clean''" for r'
    using scan_step_rows r'
  proof (rule rows_step_cases)
    fix r assume r: "r \<in> set (st_rows s)" and ch: "row_change e s r r'"
    have old: "clean_seen es (sr_id r)" if "mi_indexed_at_ms (sr_item r) \<noteq> None \<or> sr_scan_status r = Some ''scanned_clean''"
      using step.IH r that unfolding index_inv_def by blast
    have queued: "clean_seen es (sr_id r)" if "indexing e s (sr_id r)"
      using step.IH indexing_seen [OF that, of "clean_seen es"] by (simp add: index_inv_def)
    have ixd: "mi_indexed_at_ms (sr_item r') = mi_indexed_at_ms (sr_item r) \<or>
        mi_indexed_at_ms (sr_item r') = None \<or> indexing e s (sr_id r)"
      using ch by (simp add: row_change_def)
    have status: "sr_scan_status r' = sr_scan_status r \<or>
        (\<exists>status. verdict_for e (sr_id r) status \<and> sr_scan_status r' = Some status)"
      using ch by (auto simp: row_change_def)
    have "clean_seen es (sr_id r) \<or> verdict_for e (sr_id r) ''scanned_clean''"
    proof (cases "mi_indexed_at_ms (sr_item r') \<noteq> None")
      case True
      with ixd old queued show ?thesis by auto
    next
      case False
      with marked have "sr_scan_status r' = Some ''scanned_clean''" by simp
      with status old show ?thesis by auto
    qed
    with ch show ?thesis by (simp add: row_change_def)
  next
    assume "row_new e s r'"
    then have "indexing e s (sr_id r')"
      using marked by (auto simp: row_new_def never_indexed_def)
    then have "clean_seen es (sr_id r')"
      using step.IH indexing_seen [of e s "sr_id r'" "clean_seen es"] unfolding index_inv_def by blast
    then show ?thesis by simp
  qed
  moreover have "clean_seen (es @ [e]) (ix_scan_id q)"
    if "q \<in> set (st_index_queue (scan_step sha st e s))" for q
    using index_queue_step [OF that] step.IH by (auto simp: index_inv_def)
  ultimately show ?case by (simp add: index_inv_def)
qed


end
