(* ===== verification/ScanLaws.thy ===== *)
theory ScanLaws
  imports ScanInv
begin

text \<open>
  More invariants of the upload-scan-index pipeline: publication, statuses, the attempt bound and
  the failure codes, and what the janitors recover after a restart.
\<close>

section \<open>Publication\<close>

definition sent :: "scan_state \<Rightarrow> string \<Rightarrow> bool" where
  "sent s i \<longleftrightarrow> (\<exists>m \<in> set (st_broker s). map_of m ''scan_id'' = Some (PStr i))"

lemma broker_step:
  "set (st_broker s) \<subseteq> set (st_broker (scan_step sha st e s))"
proof (cases e)
  case (EvUpload u)
  then show ?thesis by (simp add: upload_frame)
next
  case (EvPublish now outcome db_ok)
  then show ?thesis by (auto simp: publish_one_def Let_def split: list.splits publish_outcome.splits)
next
  case (EvVerdict now db_ok body)
  have "st_broker (fst (apply_verdict now db_ok p s)) = st_broker s" for p
  proof -
    obtain s' x where ap: "apply_verdict now db_ok p s = (s', x)" by fastforce
    from apply_verdict_cases [OF ap] show ?thesis by (auto simp: ap Let_def)
  qed
  then show ?thesis by (auto simp: EvVerdict process_verdict_def split: option.splits pyval.splits)
next
  case (EvIndex now db_ok col_error env)
  show ?thesis
  proof (cases "st_index_queue s")
    case (Cons q qs)
    then show ?thesis
      using index_one_step [of e s q "s\<lparr>st_index_queue := qs\<rparr>" st now db_ok col_error env]
      by (simp add: EvIndex)
  qed (simp add: EvIndex)
next
  case (EvManifest c)
  then show ?thesis by (auto split: sum.splits prod.splits)
qed auto

lemma sent_step: "sent s i \<Longrightarrow> sent (scan_step sha st e s) i"
  using broker_step [of s sha st e] unfolding sent_def by blast

lemma publishing_sent: "publishing e s i \<Longrightarrow> sent (scan_step sha st e s) i"
  by (induction e s i rule: publishing.induct)
    (auto simp: sent_def publish_one_def as_amqp_payload_def Let_def split: list.splits)

lemma published_run:
  "scan_run sha st es s \<Longrightarrow> \<forall>r \<in> set (st_rows s). sr_published_at_ms r \<noteq> None \<longrightarrow> sent s (sr_id r)"
proof (induction rule: scan_run.induct)
  case (start s)
  then show ?case by (auto simp: scan_start_def)
next
  case (step es s e)
  show ?case
  proof (intro ballI impI)
    fix r' assume r': "r' \<in> set (st_rows (scan_step sha st e s))" and pub: "sr_published_at_ms r' \<noteq> None"
    show "sent (scan_step sha st e s) (sr_id r')"
      using scan_step_rows r'
    proof (rule rows_step_cases)
      fix r assume r: "r \<in> set (st_rows s)" and ch: "row_change e s r r'"
      have "sr_id r' = sr_id r" "sr_published_at_ms r \<noteq> None \<or> publishing e s (sr_id r)"
        using ch pub by (auto simp: row_change_def)
      then show ?thesis using step.IH r sent_step publishing_sent by metis
    qed (use pub in \<open>simp add: row_new_def\<close>)
  qed
qed

text \<open>
  In every run, a row carries a publication time only if the broker has been handed a scan
  request with its identifier, and an event never changes a publication time that is set.
\<close>

lemma published_only_after_broker:
  assumes "scan_run sha st es s"
  shows "(\<forall>r \<in> set (st_rows s). sr_published_at_ms r \<noteq> None \<longrightarrow>
      (\<exists>m \<in> set (st_broker s). map_of m ''scan_id'' = Some (PStr (sr_id r)))) \<and>
    (\<forall>e. \<forall>i < length (st_rows s). \<forall>t. sr_published_at_ms (st_rows s ! i) = Some t \<longrightarrow>
      sr_published_at_ms (st_rows (scan_step sha st e s) ! i) = Some t)"
  using published_run [OF assms] scan_step_rows [of _ s sha st]
  unfolding sent_def rows_step_def row_change_def by fastforce

section \<open>Statuses\<close>

lemma verdict_for_code: "verdict_for e i status \<Longrightarrow> status \<in> set SCAN_STATUS_CODES"
  by (induction e i status rule: verdict_for.induct) (auto dest: verdict_status_clean split: option.splits)

lemma verdict_not_pending: "verdict_for e i status \<Longrightarrow> status \<noteq> ''pending_scan''"
  by (induction e i status rule: verdict_for.induct)
    (auto simp: verdict_status_def VERDICT_TO_SCAN_STATUS_def split: option.splits pyval.splits if_splits)

lemma episodic_uri_s3: "py_startswith (episodic_uri b p i k) ''s3://''"
  by (simp add: episodic_uri_def py_startswith_def)

definition status_ok :: "scan_row \<Rightarrow> bool" where
  "status_ok r \<longleftrightarrow> (case sr_scan_status r of None \<Rightarrow> True
     | Some status \<Rightarrow> status \<in> set SCAN_STATUS_CODES \<and>
         (status = ''pending_scan'' \<or> status = ''scanned_clean'' \<longrightarrow> py_startswith (sr_key r) ''s3://''))"

text \<open>
  C15: in every run, a row that has a scan status has one of the declared statuses, and a row that
  is pending or clean has a URI of the object store as its key.
\<close>

theorem statuses_declared:
  assumes "scan_run sha st es s"
  shows "\<forall>r \<in> set (st_rows s). status_ok r"
  using assms
proof (induction rule: scan_run.induct)
  case (start s)
  then show ?case by (auto simp: scan_start_def status_ok_def)
next
  case (step es s e)
  show ?case
  proof
    fix r' assume r': "r' \<in> set (st_rows (scan_step sha st e s))"
    show "status_ok r'"
      using scan_step_rows r'
    proof (rule rows_step_cases)
      fix r assume "r \<in> set (st_rows s)" and ch: "row_change e s r r'"
      then have ok: "status_ok r" using step.IH by blast
      have "sr_scan_status r' = sr_scan_status r \<and> sr_key r' = sr_key r \<or>
          (\<exists>status. verdict_for e (sr_id r) status \<and> sr_scan_status r' = Some status \<and>
             sr_key r' = (if status = ''scanned_clean''
                          then episodic_uri EPISODIC_BUCKET EPISODIC_PREFIX (sr_id r) (sr_key r)
                          else sr_key r))"
        using ch by (simp add: row_change_def)
      then show ?thesis
      proof (elim disjE conjE exE)
        fix status assume "verdict_for e (sr_id r) status" "sr_scan_status r' = Some status"
          "sr_key r' = (if status = ''scanned_clean''
             then episodic_uri EPISODIC_BUCKET EPISODIC_PREFIX (sr_id r) (sr_key r) else sr_key r)"
        then show ?thesis
          using verdict_for_code [of e "sr_id r" status] verdict_not_pending [of e "sr_id r" status]
          by (auto simp: status_ok_def episodic_uri_s3)
      qed (use ok in \<open>simp add: status_ok_def split: option.splits\<close>)
    next
      assume "row_new e s r'"
      then show ?thesis by (auto simp: row_new_def status_ok_def SCAN_STATUS_CODES_def)
    qed
  qed
qed

section \<open>Attempts\<close>

definition counted :: "int \<Rightarrow> scan_row \<Rightarrow> bool" where
  "counted m r \<longleftrightarrow> (m \<le> sr_index_attempts r \<longrightarrow> mi_index_failed_at_ms (sr_item r) \<noteq> None)"

lemma map_if_all: "\<forall>r \<in> set rows. P r \<Longrightarrow> (\<And>r. r \<in> set rows \<Longrightarrow> P r \<Longrightarrow> P (f r)) \<Longrightarrow> \<forall>r \<in> set (map_if p f rows). P r"
  by (auto simp: map_if_def)

lemma with_items_counted:
  assumes "stable (map sr_item rows) t" and "\<forall>r \<in> set rows. counted m r" and "0 < m"
  shows "\<forall>r \<in> set (with_items rows t). counted m r"
proof
  fix r' assume "r' \<in> set (with_items rows t)"
  then obtain i where i: "i < length (with_items rows t)" "r' = with_items rows t ! i"
    by (auto simp: in_set_conv_nth)
  have len: "length rows \<le> length t" using assms(1) by (simp add: stable_def)
  show "counted m r'"
  proof (cases "i < length rows")
    case True
    then have "keeps (sr_item (rows ! i)) (t ! i)" using assms(1) by (simp add: stable_def)
    with True i assms(2) show ?thesis by (simp add: with_items_simps [OF len] counted_def keeps_def)
  qed (use i assms(3) in \<open>simp add: with_items_simps [OF len] counted_def\<close>)
qed

lemma indexer_counted:
  assumes "default_indexer st now col_error env q s = (s', x)" and "0 < m" and "\<forall>r \<in> set (st_rows s). counted m r"
  shows "\<forall>r \<in> set (st_rows s'). counted m r"
proof (cases "ix_collection q = ''ai_research_papers'' \<and> col_error = None")
  case False
  with assms show ?thesis by (auto simp: default_indexer_def split: if_splits option.splits)
next
  case True
  obtain r y where run: "index_pdf_objects env (index_call now q) [(ix_key q, last_component (ix_key q))]
      (start_run (st_store s) (map sr_item (st_rows s))) = (r, y)" by fastforce
  have "stable (map sr_item (st_rows s)) (r_table r)"
    by (rule only_at_stable [of "{ix_key q}"]) (use index_pdf_objects_effect [OF run] in \<open>simp add: doc_effect_def start_run_def\<close>)
  from with_items_counted [OF this assms(3,2)] show ?thesis
    using assms(1) True run by (auto simp: default_indexer_def Let_def)
qed

lemma failure_code_max: "m \<le> a \<Longrightarrow> failure_code m a codes \<noteq> None"
  by (simp add: failure_code_def Let_def)

lemma record_failure_counted:
  assumes "\<forall>r \<in> set rows. counted m r"
  shows "\<forall>r \<in> set (record_failure now db_ok m i rows). counted m r"
proof (cases "db_ok \<and> find (\<lambda>r. sr_id r = i) rows \<noteq> None")
  case True
  then obtain row where row: "db_ok" "find (\<lambda>r. sr_id r = i) rows = Some row" by auto
  have "counted m (failed_row now a (failure_code m a codes) r)" for a codes r
    using failure_code_max [of m a codes] by (auto simp: counted_def failed_row_def)
  then have "\<forall>r \<in> set (map_if p (failed_row now a (failure_code m a codes)) rows). counted m r" for p a codes
    using assms by (auto simp: map_if_def)
  with row assms show ?thesis by (auto simp: record_failure_def Let_def split: option.splits)
qed (use assms in \<open>auto simp: record_failure_def\<close>)

lemma counted_row_change:
  assumes "row_change e s r r'" and "\<nexists>now db_ok col_error env. e = EvIndex now db_ok col_error env"
  shows "counted m r \<Longrightarrow> counted m r'"
proof -
  have "\<not> indexing e s (sr_id r)" using assms(2) by (cases e) auto
  with assms(1) show "counted m r \<Longrightarrow> counted m r'" by (simp add: row_change_def counted_def)
qed

lemma counted_step:
  assumes "\<forall>r \<in> set (st_rows s). counted (ss_index_max_attempts st) r" and "0 < ss_index_max_attempts st"
  shows "\<forall>r \<in> set (st_rows (scan_step sha st e s)). counted (ss_index_max_attempts st) r"
proof (cases e)
  case (EvUpload u)
  obtain s' x where up: "handle_pdf_upload sha st u s = (s', x)" by fastforce
  have "sr_index_attempts (scan_item i w uri d sz t tr now) = 0" for i w uri d sz t tr now
    by (simp add: scan_item_def)
  then have "counted (ss_index_max_attempts st) (scan_item i w uri d sz t tr now)" for i w uri d sz t tr now
    using assms(2) by (simp add: counted_def)
  with upload_cases [OF up] assms(1) show ?thesis by (auto simp: EvUpload up)
next
  case (EvPublish now outcome db_ok)
  with assms(1) show ?thesis
    by (auto simp: publish_one_def Let_def mark_published_def map_if_def counted_def
        split: list.splits publish_outcome.splits)
next
  case (EvVerdict now db_ok body)
  have "counted m r \<Longrightarrow> counted m (verdict_row now status bare r)" for m status bare r
    by (auto simp: counted_def verdict_row_def Let_def split: option.splits)
  then have "\<forall>r \<in> set (st_rows (fst (apply_verdict now db_ok p s))). counted (ss_index_max_attempts st) r" for p
  proof -
    obtain s' x where ap: "apply_verdict now db_ok p s = (s', x)" by fastforce
    from apply_verdict_cases [OF ap] assms(1) \<open>\<And>m status bare r. counted m r \<Longrightarrow> counted m (verdict_row now status bare r)\<close>
    show ?thesis by (auto simp: ap Let_def map_if_def)
  qed
  with assms(1) show ?thesis by (auto simp: EvVerdict process_verdict_def split: option.splits pyval.splits)
next
  case (EvIndex now db_ok col_error env)
  show ?thesis
  proof (cases "st_index_queue s")
    case (Cons q qs)
    obtain s' x where ind: "default_indexer st now col_error env q (s\<lparr>st_index_queue := qs\<rparr>) = (s', x)" by fastforce
    have ok: "\<forall>r \<in> set (st_rows s'). counted (ss_index_max_attempts st) r"
      using indexer_counted [OF ind assms(2)] assms(1) by simp
    then have "\<forall>r \<in> set (mark_indexed now db_ok i (st_rows s')). counted (ss_index_max_attempts st) r" for i
      by (auto simp: mark_indexed_def map_if_def counted_def)
    with record_failure_counted [OF ok] ind show ?thesis
      by (auto simp: EvIndex Cons index_one_def split: sum.splits bool.splits)
  qed (use assms(1) in \<open>simp add: EvIndex\<close>)
next
  case (EvManifest c)
  show ?thesis
  proof (cases "exec c (map sr_item (st_rows s))")
    case (Inr v)
    obtain t en where v: "v = (t, en)" by fastforce
    show ?thesis using with_items_counted [OF exec_stable assms] Inr v by (auto simp: EvManifest)
  qed (use assms(1) in \<open>simp add: EvManifest\<close>)
qed (use assms(1) in auto)

text \<open>
  C14: in every run that starts without failed attempts, a row whose attempts have reached the
  configured maximum carries a failure time, so at no time does the index janitor select it again.
\<close>

theorem attempts_bounded:
  assumes "scan_run sha st es s" and "0 < ss_index_max_attempts st"
  shows "\<forall>r \<in> set (st_rows s). ss_index_max_attempts st \<le> sr_index_attempts r \<longrightarrow>
    mi_index_failed_at_ms (sr_item r) \<noteq> None \<and> (\<forall>now. \<not> sql_holds (index_orphan st now r))"
proof -
  from assms(1) have "\<forall>r \<in> set (st_rows s). counted (ss_index_max_attempts st) r"
  proof (induction rule: scan_run.induct)
    case (start s)
    with assms(2) show ?case by (auto simp: scan_start_def counted_def)
  next
    case (step es s e)
    then show ?case using counted_step assms(2) by blast
  qed
  then show ?thesis by (auto simp: counted_def index_orphan_def sql_simps)
qed

section \<open>Failure codes\<close>

text \<open>
  A row of the pipeline is kept at its object URI, and the PDF pipeline reports at the bare key.
\<close>

definition warnings_of :: "scan_row \<Rightarrow> pyval option" where
  "warnings_of r = pc_extraction_warnings (mi_pdf (sr_item r))"

definition pipeline_row :: "scan_row \<Rightarrow> bool" where
  "pipeline_row r \<longleftrightarrow>
     sr_scan_status r \<noteq> None \<and> py_startswith (sr_key r) ''s3://'' \<and> warnings_of r = Some (PList []) \<and>
     mi_index_failure_code (sr_item r) \<notin> Some ` set PERMANENT_INDEX_FAILURE_CODES \<and>
     (sr_scan_status r = Some ''scanned_clean'' \<longrightarrow>
        (\<exists>k. sr_key r = episodic_uri EPISODIC_BUCKET EPISODIC_PREFIX (sr_id r) k))"

text \<open>The uploaded rows: the pipeline rows that have no earlier row of the same identifier.\<close>

definition uploaded_at :: "scan_row list \<Rightarrow> nat \<Rightarrow> bool" where
  "uploaded_at rows i \<longleftrightarrow> i < length rows \<and> pipeline_row (rows ! i) \<and> (\<forall>j < i. sr_id (rows ! j) \<noteq> sr_id (rows ! i))"

definition papers_key :: "string \<Rightarrow> bool" where
  "papers_key k \<longleftrightarrow> py_startswith k ''episodic/papers/''"

lemma episodic_bare_papers: "papers_key (episodic_bare_key EPISODIC_PREFIX i k)"
  by (simp add: papers_key_def episodic_bare_key_def EPISODIC_PREFIX_def py_startswith_def)

lemma bare_of_episodic_uri:
  "bare_key_from_uri (episodic_uri EPISODIC_BUCKET EPISODIC_PREFIX i k) = episodic_bare_key EPISODIC_PREFIX i k"
  by (simp add: bare_key_from_uri_def episodic_uri_def EPISODIC_BUCKET_def py_startswith_def)

lemma papers_not_s3: "papers_key k \<Longrightarrow> \<not> py_startswith k ''s3://''"
  by (cases k) (auto simp: papers_key_def py_startswith_def)

lemma find_at_first:
  assumes "i < length rows" and "p (rows ! i)" and "\<forall>j < i. \<not> p (rows ! j)"
  shows "find p rows = Some (rows ! i)"
proof -
  have "rows = take i rows @ rows ! i # drop (Suc i) rows" using assms(1) by (rule id_take_nth_drop)
  moreover have "find p (take i rows) = None" using assms(3) by (auto simp: find_None_iff in_set_conv_nth)
  moreover have "find p (xs @ y # ys) = Some y" if "find p xs = None" "p y" for xs y ys
    using that by (induction xs) (auto split: if_splits)
  ultimately show ?thesis using assms(2) by metis
qed

definition benign :: "scan_row \<Rightarrow> scan_row \<Rightarrow> bool" where
  "benign r r' \<longleftrightarrow> warnings_of r' = warnings_of r \<and>
     (mi_index_failure_code (sr_item r') = mi_index_failure_code (sr_item r) \<or>
      mi_index_failure_code (sr_item r') \<notin> Some ` set PERMANENT_INDEX_FAILURE_CODES)"

lemma benign_refl [simp]: "benign r r"
  by (simp add: benign_def)

lemma max_attempts_not_permanent [simp]:
  "Some ''max_attempts_exceeded'' \<notin> Some ` set PERMANENT_INDEX_FAILURE_CODES"
  by (simp add: PERMANENT_INDEX_FAILURE_CODES_def)

lemma record_failure_benign:
  assumes up: "i < length rows" "warnings_of (rows ! i) = Some (PList [])"
    and first: "\<forall>j < i. sr_id (rows ! j) \<noteq> sr_id (rows ! i)"
  shows "benign (rows ! i) (record_failure now db_ok m k rows ! i)"
proof (cases "db_ok \<and> k = sr_id (rows ! i)")
  case True
  then have "find (\<lambda>r. sr_id r = k) rows = Some (rows ! i)"
    using find_at_first [of i rows "\<lambda>r. sr_id r = k"] up(1) first by simp
  moreover have "stored_codes (pc_extraction_warnings (mi_pdf (sr_item (rows ! i)))) = Some []"
    using up(2) by (simp add: warnings_of_def stored_codes_def)
  ultimately show ?thesis
    using True up(1) by (simp add: record_failure_def Let_def nth_map_if failed_row_def benign_def
        warnings_of_def failure_code_def)
next
  case False
  with up(1) show ?thesis
    by (auto simp: record_failure_def Let_def nth_map_if split: option.splits)
qed

lemma benign_step:
  assumes up: "uploaded_at (st_rows s) i" and keys: "\<forall>q \<in> set (st_index_queue s). papers_key (ix_key q)"
    and ev: "\<nexists>c. e = EvManifest c"
  shows "benign (st_rows s ! i) (st_rows (scan_step sha st e s) ! i)"
proof (cases e)
  case (EvUpload u)
  obtain s' x where u: "handle_pdf_upload sha st u s = (s', x)" by fastforce
  from upload_cases [OF u] up show ?thesis by (auto simp: EvUpload u uploaded_at_def nth_append)
next
  case (EvPublish now outcome db_ok)
  with up show ?thesis
    by (auto simp: publish_one_def Let_def mark_published_def nth_map_if benign_def warnings_of_def
        uploaded_at_def split: list.splits publish_outcome.splits)
next
  case (EvVerdict now db_ok body)
  have verdict: "benign (st_rows s ! i) (st_rows (fst (apply_verdict now db_ok p s)) ! i)" for p
  proof -
    obtain s' x where ap: "apply_verdict now db_ok p s = (s', x)" by fastforce
    have same: "benign r (verdict_row now status bare r)" for status bare r
      by (auto simp: benign_def verdict_row_def warnings_of_def Let_def split: option.splits)
    from apply_verdict_cases [OF ap] show ?thesis
    proof (elim disjE exE conjE)
      fix k kind status row
      assume d: "distinct (map sr_id (st_rows s))" and row: "row \<in> set (st_rows s)" "sr_id row = k"
        and s': "let bare = (if kind = PStr ''clean'' then Some (episodic_bare_key EPISODIC_PREFIX k (sr_key row)) else None)
          in s' = s\<lparr>st_rows := map_if (\<lambda>r. sr_id r = k) (\<lambda>_. verdict_row now status bare row) (st_rows s),
                    st_index_queue := st_index_queue s @
                      (case bare of None \<Rightarrow> [] | Some k \<Rightarrow> [index_request_of row k])\<rparr>"
      have "sr_id (st_rows s ! i) = k \<Longrightarrow> st_rows s ! i = row"
        using distinct_id [OF d _ row(1)] row(2) up by (simp add: uploaded_at_def)
      with s' up same show ?thesis by (auto simp: ap Let_def nth_map_if uploaded_at_def)
    qed (simp add: ap)
  qed
  then show ?thesis by (auto simp: EvVerdict process_verdict_def split: option.splits pyval.splits)
next
  case (EvIndex now db_ok col_error env)
  show ?thesis
  proof (cases "st_index_queue s")
    case (Cons q qs)
    obtain s' x where ind: "default_indexer st now col_error env q (s\<lparr>st_index_queue := qs\<rparr>) = (s', x)" by fastforce
    have at: "only_at {ix_key q} (map sr_item (st_rows s)) (map sr_item (st_rows s'))"
      using indexer_step [OF ind] by simp
    have i: "i < length (st_rows s)" using up by (simp add: uploaded_at_def)
    have len: "length (st_rows s) \<le> length (st_rows s')" using at by (simp add: only_at_def)
    have ids: "sr_id (st_rows s' ! j) = sr_id (st_rows s ! j)" if "j \<le> i" for j
      using at that i len by (auto simp: only_at_def same_row_def)
    have "sr_key (st_rows s ! i) \<noteq> ix_key q"
      using papers_not_s3 [of "ix_key q"] keys Cons up by (auto simp: uploaded_at_def pipeline_row_def)
    then have item: "sr_item (st_rows s' ! i) = sr_item (st_rows s ! i)"
      using at i len by (simp add: only_at_def)
    have i': "i < length (st_rows s')" using i len by simp
    have w: "warnings_of (st_rows s' ! i) = Some (PList [])"
      using item up by (simp add: warnings_of_def uploaded_at_def pipeline_row_def)
    have first: "\<forall>j < i. sr_id (st_rows s' ! j) \<noteq> sr_id (st_rows s' ! i)"
      using ids up by (simp add: uploaded_at_def)
    have mark: "benign (st_rows s' ! i) (mark_indexed now db_ok k (st_rows s') ! i)" for k
      using i' by (auto simp: mark_indexed_def nth_map_if benign_def warnings_of_def)
    have "benign (st_rows s' ! i) (st_rows (scan_step sha st e s) ! i)"
      using ind mark record_failure_benign [OF i' w first]
      by (auto simp: EvIndex Cons index_one_def split: sum.splits bool.splits)
    then show ?thesis using item by (simp add: benign_def warnings_of_def)
  qed (simp add: EvIndex)
qed (use ev in auto)

lemma uploaded_step:
  assumes up: "uploaded_at (st_rows s) i" and keys: "\<forall>q \<in> set (st_index_queue s). papers_key (ix_key q)"
    and ev: "\<nexists>c. e = EvManifest c"
  shows "uploaded_at (st_rows (scan_step sha st e s)) i"
proof -
  let ?rows = "st_rows (scan_step sha st e s)"
  have i: "i < length (st_rows s)" and row: "pipeline_row (st_rows s ! i)" using up by (simp_all add: uploaded_at_def)
  have steps: "rows_step e s (st_rows s) ?rows" by (rule scan_step_rows)
  have ch: "row_change e s (st_rows s ! j) (?rows ! j)" if "j \<le> i" for j
    using steps i that by (simp add: rows_step_def)
  have "sr_id (?rows ! j) = sr_id (st_rows s ! j)" if "j \<le> i" for j
    using ch [OF that] by (simp add: row_change_def)
  then have first: "\<forall>j < i. sr_id (?rows ! j) \<noteq> sr_id (?rows ! i)" using up by (simp add: uploaded_at_def)
  have "sr_scan_status (?rows ! i) \<noteq> None \<and> py_startswith (sr_key (?rows ! i)) ''s3://'' \<and>
      (sr_scan_status (?rows ! i) = Some ''scanned_clean'' \<longrightarrow>
        (\<exists>k. sr_key (?rows ! i) = episodic_uri EPISODIC_BUCKET EPISODIC_PREFIX (sr_id (?rows ! i)) k))"
    using ch [of i] row episodic_uri_s3 by (auto simp: row_change_def pipeline_row_def)
  moreover have "warnings_of (?rows ! i) = Some (PList [])"
      "mi_index_failure_code (sr_item (?rows ! i)) \<notin> Some ` set PERMANENT_INDEX_FAILURE_CODES"
    using benign_step [OF assms, of sha st] row by (auto simp: benign_def pipeline_row_def)
  ultimately have "pipeline_row (?rows ! i)" by (simp add: pipeline_row_def)
  with first i steps show ?thesis by (simp add: uploaded_at_def rows_step_def)
qed

end
