(* ===== verification/ScanRecovery.thy ===== *)
theory ScanRecovery
  imports ScanLaws
begin

text \<open>
  What the pipeline does with a failed index attempt of an uploaded document, and what the two
  janitors recover after a restart.
\<close>

section \<open>Queued keys\<close>

definition clean_at_uri :: "scan_row \<Rightarrow> bool" where
  "clean_at_uri r \<longleftrightarrow> (sr_scan_status r = Some ''scanned_clean'' \<longrightarrow>
     (\<exists>k. sr_key r = episodic_uri EPISODIC_BUCKET EPISODIC_PREFIX (sr_id r) k))"

lemma ix_key_request [simp]: "ix_key (index_request_of r k) = k"
  by (simp add: index_request_of_def)

lemma clean_at_uri_change: "clean_at_uri r \<Longrightarrow> row_change e s r r' \<Longrightarrow> clean_at_uri r'"
  by (auto simp: clean_at_uri_def row_change_def)

lemma clean_keys_run:
  assumes "scan_run sha st es s"
  shows "(\<forall>r \<in> set (st_rows s). clean_at_uri r) \<and> (\<forall>q \<in> set (st_index_queue s). papers_key (ix_key q))"
  using assms
proof (induction rule: scan_run.induct)
  case (start s)
  then show ?case by (auto simp: scan_start_def clean_at_uri_def)
next
  case (step es s e)
  have "clean_at_uri r'" if r': "r' \<in> set (st_rows (scan_step sha st e s))" for r'
    using scan_step_rows r'
  proof (rule rows_step_cases)
    fix r assume "r \<in> set (st_rows s)" and ch: "row_change e s r r'"
    with step.IH have "clean_at_uri r" by blast
    from this ch show ?thesis by (rule clean_at_uri_change)
  qed (auto simp: row_new_def clean_at_uri_def)
  moreover have "papers_key (ix_key q)" if "q \<in> set (st_index_queue (scan_step sha st e s))" for q
  proof -
    from index_queue_step [OF that] show ?thesis
    proof (elim disjE bexE conjE)
      fix r assume "r \<in> set (st_rows s)" "sr_scan_status r = Some ''scanned_clean''"
        and q: "q = index_request_of r (bare_key_from_uri (sr_key r))"
      with step.IH obtain k where "sr_key r = episodic_uri EPISODIC_BUCKET EPISODIC_PREFIX (sr_id r) k"
        unfolding clean_at_uri_def by blast
      with q show ?thesis by (simp add: bare_of_episodic_uri episodic_bare_papers)
    qed (use step.IH in \<open>auto simp: episodic_bare_papers\<close>)
  qed
  ultimately show ?case by blast
qed

section \<open>Failed attempts of an upload\<close>

lemma upload_uploaded_at:
  assumes "handle_pdf_upload sha st u s = (s', Inr body)"
  shows "st_rows s' = st_rows s @ [st_rows s' ! length (st_rows s)] \<and>
    uploaded_at (st_rows s') (length (st_rows s)) \<and> sr_id (st_rows s' ! length (st_rows s)) = up_scan_id u"
proof -
  obtain objects uri where put: "put_quarantine st (up_put u) (up_user_id u) (up_scan_id u) (up_filename u)
      (up_content u) (st_objects s) = Inr (objects, uri)"
    using assms by (auto simp: handle_pdf_upload_def Let_def split: if_splits prod.splits sum.splits)
  define row where "row = scan_item (up_scan_id u) (up_user_id u) uri (sha (up_content u))
      (int (length (up_content u))) (up_filename u) (fst (current_traceparent (up_span u))) (up_now u)"
  have s': "st_rows s' = st_rows s @ [row]" "distinct (map sr_id (st_rows s @ [row]))"
    using assms put by (auto simp: handle_pdf_upload_def Let_def row_def insert_pending_scan_def commit_scan_Inr
        split: if_splits prod.splits sum.splits)
  have "uri = quarantine_uri (shared_bucket st) (quarantine_key (up_user_id u) (up_scan_id u) (up_filename u))"
    using put by (auto simp: put_quarantine_def Let_def split: put_result.splits)
  then have "pipeline_row row"
    by (simp add: pipeline_row_def row_def scan_item_def new_item_def warnings_of_def default_pdf_def
        quarantine_uri_def py_startswith_def)
  moreover have "sr_id ((st_rows s @ [row]) ! j) \<noteq> sr_id row" if "j < length (st_rows s)" for j
  proof -
    have "sr_id row \<notin> sr_id ` set (st_rows s)" using s'(2) by simp
    moreover have "sr_id (st_rows s ! j) \<in> sr_id ` set (st_rows s)" by (rule imageI [OF nth_mem [OF that]])
    ultimately have "sr_id (st_rows s ! j) \<noteq> sr_id row" by metis
    with that show ?thesis by (simp add: nth_append)
  qed
  ultimately show ?thesis
    using s'(1) by (simp add: uploaded_at_def row_def nth_append)
qed

text \<open>A run that goes on from a state.\<close>

definition scan_steps :: "(string \<Rightarrow> string) \<Rightarrow> scan_settings \<Rightarrow> scan_event list \<Rightarrow> scan_state \<Rightarrow> scan_state" where
  "scan_steps sha st es s = fold (scan_step sha st) es s"

fun is_manifest :: "scan_event \<Rightarrow> bool" where
  "is_manifest (EvManifest c) \<longleftrightarrow> True"
| "is_manifest _ \<longleftrightarrow> False"

lemma scan_run_steps: "scan_run sha st es s \<Longrightarrow> scan_run sha st (es @ fs) (scan_steps sha st fs s)"
proof (induction fs arbitrary: es s)
  case (Cons f fs)
  from scan_run.step [OF Cons.prems, of f] Cons.IH [of "es @ [f]" "scan_step sha st f s"]
  show ?case by (simp add: scan_steps_def)
qed (simp add: scan_steps_def)

lemma uploaded_steps:
  assumes "scan_run sha st es s" and "uploaded_at (st_rows s) i" and "\<forall>f \<in> set fs. \<not> is_manifest f"
  shows "uploaded_at (st_rows (scan_steps sha st fs s)) i"
  using assms
proof (induction fs arbitrary: es s)
  case (Cons f fs)
  have "\<nexists>c. f = EvManifest c" using Cons.prems(3) by (cases f) auto
  then have "uploaded_at (st_rows (scan_step sha st f s)) i"
    using uploaded_step [OF Cons.prems(2) _] clean_keys_run [OF Cons.prems(1)] by blast
  with Cons.IH [OF scan_run.step [OF Cons.prems(1)]] Cons.prems(3) show ?case by (simp add: scan_steps_def)
qed (simp add: scan_steps_def)

text \<open>
  Whatever happens to an uploaded document afterwards (verdicts, index attempts that fail in
  any way, janitors, restarts), short of a direct write to the manifest, its row is never
  dead-lettered with one of the codes that stand for a document that can never be indexed: the
  PDF pipeline reports the code at the bare object key, and the decision reads the row that is
  kept at the object URI, whose list of warnings stays empty.
\<close>

lemma permanent_codes_never_recorded:
  assumes "scan_run sha st es s" and "handle_pdf_upload sha st u s = (s', Inr body)"
    and "\<forall>f \<in> set fs. \<not> is_manifest f"
  shows "let r = st_rows (scan_steps sha st fs s') ! length (st_rows s) in
    sr_id r = up_scan_id u \<and> pc_extraction_warnings (mi_pdf (sr_item r)) = Some (PList []) \<and>
    (\<forall>c \<in> set PERMANENT_INDEX_FAILURE_CODES. mi_index_failure_code (sr_item r) \<noteq> Some c)"
proof -
  have step: "scan_step sha st (EvUpload u) s = s'" using assms(2) by simp
  have run: "scan_run sha st (es @ [EvUpload u]) s'" using scan_run.step [OF assms(1), of "EvUpload u"] step by simp
  have at: "uploaded_at (st_rows s') (length (st_rows s))" using upload_uploaded_at [OF assms(2)] by blast
  have "sr_id (st_rows (scan_steps sha st fs s) ! i) = sr_id (st_rows s ! i) \<and>
      i < length (st_rows (scan_steps sha st fs s))" if "i < length (st_rows s)" for i s
    using that
  proof (induction fs arbitrary: s)
    case (Cons f fs)
    have "i < length (st_rows (scan_step sha st f s))"
        "sr_id (st_rows (scan_step sha st f s) ! i) = sr_id (st_rows s ! i)"
      using scan_step_rows [of f s sha st] Cons.prems by (auto simp: rows_step_def row_change_def)
    with Cons.IH [of "scan_step sha st f s"] show ?case by (simp add: scan_steps_def)
  qed (simp add: scan_steps_def)
  moreover have "length (st_rows s) < length (st_rows s')" using at by (simp add: uploaded_at_def)
  ultimately show ?thesis
    using uploaded_steps [OF run at assms(3)] upload_uploaded_at [OF assms(2)]
    by (auto simp: Let_def uploaded_at_def pipeline_row_def warnings_of_def)
qed

section \<open>A verdict delivered again\<close>

lemma last_component_tail: "CHR ''/'' \<notin> set f \<Longrightarrow> last_component (p @ CHR ''/'' # f) = f"
  unfolding last_component_def by (simp, subst takeWhile_append2) auto

lemma last_component_no_slash: "CHR ''/'' \<notin> set (last_component k)"
  by (auto simp: last_component_def dest: set_takeWhileD)

lemma episodic_bare_key_again:
  "episodic_bare_key p i (episodic_uri b p i k) = episodic_bare_key p i k"
proof -
  define f where "f = (if last_component k \<noteq> [] then last_component k else ''object.bin'')"
  have f: "CHR ''/'' \<notin> set f" "f \<noteq> []" using last_component_no_slash by (auto simp: f_def)
  have "episodic_uri b p i k = (''s3://'' @ b @ ''/'' @ p @ i) @ CHR ''/'' # f"
    by (simp add: episodic_uri_def episodic_bare_key_def f_def Let_def)
  then have "last_component (episodic_uri b p i k) = f" using last_component_tail [OF f(1)] by metis
  with f(2) show ?thesis by (simp add: episodic_bare_key_def f_def Let_def)
qed

lemma apply_verdict_again:
  assumes one: "apply_verdict now db_ok p s = (s1, x)" "s1 \<noteq> s" and two: "apply_verdict now' db_ok' p s1 = (s2, y)"
  shows "map sr_key (st_rows s2) = map sr_key (st_rows s1) \<and>
    map sr_scan_status (st_rows s2) = map sr_scan_status (st_rows s1) \<and>
    set (st_index_queue s2) \<subseteq> set (st_index_queue s1)"
  using apply_verdict_cases [OF two]
proof (elim disjE exE conjE)
  fix i kind status r1
  assume p: "map_of p ''scan_id'' = Some (PStr i)" "map_of p ''kind'' = Some kind"
    and st: "verdict_status kind = Inr status" and r1: "r1 \<in> set (st_rows s1)" "sr_id r1 = i"
    and d1: "distinct (map sr_id (st_rows s1))"
    and s2: "let bare = (if kind = PStr ''clean'' then Some (episodic_bare_key EPISODIC_PREFIX i (sr_key r1)) else None)
      in s2 = s1\<lparr>st_rows := map_if (\<lambda>r. sr_id r = i) (\<lambda>_. verdict_row now' status bare r1) (st_rows s1),
                 st_index_queue := st_index_queue s1 @ (case bare of None \<Rightarrow> [] | Some k \<Rightarrow> [index_request_of r1 k])\<rparr>"
  define bare where "bare r = (if kind = PStr ''clean'' then Some (episodic_bare_key EPISODIC_PREFIX i (sr_key r)) else None)"
    for r
  obtain r where r: "r \<in> set (st_rows s)" "sr_id r = i" and d: "distinct (map sr_id (st_rows s))"
    and s1: "st_rows s1 = map_if (\<lambda>r. sr_id r = i) (\<lambda>_. verdict_row now status (bare r) r) (st_rows s)"
      "st_index_queue s1 = st_index_queue s @ (case bare r of None \<Rightarrow> [] | Some k \<Rightarrow> [index_request_of r k])"
    using apply_verdict_cases [OF one(1)] one(2) p st by (auto simp: Let_def bare_def)
  have r1_eq: "r1 = verdict_row now status (bare r) r"
    using r1 s1(1) d r distinct_id [OF d] by (auto simp: map_if_def split: if_splits)
  have bare1: "bare r1 = bare r"
    using r(2) episodic_bare_key_again [of EPISODIC_PREFIX i EPISODIC_BUCKET "sr_key r"]
    by (auto simp: bare_def r1_eq verdict_row_def Let_def episodic_uri_def)
  have same: "sr_key (verdict_row now' status (bare r1) r1) = sr_key r1"
      "sr_scan_status (verdict_row now' status (bare r1) r1) = sr_scan_status r1"
    by (auto simp: bare1) (auto simp: r1_eq verdict_row_def Let_def split: option.splits)
  have only: "x = r1" if "x \<in> set (st_rows s1)" "sr_id x = i" for x
    using distinct_id [OF d1 that(1) r1(1)] that(2) r1(2) by simp
  have "index_request_of r1 k = index_request_of r k" for k
    by (auto simp: index_request_of_def r1_eq verdict_row_def Let_def split: option.splits)
  moreover have "st_rows s2 = map_if (\<lambda>r. sr_id r = i) (\<lambda>_. verdict_row now' status (bare r1) r1) (st_rows s1)"
      "st_index_queue s2 = st_index_queue s1 @ (case bare r1 of None \<Rightarrow> [] | Some k \<Rightarrow> [index_request_of r1 k])"
    using s2 by (simp_all add: Let_def bare_def)
  ultimately have q: "set (st_index_queue s2) \<subseteq> set (st_index_queue s1)"
    and rows: "st_rows s2 = map_if (\<lambda>r. sr_id r = i) (\<lambda>_. verdict_row now' status (bare r1) r1) (st_rows s1)"
    using bare1 s1(2) by (auto split: option.splits)
  have "map sr_key (st_rows s2) = map sr_key (st_rows s1)"
    unfolding rows map_if_def map_map by (rule map_cong [OF refl]) (use only same(1) in auto)
  moreover have "map sr_scan_status (st_rows s2) = map sr_scan_status (st_rows s1)"
    unfolding rows map_if_def map_map by (rule map_cong [OF refl]) (use only same(2) in auto)
  ultimately show ?thesis using q by blast
qed simp

text \<open>
  When a verdict that took effect is delivered again, the document keeps the key and the
  status the first delivery gave it, and no other object is handed to the indexer.
\<close>

lemma verdict_redelivery_keeps_key:
  assumes "process_verdict now db_ok body s = s1" and "s1 \<noteq> s"
  shows "map sr_key (st_rows (process_verdict now' db_ok' body s1)) = map sr_key (st_rows s1) \<and>
    map sr_scan_status (st_rows (process_verdict now' db_ok' body s1)) = map sr_scan_status (st_rows s1) \<and>
    set (st_index_queue (process_verdict now' db_ok' body s1)) \<subseteq> set (st_index_queue s1)"
proof -
  obtain p where p: "body = Some (PDict p)" "fst (apply_verdict now db_ok p s) = s1"
    using assms by (auto simp: process_verdict_def split: option.splits pyval.splits)
  obtain x s2 y where "apply_verdict now db_ok p s = (s1, x)" and two: "apply_verdict now' db_ok' p s1 = (s2, y)"
    using p(2) by (metis prod.collapse)
  from apply_verdict_again [OF this(1) assms(2) two] show ?thesis by (simp add: process_verdict_def p(1) two)
qed

section \<open>Recovery after a restart\<close>

lemma db_order_mem: "length xs \<le> n \<Longrightarrow> x \<in> set xs \<Longrightarrow> x \<in> set (take n (db_order is xs))"
proof -
  assume n: "length xs \<le> n" and x: "x \<in> set xs"
  have "set (db_order is xs) = set xs"
  proof (cases "distinct is \<and> length is = length xs \<and> list_all (\<lambda>i. i < length xs) is")
    case True
    then have "set is = {..<length xs}"
      by (intro card_subset_eq) (auto simp: list_all_iff distinct_card)
    then have "nth xs ` set is = set xs" using nth_image [of "length xs" xs] by (simp add: lessThan_atLeast0)
    with True show ?thesis by (simp add: db_order_def)
  qed (auto simp: db_order_def)
  moreover have "length (db_order is xs) = length xs" by (simp add: db_order_def)
  ultimately show "x \<in> set (take n (db_order is xs))" using n x by simp
qed

text \<open>Index events only.\<close>

definition index_events :: "(int \<times> bool \<times> exc option \<times> pdf_env) list \<Rightarrow> scan_event list" where
  "index_events xs = map (\<lambda>(now, db_ok, ce, env). EvIndex now db_ok ce env) xs"

lemma index_events_queue:
  "length xs \<le> length (st_index_queue s) \<Longrightarrow>
   st_index_queue (scan_steps sha st (index_events xs) s) = drop (length xs) (st_index_queue s)"
proof (induction xs arbitrary: s)
  case (Cons x xs)
  obtain now db_ok ce env where x: "x = (now, db_ok, ce, env)" by (cases x) auto
  obtain q qs where q: "st_index_queue s = q # qs" using Cons.prems by (cases "st_index_queue s") auto
  have "st_index_queue (scan_step sha st (EvIndex now db_ok ce env) s) = qs"
    using index_one_step [of "EvIndex now db_ok ce env" s q "s\<lparr>st_index_queue := qs\<rparr>" st now db_ok ce env] q
    by simp
  with Cons.IH [of "scan_step sha st (EvIndex now db_ok ce env) s"] Cons.prems q x
  show ?case by (simp add: scan_steps_def index_events_def)
qed (simp add: scan_steps_def index_events_def)

lemma index_accepted:
  assumes "st_index_queue s = q # qs"
    and "snd (default_indexer st now ce env q (s\<lparr>st_index_queue := qs\<rparr>)) = Inr True"
  shows "\<forall>r \<in> set (st_rows (scan_step sha st (EvIndex now True ce env) s)).
    sr_id r = ix_scan_id q \<longrightarrow> mi_indexed_at_ms (sr_item r) \<noteq> None"
proof -
  obtain s' where ind: "default_indexer st now ce env q (s\<lparr>st_index_queue := qs\<rparr>) = (s', Inr True)"
    using assms(2) by (metis prod.collapse)
  have "st_rows (scan_step sha st (EvIndex now True ce env) s) = mark_indexed now True (ix_scan_id q) (st_rows s')"
    using assms(1) ind by (simp add: index_one_def)
  then show ?thesis by (auto simp: mark_indexed_def map_if_def split: if_splits)
qed

text \<open>
  C13: a clean document that is not indexed and has not been given up survives the loss of the
  queue: after a restart the next sweep of the index janitor queues it again (when no more than
  one batch of documents waits), at some position of the queue; and when the worker has worked
  off what stands before it, with whatever outcomes, one attempt that the indexer accepts marks
  every row of that identifier as indexed.
\<close>

theorem index_work_survives_restart:
  assumes "r \<in> set (st_rows s)" and "sql_holds (index_orphan st now r)"
    and "length (sql_select (index_orphan st now) (st_rows s)) \<le> JANITOR_BATCH_SIZE"
  shows "let s1 = scan_steps sha st [EvRestart, EvIndexTick now True order] s in
    \<exists>k < length (st_index_queue s1). ix_scan_id (st_index_queue s1 ! k) = sr_id r \<and>
      (\<forall>xs t ce env. length xs = k \<longrightarrow>
         (let s2 = scan_steps sha st (index_events xs) s1; q = hd (st_index_queue s2) in
          snd (default_indexer st t ce env q (s2\<lparr>st_index_queue := tl (st_index_queue s2)\<rparr>)) = Inr True \<longrightarrow>
          (\<forall>r' \<in> set (st_rows (scan_step sha st (EvIndex t True ce env) s2)).
             sr_id r' = sr_id r \<longrightarrow> mi_indexed_at_ms (sr_item r') \<noteq> None)))"
proof -
  define s1 where "s1 = scan_steps sha st [EvRestart, EvIndexTick now True order] s"
  have "st_index_queue s1 = index_orphans st now order (st_rows s)" by (simp add: s1_def scan_steps_def)
  moreover have "index_request_of r (bare_key_from_uri (sr_key r)) \<in> set (index_orphans st now order (st_rows s))"
    using db_order_mem [OF assms(3), of r order] assms(1,2)
    by (auto simp: index_orphans_def set_sql_select)
  ultimately obtain k where k: "k < length (st_index_queue s1)" "ix_scan_id (st_index_queue s1 ! k) = sr_id r"
    by (metis in_set_conv_nth ix_scan_id_request)
  have "\<forall>r' \<in> set (st_rows (scan_step sha st (EvIndex t True ce env) s2)).
      sr_id r' = sr_id r \<longrightarrow> mi_indexed_at_ms (sr_item r') \<noteq> None"
    if "length xs = k" and s2: "s2 = scan_steps sha st (index_events xs) s1"
      and ok: "snd (default_indexer st t ce env (hd (st_index_queue s2))
        (s2\<lparr>st_index_queue := tl (st_index_queue s2)\<rparr>)) = Inr True" for xs t ce env s2
  proof -
    have queue: "st_index_queue s2 = drop k (st_index_queue s1)"
      using index_events_queue [of xs s1] k(1) that(1) s2 by simp
    then obtain qs where qs: "st_index_queue s2 = (st_index_queue s1 ! k) # qs"
      using k(1) by (metis Cons_nth_drop_Suc)
    from index_accepted [OF this, of st t ce env sha] ok k(2) show ?thesis by (simp add: qs)
  qed
  with k show ?thesis unfolding s1_def [symmetric] Let_def by blast
qed

lemma s3_scheme: "url_scheme (''s3://'' @ x) = ''s3''"
  by (simp add: url_scheme_def is_letter_def is_scheme_char_def py_lower_def)

text \<open>
  An accepted upload survives a crash before its scan request is sent: after a restart the
  next sweep of the scan janitor past the grace period (when no more than one batch of rows
  waits) queues a request for the same object, owner, digest and size as the lost one.
\<close>

lemma upload_survives_restart:
  assumes "handle_pdf_upload sha st u s = (s', Inr body)"
    and "up_now u < now - ss_scan_janitor_grace_seconds st * 1000"
    and "length (sql_select (scan_orphan st now) (st_rows s')) \<le> JANITOR_BATCH_SIZE"
  shows "\<exists>q \<in> set (st_scan_queue (scan_steps sha st [EvRestart, EvScanTick now True order] s')).
    let lost = last (st_scan_queue s') in
    sq_scan_id q = up_scan_id u \<and> sq_scan_id lost = up_scan_id u \<and> sq_object_uri q = sq_object_uri lost \<and>
    sq_user_id q = sq_user_id lost \<and> sq_object_sha256 q = sq_object_sha256 lost \<and>
    sq_size_bytes q = sq_size_bytes lost \<and> sq_trace_id q = sq_trace_id lost"
proof -
  obtain objects uri where put: "put_quarantine st (up_put u) (up_user_id u) (up_scan_id u) (up_filename u)
      (up_content u) (st_objects s) = Inr (objects, uri)"
    using assms by (auto simp: handle_pdf_upload_def Let_def split: if_splits prod.splits sum.splits)
  define row where "row = scan_item (up_scan_id u) (up_user_id u) uri (sha (up_content u))
      (int (length (up_content u))) (up_filename u) (fst (current_traceparent (up_span u))) (up_now u)"
  have s': "st_rows s' = st_rows s @ [row]"
    and lost: "last (st_scan_queue s') = \<lparr>sq_scan_id = up_scan_id u, sq_user_id = up_user_id u,
        sq_trace_id = fst (current_traceparent (up_span u)), sq_object_uri = uri,
        sq_object_sha256 = sha (up_content u), sq_size_bytes = int (length (up_content u)),
        sq_claimed_content_type = up_content_type u, sq_traceparent = snd (current_traceparent (up_span u))\<rparr>"
    using assms(1) put by (auto simp: handle_pdf_upload_def Let_def row_def insert_pending_scan_def commit_scan_Inr
        split: if_splits prod.splits sum.splits)
  have uri: "uri = ''s3://'' @ shared_bucket st @ ''/'' @
      quarantine_key (up_user_id u) (up_scan_id u) (up_filename u)"
    using put by (auto simp: put_quarantine_def Let_def quarantine_uri_def split: put_result.splits)
  have "sql_holds (scan_orphan st now row)"
    using assms(2) by (simp add: scan_orphan_def sql_simps row_def scan_item_def new_item_def)
  then have "row \<in> set (take JANITOR_BATCH_SIZE (db_order order (sql_select (scan_orphan st now) (st_rows s'))))"
    using db_order_mem [OF assms(3), of row order] s' by (simp add: set_sql_select)
  moreover have "url_scheme (sr_key row) = REQUIRED_OBJECT_URI_SCHEME"
    using s3_scheme by (simp add: row_def uri REQUIRED_OBJECT_URI_SCHEME_def)
  ultimately have "request_of_row row \<in> set (scan_orphans st now order (st_rows s'))"
    by (simp add: scan_orphans_def)
  then have "request_of_row row \<in> set (st_scan_queue (scan_steps sha st [EvRestart, EvScanTick now True order] s'))"
    by (simp add: scan_steps_def)
  then show ?thesis
    by (rule bexI [rotated]) (simp add: lost request_of_row_def row_def scan_item_def new_item_def Let_def)
qed

end
