(* ===== verification/PdfWitness.thy ===== *)
theory PdfWitness
  imports PdfProps
begin

text \<open>
  A small document run through the pipeline: the inputs at which the properties of the PDF
  pipeline are applied, and two runs that show behaviour the documentation does not.
\<close>

definition demo_settings :: pdf_settings where
  "demo_settings = \<lparr>ps_max_size_mb = 200, ps_max_pages = 2000, ps_max_xref_count = 100000,
     ps_parse_timeout_seconds = 300, ps_max_page_text_bytes = 10000000,
     ps_redaction_policy = ''reject'', ps_ocr_enabled = True\<rparr>"

definition page_of :: "string \<Rightarrow> pdf_page" where
  "page_of t = \<lparr>pp_annots = Inr [], pp_text = Inr t, pp_blocks = Inr [], pp_images = Inr False,
     pp_widgets = Inr [], pp_ocr = None, pp_bbox = (''0.0'', ''0.0'', ''9.0'', ''9.0'')\<rparr>"

text \<open>A page with a block under a redaction, a block beside it and a form field.\<close>

definition redacted_page :: "string \<Rightarrow> pdf_page" where
  "redacted_page secret = (page_of secret)
     \<lparr>pp_annots := Inr [\<lparr>an_type = Some (12, ''Redact''), an_rect = (0, 0, 5, 5)\<rparr>],
      pp_blocks := Inr [Some ((1, 1, 2, 2), PStr secret), Some ((6, 6, 8, 8), PStr ''open'')],
      pp_widgets := Inr [\<lparr>wd_name = Some ''iban'', wd_value = PStr ''CH93'', wd_label = None\<rparr>]\<rparr>"

definition paper :: "pdf_page list \<Rightarrow> pdf_doc" where
  "paper pages = demo_doc\<lparr>pd_page_count := int (length pages), pd_pages := map Inr pages\<rparr>"

definition pdf_demo_env :: "pdf_doc \<Rightarrow> pdf_env" where
  "pdf_demo_env doc = \<lparr>pe_settings = demo_settings, pe_read = (\<lambda>_. Some ''%PDF-''),
     pe_open = (\<lambda>_. Inr doc), pe_sha256 = (\<lambda>s. s), pe_signature = (\<lambda>_. ''none''),
     pe_ltv = (\<lambda>_. None), pe_parse_date = (\<lambda>_. None), pe_percent = (\<lambda>_ _. ''0.0''),
     pe_elapsed = (\<lambda>_. 0), pe_batch_error = (\<lambda>_. None), pe_get_error = (\<lambda>_. None),
     pe_put_error = (\<lambda>_. None), pe_manifest_error = (\<lambda>_. False), pe_now = 7,
     pe_uid = (\<lambda>k. k)\<rparr>"

definition pdf_demo_call :: pdf_call where
  "pdf_demo_call = \<lparr>pl_col_name = ''c'', pl_category = ''episodic'', pl_layer_prefix = ''episodic/'',
     pl_user_id = ''ann'', pl_ingestion_ts_ms = 7,
     pl_user = \<lparr>uc_user_id = ''ann'', uc_username = ''ann'', uc_agent_type = ''human'', uc_scopes = [],
       uc_token_id = None, uc_is_admin = False, uc_extra = []\<rparr>,
     pl_manifest = True, pl_details = False, pl_dry_run = False, pl_shared = False,
     pl_tier = ''private''\<rparr>"

definition pdf_demo_run :: pdf_run where
  "pdf_demo_run = \<lparr>r_store = [(''bob__1'', ''other'', [(''user_id'', PStr ''bob'')])], r_objects = [],
     r_table = [], r_outcomes = [], r_total = 0, r_details = [], r_warnings = [], r_attachments = 0,
     r_forms = 0, r_ocr_pages = 0, r_page_count = None, r_title = None, r_author = None,
     r_creator = None, r_date = None, r_pdfa = (None, None), r_ltv = None, r_chunks = 0\<rparr>"

definition pdf_demo_objects :: "(string \<times> string) list" where
  "pdf_demo_objects = [(''episodic/a.pdf'', ''a.pdf''), (''episodic/b.md'', ''b.md'')]"

abbreviation pdf_demo :: "pdf_run \<times> (exc, nat) res" where
  "pdf_demo \<equiv> index_pdf_objects (pdf_demo_env (paper [page_of ''one'', redacted_page ''secret'', page_of ''three'']))
     pdf_demo_call pdf_demo_objects pdf_demo_run"

lemma pdf_demo_result:
  "r_outcomes (fst pdf_demo) = [True, False] \<and> snd pdf_demo = Inr 1 \<and>
   map fst (r_store (fst pdf_demo)) = [''bob__1'', ''ann__c:a.pdf:p1:0''] \<and>
   map (fst \<circ> snd) (r_store (fst pdf_demo)) = [''other'', ''one'']"
  by code_simp

lemma pdf_demo_pair: "pdf_demo = (fst pdf_demo, snd pdf_demo)"
  by simp

lemma pdf_outcomes_witness:
  "\<exists>oks. r_outcomes (fst pdf_demo) = oks \<and> length oks = 2"
  using pdf_outcomes [OF pdf_demo_pair] pdf_demo_result
  by (auto simp: pdf_demo_run_def pdf_demo_objects_def)

lemma pdf_warnings_closed_witness: "table_ok (r_table (fst pdf_demo))"
  by (rule pdf_warnings_closed [OF pdf_demo_pair]) (simp_all add: pdf_demo_run_def table_ok_def)

theorem private_fold_protects_witness:
  "map_of (r_store (fst pdf_demo)) ''bob__1'' = Some (''other'', [(''user_id'', PStr ''bob'')])"
  by (rule private_fold_protects [OF pdf_demo_pair])
    (simp_all add: pdf_demo_run_def pdf_demo_call_def new_form_owner_def)

lemma redaction_rejects_rest_only_witness:
  "loop_stores (page_loop (pdf_demo_env demo_doc) pdf_demo_call ''a'' ''a'' [] [] []
     [(1, Inr (page_of ''one'')), (2, Inr (redacted_page ''x'')), (3, Inr (page_of ''three''))] pdf_demo_run) =
   loop_stores (page_loop (pdf_demo_env demo_doc) pdf_demo_call ''a'' ''a'' [] [] []
     [(1, Inr (page_of ''one''))] pdf_demo_run)"
  using redaction_rejects_rest_only [of "pdf_demo_env demo_doc" "redacted_page ''x''" pdf_demo_call "''a''" "''a''" "[]"
      "[]" "[]" "[(1, Inr (page_of ''one''))]" 2 "[(3, Inr (page_of ''three''))]" pdf_demo_run]
  by (simp add: pdf_demo_env_def demo_settings_def redacted_page_def redaction_rects_def page_of_def
      List.map_filter_def)

text \<open>Under the policy that clips, the covered block is gone and the form field is not.\<close>

definition clip_env :: pdf_env where
  "clip_env = (pdf_demo_env demo_doc)\<lparr>pe_settings := demo_settings\<lparr>ps_redaction_policy := ''clip-extract''\<rparr>\<rparr>"


lemma clip_keeps_form_fields:
  "map (fst \<circ> snd) (r_store (fst (page_loop clip_env pdf_demo_call ''a'' ''a'' [] [] []
     [(1, Inr (redacted_page ''secret''))] pdf_demo_run))) = [''other'', ''open'', ''iban: CH93'']"
  by code_simp

text \<open>Dry runs: an accepted document leaves no trace, a rejected one leaves its manifest row.\<close>

definition dry_call :: pdf_call where "dry_call = pdf_demo_call\<lparr>pl_dry_run := True\<rparr>"

definition locked_doc :: pdf_doc where
  "locked_doc = demo_doc\<lparr>pd_is_encrypted := True, pd_needs_pass := True\<rparr>"

abbreviation dry_demo :: "pdf_run \<times> (exc, bool) res" where
  "dry_demo \<equiv> index_pdf_object (pdf_demo_env (paper [page_of ''one''])) dry_call
     (''episodic/a.pdf'', ''a.pdf'') pdf_demo_run"

lemma dry_run_effects_witness:
  "r_store (fst dry_demo) = r_store pdf_demo_run \<and> r_table (fst dry_demo) = []"
proof -
  have "snd dry_demo = Inr True" by code_simp
  then have run: "dry_demo = (fst dry_demo, Inr True)" by (metis prod.collapse)
  show ?thesis
    using dry_run_effects [OF run] by (simp add: dry_call_def pdf_demo_run_def)
qed

lemma dry_run_rejection_writes:
  "map mi_key (r_table (fst (index_pdf_object (pdf_demo_env locked_doc) dry_call
     (''episodic/a.pdf'', ''a.pdf'') pdf_demo_run))) = [''episodic/a.pdf'']"
  by code_simp

text \<open>An embedding server that is down: the document is recorded as corrupted.\<close>

definition down_env :: pdf_env where
  "down_env = (pdf_demo_env (paper [page_of ''one'']))
     \<lparr>pe_batch_error := (\<lambda>_. Some (Exc ''ConnectError'' ''All connection attempts failed''))\<rparr>"

abbreviation down_extract :: "pdf_run \<times> (exc, bool) res" where
  "down_extract \<equiv> extract_document down_env pdf_demo_call ''episodic/a.pdf'' ''a.pdf'' ''a.pdf'' ''%PDF-'' ''h'' ''none'' pdf_demo_run"

abbreviation down_handled :: "pdf_run \<times> (exc, bool) res" where
  "down_handled \<equiv> handle_failure down_env pdf_demo_call ''episodic/a.pdf'' 5 ''h'' ''none''
     (Exc ''ConnectError'' ''All connection attempts failed'') (fst down_extract)"

lemma every_failure_permanent_witness:
  "\<exists>code \<in> set PERMANENT_INDEX_FAILURE_CODES.
     r_warnings (fst down_handled) = r_warnings (fst down_extract) @ [warn code [(''page'', PNone)]]"
proof -
  have "snd down_extract = Inl (Exc ''ConnectError'' ''All connection attempts failed'')"
    by code_simp
  then have raised: "down_extract = (fst down_extract, Inl (Exc ''ConnectError'' ''All connection attempts failed''))"
    by (metis prod.collapse)
  have "snd down_handled = Inr False" by code_simp
  then have handled: "down_handled = (fst down_handled, Inr False)" by (metis prod.collapse)
  show ?thesis
    using every_failure_permanent [OF raised _ handled] by blast
qed

end
