(* ===== verification/ScanWitness.thy ===== *)
theory ScanWitness
  imports ScanRecovery PdfWitness
begin

text \<open>
  One document through the upload-scan-index pipeline: the runs at which the properties are applied.
\<close>

definition scan_demo_settings :: scan_settings where
  "scan_demo_settings = \<lparr>ss_scan_pipeline_enabled = True, ss_object_storage_backend = ''minio'',
     ss_aws_bucket = ''a'', ss_minio_shared_bucket = ''m'', ss_scan_janitor_grace_seconds = 60,
     ss_index_janitor_grace_seconds = 60, ss_index_max_attempts = 2\<rparr>"

definition scan_demo_sha :: "string \<Rightarrow> string" where "scan_demo_sha s = ''5ha''"

definition scan_demo_start :: scan_state where
  "scan_demo_start = \<lparr>st_rows = [], st_scan_queue = [], st_index_queue = [], st_broker = [],
     st_objects = [], st_store = []\<rparr>"

definition scan_demo_upload :: upload where
  "scan_demo_upload = \<lparr>up_now = 7, up_scan_id = ''i1'', up_put = PutOk, up_db_ok = True,
     up_user_id = ''ann'', up_filename = ''a.pdf'', up_content = ''%PDF-'',
     up_content_type = ''application/pdf'', up_span = None\<rparr>"

definition clean_message :: pyval where
  "clean_message = PDict [(''scan_id'', PStr ''i1''), (''kind'', PStr ''clean'')]"

definition corrupt_env :: pdf_env where
  "corrupt_env = (pdf_demo_env demo_doc)
     \<lparr>pe_open := (\<lambda>_. Inl (Exc ''FileDataError'' ''broken''))\<rparr>"

definition good_env :: pdf_env where
  "good_env = (pdf_demo_env (paper [page_of ''one'']))\<lparr>pe_uid := (\<lambda>k. CHR ''u'' # k)\<rparr>"

definition scanned_events :: "scan_event list" where
  "scanned_events = [EvUpload scan_demo_upload, EvPublish 8 Published True,
     EvVerdict 9 True (Some clean_message)]"

definition failed_events :: "scan_event list" where
  "failed_events = [EvIndex 10 True None corrupt_env, EvIndexTick 100000 True [],
     EvIndex 100001 True None corrupt_env]"

abbreviation scan_demo :: "scan_event list \<Rightarrow> scan_state" where
  "scan_demo es \<equiv> scan_steps scan_demo_sha scan_demo_settings es scan_demo_start"

lemma scan_demo_run: "scan_run scan_demo_sha scan_demo_settings es (scan_demo es)"
  using scan_run_steps [OF scan_run.start, of scan_demo_start scan_demo_sha scan_demo_settings es]
  by (simp add: scan_start_def scan_demo_start_def)

text \<open>The document is indexed after the verdict; the pipeline adds its own row at the bare key.\<close>

lemma scan_demo_indexed:
  "map (\<lambda>r. (sr_id r, sr_key r, sr_scan_status r, sr_published_at_ms r, mi_indexed_at_ms (sr_item r)))
     (st_rows (scan_demo (scanned_events @ [EvIndex 10 True None good_env]))) =
   [(''i1'', ''s3://memory-shared/episodic/papers/i1/a.pdf'', Some ''scanned_clean'', Some 8, Some 10),
    (''uepisodic/papers/i1/a.pdf'', ''episodic/papers/i1/a.pdf'', None, None, None)]"
  by code_simp

lemma scan_demo_failed:
  "map (\<lambda>r. (sr_index_attempts r, mi_index_failure_code (sr_item r), stored_codes (warnings_of r)))
     (st_rows (scan_demo (scanned_events @ failed_events))) =
   [(2, Some ''max_attempts_exceeded'', Some []), (0, None, Some [''pdf_corrupted_structure''])]"
  by code_simp

lemma map_Cons_ex: "map f xs = y # ys \<Longrightarrow> \<exists>x \<in> set xs. f x = y"
  by (cases xs) auto

section \<open>The properties at these runs\<close>

abbreviation "indexed_demo \<equiv> scan_demo (scanned_events @ [EvIndex 10 True None good_env])"


lemma published_only_after_broker_witness:
  "\<exists>r \<in> set (st_rows indexed_demo). sr_published_at_ms r = Some 8 \<and>
      (\<exists>m \<in> set (st_broker indexed_demo). map_of m ''scan_id'' = Some (PStr (sr_id r)))"
proof -
  obtain r where "r \<in> set (st_rows indexed_demo)" "sr_published_at_ms r = Some 8"
    using map_Cons_ex [OF scan_demo_indexed] by auto
  with published_only_after_broker [OF scan_demo_run] show ?thesis by blast
qed

theorem statuses_declared_witness:
  "\<exists>r \<in> set (st_rows indexed_demo). sr_scan_status r = Some ''scanned_clean'' \<and> status_ok r"
proof -
  obtain r where "r \<in> set (st_rows indexed_demo)" "sr_scan_status r = Some ''scanned_clean''"
    using map_Cons_ex [OF scan_demo_indexed] by auto
  with statuses_declared [OF scan_demo_run] show ?thesis by blast
qed

theorem attempts_bounded_witness:
  "\<exists>r \<in> set (st_rows (scan_demo (scanned_events @ failed_events))).
     sr_index_attempts r = 2 \<and> (\<forall>now. \<not> sql_holds (index_orphan scan_demo_settings now r))"
proof -
  obtain r where r: "r \<in> set (st_rows (scan_demo (scanned_events @ failed_events)))" "sr_index_attempts r = 2"
    using map_Cons_ex [OF scan_demo_failed] by auto
  have pos: "0 < ss_index_max_attempts scan_demo_settings" and two: "ss_index_max_attempts scan_demo_settings = 2"
    by (simp_all add: scan_demo_settings_def)
  show ?thesis
    using attempts_bounded [OF scan_demo_run [of "scanned_events @ failed_events"] pos] r two by fastforce
qed

abbreviation "upload_demo \<equiv> handle_pdf_upload scan_demo_sha scan_demo_settings scan_demo_upload scan_demo_start"

lemma upload_demo_ok: "\<exists>body. upload_demo = (fst upload_demo, Inr body)"
proof -
  have "case snd upload_demo of Inr _ \<Rightarrow> True | Inl _ \<Rightarrow> False" by code_simp
  then show ?thesis by (cases "snd upload_demo") (auto simp: prod_eq_iff)
qed

text \<open>
  A corrupt document: the pipeline's own row has the code, and the row the decision reads has not.
\<close>

definition corrupt_events :: "scan_event list" where
  "corrupt_events = [EvPublish 8 Published True, EvVerdict 9 True (Some clean_message),
     EvIndex 10 True None corrupt_env]"

lemma permanent_codes_never_recorded_witness:
  "let s = scan_steps scan_demo_sha scan_demo_settings corrupt_events (fst upload_demo) in
   sr_id (st_rows s ! 0) = ''i1'' \<and> sr_index_attempts (st_rows s ! 0) = 1 \<and>
   mi_index_failure_code (sr_item (st_rows s ! 0)) \<noteq> Some ''pdf_corrupted_structure'' \<and>
   stored_codes (warnings_of (st_rows s ! 1)) = Some [''pdf_corrupted_structure'']"
proof -
  obtain body where up: "upload_demo = (fst upload_demo, Inr body)" using upload_demo_ok by blast
  have start: "scan_run scan_demo_sha scan_demo_settings [] scan_demo_start"
    using scan_demo_run [of "[]"] by (simp add: scan_steps_def)
  have no: "\<forall>f \<in> set corrupt_events. \<not> is_manifest f" by (simp add: corrupt_events_def)
  have "let s = scan_steps scan_demo_sha scan_demo_settings corrupt_events (fst upload_demo) in
      sr_index_attempts (st_rows s ! 0) = 1 \<and>
      stored_codes (warnings_of (st_rows s ! 1)) = Some [''pdf_corrupted_structure'']" by code_simp
  moreover have "st_rows scan_demo_start = []" "up_scan_id scan_demo_upload = ''i1''"
    by (simp_all add: scan_demo_start_def scan_demo_upload_def)
  ultimately show ?thesis
    using permanent_codes_never_recorded [OF start up no] by (simp add: Let_def PERMANENT_INDEX_FAILURE_CODES_def)
qed

lemma verdict_redelivery_keeps_key_witness:
  "map sr_key (st_rows (process_verdict 11 True (Some clean_message)
     (process_verdict 9 True (Some clean_message) (fst upload_demo)))) =
   [''s3://memory-shared/episodic/papers/i1/a.pdf'']"
proof -
  have "map sr_key (st_rows (process_verdict 9 True (Some clean_message) (fst upload_demo))) =
      [''s3://memory-shared/episodic/papers/i1/a.pdf'']" by code_simp
  moreover have "map sr_key (st_rows (fst upload_demo)) \<noteq> [''s3://memory-shared/episodic/papers/i1/a.pdf'']"
    by code_simp
  ultimately show ?thesis
    using verdict_redelivery_keeps_key [OF refl, of 9 True "Some clean_message" "fst upload_demo" 11 True]
    by metis
qed

text \<open>The queue is lost after the verdict; the sweep brings the document back and it is indexed.\<close>

theorem index_work_survives_restart_witness:
  "let s = scan_demo scanned_events;
       s1 = scan_steps scan_demo_sha scan_demo_settings [EvRestart, EvIndexTick 100000 True []] s in
   length (st_rows s) = 1 \<and> (\<exists>k < length (st_index_queue s1). ix_scan_id (st_index_queue s1 ! k) = ''i1'')"
proof -
  define s where "s = scan_demo scanned_events"
  have facts: "length (st_rows (scan_demo scanned_events)) = 1 \<and> sr_id (st_rows (scan_demo scanned_events) ! 0) = ''i1'' \<and>
      sql_holds (index_orphan scan_demo_settings 100000 (st_rows (scan_demo scanned_events) ! 0)) \<and>
      length (sql_select (index_orphan scan_demo_settings 100000) (st_rows (scan_demo scanned_events))) \<le> JANITOR_BATCH_SIZE"
    by code_simp
  then have f: "length (st_rows s) = 1" "sr_id (st_rows s ! 0) = ''i1''"
      "sql_holds (index_orphan scan_demo_settings 100000 (st_rows s ! 0))"
      "length (sql_select (index_orphan scan_demo_settings 100000) (st_rows s)) \<le> JANITOR_BATCH_SIZE"
    unfolding s_def by blast+
  have "st_rows s ! 0 \<in> set (st_rows s)" by (rule nth_mem) (simp add: f(1))
  from index_work_survives_restart [OF this f(3,4), of scan_demo_sha "[]"] f(1,2)
  show ?thesis unfolding s_def [symmetric] Let_def by auto
qed

lemma upload_survives_restart_witness:
  "\<exists>q \<in> set (st_scan_queue (scan_steps scan_demo_sha scan_demo_settings [EvRestart, EvScanTick 100000 True []] (fst upload_demo))).
     sq_scan_id q = ''i1''"
proof -
  obtain body where up: "upload_demo = (fst upload_demo, Inr body)" using upload_demo_ok by blast
  have "up_now scan_demo_upload < 100000 - ss_scan_janitor_grace_seconds scan_demo_settings * 1000"
      "up_scan_id scan_demo_upload = ''i1''"
    by (simp_all add: scan_demo_upload_def scan_demo_settings_def)
  moreover have "length (sql_select (scan_orphan scan_demo_settings 100000) (st_rows (fst upload_demo))) \<le> JANITOR_BATCH_SIZE"
    by code_simp
  ultimately show ?thesis
    using upload_survives_restart [OF up, of 100000 "[]"] by (auto simp: Let_def)
qed

end
