(* ===== verification/Semantic.thy ===== *)
theory Semantic
  imports PdfPipeline "HOL-Library.Extended_Nat"
begin

text \<open>
  Semantic memory (\<open>src/audittrace/services/semantic.py\<close>, \<open>services/pagination.py\<close>): similarity
  search with paging over the private and the corpus collection of every name, and the documents
  by identifier.

  The vector database is a parameter. A collection is a list of rows, its \<open>get\<close>, \<open>upsert\<close> and
  \<open>delete\<close> are as documented and as in the repository's own double (\<open>db/factory.py\<close>), and
  \<open>query\<close> answers with rows of the collection and their distances, nearest first: the order is
  given by \<open>se_nearest\<close>. Distances are numbered in their order. A collection that was never
  written is empty. Every stored row has a text.
\<close>

section \<open>Collections\<close>

type_synonym row = "string \<times> string \<times> metadata"
type_synonym collections = "string \<Rightarrow> vstore"

definition physical :: "string \<Rightarrow> string" where
  "physical name = name @ ''_v2''"

definition physical_corpus :: "string \<Rightarrow> string" where
  "physical_corpus name = name @ ''_corpus_v2''"

record sem_env =
  se_nearest :: "string \<Rightarrow> vstore \<Rightarrow> (row \<times> nat) list"
  se_embed_error :: "string \<Rightarrow> exc option"
  se_query_error :: "string \<Rightarrow> bool"
  se_get_error :: "string \<Rightarrow> string list \<Rightarrow> exc option"
  se_write_error :: "string \<Rightarrow> exc option"
  se_manifest :: "table option"
  se_manifest_error :: bool
  se_default_collections :: "string list"

text \<open>The filter \<open>where={"user_id": ...}\<close>, absent for an administrator.\<close>

definition where_rows :: "string option \<Rightarrow> vstore \<Rightarrow> vstore" where
  "where_rows owner rows =
     (case owner of None \<Rightarrow> rows
      | Some u \<Rightarrow> filter (\<lambda>(_, _, m). map_of m ''user_id'' = Some (PStr u)) rows)"

definition search_where :: "user_context \<Rightarrow> string option" where
  "search_where user = (if uc_is_admin user then None else Some (uc_user_id user))"

definition chroma_query :: "sem_env \<Rightarrow> string \<Rightarrow> nat \<Rightarrow> string option \<Rightarrow> vstore \<Rightarrow> (row \<times> nat) list" where
  "chroma_query env query n owner rows = take n (se_nearest env query (where_rows owner rows))"

section \<open>Documents and their order\<close>

record document =
  dc_content :: string
  dc_meta :: metadata
  dc_distance :: "nat option"

text \<open>
  \<open>_shape_query_results\<close>, \<open>_shape_get_results\<close> and the tier tag their callers put on: the stored
  metadata with \<open>collection\<close>, \<open>chunk_id\<close>, \<open>distance\<close> and \<open>tier\<close> overwritten.
\<close>

definition shape_document :: "string \<Rightarrow> string \<Rightarrow> row \<Rightarrow> nat option \<Rightarrow> document" where
  "shape_document col_name tier r distance =
     (case r of (cid, content, meta) \<Rightarrow>
        \<lparr>dc_content = content,
         dc_meta = AList.update ''tier'' (PStr tier)
           (AList.update ''chunk_id'' (PStr cid)
             (AList.update ''collection'' (PStr col_name) (AList.delete ''distance'' meta))),
         dc_distance = distance\<rparr>)"

definition distance_key :: "document \<Rightarrow> enat" where
  "distance_key d = (case dc_distance d of None \<Rightarrow> \<infinity> | Some n \<Rightarrow> enat n)"

definition recency_key :: "document \<Rightarrow> int" where
  "recency_key d = (case map_of (dc_meta d) ''ingestion_ts_ms'' of
     Some (PInt t) \<Rightarrow> t | Some (PBool b) \<Rightarrow> (if b then 1 else 0) | _ \<Rightarrow> 0)"

fun first_truthy :: "metadata \<Rightarrow> string list \<Rightarrow> pyval" where
  "first_truthy m [] = PStr []"
| "first_truthy m (k # ks) =
     (case map_of m k of Some v \<Rightarrow> if truthy v then v else first_truthy m ks | None \<Rightarrow> first_truthy m ks)"

definition durable_sort_id :: "document \<Rightarrow> string" where
  "durable_sort_id d =
     (let m = dc_meta d;
          source_ref = first_truthy m [''file'', ''source'', ''title'', ''chunk_id'', ''collection'']
      in case map_of m ''chunk_id'' of
           Some v \<Rightarrow> py_str_value (if truthy v then v else source_ref)
         | None \<Rightarrow> py_str_value source_ref)"

text \<open>A stable descending sort keeps ties in their order.\<close>

definition sort_desc :: "('a \<Rightarrow> 'k::linorder) \<Rightarrow> 'a list \<Rightarrow> 'a list" where
  "sort_desc f xs = rev (sort_key f (rev xs))"

definition ordered_by :: "('a \<Rightarrow> 'k::linorder) \<Rightarrow> ('a \<Rightarrow> 't::linorder) \<Rightarrow> bool \<Rightarrow> 'a list \<Rightarrow> 'a list" where
  "ordered_by key tiebreak reverse items =
     (let ordered = sort_key tiebreak items in if reverse then sort_desc key ordered else sort_key key ordered)"

definition sort_and_paginate ::
  "('a \<Rightarrow> 'k::linorder) \<Rightarrow> ('a \<Rightarrow> 't::linorder) \<Rightarrow> bool \<Rightarrow> nat \<Rightarrow> nat \<Rightarrow> 'a list \<Rightarrow> 'a list \<times> nat" where
  "sort_and_paginate key tiebreak reverse n offset items =
     (let ordered = ordered_by key tiebreak reverse items
      in (take n (drop offset ordered), length ordered))"

section \<open>Searching\<close>

definition MAX_RECALL_WINDOW :: nat where "MAX_RECALL_WINDOW = 500"

definition query_tier ::
  "sem_env \<Rightarrow> collections \<Rightarrow> string \<Rightarrow> string \<Rightarrow> nat \<Rightarrow> string option \<Rightarrow> string \<Rightarrow> string \<Rightarrow> document list" where
  "query_tier env cols name query n_results owner col_name tier =
     (let count = length (cols name) in
      if se_query_error env name \<or> count = 0 then []
      else map (\<lambda>(r, d). shape_document col_name tier r (Some d))
             (chroma_query env query (min n_results count) owner (cols name)))"

definition get_tier ::
  "sem_env \<Rightarrow> collections \<Rightarrow> string \<Rightarrow> string option \<Rightarrow> string \<Rightarrow> string \<Rightarrow> document list" where
  "get_tier env cols name owner col_name tier =
     (if se_query_error env name then []
      else map (\<lambda>r. shape_document col_name tier r None)
             (take MAX_RECALL_WINDOW (where_rows owner (cols name))))"

definition tombstone_candidates :: "document \<Rightarrow> string set" where
  "tombstone_candidates d =
     (let m = dc_meta d; get = (\<lambda>k. py_str_value (case map_of m k of Some v \<Rightarrow> v | None \<Rightarrow> PNone))
      in deleted_key_candidates (get ''collection'') (get ''chunk_id'') (new_form_owner (Some m)))"

text \<open>
  The tombstone query is made with the candidate keys of all documents; its answer depends only
  on the rows, so the keys are left to the table.
\<close>

definition filter_soft_deleted :: "sem_env \<Rightarrow> document list \<Rightarrow> document list" where
  "filter_soft_deleted env docs =
     (case se_manifest env of
        None \<Rightarrow> docs
      | Some tbl \<Rightarrow>
          if docs = [] \<or> se_manifest_error env then docs
          else case get_deleted_keys tbl ''semantic''
                 (filter (\<lambda>k. \<exists>d \<in> set docs. k \<in> tombstone_candidates d) (map mi_key tbl)) of
            Inl _ \<Rightarrow> docs
          | Inr deleted \<Rightarrow> filter (\<lambda>d. tombstone_candidates d \<inter> deleted = {}) docs)"

definition target_collections :: "sem_env \<Rightarrow> string list option \<Rightarrow> string list" where
  "target_collections env collections =
     (case collections of Some cs \<Rightarrow> if cs \<noteq> [] then cs else se_default_collections env
      | None \<Rightarrow> se_default_collections env)"

definition relevance_pool ::
  "sem_env \<Rightarrow> collections \<Rightarrow> user_context \<Rightarrow> string \<Rightarrow> nat \<Rightarrow> string list \<Rightarrow> document list" where
  "relevance_pool env cols user query n names =
     (if se_embed_error env query \<noteq> None then []
      else concat (map (\<lambda>c.
        query_tier env cols (physical c) query n (search_where user) c ''private'' @
        query_tier env cols (physical_corpus c) query n None c ''corpus'') names))"

definition listing_pool ::
  "sem_env \<Rightarrow> collections \<Rightarrow> user_context \<Rightarrow> string list \<Rightarrow> document list" where
  "listing_pool env cols user names =
     concat (map (\<lambda>c.
       get_tier env cols (physical c) (search_where user) c ''private'' @
       get_tier env cols (physical_corpus c) None c ''corpus'') names)"

definition search ::
  "sem_env \<Rightarrow> collections \<Rightarrow> user_context \<Rightarrow> string \<Rightarrow> nat \<Rightarrow> string list option \<Rightarrow> document list" where
  "search env cols user query k collections =
     filter_soft_deleted env (relevance_pool env cols user query k (target_collections env collections))"

record search_page =
  sp_matches :: "document list"
  sp_total :: nat
  sp_limit :: nat
  sp_offset :: nat
  sp_sort :: string
  sp_order :: string
  sp_has_more :: bool

definition RECALL_VALID_SORTS :: "string list" where
  "RECALL_VALID_SORTS = [''relevance'', ''recency'', ''id'']"

definition RECALL_VALID_ORDERS :: "string list" where
  "RECALL_VALID_ORDERS = [''asc'', ''desc'']"

definition RECALL_DEFAULT_ORDER :: "string \<Rightarrow> string" where
  "RECALL_DEFAULT_ORDER srt = (if srt = ''recency'' then ''desc'' else ''asc'')"

definition effective_sort :: "string \<Rightarrow> string" where
  "effective_sort srt = (if srt \<in> set RECALL_VALID_SORTS then srt else ''relevance'')"

definition effective_order :: "string \<Rightarrow> string option \<Rightarrow> string" where
  "effective_order srt order =
     (case order of Some d \<Rightarrow> if d \<in> set RECALL_VALID_ORDERS then d else RECALL_DEFAULT_ORDER srt
      | None \<Rightarrow> RECALL_DEFAULT_ORDER srt)"

text \<open>The page of a pool: the sort has a key of its own type each.\<close>

definition ranked :: "string \<Rightarrow> string \<Rightarrow> document list \<Rightarrow> document list" where
  "ranked srt order pool =
     (let reverse = order \<noteq> ''asc'' in
      if srt = ''recency'' then ordered_by recency_key durable_sort_id reverse pool
      else if srt = ''id'' then ordered_by durable_sort_id durable_sort_id reverse pool
      else ordered_by distance_key durable_sort_id reverse pool)"

definition page_of_pool :: "string \<Rightarrow> string \<Rightarrow> nat \<Rightarrow> nat \<Rightarrow> document list \<Rightarrow> search_page" where
  "page_of_pool srt order k offset pool =
     (let (page, total) =
        (if srt = ''recency'' then sort_and_paginate recency_key durable_sort_id (order \<noteq> ''asc'') k offset pool
         else if srt = ''id'' then sort_and_paginate durable_sort_id durable_sort_id (order \<noteq> ''asc'') k offset pool
         else sort_and_paginate distance_key durable_sort_id (order \<noteq> ''asc'') k offset pool)
      in \<lparr>sp_matches = page, sp_total = total, sp_limit = k, sp_offset = offset, sp_sort = srt,
          sp_order = order, sp_has_more = offset + k < total\<rparr>)"

definition search_page ::
  "sem_env \<Rightarrow> collections \<Rightarrow> user_context \<Rightarrow> string \<Rightarrow> int \<Rightarrow> string list option \<Rightarrow> int \<Rightarrow> string
    \<Rightarrow> string option \<Rightarrow> search_page" where
  "search_page env cols user query k collections offset srt order =
     (let off = nat (max offset 0); n = nat (max k 1);
          s = effective_sort srt; d = effective_order s order;
          names = target_collections env collections;
          pool = (if s = ''relevance'' \<and> d = ''asc''
                  then relevance_pool env cols user query (min (off + n + 1) MAX_RECALL_WINDOW) names
                  else listing_pool env cols user names)
      in page_of_pool s d n off (filter_soft_deleted env pool))"

text \<open>The page every other implementation of the service gives, from its own \<open>search\<close>.\<close>

definition search_page_default ::
  "sem_env \<Rightarrow> collections \<Rightarrow> user_context \<Rightarrow> string \<Rightarrow> int \<Rightarrow> string list option \<Rightarrow> int \<Rightarrow> string
    \<Rightarrow> string option \<Rightarrow> search_page" where
  "search_page_default env cols user query k collections offset srt order =
     (let off = nat (max offset 0); n = nat (max k 1);
          s = effective_sort srt; d = effective_order s order
      in page_of_pool s d n off
           (search env cols user query (min (off + n) MAX_RECALL_WINDOW) collections))"

section \<open>Documents by identifier\<close>

definition tier_authorized :: "metadata \<Rightarrow> user_context \<Rightarrow> bool" where
  "tier_authorized meta user \<longleftrightarrow>
     map_of meta ''user_id'' = Some (PStr (uc_user_id user)) \<or> map_of meta ''tier'' = Some (PStr ''corpus'')"

text \<open>\<open>_fetch_by_ids\<close>: the rows at the given identifiers; the answer is read by identifier.\<close>

definition fetch_by_ids ::
  "sem_env \<Rightarrow> collections \<Rightarrow> string \<Rightarrow> string list \<Rightarrow> (exc, (string \<Rightarrow> (string \<times> metadata) option)) res" where
  "fetch_by_ids env cols name ids =
     (if ids = [] then Inr (\<lambda>_. None)
      else case se_get_error env name ids of
        Some e \<Rightarrow> Inl e
      | None \<Rightarrow> Inr (\<lambda>i. if i \<in> set ids then map_of (cols name) i else None))"

definition owner_id_of :: "user_context \<Rightarrow> string \<Rightarrow> string option" where
  "owner_id_of user document_id =
     (case private_physical_id user document_id of Inl _ \<Rightarrow> None | Inr i \<Rightarrow> Some i)"

text \<open>The row that answers a logical identifier in the private collection.\<close>

definition private_row ::
  "user_context \<Rightarrow> (string \<Rightarrow> (string \<times> metadata) option) \<Rightarrow> string \<Rightarrow> (string \<times> metadata) option" where
  "private_row user rows document_id =
     (case (case owner_id_of user document_id of None \<Rightarrow> None | Some i \<Rightarrow> rows i) of
        Some (t, m) \<Rightarrow>
          if new_form_owner (Some m) = Some (uc_user_id user) then Some (t, m)
          else (case rows document_id of
                  Some (t, m) \<Rightarrow> if new_form_owner (Some m) = None \<and> tier_authorized m user then Some (t, m) else None
                | None \<Rightarrow> None)
      | None \<Rightarrow>
          (case rows document_id of
             Some (t, m) \<Rightarrow> if new_form_owner (Some m) = None \<and> tier_authorized m user then Some (t, m) else None
           | None \<Rightarrow> None))"

definition resolve_private ::
  "sem_env \<Rightarrow> collections \<Rightarrow> user_context \<Rightarrow> string \<Rightarrow> string list
    \<Rightarrow> (exc, (string \<Rightarrow> (string \<times> metadata) option)) res" where
  "resolve_private env cols user collection ids =
     res_bind (fetch_by_ids env cols (physical collection) (List.map_filter (owner_id_of user) ids @ ids)) (\<lambda>rows.
       Inr (\<lambda>i. if i \<in> set ids then private_row user rows i else None))"

definition get_documents ::
  "sem_env \<Rightarrow> collections \<Rightarrow> user_context \<Rightarrow> string \<Rightarrow> string list \<Rightarrow> (exc, (string \<times> metadata) option list) res" where
  "get_documents env cols user collection ids =
     res_bind (resolve_private env cols user collection ids) (\<lambda>priv.
       let missing = filter (\<lambda>i. priv i = None) ids in
       res_bind (fetch_by_ids env cols (physical_corpus collection) missing) (\<lambda>corpus.
         Inr (map (\<lambda>i. case (case priv i of Some r \<Rightarrow> Some r | None \<Rightarrow> corpus i) of
                Some (t, m) \<Rightarrow>
                  if tier_authorized m user
                  then Some (t, AList.update ''collection'' (PStr collection) m) else None
              | None \<Rightarrow> None) ids)))"

definition get_document ::
  "sem_env \<Rightarrow> collections \<Rightarrow> user_context \<Rightarrow> string \<Rightarrow> string \<Rightarrow> (exc, (string \<times> metadata) option) res" where
  "get_document env cols user collection document_id =
     res_bind (get_documents env cols user collection [document_id]) (\<lambda>ds. Inr (hd ds))"

section \<open>Writing and deleting\<close>

definition stamped :: "user_context \<Rightarrow> string \<Rightarrow> metadata \<Rightarrow> metadata" where
  "stamped user tier meta =
     (let m = AList.update ''user_id'' (PStr (uc_user_id user)) meta in
      if tier = ''corpus'' then AList.update ''tier'' (PStr ''corpus'') m
      else AList.update ''id_form'' (PStr ID_FORM_LC9) (AList.update ''tier'' (PStr ''private'') m))"

definition upsert ::
  "sem_env \<Rightarrow> collections \<Rightarrow> user_context \<Rightarrow> string \<Rightarrow> string \<Rightarrow> string \<Rightarrow> metadata \<Rightarrow> string
    \<Rightarrow> (exc, collections) res" where
  "upsert env cols user collection document_id content meta tier =
     (let name = (if tier = ''corpus'' then physical_corpus collection else physical collection);
          row = (content, stamped user tier meta) in
      res_bind (if tier = ''corpus'' then Inr document_id
                else lift_manifest (private_physical_id user document_id)) (\<lambda>cid.
      res_bind (if tier = ''corpus'' then Inr ()
                else check_private_targets (se_get_error env name) (cols name) user collection [document_id]) (\<lambda>_.
        case se_embed_error env content of
          Some e \<Rightarrow> Inl e
        | None \<Rightarrow>
            (case se_write_error env name of
               Some e \<Rightarrow> Inl e
             | None \<Rightarrow> Inr (cols(name := AList.update cid row (cols name)))))))"

definition delete_rows ::
  "sem_env \<Rightarrow> collections \<Rightarrow> string \<Rightarrow> string list \<Rightarrow> (exc, collections) res" where
  "delete_rows env cols name ids =
     (case se_write_error env name of
        Some e \<Rightarrow> Inl e
      | None \<Rightarrow> Inr (cols(name := filter (\<lambda>(i, _). i \<notin> set ids) (cols name))))"

definition doomed_ids ::
  "user_context \<Rightarrow> (string \<Rightarrow> (string \<times> metadata) option) \<Rightarrow> string \<Rightarrow> string list" where
  "doomed_ids user rows document_id =
     (case owner_id_of user document_id of
        None \<Rightarrow> []
      | Some i \<Rightarrow>
          (case rows i of
             Some (_, m) \<Rightarrow> if new_form_owner (Some m) = Some (uc_user_id user) then [i] else []
           | None \<Rightarrow> [])) @
     (case rows document_id of
        Some (_, m) \<Rightarrow>
          if new_form_owner (Some m) = None \<and> tier_authorized m user then [document_id] else []
      | None \<Rightarrow> [])"

definition delete_document ::
  "sem_env \<Rightarrow> collections \<Rightarrow> user_context \<Rightarrow> string \<Rightarrow> string \<Rightarrow> (exc, collections \<times> bool) res" where
  "delete_document env cols user collection document_id =
     (let name = physical collection; corpus_name = physical_corpus collection in
      res_bind (fetch_by_ids env cols name
          ((case owner_id_of user document_id of None \<Rightarrow> [] | Some i \<Rightarrow> [i]) @ [document_id])) (\<lambda>rows.
        let doomed = doomed_ids user rows document_id in
        if doomed \<noteq> [] then res_bind (delete_rows env cols name doomed) (\<lambda>cols'. Inr (cols', True))
        else res_bind (fetch_by_ids env cols corpus_name [document_id]) (\<lambda>corpus.
          case corpus document_id of
            None \<Rightarrow> Inr (cols, False)
          | Some (_, m) \<Rightarrow>
              if \<not> tier_authorized m user then Inr (cols, False)
              else res_bind (delete_rows env cols corpus_name [document_id]) (\<lambda>cols'. Inr (cols', True)))))"

definition legacy_own :: "user_context \<Rightarrow> metadata \<Rightarrow> bool" where
  "legacy_own user m \<longleftrightarrow>
     map_of m ''user_id'' = Some (PStr (uc_user_id user)) \<and> map_of m ''tier'' \<noteq> Some (PStr ''corpus'') \<and>
     new_form_owner (Some m) = None"

definition drop_legacy_documents ::
  "sem_env \<Rightarrow> collections \<Rightarrow> user_context \<Rightarrow> string \<Rightarrow> string list \<Rightarrow> (exc, collections \<times> nat) res" where
  "drop_legacy_documents env cols user collection ids =
     (let name = physical collection in
      res_bind (fetch_by_ids env cols name ids) (\<lambda>rows.
        let doomed = filter (\<lambda>i. case rows i of Some (_, m) \<Rightarrow> legacy_own user m | None \<Rightarrow> False) (remdups ids) in
        if doomed = [] then Inr (cols, 0)
        else res_bind (delete_rows env cols name doomed) (\<lambda>cols'. Inr (cols', length doomed))))"

section \<open>The scoped service\<close>

text \<open>\<open>UserScopedSemanticService\<close>: the bound user takes the place of the one of the call.\<close>

datatype sem_call =
    SemUpsert string string string metadata string
  | SemDelete string string
  | SemDropLegacy string "string list"

definition scoped_search ::
  "user_context \<Rightarrow> sem_env \<Rightarrow> collections \<Rightarrow> user_context \<Rightarrow> string \<Rightarrow> nat \<Rightarrow> string list option \<Rightarrow> document list" where
  "scoped_search bound env cols user = search env cols bound"

definition scoped_search_page ::
  "user_context \<Rightarrow> sem_env \<Rightarrow> collections \<Rightarrow> user_context \<Rightarrow> string \<Rightarrow> int \<Rightarrow> string list option \<Rightarrow> int
    \<Rightarrow> string \<Rightarrow> string option \<Rightarrow> search_page" where
  "scoped_search_page bound env cols user = search_page env cols bound"

definition scoped_get_documents ::
  "user_context \<Rightarrow> sem_env \<Rightarrow> collections \<Rightarrow> user_context \<Rightarrow> string \<Rightarrow> string list
    \<Rightarrow> (exc, (string \<times> metadata) option list) res" where
  "scoped_get_documents bound env cols user = get_documents env cols bound"

fun scoped_write ::
  "user_context \<Rightarrow> sem_env \<Rightarrow> user_context \<Rightarrow> sem_call \<Rightarrow> collections \<Rightarrow> (exc, collections) res" where
  "scoped_write bound env user (SemUpsert c d t m tier) cols = upsert env cols bound c d t m tier"
| "scoped_write bound env user (SemDelete c d) cols = res_bind (delete_document env cols bound c d) (\<lambda>(cols', _). Inr cols')"
| "scoped_write bound env user (SemDropLegacy c ds) cols =
     res_bind (drop_legacy_documents env cols bound c ds) (\<lambda>(cols', _). Inr cols')"

end
