(* ===== verification/SemanticProps.thy ===== *)
theory SemanticProps
  imports Semantic PdfProps "HOL-Library.Multiset"
begin

text \<open>
  Properties of semantic memory: what a search may depend on, that its pages are those of the whole
  ranking, that paging reaches every candidate, and what reads, writes and deletes by identifier
  may touch.
\<close>

section \<open>The database\<close>

text \<open>
  What is documented of a query: it answers with the rows of the collection that pass the filter,
  nearest first.
\<close>

definition nearest_first :: "sem_env \<Rightarrow> bool" where
  "nearest_first env \<longleftrightarrow> (\<forall>q rows. mset (map fst (se_nearest env q rows)) = mset rows \<and>
     sorted (map snd (se_nearest env q rows)))"

lemma nearest_length: "nearest_first env \<Longrightarrow> length (se_nearest env q rows) = length rows"
  unfolding nearest_first_def by (metis length_map size_mset)

lemma where_rows_length: "length (where_rows owner rows) \<le> length rows"
  by (auto simp: where_rows_def split: option.splits)

text \<open>Every visible row of a collection as a document, nearest first.\<close>

definition hits ::
  "sem_env \<Rightarrow> collections \<Rightarrow> string \<Rightarrow> string \<Rightarrow> string option \<Rightarrow> string \<Rightarrow> string \<Rightarrow> document list" where
  "hits env cols name query owner col_name tier =
     (if se_query_error env name then []
      else map (\<lambda>(r, d). shape_document col_name tier r (Some d))
             (se_nearest env query (where_rows owner (cols name))))"

lemma query_tier_hits:
  assumes "nearest_first env"
  shows "query_tier env cols name query n owner col_name tier = take n (hits env cols name query owner col_name tier)"
proof -
  have len: "length (se_nearest env query (where_rows owner (cols name))) \<le> length (cols name)"
    using nearest_length [OF assms] where_rows_length by metis
  then have "take (min n (length (cols name))) (se_nearest env query (where_rows owner (cols name))) =
      take n (se_nearest env query (where_rows owner (cols name)))"
    by (cases "n \<le> length (cols name)") (auto simp: min_def)
  then show ?thesis using len
    by (auto simp: query_tier_def hits_def chroma_query_def take_map Let_def)
qed

section \<open>Isolation\<close>

definition same_visible_rows :: "user_context \<Rightarrow> string list \<Rightarrow> collections \<Rightarrow> collections \<Rightarrow> bool" where
  "same_visible_rows user names cols cols' \<longleftrightarrow> (\<forall>c \<in> set names.
     where_rows (search_where user) (cols (physical c)) = where_rows (search_where user) (cols' (physical c)) \<and>
     cols (physical_corpus c) = cols' (physical_corpus c))"

lemma relevance_pool_isolated:
  assumes "nearest_first env" and "same_visible_rows user names cols cols'"
  shows "relevance_pool env cols user query n names = relevance_pool env cols' user query n names"
proof -
  have "hits env cols (physical c) query (search_where user) c ''private'' =
        hits env cols' (physical c) query (search_where user) c ''private'' \<and>
      hits env cols (physical_corpus c) query None c ''corpus'' =
        hits env cols' (physical_corpus c) query None c ''corpus''" if "c \<in> set names" for c
    using assms(2) that by (simp add: same_visible_rows_def hits_def)
  then show ?thesis
    unfolding relevance_pool_def query_tier_hits [OF assms(1)]
    by (intro if_cong refl arg_cong [of _ _ concat] map_cong) simp_all
qed

lemma listing_pool_isolated:
  assumes "same_visible_rows user names cols cols'"
  shows "listing_pool env cols user names = listing_pool env cols' user names"
  unfolding listing_pool_def
  by (intro arg_cong [of _ _ concat] map_cong refl)
    (use assms in \<open>simp add: same_visible_rows_def get_tier_def\<close>)


section \<open>The window of a page\<close>

text \<open>
  The first elements of every part are enough for the first elements of the whole: what does not
  fit in the window of its own part has a full window before it.
\<close>

lemma take_sort_prefix:
  fixes xs ys :: "'a::linorder list"
  assumes "sorted xs"
  shows "take w (sort (take w xs @ ys)) = take w (sort (xs @ ys))"
proof (cases "length xs \<le> w")
  case False
  let ?s = "sort (take w xs @ ys)" and ?b = "drop w xs"
  have big: "y \<le> x" if "x \<in> set ?b" "y \<in> set (take w xs)" for x y
    using sorted_append [of "take w xs" ?b] assms that by simp
  have len: "w \<le> length ?s" using False by simp
  have low: "y \<le> x" if x: "x \<in> set ?b" and y: "y \<in> set (take w ?s)" for x y
  proof (rule ccontr)
    assume "\<not> y \<le> x"
    then have small: "z < y" if "z \<in> set (take w xs)" for z using big [OF x that] by simp
    obtain i where i: "i < w" "?s ! i = y" using y len by (auto simp: in_set_conv_nth)
    have late: "y \<le> z" if "z \<in> set (drop i ?s)" for z
    proof -
      from that obtain j where "j < length ?s - i" "z = ?s ! (i + j)" by (auto simp: in_set_conv_nth)
      then show ?thesis using sorted_nth_mono [of ?s i "i + j"] i by simp
    qed
    have "filter (\<lambda>z. z < y) ?s = filter (\<lambda>z. z < y) (take i ?s) @ filter (\<lambda>z. z < y) (drop i ?s)"
      by (metis append_take_drop_id filter_append)
    also have "filter (\<lambda>z. z < y) (drop i ?s) = []" unfolding filter_empty_conv using late leD by blast
    finally have "length (filter (\<lambda>z. z < y) ?s) \<le> i"
      by (metis append_Nil2 length_filter_le length_take min.cobounded2 order_trans)
    moreover have "mset (filter (\<lambda>z. z < y) ?s) = mset (filter (\<lambda>z. z < y) (take w xs @ ys))"
      by (metis mset_filter mset_sort)
    then have "length (filter (\<lambda>z. z < y) ?s) = length (filter (\<lambda>z. z < y) (take w xs @ ys))" by (metis size_mset)
    moreover have "filter (\<lambda>z. z < y) (take w xs) = take w xs" using small by (auto simp: filter_id_conv)
    ultimately show False using i False by simp
  qed
  have "sorted (take w ?s @ sort (drop w ?s @ ?b))"
  proof -
    have "y \<le> x" if y: "y \<in> set (take w ?s)" and "x \<in> set (drop w ?s)" for x y
      using that sorted_append [of "take w ?s" "drop w ?s"] by (metis append_take_drop_id sorted_sort)
    with low show ?thesis by (auto simp: sorted_append sorted_wrt_take)
  qed
  moreover have "mset (take w ?s @ sort (drop w ?s @ ?b)) = mset (xs @ ys)"
  proof -
    have s: "mset (take w ?s) + mset (drop w ?s) = mset (take w xs) + mset ys"
      by (metis append_take_drop_id mset_append mset_sort)
    have b: "mset (take w xs) + mset ?b = mset xs" by (metis append_take_drop_id mset_append)
    have "mset (take w ?s @ sort (drop w ?s @ ?b)) = (mset (take w ?s) + mset (drop w ?s)) + mset ?b"
      by (simp only: mset_append mset_sort add.assoc)
    also have "\<dots> = (mset (take w xs) + mset ?b) + mset ys" unfolding s by (simp only: ac_simps)
    finally show ?thesis unfolding b by simp
  qed
  ultimately have "sort (xs @ ys) = take w ?s @ sort (drop w ?s @ ?b)"
    by (intro properties_for_sort) simp_all
  then show ?thesis using len by simp
qed simp

lemma take_sort_concat:
  fixes xss :: "'a::linorder list list"
  assumes "\<And>xs. xs \<in> set xss \<Longrightarrow> sorted xs"
  shows "take w (sort (concat (map (take w) xss) @ ys)) = take w (sort (concat xss @ ys))"
  using assms
proof (induction xss arbitrary: ys)
  case (Cons xs xss)
  have perm: "sort (as @ bs @ cs) = sort (bs @ as @ cs)" for as bs cs :: "'a list"
    by (rule properties_for_sort) (simp_all add: add.left_commute union_assoc)
  have "take w (sort (take w xs @ concat (map (take w) xss) @ ys)) =
      take w (sort (xs @ concat (map (take w) xss) @ ys))"
    using take_sort_prefix [of xs w "concat (map (take w) xss) @ ys"] Cons.prems by simp
  also have "\<dots> = take w (sort (concat (map (take w) xss) @ xs @ ys))" by (subst perm) simp
  also have "\<dots> = take w (sort (concat xss @ xs @ ys))" using Cons.IH [of "xs @ ys"] Cons.prems by simp
  also have "\<dots> = take w (sort (xs @ concat xss @ ys))" by (subst perm) simp
  finally show ?case by simp
qed simp

lemma map_sort_key: "map f (sort_key f xs) = sort (map f xs)"
  by (rule properties_for_sort [symmetric]) simp_all

section \<open>Exact pages\<close>

text \<open>Every visible document of the collections, shared ones included.\<close>

definition all_hits :: "sem_env \<Rightarrow> collections \<Rightarrow> user_context \<Rightarrow> string \<Rightarrow> string list \<Rightarrow> document list list" where
  "all_hits env cols user query names = concat (map (\<lambda>c.
     [hits env cols (physical c) query (search_where user) c ''private'',
      hits env cols (physical_corpus c) query None c ''corpus'']) names)"

lemma relevance_pool_hits:
  assumes "nearest_first env" and "se_embed_error env query = None"
  shows "relevance_pool env cols user query n names = concat (map (take n) (all_hits env cols user query names))"
  using assms(2)
  by (induction names) (simp_all add: relevance_pool_def query_tier_hits [OF assms(1)] all_hits_def)

lemma hits_distances:
  assumes "nearest_first env" and "ds \<in> set (all_hits env cols user query names)"
  shows "sorted (map distance_key ds) \<and> (\<forall>d \<in> set ds. dc_distance d \<noteq> None)"
proof -
  have "map distance_key (hits env cols name query owner c tier) = map enat (map snd
      (if se_query_error env name then [] else se_nearest env query (where_rows owner (cols name))))"
    for name owner c tier
    by (auto simp: hits_def distance_key_def shape_document_def)
  moreover have "sorted (map snd (se_nearest env query rows))" for rows
    using assms(1) by (simp add: nearest_first_def)
  then have "sorted (map enat (map snd (if b then [] else se_nearest env query rows)))" for b rows
    by (cases b) (simp_all add: sorted_map sorted_wrt_map)
  moreover have "\<forall>d \<in> set (hits env cols name query owner c tier). dc_distance d \<noteq> None" for name owner c tier
    by (auto simp: hits_def shape_document_def)
  ultimately show ?thesis using assms(2) by (auto simp: all_hits_def)
qed

lemma ordered_by_simps [simp]:
  "mset (ordered_by key tie rev_order items) = mset items"
  "length (ordered_by key tie rev_order items) = length items"
  by (auto simp: ordered_by_def sort_desc_def Let_def)

lemma page_of_pool_eq:
  "page_of_pool srt order k offset pool =
     \<lparr>sp_matches = take k (drop offset (ranked srt order pool)), sp_total = length pool, sp_limit = k,
      sp_offset = offset, sp_sort = srt, sp_order = order, sp_has_more = offset + k < length pool\<rparr>"
  by (auto simp: page_of_pool_def ranked_def sort_and_paginate_def Let_def)

lemma ranked_perm [simp]: "mset (ranked srt order pool) = mset pool" "length (ranked srt order pool) = length pool"
  by (auto simp: ranked_def Let_def)

lemma distances_ranked:
  "map distance_key (ranked ''relevance'' ''asc'' pool) = sort (map distance_key pool)"
  by (simp add: ranked_def ordered_by_def map_sort_key) (rule properties_for_sort [symmetric], simp_all)

definition tombstoned :: "sem_env \<Rightarrow> document \<Rightarrow> bool" where
  "tombstoned env d \<longleftrightarrow> (case se_manifest env of None \<Rightarrow> False
     | Some tbl \<Rightarrow> \<not> se_manifest_error env \<and> (\<exists>r \<in> set tbl. mi_layer r = ''semantic'' \<and>
         mi_deleted_at_ms r \<noteq> None \<and> mi_key r \<in> tombstone_candidates d))"

lemma filter_soft_deleted_eq: "filter_soft_deleted env docs = filter (\<lambda>d. \<not> tombstoned env d) docs"
proof (cases "se_manifest env")
  case (Some tbl)
  show ?thesis
  proof (cases "docs = [] \<or> se_manifest_error env")
    case False
    let ?keys = "filter (\<lambda>k. \<exists>d \<in> set docs. k \<in> tombstone_candidates d) (map mi_key tbl)"
    have v: "validate_layer ''semantic'' = Inr ()" by code_simp
    obtain deleted where del: "get_deleted_keys tbl ''semantic'' ?keys = Inr deleted"
      and mem: "\<And>k. k \<in> deleted \<longleftrightarrow> (\<exists>r \<in> set tbl. mi_layer r = ''semantic'' \<and> mi_deleted_at_ms r \<noteq> None \<and>
          mi_key r = k \<and> k \<in> set ?keys)"
      by (cases "?keys = []") (auto simp: get_deleted_keys_def v)
    have "tombstone_candidates d \<inter> deleted = {} \<longleftrightarrow> \<not> tombstoned env d" if "d \<in> set docs" for d
    proof -
      have "(\<exists>k. k \<in> tombstone_candidates d \<and> k \<in> deleted) \<longleftrightarrow> (\<exists>r \<in> set tbl. mi_layer r = ''semantic'' \<and>
          mi_deleted_at_ms r \<noteq> None \<and> mi_key r \<in> tombstone_candidates d)"
      proof
        assume "\<exists>k. k \<in> tombstone_candidates d \<and> k \<in> deleted"
        then show "\<exists>r \<in> set tbl. mi_layer r = ''semantic'' \<and> mi_deleted_at_ms r \<noteq> None \<and>
            mi_key r \<in> tombstone_candidates d" unfolding mem by blast
      next
        assume "\<exists>r \<in> set tbl. mi_layer r = ''semantic'' \<and> mi_deleted_at_ms r \<noteq> None \<and>
            mi_key r \<in> tombstone_candidates d"
        then obtain r where r: "r \<in> set tbl" "mi_layer r = ''semantic''" "mi_deleted_at_ms r \<noteq> None"
            "mi_key r \<in> tombstone_candidates d" by blast
        then have "mi_key r \<in> set ?keys" using that by auto
        with r have "mi_key r \<in> deleted" unfolding mem by blast
        with r show "\<exists>k. k \<in> tombstone_candidates d \<and> k \<in> deleted" by blast
      qed
      then show ?thesis using False by (auto simp: tombstoned_def Some)
    qed
    then show ?thesis using False del by (simp add: filter_soft_deleted_def Some cong: filter_cong)
  qed (auto simp: filter_soft_deleted_def Some tombstoned_def filter_id_conv)
qed (simp add: filter_soft_deleted_def tombstoned_def)

lemma enat_distance: "dc_distance d \<noteq> None \<Longrightarrow> distance_key d = enat (the (dc_distance d))"
  by (auto simp: distance_key_def)

text \<open>Two rankings with the same distances, all distinct, of which one ranks documents of the other.\<close>

lemma same_by_distance:
  assumes "map f xs = map f ys" and "set xs \<subseteq> A" and "set ys \<subseteq> A" and "inj_on f A"
  shows "xs = ys"
  by (rule map_inj_on [OF assms(1)], rule inj_on_subset [OF assms(4)]) (use assms(2,3) in blast)

text \<open>A window of the smallest distances decides the distances of the pages inside it.\<close>

lemma cut_by_distance:
  assumes "take w (sort (map distance_key pool)) = take w (sort (map distance_key all))" and "off + n \<le> w"
  shows "map dc_distance (take n (drop off (ranked ''relevance'' ''asc'' pool))) =
    map dc_distance (take n (drop off (ranked ''relevance'' ''asc'' all)))"
proof -
  have "take n (drop off ys) = take n (drop off (take w ys))" for ys :: "enat list"
    using assms(2) by (simp add: drop_take min_def)
  then have "map distance_key (take n (drop off (ranked ''relevance'' ''asc'' xs))) =
      take n (drop off (take w (sort (map distance_key xs))))" for xs
    by (simp add: take_map [symmetric] drop_map [symmetric] distances_ranked)
  then have same: "map distance_key (take n (drop off (ranked ''relevance'' ''asc'' pool))) =
      map distance_key (take n (drop off (ranked ''relevance'' ''asc'' all)))"
    by (simp only: assms(1))
  have "dc_distance d = (case distance_key d of enat n \<Rightarrow> Some n | \<infinity> \<Rightarrow> None)" for d
    by (auto simp: distance_key_def split: option.splits)
  then have "map dc_distance xs = map (\<lambda>x. case x of enat n \<Rightarrow> Some n | \<infinity> \<Rightarrow> None) (map distance_key xs)" for xs
    by simp
  then show ?thesis by (simp only: same)
qed

lemma ranked_cut_set: "set (take n (drop off (ranked srt order xs))) \<subseteq> set xs"
proof -
  have "set (ranked srt order xs) = set xs" by (rule mset_eq_setD [OF ranked_perm(1)])
  then show ?thesis using set_take_subset [of n "drop off (ranked srt order xs)"] set_drop_subset [of off "ranked srt order xs"]
    by simp
qed

text \<open>
  C21: the page of a search by relevance is the page of the whole ranking: with a window that does
  not reach the ceiling, and no tombstone among the visible documents, its documents are visible
  ones with the distances the page of all visible documents has (the very documents, when no two
  distances are equal), and the flag has-more says exactly whether a later page has any.
\<close>

theorem relevance_page_exact:
  assumes "nearest_first env" and "se_embed_error env query = None"
    and all: "all = concat (all_hits env cols user query (target_collections env collections))"
    and "\<forall>d \<in> set all. \<not> tombstoned env d"
    and "0 \<le> offset" and "1 \<le> k" and "offset + k < int MAX_RECALL_WINDOW"
    and page: "page = search_page env cols user query k collections offset ''relevance'' order"
    and "order \<noteq> Some ''desc''"
  shows "map dc_distance (sp_matches page) =
      map dc_distance (take (nat k) (drop (nat offset) (ranked ''relevance'' ''asc'' all))) \<and>
    set (sp_matches page) \<subseteq> set all \<and>
    (sp_has_more page \<longleftrightarrow> nat offset + nat k < length all) \<and>
    (inj_on dc_distance (set all) \<longrightarrow>
      sp_matches page = take (nat k) (drop (nat offset) (ranked ''relevance'' ''asc'' all)))"
proof -
  define W where "W = nat offset + nat k + 1"
  define parts where "parts = all_hits env cols user query (target_collections env collections)"
  define pool where "pool = concat (map (take W) parts)"
  have W: "min (nat offset + nat k + 1) MAX_RECALL_WINDOW = W" using assms(5-7) by (simp add: W_def)
  have asc: "effective_order ''relevance'' order = ''asc''"
    using assms(9) by (auto simp: effective_order_def RECALL_VALID_ORDERS_def RECALL_DEFAULT_ORDER_def split: option.splits)
  have rel: "effective_sort ''relevance'' = ''relevance''" by (simp add: effective_sort_def RECALL_VALID_SORTS_def)
  have sub: "set pool \<subseteq> set all" by (auto simp: pool_def all parts_def [symmetric] dest: in_set_takeD)
  have "filter_soft_deleted env pool = pool"
    unfolding filter_soft_deleted_eq filter_id_conv using sub assms(4) by blast
  then have page_eq: "page = page_of_pool ''relevance'' ''asc'' (nat k) (nat offset) pool"
    using assms(5,6) unfolding page search_page_def Let_def rel asc
    by (simp add: relevance_pool_hits [OF assms(1,2)] W [simplified] pool_def parts_def max_def)
  have dist: "sorted (map distance_key ds) \<and> (\<forall>d \<in> set ds. dc_distance d \<noteq> None)" if "ds \<in> set parts" for ds
    using hits_distances [OF assms(1)] that by (simp add: parts_def)
  have keys: "take W (sort (map distance_key pool)) = take W (sort (map distance_key all))"
    using take_sort_concat [of "map (map distance_key) parts" W "[]"] dist
    by (auto simp: pool_def all parts_def [symmetric] map_concat take_map o_def)
  have len: "nat offset + nat k < length pool \<longleftrightarrow> nat offset + nat k < length all"
  proof -
    have "length (take W (sort (map distance_key pool))) = length (take W (sort (map distance_key all)))"
      by (simp only: keys)
    then show ?thesis by (auto simp: W_def min_def split: if_splits)
  qed
  let ?pool = "take (nat k) (drop (nat offset) (ranked ''relevance'' ''asc'' pool))"
    and ?all = "take (nat k) (drop (nat offset) (ranked ''relevance'' ''asc'' all))"
  have same: "map dc_distance ?pool = map dc_distance ?all"
    by (rule cut_by_distance [OF keys]) (simp add: W_def)
  have sets: "set ?pool \<subseteq> set all" "set ?all \<subseteq> set all"
    using ranked_cut_set sub by blast+
  have "inj_on dc_distance (set all) \<longrightarrow> ?pool = ?all"
    using same_by_distance [OF same sets] by blast
  then show ?thesis
    using same sets len by (simp add: page_eq page_of_pool_eq)
qed

section \<open>Paging through everything\<close>

text \<open>Every visible row as a document, in the order of the listing.\<close>

definition candidates :: "collections \<Rightarrow> user_context \<Rightarrow> string list \<Rightarrow> document list" where
  "candidates cols user names = concat (map (\<lambda>c.
     map (\<lambda>r. shape_document c ''private'' r None) (where_rows (search_where user) (cols (physical c))) @
     map (\<lambda>r. shape_document c ''corpus'' r None) (cols (physical_corpus c))) names)"

lemma listing_pool_candidates:
  assumes "\<And>c. c \<in> set names \<Longrightarrow> \<not> se_query_error env (physical c) \<and> \<not> se_query_error env (physical_corpus c) \<and>
      length (where_rows (search_where user) (cols (physical c))) \<le> MAX_RECALL_WINDOW \<and>
      length (cols (physical_corpus c)) \<le> MAX_RECALL_WINDOW"
  shows "listing_pool env cols user names = candidates cols user names"
  unfolding listing_pool_def candidates_def
  by (intro arg_cong [of _ _ concat] map_cong refl) (use assms in \<open>simp add: get_tier_def where_rows_def\<close>)

lemma concat_slices: "concat (map (\<lambda>i. take k (drop (i * k) xs)) [0..<n]) = take (n * k) xs"
proof (induction n)
  case (Suc n)
  have "take (n * k + k) xs = take (n * k) xs @ take k (drop (n * k) xs)" by (rule take_add)
  with Suc show ?case by (simp add: add.commute)
qed simp

lemma last_slice:
  fixes k n :: nat
  assumes "0 < k"
  shows "\<exists>m. (\<forall>i < m. i * k + k < n) \<and> \<not> m * k + k < n"
proof -
  have "n \<le> n * k" using assms by simp
  then have "n \<le> n * k + k" by (rule trans_le_add1)
  then have "\<exists>m. n \<le> m * k + k" by blast
  then have "n \<le> (LEAST m. n \<le> m * k + k) * k + k" by (rule LeastI_ex)
  moreover have "\<forall>i < (LEAST m. n \<le> m * k + k). \<not> n \<le> i * k + k" using not_less_Least by blast
  ultimately show ?thesis by (metis not_le)
qed

text \<open>
  Following the flag has-more page by page through a recall ordered by date or identifier comes to an
  end and gives every visible document that is not soft-deleted exactly once, none else, as long as
  no collection shows the caller more rows than the ceiling.
\<close>

lemma paging_reaches_all:
  assumes "\<And>c. c \<in> set (target_collections env collections) \<Longrightarrow>
      \<not> se_query_error env (physical c) \<and> \<not> se_query_error env (physical_corpus c) \<and>
      length (where_rows (search_where user) (cols (physical c))) \<le> MAX_RECALL_WINDOW \<and>
      length (cols (physical_corpus c)) \<le> MAX_RECALL_WINDOW"
    and "srt = ''recency'' \<or> srt = ''id''" and "1 \<le> k"
    and page: "\<And>i. page i = search_page env cols user query k collections (int i * k) srt order"
  shows "\<exists>m. (\<forall>i < m. sp_has_more (page i)) \<and> \<not> sp_has_more (page m) \<and>
    mset (concat (map (\<lambda>i. sp_matches (page i)) [0..<Suc m])) =
    mset (filter (\<lambda>d. \<not> tombstoned env d) (candidates cols user (target_collections env collections)))"
proof -
  define R where "R = ranked srt (effective_order srt order)
    (filter (\<lambda>d. \<not> tombstoned env d) (candidates cols user (target_collections env collections)))"
  have srt: "effective_sort srt = srt" "srt \<noteq> ''relevance''"
    using assms(2) by (auto simp: effective_sort_def RECALL_VALID_SORTS_def)
  have off: "nat (max (int i * k) 0) = i * nat k" and lim: "nat (max k 1) = nat k" for i
    using assms(3) by (simp_all add: max_absorb1 nat_mult_distrib)
  have slice: "sp_matches (page i) = take (nat k) (drop (i * nat k) R)"
    "sp_has_more (page i) \<longleftrightarrow> i * nat k + nat k < length R" for i
    by (simp_all add: page search_page_def Let_def srt off lim listing_pool_candidates [OF assms(1)]
        filter_soft_deleted_eq page_of_pool_eq R_def)
  obtain m where m: "\<forall>i < m. i * nat k + nat k < length R" "\<not> m * nat k + nat k < length R"
    using last_slice [of "nat k" "length R"] assms(3) by auto
  have "concat (map (\<lambda>i. sp_matches (page i)) [0..<Suc m]) = take (Suc m * nat k) R"
    by (simp only: slice(1) concat_slices)
  also have "\<dots> = R" using m(2) by simp
  finally have "mset (concat (map (\<lambda>i. sp_matches (page i)) [0..<Suc m])) = mset R" by simp
  moreover have "mset R = mset (filter (\<lambda>d. \<not> tombstoned env d) (candidates cols user (target_collections env collections)))"
    by (simp add: R_def)
  ultimately show ?thesis using m by (auto simp: slice(2))
qed

end
