(* ===== verification/SemanticDocs.thy ===== *)
theory SemanticDocs
  imports SemanticProps ManifestOps
begin

text \<open>
  Documents by identifier: what a write and a delete change, who sees them, and how the manifest's
  tombstones reach a search.
\<close>

section \<open>Stamps\<close>

lemma stamped_simps:
  "tier \<noteq> ''corpus'' \<Longrightarrow> uc_user_id u \<noteq> [] \<Longrightarrow> new_form_owner (Some (stamped u tier m)) = Some (uc_user_id u)"
  "map_of (stamped u tier m) ''user_id'' = Some (PStr (uc_user_id u))"
  "tier_authorized (stamped u tier m) u"
proof -
  have ne: "AList.update k v xs \<noteq> []" for k :: string and v :: pyval and xs by (cases xs) auto
  show "tier \<noteq> ''corpus'' \<Longrightarrow> uc_user_id u \<noteq> [] \<Longrightarrow> new_form_owner (Some (stamped u tier m)) = Some (uc_user_id u)"
    by (auto simp: stamped_def new_form_owner_def update_conv' Let_def ne)
  show "map_of (stamped u tier m) ''user_id'' = Some (PStr (uc_user_id u))"
    by (auto simp: stamped_def update_conv' Let_def)
  then show "tier_authorized (stamped u tier m) u" by (simp add: tier_authorized_def)
qed

lemma new_form_authorized: "new_form_owner (Some m) = Some (uc_user_id u) \<Longrightarrow> tier_authorized m u"
  by (simp add: tier_authorized_def new_form_owner_user)

lemma physical_neq [simp]: "physical c \<noteq> physical_corpus c" "physical_corpus c \<noteq> physical c"
  by (auto simp: physical_def physical_corpus_def)

text \<open>A private write goes to the caller's own identifier, free or already the caller's own row.\<close>

lemma upsert_private:
  assumes "upsert env cols u c d t m tier = Inr cols'" and "tier \<noteq> ''corpus''"
  shows "sub_ok (uc_user_id u) \<and>
    cols' = cols(physical c := AList.update (owner_id (uc_user_id u) d) (t, stamped u tier m) (cols (physical c))) \<and>
    (\<forall>t' m'. map_of (cols (physical c)) (owner_id (uc_user_id u) d) = Some (t', m') \<longrightarrow>
       new_form_owner (Some m') = Some (uc_user_id u))"
proof -
  obtain cid where cid: "private_physical_id u d = Inr cid"
    using assms by (cases "private_physical_id u d") (auto simp: upsert_def lift_manifest_def Let_def)
  have own: "sub_ok (uc_user_id u)" "cid = owner_id (uc_user_id u) d"
    using cid by (simp_all add: private_physical_id_Inr)
  have check: "check_private_targets (se_get_error env (physical c)) (cols (physical c)) u c [d] = Inr ()"
    using assms cid by (auto simp: upsert_def lift_manifest_def Let_def res_bind_Inr_iff)
  then have "foreign_target (cols (physical c)) (uc_user_id u) [(cid, d)] = None"
    by (auto simp: check_private_targets_def lift_manifest_def cid split: option.splits)
  then have "\<forall>t' m'. map_of (cols (physical c)) cid = Some (t', m') \<longrightarrow> new_form_owner (Some m') = Some (uc_user_id u)"
    by (auto split: option.splits if_splits)
  moreover have "cols' = cols(physical c := AList.update cid (t, stamped u tier m) (cols (physical c)))"
    using assms cid check by (auto simp: upsert_def lift_manifest_def Let_def split: option.splits)
  ultimately show ?thesis using own by simp
qed

section \<open>Reads\<close>

lemma fetch_ok:
  assumes "\<And>name ids. se_get_error env name ids = None"
  shows "fetch_by_ids env cols name ids = Inr (\<lambda>i. if i \<in> set ids then map_of (cols name) i else None)"
  using assms by (auto simp: fetch_by_ids_def)

text \<open>What a lookup gives for one identifier.\<close>

definition lookup :: "collections \<Rightarrow> user_context \<Rightarrow> string \<Rightarrow> string \<Rightarrow> (string \<times> metadata) option" where
  "lookup cols user c d =
     (case (case private_row user (map_of (cols (physical c))) d of
              Some r \<Rightarrow> Some r | None \<Rightarrow> map_of (cols (physical_corpus c)) d) of
        Some (t, m) \<Rightarrow>
          if tier_authorized m user then Some (t, AList.update ''collection'' (PStr c) m) else None
      | None \<Rightarrow> None)"

lemma private_row_cong:
  assumes "rows d = rows' d" and "\<And>i. owner_id_of user d = Some i \<Longrightarrow> rows i = rows' i"
  shows "private_row user rows d = private_row user rows' d"
  using assms by (auto simp: private_row_def split: option.splits)

lemma get_documents_lookup:
  assumes "\<And>name ids. se_get_error env name ids = None"
  shows "get_documents env cols user c ds = Inr (map (lookup cols user c) ds)"
proof -
  let ?ids = "List.map_filter (owner_id_of user) ds @ ds"
  let ?rows = "\<lambda>i. if i \<in> set ?ids then map_of (cols (physical c)) i else None"
  have "private_row user ?rows d = private_row user (map_of (cols (physical c))) d" if "d \<in> set ds" for d
    by (rule private_row_cong) (use that in \<open>force simp: List.map_filter_def\<close>)+
  then have "resolve_private env cols user c ds =
      Inr (\<lambda>d. if d \<in> set ds then private_row user (map_of (cols (physical c))) d else None)"
    by (auto simp: resolve_private_def fetch_ok [OF assms] simp del: set_append)
  then show ?thesis
    by (auto simp: get_documents_def fetch_ok [OF assms] lookup_def Let_def split: option.splits)
qed

text \<open>
  Reading many documents at once gives for each what reading it alone gives, in order.
\<close>

lemma batched_read_agrees:
  assumes "\<And>name ids. se_get_error env name ids = None"
  shows "get_documents env cols user c ds = map_res (get_document env cols user c) ds"
proof -
  have "get_document env cols user c d = Inr (lookup cols user c d)" for d
    by (simp add: get_document_def get_documents_lookup [OF assms])
  then have "map_res (get_document env cols user c) ds = Inr (map (lookup cols user c) ds)"
    by (induction ds) simp_all
  then show ?thesis by (simp add: get_documents_lookup [OF assms])
qed

section \<open>Writes\<close>

lemma owner_id_of_Some: "owner_id_of u d = Some i \<longleftrightarrow> sub_ok (uc_user_id u) \<and> i = owner_id (uc_user_id u) d"
  by (auto simp: owner_id_of_def private_physical_id_def check_sub_def owner_id_def)

text \<open>
  A private document is read back by its owner with the text and metadata written, under the
  owner's stamps whatever metadata the caller gave; and no other user's reads change by it, of any
  document of the collection, in any batch.
\<close>

lemma private_upsert_read:
  assumes "upsert env cols u c d t m tier = Inr cols'" and "tier \<noteq> ''corpus''"
    and "\<And>name ids. se_get_error env name ids = None"
  shows "get_document env cols' u c d = Inr (Some (t, AList.update ''collection'' (PStr c) (stamped u tier m))) \<and>
    (\<forall>(v :: user_context) ds. uc_user_id v \<noteq> uc_user_id u \<longrightarrow> get_documents env cols' v c ds = get_documents env cols v c ds)"
proof (intro conjI allI impI)
  note up = upsert_private [OF assms(1,2)]
  let ?cid = "owner_id (uc_user_id u) d"
  have sub: "sub_ok (uc_user_id u)" and ne: "uc_user_id u \<noteq> []" using up sub_ok_nonempty by auto
  have cols': "map_of (cols' (physical c)) = (map_of (cols (physical c)))(?cid \<mapsto> (t, stamped u tier m))"
    "cols' (physical_corpus c) = cols (physical_corpus c)"
    using up by (simp_all add: update_conv')
  have "owner_id_of u d = Some ?cid" using sub by (simp add: owner_id_of_Some)
  then have "lookup cols' u c d = Some (t, AList.update ''collection'' (PStr c) (stamped u tier m))"
    by (simp add: lookup_def private_row_def cols' stamped_simps(1) [OF assms(2) ne] stamped_simps(3))
  then show "get_document env cols' u c d = Inr (Some (t, AList.update ''collection'' (PStr c) (stamped u tier m)))"
    by (simp add: get_document_def get_documents_lookup [OF assms(3)])
  fix v :: user_context and ds assume v: "uc_user_id v \<noteq> uc_user_id u"
  have "private_row v (map_of (cols' (physical c))) e = private_row v (map_of (cols (physical c))) e" for e
  proof (cases "e = ?cid")
    case False
    have "i \<noteq> ?cid" if "owner_id_of v e = Some i" for i
      using that v sub vid.enc_eq [of "uc_user_id v" "uc_user_id u" e d] by (auto simp: owner_id_of_Some)
    then show ?thesis by (intro private_row_cong) (use False in \<open>auto simp: cols'\<close>)
  next
    case True
    have other: "i \<noteq> ?cid" if "owner_id_of v e = Some i" for i
      using that v sub vid.enc_eq [of "uc_user_id v" "uc_user_id u" e d] by (auto simp: owner_id_of_Some)
    have "new_form_owner (Some m') \<noteq> None" if "map_of (cols (physical c)) ?cid = Some (t', m')" for t' m'
      using up that by auto
    with other True show ?thesis
      by (auto simp: private_row_def cols' stamped_simps(1) [OF assms(2) ne] split: option.splits)
  qed
  then have "lookup cols' v c e = lookup cols v c e" for e unfolding lookup_def cols'(2) by simp
  then have "lookup cols' v c = lookup cols v c" by (rule ext)
  then show "get_documents env cols' v c ds = get_documents env cols v c ds"
    by (simp add: get_documents_lookup [OF assms(3)])
qed

lemma delete_rows_confined:
  assumes "delete_rows env cols n ids = Inr cols'"
    and "\<And>j. j \<in> set ids \<Longrightarrow> \<exists>t m. map_of (cols n) j = Some (t, m) \<and> tier_authorized m u"
    and row: "map_of (cols name) i = Some (t, m)" "\<not> tier_authorized m u"
  shows "map_of (cols' name) i = Some (t, m)"
proof -
  have "n = name \<Longrightarrow> i \<notin> set ids" using assms(2) row by fastforce
  moreover have "map_of (filter (\<lambda>(j, _). j \<notin> set ids) rows) i = map_of rows i" if "i \<notin> set ids" for rows :: vstore
    using that by (induction rows) auto
  ultimately show ?thesis using assms(1) row(1) by (auto simp: delete_rows_def split: option.splits)
qed

lemma fetch_by_ids_row:
  "fetch_by_ids env cols n ids = Inr rows \<Longrightarrow> rows j = Some r \<Longrightarrow> map_of (cols n) j = Some r"
  by (auto simp: fetch_by_ids_def split: if_splits option.splits)

lemma doomed_authorized:
  assumes "j \<in> set (doomed_ids u rows d)"
  shows "\<exists>t m. rows j = Some (t, m) \<and> tier_authorized m u"
proof -
  from assms consider "owner_id_of u d = Some j" "\<exists>t m. rows j = Some (t, m) \<and> new_form_owner (Some m) = Some (uc_user_id u)"
    | "\<exists>t m. rows j = Some (t, m) \<and> tier_authorized m u"
    unfolding doomed_ids_def by (cases "owner_id_of u d"; cases "rows d"; cases "rows j") (auto split: if_splits option.splits)
  then show ?thesis using new_form_authorized by cases blast+
qed

lemma delete_document_confined:
  assumes "delete_document env cols u c d = Inr (cols', b)"
    and row: "map_of (cols name) i = Some (t, m)" "\<not> tier_authorized m u"
  shows "map_of (cols' name) i = Some (t, m)"
proof -
  obtain rows where rows: "fetch_by_ids env cols (physical c)
      ((case owner_id_of u d of None \<Rightarrow> [] | Some i \<Rightarrow> [i]) @ [d]) = Inr rows"
    using assms(1) by (auto simp: delete_document_def res_bind_Inr_iff Let_def)
  show ?thesis
  proof (cases "doomed_ids u rows d = []")
    case False
    then have "delete_rows env cols (physical c) (doomed_ids u rows d) = Inr cols'"
      using assms(1) rows by (auto simp: delete_document_def res_bind_Inr_iff Let_def)
    moreover have "\<exists>t m. map_of (cols (physical c)) j = Some (t, m) \<and> tier_authorized m u"
      if "j \<in> set (doomed_ids u rows d)" for j
      using doomed_authorized [OF that] fetch_by_ids_row [OF rows] by blast
    ultimately show ?thesis
      using row delete_rows_confined [of env cols "physical c" "doomed_ids u rows d" cols' u name i t m] by blast
  next
    case True
    then obtain corpus where corpus: "fetch_by_ids env cols (physical_corpus c) [d] = Inr corpus"
      using assms(1) rows by (auto simp: delete_document_def res_bind_Inr_iff Let_def)
    show ?thesis
    proof (cases "\<exists>t m. corpus d = Some (t, m) \<and> tier_authorized m u")
      case yes: True
      then have "delete_rows env cols (physical_corpus c) [d] = Inr cols'"
        using assms(1) rows corpus True by (auto simp: delete_document_def res_bind_Inr_iff Let_def)
      then show ?thesis
        using yes fetch_by_ids_row [OF corpus] row
          delete_rows_confined [of env cols "physical_corpus c" "[d]" cols' u name i t m] by auto
    next
      case False
      then have "cols' = cols"
        using assms(1) rows corpus True
        by (auto simp: delete_document_def res_bind_Inr_iff Let_def split: option.splits if_splits)
      with row show ?thesis by simp
    qed
  qed
qed

lemma drop_legacy_confined:
  assumes "drop_legacy_documents env cols u c ds = Inr (cols', n)"
    and row: "map_of (cols name) i = Some (t, m)" "\<not> tier_authorized m u"
  shows "map_of (cols' name) i = Some (t, m)"
proof -
  obtain rows where rows: "fetch_by_ids env cols (physical c) ds = Inr rows"
    using assms(1) by (auto simp: drop_legacy_documents_def res_bind_Inr_iff Let_def)
  let ?doomed = "filter (\<lambda>i. case rows i of Some (_, m) \<Rightarrow> legacy_own u m | None \<Rightarrow> False) (remdups ds)"
  have "\<exists>t m. map_of (cols (physical c)) j = Some (t, m) \<and> tier_authorized m u" if "j \<in> set ?doomed" for j
    using that fetch_by_ids_row [OF rows] by (auto simp: legacy_own_def tier_authorized_def split: option.splits)
  moreover have "cols' = cols \<or> delete_rows env cols (physical c) ?doomed = Inr cols'"
    using assms(1) rows by (auto simp: drop_legacy_documents_def res_bind_Inr_iff Let_def split: if_splits)
  ultimately show ?thesis
    using row delete_rows_confined [of env cols "physical c" ?doomed cols' u name i t m] by blast
qed

text \<open>
  Whatever the scoped service writes or deletes for its user, a row it would not let that user
  read (not the user's own and not of the corpus tier) stays as it is in every collection; a write
  to the corpus tier aside, which replaces what stands at its identifier.
\<close>

lemma scoped_writes_confined:
  assumes "scoped_write bound env user call cols = Inr cols'"
    and "\<And>c d t m tier. call = SemUpsert c d t m tier \<Longrightarrow> tier \<noteq> ''corpus''"
    and row: "map_of (cols name) i = Some (t, m)" "\<not> tier_authorized m bound"
  shows "map_of (cols' name) i = Some (t, m)"
proof (cases call)
  case (SemUpsert c d t' m' tier)
  then have "upsert env cols bound c d t' m' tier = Inr cols'" "tier \<noteq> ''corpus''" using assms(1,2) by auto
  note up = upsert_private [OF this]
  show ?thesis
  proof (cases "name = physical c \<and> i = owner_id (uc_user_id bound) d")
    case True
    then have "new_form_owner (Some m) = Some (uc_user_id bound)" using up row(1) by blast
    with row(2) show ?thesis using new_form_authorized by blast
  next
    case False
    with up row(1) show ?thesis by (auto simp: update_conv')
  qed
next
  case (SemDelete c d)
  then show ?thesis using assms(1) row delete_document_confined [of env cols bound c d cols' _ name i t m] by (auto simp: res_bind_Inr_iff)
next
  case (SemDropLegacy c ds)
  then show ?thesis using assms(1) row drop_legacy_confined [of env cols bound c ds cols' _ name i t m] by (auto simp: res_bind_Inr_iff)
qed

end
