(* ===== verification/SemanticWitness.thy ===== *)
theory SemanticWitness
  imports SemanticDocs
begin

text \<open>
  Two users' documents and a shared one in one collection, written through the service: the state
  at which the properties of semantic memory are applied.
\<close>

definition text_distance :: "string \<Rightarrow> row \<Rightarrow> nat" where
  "text_distance query r = (case r of (_, content, _) \<Rightarrow>
     (if length query \<le> length content then length content - length query
      else length query - length content))"

definition sem_demo_env :: sem_env where
  "sem_demo_env = \<lparr>se_nearest = (\<lambda>q rows. map (\<lambda>r. (r, text_distance q r)) (sort_key (text_distance q) rows)),
     se_embed_error = (\<lambda>_. None), se_query_error = (\<lambda>_. False), se_get_error = (\<lambda>_ _. None),
     se_write_error = (\<lambda>_. None), se_manifest = None, se_manifest_error = False,
     se_default_collections = [''notes'']\<rparr>"

lemma sem_demo_nearest: "nearest_first sem_demo_env"
  by (simp add: nearest_first_def sem_demo_env_def o_def)

lemma sem_demo_env_simps [simp]:
  "se_get_error sem_demo_env = (\<lambda>_ _. None)" "se_embed_error sem_demo_env = (\<lambda>_. None)"
  "se_query_error sem_demo_env = (\<lambda>_. False)" "se_write_error sem_demo_env = (\<lambda>_. None)"
  "se_manifest sem_demo_env = None" "se_default_collections sem_demo_env = [''notes'']"
  by (simp_all add: sem_demo_env_def)

definition bob :: user_context where
  "bob = demo_user ''bob''"

definition demo_documents :: "(user_context \<times> string \<times> string \<times> string) list \<Rightarrow> (exc, collections) res" where
  "demo_documents docs = foldl (\<lambda>r (u, d, t, tier).
     res_bind r (\<lambda>cols. upsert sem_demo_env cols u ''notes'' d t [(''title'', PStr d)] tier)) (Inr (\<lambda>_. [])) docs"

definition cols_of :: "(exc, collections) res \<Rightarrow> collections" where
  "cols_of r = (case r of Inl _ \<Rightarrow> (\<lambda>_. []) | Inr cols \<Rightarrow> cols)"

definition noted :: "string \<Rightarrow> collections" where
  "noted bobs = cols_of (demo_documents
     [(ann, ''a'', ''one'', ''private''), (bob, ''b'', bobs, ''private''), (ann, ''c'', ''three'', ''corpus'')])"

lemma noted_rows:
  "map (\<lambda>(i, t, m). (i, t, map_of m ''user_id'')) (noted ''two'' (physical ''notes'')) =
     [(''ann__a'', ''one'', Some (PStr ''ann'')), (''bob__b'', ''two'', Some (PStr ''bob''))]"
  "map (\<lambda>(i, t, m). (i, t, map_of m ''user_id'')) (noted ''other'' (physical ''notes'')) =
     [(''ann__a'', ''one'', Some (PStr ''ann'')), (''bob__b'', ''other'', Some (PStr ''bob''))]"
  "map fst (noted ''two'' (physical_corpus ''notes'')) = [''c'']"
  by code_simp+

lemma noted_differ: "noted ''two'' (physical ''notes'') \<noteq> noted ''other'' (physical ''notes'')"
proof
  assume "noted ''two'' (physical ''notes'') = noted ''other'' (physical ''notes'')"
  with noted_rows(1) noted_rows(2) show False by simp
qed

lemma sem_demo_hits:
  "map dc_content (search sem_demo_env (noted ''two'') ann ''one'' 5 None) = [''one'', ''three'']"
  by code_simp

lemma noted_same: "same_visible_rows ann [''notes''] (noted ''two'') (noted ''other'')"
  unfolding same_visible_rows_def by simp code_simp


lemma sem_demo_page:
  "sp_has_more (search_page sem_demo_env (noted ''two'') ann ''one'' 1 None 0 ''relevance'' None)"
  "map dc_content (sp_matches (search_page sem_demo_env (noted ''two'') ann ''one'' 1 None 0 ''relevance'' None)) = [''one'']"
  by code_simp+

theorem relevance_page_exact_witness:
  "sp_has_more (search_page sem_demo_env (noted ''two'') ann ''one'' 1 None 0 ''relevance'' None) \<longleftrightarrow>
     nat 0 + nat 1 < length (concat (all_hits sem_demo_env (noted ''two'') ann ''one'' [''notes'']))"
  using relevance_page_exact [of sem_demo_env "''one''" _ "noted ''two''" ann None 0 1 _ None, OF sem_demo_nearest _ refl _ _ _ _ refl]
  by (simp add: tombstoned_def target_collections_def MAX_RECALL_WINDOW_def)

lemma noted_small:
  "length (where_rows (search_where ann) (noted ''two'' (physical ''notes''))) \<le> MAX_RECALL_WINDOW"
  "length (noted ''two'' (physical_corpus ''notes'')) \<le> MAX_RECALL_WINDOW"
  by code_simp+

lemma paging_reaches_all_witness:
  "\<exists>m. mset (concat (map (\<lambda>i. sp_matches (search_page sem_demo_env (noted ''two'') ann ''one'' 1 None (int i * 1)
       ''recency'' None)) [0..<Suc m])) =
     mset (candidates (noted ''two'') ann [''notes''])"
proof -
  have t: "target_collections sem_demo_env None = [''notes'']" by (simp add: target_collections_def)
  have f: "filter (\<lambda>d. \<not> tombstoned sem_demo_env d) ds = ds" for ds by (simp add: tombstoned_def)
  show ?thesis
    using paging_reaches_all [of sem_demo_env None ann "noted ''two''" "''recency''" 1
        "\<lambda>i. search_page sem_demo_env (noted ''two'') ann ''one'' 1 None (int i * 1) ''recency'' None" "''one''" None,
        OF _ _ _ refl] noted_small
    unfolding t f by auto
qed

lemma batched_read_agrees_witness:
  "get_documents sem_demo_env (noted ''two'') ann ''notes'' [''a'', ''b'', ''c''] =
     map_res (get_document sem_demo_env (noted ''two'') ann ''notes'') [''a'', ''b'', ''c'']"
  by (rule batched_read_agrees) simp

lemma ann_updates_a:
  "upsert sem_demo_env (noted ''two'') ann ''notes'' ''a'' ''new'' [] ''private'' =
     Inr (cols_of (upsert sem_demo_env (noted ''two'') ann ''notes'' ''a'' ''new'' [] ''private''))"
proof -
  have "\<not> isl (upsert sem_demo_env (noted ''two'') ann ''notes'' ''a'' ''new'' [] ''private'')" by code_simp
  then show ?thesis by (auto simp: cols_of_def isl_def split: sum.splits)
qed

lemma private_upsert_read_witness:
  "\<exists>cols'. get_document sem_demo_env cols' ann ''notes'' ''a'' =
       Inr (Some (''new'', AList.update ''collection'' (PStr ''notes'') (stamped ann ''private'' []))) \<and>
     get_documents sem_demo_env cols' bob ''notes'' [''a'', ''b''] =
       get_documents sem_demo_env (noted ''two'') bob ''notes'' [''a'', ''b'']"
proof -
  have "uc_user_id bob \<noteq> uc_user_id ann" by code_simp
  with private_upsert_read [OF ann_updates_a] show ?thesis by auto
qed

lemma bobs_row:
  "map (\<lambda>(t, m). (t, tier_authorized m ann)) (map snd (filter (\<lambda>r. fst r = ''bob__b'') (noted ''two'' (physical ''notes'')))) =
     [(''two'', False)]"
  by code_simp

lemma scoped_writes_confined_witness:
  "\<exists>cols' m. scoped_write ann sem_demo_env bob (SemDelete ''notes'' ''bob__b'') (noted ''two'') = Inr cols' \<and>
     map_of (cols' (physical ''notes'')) ''bob__b'' = Some (''two'', m)"
proof -
  let ?r = "scoped_write ann sem_demo_env bob (SemDelete ''notes'' ''bob__b'') (noted ''two'')"
  have "\<not> isl ?r" by code_simp
  then obtain cols' where r: "?r = Inr cols'" by (cases ?r) auto
  have "case map_of (noted ''two'' (physical ''notes'')) ''bob__b'' of None \<Rightarrow> False
      | Some (t, m) \<Rightarrow> t = ''two'' \<and> \<not> tier_authorized m ann" by code_simp
  then obtain m where "map_of (noted ''two'' (physical ''notes'')) ''bob__b'' = Some (''two'', m)" "\<not> tier_authorized m ann"
    by (auto split: option.splits)
  with scoped_writes_confined [OF r] r show ?thesis by blast
qed

end
