(* ===== verification/SemanticRoutes.thy ===== *)
theory SemanticRoutes
  imports SemanticDocs ManifestChoke
begin

text \<open>
  The routes of semantic memory (\<open>src/audittrace/routes/memory.py\<close>: \<open>create_semantic\<close>,
  \<open>read_semantic\<close>, \<open>update_semantic\<close>, \<open>delete_semantic\<close> and their helpers, and
  \<open>routes/memory_semantic_writes.py\<close>): each over the vector collections and the manifest table, with
  the audit rows it leaves. A route that fails keeps what it had written before the failure.

  The scope a route asks of its token (\<open>memory:semantic:read\<close>, \<open>memory:semantic:write\<close>) is checked
  before the handler runs and is not modelled; the audit of reads runs after the answer and cannot
  change it. A body is a JSON object whose title is a text or absent.
\<close>

section \<open>State and errors\<close>

record audit_event =
  av_user :: string
  av_op :: string
  av_collection :: string
  av_key :: string
  av_detail :: "(string \<times> pyval) list"

record route_state =
  rt_cols :: collections
  rt_table :: table
  rt_audit :: "audit_event list"

text \<open>\<open>re_audit_ok\<close> says whether the n-th audit row of the request can be stored.\<close>

record route_env =
  re_sem :: sem_env
  re_now :: int
  re_uid :: string
  re_sha256 :: "string \<Rightarrow> string"
  re_audit_ok :: "nat \<Rightarrow> bool"

datatype route_error = Http nat | Unhandled exc

type_synonym 'a answer = "(route_error, 'a) res \<times> route_state"

text \<open>
  \<open>semantic_write_errors_as_http\<close> around the handlers' own mapping of authorization refusals, of a
  missing row and of a deleted one.
\<close>

fun write_http :: "manifest_error \<Rightarrow> route_error" where
  "write_http (ManifestAuthorizationError _ _) = Http 403"
| "write_http (CrossOwnerWriteError _) = Http 403"
| "write_http InvalidPrivateSubjectError = Http 403"
| "write_http LogicalKeyTooLongError = Http 400"
| "write_http (ConcurrentManifestWriteError _ _) = Http 409"
| "write_http (LookupError _ _) = Http 404"
| "write_http e = Unhandled (ManifestExc e)"

text \<open>An update maps the \<open>RuntimeError\<close> of a deleted row too.\<close>

definition update_http :: "manifest_error \<Rightarrow> route_error" where
  "update_http e = (case e of RuntimeError _ _ \<Rightarrow> Http 409 | _ \<Rightarrow> write_http e)"

definition upsert_http :: "exc \<Rightarrow> route_error" where
  "upsert_http e = (case e of ChromaIdConflict _ _ \<Rightarrow> Http 409 | _ \<Rightarrow> Http 502)"

section \<open>Requests\<close>

definition semantic_fields :: "metadata \<Rightarrow> (string \<times> string \<times> string) option" where
  "semantic_fields payload =
     (case (field payload ''collection'', field payload ''document_id'', field payload ''text'') of
        (PStr c, PStr d, PStr t) \<Rightarrow> Some (c, d, t) | _ \<Rightarrow> None)"

definition resolve_requested_tier :: "metadata \<Rightarrow> string option \<Rightarrow> string option" where
  "resolve_requested_tier payload promote =
     (let body_tier = field payload ''tier'';
          requested = (if body_tier \<noteq> PNone then body_tier
                       else case promote of None \<Rightarrow> PNone | Some p \<Rightarrow> PStr p) in
      if body_tier \<noteq> PNone \<and> promote \<noteq> None \<and> body_tier \<noteq> PStr (the promote) then None
      else if requested = PNone \<or> requested = PStr ''private'' then Some ''private''
      else if requested = PStr ''corpus'' then Some ''corpus''
      else None)"

definition SEMANTIC_METADATA_SECURITY_KEYS :: "string list" where
  "SEMANTIC_METADATA_SECURITY_KEYS = [''tier'', ''user_id'', ''id_form'']"

definition sanitize_semantic_metadata :: "pyval \<Rightarrow> pyval" where
  "sanitize_semantic_metadata m =
     (case m of PDict d \<Rightarrow> PDict (filter (\<lambda>(k, _). k \<notin> set SEMANTIC_METADATA_SECURITY_KEYS) d) | _ \<Rightarrow> m)"

text \<open>
  \<open>dict(metadata or {})\<close> in the service: a mapping, or a sequence of pairs with text keys; anything
  else raises. (A pair with a key of another type is refused later by the database.)
\<close>

fun dict_pair :: "pyval \<Rightarrow> (string \<times> pyval) option" where
  "dict_pair (PList [PStr k, v]) = Some (k, v)"
| "dict_pair (PStr [a, b]) = Some ([a], PStr [b])"
| "dict_pair (PDict [(a, _), (b, _)]) = Some (a, PStr b)"
| "dict_pair _ = None"

definition py_dict :: "pyval \<Rightarrow> metadata option" where
  "py_dict v =
     (if \<not> truthy v then Some []
      else case v of
        PDict d \<Rightarrow> Some d
      | PList xs \<Rightarrow> map_option (foldl (\<lambda>d (k, x). AList.update k x d) []) (those (map dict_pair xs))
      | _ \<Rightarrow> None)"

section \<open>Helpers of the writes\<close>

definition legacy_copy_forward_source ::
  "table \<Rightarrow> user_context \<Rightarrow> string \<Rightarrow> string \<Rightarrow> (manifest_error, string option) res" where
  "legacy_copy_forward_source tbl user layer filename =
     res_bind (resolve_read_entry tbl layer filename user) (\<lambda>prior.
       Inr (case prior of
              None \<Rightarrow> None
            | Some p \<Rightarrow>
                if me_tier p = ''private'' \<and> me_deleted_at_ms p = None \<and>
                   me_created_by p = uc_user_id user \<and> me_storage_key p = filename
                then Some (me_storage_key p) else None))"

definition drop_copied_forward_chunk ::
  "sem_env \<Rightarrow> collections \<Rightarrow> user_context \<Rightarrow> string \<Rightarrow> string \<Rightarrow> string option \<Rightarrow> collections" where
  "drop_copied_forward_chunk env cols user collection document_id copied_from =
     (if copied_from = None \<or> copied_from = Some [] then cols
      else case drop_legacy_documents env cols user collection [document_id] of
             Inl _ \<Rightarrow> cols
           | Inr (cols', _) \<Rightarrow> cols')"

definition audit_event ::
  "user_context \<Rightarrow> string \<Rightarrow> string \<Rightarrow> string \<Rightarrow> (string \<times> pyval) list \<Rightarrow> audit_event" where
  "audit_event user op collection key detail =
     \<lparr>av_user = uc_user_id user, av_op = op, av_collection = collection, av_key = key, av_detail = detail\<rparr>"

text \<open>\<open>_emit_write_audit\<close>, one row after the other: the first that cannot be stored is a 500.\<close>

fun emit_audits :: "(nat \<Rightarrow> bool) \<Rightarrow> nat \<Rightarrow> audit_event list \<Rightarrow> route_state \<Rightarrow> unit answer" where
  "emit_audits ok n [] st = (Inr (), st)"
| "emit_audits ok n (e # es) st =
     (if ok n then emit_audits ok (Suc n) es (st\<lparr>rt_audit := rt_audit st @ [e]\<rparr>)
      else (Inl (Http 500), st))"

definition write_audits ::
  "user_context \<Rightarrow> string \<Rightarrow> string \<Rightarrow> string option \<Rightarrow> audit_event list" where
  "write_audits user collection filename copied_from =
     (case copied_from of
        Some s \<Rightarrow>
          if s \<noteq> [] then
            [audit_event user ''write'' collection filename [(''copied_from'', PStr s)],
             audit_event user ''delete'' collection filename [(''reason'', PStr ''copy_forward'')]]
          else [audit_event user ''write'' collection filename []]
      | None \<Rightarrow> [audit_event user ''write'' collection filename []])"

text \<open>The end of a create or an update whose manifest row is written.\<close>

definition finish_write ::
  "route_env \<Rightarrow> user_context \<Rightarrow> string \<Rightarrow> string \<Rightarrow> string option \<Rightarrow> manifest_entry \<Rightarrow> route_state
    \<Rightarrow> manifest_entry answer" where
  "finish_write env user collection document_id copied_from entry st =
     (let st' = st\<lparr>rt_cols := drop_copied_forward_chunk (re_sem env) (rt_cols st) user collection document_id copied_from\<rparr>
      in case emit_audits (re_audit_ok env) 0 (write_audits user collection document_id copied_from) st' of
           (Inl e, st'') \<Rightarrow> (Inl e, st'')
         | (Inr _, st'') \<Rightarrow> (Inr entry, st''))"


section \<open>The handlers\<close>

definition http :: "(manifest_error, 'a) res \<Rightarrow> (route_error, 'a) res" where
  "http r = (case r of Inl e \<Rightarrow> Inl (write_http e) | Inr x \<Rightarrow> Inr x)"

definition required :: "nat \<Rightarrow> 'a option \<Rightarrow> (route_error, 'a) res" where
  "required status x = (case x of None \<Rightarrow> Inl (Http status) | Some y \<Rightarrow> Inr y)"

text \<open>What a create and an update do before they write, up to the choke.\<close>

definition create_checks ::
  "user_context \<Rightarrow> metadata \<Rightarrow> string option \<Rightarrow> table
    \<Rightarrow> (route_error, (string \<times> string \<times> string) \<times> string \<times> string) res" where
  "create_checks user payload promote tbl =
     res_bind (required 400 (semantic_fields payload)) (\<lambda>(c, d, t).
     res_bind (required 400 (resolve_requested_tier payload promote)) (\<lambda>tier.
     res_bind (if tier = ''corpus'' \<and> \<not> has_corpus_scope user c ''write'' then Inl (Http 403) else Inr ()) (\<lambda>_.
     res_bind (http (semantic_logical_key c d)) (\<lambda>key.
     res_bind (http (authorize_write (get_entry tbl) user ''semantic'' key tier False)) (\<lambda>_.
       Inr ((c, d, t), tier, key))))))"

definition update_checks ::
  "user_context \<Rightarrow> string \<Rightarrow> string \<Rightarrow> metadata \<Rightarrow> table \<Rightarrow> (route_error, string \<times> string) res" where
  "update_checks user c d payload tbl =
     res_bind (required 400 (case field payload ''text'' of PStr t \<Rightarrow> Some t | _ \<Rightarrow> None)) (\<lambda>t.
     res_bind (http (semantic_logical_key c d)) (\<lambda>key.
     res_bind (http (authorize_write (get_entry tbl) user ''semantic'' key ''private'' False)) (\<lambda>_.
     res_bind (http (resolve_read_entry tbl ''semantic'' key user)) (\<lambda>prior.
     res_bind (required 404 prior) (\<lambda>_. Inr (t, key))))))"

definition store_document ::
  "route_env \<Rightarrow> collections \<Rightarrow> user_context \<Rightarrow> string \<Rightarrow> string \<Rightarrow> string \<Rightarrow> pyval \<Rightarrow> string
    \<Rightarrow> (route_error, collections) res" where
  "store_document env cols user c d t metadata tier =
     res_bind (required 502 (py_dict (sanitize_semantic_metadata metadata))) (\<lambda>meta.
       case upsert (re_sem env) cols user c d t meta tier of
         Inl e \<Rightarrow> Inl (upsert_http e)
       | Inr cols' \<Rightarrow> Inr cols')"

definition create_semantic ::
  "route_env \<Rightarrow> user_context \<Rightarrow> metadata \<Rightarrow> string option \<Rightarrow> string option \<Rightarrow> route_state \<Rightarrow> manifest_entry answer"
where
  "create_semantic env user payload title promote st =
     (let tbl = rt_table st in
      case res_bind (create_checks user payload promote tbl) (\<lambda>((c, d, t), tier, key).
             res_bind (store_document env (rt_cols st) user c d t (field payload ''metadata'') tier) (\<lambda>cols.
               Inr ((c, d, t), tier, key, cols))) of
        Inl e \<Rightarrow> (Inl e, st)
      | Inr ((c, d, t), tier, key, cols) \<Rightarrow>
          let st1 = st\<lparr>rt_cols := cols\<rparr> in
          case http (res_bind (legacy_copy_forward_source tbl user ''semantic'' key) (\<lambda>copied.
                 res_bind (record_create (re_now env) (re_uid env) tbl ''semantic'' key title (Some (utf8_length t))
                     (uc_user_id user) tier (corpus_write_authorized user (Some c))) (\<lambda>(tbl', en).
                   Inr (copied, tbl', en)))) of
            Inl e \<Rightarrow> (Inl e, st1)
          | Inr (copied, tbl', en) \<Rightarrow> finish_write env user c d copied en (st1\<lparr>rt_table := tbl'\<rparr>))"

definition update_semantic ::
  "route_env \<Rightarrow> user_context \<Rightarrow> string \<Rightarrow> string \<Rightarrow> metadata \<Rightarrow> string option \<Rightarrow> route_state \<Rightarrow> manifest_entry answer"
where
  "update_semantic env user c d payload title st =
     (let tbl = rt_table st in
      case res_bind (update_checks user c d payload tbl) (\<lambda>(t, key).
             res_bind (store_document env (rt_cols st) user c d t (field payload ''metadata'') ''private'') (\<lambda>cols.
               Inr (t, key, cols))) of
        Inl e \<Rightarrow> (Inl e, st)
      | Inr (t, key, cols) \<Rightarrow>
          let st1 = st\<lparr>rt_cols := cols\<rparr> in
          case res_bind (legacy_copy_forward_source tbl user ''semantic'' key) (\<lambda>copied.
                 res_bind (record_update (re_now env) (re_uid env) tbl ''semantic'' key (Some (utf8_length t))
                     (uc_user_id user) title (corpus_write_authorized user (Some c))) (\<lambda>(tbl', en).
                   Inr (copied, tbl', en))) of
            Inl e \<Rightarrow> (Inl (update_http e), st1)
          | Inr (copied, tbl', en) \<Rightarrow> finish_write env user c d copied en (st1\<lparr>rt_table := tbl'\<rparr>))"

definition delete_checks ::
  "user_context \<Rightarrow> string \<Rightarrow> string \<Rightarrow> bool \<Rightarrow> table \<Rightarrow> (route_error, string) res" where
  "delete_checks user c d hard tbl =
     res_bind (if hard \<and> ''audittrace:admin'' \<notin> set (uc_scopes user) \<and> \<not> uc_is_admin user
               then Inl (Http 403) else Inr ()) (\<lambda>_.
     res_bind (http (semantic_logical_key c d)) (\<lambda>key.
     res_bind (http (authorize_write (get_entry tbl) user ''semantic'' key ''private'' False)) (\<lambda>_. Inr key)))"

definition delete_semantic ::
  "route_env \<Rightarrow> user_context \<Rightarrow> string \<Rightarrow> string \<Rightarrow> bool \<Rightarrow> route_state \<Rightarrow> manifest_entry answer" where
  "delete_semantic env user c d hard st =
     (case res_bind (delete_checks user c d hard (rt_table st)) (\<lambda>key.
             http (record_delete (re_now env) (rt_table st) ''semantic'' key (uc_user_id user)
               (corpus_write_authorized user (Some c)))) of
        Inl e \<Rightarrow> (Inl e, st)
      | Inr (tbl, entry) \<Rightarrow>
          let st1 = st\<lparr>rt_table := tbl\<rparr> in
          case (if hard then delete_document (re_sem env) (rt_cols st) user c d else Inr (rt_cols st, False)) of
            Inl _ \<Rightarrow> (Inl (Http 502), st1)
          | Inr (cols, _) \<Rightarrow>
              (case emit_audits (re_audit_ok env) 0 [audit_event user ''delete'' c d [(''hard'', PBool hard)]]
                      (st1\<lparr>rt_cols := cols\<rparr>) of
                 (Inl e, st2) \<Rightarrow> (Inl e, st2)
               | (Inr _, st2) \<Rightarrow> (Inr entry, st2)))"

section \<open>Reading\<close>

definition iter_document_chunk_ids :: "(string \<Rightarrow> string) \<Rightarrow> string \<Rightarrow> string \<Rightarrow> string list" where
  "iter_document_chunk_ids sha collection title = map (doc_id sha collection title) [0..<MAX_DOCUMENT_CHUNKS]"

text \<open>\<open>_gather_whole_document\<close>: the identifiers and documents of the chunk sequence.\<close>

definition document_title :: "metadata \<Rightarrow> string option" where
  "document_title meta =
     (case (if truthy (field meta ''title'') then field meta ''title'' else field meta ''source'') of
        PStr t \<Rightarrow> if t \<noteq> [] then Some t else None
      | _ \<Rightarrow> None)"

definition gather_whole_document ::
  "route_env \<Rightarrow> collections \<Rightarrow> user_context \<Rightarrow> string \<Rightarrow> string \<Rightarrow> string \<times> metadata
    \<Rightarrow> (exc, (string \<times> string \<times> metadata) list) res" where
  "gather_whole_document env cols user collection document_id doc =
     (case document_title (snd doc) of
        None \<Rightarrow> Inr [(document_id, doc)]
      | Some title \<Rightarrow>
          (let ids = iter_document_chunk_ids (re_sha256 env) collection title in
           res_bind (get_documents (re_sem env) cols user collection ids) (\<lambda>fetched.
             let found = map (\<lambda>(i, r). (i, the r)) (takeWhile (\<lambda>(_, r). r \<noteq> None) (zip ids fetched)) in
             Inr (if found = [] then [(document_id, doc)] else found))))"

record read_answer =
  ra_content :: string
  ra_metadata :: metadata
  ra_manifest :: "manifest_entry option"
  ra_chunk_keys :: "string list option"

definition visible_entry ::
  "table \<Rightarrow> string \<Rightarrow> user_context \<Rightarrow> (manifest_error, manifest_entry option) res" where
  "visible_entry tbl key user =
     res_bind (resolve_read_entry tbl ''semantic'' key user) (\<lambda>e.
       Inr (case e of Some x \<Rightarrow> if entry_visible (Some user) x then Some x else None | None \<Rightarrow> None))"

definition read_semantic ::
  "route_env \<Rightarrow> user_context \<Rightarrow> string \<Rightarrow> string \<Rightarrow> bool \<Rightarrow> route_state \<Rightarrow> (route_error, read_answer) res" where
  "read_semantic env user c d whole st =
     (case get_document (re_sem env) (rt_cols st) user c d of
        Inl e \<Rightarrow> Inl (Unhandled e)
      | Inr None \<Rightarrow> Inl (Http 404)
      | Inr (Some doc) \<Rightarrow>
        if map_of (snd doc) ''tier'' = Some (PStr ''corpus'') \<and> \<not> has_corpus_scope user c ''read''
        then Inl (Http 403) else
     (case (if whole then gather_whole_document env (rt_cols st) user c d doc else Inr [(d, doc)]) of
        Inl e \<Rightarrow> Inl (Unhandled e)
      | Inr chunks \<Rightarrow>
     (case visible_entry (rt_table st) (c @ ''/'' @ fst (hd chunks)) user of
        Inl e \<Rightarrow> Inl (Unhandled (ManifestExc e))
      | Inr entry \<Rightarrow>
          Inr (if whole
               then \<lparr>ra_content = the (reassemble_chunk_sequence (map (fst \<circ> snd) chunks) CHUNK_OVERLAP),
                     ra_metadata = snd (snd (hd chunks)), ra_manifest = entry,
                     ra_chunk_keys = Some (map (\<lambda>(i, _). c @ ''/'' @ i) chunks)\<rparr>
               else \<lparr>ra_content = fst doc, ra_metadata = snd doc, ra_manifest = entry, ra_chunk_keys = None\<rparr>))))"

end
