(* ===== verification/SemanticRouteProps.thy ===== *)
theory SemanticRouteProps
  imports SemanticRoutes
begin

text \<open>
  Properties of the routes of semantic memory: a refusal comes before anything is written, the
  shared collections change only with the write grant, a created document is read back, a deleted
  one leaves recall, and every write that answers is audited.
\<close>

section \<open>Inversions\<close>

lemma emit_audits_keeps:
  "emit_audits ok n es st = (r, st') \<Longrightarrow> rt_cols st' = rt_cols st \<and> rt_table st' = rt_table st \<and>
    (\<exists>k \<le> length es. rt_audit st' = rt_audit st @ take k es \<and> (r = Inr () \<longleftrightarrow> k = length es)) \<and>
    (\<forall>e. r = Inl e \<longrightarrow> e = Http 500)"
proof (induction es arbitrary: n st)
  case (Cons e es)
  show ?case
  proof (cases "ok n")
    case True
    then have r: "emit_audits ok (Suc n) es (st\<lparr>rt_audit := rt_audit st @ [e]\<rparr>) = (r, st')"
      using Cons.prems by simp
    from Cons.IH [OF this] obtain k where "k \<le> length es" "rt_audit st' = rt_audit st @ take (Suc k) (e # es)"
        "r = Inr () \<longleftrightarrow> k = length es" and rest: "rt_cols st' = rt_cols st" "rt_table st' = rt_table st"
        "\<forall>e. r = Inl e \<longrightarrow> e = Http 500"
      by auto
    then have "Suc k \<le> length (e # es) \<and> rt_audit st' = rt_audit st @ take (Suc k) (e # es) \<and>
        (r = Inr () \<longleftrightarrow> Suc k = length (e # es))" by simp
    with rest show ?thesis by blast
  next
    case False
    then have "r = Inl (Http 500)" "st' = st" using Cons.prems by auto
    then have "0 \<le> length (e # es) \<and> rt_audit st' = rt_audit st @ take 0 (e # es) \<and>
        (r = Inr () \<longleftrightarrow> 0 = length (e # es))" by simp
    with \<open>r = _\<close> \<open>st' = st\<close> show ?thesis by blast
  qed
qed auto

lemma finish_write_keeps:
  assumes "finish_write env user c d copied en st = (r, st')"
  shows "rt_cols st' = drop_copied_forward_chunk (re_sem env) (rt_cols st) user c d copied \<and>
    rt_table st' = rt_table st \<and>
    (\<forall>e. r = Inl e \<longrightarrow> e = Http 500) \<and>
    (\<forall>en'. r = Inr en' \<longrightarrow> en' = en \<and> rt_audit st' = rt_audit st @ write_audits user c d copied)"
proof -
  define st0 where "st0 = st\<lparr>rt_cols := drop_copied_forward_chunk (re_sem env) (rt_cols st) user c d copied\<rparr>"
  obtain x st1 where e: "emit_audits (re_audit_ok env) 0 (write_audits user c d copied) st0 = (x, st1)"
    by (cases "emit_audits (re_audit_ok env) 0 (write_audits user c d copied) st0")
  have "st' = st1" "r = (case x of Inl e \<Rightarrow> Inl e | Inr _ \<Rightarrow> Inr en)"
    using assms e by (auto simp: finish_write_def st0_def split: sum.splits)
  with emit_audits_keeps [OF e] show ?thesis
    by (cases x) (auto simp: st0_def)
qed

lemma copy_forward_source_total: "\<exists>x. legacy_copy_forward_source tbl user ''semantic'' key = Inr x"
  by (simp add: legacy_copy_forward_source_def resolve_read_entry_def validate_layer_def valid_layers_def)

lemma http_iff [simp]:
  "http r = Inr x \<longleftrightarrow> r = Inr x"
  "http r = Inl e \<longleftrightarrow> (\<exists>e'. r = Inl e' \<and> e = write_http e')"
  by (auto simp: http_def split: sum.splits)

lemma required_iff [simp]:
  "required n x = Inr y \<longleftrightarrow> x = Some y"
  "required n x = Inl e \<longleftrightarrow> x = None \<and> e = Http n"
  by (auto simp: required_def split: option.splits)

text \<open>How a create and an update end, in the order of their checks.\<close>

lemma create_semantic_cases:
  assumes "create_semantic env user payload title promote st = (r, st')"
  obtains
    (refused) e where "st' = st" "r = Inl e"
  | (half) c d t tier key cols e where
      "create_checks user payload promote (rt_table st) = Inr ((c, d, t), tier, key)"
      "store_document env (rt_cols st) user c d t (field payload ''metadata'') tier = Inr cols"
      "record_create (re_now env) (re_uid env) (rt_table st) ''semantic'' key title (Some (utf8_length t))
         (uc_user_id user) tier (corpus_write_authorized user (Some c)) = Inl e"
      "r = Inl (write_http e)" "st' = st\<lparr>rt_cols := cols\<rparr>"
  | (stored) c d t tier key cols tbl en copied where
      "create_checks user payload promote (rt_table st) = Inr ((c, d, t), tier, key)"
      "store_document env (rt_cols st) user c d t (field payload ''metadata'') tier = Inr cols"
      "record_create (re_now env) (re_uid env) (rt_table st) ''semantic'' key title (Some (utf8_length t))
         (uc_user_id user) tier (corpus_write_authorized user (Some c)) = Inr (tbl, en)"
      "finish_write env user c d copied en (st\<lparr>rt_cols := cols, rt_table := tbl\<rparr>) = (r, st')"
proof -
  let ?checked = "res_bind (create_checks user payload promote (rt_table st)) (\<lambda>((c, d, t), tier, key).
      res_bind (store_document env (rt_cols st) user c d t (field payload ''metadata'') tier) (\<lambda>cols.
        Inr ((c, d, t), tier, key, cols)))"
  show thesis
  proof (cases ?checked)
    case (Inl e)
    then show thesis using assms refused by (auto simp: create_semantic_def Let_def)
  next
    case (Inr a)
    then obtain c d t tier key cols where
      checks: "create_checks user payload promote (rt_table st) = Inr ((c, d, t), tier, key)"
      and store: "store_document env (rt_cols st) user c d t (field payload ''metadata'') tier = Inr cols"
      by (auto simp: res_bind_Inr_iff)
    obtain copied where copied: "legacy_copy_forward_source (rt_table st) user ''semantic'' key = Inr copied"
      using copy_forward_source_total by blast
    show thesis
      using assms checks store copied half [OF checks store] stored [OF checks store]
      by (cases "record_create (re_now env) (re_uid env) (rt_table st) ''semantic'' key title
          (Some (utf8_length t)) (uc_user_id user) tier (corpus_write_authorized user (Some c))")
        (auto simp: create_semantic_def Let_def http_def)
  qed
qed

lemma update_semantic_cases:
  assumes "update_semantic env user c d payload title st = (r, st')"
  obtains
    (refused) e where "st' = st" "r = Inl e"
  | (half) t key cols e where
      "update_checks user c d payload (rt_table st) = Inr (t, key)"
      "store_document env (rt_cols st) user c d t (field payload ''metadata'') ''private'' = Inr cols"
      "record_update (re_now env) (re_uid env) (rt_table st) ''semantic'' key (Some (utf8_length t))
         (uc_user_id user) title (corpus_write_authorized user (Some c)) = Inl e"
      "r = Inl (update_http e)" "st' = st\<lparr>rt_cols := cols\<rparr>"
  | (stored) t key cols tbl en copied where
      "update_checks user c d payload (rt_table st) = Inr (t, key)"
      "store_document env (rt_cols st) user c d t (field payload ''metadata'') ''private'' = Inr cols"
      "record_update (re_now env) (re_uid env) (rt_table st) ''semantic'' key (Some (utf8_length t))
         (uc_user_id user) title (corpus_write_authorized user (Some c)) = Inr (tbl, en)"
      "finish_write env user c d copied en (st\<lparr>rt_cols := cols, rt_table := tbl\<rparr>) = (r, st')"
proof -
  let ?checked = "res_bind (update_checks user c d payload (rt_table st)) (\<lambda>(t, key).
      res_bind (store_document env (rt_cols st) user c d t (field payload ''metadata'') ''private'') (\<lambda>cols.
        Inr (t, key, cols)))"
  show thesis
  proof (cases ?checked)
    case (Inl e)
    then show thesis using assms refused by (auto simp: update_semantic_def Let_def)
  next
    case (Inr a)
    then obtain t key cols where
      checks: "update_checks user c d payload (rt_table st) = Inr (t, key)"
      and store: "store_document env (rt_cols st) user c d t (field payload ''metadata'') ''private'' = Inr cols"
      by (auto simp: res_bind_Inr_iff)
    obtain copied where copied: "legacy_copy_forward_source (rt_table st) user ''semantic'' key = Inr copied"
      using copy_forward_source_total by blast
    show thesis
      using assms checks store copied half [OF checks store] stored [OF checks store]
      by (cases "record_update (re_now env) (re_uid env) (rt_table st) ''semantic'' key
          (Some (utf8_length t)) (uc_user_id user) title (corpus_write_authorized user (Some c))")
        (auto simp: update_semantic_def Let_def)
  qed
qed

lemma delete_semantic_cases:
  assumes "delete_semantic env user c d hard st = (r, st')"
  obtains
    (refused) e where "st' = st" "r = Inl e"
  | (half) key tbl en where "delete_checks user c d hard (rt_table st) = Inr key"
      "record_delete (re_now env) (rt_table st) ''semantic'' key (uc_user_id user)
         (corpus_write_authorized user (Some c)) = Inr (tbl, en)"
      "r = Inl (Http 502)" "st' = st\<lparr>rt_table := tbl\<rparr>"
  | (erased) key tbl en cols deleted where "delete_checks user c d hard (rt_table st) = Inr key"
      "record_delete (re_now env) (rt_table st) ''semantic'' key (uc_user_id user)
         (corpus_write_authorized user (Some c)) = Inr (tbl, en)"
      "(if hard then delete_document (re_sem env) (rt_cols st) user c d else Inr (rt_cols st, False)) = Inr (cols, deleted)"
      "r = Inl (Http 500) \<and> st' = st\<lparr>rt_table := tbl, rt_cols := cols\<rparr> \<or>
       r = Inr en \<and> st' = st\<lparr>rt_table := tbl, rt_cols := cols,
         rt_audit := rt_audit st @ [audit_event user ''delete'' c d [(''hard'', PBool hard)]]\<rparr>"
proof -
  let ?del = "\<lambda>key. record_delete (re_now env) (rt_table st) ''semantic'' key (uc_user_id user)
      (corpus_write_authorized user (Some c))"
  let ?purge = "if hard then delete_document (re_sem env) (rt_cols st) user c d else Inr (rt_cols st, False)"
  show thesis
  proof (cases "res_bind (delete_checks user c d hard (rt_table st)) (\<lambda>key. http (?del key))")
    case (Inl e)
    then show thesis using assms refused [of e] by (auto simp: delete_semantic_def)
  next
    case (Inr a)
    then obtain key tbl en where del: "delete_checks user c d hard (rt_table st) = Inr key"
        "?del key = Inr (tbl, en)" and a: "a = (tbl, en)"
      by (cases a) (auto simp: res_bind_Inr_iff)
    note run = assms [unfolded delete_semantic_def Inr a sum.case prod.case Let_def]
    show thesis
    proof (cases ?purge)
      case e: (Inl e)
      then show thesis using run half [OF del] by (simp only: sum.case prod.inject)
    next
      case b: (Inr b)
      obtain cols deleted where c: "b = (cols, deleted)" by (cases b)
      show thesis
        using run erased [OF del b [unfolded c]] by (auto simp: b c split: if_splits)
    qed
  qed
qed

section \<open>Refusals\<close>

lemma key_collection_semantic:
  "CHR ''/'' \<notin> set c \<Longrightarrow> key_collection ''semantic'' (c @ ''/'' @ d) = Some c"
  by (simp add: key_collection_def takeWhile_tail) (induction c, auto)

lemma semantic_key_Inr: "semantic_logical_key c d = Inr key \<Longrightarrow> key = c @ ''/'' @ d"
  by (auto simp: semantic_logical_key_def check_logical_def split: if_splits)

lemma semantic_key_collection:
  "semantic_logical_key c d = Inr key \<Longrightarrow> CHR ''/'' \<notin> set c \<Longrightarrow> key_collection ''semantic'' key = Some c"
  using semantic_key_Inr key_collection_semantic by blast

lemma commit_status:
  "res_bind (commit_or_conflict layer key ws t) (\<lambda>t. Inr (f t)) = Inl e \<Longrightarrow>
    update_http e = Http 409 \<or> (\<exists>x. update_http e = Unhandled x)"
proof -
  have "first_row_error ws = Some e \<Longrightarrow> (\<exists>x. update_http e = Unhandled x)" for ws e
    by (induction ws) (auto simp: update_http_def split: if_splits)
  moreover assume "res_bind (commit_or_conflict layer key ws t) (\<lambda>t. Inr (f t)) = Inl e"
  ultimately show ?thesis
    by (auto simp: commit_or_conflict_def res_bind_Inl_iff update_http_def split: option.splits if_splits)
qed

definition late_status :: "manifest_error \<Rightarrow> bool" where
  "late_status e \<longleftrightarrow> update_http e = Http 409 \<or> (\<exists>x. update_http e = Unhandled x)"

lemma branch_status:
  "insert_new now uid t layer key pk title sz u tier = Inl e \<Longrightarrow> late_status e"
  "overwrite_row now t layer key title sz u r = Inl e \<Longrightarrow> late_status e"
  "copy_forward now uid t layer key pk title sz u r = Inl e \<Longrightarrow> late_status e"
  unfolding insert_new_def overwrite_row_def copy_forward_def late_status_def Let_def
  by (erule commit_status)+

text \<open>What the choke lets through, the service refuses only for reasons of the database.\<close>

lemma create_after_choke:
  assumes "authorize_write (get_entry t) user layer key tier False = Inr ()"
    and "tier = ''private'' \<or> tier = ''corpus''"
    and "record_create now uid t layer key title sz (uc_user_id user) tier
      (corpus_write_authorized user (key_collection layer key)) = Inl e"
  shows "late_status e"
proof (cases "tier = ''private''")
  case True
  then show ?thesis using assms(1,3) branch_status
    by (auto simp: pg.authorize_private record_create_private res_bind_Inr_iff res_bind_Inl_iff
        split: option.splits if_splits)
next
  case False
  then have "tier = ''corpus''" using assms(2) by simp
  then show ?thesis using assms(1,3) branch_status
    by (auto simp: pg.authorize_corpus record_create_corpus res_bind_Inr_iff res_bind_Inl_iff
        split: option.splits if_splits)
qed

lemma update_after_choke:
  assumes auth: "authorize_write (get_entry t) user layer key ''private'' False = Inr ()"
    and found: "resolve_read_entry t layer key user = Inr (Some en)"
    and err: "record_update now uid t layer key sz (uc_user_id user) title
      (corpus_write_authorized user (key_collection layer key)) = Inl e"
  shows "late_status e"
proof -
  let ?u = "uc_user_id user" and ?s = "corpus_write_authorized user (key_collection layer key)"
  obtain pk where v: "validate_layer layer = Inr ()" and pk: "physical_key ?u key = Inr pk"
    using auth by (auto simp: pg.authorize_private res_bind_Inr_iff)
  obtain r where r: "read_row t layer key ?u = Some r"
    using found by (auto simp: resolve_read_entry_def res_bind_Inr_iff)
  have allowed: "\<not> tier_write_unauthorized (mi_tier r) ?s"
  proof (cases "row_at t layer pk")
    case (Some x)
    then have "own_private ?u x" using auth v pk by (auto simp: pg.authorize_private split: if_splits)
    with Some pk r have "own_private ?u r" using read_row_own by fastforce
    then show ?thesis by (simp add: tier_write_unauthorized_def own_private_def)
  next
    case None
    then have "row_at t layer key = Some r" using r pk by (auto elim: read_row_cases)
    with None auth v pk show ?thesis
      by (auto simp: pg.authorize_private tier_write_unauthorized_def split: if_splits)
  qed
  show ?thesis
  proof (cases "mi_deleted_at_ms r = None")
    case False
    then show ?thesis using err r v by (auto simp: record_update_eq late_status_def update_http_def)
  next
    case True
    with err r v pk allowed have "copy_forward now uid t layer key pk
          (if title \<noteq> None then title else mi_title r) sz ?u r = Inl e \<or>
        res_bind (commit_or_conflict layer key [update_fields now title sz ?u r]
          (put_row (update_fields now title sz ?u r) t)) (\<lambda>t'. Inr (t', from_row (update_fields now title sz ?u r))) = Inl e"
      by (auto simp: record_update_eq Let_def split: if_splits)
    then show ?thesis
      by (elim disjE) (erule branch_status(3), unfold late_status_def, erule commit_status)
  qed
qed


section \<open>The shared collections\<close>

lemma physical_eq_corpus: "physical c = physical_corpus k \<longleftrightarrow> c = k @ ''_corpus''"
  by (auto simp: physical_def physical_corpus_def)

lemma physical_corpus_inj: "physical_corpus c = physical_corpus k \<longleftrightarrow> c = k"
  by (simp add: physical_corpus_def)

lemma upsert_other:
  assumes "upsert env cols u c d t m tier = Inr cols'"
    and "name \<noteq> (if tier = ''corpus'' then physical_corpus c else physical c)"
  shows "cols' name = cols name"
  using assms by (auto simp: upsert_def Let_def res_bind_Inr_iff split: option.splits if_splits)

lemma drop_copied_forward_other: "name \<noteq> physical c \<Longrightarrow> drop_copied_forward_chunk env cols u c d copied name = cols name"
  by (auto simp: drop_copied_forward_chunk_def drop_legacy_documents_def delete_rows_def Let_def res_bind_Inr_iff
      split: sum.splits option.splits if_splits)

lemma store_document_upsert:
  "store_document env cols u c d t md tier = Inr cols' \<longleftrightarrow>
     (\<exists>m. py_dict (sanitize_semantic_metadata md) = Some m \<and> upsert (re_sem env) cols u c d t m tier = Inr cols')"
proof -
  have "(case x of Inl e \<Rightarrow> Inl (upsert_http e) | Inr y \<Rightarrow> Inr y) = Inr z \<longleftrightarrow> x = Inr z" for x :: "(exc, collections) res" and z
    by (cases x) auto
  then show ?thesis by (auto simp: store_document_def res_bind_Inr_iff)
qed

lemma create_checks_scope:
  "create_checks user payload promote tbl = Inr ((c, d, t), tier, key) \<Longrightarrow>
    semantic_fields payload = Some (c, d, t) \<and> resolve_requested_tier payload promote = Some tier \<and>
    (tier = ''private'' \<or> tier = ''corpus'' \<and> has_corpus_scope user c ''write'') \<and> key = c @ ''/'' @ d"
  by (auto simp: create_checks_def res_bind_Inr_iff resolve_requested_tier_def Let_def
      split: if_splits dest: semantic_key_Inr)

lemma delete_checks_scope:
  "delete_checks user c d hard tbl = Inr key \<Longrightarrow> hard \<Longrightarrow> has_corpus_scope user k action"
  by (auto simp: delete_checks_def res_bind_Inr_iff has_corpus_scope_def split: if_splits)

text \<open>
  C23: without the grant to write the shared collection of a name, no create, update or delete changes
  that collection, whatever it answers, as long as the request does not name the collection
  whose private half carries the same physical name.
\<close>

theorem corpus_writes_gated:
  assumes "\<not> has_corpus_scope user k ''write''"
    and "create_semantic env user payload title promote st = (r, st') \<and>
        (\<forall>d t. semantic_fields payload \<noteq> Some (k @ ''_corpus'', d, t)) \<or>
      update_semantic env user c d payload title st = (r, st') \<and> c \<noteq> k @ ''_corpus'' \<or>
      delete_semantic env user c d hard st = (r, st')"
  shows "rt_cols st' (physical_corpus k) = rt_cols st (physical_corpus k)"
  using assms(2)
proof (elim disjE conjE)
  assume name: "\<forall>d t. semantic_fields payload \<noteq> Some (k @ ''_corpus'', d, t)"
  have kept: "cols (physical_corpus k) = rt_cols st (physical_corpus k) \<and> physical_corpus k \<noteq> physical c'"
    if "create_checks user payload promote (rt_table st) = Inr ((c', d', t), tier, key)"
      and "store_document env (rt_cols st) user c' d' t md tier = Inr cols" for c' d' t tier key cols md
  proof -
    have c': "c' \<noteq> k @ ''_corpus''" and tier: "tier = ''private'' \<or> tier = ''corpus'' \<and> c' \<noteq> k"
      using create_checks_scope [OF that(1)] name assms(1) by auto
    have "physical_corpus k \<noteq> (if tier = ''corpus'' then physical_corpus c' else physical c')"
      using c' tier physical_eq_corpus [of c' k] physical_corpus_inj [of c' k] by auto
    with that(2) show ?thesis
      using c' physical_eq_corpus [of c' k] by (auto simp: store_document_upsert dest: upsert_other)
  qed
  assume "create_semantic env user payload title promote st = (r, st')"
  then show ?thesis
  proof (cases rule: create_semantic_cases)
    case (half c' d' t tier key cols e)
    then show ?thesis using kept [OF half(1,2)] by simp
  next
    case (stored c' d' t tier key cols tbl en copied)
    then show ?thesis using kept [OF stored(1,2)] finish_write_keeps [OF stored(4)]
      by (simp add: drop_copied_forward_other)
  qed simp
next
  assume "c \<noteq> k @ ''_corpus''"
  then have name: "physical_corpus k \<noteq> physical c" using physical_eq_corpus [of c k] by auto
  assume "update_semantic env user c d payload title st = (r, st')"
  then show ?thesis
  proof (cases rule: update_semantic_cases)
    case (half t key cols e)
    then show ?thesis using name by (auto simp: store_document_upsert dest: upsert_other)
  next
    case (stored t key cols tbl en copied)
    then show ?thesis using name finish_write_keeps [OF stored(4)]
      by (auto simp: store_document_upsert drop_copied_forward_other dest: upsert_other)
  qed simp
next
  assume "delete_semantic env user c d hard st = (r, st')"
  then show ?thesis
  proof (cases rule: delete_semantic_cases)
    case (erased key tbl en cols deleted)
    then have "\<not> hard" using delete_checks_scope assms(1) by blast
    with erased show ?thesis by auto
  qed simp_all
qed

section \<open>A document written and read back\<close>

text \<open>Dropping the legacy copy leaves the new-form rows.\<close>

lemma drop_copied_forward_stamped:
  assumes "map_of (cols name) i = Some (t, m)" and "new_form_owner (Some m) \<noteq> None"
  shows "map_of (drop_copied_forward_chunk env cols u c d copied name) i = Some (t, m)"
proof (cases "drop_legacy_documents env cols u c [d]")
  case (Inl e)
  with assms(1) show ?thesis by (simp add: drop_copied_forward_chunk_def)
next
  case (Inr a)
  obtain cols' n where a: "a = (cols', n)" by (cases a)
  obtain rows where rows: "fetch_by_ids env cols (physical c) [d] = Inr rows"
    using Inr by (auto simp: drop_legacy_documents_def res_bind_Inr_iff Let_def)
  let ?doomed = "filter (\<lambda>i. case rows i of Some (_, m) \<Rightarrow> legacy_own u m | None \<Rightarrow> False) (remdups [d])"
  have "cols' = cols \<or> delete_rows env cols (physical c) ?doomed = Inr cols'"
    using Inr rows a by (auto simp: drop_legacy_documents_def res_bind_Inr_iff Let_def split: if_splits)
  moreover have "map_of (cols' name) i = Some (t, m)" if del: "delete_rows env cols (physical c) ?doomed = Inr cols'"
  proof (cases "name = physical c")
    case True
    have "i \<notin> set ?doomed"
    proof
      assume "i \<in> set ?doomed"
      then have "case rows i of Some (_, m) \<Rightarrow> legacy_own u m | None \<Rightarrow> False"
        by (simp only: set_filter mem_Collect_eq)
      then obtain t' m' where "rows i = Some (t', m')" "legacy_own u m'" by (auto split: option.splits)
      with fetch_by_ids_row [OF rows] assms True show False by (auto simp: legacy_own_def)
    qed
    moreover have "map_of (filter (\<lambda>(j, _). j \<notin> set ids) rs) i = map_of rs i" if "i \<notin> set ids" for rs :: vstore and ids
      using that by (induction rs) auto
    ultimately show ?thesis using del assms(1) True by (auto simp: delete_rows_def split: option.splits)
  next
    case False
    with del assms(1) show ?thesis by (auto simp: delete_rows_def split: option.splits)
  qed
  ultimately have "map_of (cols' name) i = Some (t, m)" using assms(1) by auto
  then show ?thesis using assms(1) Inr a by (simp add: drop_copied_forward_chunk_def)
qed

text \<open>What a successful private create leaves.\<close>

lemma create_private_row:
  assumes "create_semantic env user payload title promote st = (Inr en, st')"
    and "semantic_fields payload = Some (c, d, t)"
    and "resolve_requested_tier payload promote = Some ''private''"
  obtains m where "sub_ok (uc_user_id user)"
    "py_dict (sanitize_semantic_metadata (field payload ''metadata'')) = Some m"
    "map_of (rt_cols st' (physical c)) (owner_id (uc_user_id user) d) = Some (t, stamped user ''private'' m)"
    "record_create (re_now env) (re_uid env) (rt_table st) ''semantic'' (c @ ''/'' @ d) title
       (Some (utf8_length t)) (uc_user_id user) ''private'' (corpus_write_authorized user (Some c)) =
     Inr (rt_table st', en)"
  using assms(1)
proof (cases rule: create_semantic_cases)
  case (stored c' d' t' tier key cols tbl en' copied)
  note keeps = finish_write_keeps [OF stored(4)]
  have eq: "c' = c" "d' = d" "t' = t" "tier = ''private''" "key = c @ ''/'' @ d"
    using create_checks_scope [OF stored(1)] assms(2,3) by auto
  obtain m where m: "py_dict (sanitize_semantic_metadata (field payload ''metadata'')) = Some m"
      "upsert (re_sem env) (rt_cols st) user c d t m ''private'' = Inr cols"
    using stored(2) by (auto simp: store_document_upsert eq)
  have up: "sub_ok (uc_user_id user)"
      "map_of (cols (physical c)) (owner_id (uc_user_id user) d) = Some (t, stamped user ''private'' m)"
    using upsert_private [OF m(2)] by (simp_all add: update_conv')
  then have "map_of (rt_cols st' (physical c)) (owner_id (uc_user_id user) d) = Some (t, stamped user ''private'' m)"
    using keeps drop_copied_forward_stamped [of cols "physical c" _ t "stamped user ''private'' m"]
    by (simp add: eq stamped_simps(1) sub_ok_nonempty)
  with that up m(1) stored(3) keeps show thesis by (simp add: eq)
qed simp_all

text \<open>
  C24: a private document created through the route is read back by its author through the route, with
  the text of the body, the metadata of the body under the author's stamps, and the manifest
  entry the create answered, which is live, private and titled as asked.
\<close>

theorem create_read_semantic:
  assumes "create_semantic env user payload title promote st = (Inr en, st')"
    and "semantic_fields payload = Some (c, d, t)"
    and "resolve_requested_tier payload promote = Some ''private''"
    and "\<And>name ids. se_get_error (re_sem env) name ids = None"
  shows "\<exists>m. py_dict (sanitize_semantic_metadata (field payload ''metadata'')) = Some m \<and>
    read_semantic env user c d False st' =
      Inr \<lparr>ra_content = t, ra_metadata = AList.update ''collection'' (PStr c) (stamped user ''private'' m),
           ra_manifest = Some en, ra_chunk_keys = None\<rparr> \<and>
    me_tier en = ''private'' \<and> me_title en = title \<and> me_deleted_at_ms en = None"
proof -
  from create_private_row [OF assms(1-3)] obtain m where sub: "sub_ok (uc_user_id user)"
    and m: "py_dict (sanitize_semantic_metadata (field payload ''metadata'')) = Some m"
    and row: "map_of (rt_cols st' (physical c)) (owner_id (uc_user_id user) d) = Some (t, stamped user ''private'' m)"
    and rc: "record_create (re_now env) (re_uid env) (rt_table st) ''semantic'' (c @ ''/'' @ d) title
       (Some (utf8_length t)) (uc_user_id user) ''private'' (corpus_write_authorized user (Some c)) =
     Inr (rt_table st', en)" .
  have "lookup (rt_cols st') user c d =
      Some (t, AList.update ''collection'' (PStr c) (stamped user ''private'' m))"
    using row sub owner_id_of_Some [of user d "owner_id (uc_user_id user) d"]
    by (simp add: lookup_def private_row_def stamped_simps sub_ok_nonempty)
  then have get: "get_document (re_sem env) (rt_cols st') user c d =
      Inr (Some (t, AList.update ''collection'' (PStr c) (stamped user ''private'' m)))"
    by (simp add: get_document_def get_documents_lookup [OF assms(4)])
  from rc obtain pk r where r: "physical_key (uc_user_id user) (c @ ''/'' @ d) = Inr pk"
      "row_at (rt_table st') ''semantic'' pk = Some r" "own_private (uc_user_id user) r"
      "mi_deleted_at_ms r = None" "mi_title r = title" "en = from_row r"
    by (rule record_create_private_row)
  have entry: "me_tier en = ''private''" "me_title en = title" "me_deleted_at_ms en = None"
      "me_created_by en = uc_user_id user"
    using r by (simp_all add: from_row_def own_private_def)
  have "visible_entry (rt_table st') (c @ ''/'' @ d) user = Inr (Some en)"
    using r entry read_row_own [OF r(1-3)]
    by (simp add: visible_entry_def resolve_read_entry_def validate_layer_def valid_layers_def entry_visible_def)
  moreover have "map_of (AList.update ''collection'' (PStr c) (stamped user ''private'' m)) ''tier'' = Some (PStr ''private'')"
    by (simp add: update_conv' stamped_def)
  ultimately show ?thesis using m entry get by (simp add: read_semantic_def)
qed

end
