(* ===== verification/SemanticRouteLaws.thy ===== *)
theory SemanticRouteLaws
  imports SemanticRouteProps
begin

text \<open>
  What the routes of semantic memory mean for recall: a deleted document leaves it, every answered
  write is audited, and the one way a private write reaches it as a shared document.
\<close>

section \<open>Deleted documents\<close>

lemma page_matches_subset: "set (sp_matches (page_of_pool srt order n off pool)) \<subseteq> set pool"
  using ranked_cut_set by (simp add: page_of_pool_eq)

lemma search_not_tombstoned:
  assumes "D \<in> set (search env cols v q n names) \<or>
    D \<in> set (sp_matches (search_page env cols v q k names offset srt order))"
  shows "\<not> tombstoned env D"
proof -
  from assms obtain pool where "D \<in> set (filter_soft_deleted env pool)"
  proof (elim disjE)
    assume "D \<in> set (search env cols v q n names)"
    then show thesis using that by (simp add: search_def)
  next
    assume "D \<in> set (sp_matches (search_page env cols v q k names offset srt order))"
    then show thesis
      unfolding search_page_def Let_def by (rule that [OF subsetD [OF page_matches_subset]])
  qed
  then show ?thesis by (simp add: filter_soft_deleted_eq)
qed

lemma delete_leaves_tombstone:
  assumes "record_delete now tbl ''semantic'' key u shared = Inr (tbl', en)" and "uq_layer_key tbl"
  shows "\<exists>r \<in> set tbl'. mi_layer r = ''semantic'' \<and> mi_deleted_at_ms r \<noteq> None \<and> mi_key r = me_storage_key en"
proof -
  let ?sel = "filter (\<lambda>r. mi_layer r = ''semantic'' \<and> mi_key r \<in> set [me_storage_key en] \<and> mi_deleted_at_ms r \<noteq> None) tbl'"
  obtain user :: user_context where u: "uc_user_id user = u" by (metis user_context.select_convs(1))
  have "get_deleted_keys tbl' ''semantic'' [me_storage_key en] = Inr {me_storage_key en}"
    using delete_hides [of now tbl "''semantic''" key user shared tbl' en] assms u by blast
  then have "set (map mi_key ?sel) = {me_storage_key en}"
    by (simp add: get_deleted_keys_def res_bind_Inr_iff)
  then have "me_storage_key en \<in> set (map mi_key ?sel)" by simp
  then show ?thesis by auto
qed


section \<open>Audits\<close>

text \<open>
  C26: a create, an update or a delete that answers its entry has added the audit row of the write, in
  the caller's name and with the collection and identifier of the request; without it the answer
  is an error, and rows are only ever added.
\<close>

theorem answered_writes_audited:
  assumes "create_semantic env user payload title promote st = (r, st') \<and>
        semantic_fields payload = Some (c, d, t) \<and> op = ''write'' \<or>
      update_semantic env user c d payload title st = (r, st') \<and> op = ''write'' \<or>
      delete_semantic env user c d hard st = (r, st') \<and> op = ''delete''"
  shows "\<exists>es. (\<forall>en. r = Inr en \<longrightarrow> es \<noteq> [] \<and> av_user (hd es) = uc_user_id user \<and> av_op (hd es) = op \<and>
      av_collection (hd es) = c \<and> av_key (hd es) = d) \<and> rt_audit st' = rt_audit st @ es"
proof -
  have written: "\<exists>es. (\<forall>en. r = Inr en \<longrightarrow> es \<noteq> [] \<and> av_user (hd es) = uc_user_id user \<and> av_op (hd es) = ''write'' \<and>
      av_collection (hd es) = c \<and> av_key (hd es) = d) \<and> rt_audit st' = rt_audit st0 @ es"
    if "finish_write env user c d copied en0 st0 = (r, st')" for copied en0 st0
  proof -
    define st1 where "st1 = st0\<lparr>rt_cols := drop_copied_forward_chunk (re_sem env) (rt_cols st0) user c d copied\<rparr>"
    obtain x st2 where e: "emit_audits (re_audit_ok env) 0 (write_audits user c d copied) st1 = (x, st2)"
      by (cases "emit_audits (re_audit_ok env) 0 (write_audits user c d copied) st1")
    have st2: "st' = st2" "r = (case x of Inl e \<Rightarrow> Inl e | Inr _ \<Rightarrow> Inr en0)"
      using that e by (auto simp: finish_write_def st1_def split: sum.splits)
    from emit_audits_keeps [OF e] obtain k where k: "rt_audit st2 = rt_audit st1 @ take k (write_audits user c d copied)"
        "x = Inr () \<longleftrightarrow> k = length (write_audits user c d copied)" by blast
    have "write_audits user c d copied \<noteq> [] \<and> hd (write_audits user c d copied) \<in>
        {audit_event user ''write'' c d [], audit_event user ''write'' c d [(''copied_from'', PStr (the copied))]}"
      by (auto simp: write_audits_def split: option.splits)
    with k st2 show ?thesis
      by (intro exI [of _ "take k (write_audits user c d copied)"])
        (auto simp: st1_def audit_event_def split: sum.splits)
  qed
  show ?thesis
    using assms
  proof (elim disjE conjE)
    assume "create_semantic env user payload title promote st = (r, st')"
      and f: "semantic_fields payload = Some (c, d, t)" and op: "op = ''write''"
    then show ?thesis
    proof (cases rule: create_semantic_cases)
      case (stored c' d' t' tier key cols tbl en copied)
      have "c' = c" "d' = d" using create_checks_scope [OF stored(1)] f by auto
      with written [OF stored(4) [unfolded \<open>c' = c\<close> \<open>d' = d\<close>]] op show ?thesis by simp
    qed auto
  next
    assume "update_semantic env user c d payload title st = (r, st')" and op: "op = ''write''"
    then show ?thesis
    proof (cases rule: update_semantic_cases)
      case (stored t key cols tbl en copied)
      with written [OF stored(4)] op show ?thesis by simp
    qed auto
  next
    assume "delete_semantic env user c d hard st = (r, st')" and "op = ''delete''"
    then show ?thesis
      by (cases rule: delete_semantic_cases) (auto simp: audit_event_def)
  qed
qed

section \<open>Collections that share a physical name\<close>

lemma relevance_pool_all:
  assumes "nearest_first env" and "se_embed_error env q = None" and "\<not> se_query_error env (physical_corpus k)"
    and "k \<in> set names" and "(i, t, m) \<in> set (cols (physical_corpus k))" and "length (cols (physical_corpus k)) \<le> n"
  shows "\<exists>D \<in> set (relevance_pool env cols v q n names). dc_content D = t \<and>
    map_of (dc_meta D) ''collection'' = Some (PStr k) \<and> map_of (dc_meta D) ''tier'' = Some (PStr ''corpus'')"
proof -
  let ?hits = "hits env cols (physical_corpus k) q None k ''corpus''"
  have "set (map fst (se_nearest env q (cols (physical_corpus k)))) = set (cols (physical_corpus k))"
    using assms(1) unfolding nearest_first_def by (intro mset_eq_setD) simp
  then have "(i, t, m) \<in> fst ` set (se_nearest env q (cols (physical_corpus k)))"
    using assms(5) by simp
  then obtain dist where "((i, t, m), dist) \<in> set (se_nearest env q (cols (physical_corpus k)))" by auto
  then have "shape_document k ''corpus'' (i, t, m) (Some dist) \<in> set ?hits"
    using assms(3) by (auto simp: hits_def where_rows_def)
  moreover have "length ?hits \<le> n"
    using assms(6) nearest_length [OF assms(1)] by (auto simp: hits_def where_rows_def)
  then have "set ?hits \<subseteq> set (relevance_pool env cols v q n names)"
    using assms(2,4) by (auto simp: relevance_pool_def query_tier_hits [OF assms(1)])
  moreover have "dc_content (shape_document k ''corpus'' (i, t, m) (Some dist)) = t \<and>
      map_of (dc_meta (shape_document k ''corpus'' (i, t, m) (Some dist))) ''collection'' = Some (PStr k) \<and>
      map_of (dc_meta (shape_document k ''corpus'' (i, t, m) (Some dist))) ''tier'' = Some (PStr ''corpus'')"
    by (simp add: shape_document_def update_conv')
  ultimately show ?thesis by blast
qed


end
