(* ===== verification/ListView.thy ===== *)
theory ListView
  imports SemanticRoutes ScanPipeline "HOL-Library.Product_Lexorder"
begin

text \<open>
  The views behind the listings of memory: items, their order and pages
  (\<open>src/audittrace/routes/memory_list_view.py\<close>) and the grouping of the chunks of semantic memory by
  document (\<open>routes/memory_semantic_documents.py\<close>).

  An item is the dictionary of a row of the manifest or of a discovered object. A tracked item keeps
  the entry it comes from for the fields no view looks at.
\<close>

section \<open>Items\<close>

record list_item =
  li_entry :: "manifest_entry option"
  li_key :: string
  li_title :: pyval
  li_size :: "int option"
  li_created :: "int option"
  li_modified :: "int option"
  li_created_by :: pyval
  li_deleted_at :: "int option"
  li_discovered :: bool
  li_tier :: pyval
  li_chunk_count :: "nat option"

definition str_or_none :: "string option \<Rightarrow> pyval" where
  "str_or_none t = (case t of None \<Rightarrow> PNone | Some s \<Rightarrow> PStr s)"

definition tracked_item :: "manifest_entry \<Rightarrow> list_item" where
  "tracked_item e =
     \<lparr>li_entry = Some e, li_key = me_key e, li_title = str_or_none (me_title e), li_size = me_size_bytes e,
      li_created = Some (me_created_at_ms e), li_modified = Some (me_modified_at_ms e),
      li_created_by = PStr (me_created_by e), li_deleted_at = me_deleted_at_ms e, li_discovered = False,
      li_tier = PStr (me_tier e), li_chunk_count = None\<rparr>"

definition entries_to_dicts :: "manifest_entry list \<Rightarrow> list_item list" where
  "entries_to_dicts entries = map tracked_item entries"

definition entries_with_prefix :: "manifest_entry list \<Rightarrow> string \<Rightarrow> manifest_entry list" where
  "entries_with_prefix entries p = filter (\<lambda>e. py_startswith (me_key e) p) entries"

definition entry_keys :: "manifest_entry list \<Rightarrow> string set" where
  "entry_keys entries = set (map me_key entries)"

lemma last_component_append: "CHR ''/'' \<notin> set d \<Longrightarrow> last_component (p @ CHR ''/'' # d) = d"
proof -
  assume "CHR ''/'' \<notin> set d"
  then have "takeWhile (\<lambda>c. c \<noteq> CHR ''/'') (rev d @ CHR ''/'' # rev p) = rev d" by (subst takeWhile_append2) auto
  then show ?thesis by (simp add: last_component_def)
qed

section \<open>Order and pages\<close>

definition or_zero :: "int option \<Rightarrow> int" where
  "or_zero v = (case v of Some i \<Rightarrow> i | None \<Rightarrow> 0)"

definition list_page ::
  "string \<Rightarrow> string \<Rightarrow> nat \<Rightarrow> nat \<Rightarrow> list_item list \<Rightarrow> list_item list \<times> nat" where
  "list_page srt order n offset items =
     (if srt = ''key'' then sort_and_paginate li_key li_key (order \<noteq> ''asc'') n offset items
      else sort_and_paginate
             (\<lambda>i. or_zero (if srt = ''size'' then li_size i else if srt = ''modified_at'' then li_modified i
                             else li_created i))
             li_key (order \<noteq> ''asc'') n offset items)"

section \<open>Documents\<close>

definition chunk_identity :: "list_item \<Rightarrow> string" where
  "chunk_identity i = last_component (li_key i)"

text \<open>
  An item without identity is kept as it is; a tracked item takes the place of a discovered one with
  its identity.
\<close>

definition dedupe_step :: "list_item list \<Rightarrow> list_item \<Rightarrow> list_item list" where
  "dedupe_step kept item =
     (let i = chunk_identity item in
      if i = [] \<or> i \<notin> chunk_identity ` set kept then kept @ [item]
      else map (\<lambda>e. if chunk_identity e = i \<and> li_discovered e \<and> \<not> li_discovered item then item else e) kept)"

definition dedupe_semantic_chunks :: "list_item list \<Rightarrow> list_item list" where
  "dedupe_semantic_chunks items = foldl dedupe_step [] items"

definition document_identity :: "list_item \<Rightarrow> string" where
  "document_identity i =
     (case li_title i of
        PStr t \<Rightarrow> if t \<noteq> [] then ''title:'' @ t else ''chunk:'' @ chunk_identity i
      | _ \<Rightarrow> ''chunk:'' @ chunk_identity i)"

fun add_to_group ::
  "string \<Rightarrow> 'a \<Rightarrow> (string \<times> 'a list) list \<Rightarrow> (string \<times> 'a list) list" where
  "add_to_group k x [] = [(k, [x])]"
| "add_to_group k x ((k', xs) # gs) =
     (if k = k' then (k', xs @ [x]) # gs else (k', xs) # add_to_group k x gs)"

definition document_groups :: "list_item list \<Rightarrow> (string \<times> list_item list) list" where
  "document_groups items = foldl (\<lambda>gs i. add_to_group (document_identity i) i gs) [] items"

definition somes :: "'a option list \<Rightarrow> 'a list" where
  "somes xs = List.map_filter id xs"

definition document_of_chunks :: "list_item list \<Rightarrow> list_item" where
  "document_of_chunks chunks =
     (let representative = arg_min_list (\<lambda>c. (or_zero (li_created c), li_key c)) chunks;
          created = somes (map li_created chunks);
          modified = somes (map li_modified chunks);
          sizes = somes (map li_size chunks)
      in representative
           \<lparr>li_chunk_count := Some (length chunks),
            li_size := (if sizes \<noteq> [] then Some (sum_list sizes) else li_size representative),
            li_created := (if created \<noteq> [] then Some (Min (set created)) else li_created representative),
            li_modified := (if modified \<noteq> [] then Some (Max (set modified)) else li_modified representative)\<rparr>)"

definition group_semantic_chunks_by_document :: "list_item list \<Rightarrow> list_item list" where
  "group_semantic_chunks_by_document items = map (\<lambda>(_, chunks). document_of_chunks chunks) (document_groups items)"

text \<open>\<open>_filter_corpus_read_gate\<close> of the routes: the author's own rows, and the shared ones of a
collection the caller may read.\<close>

definition filter_corpus_read_gate :: "user_context \<Rightarrow> list_item list \<Rightarrow> list_item list" where
  "filter_corpus_read_gate user items =
     filter (\<lambda>i. li_tier i \<noteq> PStr ''corpus'' \<or> li_created_by i = PStr (uc_user_id user) \<or>
       has_corpus_scope user (takeWhile (\<lambda>c. c \<noteq> CHR ''/'') (li_key i)) ''read'') items"

definition semantic_list_view ::
  "user_context \<Rightarrow> bool \<Rightarrow> string \<Rightarrow> string \<Rightarrow> nat \<Rightarrow> nat \<Rightarrow> list_item list \<Rightarrow> list_item list \<times> nat \<times> nat \<times> nat" where
  "semantic_list_view user by_chunk srt order n offset items =
     (let chunk_items = dedupe_semantic_chunks (filter_corpus_read_gate user items);
          documents = group_semantic_chunks_by_document chunk_items;
          (page, total) = list_page srt order n offset (if by_chunk then chunk_items else documents)
      in (page, total, length documents, length chunk_items))"

end
