(* ===== verification/SemanticList.thy ===== *)
theory SemanticList
  imports ListView
begin

text \<open>
  The listing of semantic memory (\<open>src/audittrace/routes/memory.py\<close>: \<open>_discover_rows_for_caller\<close>,
  \<open>_merge_semantic_with_chroma\<close>, \<open>list_semantic\<close>): the manifest's entries and the rows found in the
  vector database, gated, without repetitions, by document or by chunk, sorted and cut.

  The names of the collections, and which of them cannot be read, are the database's answer. Opening
  a collection that does not exist creates an empty one, which the model does not tell apart.
\<close>

record list_env =
  le_collections :: "string list option"
  le_get_error :: "string \<Rightarrow> bool"

definition SEMANTIC_DISCOVERY_LIMIT :: nat where "SEMANTIC_DISCOVERY_LIMIT = 200"

fun unlisted :: "string list \<Rightarrow> vstore \<Rightarrow> vstore" where
  "unlisted ids [] = []"
| "unlisted ids (r # rs) = (if fst r \<in> set ids then unlisted ids rs else r # unlisted (fst r # ids) rs)"

definition discover_rows_for_caller :: "vstore \<Rightarrow> user_context \<Rightarrow> vstore" where
  "discover_rows_for_caller col user =
     (if uc_is_admin user then take SEMANTIC_DISCOVERY_LIMIT col
      else unlisted [] (take SEMANTIC_DISCOVERY_LIMIT (where_rows (Some (uc_user_id user)) col) @
                      take SEMANTIC_DISCOVERY_LIMIT col))"

definition may_discover :: "user_context \<Rightarrow> metadata \<Rightarrow> bool" where
  "may_discover user meta \<longleftrightarrow>
     uc_is_admin user \<or> map_of meta ''tier'' = Some (PStr ''corpus'') \<or>
     map_of meta ''user_id'' = Some (PStr (uc_user_id user))"

definition discovered_item :: "string \<Rightarrow> row \<Rightarrow> list_item" where
  "discovered_item key r =
     (case r of (cid, content, meta) \<Rightarrow>
        \<lparr>li_entry = None, li_key = key,
         li_title = (if truthy (field meta ''title'') then field meta ''title''
                     else if truthy (field meta ''source'') then field meta ''source'' else PStr cid),
         li_size = Some (utf8_length content), li_created = None, li_modified = None,
         li_created_by = field meta ''user_id'', li_deleted_at = None, li_discovered = True,
         li_tier = (case map_of meta ''tier'' of None \<Rightarrow> PStr ''corpus'' | Some t \<Rightarrow> t),
         li_chunk_count = None\<rparr>)"

text \<open>The key of a discovered row carries the name of the physical collection.\<close>

definition discovered_key :: "string \<Rightarrow> row \<Rightarrow> string" where
  "discovered_key col_name r =
     (case r of (cid, _, meta) \<Rightarrow> col_name @ ''/'' @ logical_id cid (new_form_owner (Some meta)))"

definition discovered_in :: "list_env \<Rightarrow> collections \<Rightarrow> string set \<Rightarrow> user_context \<Rightarrow> string \<Rightarrow> list_item list" where
  "discovered_in le cols known user col_name =
     (if le_get_error le col_name then []
      else map (\<lambda>r. discovered_item (discovered_key col_name r) r)
             (filter (\<lambda>r. discovered_key col_name r \<notin> known \<and> may_discover user (snd (snd r)))
               (discover_rows_for_caller (cols col_name) user)))"

definition list_targets :: "list_env \<Rightarrow> string option \<Rightarrow> string list" where
  "list_targets le collection =
     (case collection of
        Some c \<Rightarrow> [physical c]
      | None \<Rightarrow> (case le_collections le of None \<Rightarrow> [] | Some names \<Rightarrow> take 5 names))"

definition merge_semantic_with_chroma ::
  "list_env \<Rightarrow> route_state \<Rightarrow> manifest_entry list \<Rightarrow> string option \<Rightarrow> user_context
    \<Rightarrow> (manifest_error, list_item list) res" where
  "merge_semantic_with_chroma le st visible_entries collection user =
     res_bind (list_for_layer (rt_table st) ''semantic'' True (Some user)) (\<lambda>all_known.
       Inr (entries_to_dicts visible_entries @
            concat (map (discovered_in le (rt_cols st) (entry_keys all_known) user) (list_targets le collection))))"

record list_answer =
  la_items :: "list_item list"
  la_total :: nat
  la_documents :: nat
  la_chunks :: nat

record list_query =
  lq_collection :: "string option"
  lq_deleted :: bool
  lq_sort :: string
  lq_order :: string
  lq_limit :: nat
  lq_offset :: nat
  lq_by_chunk :: bool

definition listed_items ::
  "list_env \<Rightarrow> user_context \<Rightarrow> list_query \<Rightarrow> route_state \<Rightarrow> (manifest_error, list_item list) res" where
  "listed_items le user q st =
     res_bind (list_for_layer (rt_table st) ''semantic'' (lq_deleted q) (Some user)) (\<lambda>entries.
       merge_semantic_with_chroma le st
         (case lq_collection q of None \<Rightarrow> entries | Some c \<Rightarrow> entries_with_prefix entries (c @ ''/''))
         (lq_collection q) user)"

definition list_semantic ::
  "list_env \<Rightarrow> user_context \<Rightarrow> list_query \<Rightarrow> route_state \<Rightarrow> (manifest_error, list_answer) res" where
  "list_semantic le user q st =
     res_bind (listed_items le user q st) (\<lambda>items.
       case semantic_list_view user (lq_by_chunk q) (lq_sort q) (lq_order q) (lq_limit q) (lq_offset q) items of
         (page, n, documents, chunks) \<Rightarrow>
           Inr \<lparr>la_items = page, la_total = n, la_documents = documents, la_chunks = chunks\<rparr>)"

end
