(* ===== verification/ListProps.thy ===== *)
theory ListProps
  imports ListView SemanticProps
begin

text \<open>
  The views of a listing against reference definitions: one item per chunk identity, one document per
  document identity, and the pages of a sorted list.
\<close>

section \<open>First occurrences\<close>

text \<open>\<open>firsts xs\<close> lists the members of \<open>xs\<close> in the order in which they first occur.\<close>

definition firsts :: "'a list \<Rightarrow> 'a list" where
  "firsts xs = rev (remdups (rev xs))"

lemma firsts_Nil [simp]: "firsts [] = []"
  by (simp add: firsts_def)

lemma firsts_snoc [simp]: "firsts (xs @ [x]) = (if x \<in> set xs then firsts xs else firsts xs @ [x])"
  by (simp add: firsts_def)

lemma set_firsts [simp]: "set (firsts xs) = set xs" and distinct_firsts [simp]: "distinct (firsts xs)"
  by (simp_all add: firsts_def)

section \<open>One item per chunk\<close>

text \<open>The first tracked item of an identity, or else the first one.\<close>

definition pick :: "list_item list \<Rightarrow> string \<Rightarrow> list_item" where
  "pick items i =
     hd (filter (\<lambda>x. chunk_identity x = i \<and> \<not> li_discovered x) items @ filter (\<lambda>x. chunk_identity x = i) items)"

definition one_per_identity :: "list_item list \<Rightarrow> list_item list" where
  "one_per_identity items = map (pick items) (firsts (map chunk_identity items))"

lemma pick_in:
  assumes "i \<in> chunk_identity ` set items"
  shows "pick items i \<in> set items \<and> chunk_identity (pick items i) = i"
proof -
  let ?xs = "filter (\<lambda>x. chunk_identity x = i \<and> \<not> li_discovered x) items @ filter (\<lambda>x. chunk_identity x = i) items"
  have "?xs \<noteq> []" using assms by (auto simp: filter_empty_conv)
  then have "hd ?xs \<in> set ?xs" by (rule hd_in_set)
  then show ?thesis by (auto simp: pick_def)
qed

lemma pick_discovered:
  "i \<in> chunk_identity ` set items \<Longrightarrow>
     li_discovered (pick items i) \<longleftrightarrow> (\<forall>x \<in> set items. chunk_identity x = i \<longrightarrow> li_discovered x)"
proof -
  assume i: "i \<in> chunk_identity ` set items"
  show ?thesis
  proof (cases "filter (\<lambda>x. chunk_identity x = i \<and> \<not> li_discovered x) items")
    case Nil
    then have "\<forall>x \<in> set items. chunk_identity x = i \<longrightarrow> li_discovered x" by (auto simp: filter_empty_conv)
    then show ?thesis using pick_in [OF i] by blast
  next
    case (Cons y ys)
    then have "pick items i = y" by (simp add: pick_def)
    moreover have "y \<in> set (filter (\<lambda>x. chunk_identity x = i \<and> \<not> li_discovered x) items)" by (simp add: Cons)
    ultimately show ?thesis by auto
  qed
qed

lemma pick_snoc:
  "pick (items @ [x]) i =
     (if chunk_identity x \<noteq> i then pick items i
      else if i \<notin> chunk_identity ` set items then x
      else if li_discovered (pick items i) \<and> \<not> li_discovered x then x else pick items i)"
proof (cases "i \<in> chunk_identity ` set items")
  case True
  then have ne: "filter (\<lambda>x. chunk_identity x = i) items \<noteq> []" by (auto simp: filter_empty_conv)
  show ?thesis
  proof (cases "filter (\<lambda>x. chunk_identity x = i \<and> \<not> li_discovered x) items")
    case Nil
    then have "li_discovered (pick items i)"
      using pick_discovered [OF True] by (auto simp: filter_empty_conv)
    then show ?thesis using True Nil ne by (auto simp: pick_def)
  next
    case (Cons y ys)
    have "y \<in> set (filter (\<lambda>x. chunk_identity x = i \<and> \<not> li_discovered x) items)" unfolding Cons by simp
    then have "\<not> li_discovered y" unfolding set_filter by blast
    then have "\<not> li_discovered (pick items i)" by (simp add: pick_def Cons)
    then show ?thesis using True Cons by (simp add: pick_def)
  qed
next
  case False
  then have "filter (\<lambda>x. chunk_identity x = i) items = []"
    "filter (\<lambda>x. chunk_identity x = i \<and> \<not> li_discovered x) items = []" by (auto simp: filter_empty_conv)
  then show ?thesis using False by (simp add: pick_def)
qed

lemma one_per_identity_identities: "map chunk_identity (one_per_identity items) = firsts (map chunk_identity items)"
  unfolding one_per_identity_def map_map by (rule map_idI) (simp add: pick_in)

lemma set_one_per_identity: "chunk_identity ` set (one_per_identity items) = chunk_identity ` set items"
  using arg_cong [OF one_per_identity_identities [of items], of set] by simp

lemma dedupe_reference:
  assumes "[] \<notin> chunk_identity ` set items"
  shows "dedupe_semantic_chunks items = one_per_identity items"
  using assms
proof (induction items rule: rev_induct)
  case (snoc x items)
  note ids = set_one_per_identity [of items]
  have step: "dedupe_semantic_chunks (items @ [x]) = dedupe_step (one_per_identity items) x"
    using snoc by (simp add: dedupe_semantic_chunks_def)
  have ne: "chunk_identity x \<noteq> []" using snoc.prems by auto
  show ?case
  proof (cases "chunk_identity x \<in> chunk_identity ` set items")
    case False
    then have "map (pick (items @ [x])) (firsts (map chunk_identity items)) = map (pick items) (firsts (map chunk_identity items))"
      by (auto simp: pick_snoc)
    then show ?thesis using False ids ne step
      by (simp add: dedupe_step_def one_per_identity_def pick_snoc)
  next
    case True
    then show ?thesis using ids ne step pick_in [of _ items]
      by (auto simp: dedupe_step_def one_per_identity_def pick_snoc)
  qed
qed (simp add: dedupe_semantic_chunks_def one_per_identity_def)

text \<open>Whatever the identities, the deduplicated items are items of the listing.\<close>

lemma dedupe_subset: "set (dedupe_semantic_chunks items) \<subseteq> set items"
proof (induction items rule: rev_induct)
  case (snoc x items)
  then show ?case by (auto simp: dedupe_semantic_chunks_def dedupe_step_def Let_def)
qed (simp add: dedupe_semantic_chunks_def)

lemma dedupe_step_identities: "chunk_identity ` set (dedupe_step kept x) = insert (chunk_identity x) (chunk_identity ` set kept)"
proof -
  have "chunk_identity (if chunk_identity e = chunk_identity x \<and> c e then x else e) = chunk_identity e" for e c
    by simp
  then have "chunk_identity ` set (map (\<lambda>e. if chunk_identity e = chunk_identity x \<and> c e then x else e) kept) =
      chunk_identity ` set kept" for c
    by (simp only: set_map image_image)
  note same = this [of "\<lambda>e. li_discovered e \<and> \<not> li_discovered x"]
  show ?thesis
  proof (cases "chunk_identity x = [] \<or> chunk_identity x \<notin> chunk_identity ` set kept")
    case True
    then show ?thesis by (auto simp: dedupe_step_def Let_def)
  next
    case False
    then have "chunk_identity x \<in> chunk_identity ` set kept" by blast
    then show ?thesis using same False unfolding dedupe_step_def Let_def by (simp only: if_False insert_absorb)
  qed
qed

lemma dedupe_keeps_identity:
  "chunk_identity ` set (dedupe_semantic_chunks items) = chunk_identity ` set items"
  by (induction items rule: rev_induct) (simp_all add: dedupe_semantic_chunks_def dedupe_step_identities)

section \<open>One document per title\<close>

lemma filter_no_image: "y \<notin> f ` set xs \<Longrightarrow> filter (\<lambda>x. f x = y) xs = []"
  by (induction xs) auto

lemma add_to_group_map:
  "distinct ks \<Longrightarrow> add_to_group k x (map (\<lambda>i. (i, f i)) ks) =
     map (\<lambda>i. (i, (if k \<in> set ks then f else f(k := [])) i @ (if i = k then [x] else []))) (if k \<in> set ks then ks else ks @ [k])"
  by (induction ks) auto

lemma document_groups_reference:
  "document_groups items =
     map (\<lambda>i. (i, filter (\<lambda>x. document_identity x = i) items)) (firsts (map document_identity items))"
proof (induction items rule: rev_induct)
  case (snoc x items)
  let ?f = "\<lambda>i. filter (\<lambda>x. document_identity x = i) items"
  have step: "document_groups (items @ [x]) =
      add_to_group (document_identity x) x (map (\<lambda>i. (i, ?f i)) (firsts (map document_identity items)))"
    using snoc by (simp add: document_groups_def)
  have none: "?f (document_identity x) = []" if "document_identity x \<notin> document_identity ` set items"
    using that by (rule filter_no_image)
  show ?case
    using none unfolding step add_to_group_map [OF distinct_firsts, of "document_identity x" x ?f]
    by (auto simp: map_eq_conv)
qed (simp add: document_groups_def)

text \<open>The documents of a list are an aggregate per document identity, in order of first occurrence.\<close>

definition chunks_of_document :: "list_item list \<Rightarrow> string \<Rightarrow> list_item list" where
  "chunks_of_document items i = filter (\<lambda>x. document_identity x = i) items"

lemma group_reference:
  "group_semantic_chunks_by_document items =
     map (\<lambda>i. document_of_chunks (chunks_of_document items i)) (firsts (map document_identity items))"
  by (simp add: group_semantic_chunks_by_document_def document_groups_reference chunks_of_document_def o_def)

lemma sum_list_somes: "sum_list (somes xs) = sum_list (map or_zero xs)"
  by (induction xs) (simp_all add: somes_def or_zero_def split: option.split)

lemma document_fields:
  assumes "cs \<noteq> []"
  obtains c where "c \<in> set cs" "li_key (document_of_chunks cs) = li_key c" "li_title (document_of_chunks cs) = li_title c"
    "li_tier (document_of_chunks cs) = li_tier c" "li_created_by (document_of_chunks cs) = li_created_by c"
    "document_identity (document_of_chunks cs) = document_identity c"
    "li_chunk_count (document_of_chunks cs) = Some (length cs)"
    "or_zero (li_size (document_of_chunks cs)) = sum_list (map (\<lambda>c. or_zero (li_size c)) cs)"
proof -
  let ?c = "arg_min_list (\<lambda>c. (or_zero (li_created c), li_key c)) cs"
  have c: "?c \<in> set cs" using assms by (rule arg_min_list_in)
  have "or_zero (li_size (document_of_chunks cs)) = sum_list (map (\<lambda>c. or_zero (li_size c)) cs)"
  proof (cases "somes (map li_size cs) = []")
    case True
    then have "\<forall>c \<in> set cs. li_size c = None" by (auto simp: somes_def List.map_filter_def filter_empty_conv)
    moreover from this have "sum_list (map (\<lambda>c. or_zero (li_size c)) cs) = sum_list (map (\<lambda>_. 0) cs)"
      by (intro arg_cong [where f = sum_list] map_cong) (simp_all add: or_zero_def)
    ultimately have "sum_list (map (\<lambda>c. or_zero (li_size c)) cs) = 0" "li_size ?c = None" using c by simp_all
    then show ?thesis using True by (simp add: document_of_chunks_def Let_def or_zero_def)
  next
    case False
    then show ?thesis by (simp add: document_of_chunks_def Let_def or_zero_def sum_list_somes [unfolded or_zero_def] o_def)
  qed
  moreover have same: "li_key (document_of_chunks cs) = li_key ?c" "li_title (document_of_chunks cs) = li_title ?c"
    "li_tier (document_of_chunks cs) = li_tier ?c" "li_created_by (document_of_chunks cs) = li_created_by ?c"
    "li_chunk_count (document_of_chunks cs) = Some (length cs)"
    by (simp_all add: document_of_chunks_def Let_def)
  moreover have "document_identity (document_of_chunks cs) = document_identity ?c"
    unfolding document_identity_def chunk_identity_def same ..
  ultimately show thesis using that [OF c] by blast
qed

lemma group_member:
  assumes "x \<in> set (group_semantic_chunks_by_document items)"
  obtains c where "c \<in> set items" "li_key x = li_key c" "li_tier x = li_tier c" "li_created_by x = li_created_by c"
proof -
  obtain i where i: "i \<in> document_identity ` set items" "x = document_of_chunks (chunks_of_document items i)"
    using assms by (auto simp: group_reference)
  then have "chunks_of_document items i \<noteq> []" by (auto simp: chunks_of_document_def filter_empty_conv)
  from document_fields [OF this] obtain c where "c \<in> set (chunks_of_document items i)" "li_key x = li_key c"
    "li_tier x = li_tier c" "li_created_by x = li_created_by c" using i(2) by metis
  then show thesis by (intro that [of c]) (simp_all add: chunks_of_document_def)
qed

lemma group_identities:
  "map document_identity (group_semantic_chunks_by_document items) = firsts (map document_identity items)"
proof -
  have "document_identity (document_of_chunks (chunks_of_document items i)) = i" if "i \<in> document_identity ` set items" for i
  proof -
    have "chunks_of_document items i \<noteq> []" using that by (auto simp: chunks_of_document_def filter_empty_conv)
    from document_fields [OF this] show ?thesis by (metis (mono_tags) chunks_of_document_def mem_Collect_eq set_filter)
  qed
  then show ?thesis unfolding group_reference map_map by (intro map_idI) simp
qed

text \<open>A sum over the groups is a sum over the list.\<close>

lemma sum_over_groups:
  fixes g :: "'a \<Rightarrow> 'n::comm_monoid_add"
  shows "sum_list (map (\<lambda>i. sum_list (map g (filter (\<lambda>x. f x = i) xs))) (firsts (map f xs))) = sum_list (map g xs)"
proof (induction xs rule: rev_induct)
  case (snoc x xs)
  let ?s = "\<lambda>i. sum_list (map g (filter (\<lambda>x. f x = i) xs))"
  have none: "?s (f x) = 0" if "f x \<notin> f ` set xs"
    using filter_no_image [OF that] by simp
  have "sum_list (map (\<lambda>i. ?s i + (if f x = i then g x else 0)) ks) = sum_list (map ?s ks) + (if f x \<in> set ks then g x else 0)"
    if "distinct ks" for ks
    using that by (induction ks) (auto simp: ac_simps)
  from this [of "firsts (map f (xs @ [x]))"] snoc none show ?case
    by (auto simp: if_distrib [of "map g"] if_distrib [of sum_list] if_distrib [of "(+) _"] cong: if_cong)
qed simp

lemma group_counts:
  "sum_list (map (\<lambda>d. the (li_chunk_count d)) (group_semantic_chunks_by_document items)) = length items"
  "sum_list (map (\<lambda>d. or_zero (li_size d)) (group_semantic_chunks_by_document items)) =
     sum_list (map (\<lambda>i. or_zero (li_size i)) items)"
proof -
  have doc: "the (li_chunk_count (document_of_chunks (chunks_of_document items i))) =
        sum_list (map (\<lambda>_. 1) (filter (\<lambda>x. document_identity x = i) items)) \<and>
      or_zero (li_size (document_of_chunks (chunks_of_document items i))) =
        sum_list (map (\<lambda>i. or_zero (li_size i)) (filter (\<lambda>x. document_identity x = i) items))"
    if "i \<in> document_identity ` set items" for i
  proof -
    have "chunks_of_document items i \<noteq> []" using that by (auto simp: chunks_of_document_def filter_empty_conv)
    from document_fields [OF this] show ?thesis by (metis chunks_of_document_def option.sel sum_list_triv map_replicate_const sum_list_replicate mult.right_neutral of_nat_id)
  qed
  then have "map (\<lambda>d. the (li_chunk_count d)) (group_semantic_chunks_by_document items) =
      map (\<lambda>i. sum_list (map (\<lambda>_. 1) (filter (\<lambda>x. document_identity x = i) items))) (firsts (map document_identity items))"
    "map (\<lambda>d. or_zero (li_size d)) (group_semantic_chunks_by_document items) =
      map (\<lambda>i. sum_list (map (\<lambda>i. or_zero (li_size i)) (filter (\<lambda>x. document_identity x = i) items))) (firsts (map document_identity items))"
    by (simp_all add: group_reference)
  then show "sum_list (map (\<lambda>d. the (li_chunk_count d)) (group_semantic_chunks_by_document items)) = length items"
    "sum_list (map (\<lambda>d. or_zero (li_size d)) (group_semantic_chunks_by_document items)) =
       sum_list (map (\<lambda>i. or_zero (li_size i)) items)"
    by (simp_all only: sum_over_groups) (simp add: sum_list_triv)
qed

section \<open>Pages\<close>

lemma list_page_eq:
  obtains R where "mset R = mset items" "\<And>n off. list_page srt order n off items = (take n (drop off R), length items)"
proof -
  define R where "R = (if srt = ''key'' then ordered_by li_key li_key (order \<noteq> ''asc'') items
    else ordered_by (\<lambda>i. or_zero (if srt = ''size'' then li_size i else if srt = ''modified_at'' then li_modified i
                             else li_created i)) li_key (order \<noteq> ''asc'') items)"
  have p: "mset R = mset items" by (auto simp: R_def ordered_by_def sort_desc_def Let_def)
  then have "length R = length items" by (metis size_mset)
  then have "list_page srt order n off items = (take n (drop off R), length items)" for n off
    by (auto simp: R_def list_page_def sort_and_paginate_def)
  with that p show thesis by blast
qed

lemma all_pages:
  assumes "1 \<le> n"
  shows "\<exists>m. mset (concat (map (\<lambda>i. fst (list_page srt order n (i * n) items)) [0..<m])) = mset items"
proof -
  obtain R where R: "mset R = mset items" "\<And>n off. list_page srt order n off items = (take n (drop off R), length items)"
    by (rule list_page_eq [of items srt order]) blast
  have "length R \<le> length R * n" using assms by simp
  then have "concat (map (\<lambda>i. fst (list_page srt order n (i * n) items)) [0..<length R]) = R"
    by (simp add: R(2) concat_slices)
  with R(1) show ?thesis by metis
qed

end
