(* ===== verification/SemanticListProps.thy ===== *)
theory SemanticListProps
  imports SemanticList ListProps SemanticRouteProps
begin

text \<open>
  Properties of the listing of semantic memory: what a caller may see of it, what others can change
  of it, that its pages cover every document once, and that a deleted document stays in it.
\<close>

section \<open>What a listing shows\<close>

lemma list_semantic_Inr:
  assumes "list_semantic le user q st = Inr a"
  obtains items where "listed_items le user q st = Inr items"
    "(la_items a, la_total a, la_documents a, la_chunks a) =
       semantic_list_view user (lq_by_chunk q) (lq_sort q) (lq_order q) (lq_limit q) (lq_offset q) items"
  using assms unfolding list_semantic_def res_bind_Inr_iff by (fastforce split: prod.splits)

lemma list_semantic_total: "\<exists>a. list_semantic le user q st = Inr a"
  by (auto simp: list_semantic_def listed_items_def merge_semantic_with_chroma_def list_for_layer_def
      validate_layer_def valid_layers_def Let_def split: prod.split)

lemma view_member:
  assumes "semantic_list_view user by_chunk srt order n off items = (page, rest)" and "x \<in> set page"
  obtains c where "c \<in> set (filter_corpus_read_gate user items)" "li_key x = li_key c" "li_tier x = li_tier c"
    "li_created_by x = li_created_by c"
proof -
  let ?chunks = "dedupe_semantic_chunks (filter_corpus_read_gate user items)"
  let ?view = "if by_chunk then ?chunks else group_semantic_chunks_by_document ?chunks"
  obtain R where R: "mset R = mset ?view" "\<And>n off. list_page srt order n off ?view = (take n (drop off R), length ?view)"
    by (rule list_page_eq [of ?view srt order]) blast
  have "page = take n (drop off R)" using assms(1) R(2) [of n off]
    by (cases "list_page srt order n off ?view") (simp add: semantic_list_view_def Let_def)
  then have "x \<in> set R" using assms(2) by (metis in_set_dropD in_set_takeD)
  then have x: "x \<in> set ?view" using R(1) by (metis mset_eq_setD)
  obtain c where c: "c \<in> set ?chunks" "li_key x = li_key c" "li_tier x = li_tier c" "li_created_by x = li_created_by c"
  proof (cases by_chunk)
    case True
    with x that [of x] show thesis by simp
  next
    case False
    with x have "x \<in> set (group_semantic_chunks_by_document ?chunks)" by simp
    from group_member [OF this] that show thesis by blast
  qed
  from c(1) dedupe_subset [of "filter_corpus_read_gate user items"] have "c \<in> set (filter_corpus_read_gate user items)" by blast
  with c that show thesis by blast
qed

lemma listed_member:
  assumes "listed_items le user q st = Inr items" and "i \<in> set items"
  obtains
    (tracked) es e where "list_for_layer (rt_table st) ''semantic'' (lq_deleted q) (Some user) = Inr es" "e \<in> set es"
      "i = tracked_item e"
  | (discovered) name r where "i = discovered_item (discovered_key name r) r" "may_discover user (snd (snd r))"
      "r \<in> set (discover_rows_for_caller (rt_cols st name) user)"
proof -
  obtain es known where es: "list_for_layer (rt_table st) ''semantic'' (lq_deleted q) (Some user) = Inr es"
    and items: "items = entries_to_dicts (case lq_collection q of None \<Rightarrow> es | Some c \<Rightarrow> entries_with_prefix es (c @ ''/'')) @
      concat (map (discovered_in le (rt_cols st) (entry_keys known) user) (list_targets le (lq_collection q)))"
    using assms(1) by (auto simp: listed_items_def merge_semantic_with_chroma_def res_bind_Inr_iff)
  consider e where "e \<in> set es" "i = tracked_item e"
    | name where "i \<in> set (discovered_in le (rt_cols st) (entry_keys known) user name)"
    using assms(2) unfolding items by (auto simp: entries_to_dicts_def entries_with_prefix_def split: option.splits)
  then show thesis
  proof cases
    case 1
    with es tracked show thesis by blast
  next
    case 2
    then obtain r where "i = discovered_item (discovered_key name r) r" "may_discover user (snd (snd r))"
      "r \<in> set (discover_rows_for_caller (rt_cols st name) user)"
      by (auto simp: discovered_in_def split: if_splits)
    with discovered show thesis by blast
  qed
qed

text \<open>
  C28: every item on every page of a listing is the caller's own, or is shared and of a collection the
  caller holds the read grant of: another user's private document is never listed to anyone but an
  administrator, by chunk or by document, with any sorting.
\<close>

theorem listed_authorized:
  assumes "list_semantic le user q st = Inr a" and "x \<in> set (la_items a)" and "\<not> uc_is_admin user"
  shows "li_created_by x = PStr (uc_user_id user) \<or>
    li_tier x = PStr ''corpus'' \<and> has_corpus_scope user (takeWhile (\<lambda>c. c \<noteq> CHR ''/'') (li_key x)) ''read''"
proof -
  obtain items where items: "listed_items le user q st = Inr items"
    and view: "(la_items a, la_total a, la_documents a, la_chunks a) =
       semantic_list_view user (lq_by_chunk q) (lq_sort q) (lq_order q) (lq_limit q) (lq_offset q) items"
    using list_semantic_Inr [OF assms(1)] by blast
  obtain c where c: "c \<in> set (filter_corpus_read_gate user items)" "li_key x = li_key c" "li_tier x = li_tier c"
    "li_created_by x = li_created_by c"
    using view_member [OF view [symmetric] assms(2)] by blast
  have own: "li_created_by i = PStr (uc_user_id user)" if i: "i \<in> set items" "li_tier i \<noteq> PStr ''corpus''" for i
  proof -
    show ?thesis using items i(1)
    proof (cases rule: listed_member)
      case (tracked es e)
      then show ?thesis using i assms(3)
        by (auto simp: list_for_layer_def res_bind_Inr_iff rows_to_entries_def entry_visible_def Let_def tracked_item_def)
    next
      case (discovered name r)
      then show ?thesis using i assms(3)
        by (auto simp: discovered_item_def may_discover_def field_def split: prod.splits option.splits)
    qed
  qed
  show ?thesis
    using c own [of c] by (auto simp: filter_corpus_read_gate_def)
qed

section \<open>Documents and pages\<close>

lemma sum_list_mset: "mset xs = mset ys \<Longrightarrow> sum_list (map f xs) = sum_list (map f ys)"
  for f :: "'a \<Rightarrow> 'b::comm_monoid_add"
  by (metis mset_map sum_mset_sum_list)


section \<open>Whom a listing depends on\<close>

lemma unlisted_prefix:
  "distinct (map fst xs) \<Longrightarrow> fst ` set xs \<inter> set ids = {} \<Longrightarrow>
     unlisted ids (xs @ ys) = xs @ unlisted (rev (map fst xs) @ ids) ys"
  by (induction xs arbitrary: ids) auto

lemma unlisted_filter:
  "distinct (map fst ys) \<Longrightarrow> unlisted ids ys = filter (\<lambda>r. fst r \<notin> set ids) ys"
proof (induction ys arbitrary: ids)
  case (Cons r ys)
  have "filter (\<lambda>x. fst x \<notin> insert (fst r) (set ids)) ys = filter (\<lambda>x. fst x \<notin> set ids) ys"
  proof (intro filter_cong refl)
    fix x assume "x \<in> set ys"
    then have "fst x \<noteq> fst r" using Cons.prems by (metis distinct.simps(2) image_eqI list.simps(9) set_map)
    then show "(fst x \<notin> insert (fst r) (set ids)) = (fst x \<notin> set ids)" by simp
  qed
  then show ?case using Cons by simp
qed simp

lemma unlisted_own_first:
  assumes "distinct (map fst rows)"
  shows "unlisted [] (filter P rows @ rows) = filter P rows @ filter (\<lambda>r. \<not> P r) rows"
proof -
  have d: "distinct (map fst (filter P rows))" using assms by (rule distinct_map_filter)
  have "filter (\<lambda>r. fst r \<notin> set (rev (map fst (filter P rows)) @ [])) rows = filter (\<lambda>r. \<not> P r) rows"
  proof (rule filter_cong [OF refl])
    fix r assume r: "r \<in> set rows"
    then have "r = x" if "x \<in> set rows" "fst x = fst r" for x
      using assms that by (metis eq_key_imp_eq_value prod.collapse)
    with r show "(fst r \<notin> set (rev (map fst (filter P rows)) @ [])) = (\<not> P r)" by force
  qed
  then show ?thesis
    using unlisted_prefix [OF d, of "[]" rows] unlisted_filter [OF assms, of "rev (map fst (filter P rows)) @ []"] by simp
qed

definition own_row :: "user_context \<Rightarrow> row \<Rightarrow> bool" where
  "own_row user r \<longleftrightarrow> map_of (snd (snd r)) ''user_id'' = Some (PStr (uc_user_id user))"

lemma where_own: "where_rows (Some (uc_user_id user)) rows = filter (own_row user) rows"
  by (auto simp: where_rows_def own_row_def intro: filter_cong)

lemma discover_all:
  assumes "\<not> uc_is_admin user" and "length rows \<le> SEMANTIC_DISCOVERY_LIMIT" and "distinct (map fst rows)"
  shows "discover_rows_for_caller rows user = filter (own_row user) rows @ filter (\<lambda>r. \<not> own_row user r) rows"
proof -
  have "length (filter (own_row user) rows) \<le> SEMANTIC_DISCOVERY_LIMIT"
    using assms(2) length_filter_le [of "own_row user" rows] by linarith
  then show ?thesis
    using assms by (simp add: discover_rows_for_caller_def where_own unlisted_own_first)
qed

lemma discovered_visible:
  assumes "\<not> uc_is_admin user" and "length rows \<le> SEMANTIC_DISCOVERY_LIMIT" and "distinct (map fst rows)"
  shows "filter (\<lambda>r. k r \<and> may_discover user (snd (snd r))) (discover_rows_for_caller rows user) =
    (let visible = filter (\<lambda>r. may_discover user (snd (snd r))) rows in
     filter (\<lambda>r. k r \<and> own_row user r) visible @ filter (\<lambda>r. k r \<and> \<not> own_row user r) visible)"
  unfolding discover_all [OF assms] Let_def filter_append filter_filter
  by (intro arg_cong2 [where f = "(@)"] filter_cong) auto

text \<open>What two states have in common for a caller: the manifest rows and the chunks it may see.\<close>

definition same_listing :: "list_env \<Rightarrow> user_context \<Rightarrow> string option \<Rightarrow> route_state \<Rightarrow> route_state \<Rightarrow> bool" where
  "same_listing le user collection s s' \<longleftrightarrow>
     view (uc_user_id user) (rt_table s) = view (uc_user_id user) (rt_table s') \<and>
     (\<forall>c \<in> set (list_targets le collection).
        filter (\<lambda>r. may_discover user (snd (snd r))) (rt_cols s c) = filter (\<lambda>r. may_discover user (snd (snd r))) (rt_cols s' c))"

definition within_cap :: "list_env \<Rightarrow> string option \<Rightarrow> route_state \<Rightarrow> bool" where
  "within_cap le collection s \<longleftrightarrow>
     (\<forall>c \<in> set (list_targets le collection).
        length (rt_cols s c) \<le> SEMANTIC_DISCOVERY_LIMIT \<and> distinct (map fst (rt_cols s c)))"

text \<open>
  A caller without the admin flag gets the same listing from any two states that agree on the
  manifest rows and the chunks the caller may see, as long as no collection read is larger than
  the cap on discovery: beyond it other users' chunks can push shared ones out.
\<close>

lemma listing_isolation:
  assumes "\<not> uc_is_admin user" and "same_listing le user (lq_collection q) s s'"
    and "within_cap le (lq_collection q) s" and "within_cap le (lq_collection q) s'"
  shows "list_semantic le user q s = list_semantic le user q s'"
proof -
  have tables: "list_for_layer (rt_table s) layer incl (Some user) = list_for_layer (rt_table s') layer incl (Some user)" for layer incl
    by (rule list_isolation) (use assms in \<open>simp_all add: same_listing_def\<close>)
  have found: "discovered_in le (rt_cols s) known user c = discovered_in le (rt_cols s') known user c"
    if "c \<in> set (list_targets le (lq_collection q))" for known c
    using that assms unfolding discovered_in_def same_listing_def within_cap_def
    by (simp add: discovered_visible [OF assms(1)])
  have "listed_items le user q s = listed_items le user q s'"
    unfolding listed_items_def merge_semantic_with_chroma_def tables using found by (simp cong: map_cong)
  then show ?thesis by (simp add: list_semantic_def)
qed

section \<open>Deleted documents\<close>

lemma own_row_listed:
  assumes items: "listed_items le user q st = Inr items"
    and row: "r \<in> set (rt_cols st c)" "own_row user r"
    and target: "c \<in> set (list_targets le (lq_collection q))" "\<not> le_get_error le c"
    and few: "length (where_rows (Some (uc_user_id user)) (rt_cols st c)) \<le> SEMANTIC_DISCOVERY_LIMIT"
    and ids: "distinct (map fst (rt_cols st c))" and user: "\<not> uc_is_admin user"
    and new: "\<And>known. list_for_layer (rt_table st) ''semantic'' True (Some user) = Inr known \<Longrightarrow>
      discovered_key c r \<notin> entry_keys known"
  shows "discovered_item (discovered_key c r) r \<in> set items"
proof -
  let ?own = "filter (own_row user) (rt_cols st c)"
  have "take SEMANTIC_DISCOVERY_LIMIT ?own = ?own" using few by (simp add: where_own)
  moreover have "distinct (map fst ?own)" using ids by (rule distinct_map_filter)
  ultimately have "r \<in> set (discover_rows_for_caller (rt_cols st c) user)"
    using row user unlisted_prefix [of ?own "[]"] by (simp add: discover_rows_for_caller_def where_own)
  moreover have "may_discover user (snd (snd r))" using row(2) by (simp add: may_discover_def own_row_def)
  ultimately have found: "discovered_item (discovered_key c r) r \<in> set (discovered_in le (rt_cols st) (entry_keys known) user c)"
    if "list_for_layer (rt_table st) ''semantic'' True (Some user) = Inr known" for known
    using target(2) new [OF that] by (auto simp: discovered_in_def)
  obtain es known where known: "list_for_layer (rt_table st) ''semantic'' True (Some user) = Inr known"
    and "items = es @ concat (map (discovered_in le (rt_cols st) (entry_keys known) user) (list_targets le (lq_collection q)))"
    using items by (auto simp: listed_items_def merge_semantic_with_chroma_def res_bind_Inr_iff)
  then show ?thesis using found [OF known] target(1) by auto
qed

text \<open>
  A private document that was deleted stays in its author's listing: its chunk is found again in
  the vector database, because the keys of the manifest carry the collection's name and the keys
  of discovered chunks that of its physical collection, so the tombstone never covers it.
\<close>

lemma deleted_still_listed:
  assumes "delete_semantic env user c d False st = (Inr en, st')"
    and "owner_id_of user d = Some i" and "(i, t, m) \<in> set (rt_cols st (physical c))"
    and "new_form_owner (Some m) = Some (uc_user_id user)" and "\<not> uc_is_admin user" and "CHR ''/'' \<notin> set d"
    and "distinct (map fst (rt_cols st (physical c)))" and "\<not> le_get_error le (physical c)"
    and "length (where_rows (Some (uc_user_id user)) (rt_cols st (physical c))) \<le> SEMANTIC_DISCOVERY_LIMIT"
    and "list_for_layer (rt_table st') ''semantic'' True (Some user) = Inr known" and "physical c @ ''/'' @ d \<notin> entry_keys known"
    and "list_for_layer (rt_table st') ''semantic'' False (Some user) = Inr live" and "\<forall>e \<in> set live. last_component (me_key e) \<noteq> d"
    and "list_semantic le user q st' = Inr a" and "lq_collection q = Some c" and "\<not> lq_deleted q"
    and "lq_by_chunk q" and "lq_offset q = 0" and "la_total a \<le> lq_limit q"
  shows "\<exists>x \<in> set (la_items a). li_discovered x \<and> chunk_identity x = d"
proof -
  have sub: "sub_ok (uc_user_id user)" and i: "i = owner_id (uc_user_id user) d" using assms(2) by (simp_all add: owner_id_of_Some)
  have cols: "rt_cols st' = rt_cols st"
    using assms(1) by (cases rule: delete_semantic_cases) auto
  let ?r = "(i, t, m)"
  have own: "own_row user ?r" using new_form_owner_user [OF assms(4)] by (simp add: own_row_def)
  have key: "discovered_key (physical c) ?r = physical c @ ''/'' @ d"
    using assms(4) sub by (simp add: discovered_key_def i vid.dec_enc)
  obtain items where items: "listed_items le user q st' = Inr items"
    and view: "(la_items a, la_total a, la_documents a, la_chunks a) =
       semantic_list_view user (lq_by_chunk q) (lq_sort q) (lq_order q) (lq_limit q) (lq_offset q) items"
    using list_semantic_Inr [OF assms(14)] by blast
  let ?item = "discovered_item (physical c @ ''/'' @ d) ?r" and ?gate = "filter_corpus_read_gate user items"
  have "?item \<in> set items"
    using own_row_listed [OF items _ own, of "physical c"] assms(3,5,7-11,15) by (simp add: cols key list_targets_def)
  then have "?item \<in> set ?gate"
    using own by (simp add: filter_corpus_read_gate_def discovered_item_def own_row_def field_def)
  moreover have "chunk_identity ?item = d"
    using assms(6) by (simp add: chunk_identity_def discovered_item_def last_component_append)
  ultimately have "d \<in> chunk_identity ` set (dedupe_semantic_chunks ?gate)"
    unfolding dedupe_keeps_identity by (metis imageI)
  then obtain x where x: "x \<in> set (dedupe_semantic_chunks ?gate)" "chunk_identity x = d" by auto
  obtain R where R: "mset R = mset (dedupe_semantic_chunks ?gate)"
    "\<And>n off. list_page (lq_sort q) (lq_order q) n off (dedupe_semantic_chunks ?gate) =
      (take n (drop off R), length (dedupe_semantic_chunks ?gate))"
    by (rule list_page_eq [of "dedupe_semantic_chunks ?gate" "lq_sort q" "lq_order q"]) blast
  have "la_items a = R"
    using view R assms(17-19) mset_eq_length [OF R(1)] by (simp add: semantic_list_view_def Let_def)
  then have "x \<in> set (la_items a)" using x(1) mset_eq_setD [OF R(1)] by simp
  moreover have "li_discovered x"
  proof -
    have "x \<in> set items" using x(1) dedupe_subset [of ?gate] by (auto simp: filter_corpus_read_gate_def)
    with items show ?thesis
    proof (cases rule: listed_member)
      case (tracked es e)
      then show ?thesis using assms(12,13,16) x(2) by (simp add: chunk_identity_def tracked_item_def)
    next
      case (discovered name r)
      then show ?thesis by (simp add: discovered_item_def split: prod.splits)
    qed
  qed
  ultimately show ?thesis using x(2) by blast
qed

end
