(* ===== verification/MemoryIndex.thy ===== *)
theory MemoryIndex
  imports SemanticRoutes ScanPipeline
begin

text \<open>
  Indexing documents into the vector collections (\<open>src/audittrace/routes/memory.py\<close>:
  \<open>_index_md_objects\<close> and the route \<open>index_memory\<close>; \<open>routes/memory_md_manifest.py\<close>).

  The state is that of the PDF pipeline: the open collection, the manifest table, the outcome of every
  object and the number of chunks written. Object storage, the embedding server and the vector
  database answer through the environment of the pipeline, one per tier, since the tier
  chooses the bucket; \<open>pe_read\<close> gives the text of a markdown object, undecodable bytes replaced.
\<close>

section \<open>Markdown files\<close>

record md_call =
  md_col_name :: string
  md_category :: string
  md_user_id :: string
  md_tier :: string
  md_user :: user_context
  md_shared :: bool

function remove_all :: "string \<Rightarrow> string \<Rightarrow> string" where
  "remove_all p s =
     (case s of
        [] \<Rightarrow> []
      | c # cs \<Rightarrow>
          if p \<noteq> [] \<and> py_startswith s p then remove_all p (drop (length p) s)
          else c # remove_all p cs)"
  by pat_completeness auto
termination
  by (relation "measure (\<lambda>(p, s). length s)") auto

declare remove_all.simps [simp del]

definition md_metadata :: "md_call \<Rightarrow> string \<Rightarrow> nat \<Rightarrow> metadata" where
  "md_metadata c filename i =
     [(''source'', PStr filename), (''category'', PStr (md_category c)), (''file_type'', PStr ''md''),
      (''chunk'', PInt (int i)), (''user_id'', PStr (md_user_id c)), (''tier'', PStr (md_tier c))] @
     (if md_category c = ''procedural'' \<and> py_startswith filename ''SKILL-''
      then [(''skill'', PStr (remove_all ''.md'' (remove_all ''SKILL-'' filename)))] else []) @
     (if md_tier c \<noteq> ''corpus'' then [(''id_form'', PStr ID_FORM_LC9)] else [])"

text \<open>The choke, for every chunk of the file, before any is written.\<close>

fun authorize_chunks :: "md_call \<Rightarrow> table \<Rightarrow> string list \<Rightarrow> (exc, unit) res" where
  "authorize_chunks c tbl [] = Inr ()"
| "authorize_chunks c tbl (i # is) =
     res_bind (lift_manifest (authorize_write (get_entry tbl) (md_user c) ''semantic''
         (md_col_name c @ ''/'' @ i) (md_tier c) False)) (\<lambda>_. authorize_chunks c tbl is)"

text \<open>\<open>_flush_md_manifest\<close>: only a refusal of authorization is raised.\<close>

fun flush_md_manifest ::
  "pdf_env \<Rightarrow> md_call \<Rightarrow> string \<Rightarrow> (string \<times> int) list \<Rightarrow> pdf_run \<Rightarrow> pdf_run \<times> (exc, unit) res" where
  "flush_md_manifest env c filename [] r = (r, Inr ())"
| "flush_md_manifest env c filename ((key, sz) # ks) r =
     (if pe_manifest_error env key then flush_md_manifest env c filename ks r
      else case record_create (pe_now env) (pe_uid env key) (r_table r) ''semantic'' key (Some filename)
              (Some sz) (md_user_id c) (md_tier c) (md_shared c) of
        Inr (tbl, _) \<Rightarrow> flush_md_manifest env c filename ks (r\<lparr>r_table := tbl\<rparr>)
      | Inl e \<Rightarrow>
          if is_authorization_error e then (r, Inl (ManifestExc e))
          else flush_md_manifest env c filename ks r)"

definition write_md_chunks ::
  "pdf_env \<Rightarrow> md_call \<Rightarrow> string \<Rightarrow> string list \<Rightarrow> string list \<Rightarrow> pdf_run \<Rightarrow> pdf_run \<times> (exc, unit) res" where
  "write_md_chunks env c filename ids chunks r =
     (case res_bind (authorize_chunks c (r_table r) ids) (\<lambda>_.
             res_bind (if md_tier c \<noteq> ''corpus''
                       then check_private_targets (pe_get_error env) (r_store r) (md_user c) (md_col_name c) ids
                       else Inr ()) (\<lambda>_.
               chroma_ids (md_user c) (md_tier c) ids)) of
        Inl e \<Rightarrow> (r, Inl e)
      | Inr cids \<Rightarrow>
          (case upsert_in_batches env
                  (zip cids (zip chunks (map (md_metadata c filename) [0..<length chunks]))) (r_store r) of
             (store, Inl e) \<Rightarrow> (r\<lparr>r_store := store\<rparr>, Inl e)
           | (store, Inr _) \<Rightarrow>
               flush_md_manifest env c filename
                 (zip (map (\<lambda>i. md_col_name c @ ''/'' @ i) ids) (map utf8_length chunks))
                 (r\<lparr>r_store := store, r_total := r_total r + length chunks\<rparr>)))"

definition index_md_object ::
  "pdf_env \<Rightarrow> md_call \<Rightarrow> string \<times> string \<Rightarrow> pdf_run \<Rightarrow> pdf_run \<times> (exc, unit) res" where
  "index_md_object env c obj r =
     (case obj of (key, filename) \<Rightarrow>
        if \<not> py_endswith filename ''.md'' then (record_outcome False r, Inr ())
        else case pe_read env key of
          None \<Rightarrow> (record_outcome False r, Inr ())
        | Some content \<Rightarrow>
            let r1 = record_outcome True r; chunks = chunks_of content in
            if chunks = [] then (r1, Inr ())
            else write_md_chunks env c filename
                   (map (doc_id (pe_sha256 env) (md_col_name c) filename) [0..<length chunks]) chunks r1)"

fun index_md_objects ::
  "pdf_env \<Rightarrow> md_call \<Rightarrow> (string \<times> string) list \<Rightarrow> pdf_run \<Rightarrow> pdf_run \<times> (exc, unit) res" where
  "index_md_objects env c [] r = (r, Inr ())"
| "index_md_objects env c (obj # objs) r =
     run_bind (index_md_object env c obj r) (\<lambda>r' _. index_md_objects env c objs r')"

section \<open>The route\<close>

record index_form =
  if_collections :: "string option"
  if_file :: "string option"
  if_details :: bool
  if_dry_run :: bool

text \<open>\<open>xe_env\<close> is the environment of a tier, \<open>xe_list\<close> the objects under a prefix of the shared bucket.\<close>

record index_env =
  xe_env :: "string \<Rightarrow> pdf_env"
  xe_list :: "string \<Rightarrow> (string \<times> string) list"
  xe_now_ms :: int
  xe_audit_ok :: bool

definition KNOWN_COLLECTIONS :: "string list" where
  "KNOWN_COLLECTIONS = [''decisions'', ''skills'', ''semantic'', ''ai_research_papers'']"

definition DEFAULT_COLLECTIONS :: "string list" where
  "DEFAULT_COLLECTIONS = [''decisions'', ''skills'', ''semantic'']"

definition MEMORY_LAYERS :: "string list" where
  "MEMORY_LAYERS = [''episodic'', ''procedural'', ''session'']"

function split_comma :: "string \<Rightarrow> string list" where
  "split_comma s =
     (case dropWhile (\<lambda>c. c \<noteq> CHR '','') s of
        [] \<Rightarrow> [s]
      | _ # rest \<Rightarrow> takeWhile (\<lambda>c. c \<noteq> CHR '','') s # split_comma rest)"
  by pat_completeness auto
termination
proof (relation "measure length")
  fix s x and rest :: string
  assume "dropWhile (\<lambda>c. c \<noteq> CHR '','') s = x # rest"
  then have "length (x # rest) \<le> length s" by (metis length_dropWhile_le)
  then show "(rest, s) \<in> measure length" by simp
qed simp

declare split_comma.simps [simp del]

definition require_layer_write :: "user_context \<Rightarrow> string \<Rightarrow> bool" where
  "require_layer_write user layer \<longleftrightarrow>
     uc_is_admin user \<or> ''audittrace:admin'' \<in> set (uc_scopes user) \<or>
     (''memory:'' @ layer @ '':write'') \<in> set (uc_scopes user)"

definition require_admin :: "user_context \<Rightarrow> bool" where
  "require_admin user \<longleftrightarrow> uc_is_admin user \<or> ''audittrace:admin'' \<in> set (uc_scopes user)"

text \<open>The tier of a key, from the caller's own prefix, and its layer.\<close>

definition file_tier :: "user_context \<Rightarrow> string \<Rightarrow> string \<times> string" where
  "file_tier user file =
     (let token_prefix = uc_user_id user @ ''/'' in
      if py_startswith file token_prefix
      then (''private'', takeWhile (\<lambda>c. c \<noteq> CHR ''/'') (drop (length token_prefix) file))
      else (''corpus'', takeWhile (\<lambda>c. c \<noteq> CHR ''/'') file))"

definition index_targets :: "index_form \<Rightarrow> string list" where
  "index_targets q =
     (case if_collections q of
        Some cs \<Rightarrow>
          if cs \<noteq> [] then filter (\<lambda>c. c \<noteq> []) (map py_strip (split_comma cs))
          else (case if_file q of Some f \<Rightarrow> [collection_for_key f] | None \<Rightarrow> DEFAULT_COLLECTIONS)
      | None \<Rightarrow> (case if_file q of Some f \<Rightarrow> [collection_for_key f] | None \<Rightarrow> DEFAULT_COLLECTIONS))"

text \<open>Every check before the first write: the tier, the targets and the objects to walk.\<close>

definition index_checks ::
  "index_env \<Rightarrow> user_context \<Rightarrow> index_form
    \<Rightarrow> (route_error, string \<times> string list \<times> (string \<times> string) list \<times> (string \<times> string) list) res" where
  "index_checks x user q =
     res_bind (case if_file q of
                 None \<Rightarrow> if require_admin user then Inr (''corpus'', []) else Inl (Http 403)
               | Some f \<Rightarrow>
                   let (tier, layer) = file_tier user f in
                   if layer \<notin> set MEMORY_LAYERS then Inl (Http 400)
                   else if \<not> require_layer_write user layer then Inl (Http 403)
                   else Inr (tier, layer)) (\<lambda>(tier, layer).
     let targets = index_targets q in
     if \<exists>c \<in> set targets. c \<notin> set KNOWN_COLLECTIONS then Inl (Http 400)
     else if tier = ''corpus'' \<and> (\<exists>c \<in> set targets. \<not> corpus_write_authorized user (Some c)) then Inl (Http 403)
     else case if_file q of
       None \<Rightarrow> Inr (tier, targets, xe_list x ''episodic/'', xe_list x ''procedural/'')
     | Some f \<Rightarrow>
         let obj = (f, last_component f) in
         if length targets \<noteq> 1 then Inl (Http 400)
         else if layer = ''episodic'' then Inr (tier, targets, [obj], [])
         else if layer = ''procedural'' then Inr (tier, targets, [], [obj])
         else Inl (Http 400))"

definition md_call_of :: "user_context \<Rightarrow> string \<Rightarrow> string \<Rightarrow> string \<Rightarrow> md_call" where
  "md_call_of user col_name category tier =
     \<lparr>md_col_name = col_name, md_category = category, md_user_id = uc_user_id user, md_tier = tier,
      md_user = user, md_shared = corpus_write_authorized user (Some col_name)\<rparr>"

definition pdf_call_of :: "index_env \<Rightarrow> user_context \<Rightarrow> index_form \<Rightarrow> string \<Rightarrow> string \<Rightarrow> string \<Rightarrow> pdf_call" where
  "pdf_call_of x user q col_name category tier =
     \<lparr>pl_col_name = col_name, pl_category = category, pl_layer_prefix = category @ ''/'',
      pl_user_id = uc_user_id user, pl_ingestion_ts_ms = xe_now_ms x, pl_user = user, pl_manifest = True,
      pl_details = True, pl_dry_run = if_dry_run q,
      pl_shared = corpus_write_authorized user (Some col_name), pl_tier = tier\<rparr>"

text \<open>One target collection: which indexers walk which objects.\<close>

definition index_one_collection ::
  "index_env \<Rightarrow> user_context \<Rightarrow> index_form \<Rightarrow> string \<Rightarrow> (string \<times> string) list \<Rightarrow> (string \<times> string) list \<Rightarrow> string
    \<Rightarrow> pdf_run \<Rightarrow> pdf_run \<times> (exc, unit) res" where
  "index_one_collection x user q tier episodic procedural col r =
     (let env = xe_env x tier;
          md = (\<lambda>on category objs r. if on then index_md_objects env (md_call_of user col category tier) objs r else (r, Inr ()));
          pdf = (\<lambda>category objs r. run_bind (index_pdf_objects env (pdf_call_of x user q col category tier) objs r)
                  (\<lambda>r' _. (r', Inr ())))
      in run_bind (md (col \<in> {''decisions'', ''semantic''}) ''episodic'' episodic r) (\<lambda>r1 _.
         run_bind (md (col \<in> {''skills'', ''semantic''}) ''procedural'' procedural r1) (\<lambda>r2 _.
           if col = ''ai_research_papers''
           then run_bind (pdf ''episodic'' episodic r2) (\<lambda>r3 _. pdf ''procedural'' procedural r3)
           else (r2, Inr ()))))"

definition index_http :: "exc \<Rightarrow> route_error" where
  "index_http e =
     (case e of
        ManifestExc m \<Rightarrow> if is_authorization_error m then Http 403 else Unhandled e
      | ChromaIdConflict _ _ \<Rightarrow> Http 409
      | Exc _ _ \<Rightarrow> Unhandled e)"

text \<open>
  The targets in order, each in its physical collection, emptied first by a bulk run that is not dry;
  the outcomes of all objects and the chunks counted are kept across the targets. (Attachments that
  the PDF pipeline quarantines go to object storage and are not kept here.)
\<close>

fun index_targets_loop ::
  "index_env \<Rightarrow> user_context \<Rightarrow> index_form \<Rightarrow> string \<Rightarrow> (string \<times> string) list \<Rightarrow> (string \<times> string) list
    \<Rightarrow> string list \<Rightarrow> bool list \<times> nat \<Rightarrow> route_state \<Rightarrow> (bool list \<times> nat) answer" where
  "index_targets_loop x user q tier episodic procedural [] acc st = (Inr acc, st)"
| "index_targets_loop x user q tier episodic procedural (c # cs) acc st =
     (let store = (if if_file q = None \<and> \<not> if_dry_run q then [] else rt_cols st (physical c));
          (r, res) = index_one_collection x user q tier episodic procedural c (start_run store (rt_table st));
          st' = st\<lparr>rt_cols := (rt_cols st)(physical c := r_store r), rt_table := r_table r\<rparr>
      in case res of
           Inl e \<Rightarrow> (Inl (index_http e), st')
         | Inr _ \<Rightarrow> index_targets_loop x user q tier episodic procedural cs
                     (fst acc @ r_outcomes r, snd acc + r_total r) st')"

fun join_commas :: "string list \<Rightarrow> string" where
  "join_commas [] = []"
| "join_commas [c] = c"
| "join_commas (c # cs) = c @ '','' @ join_commas cs"

definition index_audit :: "user_context \<Rightarrow> index_form \<Rightarrow> string \<Rightarrow> string list \<Rightarrow> nat \<Rightarrow> audit_event" where
  "index_audit user q tier targets n =
     audit_event user ''write'' (join_commas targets) (case if_file q of None \<Rightarrow> [] | Some f \<Rightarrow> f)
       [(''mode'', PStr (if if_file q = None then ''bulk'' else ''single_file'')),
        (''dry_run'', PBool (if_dry_run q)), (''total_chunks'', PInt (int n)), (''tier'', PStr tier)]"

definition index_memory ::
  "index_env \<Rightarrow> user_context \<Rightarrow> index_form \<Rightarrow> route_state \<Rightarrow> unit answer" where
  "index_memory x user q st =
     (case index_checks x user q of
        Inl e \<Rightarrow> (Inl e, st)
      | Inr (tier, targets, episodic, procedural) \<Rightarrow>
          (case index_targets_loop x user q tier episodic procedural targets ([], 0) st of
             (Inl e, st1) \<Rightarrow> (Inl e, st1)
           | (Inr (outcomes, chunks), st1) \<Rightarrow>
               (case emit_audits (\<lambda>_. xe_audit_ok x) 0 [index_audit user q tier targets chunks] st1 of
                  (Inl e, st2) \<Rightarrow> (Inl e, st2)
                | (Inr _, st2) \<Rightarrow>
                    if if_file q \<noteq> None \<and> \<not> if_dry_run q \<and> True \<notin> set outcomes then (Inl (Http 422), st2)
                    else (Inr (), st2))))"

end
