(* ===== verification/MemoryIndexProps.thy ===== *)
theory MemoryIndexProps
  imports MemoryIndex SemanticRouteProps
begin

text \<open>
  Properties of indexing: whom an index run is visible to, what a dry run writes, and the round trip
  of a markdown file through its chunks.
\<close>

section \<open>What an index run adds\<close>

lemma flush_md_store: "flush_md_manifest env c filename ks r = (r', x) \<Longrightarrow> r_store r' = r_store r \<and> r_outcomes r' = r_outcomes r"
proof (induction ks arbitrary: r)
  case (Cons k ks)
  obtain key sz where k: "k = (key, sz)" by (cases k)
  show ?case
  proof (cases "pe_manifest_error env key")
    case True
    then show ?thesis using Cons k by simp
  next
    case False
    let ?w = "record_create (pe_now env) (pe_uid env key) (r_table r) ''semantic'' key (Some filename)
        (Some sz) (md_user_id c) (md_tier c) (md_shared c)"
    show ?thesis
    proof (cases ?w)
      case (Inl e)
      then show ?thesis using Cons k False by (cases "is_authorization_error e") auto
    next
      case (Inr w)
      then show ?thesis using Cons.prems Cons.IH [of "r\<lparr>r_table := fst w\<rparr>"] k False by (cases w) simp
    qed
  qed
qed simp

lemma md_metadata_user: "map_of (md_metadata c filename i) ''user_id'' = Some (PStr (md_user_id c))"
  by (simp add: md_metadata_def)

abbreviation md_own :: "md_call \<Rightarrow> bool" where
  "md_own c \<equiv> md_tier c \<noteq> ''corpus'' \<and> uc_user_id (md_user c) = md_user_id c"

lemma write_md_chunks_adds:
  assumes run: "write_md_chunks env c filename ids chunks r = (r', x)"
  shows "adds_by (md_user_id c) (md_own c) (r_store r) (r_store r')"
proof -
  let ?prepared = "res_bind (authorize_chunks c (r_table r) ids) (\<lambda>_.
      res_bind (if md_tier c \<noteq> ''corpus''
                then check_private_targets (pe_get_error env) (r_store r) (md_user c) (md_col_name c) ids
                else Inr ()) (\<lambda>_. chroma_ids (md_user c) (md_tier c) ids))"
  show ?thesis
  proof (cases ?prepared)
    case (Inl e)
    then have "r' = r" using run by (simp add: write_md_chunks_def)
    then show ?thesis by simp
  next
    case (Inr cids)
    then have cids: "chroma_ids (md_user c) (md_tier c) ids = Inr cids"
      and check: "md_tier c \<noteq> ''corpus'' \<Longrightarrow>
        check_private_targets (pe_get_error env) (r_store r) (md_user c) (md_col_name c) ids = Inr ()"
      by (auto simp: res_bind_Inr_iff split: if_splits)
    let ?rows = "zip cids (zip chunks (map (md_metadata c filename) [0..<length chunks]))"
    obtain store y where up: "upsert_in_batches env ?rows (r_store r) = (store, y)" by fastforce
    have "r_store r' = store"
      using run Inr up by (cases y) (auto simp: write_md_chunks_def dest: flush_md_store)
    moreover have "adds_by (md_user_id c) (md_own c) (r_store r) store"
    proof (rule adds_by_batches [OF up])
      show "\<forall>row \<in> set ?rows. by_user (md_user_id c) row"
        by (auto simp: by_user_def md_metadata_user dest!: set_zip_rightD)
      assume priv: "md_own c"
      show "\<forall>row \<in> set ?rows. \<forall>w. map_of (r_store r) (fst row) = Some w \<longrightarrow> by_user (md_user_id c) (fst row, w)"
      proof (intro ballI allI impI)
        fix row w assume row: "row \<in> set ?rows" "map_of (r_store r) (fst row) = Some w"
        have "fst ` set ?rows \<subseteq> set cids" by (auto dest: set_zip_leftD)
        then have "fst row \<in> set cids" using row(1) by blast
        with checked_targets_own [OF check cids, of "fst row" "fst w" "snd w"] row priv
        show "by_user (md_user_id c) (fst row, w)" by (simp add: by_user_def new_form_owner_user)
      qed
    qed
    ultimately show ?thesis by simp
  qed
qed

lemma index_md_objects_adds:
  "index_md_objects env c objs r = (r', x) \<Longrightarrow> adds_by (md_user_id c) (md_own c) (r_store r) (r_store r')"
proof (induction env c objs r arbitrary: r' x rule: index_md_objects.induct)
  case (2 env c obj objs r)
  have one: "adds_by (md_user_id c) (md_own c) (r_store r) (r_store r1)" if "index_md_object env c obj r = (r1, y)" for r1 y
    using that by (cases obj)
      (auto simp: index_md_object_def record_outcome_def Let_def dest!: write_md_chunks_adds
        split: if_splits option.splits)
  obtain r1 y where r1: "index_md_object env c obj r = (r1, y)" by fastforce
  show ?case
  proof (cases y)
    case (Inl e)
    then show ?thesis using 2(2) r1 one by (auto simp: run_bind_def)
  next
    case (Inr u)
    then have "adds_by (md_user_id c) (md_own c) (r_store r1) (r_store r')"
      using 2(1) 2(2) r1 by (simp add: run_bind_def)
    with one [OF r1] show ?thesis by (rule adds_by_trans)
  qed
qed simp

lemma index_pdf_objects_adds:
  assumes "index_pdf_objects env c objs r = (r', x)"
  shows "adds_by (pl_user_id c) (pl_tier c \<noteq> ''corpus'' \<and> uc_user_id (pl_user c) = pl_user_id c) (r_store r) (r_store r')"
  using index_pdf_objects_effect [OF assms] by (simp add: doc_effect_def protects_def)

text \<open>Steps of one run that each add only rows of its user.\<close>

lemma run_bind_adds:
  assumes "run_bind m f = (r', x)" and "\<And>r1 y. m = (r1, y) \<Longrightarrow> adds_by u b s (r_store r1)"
    and "\<And>r1 y r2 z. m = (r1, Inr y) \<Longrightarrow> f r1 y = (r2, z) \<Longrightarrow> adds_by u b (r_store r1) (r_store r2)"
  shows "adds_by u b s (r_store r')"
proof -
  obtain r1 y where m: "m = (r1, y)" by (cases m)
  show ?thesis
  proof (cases y)
    case (Inl e)
    then show ?thesis using assms(1) assms(2) [OF m] m by (simp add: run_bind_def)
  next
    case (Inr a)
    then have "f r1 a = (r', x)" using assms(1) m by (simp add: run_bind_def)
    with assms(2) [OF m] assms(3) m Inr show ?thesis by (blast intro: adds_by_trans)
  qed
qed

lemma index_one_collection_adds:
  assumes "index_one_collection x user q tier ep pr col r = (r', y)"
  shows "adds_by (uc_user_id user) (tier \<noteq> ''corpus'') (r_store r) (r_store r')"
proof -
  let ?b = "tier \<noteq> ''corpus''" and ?u = "uc_user_id user"
  have md: "adds_by ?u ?b (r_store a) (r_store a')"
    if "(if on then index_md_objects env (md_call_of user col cat tier) objs a else (a, Inr ())) = (a', z)"
    for on env cat objs a a' z
    using that index_md_objects_adds [of env "md_call_of user col cat tier" objs a a' z]
    by (auto simp: md_call_of_def split: if_splits)
  have pdf: "adds_by ?u ?b (r_store a) (r_store a')"
    if "index_pdf_objects env (pdf_call_of x user q c cat tier) objs a = (a', z)" for env c cat objs a a' z
    using index_pdf_objects_adds [OF that] by (simp add: pdf_call_of_def)
  show ?thesis
    using assms unfolding index_one_collection_def Let_def
    by (elim run_bind_adds; (elim md)?; (elim run_bind_adds)?; (elim md)?)
      (auto split: if_splits elim!: run_bind_adds dest: pdf)
qed

lemma index_loop_adds:
  assumes "index_targets_loop x user q tier ep pr cs acc st = (r, st')" and "if_file q \<noteq> None \<or> if_dry_run q"
  shows "adds_by (uc_user_id user) (tier \<noteq> ''corpus'') (rt_cols st name) (rt_cols st' name) \<and>
    (name \<notin> physical ` set cs \<longrightarrow> rt_cols st' name = rt_cols st name)"
  using assms(1)
proof (induction cs arbitrary: acc st)
  case (Cons c cs)
  obtain run res where one: "index_one_collection x user q tier ep pr c
      (start_run (rt_cols st (physical c)) (rt_table st)) = (run, res)" by fastforce
  define st1 where "st1 = st\<lparr>rt_cols := (rt_cols st)(physical c := r_store run), rt_table := r_table run\<rparr>"
  have here: "adds_by (uc_user_id user) (tier \<noteq> ''corpus'') (rt_cols st name) (rt_cols st1 name)"
    using index_one_collection_adds [OF one] by (simp add: st1_def start_run_def)
  have other: "name \<notin> physical ` set (c # cs) \<longrightarrow> rt_cols st1 name = rt_cols st name" by (auto simp: st1_def)
  have keep: "\<not> (if_file q = None \<and> \<not> if_dry_run q)" using assms(2) by blast
  have run: "(case res of Inl e \<Rightarrow> (Inl (index_http e), st1)
      | Inr _ \<Rightarrow> index_targets_loop x user q tier ep pr cs (fst acc @ r_outcomes run, snd acc + r_total run) st1) = (r, st')"
    unfolding st1_def using Cons.prems one keep by (auto simp: Let_def)
  show ?case
  proof (cases res)
    case (Inl e)
    then show ?thesis using run here other by simp
  next
    case (Inr u)
    then have "adds_by (uc_user_id user) (tier \<noteq> ''corpus'') (rt_cols st1 name) (rt_cols st' name) \<and>
        (name \<notin> physical ` set cs \<longrightarrow> rt_cols st' name = rt_cols st1 name)"
      using Cons.IH run by simp
    with here other show ?thesis by (auto intro: adds_by_trans)
  qed
qed simp

lemma index_memory_loop:
  assumes "index_memory x user q st = (r, st')"
  obtains (refused) "st' = st"
  | (ran) tier targets ep pr r1 st1 where
      "index_checks x user q = Inr (tier, targets, ep, pr)" "targets = index_targets q"
      "set targets \<subseteq> set KNOWN_COLLECTIONS"
      "index_targets_loop x user q tier ep pr targets ([], 0) st = (r1, st1)"
      "rt_cols st' = rt_cols st1" "rt_table st' = rt_table st1"
proof (cases "index_checks x user q")
  case (Inl e)
  then show thesis using assms refused by (simp add: index_memory_def)
next
  case (Inr a)
  obtain tier targets ep pr where a: "a = (tier, targets, ep, pr)" by (cases a)
  then have targets: "targets = index_targets q" "set targets \<subseteq> set KNOWN_COLLECTIONS"
    using Inr by (auto simp: index_checks_def res_bind_Inr_iff Let_def split: if_splits option.splits)
  obtain r1 st1 where loop: "index_targets_loop x user q tier ep pr targets ([], 0) st = (r1, st1)" by fastforce
  have "rt_cols st' = rt_cols st1 \<and> rt_table st' = rt_table st1"
  proof (cases r1)
    case (Inl e)
    then show ?thesis using assms Inr a loop by (simp add: index_memory_def)
  next
    case o: (Inr p)
    obtain outcomes n where p: "p = (outcomes, n)" by (cases p)
    show ?thesis
      using assms Inr a loop o p by (auto simp: index_memory_def split: if_splits)
  qed
  with ran Inr a targets loop show thesis by blast
qed

lemma known_not_corpus: "c \<in> set KNOWN_COLLECTIONS \<Longrightarrow> physical c \<noteq> physical_corpus k"
proof
  assume c: "c \<in> set KNOWN_COLLECTIONS" and "physical c = physical_corpus k"
  then have "c = k @ ''_corpus''" by (simp add: physical_eq_corpus)
  then have "last c = CHR ''s'' \<and> c ! (length c - 2) = CHR ''u''" by (simp add: nth_append)
  with c show False by (auto simp: KNOWN_COLLECTIONS_def)
qed

text \<open>
  Indexing one file adds nothing to what another non-administrator can recall, in any collection,
  whatever the tier of the file; a private file changes none of its answers. The shared collections
  are never written: a file of the shared tier, too, goes to the private half of its
  collection under the uploader's name, where only the uploader and administrators find it.
\<close>

lemma index_invisible_to_others:
  assumes "index_memory x user q st = (r, st')" and "if_file q \<noteq> None"
    and "\<not> uc_is_admin v" and "uc_user_id v \<noteq> uc_user_id user" and "nearest_first senv"
  shows "rt_cols st' (physical_corpus k) = rt_cols st (physical_corpus k) \<and>
    set (candidates (rt_cols st') v names) \<subseteq> set (candidates (rt_cols st) v names) \<and>
    (fst (file_tier user (the (if_file q))) = ''private'' \<longrightarrow>
      search senv (rt_cols st') v query n (Some names) = search senv (rt_cols st) v query n (Some names))"
  using assms(1)
proof (cases rule: index_memory_loop)
  case (ran tier targets ep pr r1 st1)
  note loop = index_loop_adds [OF ran(4) disjI1 [OF assms(2)]]
  have adds: "adds_by (uc_user_id user) (tier \<noteq> ''corpus'') (rt_cols st name) (rt_cols st' name)" for name
    using loop [of name] by (simp add: ran(5))
  have corpus: "rt_cols st' (physical_corpus c) = rt_cols st (physical_corpus c)" for c
  proof -
    have "physical_corpus c \<notin> physical ` set targets"
    proof
      assume "physical_corpus c \<in> physical ` set targets"
      then obtain d where "d \<in> set targets" "physical d = physical_corpus c" by force
      with ran(3) known_not_corpus [of d c] show False by blast
    qed
    then show ?thesis using loop [of "physical_corpus c"] by (simp add: ran(5))
  qed
  have w: "search_where v = Some (uc_user_id v)" using assms(3) by (simp add: search_where_def)
  have sub: "set (where_rows (search_where v) (rt_cols st' name)) \<subseteq> set (where_rows (search_where v) (rt_cols st name))" for name
    using adds [of name] assms(4) by (auto simp: adds_by_def by_user_def w where_rows_def)
  have "set (candidates (rt_cols st') v names) \<subseteq> set (candidates (rt_cols st) v names)"
    using sub by (fastforce simp: candidates_def corpus)
  moreover have "search senv (rt_cols st') v query n (Some names) = search senv (rt_cols st) v query n (Some names)"
    if private_file: "fst (file_tier user (the (if_file q))) = ''private''"
  proof -
    have "tier = ''private''"
      using ran(1) private_file assms(2)
      by (auto simp: index_checks_def res_bind_Inr_iff Let_def split: if_splits option.splits prod.splits)
    then have "where_rows (search_where v) (rt_cols st' name) = where_rows (search_where v) (rt_cols st name)" for name
      using adds [of name] assms(4) by (auto simp: adds_by_def by_user_def w where_rows_def)
    then have "same_visible_rows v (target_collections senv (Some names)) (rt_cols st') (rt_cols st)"
      by (simp add: same_visible_rows_def corpus)
    then show ?thesis by (simp add: search_def relevance_pool_isolated [OF assms(5)])
  qed
  ultimately show ?thesis using corpus by blast
qed simp

section \<open>Dry runs\<close>

text \<open>
  The indexers of markdown are not told of a dry run: for one file and a collection of markdown a dry
  run leaves exactly the chunks and manifest rows the real run leaves, and the same error if
  one is raised.
\<close>

lemma dry_run_writes_markdown:
  assumes "if_file q \<noteq> None" and "''ai_research_papers'' \<notin> set (index_targets q)"
    and "index_memory x user (q\<lparr>if_dry_run := True\<rparr>) st = (r, st')"
    and "index_memory x user (q\<lparr>if_dry_run := False\<rparr>) st = (r2, st2)"
  shows "rt_cols st' = rt_cols st2 \<and> rt_table st' = rt_table st2"
proof -
  let ?d = "q\<lparr>if_dry_run := True\<rparr>" and ?w = "q\<lparr>if_dry_run := False\<rparr>"
  have f: "if_file (q\<lparr>if_dry_run := b\<rparr>) = if_file q" for b by simp
  have t: "index_targets ?d = index_targets q" "index_targets ?w = index_targets q"
    by (simp_all add: index_targets_def split: option.split)
  have checks: "index_checks x user ?d = index_checks x user ?w"
    unfolding index_checks_def t f ..
  have one: "index_one_collection x user ?d tier ep pr c run = index_one_collection x user ?w tier ep pr c run"
    if "c \<noteq> ''ai_research_papers''" for tier ep pr c run
    using that by (simp add: index_one_collection_def Let_def)
  have loop: "index_targets_loop x user ?d tier ep pr cs acc s = index_targets_loop x user ?w tier ep pr cs acc s"
    if "''ai_research_papers'' \<notin> set cs" for tier ep pr cs acc s
    using that
  proof (induction cs arbitrary: acc s)
    case (Cons c cs)
    then have "c \<noteq> ''ai_research_papers''" "\<And>acc s. index_targets_loop x user ?d tier ep pr cs acc s =
        index_targets_loop x user ?w tier ep pr cs acc s" by auto
    then show ?case using assms(1) one [of c tier ep pr] by (auto simp: Let_def split: prod.splits)
  qed simp
  show ?thesis
  proof (cases "index_checks x user ?w")
    case (Inl e)
    then show ?thesis using assms(3,4) checks by (simp add: index_memory_def)
  next
    case (Inr a)
    obtain tier ep pr where a: "a = (tier, index_targets q, ep, pr)"
      using Inr by (auto simp: index_checks_def res_bind_Inr_iff Let_def t split: if_splits option.splits)
    obtain o1 s1 where l: "index_targets_loop x user ?w tier ep pr (index_targets q) ([], 0) st = (o1, s1)" by fastforce
    have keep: "rt_cols s = rt_cols s1 \<and> rt_table s = rt_table s1"
      if "index_memory x user q' st = (z, s)" "index_checks x user q' = Inr a"
        "index_targets_loop x user q' tier ep pr (index_targets q) ([], 0) st = (o1, s1)" for q' z s
      using that a by (cases o1) (auto simp: index_memory_def split: if_splits prod.splits)
    show ?thesis
      using keep [OF assms(3)] keep [OF assms(4)] Inr checks l loop [OF assms(2)] by simp
  qed
qed

end
