(* ===== verification/RouteWitness.thy ===== *)
theory RouteWitness
  imports SemanticWitness SemanticRouteLaws SemanticListProps MemoryIndexProps PdfWitness
begin

text \<open>
  Requests of two users to the routes of semantic memory and of indexing: the states at which the
  properties of the routes are applied.
\<close>

section \<open>Writes and reads of one document\<close>

definition route_demo_env :: route_env where
  "route_demo_env = \<lparr>re_sem = sem_demo_env, re_now = 7, re_uid = ''u1'', re_sha256 = (\<lambda>s. s), re_audit_ok = (\<lambda>_. True)\<rparr>"

definition note_body :: "string \<Rightarrow> string \<Rightarrow> string \<Rightarrow> metadata" where
  "note_body c d t = [(''collection'', PStr c), (''document_id'', PStr d), (''text'', PStr t)]"

definition empty_routes :: route_state where
  "empty_routes = \<lparr>rt_cols = (\<lambda>_. []), rt_table = [], rt_audit = []\<rparr>"

definition value_of :: "'a answer \<Rightarrow> 'a" where
  "value_of a = (case fst a of Inl _ \<Rightarrow> undefined | Inr x \<Rightarrow> x)"

lemma answered: "\<not> isl (fst a) \<Longrightarrow> a = (Inr (value_of a), snd a)"
  by (cases a) (auto simp: value_of_def isl_def split: sum.splits)

lemma note_fields: "semantic_fields (note_body c d t) = Some (c, d, t)"
  by (simp add: semantic_fields_def note_body_def field_def)

lemma note_private: "resolve_requested_tier (note_body c d t) None = Some ''private''"
  by (simp add: resolve_requested_tier_def note_body_def field_def)

lemma demo_gets: "se_get_error (re_sem route_demo_env) name ids = None"
  by (simp add: route_demo_env_def)

abbreviation ann_creates :: "string \<Rightarrow> string \<Rightarrow> manifest_entry answer" where
  "ann_creates c t \<equiv> create_semantic route_demo_env ann (note_body c ''a'' t) (Some ''T'') None empty_routes"

lemma ann_creates_notes: "\<not> isl (fst (ann_creates ''notes'' ''one''))"
  by code_simp

text \<open>Bob asks for the shared tier, which he may not write.\<close>

abbreviation bob_promotes :: "manifest_entry answer" where
  "bob_promotes \<equiv> create_semantic route_demo_env bob (note_body ''notes'' ''b'' ''two'') None (Some ''corpus'')
     (snd (ann_creates ''notes'' ''one''))"

lemma bob_promotes_refused: "bob_promotes = (Inl (Http 403), snd bob_promotes)"
proof -
  have "case fst bob_promotes of Inl (Http n) \<Rightarrow> n = 403 | _ \<Rightarrow> False" by code_simp
  then show ?thesis by (cases bob_promotes) (auto split: sum.splits route_error.splits)
qed


theorem corpus_writes_gated_witness:
  "rt_cols (snd (ann_creates ''notes'' ''one'')) (physical_corpus ''notes'') = []"
proof -
  have "\<not> has_corpus_scope ann ''notes'' ''write''" by code_simp
  from corpus_writes_gated [OF this disjI1 [OF conjI [OF answered [OF ann_creates_notes]]]]
  show ?thesis by (simp add: note_fields empty_routes_def)
qed

theorem create_read_semantic_witness:
  "\<exists>m. read_semantic route_demo_env ann ''notes'' ''a'' False (snd (ann_creates ''notes'' ''one'')) =
     Inr \<lparr>ra_content = ''one'', ra_metadata = AList.update ''collection'' (PStr ''notes'') (stamped ann ''private'' m),
          ra_manifest = Some (value_of (ann_creates ''notes'' ''one'')), ra_chunk_keys = None\<rparr>"
  using create_read_semantic [OF answered [OF ann_creates_notes] note_fields note_private demo_gets] by blast


abbreviation ann_deletes :: "manifest_entry answer" where
  "ann_deletes \<equiv> delete_semantic route_demo_env ann ''notes'' ''a'' False (snd (ann_creates ''notes'' ''one''))"

lemma ann_deletes_notes: "\<not> isl (fst ann_deletes)"
  by code_simp

theorem answered_writes_audited_witness:
  "\<exists>es. es \<noteq> [] \<and> rt_audit (snd ann_deletes) = rt_audit (snd (ann_creates ''notes'' ''one'')) @ es"
  using answered_writes_audited [OF disjI2 [OF disjI2 [OF conjI [OF answered [OF ann_deletes_notes] refl]]]] by blast

text \<open>Ann keeps \<open>b\<close> and deletes \<open>a\<close>: her search gives \<open>b\<close> alone.\<close>

abbreviation ann_has_two :: route_state where
  "ann_has_two \<equiv> snd (create_semantic (route_demo_env\<lparr>re_uid := ''u2''\<rparr>) ann (note_body ''notes'' ''b'' ''two'') None None
     (snd (ann_creates ''notes'' ''one'')))"

abbreviation ann_drops :: "manifest_entry answer" where
  "ann_drops \<equiv> delete_semantic route_demo_env ann ''notes'' ''a'' False ann_has_two"

definition after_drop :: sem_env where
  "after_drop = sem_demo_env\<lparr>se_manifest := Some (rt_table (snd ann_drops))\<rparr>"

abbreviation left_hits :: "document list" where
  "left_hits \<equiv> search after_drop (rt_cols (snd ann_drops)) ann ''one'' 5 None"


section \<open>Indexing one file\<close>

definition md_demo_env :: index_env where
  "md_demo_env = \<lparr>xe_env = (\<lambda>_. (pdf_demo_env demo_doc)\<lparr>pe_read := (\<lambda>_. Some ''hello'')\<rparr>), xe_list = (\<lambda>_. []),
     xe_now_ms = 7, xe_audit_ok = True\<rparr>"

definition one_file :: "bool \<Rightarrow> index_form" where
  "one_file dry = \<lparr>if_collections = None, if_file = Some ''ann/episodic/a.md'', if_details = False, if_dry_run = dry\<rparr>"

abbreviation ann_indexes :: "bool \<Rightarrow> unit answer" where
  "ann_indexes dry \<equiv> index_memory md_demo_env ann (one_file dry) empty_routes"

lemma ann_indexes_rows:
  "map (\<lambda>(i, t, m). (i, t, map_of m ''user_id'')) (rt_cols (snd (ann_indexes True)) (physical ''semantic'')) =
     [(''ann__semantic:a.md:0'', ''hello'', Some (PStr ''ann''))]"
  by code_simp

lemma index_invisible_to_others_witness:
  "set (candidates (rt_cols (snd (ann_indexes False))) bob [''semantic'']) = {}"
proof -
  have b: "\<not> uc_is_admin bob" "uc_user_id bob \<noteq> uc_user_id ann" by code_simp+
  have run: "ann_indexes False = (fst (ann_indexes False), snd (ann_indexes False))" by simp
  have e: "set (candidates (rt_cols empty_routes) bob [''semantic'']) = {}" by code_simp
  show ?thesis
    using index_invisible_to_others [OF run _ b sem_demo_nearest, where names = "[''semantic'']"] e
    by (simp add: one_file_def)
qed

lemma dry_run_writes_markdown_witness:
  "rt_cols (snd (ann_indexes True)) = rt_cols (snd (ann_indexes False)) \<and>
   rt_cols (snd (ann_indexes True)) (physical ''semantic'') \<noteq> []"
proof -
  have t: "''ai_research_papers'' \<notin> set (index_targets (one_file True))" by code_simp
  have d: "(one_file True)\<lparr>if_dry_run := b\<rparr> = one_file b" for b by (simp add: one_file_def)
  have f: "if_file (one_file True) \<noteq> None" by (simp add: one_file_def)
  show ?thesis
    using dry_run_writes_markdown [OF f t, unfolded d, OF surjective_pairing surjective_pairing] ann_indexes_rows by auto
qed

section \<open>Listings\<close>

definition notes_env :: list_env where
  "notes_env = \<lparr>le_collections = Some [''notes_v2''], le_get_error = (\<lambda>_. False)\<rparr>"

definition all_notes :: "bool \<Rightarrow> nat \<Rightarrow> list_query" where
  "all_notes by_chunk n = \<lparr>lq_collection = Some ''notes'', lq_deleted = False, lq_sort = ''key'', lq_order = ''asc'',
     lq_limit = n, lq_offset = 0, lq_by_chunk = by_chunk\<rparr>"

definition listing_of :: "(manifest_error, list_answer) res \<Rightarrow> list_answer" where
  "listing_of r = (case r of Inl _ \<Rightarrow> undefined | Inr a \<Rightarrow> a)"

lemma listed: "list_semantic le user q st = Inr (listing_of (list_semantic le user q st))"
  using list_semantic_total [of le user q st] by (auto simp: listing_of_def)

abbreviation anns_page :: "bool \<Rightarrow> nat \<Rightarrow> route_state \<Rightarrow> list_answer" where
  "anns_page by_chunk n st \<equiv> listing_of (list_semantic notes_env ann (all_notes by_chunk n) st)"

lemma demo_users: "\<not> uc_is_admin ann" "\<not> uc_is_admin bob"
  by code_simp+

lemma anns_listing:
  "map (\<lambda>i. (li_key i, li_discovered i)) (la_items (anns_page True 9 (snd ann_drops))) =
     [(''notes/b'', False), (''notes_v2/a'', True), (''notes_v2/b'', True)] \<or>
   map (\<lambda>i. (li_key i, li_discovered i)) (la_items (anns_page True 9 (snd ann_drops))) =
     [(''notes/b'', False), (''notes_v2/a'', True)]"
  by code_simp

theorem listed_authorized_witness:
  "li_created_by (hd (la_items (anns_page True 9 (snd ann_drops)))) = PStr ''ann'' \<or>
   has_corpus_scope ann ''notes'' ''read''"
proof -
  have "la_items (anns_page True 9 (snd ann_drops)) \<noteq> []" using anns_listing by auto
  then have "hd (la_items (anns_page True 9 (snd ann_drops))) \<in> set (la_items (anns_page True 9 (snd ann_drops)))" by simp
  from listed_authorized [OF listed this demo_users(1)]
  have "li_created_by (hd (la_items (anns_page True 9 (snd ann_drops)))) = PStr (uc_user_id ann) \<or>
    has_corpus_scope ann (takeWhile (\<lambda>c. c \<noteq> CHR ''/'') (li_key (hd (la_items (anns_page True 9 (snd ann_drops)))))) ''read''"
    by blast
  moreover have "uc_user_id ann = ''ann''" by code_simp
  moreover have "takeWhile (\<lambda>c. c \<noteq> CHR ''/'') (li_key (hd (la_items (anns_page True 9 (snd ann_drops))))) = ''notes''"
    by code_simp
  ultimately show ?thesis by simp
qed


definition with_rows :: "string \<Rightarrow> route_state" where
  "with_rows bobs = \<lparr>rt_cols = noted bobs, rt_table = [], rt_audit = []\<rparr>"

lemma listing_isolation_witness:
  "list_semantic notes_env ann (all_notes False 9) (with_rows ''two'') =
     list_semantic notes_env ann (all_notes False 9) (with_rows ''other'')"
proof (rule listing_isolation [OF demo_users(1)])
  show "same_listing notes_env ann (lq_collection (all_notes False 9)) (with_rows ''two'') (with_rows ''other'')"
    "within_cap notes_env (lq_collection (all_notes False 9)) (with_rows ''two'')"
    "within_cap notes_env (lq_collection (all_notes False 9)) (with_rows ''other'')"
    by code_simp+
qed

lemma ann_has_two_facts:
  "rt_cols ann_has_two (physical ''notes'') \<noteq> [] \<and> (case hd (rt_cols ann_has_two (physical ''notes'')) of (i, t, m) \<Rightarrow>
     owner_id_of ann ''a'' = Some i \<and> new_form_owner (Some m) = Some (uc_user_id ann))"
  "distinct (map fst (rt_cols ann_has_two (physical ''notes'')))"
  "length (where_rows (Some (uc_user_id ann)) (rt_cols ann_has_two (physical ''notes''))) \<le> SEMANTIC_DISCOVERY_LIMIT"
  "case list_for_layer (rt_table (snd ann_drops)) ''semantic'' True (Some ann) of Inl _ \<Rightarrow> False
     | Inr known \<Rightarrow> physical ''notes'' @ ''/a'' \<notin> entry_keys known"
  "case list_for_layer (rt_table (snd ann_drops)) ''semantic'' False (Some ann) of Inl _ \<Rightarrow> False
     | Inr live \<Rightarrow> list_all (\<lambda>e. last_component (me_key e) \<noteq> ''a'') live"
  "la_total (anns_page True 9 (snd ann_drops)) \<le> 9"
  by code_simp+

lemma deleted_still_listed_witness:
  "\<exists>x \<in> set (la_items (anns_page True 9 (snd ann_drops))). li_discovered x \<and> chunk_identity x = ''a''"
proof -
  obtain i t m where row: "hd (rt_cols ann_has_two (physical ''notes'')) = (i, t, m)" by (metis prod_cases3)
  then have r: "owner_id_of ann ''a'' = Some i" "(i, t, m) \<in> set (rt_cols ann_has_two (physical ''notes''))"
    "new_form_owner (Some m) = Some (uc_user_id ann)"
    using ann_has_two_facts(1) hd_in_set [of "rt_cols ann_has_two (physical ''notes'')"] by auto
  obtain known where known: "list_for_layer (rt_table (snd ann_drops)) ''semantic'' True (Some ann) = Inr known"
    "physical ''notes'' @ ''/'' @ ''a'' \<notin> entry_keys known"
    using ann_has_two_facts(4) by (auto split: sum.splits)
  obtain live where live: "list_for_layer (rt_table (snd ann_drops)) ''semantic'' False (Some ann) = Inr live"
    "\<forall>e \<in> set live. last_component (me_key e) \<noteq> ''a''"
    using ann_has_two_facts(5) by (auto simp: list_all_iff split: sum.splits)
  have del: "ann_drops = (Inr (value_of ann_drops), snd ann_drops)"
    by (rule answered) code_simp
  have env: "\<not> le_get_error notes_env (physical ''notes'')" by (simp add: notes_env_def)
  show ?thesis
    by (rule deleted_still_listed [OF del r(1,2,3) demo_users(1) _ ann_has_two_facts(2) env ann_has_two_facts(3) known live listed])
      (use ann_has_two_facts(6) in \<open>simp_all add: all_notes_def\<close>)
qed

end
