(* ===== verification/LayerFiles.thy ===== *)
theory LayerFiles
  imports SemanticRoutes ScanPipeline MemoryIndex
begin

text \<open>
  The file layers, episodic and procedural memory: object storage in two buckets behind a shared cache of
  listings (\<open>src/audittrace/services/episodic.py\<close>, \<open>services/procedural.py\<close>, \<open>services/layer_cache.py\<close>,
  \<open>services/layer_listing.py\<close>).

  Object storage is a list of objects; a listing gives those under a prefix in the order of their keys.
  An object's content is its text, or \<open>None\<close> if its bytes are no UTF-8. The two services differ in
  their prefix and in what they keep of a file besides its text: the title of its first heading, or the
  name of the skill. The network is a parameter: which objects cannot be read, which prefixes cannot be
  listed, whether a write, a look-up or a removal fails, and whether the cache answers. Each call runs
  on its own; the cache's expiry of an entry is a step of its own.
\<close>

section \<open>Object storage\<close>

type_synonym object_key = "string \<times> string"

record stored_object =
  ob_text :: "string option"
  ob_modified_ms :: "int option"

type_synonym object_store = "(object_key \<times> stored_object) list"

record file_row =
  fr_file :: string
  fr_content :: string
  fr_label :: string
  fr_modified_ms :: "int option"
  fr_tier :: string

record file_store =
  fs_objects :: object_store
  fs_cache :: "(string \<times> file_row list) list"

record file_env =
  fe_bucket :: string
  fe_private_bucket :: string
  fe_ttl :: int
  fe_list_error :: "object_key \<Rightarrow> bool"
  fe_get_error :: "object_key \<Rightarrow> bool"
  fe_put_error :: "object_key \<Rightarrow> bool"
  fe_stat_error :: "object_key \<Rightarrow> bool"
  fe_remove_error :: "object_key \<Rightarrow> bool"
  fe_cache_get_down :: "string \<Rightarrow> bool"
  fe_cache_set_down :: "string \<Rightarrow> bool"
  fe_cache_invalidate_down :: "string \<Rightarrow> bool"
  fe_now_ms :: int

definition layer_prefix :: "string \<Rightarrow> string" where
  "layer_prefix layer = layer @ ''/''"

definition private_prefix :: "string \<Rightarrow> string \<Rightarrow> string" where
  "private_prefix layer user_id = user_id @ ''/'' @ layer_prefix layer"

text \<open>\<open>list_layer_objects\<close>, without the markers of directories.\<close>

definition list_layer_objects :: "object_store \<Rightarrow> string \<Rightarrow> string \<Rightarrow> (string \<times> string \<times> stored_object) list" where
  "list_layer_objects objs bucket p =
     map (\<lambda>((_, key), ob). (key, last_component key, ob))
       (sort_key (\<lambda>((_, key), _). key)
         (filter (\<lambda>((b, key), _). b = bucket \<and> py_startswith key p \<and> last_component key \<noteq> []) objs))"

definition is_listable_md_object :: "string \<Rightarrow> bool" where
  "is_listable_md_object filename = py_endswith filename ''.md''"

section \<open>Names and titles\<close>

definition line_break :: "char \<Rightarrow> bool" where
  "line_break c \<longleftrightarrow> (of_char c :: nat) \<in> {10, 11, 12, 13, 28, 29, 30, 133}"

text \<open>A carriage return and the line feed after it are one break.\<close>

function py_splitlines :: "string \<Rightarrow> string list" where
  "py_splitlines s =
     (if s = [] then []
      else case dropWhile (\<lambda>c. \<not> line_break c) s of
             [] \<Rightarrow> [s]
           | c # rest \<Rightarrow>
               takeWhile (\<lambda>c. \<not> line_break c) s #
                 py_splitlines (if c = CHR 0x0D \<and> rest \<noteq> [] \<and> hd rest = CHR 0x0A then tl rest else rest))"
  by pat_completeness auto
termination
proof (relation "measure length")
  fix s c and rest :: string
  assume d: "dropWhile (\<lambda>c. \<not> line_break c) s = c # rest"
  have "length (c # rest) \<le> length s" unfolding d [symmetric] by (rule length_dropWhile_le)
  then show "(if c = CHR 0x0D \<and> rest \<noteq> [] \<and> hd rest = CHR 0x0A then tl rest else rest, s) \<in> measure length"
    by (cases rest) auto
qed simp

declare py_splitlines.simps [simp del]

definition title_from_content :: "string \<Rightarrow> string \<Rightarrow> string" where
  "title_from_content content fallback =
     (case filter (\<lambda>l. py_startswith l ''# '') (py_splitlines content) of
        [] \<Rightarrow> fallback
      | l # _ \<Rightarrow> py_strip (drop 2 l))"

definition skill_name_from_filename :: "string \<Rightarrow> string" where
  "skill_name_from_filename filename = remove_all ''.md'' (remove_all ''SKILL-'' filename)"

definition file_label :: "string \<Rightarrow> string \<Rightarrow> string \<Rightarrow> string" where
  "file_label layer filename content =
     (if layer = ''procedural'' then skill_name_from_filename filename
      else title_from_content content (take (length filename - 3) filename))"

definition valid_filename :: "string \<Rightarrow> bool" where
  "valid_filename file \<longleftrightarrow>
     file \<noteq> [] \<and> \<not> (py_contains file ''..'' \<or> CHR ''/'' \<in> set file \<or> CHR 0x5C \<in> set file) \<and> py_endswith file ''.md''"

section \<open>Listings\<close>

definition CACHE_KEY_PREFIX :: string where "CACHE_KEY_PREFIX = ''audittrace:layer-cache:''"

definition layer_list_cache_key :: "string \<Rightarrow> string" where
  "layer_list_cache_key layer = CACHE_KEY_PREFIX @ layer @ '':list''"

definition layer_list_cache_key_private :: "string \<Rightarrow> string \<Rightarrow> string" where
  "layer_list_cache_key_private layer user_id = CACHE_KEY_PREFIX @ layer @ '':private:'' @ user_id @ '':list''"

text \<open>The cache: a call that fails is a miss, a dropped write or a dropped invalidation.\<close>

definition cache_get :: "file_env \<Rightarrow> file_store \<Rightarrow> string \<Rightarrow> file_row list option" where
  "cache_get env fs key = (if fe_cache_get_down env key then None else map_of (fs_cache fs) key)"

definition cache_set :: "file_env \<Rightarrow> string \<Rightarrow> file_row list \<Rightarrow> file_store \<Rightarrow> file_store" where
  "cache_set env key rows fs =
     (if fe_ttl env \<le> 0 \<or> fe_cache_set_down env key then fs
      else fs\<lparr>fs_cache := AList.update key rows (fs_cache fs)\<rparr>)"

definition cache_invalidate :: "file_env \<Rightarrow> string \<Rightarrow> file_store \<Rightarrow> file_store" where
  "cache_invalidate env key fs =
     (if fe_cache_invalidate_down env key then fs else fs\<lparr>fs_cache := AList.delete key (fs_cache fs)\<rparr>)"

text \<open>\<open>_read_tier_rows\<close>: the rows read before the first object that cannot be.\<close>

fun read_objects ::
  "file_env \<Rightarrow> string \<Rightarrow> string \<Rightarrow> string \<Rightarrow> (string \<times> string \<times> stored_object) list \<Rightarrow> file_row list" where
  "read_objects env layer bucket tier [] = []"
| "read_objects env layer bucket tier ((key, filename, ob) # objs) =
     (if \<not> is_listable_md_object filename then read_objects env layer bucket tier objs
      else if fe_get_error env (bucket, key) then []
      else case ob_text ob of
        None \<Rightarrow> []
      | Some content \<Rightarrow>
          \<lparr>fr_file = filename, fr_content = content, fr_label = file_label layer filename content,
           fr_modified_ms = ob_modified_ms ob, fr_tier = tier\<rparr> # read_objects env layer bucket tier objs)"

definition read_tier_rows :: "file_env \<Rightarrow> object_store \<Rightarrow> string \<Rightarrow> string \<Rightarrow> string \<Rightarrow> string \<Rightarrow> file_row list" where
  "read_tier_rows env objs layer bucket p tier =
     (if fe_list_error env (bucket, p) then []
      else read_objects env layer bucket tier (list_layer_objects objs bucket p))"

definition cached_rows :: "file_env \<Rightarrow> string \<Rightarrow> file_row list \<Rightarrow> file_store \<Rightarrow> file_row list \<times> file_store" where
  "cached_rows env key fresh fs =
     (case cache_get env fs key of
        Some rows \<Rightarrow> (rows, fs)
      | None \<Rightarrow> (fresh, cache_set env key fresh fs))"

definition corpus_rows :: "file_env \<Rightarrow> string \<Rightarrow> file_store \<Rightarrow> file_row list \<times> file_store" where
  "corpus_rows env layer fs =
     cached_rows env (layer_list_cache_key layer)
       (read_tier_rows env (fs_objects fs) layer (fe_bucket env) (layer_prefix layer) ''corpus'') fs"

definition private_rows :: "file_env \<Rightarrow> string \<Rightarrow> string \<Rightarrow> file_store \<Rightarrow> file_row list \<times> file_store" where
  "private_rows env layer user_id fs =
     cached_rows env (layer_list_cache_key_private layer user_id)
       (read_tier_rows env (fs_objects fs) layer (fe_private_bucket env) (private_prefix layer user_id) ''private'') fs"

text \<open>Rows by file, the private ones over the shared ones.\<close>

definition merged_rows :: "file_env \<Rightarrow> string \<Rightarrow> string \<Rightarrow> file_store \<Rightarrow> file_row list \<times> file_store" where
  "merged_rows env layer user_id fs =
     (let (private, fs1) = private_rows env layer user_id fs;
          (corpus, fs2) = corpus_rows env layer fs1
      in (map snd (foldl (\<lambda>m r. AList.update (fr_file r) r m) [] (corpus @ private)), fs2))"

section \<open>The service\<close>

definition load_files :: "file_env \<Rightarrow> string \<Rightarrow> user_context \<Rightarrow> file_store \<Rightarrow> file_row list \<times> file_store" where
  "load_files env layer user fs = merged_rows env layer (uc_user_id user) fs"

definition search_keywords :: "string \<Rightarrow> string list" where
  "search_keywords query = filter (\<lambda>kw. length kw > 3) (py_words (py_lower query))"

definition matches_keywords :: "string \<Rightarrow> string list \<Rightarrow> file_row \<Rightarrow> bool" where
  "matches_keywords layer keywords r \<longleftrightarrow>
     (\<exists>kw \<in> set keywords. (layer = ''procedural'' \<and> py_contains (py_lower (fr_label r)) kw) \<or>
        py_contains (py_lower (fr_content r)) kw)"

definition search_files :: "file_env \<Rightarrow> string \<Rightarrow> user_context \<Rightarrow> string \<Rightarrow> file_store \<Rightarrow> file_row list \<times> file_store" where
  "search_files env layer user query fs =
     (let (rows, fs') = load_files env layer user fs; keywords = search_keywords query
      in (if keywords = [] then [] else filter (matches_keywords layer keywords) rows, fs'))"

text \<open>One object by key: a failed look-up of the private one falls back to the shared one.\<close>

definition fetch_object :: "file_env \<Rightarrow> object_store \<Rightarrow> object_key \<Rightarrow> string option" where
  "fetch_object env objs k =
     (if fe_get_error env k then None
      else case map_of objs k of None \<Rightarrow> None | Some ob \<Rightarrow> ob_text ob)"

definition private_object :: "file_env \<Rightarrow> string \<Rightarrow> user_context \<Rightarrow> string \<Rightarrow> object_key" where
  "private_object env layer user file = (fe_private_bucket env, private_prefix layer (uc_user_id user) @ file)"

definition corpus_object :: "file_env \<Rightarrow> string \<Rightarrow> string \<Rightarrow> object_key" where
  "corpus_object env layer file = (fe_bucket env, layer_prefix layer @ file)"

definition read_file :: "file_env \<Rightarrow> string \<Rightarrow> user_context \<Rightarrow> string \<Rightarrow> file_store \<Rightarrow> (string \<times> string) option" where
  "read_file env layer user file fs =
     (if \<not> valid_filename file then None
      else case fetch_object env (fs_objects fs) (private_object env layer user file) of
        Some content \<Rightarrow> Some (content, ''private'')
      | None \<Rightarrow> map_option (\<lambda>content. (content, ''corpus'')) (fetch_object env (fs_objects fs) (corpus_object env layer file)))"

datatype file_error = FileValueError | FileRuntimeError

definition write_file ::
  "file_env \<Rightarrow> string \<Rightarrow> user_context \<Rightarrow> string \<Rightarrow> string \<Rightarrow> file_store \<Rightarrow> (file_error, unit) res \<times> file_store" where
  "write_file env layer user file content fs =
     (let k = private_object env layer user file in
      if \<not> valid_filename file then (Inl FileValueError, fs)
      else if fe_put_error env k then (Inl FileRuntimeError, fs)
      else (Inr (), cache_invalidate env (layer_list_cache_key_private layer (uc_user_id user))
             (fs\<lparr>fs_objects := AList.update k \<lparr>ob_text = Some content, ob_modified_ms = Some (fe_now_ms env)\<rparr> (fs_objects fs)\<rparr>)))"

definition delete_file ::
  "file_env \<Rightarrow> string \<Rightarrow> user_context \<Rightarrow> string \<Rightarrow> file_store \<Rightarrow> (file_error, bool) res \<times> file_store" where
  "delete_file env layer user file fs =
     (let k = private_object env layer user file in
      if \<not> valid_filename file then (Inr False, fs)
      else if \<not> fe_stat_error env k \<and> map_of (fs_objects fs) k = None then (Inr False, fs)
      else if fe_remove_error env k then (Inl FileRuntimeError, fs)
      else (Inr True, cache_invalidate env (layer_list_cache_key_private layer (uc_user_id user))
             (fs\<lparr>fs_objects := AList.delete k (fs_objects fs)\<rparr>)))"

definition invalidate_corpus :: "file_env \<Rightarrow> string \<Rightarrow> file_store \<Rightarrow> file_store" where
  "invalidate_corpus env layer fs = cache_invalidate env (layer_list_cache_key layer) fs"

end
