(* ===== verification/Sessions.thy ===== *)
theory Sessions
  imports SemanticRoutes
begin

text \<open>
  Session memory, the ephemeral layer of a user's own uploads (\<open>src/audittrace/services/session_memory.py\<close>,
  \<open>services/session_gc_janitor.py\<close>, the listing of \<open>tools/memory_handlers.recall_attachments\<close>): the table
  \<open>session_memory_items\<close> with the row-level policy of migration 022, the service over it, its in-memory
  twin, and the janitor's sweep.

  The policy compares the owner of a row with the setting \<open>app.current_user_id\<close>, which the request's
  authentication binds and a background task does not; \<open>sn_bypass\<close> says that the role the server
  connects with is exempt from row-level policies. Rows with equal creation times come in an order
  the database does not promise; the model gives the older row first.
\<close>

section \<open>The table\<close>

record session_item =
  si_id :: string
  si_user_id :: string
  si_filename :: string
  si_content :: string
  si_size_bytes :: int
  si_created_at_ms :: int

record session_env =
  sn_bound :: "string option"
  sn_bypass :: bool
  sn_now_ms :: int
  sn_uuid :: string
  sn_write_fails :: bool

definition session_policy :: "session_env \<Rightarrow> session_item \<Rightarrow> sqlbool" where
  "session_policy env r =
     (if sn_bypass env then STrue else sql_eq (Some (si_user_id r)) (sn_bound env))"

definition session_widths_ok :: "session_item \<Rightarrow> bool" where
  "session_widths_ok r \<longleftrightarrow>
     fits 36 (Some (si_id r)) \<and> fits 36 (Some (si_user_id r)) \<and> fits 255 (Some (si_filename r)) \<and>
     si_size_bytes r < 2 ^ 31"

section \<open>The service\<close>

definition validate_session_filename :: "string \<Rightarrow> bool" where
  "validate_session_filename filename \<longleftrightarrow>
     filename \<noteq> [] \<and> \<not> (py_contains filename ''..'' \<or> CHR ''/'' \<in> set filename \<or> CHR 0x5C \<in> set filename)"

datatype session_error = SessionValueError | SessionRuntimeError

definition session_write ::
  "session_env \<Rightarrow> user_context \<Rightarrow> string \<Rightarrow> string \<Rightarrow> session_item list
    \<Rightarrow> (session_error, session_item) res \<times> session_item list" where
  "session_write env user filename content rows =
     (let r = \<lparr>si_id = sn_uuid env, si_user_id = uc_user_id user, si_filename = filename, si_content = content,
               si_size_bytes = utf8_length content, si_created_at_ms = sn_now_ms env\<rparr> in
      if \<not> validate_session_filename filename then (Inl SessionValueError, rows)
      else if sn_write_fails env \<or> \<not> session_widths_ok r \<or> sn_uuid env \<in> si_id ` set rows \<or>
              \<not> sql_holds (session_policy env r)
      then (Inl SessionRuntimeError, rows)
      else (Inr r, rows @ [r]))"

definition own_sessions :: "session_env \<Rightarrow> user_context \<Rightarrow> session_item list \<Rightarrow> session_item list" where
  "own_sessions env user rows =
     sort_key (\<lambda>r. - si_created_at_ms r)
       (sql_select (\<lambda>r. sql_and (session_policy env r) (sql_eq (Some (si_user_id r)) (Some (uc_user_id user)))) rows)"

definition session_read_own ::
  "session_env \<Rightarrow> user_context \<Rightarrow> string \<Rightarrow> session_item list \<Rightarrow> session_item option" where
  "session_read_own env user filename rows =
     (case filter (\<lambda>r. si_filename r = filename) (own_sessions env user rows) of [] \<Rightarrow> None | r # _ \<Rightarrow> Some r)"

definition session_list_own ::
  "session_env \<Rightarrow> user_context \<Rightarrow> nat \<Rightarrow> nat \<Rightarrow> session_item list \<Rightarrow> session_item list" where
  "session_list_own env user n offset rows =
     take (min (offset + n + 1) MAX_RECALL_WINDOW) (own_sessions env user rows)"

definition gc_victims :: "session_env \<Rightarrow> int \<Rightarrow> nat \<Rightarrow> session_item list \<Rightarrow> session_item list" where
  "gc_victims env older_than_ms n rows =
     take n (sort_key si_created_at_ms
       (sql_select (\<lambda>r. sql_and (session_policy env r) (sql_of (si_created_at_ms r < older_than_ms))) rows))"

definition gc_expired :: "session_env \<Rightarrow> int \<Rightarrow> nat \<Rightarrow> session_item list \<Rightarrow> nat \<times> session_item list" where
  "gc_expired env older_than_ms n rows =
     (let victims = gc_victims env older_than_ms n rows
      in if victims = [] then (0, rows)
         else (length victims,
               filter (\<lambda>r. \<not> sql_holds (sql_and (session_policy env r) (sql_of (si_id r \<in> si_id ` set victims)))) rows))"

section \<open>The in-memory twin\<close>

definition mock_session_write ::
  "session_env \<Rightarrow> user_context \<Rightarrow> string \<Rightarrow> string \<Rightarrow> session_item list
    \<Rightarrow> (session_error, session_item) res \<times> session_item list" where
  "mock_session_write env user filename content rows =
     (let r = \<lparr>si_id = sn_uuid env, si_user_id = uc_user_id user, si_filename = filename, si_content = content,
               si_size_bytes = utf8_length content, si_created_at_ms = sn_now_ms env\<rparr> in
      if \<not> validate_session_filename filename then (Inl SessionValueError, rows) else (Inr r, rows @ [r]))"

text \<open>\<open>max\<close> gives the first of several maxima.\<close>

definition mock_session_read_own :: "user_context \<Rightarrow> string \<Rightarrow> session_item list \<Rightarrow> session_item option" where
  "mock_session_read_own user filename rows =
     (case filter (\<lambda>r. si_user_id r = uc_user_id user \<and> si_filename r = filename) rows of
        [] \<Rightarrow> None
      | rs \<Rightarrow> Some (arg_min_list (\<lambda>r. - si_created_at_ms r) rs))"

definition mock_session_list_own :: "user_context \<Rightarrow> nat \<Rightarrow> nat \<Rightarrow> session_item list \<Rightarrow> session_item list" where
  "mock_session_list_own user n offset rows =
     take (min (offset + n + 1) MAX_RECALL_WINDOW)
       (sort_key (\<lambda>r. - si_created_at_ms r) (filter (\<lambda>r. si_user_id r = uc_user_id user) (rev rows)))"

definition mock_gc_expired :: "int \<Rightarrow> nat \<Rightarrow> session_item list \<Rightarrow> nat \<times> session_item list" where
  "mock_gc_expired older_than_ms n rows =
     (let victims = take n (sort_key si_created_at_ms (filter (\<lambda>r. si_created_at_ms r < older_than_ms) rows))
      in if victims = [] then (0, rows)
         else (length victims, filter (\<lambda>r. si_id r \<notin> si_id ` set victims) rows))"

section \<open>The listing of the recall tool\<close>

definition SNIPPET_LIMIT :: nat where "SNIPPET_LIMIT = 400"

record recalled_attachment =
  at_title :: string
  at_snippet :: string
  at_content_truncated :: bool
  at_source :: int

record attachment_page =
  ap_matches :: "recalled_attachment list"
  ap_total :: nat
  ap_has_more :: bool

definition attachment_of :: "session_item \<Rightarrow> recalled_attachment" where
  "attachment_of r =
     \<lparr>at_title = si_filename r, at_snippet = take SNIPPET_LIMIT (si_content r),
      at_content_truncated = (SNIPPET_LIMIT < length (si_content r)), at_source = si_created_at_ms r\<rparr>"

definition recall_attachments ::
  "session_env \<Rightarrow> user_context \<Rightarrow> int \<Rightarrow> nat \<Rightarrow> session_item list \<Rightarrow> attachment_page" where
  "recall_attachments env user n_raw offset rows =
     (let n = nat (max 1 (min n_raw 50)); window = session_list_own env user n offset rows
      in \<lparr>ap_matches = map attachment_of (take n (drop offset window)), ap_total = length window,
          ap_has_more = (offset + n < length window)\<rparr>)"

section \<open>The janitor\<close>

definition SESSION_GC_BATCH_SIZE :: nat where "SESSION_GC_BATCH_SIZE = 100"

lemma gc_victims_member:
  "v \<in> set (gc_victims env older n rows) \<Longrightarrow>
     v \<in> set rows \<and> sql_holds (session_policy env v) \<and> si_created_at_ms v < older"
  unfolding gc_victims_def by (drule in_set_takeD) (simp add: set_sql_select sql_simps)

lemma gc_expired_shrinks:
  assumes "0 < fst (gc_expired env older n rows)"
  shows "length (snd (gc_expired env older n rows)) < length rows"
proof -
  let ?vs = "gc_victims env older n rows"
  have ne: "?vs \<noteq> []" using assms by (auto simp: gc_expired_def)
  then obtain v where v: "v \<in> set ?vs" by (meson list.set_sel(1))
  have "length (filter (\<lambda>r. \<not> sql_holds (sql_and (session_policy env r) (sql_of (si_id r \<in> si_id ` set ?vs)))) rows) < length rows"
    using v gc_victims_member [OF v] by (intro length_filter_less [of v]) (auto simp: sql_simps)
  then show ?thesis using ne by (simp add: gc_expired_def Let_def)
qed

text \<open>\<open>_sweep_once\<close>: batches until one is not full.\<close>

function sweep_loop :: "session_env \<Rightarrow> int \<Rightarrow> nat \<Rightarrow> session_item list \<Rightarrow> nat \<times> session_item list" where
  "sweep_loop env cutoff acc rows =
     (case gc_expired env cutoff SESSION_GC_BATCH_SIZE rows of
        (deleted, rows') \<Rightarrow>
          if deleted < SESSION_GC_BATCH_SIZE then (acc + deleted, rows')
          else sweep_loop env cutoff (acc + deleted) rows')"
  by pat_completeness auto
termination
proof (relation "measure (\<lambda>(_, _, _, rows). length rows)")
  fix env cutoff acc rows deleted rows'
  assume "(deleted, rows') = gc_expired env cutoff SESSION_GC_BATCH_SIZE rows" "\<not> deleted < SESSION_GC_BATCH_SIZE"
  then have "0 < fst (gc_expired env cutoff SESSION_GC_BATCH_SIZE rows)"
      "rows' = snd (gc_expired env cutoff SESSION_GC_BATCH_SIZE rows)"
    by (auto simp: SESSION_GC_BATCH_SIZE_def dest: sym)
  then show "((env, cutoff, acc + deleted, rows'), (env, cutoff, acc, rows)) \<in> measure (\<lambda>(_, _, _, rows). length rows)"
    using gc_expired_shrinks by simp
qed simp

declare sweep_loop.simps [simp del]

definition sweep_once :: "session_env \<Rightarrow> int \<Rightarrow> session_item list \<Rightarrow> nat \<times> session_item list" where
  "sweep_once env retention_hours rows = sweep_loop env (sn_now_ms env - retention_hours * 3600 * 1000) 0 rows"

end
