(* ===== verification/LayerRoutes.thy ===== *)
theory LayerRoutes
  imports LayerFiles ListView Sessions
begin

text \<open>
  The routes of episodic and procedural memory (\<open>src/audittrace/routes/memory.py\<close>: create, list, read,
  update and delete, the same handlers for both layers, and the text uploads of
  \<open>upload_memory_file\<close>), over the files of the two buckets, the manifest, the session table, the vector
  collections and the audit rows. A route that fails keeps what it had written before the failure.

  The scope a route asks of its token is checked before the handler runs; only \<open>upload_memory_file\<close>
  checks it itself. A body is a JSON object whose title is a text or absent.
\<close>

section \<open>State\<close>

record memory_event =
  ev_user :: string
  ev_op :: string
  ev_layer :: string
  ev_collection :: "string option"
  ev_key :: string
  ev_detail :: "(string \<times> pyval) list"

record memory_state =
  ms_files :: file_store
  ms_table :: table
  ms_cols :: collections
  ms_sessions :: "session_item list"
  ms_events :: "memory_event list"

record memory_env =
  my_files :: file_env
  my_session :: session_env
  my_sem :: sem_env
  my_now :: int
  my_uid :: string
  my_audit_ok :: "nat \<Rightarrow> bool"

type_synonym 'a layer_answer = "(route_error, 'a) res \<times> memory_state"

section \<open>Names, tiers, errors\<close>

definition validate_filename_or_400 :: "string \<Rightarrow> (route_error, unit) res" where
  "validate_filename_or_400 filename =
     (if filename = [] \<or> \<not> py_endswith filename ''.md'' then Inl (Http 400)
      else if py_contains filename ''..'' \<or> CHR ''/'' \<in> set filename \<or> CHR 0x5C \<in> set filename then Inl (Http 400)
      else case check_logical filename of Inl _ \<Rightarrow> Inl (Http 400) | Inr _ \<Rightarrow> Inr ())"

definition strip_known_key_prefixes :: "string \<Rightarrow> string \<Rightarrow> string \<Rightarrow> string" where
  "strip_known_key_prefixes raw layer user_id =
     (let sub_prefix = user_id @ ''/'' @ layer @ ''/''; p = layer @ ''/'' in
      if py_startswith raw sub_prefix then drop (length sub_prefix) raw
      else if py_startswith raw p then drop (length p) raw
      else raw)"

definition reject_corpus_promotion_for :: "string \<Rightarrow> (route_error, unit) res" where
  "reject_corpus_promotion_for tier = (if tier = ''corpus'' then Inl (Http 400) else Inr ())"

text \<open>The handlers catch a refusal and the lost race; an update and a delete also a missing row.\<close>

definition refusal_http :: "manifest_error \<Rightarrow> route_error" where
  "refusal_http e = (if is_authorization_error e then Http 403 else Unhandled (ManifestExc e))"

fun create_http :: "manifest_error \<Rightarrow> route_error" where
  "create_http (ConcurrentManifestWriteError _ _) = Http 409"
| "create_http e = refusal_http e"

fun update_file_http :: "manifest_error \<Rightarrow> route_error" where
  "update_file_http (LookupError _ _) = Http 404"
| "update_file_http (RuntimeError _ _) = Http 409"
| "update_file_http e = create_http e"

fun delete_file_http :: "manifest_error \<Rightarrow> route_error" where
  "delete_file_http (LookupError _ _) = Http 404"
| "delete_file_http e = refusal_http e"

definition as_http :: "('e \<Rightarrow> route_error) \<Rightarrow> ('e, 'a) res \<Rightarrow> (route_error, 'a) res" where
  "as_http f r = (case r of Inl e \<Rightarrow> Inl (f e) | Inr x \<Rightarrow> Inr x)"

fun file_http :: "file_error \<Rightarrow> route_error" where
  "file_http FileValueError = Http 400"
| "file_http FileRuntimeError = Http 502"

fun session_http :: "session_error \<Rightarrow> route_error" where
  "session_http SessionValueError = Http 400"
| "session_http SessionRuntimeError = Http 502"

section \<open>Audit rows\<close>

definition memory_event_of ::
  "user_context \<Rightarrow> string \<Rightarrow> string \<Rightarrow> string option \<Rightarrow> string \<Rightarrow> (string \<times> pyval) list \<Rightarrow> memory_event" where
  "memory_event_of user op layer collection key detail =
     \<lparr>ev_user = uc_user_id user, ev_op = op, ev_layer = layer, ev_collection = collection, ev_key = key,
      ev_detail = detail\<rparr>"

text \<open>The rows of one request in their order: the first that cannot be stored is a 500.\<close>

fun emit_events :: "(nat \<Rightarrow> bool) \<Rightarrow> nat \<Rightarrow> memory_event list \<Rightarrow> memory_state \<Rightarrow> unit layer_answer" where
  "emit_events ok n [] st = (Inr (), st)"
| "emit_events ok n (e # es) st =
     (if ok n then emit_events ok (Suc n) es (st\<lparr>ms_events := ms_events st @ [e]\<rparr>) else (Inl (Http 500), st))"

definition write_events :: "user_context \<Rightarrow> string \<Rightarrow> string \<Rightarrow> string option \<Rightarrow> memory_event list" where
  "write_events user layer filename copied_from =
     (case copied_from of
        Some s \<Rightarrow>
          if s \<noteq> [] then
            [memory_event_of user ''write'' layer None filename [(''copied_from'', PStr s)],
             memory_event_of user ''delete'' layer None filename [(''reason'', PStr ''copy_forward'')]]
          else [memory_event_of user ''write'' layer None filename []]
      | None \<Rightarrow> [memory_event_of user ''write'' layer None filename []])"

definition answer_after ::
  "memory_env \<Rightarrow> memory_event list \<Rightarrow> 'a \<Rightarrow> memory_state \<Rightarrow> 'a layer_answer" where
  "answer_after env es x st =
     (case emit_events (my_audit_ok env) 0 es st of
        (Inl e, st') \<Rightarrow> (Inl e, st')
      | (Inr _, st') \<Rightarrow> (Inr x, st'))"

section \<open>Writes\<close>

definition file_fields :: "metadata \<Rightarrow> (string \<times> string) option" where
  "file_fields payload =
     (case (field payload ''filename'', field payload ''content'') of
        (PStr f, PStr c) \<Rightarrow> Some (f, c) | _ \<Rightarrow> None)"

definition create_file_checks ::
  "user_context \<Rightarrow> string \<Rightarrow> metadata \<Rightarrow> string option \<Rightarrow> table
    \<Rightarrow> (route_error, (string \<times> string) \<times> string) res" where
  "create_file_checks user layer payload promote tbl =
     res_bind (required 400 (file_fields payload)) (\<lambda>(f, c).
     res_bind (validate_filename_or_400 f) (\<lambda>_.
     res_bind (required 400 (resolve_requested_tier payload promote)) (\<lambda>tier.
     res_bind (reject_corpus_promotion_for tier) (\<lambda>_.
     res_bind (as_http refusal_http (authorize_write (get_entry tbl) user layer f tier False)) (\<lambda>_.
       Inr ((f, c), tier))))))"

text \<open>The end of a create or an update whose content is stored: the manifest row, then the audit rows.\<close>

definition record_file ::
  "memory_env \<Rightarrow> user_context \<Rightarrow> string \<Rightarrow> string \<Rightarrow> (manifest_error \<Rightarrow> route_error)
    \<Rightarrow> (manifest_error, table \<times> manifest_entry) res \<Rightarrow> memory_state \<Rightarrow> manifest_entry layer_answer" where
  "record_file env user layer f mapped recorded st =
     (case legacy_copy_forward_source (ms_table st) user layer f of
        Inl e \<Rightarrow> (Inl (Unhandled (ManifestExc e)), st)
      | Inr copied_from \<Rightarrow>
          (case as_http mapped recorded of
             Inl e \<Rightarrow> (Inl e, st)
           | Inr (tbl, en) \<Rightarrow> answer_after env (write_events user layer f copied_from) en (st\<lparr>ms_table := tbl\<rparr>)))"

definition create_file_route ::
  "memory_env \<Rightarrow> user_context \<Rightarrow> string \<Rightarrow> metadata \<Rightarrow> string option \<Rightarrow> string option \<Rightarrow> memory_state
    \<Rightarrow> manifest_entry layer_answer" where
  "create_file_route env user layer payload title promote st =
     (case create_file_checks user layer payload promote (ms_table st) of
        Inl e \<Rightarrow> (Inl e, st)
      | Inr ((f, c), tier) \<Rightarrow>
          (case write_file (my_files env) layer user f c (ms_files st) of
             (Inl e, fs) \<Rightarrow> (Inl (file_http e), st\<lparr>ms_files := fs\<rparr>)
           | (Inr _, fs) \<Rightarrow>
               record_file env user layer f create_http
                 (record_create (my_now env) (my_uid env) (ms_table st) layer f title (Some (utf8_length c))
                   (uc_user_id user) tier (corpus_write_authorized user None))
                 (st\<lparr>ms_files := fs\<rparr>)))"

definition update_file_checks ::
  "user_context \<Rightarrow> string \<Rightarrow> string \<Rightarrow> metadata \<Rightarrow> table \<Rightarrow> (route_error, string) res" where
  "update_file_checks user layer f payload tbl =
     res_bind (validate_filename_or_400 f) (\<lambda>_.
     res_bind (required 400 (case field payload ''content'' of PStr c \<Rightarrow> Some c | _ \<Rightarrow> None)) (\<lambda>c.
     res_bind (as_http refusal_http (authorize_write (get_entry tbl) user layer f ''private'' False)) (\<lambda>_. Inr c)))"

definition update_file_route ::
  "memory_env \<Rightarrow> user_context \<Rightarrow> string \<Rightarrow> string \<Rightarrow> metadata \<Rightarrow> string option \<Rightarrow> memory_state
    \<Rightarrow> manifest_entry layer_answer" where
  "update_file_route env user layer f payload title st =
     (case update_file_checks user layer f payload (ms_table st) of
        Inl e \<Rightarrow> (Inl e, st)
      | Inr c \<Rightarrow>
          (case write_file (my_files env) layer user f c (ms_files st) of
             (Inl e, fs) \<Rightarrow> (Inl (file_http e), st\<lparr>ms_files := fs\<rparr>)
           | (Inr _, fs) \<Rightarrow>
               record_file env user layer f update_file_http
                 (record_update (my_now env) (my_uid env) (ms_table st) layer f (Some (utf8_length c))
                   (uc_user_id user) title (corpus_write_authorized user None))
                 (st\<lparr>ms_files := fs\<rparr>)))"

definition delete_file_checks ::
  "user_context \<Rightarrow> string \<Rightarrow> string \<Rightarrow> bool \<Rightarrow> table \<Rightarrow> (route_error, unit) res" where
  "delete_file_checks user layer f hard tbl =
     res_bind (validate_filename_or_400 f) (\<lambda>_.
     res_bind (if hard \<and> ''audittrace:admin'' \<notin> set (uc_scopes user) \<and> \<not> uc_is_admin user
               then Inl (Http 403) else Inr ()) (\<lambda>_.
       as_http refusal_http (authorize_write (get_entry tbl) user layer f ''private'' False)))"

definition delete_file_route ::
  "memory_env \<Rightarrow> user_context \<Rightarrow> string \<Rightarrow> string \<Rightarrow> bool \<Rightarrow> memory_state \<Rightarrow> manifest_entry layer_answer" where
  "delete_file_route env user layer f hard st =
     (case res_bind (delete_file_checks user layer f hard (ms_table st)) (\<lambda>_.
             as_http delete_file_http (record_delete (my_now env) (ms_table st) layer f (uc_user_id user)
               (corpus_write_authorized user None))) of
        Inl e \<Rightarrow> (Inl e, st)
      | Inr (tbl, en) \<Rightarrow>
          let st1 = st\<lparr>ms_table := tbl\<rparr>;
              (purged, fs) = (if hard then delete_file (my_files env) layer user f (ms_files st1)
                              else (Inr False, ms_files st1)) in
          case purged of
            Inl e \<Rightarrow> (Inl (Http 502), st1\<lparr>ms_files := fs\<rparr>)
          | Inr _ \<Rightarrow> answer_after env [memory_event_of user ''delete'' layer None f [(''hard'', PBool hard)]] en
                       (st1\<lparr>ms_files := fs\<rparr>))"

section \<open>Reads\<close>

record file_answer =
  fa_content :: string
  fa_tier :: string
  fa_manifest :: "manifest_entry option"

definition manifest_visible :: "manifest_entry \<Rightarrow> user_context \<Rightarrow> bool" where
  "manifest_visible e user \<longleftrightarrow> uc_is_admin user \<or> me_created_by e = uc_user_id user \<or> me_tier e = ''corpus''"

definition read_file_route ::
  "memory_env \<Rightarrow> user_context \<Rightarrow> string \<Rightarrow> string \<Rightarrow> memory_state \<Rightarrow> (route_error, file_answer) res" where
  "read_file_route env user layer raw st =
     (let f = strip_known_key_prefixes raw layer (uc_user_id user) in
      res_bind (validate_filename_or_400 f) (\<lambda>_.
      res_bind (required 404 (read_file (my_files env) layer user f (ms_files st))) (\<lambda>(content, tier).
      res_bind (as_http (\<lambda>e. Unhandled (ManifestExc e)) (resolve_read_entry (ms_table st) layer f user)) (\<lambda>en.
        Inr \<lparr>fa_content = content, fa_tier = tier,
              fa_manifest = (case en of Some e \<Rightarrow> if manifest_visible e user then Some e else None | None \<Rightarrow> None)\<rparr>))))"

definition discovered_file :: "file_row \<Rightarrow> list_item" where
  "discovered_file r =
     \<lparr>li_entry = None, li_key = fr_file r,
      li_title = PStr (if fr_label r \<noteq> [] then fr_label r else fr_file r),
      li_size = Some (utf8_length (fr_content r)), li_created = fr_modified_ms r, li_modified = fr_modified_ms r,
      li_created_by = PNone, li_deleted_at = None, li_discovered = True, li_tier = PStr (fr_tier r),
      li_chunk_count = None\<rparr>"

definition merge_layer_items_with_s3 ::
  "memory_env \<Rightarrow> string \<Rightarrow> manifest_entry list \<Rightarrow> user_context \<Rightarrow> memory_state
    \<Rightarrow> (manifest_error, list_item list \<times> file_store) res" where
  "merge_layer_items_with_s3 env layer visible_entries user st =
     res_bind (list_for_layer (ms_table st) layer True (Some user)) (\<lambda>all_known.
       let (docs, fs) = load_files (my_files env) layer user (ms_files st)
       in Inr (entries_to_dicts visible_entries @
               map discovered_file (filter (\<lambda>r. fr_file r \<noteq> [] \<and> fr_file r \<notin> entry_keys all_known) docs), fs))"

definition list_file_route ::
  "memory_env \<Rightarrow> user_context \<Rightarrow> string \<Rightarrow> bool \<Rightarrow> string \<Rightarrow> string \<Rightarrow> nat \<Rightarrow> nat \<Rightarrow> memory_state
    \<Rightarrow> (list_item list \<times> nat) layer_answer" where
  "list_file_route env user layer include_deleted srt order n offset st =
     (case res_bind (list_for_layer (ms_table st) layer include_deleted (Some user)) (\<lambda>entries.
             merge_layer_items_with_s3 env layer entries user st) of
        Inl e \<Rightarrow> (Inl (Unhandled (ManifestExc e)), st)
      | Inr (items, fs) \<Rightarrow> (Inr (list_page srt order n offset items), st\<lparr>ms_files := fs\<rparr>))"

text \<open>The routes of procedural memory.\<close>

definition create_procedural ::
  "memory_env \<Rightarrow> user_context \<Rightarrow> metadata \<Rightarrow> string option \<Rightarrow> string option \<Rightarrow> memory_state \<Rightarrow> manifest_entry layer_answer"
where
  "create_procedural env user payload title promote st = create_file_route env user ''procedural'' payload title promote st"

definition list_procedural ::
  "memory_env \<Rightarrow> user_context \<Rightarrow> bool \<Rightarrow> string \<Rightarrow> string \<Rightarrow> nat \<Rightarrow> nat \<Rightarrow> memory_state
    \<Rightarrow> (list_item list \<times> nat) layer_answer" where
  "list_procedural env user include_deleted srt order n offset st =
     list_file_route env user ''procedural'' include_deleted srt order n offset st"

definition read_procedural :: "memory_env \<Rightarrow> user_context \<Rightarrow> string \<Rightarrow> memory_state \<Rightarrow> (route_error, file_answer) res" where
  "read_procedural env user raw st = read_file_route env user ''procedural'' raw st"

definition update_procedural ::
  "memory_env \<Rightarrow> user_context \<Rightarrow> string \<Rightarrow> metadata \<Rightarrow> string option \<Rightarrow> memory_state \<Rightarrow> manifest_entry layer_answer" where
  "update_procedural env user f payload title st = update_file_route env user ''procedural'' f payload title st"

definition delete_procedural ::
  "memory_env \<Rightarrow> user_context \<Rightarrow> string \<Rightarrow> bool \<Rightarrow> memory_state \<Rightarrow> manifest_entry layer_answer" where
  "delete_procedural env user f hard st = delete_file_route env user ''procedural'' f hard st"

section \<open>Uploads of text\<close>

definition write_layer_private ::
  "memory_env \<Rightarrow> string \<Rightarrow> user_context \<Rightarrow> string \<Rightarrow> string \<Rightarrow> memory_state \<Rightarrow> unit layer_answer" where
  "write_layer_private env layer user f content st =
     (if layer = ''session'' then
        case session_write (my_session env) user f content (ms_sessions st) of
          (Inl e, rows) \<Rightarrow> (Inl (session_http e), st\<lparr>ms_sessions := rows\<rparr>)
        | (Inr _, rows) \<Rightarrow> (Inr (), st\<lparr>ms_sessions := rows\<rparr>)
      else
        case write_file (my_files env) layer user f content (ms_files st) of
          (Inl e, fs) \<Rightarrow> (Inl (file_http e), st\<lparr>ms_files := fs\<rparr>)
        | (Inr _, fs) \<Rightarrow> (Inr (), st\<lparr>ms_files := fs\<rparr>))"

text \<open>
  \<open>upload_memory_file\<close>: a PDF for a durable layer is handed to the upload of the scan pipeline
  (\<open>handle_pdf_upload\<close>) with its name and bytes.
\<close>

datatype upload_answer =
    Uploaded "string option" string nat
  | HandedToQuarantine string string

definition upload_memory_file ::
  "memory_env \<Rightarrow> user_context \<Rightarrow> string \<Rightarrow> string option \<Rightarrow> string option \<Rightarrow> string option \<Rightarrow> string \<Rightarrow> string option
    \<Rightarrow> memory_state \<Rightarrow> upload_answer layer_answer" where
  "upload_memory_file env user layer filename file_name claimed content promote st =
     (let target = (if filename \<noteq> None \<and> filename \<noteq> Some [] then the filename
                    else if file_name \<noteq> None \<and> file_name \<noteq> Some [] then the file_name else ''unnamed'');
          key = uc_user_id user @ ''/'' @ layer @ ''/'' @ target in
      if \<not> require_layer_write user layer then (Inl (Http 403), st)
      else if is_pdf_upload claimed content
      then if layer = ''session'' then (Inl (Http 400), st) else (Inr (HandedToQuarantine target content), st)
      else
      case res_bind (required 400 (resolve_requested_tier [] promote)) (\<lambda>tier.
           res_bind (reject_corpus_promotion_for tier) (\<lambda>_. required 400 (utf8_decode content))) of
        Inl e \<Rightarrow> (Inl e, st)
      | Inr txt \<Rightarrow>
          (case write_layer_private env layer user target txt st of
             (Inl e, st1) \<Rightarrow> (Inl e, st1)
           | (Inr _, st1) \<Rightarrow>
               if layer = ''session''
               then answer_after env [memory_event_of user ''write'' layer None target [(''tier'', PStr ''private'')]]
                      (Uploaded None key (length content)) st1
               else (Inr (Uploaded (Some (fe_private_bucket (my_files env))) key (length content)), st1)))"

end
