(* ===== verification/Promote.thy ===== *)
theory Promote
  imports LayerRoutes
begin

text \<open>
  Keeping a session upload (\<open>src/audittrace/routes/memory_promote.py\<close>): a copy of the caller's own session
  document, under a header that says where it came from, into the private tier of episodic or semantic
  memory, through the same choke, storage and manifest as every other private write.
\<close>

section \<open>The request\<close>

definition DURABLE_PROMOTE_LAYERS :: "string list" where
  "DURABLE_PROMOTE_LAYERS = [''episodic'', ''semantic'']"

definition DEFAULT_PROMOTE_TARGET_LAYER :: string where "DEFAULT_PROMOTE_TARGET_LAYER = ''episodic''"

definition DEFAULT_PROMOTE_COLLECTION :: string where "DEFAULT_PROMOTE_COLLECTION = ''semantic''"

definition validate_target_layer :: "pyval \<Rightarrow> (route_error, string) res" where
  "validate_target_layer raw =
     (case (if raw \<noteq> PNone then raw else PStr DEFAULT_PROMOTE_TARGET_LAYER) of
        PStr l \<Rightarrow> if l \<in> set DURABLE_PROMOTE_LAYERS then Inr l else Inl (Http 422)
      | _ \<Rightarrow> Inl (Http 422))"

definition require_durable_write_scope :: "user_context \<Rightarrow> string \<Rightarrow> (route_error, unit) res" where
  "require_durable_write_scope user target_layer =
     (if uc_is_admin user \<or> ''audittrace:admin'' \<in> set (uc_scopes user) \<or>
         ''memory:'' @ target_layer @ '':write'' \<in> set (uc_scopes user)
      then Inr () else Inl (Http 403))"

definition namespaced_semantic_document_id :: "string \<Rightarrow> string \<Rightarrow> string" where
  "namespaced_semantic_document_id user_id filename = user_id @ ''__'' @ filename"

definition durable_episodic_filename :: "string \<Rightarrow> string" where
  "durable_episodic_filename f = (if py_endswith f ''.md'' then f else f @ ''.md'')"

definition line_feed :: string where "line_feed = [CHR 0x0A]"

definition provenance_header :: "string \<Rightarrow> int \<Rightarrow> string \<Rightarrow> string" where
  "provenance_header session_key promoted_at_ms promoted_by =
     ''<!-- promoted_from: '' @ session_key @ '' -->'' @ line_feed @
     ''<!-- promoted_at_ms: '' @ py_str_int promoted_at_ms @ '' -->'' @ line_feed @
     ''<!-- promoted_by: '' @ promoted_by @ '' -->'' @ line_feed"

section \<open>The two targets\<close>

definition promote_to_episodic ::
  "memory_env \<Rightarrow> user_context \<Rightarrow> string \<Rightarrow> string \<Rightarrow> string \<Rightarrow> memory_state
    \<Rightarrow> (string \<times> string option) layer_answer" where
  "promote_to_episodic env user filename body title st =
     (let f = durable_episodic_filename filename in
      case res_bind (as_http (\<lambda>_. Http 400) (check_logical f)) (\<lambda>_.
             as_http refusal_http (authorize_write (get_entry (ms_table st)) user ''episodic'' f ''private'' False)) of
        Inl e \<Rightarrow> (Inl e, st)
      | Inr _ \<Rightarrow>
          (case write_file (my_files env) ''episodic'' user f body (ms_files st) of
             (Inl e, fs) \<Rightarrow> (Inl (file_http e), st\<lparr>ms_files := fs\<rparr>)
           | (Inr _, fs) \<Rightarrow>
               let st1 = st\<lparr>ms_files := fs\<rparr> in
               case legacy_copy_forward_source (ms_table st1) user ''episodic'' f of
                 Inl e \<Rightarrow> (Inl (Unhandled (ManifestExc e)), st1)
               | Inr copied_from \<Rightarrow>
                   (case as_http create_http
                           (record_create (my_now env) (my_uid env) (ms_table st1) ''episodic'' f (Some title)
                             (Some (utf8_length body)) (uc_user_id user) ''private'' (corpus_write_authorized user None)) of
                      Inl e \<Rightarrow> (Inl e, st1)
                    | Inr (tbl, _) \<Rightarrow> (Inr (f, copied_from), st1\<lparr>ms_table := tbl\<rparr>))))"

definition promote_to_semantic ::
  "memory_env \<Rightarrow> user_context \<Rightarrow> string \<Rightarrow> string \<Rightarrow> string \<Rightarrow> pyval \<Rightarrow> metadata \<Rightarrow> memory_state
    \<Rightarrow> (string \<times> string \<times> string option) layer_answer" where
  "promote_to_semantic env user filename body title collection extra st =
     (case (if collection = PNone then PStr DEFAULT_PROMOTE_COLLECTION else collection) of
        PStr c \<Rightarrow>
          if c = [] then (Inl (Http 400), st) else
          let d = namespaced_semantic_document_id (uc_user_id user) filename in
          (case res_bind (http (semantic_logical_key c d)) (\<lambda>key.
                 res_bind (http (authorize_write (get_entry (ms_table st)) user ''semantic'' key ''private'' False)) (\<lambda>_.
                   case upsert (my_sem env) (ms_cols st) user c d body extra ''private'' of
                     Inl e \<Rightarrow> Inl (upsert_http e)
                   | Inr cols \<Rightarrow> Inr (key, cols))) of
             Inl e \<Rightarrow> (Inl e, st)
           | Inr (key, cols) \<Rightarrow>
               let st1 = st\<lparr>ms_cols := cols\<rparr> in
               case http (res_bind (legacy_copy_forward_source (ms_table st1) user ''semantic'' key) (\<lambda>copied.
                      res_bind (record_create (my_now env) (my_uid env) (ms_table st1) ''semantic'' key (Some title)
                          (Some (utf8_length body)) (uc_user_id user) ''private'' (corpus_write_authorized user (Some c)))
                        (\<lambda>(tbl, _). Inr (copied, tbl)))) of
                 Inl e \<Rightarrow> (Inl e, st1)
               | Inr (copied, tbl) \<Rightarrow>
                   (Inr (key, c, copied),
                    st1\<lparr>ms_table := tbl,
                        ms_cols := drop_copied_forward_chunk (my_sem env) (ms_cols st1) user c d copied\<rparr>))
      | _ \<Rightarrow> (Inl (Http 400), st))"

section \<open>The route\<close>

record promote_answer =
  pa_target_layer :: string
  pa_key :: string
  pa_promoted_from :: string
  pa_promoted_at_ms :: int
  pa_promoted_by :: string

definition promote_events ::
  "user_context \<Rightarrow> string \<Rightarrow> string option \<Rightarrow> string \<Rightarrow> string option \<Rightarrow> string \<Rightarrow> int \<Rightarrow> memory_event list" where
  "promote_events user layer collection key copied_from session_key at_ms =
     (let copied = (case copied_from of None \<Rightarrow> [] | Some s \<Rightarrow> s) in
      memory_event_of user ''write'' layer collection key
        ([(''tier'', PStr ''private''), (''promoted_from'', PStr session_key), (''promoted_at_ms'', PInt at_ms),
          (''promoted_by'', PStr (uc_user_id user))] @
         (if copied \<noteq> [] then [(''copied_from'', PStr copied)] else [])) #
      (if copied \<noteq> [] then [memory_event_of user ''delete'' layer collection key [(''reason'', PStr ''copy_forward'')]]
       else []))"

definition promote_checks ::
  "memory_env \<Rightarrow> metadata \<Rightarrow> user_context \<Rightarrow> memory_state \<Rightarrow> (route_error, string \<times> string \<times> session_item) res" where
  "promote_checks env payload user st =
     res_bind (required 400 (case field payload ''filename'' of PStr f \<Rightarrow> if f \<noteq> [] then Some f else None | _ \<Rightarrow> None)) (\<lambda>f.
     res_bind (validate_target_layer (field payload ''target_layer'')) (\<lambda>layer.
     res_bind (require_durable_write_scope user layer) (\<lambda>_.
     res_bind (required 404 (session_read_own (my_session env) user f (ms_sessions st))) (\<lambda>doc.
       Inr (f, layer, doc)))))"

definition promote_session_to_durable ::
  "memory_env \<Rightarrow> metadata \<Rightarrow> user_context \<Rightarrow> memory_state \<Rightarrow> promote_answer layer_answer" where
  "promote_session_to_durable env payload user st =
     (case promote_checks env payload user st of
        Inl e \<Rightarrow> (Inl e, st)
      | Inr (f, layer, doc) \<Rightarrow>
          let by_user = uc_user_id user; at_ms = my_now env; from_key = uc_user_id user @ ''/session/'' @ f;
              body = provenance_header from_key at_ms by_user @ si_content doc;
              title = (case field payload ''title'' of PStr t \<Rightarrow> if t \<noteq> [] then t else f | _ \<Rightarrow> f) in
          case (if layer = ''episodic''
                then (case promote_to_episodic env user f body title st of
                        (Inl e, st1) \<Rightarrow> (Inl e, st1)
                      | (Inr (k, copied), st1) \<Rightarrow> (Inr (k, None, copied), st1))
                else (case promote_to_semantic env user f body title (field payload ''collection'')
                             [(''promoted_from'', PStr from_key), (''promoted_at_ms'', PInt at_ms),
                              (''promoted_by'', PStr by_user)] st of
                        (Inl e, st1) \<Rightarrow> (Inl e, st1)
                      | (Inr (k, c, copied), st1) \<Rightarrow> (Inr (k, Some c, copied), st1))) of
            (Inl e, st1) \<Rightarrow> (Inl e, st1)
          | (Inr (k, collection, copied), st1) \<Rightarrow>
              answer_after env (promote_events user layer collection k copied from_key at_ms)
                \<lparr>pa_target_layer = layer, pa_key = k, pa_promoted_from = from_key, pa_promoted_at_ms = at_ms,
                 pa_promoted_by = by_user\<rparr> st1)"

end
