(* ===== verification/LayerFilesProps.thy ===== *)
theory LayerFilesProps
  imports LayerFiles ListView
begin

text \<open>
  Properties of the file layers: the cache of listings never shows more or less than the objects
  do, what one user writes or deletes changes nothing another one sees, and a file written is read back
  and listed over the shared one of its name.
\<close>

section \<open>Keys\<close>

definition FILE_LAYERS :: "string list" where
  "FILE_LAYERS = [''episodic'', ''procedural'']"

lemma takeWhile_no_slash: "CHR ''/'' \<notin> set u \<Longrightarrow> takeWhile (\<lambda>c. c \<noteq> CHR ''/'') (u @ CHR ''/'' # x) = u"
  by (induction u) auto

lemma slash_cut:
  "CHR ''/'' \<notin> set u \<Longrightarrow> CHR ''/'' \<notin> set v \<Longrightarrow> u @ CHR ''/'' # x = v @ CHR ''/'' # y \<longleftrightarrow> u = v \<and> x = y"
  by (metis append_same_eq list.inject same_append_eq takeWhile_no_slash)

lemma layer_no_slash: "layer \<in> set FILE_LAYERS \<Longrightarrow> CHR ''/'' \<notin> set layer"
  by (auto simp: FILE_LAYERS_def)

lemma private_prefix_cover:
  assumes "sub_ok u" and "sub_ok v" and "layer \<in> set FILE_LAYERS" and "layer' \<in> set FILE_LAYERS"
    and "py_startswith (private_prefix layer u @ f) (private_prefix layer' v)"
  shows "u = v \<and> layer = layer'"
proof -
  obtain t where "u @ CHR ''/'' # layer @ CHR ''/'' # f = v @ CHR ''/'' # layer' @ CHR ''/'' # t"
    using assms(5) by (auto simp: py_startswith_iff private_prefix_def layer_prefix_def)
  then show ?thesis
    using assms by (simp add: slash_cut sub_ok_no_slash layer_no_slash)
qed

lemma cache_keys:
  assumes "layer \<in> set FILE_LAYERS" and "layer' \<in> set FILE_LAYERS"
  shows "layer_list_cache_key_private layer u = layer_list_cache_key_private layer' v \<longleftrightarrow> layer = layer' \<and> u = v"
    "layer_list_cache_key layer \<noteq> layer_list_cache_key_private layer' v"
    "layer_list_cache_key_private layer' v \<noteq> layer_list_cache_key layer"
    "layer_list_cache_key layer = layer_list_cache_key layer' \<longleftrightarrow> layer = layer'"
  using assms by (auto simp: FILE_LAYERS_def layer_list_cache_key_def layer_list_cache_key_private_def)

section \<open>Listings and writes\<close>

lemma filter_key_update:
  "\<not> P k \<Longrightarrow> filter (\<lambda>(k, _). P k) (AList.update k v xs) = filter (\<lambda>(k, _). P k) xs"
  by (induction xs) auto

lemma filter_key_delete:
  "\<not> P k \<Longrightarrow> filter (\<lambda>(k, _). P k) (AList.delete k xs) = filter (\<lambda>(k, _). P k) xs"
  by (induction xs) auto

definition covers :: "string \<Rightarrow> string \<Rightarrow> object_key \<Rightarrow> bool" where
  "covers bucket p k \<longleftrightarrow> fst k = bucket \<and> py_startswith (snd k) p"

lemma list_layer_objects_only:
  assumes "filter (\<lambda>(k, _). covers bucket p k) objs = filter (\<lambda>(k, _). covers bucket p k) objs'"
  shows "list_layer_objects objs bucket p = list_layer_objects objs' bucket p"
proof -
  have "filter (\<lambda>((b, key), _). b = bucket \<and> py_startswith key p \<and> last_component key \<noteq> []) xs =
      filter (\<lambda>((b, key), _). last_component key \<noteq> []) (filter (\<lambda>(k, _). covers bucket p k) xs)" for xs :: object_store
    by (auto simp: covers_def intro: filter_cong)
  then show ?thesis by (simp only: list_layer_objects_def assms)
qed

lemma fresh_update:
  "\<not> covers bucket p k \<Longrightarrow> read_tier_rows env (AList.update k ob objs) layer bucket p tier = read_tier_rows env objs layer bucket p tier"
  "\<not> covers bucket p k \<Longrightarrow> read_tier_rows env (AList.delete k objs) layer bucket p tier = read_tier_rows env objs layer bucket p tier"
  unfolding read_tier_rows_def
  by (rule arg_cong2 [where f = "\<lambda>l l'. if fe_list_error env (bucket, p) then l else read_objects env layer bucket tier l'", OF refl],
      rule list_layer_objects_only, erule filter_key_update filter_key_delete)+

section \<open>The cache and the objects\<close>

definition fresh_private :: "file_env \<Rightarrow> object_store \<Rightarrow> string \<Rightarrow> string \<Rightarrow> file_row list" where
  "fresh_private env objs layer user_id =
     read_tier_rows env objs layer (fe_private_bucket env) (private_prefix layer user_id) ''private''"

definition fresh_corpus :: "file_env \<Rightarrow> object_store \<Rightarrow> string \<Rightarrow> file_row list" where
  "fresh_corpus env objs layer = read_tier_rows env objs layer (fe_bucket env) (layer_prefix layer) ''corpus''"

text \<open>Every listing in the cache is the one a fresh read would give.\<close>

definition cache_coherent :: "file_env \<Rightarrow> file_store \<Rightarrow> bool" where
  "cache_coherent env fs \<longleftrightarrow>
     (\<forall>layer \<in> set FILE_LAYERS.
        (\<forall>rows. map_of (fs_cache fs) (layer_list_cache_key layer) = Some rows \<longrightarrow> rows = fresh_corpus env (fs_objects fs) layer) \<and>
        (\<forall>u rows. sub_ok u \<longrightarrow> map_of (fs_cache fs) (layer_list_cache_key_private layer u) = Some rows \<longrightarrow>
           rows = fresh_private env (fs_objects fs) layer u))"

definition merge_files :: "file_row list \<Rightarrow> file_row list" where
  "merge_files rows = map snd (foldl (\<lambda>m r. AList.update (fr_file r) r m) [] rows)"

text \<open>What the users of the layers do, and the expiry of an entry.\<close>

datatype file_op =
    FLoad user_context string
  | FWrite user_context string string string
  | FDelete user_context string string
  | FInvalidate string
  | FExpire string

fun exec_file :: "file_env \<Rightarrow> file_op \<Rightarrow> file_store \<Rightarrow> file_store" where
  "exec_file env (FLoad user layer) fs = snd (load_files env layer user fs)"
| "exec_file env (FWrite user layer file content) fs = snd (write_file env layer user file content fs)"
| "exec_file env (FDelete user layer file) fs = snd (delete_file env layer user file fs)"
| "exec_file env (FInvalidate layer) fs = invalidate_corpus env layer fs"
| "exec_file env (FExpire key) fs = fs\<lparr>fs_cache := AList.delete key (fs_cache fs)\<rparr>"

fun op_ok :: "file_op \<Rightarrow> bool" where
  "op_ok (FLoad user layer) \<longleftrightarrow> layer \<in> set FILE_LAYERS \<and> sub_ok (uc_user_id user)"
| "op_ok (FWrite user layer file content) \<longleftrightarrow> layer \<in> set FILE_LAYERS \<and> sub_ok (uc_user_id user)"
| "op_ok (FDelete user layer file) \<longleftrightarrow> layer \<in> set FILE_LAYERS \<and> sub_ok (uc_user_id user)"
| "op_ok (FInvalidate layer) \<longleftrightarrow> layer \<in> set FILE_LAYERS"
| "op_ok (FExpire key) \<longleftrightarrow> True"

lemma cached_rows_coherent:
  assumes "\<And>rows. map_of (fs_cache fs) key = Some rows \<Longrightarrow> rows = fresh"
  shows "fst (cached_rows env key fresh fs) = fresh"
    "snd (cached_rows env key fresh fs) = fs \<or>
     snd (cached_rows env key fresh fs) = fs\<lparr>fs_cache := AList.update key fresh (fs_cache fs)\<rparr>"
  using assms by (auto simp: cached_rows_def cache_get_def cache_set_def split: option.splits if_splits)

lemma coherent_add:
  assumes "cache_coherent env fs" and "layer \<in> set FILE_LAYERS"
  shows "cache_coherent env (fs\<lparr>fs_cache := AList.update (layer_list_cache_key layer) (fresh_corpus env (fs_objects fs) layer) (fs_cache fs)\<rparr>)"
    "cache_coherent env (fs\<lparr>fs_cache := AList.update (layer_list_cache_key_private layer u)
       (fresh_private env (fs_objects fs) layer u) (fs_cache fs)\<rparr>)"
  using assms by (auto simp: cache_coherent_def update_conv' cache_keys split: if_splits)

lemma private_rows_coherent:
  assumes "cache_coherent env fs" and "layer \<in> set FILE_LAYERS" and "sub_ok u"
  shows "fst (private_rows env layer u fs) = fresh_private env (fs_objects fs) layer u"
    "fs_objects (snd (private_rows env layer u fs)) = fs_objects fs"
    "cache_coherent env (snd (private_rows env layer u fs))"
proof -
  have "rows = fresh_private env (fs_objects fs) layer u"
    if "map_of (fs_cache fs) (layer_list_cache_key_private layer u) = Some rows" for rows
    using assms that by (auto simp: cache_coherent_def)
  note facts = cached_rows_coherent [where env = env and fs = fs and key = "layer_list_cache_key_private layer u", OF this]
  moreover have "private_rows env layer u fs =
      cached_rows env (layer_list_cache_key_private layer u) (fresh_private env (fs_objects fs) layer u) fs"
    by (simp add: private_rows_def fresh_private_def)
  ultimately show "fst (private_rows env layer u fs) = fresh_private env (fs_objects fs) layer u"
    "fs_objects (snd (private_rows env layer u fs)) = fs_objects fs"
    "cache_coherent env (snd (private_rows env layer u fs))"
    using coherent_add(2) [OF assms(1,2), of u] assms(1) by auto
qed

lemma corpus_rows_coherent:
  assumes "cache_coherent env fs" and "layer \<in> set FILE_LAYERS"
  shows "fst (corpus_rows env layer fs) = fresh_corpus env (fs_objects fs) layer"
    "fs_objects (snd (corpus_rows env layer fs)) = fs_objects fs"
    "cache_coherent env (snd (corpus_rows env layer fs))"
proof -
  have "rows = fresh_corpus env (fs_objects fs) layer"
    if "map_of (fs_cache fs) (layer_list_cache_key layer) = Some rows" for rows
    using assms that by (auto simp: cache_coherent_def)
  note facts = cached_rows_coherent [where env = env and fs = fs and key = "layer_list_cache_key layer", OF this]
  moreover have "corpus_rows env layer fs =
      cached_rows env (layer_list_cache_key layer) (fresh_corpus env (fs_objects fs) layer) fs"
    by (simp add: corpus_rows_def fresh_corpus_def)
  ultimately show "fst (corpus_rows env layer fs) = fresh_corpus env (fs_objects fs) layer"
    "fs_objects (snd (corpus_rows env layer fs)) = fs_objects fs"
    "cache_coherent env (snd (corpus_rows env layer fs))"
    using coherent_add(1) [OF assms] assms(1) by auto
qed

lemma load_coherent:
  assumes "cache_coherent env fs" and "layer \<in> set FILE_LAYERS" and "sub_ok (uc_user_id user)"
  shows "fst (load_files env layer user fs) =
      merge_files (fresh_corpus env (fs_objects fs) layer @ fresh_private env (fs_objects fs) layer (uc_user_id user))"
    "fs_objects (snd (load_files env layer user fs)) = fs_objects fs"
    "cache_coherent env (snd (load_files env layer user fs))"
proof -
  note p = private_rows_coherent [OF assms]
  note c = corpus_rows_coherent [OF p(3) assms(2)]
  show "fst (load_files env layer user fs) =
      merge_files (fresh_corpus env (fs_objects fs) layer @ fresh_private env (fs_objects fs) layer (uc_user_id user))"
    "fs_objects (snd (load_files env layer user fs)) = fs_objects fs"
    "cache_coherent env (snd (load_files env layer user fs))"
    using p c by (simp_all add: load_files_def merged_rows_def merge_files_def split_beta)
qed

text \<open>A write or a removal of one object keeps every other listing.\<close>

definition only_object :: "object_key \<Rightarrow> object_store \<Rightarrow> object_store \<Rightarrow> bool" where
  "only_object k objs objs' \<longleftrightarrow> objs' = AList.delete k objs \<or> (\<exists>ob. objs' = AList.update k ob objs)"

lemma fresh_other:
  assumes "only_object (private_object env layer user file) objs objs'" and "fe_private_bucket env \<noteq> fe_bucket env"
    and "layer \<in> set FILE_LAYERS" and "sub_ok (uc_user_id user)"
  shows "fresh_corpus env objs' layer' = fresh_corpus env objs layer'"
    "sub_ok v \<Longrightarrow> layer' \<in> set FILE_LAYERS \<Longrightarrow> v \<noteq> uc_user_id user \<or> layer' \<noteq> layer \<Longrightarrow>
       fresh_private env objs' layer' v = fresh_private env objs layer' v"
proof -
  have "\<not> covers (fe_bucket env) p (private_object env layer user file)" for p
    using assms(2) by (simp add: covers_def private_object_def)
  then show "fresh_corpus env objs' layer' = fresh_corpus env objs layer'"
    using assms(1) by (auto simp: only_object_def fresh_corpus_def fresh_update)
  assume "sub_ok v" "layer' \<in> set FILE_LAYERS" "v \<noteq> uc_user_id user \<or> layer' \<noteq> layer"
  then have "\<not> covers (fe_private_bucket env) (private_prefix layer' v) (private_object env layer user file)"
    using private_prefix_cover [OF assms(4) _ assms(3)] by (auto simp: covers_def private_object_def)
  then show "fresh_private env objs' layer' v = fresh_private env objs layer' v"
    using assms(1) by (auto simp: only_object_def fresh_private_def fresh_update)
qed

lemma coherent_after_write:
  assumes "cache_coherent env fs" and "only_object (private_object env layer user file) (fs_objects fs) objs'"
    and "fe_private_bucket env \<noteq> fe_bucket env" and "layer \<in> set FILE_LAYERS" and "sub_ok (uc_user_id user)"
    and "\<not> fe_cache_invalidate_down env (layer_list_cache_key_private layer (uc_user_id user))"
  shows "cache_coherent env (cache_invalidate env (layer_list_cache_key_private layer (uc_user_id user)) (fs\<lparr>fs_objects := objs'\<rparr>))"
proof -
  let ?k = "layer_list_cache_key_private layer (uc_user_id user)"
  have del: "map_of (AList.delete ?k (fs_cache fs)) k = (if k = ?k then None else map_of (fs_cache fs) k)" for k
    by (simp add: delete_conv')
  show ?thesis
    unfolding cache_coherent_def cache_invalidate_def
  proof (intro ballI conjI allI impI)
    fix layer' rows assume l: "layer' \<in> set FILE_LAYERS"
    assume "map_of (fs_cache (if fe_cache_invalidate_down env ?k then fs\<lparr>fs_objects := objs'\<rparr>
        else fs\<lparr>fs_objects := objs', fs_cache := AList.delete ?k (fs_cache (fs\<lparr>fs_objects := objs'\<rparr>))\<rparr>)) (layer_list_cache_key layer') = Some rows"
    then have "map_of (fs_cache fs) (layer_list_cache_key layer') = Some rows" using assms(6) del by (simp split: if_splits)
    with assms(1) l have "rows = fresh_corpus env (fs_objects fs) layer'" by (auto simp: cache_coherent_def)
    then show "rows = fresh_corpus env (fs_objects (if fe_cache_invalidate_down env ?k then fs\<lparr>fs_objects := objs'\<rparr>
        else fs\<lparr>fs_objects := objs', fs_cache := AList.delete ?k (fs_cache (fs\<lparr>fs_objects := objs'\<rparr>))\<rparr>)) layer'"
      using fresh_other(1) [OF assms(2-5)] by simp
  next
    fix layer' v rows assume l: "layer' \<in> set FILE_LAYERS" "sub_ok v"
    assume "map_of (fs_cache (if fe_cache_invalidate_down env ?k then fs\<lparr>fs_objects := objs'\<rparr>
        else fs\<lparr>fs_objects := objs', fs_cache := AList.delete ?k (fs_cache (fs\<lparr>fs_objects := objs'\<rparr>))\<rparr>)) (layer_list_cache_key_private layer' v) = Some rows"
    then have "map_of (fs_cache fs) (layer_list_cache_key_private layer' v) = Some rows" "v \<noteq> uc_user_id user \<or> layer' \<noteq> layer"
      using assms(6) del by (auto split: if_splits)
    with assms(1) l have "rows = fresh_private env (fs_objects fs) layer' v" "v \<noteq> uc_user_id user \<or> layer' \<noteq> layer"
      by (auto simp: cache_coherent_def)
    then show "rows = fresh_private env (fs_objects (if fe_cache_invalidate_down env ?k then fs\<lparr>fs_objects := objs'\<rparr>
        else fs\<lparr>fs_objects := objs', fs_cache := AList.delete ?k (fs_cache (fs\<lparr>fs_objects := objs'\<rparr>))\<rparr>)) layer' v"
      using fresh_other(2) [OF assms(2-5) l(2,1)] by simp
  qed
qed

lemma write_file_cases:
  "write_file env layer user file content fs = (r, fs') \<Longrightarrow>
     (fs' = fs \<and> r \<noteq> Inr ()) \<or>
     (r = Inr () \<and> valid_filename file \<and>
        fs' = cache_invalidate env (layer_list_cache_key_private layer (uc_user_id user))
          (fs\<lparr>fs_objects := AList.update (private_object env layer user file)
             \<lparr>ob_text = Some content, ob_modified_ms = Some (fe_now_ms env)\<rparr> (fs_objects fs)\<rparr>))"
  by (auto simp: write_file_def Let_def split: if_splits)

lemma delete_file_cases:
  "delete_file env layer user file fs = (r, fs') \<Longrightarrow>
     (fs' = fs \<and> r \<noteq> Inr True) \<or>
     (r = Inr True \<and> fs' = cache_invalidate env (layer_list_cache_key_private layer (uc_user_id user))
          (fs\<lparr>fs_objects := AList.delete (private_object env layer user file) (fs_objects fs)\<rparr>))"
  by (auto simp: delete_file_def Let_def split: if_splits)

lemma exec_file_coherent:
  assumes "cache_coherent env fs" and "op_ok p" and "fe_private_bucket env \<noteq> fe_bucket env"
    and "\<And>k. \<not> fe_cache_invalidate_down env k"
  shows "cache_coherent env (exec_file env p fs)"
proof (cases p)
  case (FLoad user layer)
  then show ?thesis using assms load_coherent(3) by simp
next
  case (FWrite user layer f content)
  obtain r fs' where "write_file env layer user f content fs = (r, fs')" by fastforce
  from write_file_cases [OF this] this show ?thesis
    using assms FWrite coherent_after_write [of env fs layer user]
    by (auto simp: only_object_def)
next
  case (FDelete user layer f)
  obtain r fs' where "delete_file env layer user f fs = (r, fs')" by fastforce
  from delete_file_cases [OF this] this show ?thesis
    using assms FDelete coherent_after_write [of env fs layer user]
    by (auto simp: only_object_def)
next
  case (FInvalidate layer)
  then show ?thesis using assms(1)
    by (auto simp: invalidate_corpus_def cache_invalidate_def cache_coherent_def delete_conv' split: if_splits)
next
  case (FExpire key)
  then show ?thesis using assms(1) by (auto simp: cache_coherent_def delete_conv' split: if_splits)
qed

section \<open>The listing after any run\<close>

lemma run_files_coherent:
  assumes "list_all op_ok ops" and "fe_private_bucket env \<noteq> fe_bucket env" and "\<And>k. \<not> fe_cache_invalidate_down env k"
    and "cache_coherent env fs"
  shows "cache_coherent env (fold (exec_file env) ops fs)"
  using assms(1,4)
proof (induction ops arbitrary: fs)
  case (Cons p ops)
  then show ?case using exec_file_coherent [OF _ _ assms(2,3), of fs p] by simp
qed simp

lemma empty_cache_coherent: "fs_cache fs = [] \<Longrightarrow> cache_coherent env fs"
  by (simp add: cache_coherent_def)


section \<open>Other users\<close>

fun by_another :: "string \<Rightarrow> file_op \<Rightarrow> bool" where
  "by_another u (FWrite user layer f content) \<longleftrightarrow> uc_user_id user \<noteq> u"
| "by_another u (FDelete user layer f) \<longleftrightarrow> uc_user_id user \<noteq> u"
| "by_another u p \<longleftrightarrow> True"

lemma private_object_other:
  "sub_ok (uc_user_id v) \<Longrightarrow> sub_ok (uc_user_id user) \<Longrightarrow> layer \<in> set FILE_LAYERS \<Longrightarrow> layer' \<in> set FILE_LAYERS \<Longrightarrow>
     uc_user_id v \<noteq> uc_user_id user \<Longrightarrow> private_object env layer v f \<noteq> private_object env layer' user g"
  using private_prefix_cover [of "uc_user_id v" "uc_user_id user" layer layer' f]
  by (auto simp: private_object_def)

lemma exec_other:
  assumes "cache_coherent env fs" and "op_ok p" and "by_another (uc_user_id user) p" and "fe_private_bucket env \<noteq> fe_bucket env"
    and "layer \<in> set FILE_LAYERS" and "sub_ok (uc_user_id user)"
  shows "fresh_corpus env (fs_objects (exec_file env p fs)) layer = fresh_corpus env (fs_objects fs) layer \<and>
    fresh_private env (fs_objects (exec_file env p fs)) layer (uc_user_id user) = fresh_private env (fs_objects fs) layer (uc_user_id user) \<and>
    read_file env layer user g (exec_file env p fs) = read_file env layer user g fs"
proof -
  have one: "fresh_corpus env objs' layer = fresh_corpus env (fs_objects fs) layer \<and>
      fresh_private env objs' layer (uc_user_id user) = fresh_private env (fs_objects fs) layer (uc_user_id user) \<and>
      read_file env layer user g (fs\<lparr>fs_objects := objs'\<rparr>) = read_file env layer user g fs"
    if o: "only_object (private_object env l v f) (fs_objects fs) objs'" "l \<in> set FILE_LAYERS" "sub_ok (uc_user_id v)"
      "uc_user_id v \<noteq> uc_user_id user" for l v f objs'
  proof -
    have k: "private_object env l v f \<noteq> private_object env layer user g" "private_object env l v f \<noteq> corpus_object env layer g"
      using private_object_other [OF o(3) assms(6) o(2) assms(5) o(4)] assms(4) by (simp_all add: private_object_def corpus_object_def)
    have "map_of objs' (private_object env layer user g) = map_of (fs_objects fs) (private_object env layer user g)"
      "map_of objs' (corpus_object env layer g) = map_of (fs_objects fs) (corpus_object env layer g)"
      using o(1) k by (auto simp: only_object_def update_conv' delete_conv')
    then have "read_file env layer user g (fs\<lparr>fs_objects := objs'\<rparr>) = read_file env layer user g fs"
      by (simp add: read_file_def fetch_object_def split: option.split)
    then show ?thesis using fresh_other [OF o(1) assms(4) o(2,3)] assms(5,6) o(4) by metis
  qed
  have same: "read_file env layer user g s = read_file env layer user g s'" if "fs_objects s = fs_objects s'" for s s'
    unfolding read_file_def that ..
  have objs: "fs_objects (cache_invalidate env k s) = fs_objects s" for k s by (simp add: cache_invalidate_def)
  have inv: "read_file env layer user g (cache_invalidate env k s) = read_file env layer user g s" for k s
    by (rule same) (rule objs)
  have put: "fresh_corpus env (fs_objects (cache_invalidate env k (fs\<lparr>fs_objects := objs'\<rparr>))) layer = fresh_corpus env (fs_objects fs) layer \<and>
      fresh_private env (fs_objects (cache_invalidate env k (fs\<lparr>fs_objects := objs'\<rparr>))) layer (uc_user_id user) =
        fresh_private env (fs_objects fs) layer (uc_user_id user) \<and>
      read_file env layer user g (cache_invalidate env k (fs\<lparr>fs_objects := objs'\<rparr>)) = read_file env layer user g fs"
    if "only_object (private_object env l v f) (fs_objects fs) objs'" "l \<in> set FILE_LAYERS" "sub_ok (uc_user_id v)"
      "uc_user_id v \<noteq> uc_user_id user" for l v f objs' k
    using one [OF that] by (simp add: objs inv)
  show ?thesis
  proof (cases p)
    case (FLoad v l)
    then have "fs_objects (exec_file env p fs) = fs_objects fs" using assms(1,2) load_coherent(2) by simp
    then show ?thesis using same by metis
  next
    case (FWrite v l f content)
    obtain r fs' where w: "write_file env l v f content fs = (r, fs')" by fastforce
    then have e: "exec_file env p fs = fs'" using FWrite by simp
    from write_file_cases [OF w] show ?thesis
    proof (elim disjE conjE)
      assume "fs' = fs"
      then show ?thesis using e by simp
    next
      assume w: "fs' = cache_invalidate env (layer_list_cache_key_private l (uc_user_id v))
          (fs\<lparr>fs_objects := AList.update (private_object env l v f)
             \<lparr>ob_text = Some content, ob_modified_ms = Some (fe_now_ms env)\<rparr> (fs_objects fs)\<rparr>)"
      show ?thesis unfolding e w by (rule put [of l v f]) (use FWrite assms(2,3) in \<open>auto simp: only_object_def\<close>)
    qed
  next
    case (FDelete v l f)
    obtain r fs' where w: "delete_file env l v f fs = (r, fs')" by fastforce
    then have e: "exec_file env p fs = fs'" using FDelete by simp
    from delete_file_cases [OF w] show ?thesis
    proof (elim disjE conjE)
      assume "fs' = fs"
      then show ?thesis using e by simp
    next
      assume w: "fs' = cache_invalidate env (layer_list_cache_key_private l (uc_user_id v))
          (fs\<lparr>fs_objects := AList.delete (private_object env l v f) (fs_objects fs)\<rparr>)"
      show ?thesis unfolding e w by (rule put [of l v f]) (use FDelete assms(2,3) in \<open>auto simp: only_object_def\<close>)
    qed
  next
    case (FInvalidate l)
    then show ?thesis by (simp add: invalidate_corpus_def objs inv)
  next
    case (FExpire key)
    then have "fs_objects (exec_file env p fs) = fs_objects fs" by simp
    then show ?thesis using same by metis
  qed
qed

text \<open>
  Whatever other users load, write and delete in either layer, in any number, a user's listing, its
  searches and its reads by name stay the same.
\<close>

lemma others_files_invisible:
  assumes "list_all op_ok ops" and "list_all (by_another (uc_user_id user)) ops" and "fe_private_bucket env \<noteq> fe_bucket env"
    and "\<And>k. \<not> fe_cache_invalidate_down env k" and "fs_cache fs = []"
    and "layer \<in> set FILE_LAYERS" and "sub_ok (uc_user_id user)" and "fs' = fold (exec_file env) ops fs"
  shows "fst (load_files env layer user fs') = fst (load_files env layer user fs) \<and>
    fst (search_files env layer user query fs') = fst (search_files env layer user query fs) \<and>
    read_file env layer user g fs' = read_file env layer user g fs"
proof -
  have "cache_coherent env fs' \<and> fresh_corpus env (fs_objects fs') layer = fresh_corpus env (fs_objects s) layer \<and>
      fresh_private env (fs_objects fs') layer (uc_user_id user) = fresh_private env (fs_objects s) layer (uc_user_id user) \<and>
      read_file env layer user g fs' = read_file env layer user g s"
    if "cache_coherent env s" "fs' = fold (exec_file env) ops s" "list_all op_ok ops" "list_all (by_another (uc_user_id user)) ops" for s ops
    using that
  proof (induction ops arbitrary: s)
    case (Cons p ops)
    then have "cache_coherent env (exec_file env p s)" using exec_file_coherent [OF _ _ assms(3,4)] by simp
    with Cons exec_other [OF Cons.prems(1) _ _ assms(3,6,7), of p g] show ?case by simp
  qed simp
  from this [OF empty_cache_coherent [OF assms(5)] assms(8,1,2)]
  have facts: "cache_coherent env fs'" "fresh_corpus env (fs_objects fs') layer = fresh_corpus env (fs_objects fs) layer"
    "fresh_private env (fs_objects fs') layer (uc_user_id user) = fresh_private env (fs_objects fs) layer (uc_user_id user)"
    "read_file env layer user g fs' = read_file env layer user g fs" by blast+
  then have "fst (load_files env layer user fs') = fst (load_files env layer user fs)"
    using load_coherent(1) [OF _ assms(6,7)] empty_cache_coherent [OF assms(5)] by simp
  then show ?thesis using facts(4) by (simp add: search_files_def split_beta Let_def)
qed

section \<open>Listings and reads by name\<close>

lemma map_of_merge:
  "map_of (foldl (\<lambda>m r. AList.update (fr_file r) r m) [] rows) f = map_of (rev (map (\<lambda>r. (fr_file r, r)) rows)) f"
  by (induction rows rule: rev_induct) (auto simp: update_conv')

lemma merge_distinct: "distinct (map fst (foldl (\<lambda>m r. AList.update (fr_file r) r m) [] rows))"
proof (induction rows rule: rev_induct)
  case (snoc r rows)
  then show ?case unfolding foldl_append foldl.simps by (rule distinct_update)
qed simp

lemma merge_member: "r \<in> set (merge_files rows) \<longleftrightarrow> map_of (rev (map (\<lambda>r. (fr_file r, r)) rows)) (fr_file r) = Some r"
proof
  let ?m = "foldl (\<lambda>m r. AList.update (fr_file r) r m) [] rows"
  assume "r \<in> set (merge_files rows)"
  then obtain f where f: "(f, r) \<in> set ?m" by (auto simp: merge_files_def)
  then have m: "map_of ?m f = Some r" by (rule map_of_is_SomeI [OF merge_distinct])
  then have "(f, r) \<in> set (rev (map (\<lambda>r. (fr_file r, r)) rows))" unfolding map_of_merge by (rule map_of_SomeD)
  then have "f = fr_file r" by auto
  with m show "map_of (rev (map (\<lambda>r. (fr_file r, r)) rows)) (fr_file r) = Some r" by (simp add: map_of_merge)
next
  assume "map_of (rev (map (\<lambda>r. (fr_file r, r)) rows)) (fr_file r) = Some r"
  then have "(fr_file r, r) \<in> set (foldl (\<lambda>m r. AList.update (fr_file r) r m) [] rows)"
    unfolding map_of_merge [symmetric] by (rule map_of_SomeD)
  then show "r \<in> set (merge_files rows)"
    unfolding merge_files_def set_map by (rule image_eqI [rotated]) simp
qed

text \<open>A tier whose objects can all be listed and read, lie directly under its prefix and have names a read accepts.\<close>

definition readable_tier :: "file_env \<Rightarrow> object_store \<Rightarrow> string \<Rightarrow> string \<Rightarrow> bool" where
  "readable_tier env objs bucket p \<longleftrightarrow>
     \<not> fe_list_error env (bucket, p) \<and>
     (\<forall>(k, ob) \<in> set objs. covers bucket p k \<longrightarrow>
        \<not> fe_get_error env k \<and> ob_text ob \<noteq> None \<and> valid_filename (drop (length p) (snd k)))"

lemma valid_no_slash: "valid_filename f \<Longrightarrow> CHR ''/'' \<notin> set f"
  by (simp add: valid_filename_def)

definition row_of_object :: "string \<Rightarrow> string \<Rightarrow> string \<times> string \<times> stored_object \<Rightarrow> file_row" where
  "row_of_object layer tier x =
     (case x of (_, f, ob) \<Rightarrow>
        \<lparr>fr_file = f, fr_content = the (ob_text ob), fr_label = file_label layer f (the (ob_text ob)),
         fr_modified_ms = ob_modified_ms ob, fr_tier = tier\<rparr>)"

lemma read_objects_all:
  assumes "\<And>key f ob. (key, f, ob) \<in> set xs \<Longrightarrow> is_listable_md_object f \<and> \<not> fe_get_error env (bucket, key) \<and> ob_text ob \<noteq> None"
  shows "read_objects env layer bucket tier xs = map (row_of_object layer tier) xs"
  using assms
proof (induction xs)
  case (Cons x xs)
  obtain key f ob where x: "x = (key, f, ob)" by (cases x)
  have "is_listable_md_object f \<and> \<not> fe_get_error env (bucket, key) \<and> ob_text ob \<noteq> None"
    by (rule Cons.prems) (simp add: x)
  moreover have "read_objects env layer bucket tier xs = map (row_of_object layer tier) xs"
    by (rule Cons.IH) (rule Cons.prems, simp)
  ultimately show ?case using x by (auto simp: row_of_object_def)
qed simp

lemma readable_rows:
  assumes "readable_tier env objs bucket (p @ ''/'')" and "distinct (map fst objs)"
  shows "r \<in> set (read_tier_rows env objs layer bucket (p @ ''/'') tier) \<longleftrightarrow>
    valid_filename (fr_file r) \<and> (\<exists>ob content. map_of objs (bucket, p @ ''/'' @ fr_file r) = Some ob \<and>
       ob_text ob = Some content \<and>
       r = \<lparr>fr_file = fr_file r, fr_content = content, fr_label = file_label layer (fr_file r) content,
            fr_modified_ms = ob_modified_ms ob, fr_tier = tier\<rparr>)"
proof -
  have listed: "(key, f, ob) \<in> set (list_layer_objects objs bucket (p @ ''/'')) \<longleftrightarrow>
      valid_filename f \<and> key = p @ ''/'' @ f \<and> map_of objs (bucket, key) = Some ob" for key f ob
  proof
    assume "(key, f, ob) \<in> set (list_layer_objects objs bucket (p @ ''/''))"
    then have o: "((bucket, key), ob) \<in> set objs" "py_startswith key (p @ ''/'')" "f = last_component key"
      by (auto simp: list_layer_objects_def)
    then obtain g where g: "key = p @ ''/'' @ g" by (auto simp: py_startswith_iff)
    have "valid_filename g" using assms(1) o(1,2) g by (fastforce simp: readable_tier_def covers_def)
    moreover have "f = g" using o(3) g last_component_append [OF valid_no_slash [OF calculation]] by simp
    ultimately show "valid_filename f \<and> key = p @ ''/'' @ f \<and> map_of objs (bucket, key) = Some ob"
      using g o(1) assms(2) by simp
  next
    assume a: "valid_filename f \<and> key = p @ ''/'' @ f \<and> map_of objs (bucket, key) = Some ob"
    then have "((bucket, key), ob) \<in> set objs" "py_startswith key (p @ ''/'')" "last_component key = f" "f \<noteq> []"
      using last_component_append [OF valid_no_slash, of f p] by (auto simp: py_startswith_iff valid_filename_def dest: map_of_SomeD)
    then show "(key, f, ob) \<in> set (list_layer_objects objs bucket (p @ ''/''))"
      by (force simp: list_layer_objects_def)
  qed
  have ok: "is_listable_md_object f \<and> \<not> fe_get_error env (bucket, key) \<and> ob_text ob \<noteq> None"
    if "(key, f, ob) \<in> set (list_layer_objects objs bucket (p @ ''/''))" for key f ob
  proof -
    have o: "valid_filename f" "((bucket, key), ob) \<in> set objs" "py_startswith key (p @ ''/'')"
      using that unfolding listed by (auto simp: py_startswith_iff dest: map_of_SomeD)
    then have "\<not> fe_get_error env (bucket, key) \<and> ob_text ob \<noteq> None"
      using assms(1) by (fastforce simp: readable_tier_def covers_def)
    then show ?thesis using o(1) by (simp add: is_listable_md_object_def valid_filename_def)
  qed
  have rows: "set (read_tier_rows env objs layer bucket (p @ ''/'') tier) =
      row_of_object layer tier ` set (list_layer_objects objs bucket (p @ ''/''))"
    using assms(1) read_objects_all [OF ok] by (simp add: read_tier_rows_def readable_tier_def)
  show ?thesis
  proof
    assume "r \<in> set (read_tier_rows env objs layer bucket (p @ ''/'') tier)"
    then obtain key f ob where o: "(key, f, ob) \<in> set (list_layer_objects objs bucket (p @ ''/''))"
      "r = row_of_object layer tier (key, f, ob)" unfolding rows by auto
    then obtain content where "ob_text ob = Some content" using ok by blast
    with o listed [of key f ob] show "valid_filename (fr_file r) \<and> (\<exists>ob content. map_of objs (bucket, p @ ''/'' @ fr_file r) = Some ob \<and>
       ob_text ob = Some content \<and>
       r = \<lparr>fr_file = fr_file r, fr_content = content, fr_label = file_label layer (fr_file r) content,
            fr_modified_ms = ob_modified_ms ob, fr_tier = tier\<rparr>)"
      by (auto simp: row_of_object_def)
  next
    assume "valid_filename (fr_file r) \<and> (\<exists>ob content. map_of objs (bucket, p @ ''/'' @ fr_file r) = Some ob \<and>
       ob_text ob = Some content \<and>
       r = \<lparr>fr_file = fr_file r, fr_content = content, fr_label = file_label layer (fr_file r) content,
            fr_modified_ms = ob_modified_ms ob, fr_tier = tier\<rparr>)"
    then obtain ob content where o: "valid_filename (fr_file r)" "map_of objs (bucket, p @ ''/'' @ fr_file r) = Some ob"
      "ob_text ob = Some content"
      "r = \<lparr>fr_file = fr_file r, fr_content = content, fr_label = file_label layer (fr_file r) content,
            fr_modified_ms = ob_modified_ms ob, fr_tier = tier\<rparr>" by blast
    then have "(p @ ''/'' @ fr_file r, fr_file r, ob) \<in> set (list_layer_objects objs bucket (p @ ''/''))"
      using listed by blast
    moreover have "r = row_of_object layer tier (p @ ''/'' @ fr_file r, fr_file r, ob)"
      using o(3,4) by (simp add: row_of_object_def)
    ultimately show "r \<in> set (read_tier_rows env objs layer bucket (p @ ''/'') tier)" unfolding rows by blast
  qed
qed

lemma map_of_rev_files:
  assumes "map_of (rev (map (\<lambda>r. (fr_file r, r)) rows)) f = Some r"
  shows "r \<in> set rows \<and> fr_file r = f"
  using map_of_SomeD [OF assms] by auto

lemma map_of_rev_files_None:
  "map_of (rev (map (\<lambda>r. (fr_file r, r)) rows)) f = None \<longleftrightarrow> f \<notin> fr_file ` set rows"
  by (force simp: map_of_eq_None_iff)

definition last_row :: "file_row list \<Rightarrow> string \<Rightarrow> file_row option" where
  "last_row rows f = map_of (rev (map (\<lambda>r. (fr_file r, r)) rows)) f"

lemma last_row_append: "last_row (xs @ ys) f = (case last_row ys f of None \<Rightarrow> last_row xs f | Some r \<Rightarrow> Some r)"
  by (simp add: last_row_def map_add_def split: option.split)

lemma merged_last: "r \<in> set (merge_files rows) \<and> fr_file r = f \<longleftrightarrow> last_row rows f = Some r"
  unfolding merge_member last_row_def using map_of_rev_files [of rows f r] by auto

lemma last_row_Some:
  assumes "\<And>r r'. r \<in> set rows \<Longrightarrow> r' \<in> set rows \<Longrightarrow> fr_file r = f \<Longrightarrow> fr_file r' = f \<Longrightarrow> r = r'"
  shows "last_row rows f = Some r \<longleftrightarrow> r \<in> set rows \<and> fr_file r = f"
proof
  assume "last_row rows f = Some r"
  then show "r \<in> set rows \<and> fr_file r = f" unfolding last_row_def by (rule map_of_rev_files)
next
  assume r: "r \<in> set rows \<and> fr_file r = f"
  then have "last_row rows f \<noteq> None" unfolding last_row_def map_of_rev_files_None by blast
  then obtain r' where r': "last_row rows f = Some r'" by blast
  then have "r' \<in> set rows \<and> fr_file r' = f" unfolding last_row_def by (rule map_of_rev_files)
  with assms r r' show "last_row rows f = Some r" by blast
qed

text \<open>A fresh listing of a readable tier holds a file exactly when a read finds it, with its text.\<close>

lemma tier_lookup:
  assumes ready: "readable_tier env objs b (p @ ''/'')" and "distinct (map fst objs)"
    and R: "R = read_tier_rows env objs layer b (p @ ''/'') tr"
    and get: "get = (if valid_filename f then fetch_object env objs (b, p @ ''/'' @ f) else None)"
  shows "map_option (\<lambda>r. (fr_content r, fr_tier r)) (last_row R f) = map_option (\<lambda>t. (t, tr)) get"
proof -
  note rows = readable_rows [OF assms(1,2), of _ layer tr, folded R]
  have fetch: "fetch_object env objs (b, p @ ''/'' @ f) = (case map_of objs (b, p @ ''/'' @ f) of None \<Rightarrow> None | Some ob \<Rightarrow> ob_text ob)"
  proof (cases "map_of objs (b, p @ ''/'' @ f)")
    case (Some ob)
    then have "((b, p @ ''/'' @ f), ob) \<in> set objs" by (rule map_of_SomeD)
    moreover have "covers b (p @ ''/'') (b, p @ ''/'' @ f)" by (simp add: covers_def py_startswith_iff)
    ultimately have "\<not> fe_get_error env (b, p @ ''/'' @ f)" using ready by (fastforce simp: readable_tier_def)
    then show ?thesis by (simp add: fetch_object_def)
  qed (simp add: fetch_object_def)
  have unique: "r = r'" if "r \<in> set R" "r' \<in> set R" "fr_file r = f" "fr_file r' = f" for r r'
    using that unfolding rows by auto
  have found: "last_row R f = Some r \<longleftrightarrow> r \<in> set R \<and> fr_file r = f" for r
    by (rule last_row_Some) (rule unique)
  show ?thesis
  proof (cases get)
    case None
    have "last_row R f \<noteq> Some r" for r
      using None unfolding found rows get fetch by (auto split: if_splits)
    then show ?thesis using None by (cases "last_row R f") auto
  next
    case (Some t)
    then obtain ob where ob: "valid_filename f" "map_of objs (b, p @ ''/'' @ f) = Some ob" "ob_text ob = Some t"
      unfolding get fetch by (auto split: option.splits if_splits)
    let ?r = "\<lparr>fr_file = f, fr_content = t, fr_label = file_label layer f t, fr_modified_ms = ob_modified_ms ob, fr_tier = tr\<rparr>"
    have "?r \<in> set R" unfolding rows using ob by simp
    then have "last_row R f = Some ?r" unfolding found by simp
    then show ?thesis using Some by simp
  qed
qed

text \<open>
  When every object of the two prefixes can be listed and read, lies directly under its prefix and has
  a name a read accepts, the listing and the reads by name agree: the listed files are those a read
  finds, each with the text and the tier the read answers, a private file in place of the shared
  one of its name.
\<close>

lemma listing_reads_agree:
  assumes "fs_cache fs = []" and "layer \<in> set FILE_LAYERS" and "sub_ok (uc_user_id user)" and "distinct (map fst (fs_objects fs))"
    and "readable_tier env (fs_objects fs) (fe_private_bucket env) (private_prefix layer (uc_user_id user))"
    and "readable_tier env (fs_objects fs) (fe_bucket env) (layer_prefix layer)"
  shows "read_file env layer user f fs = Some (t, tier) \<longleftrightarrow>
    (\<exists>r \<in> set (fst (load_files env layer user fs)). fr_file r = f \<and> fr_content r = t \<and> fr_tier r = tier)"
proof -
  let ?P = "fresh_private env (fs_objects fs) layer (uc_user_id user)" and ?C = "fresh_corpus env (fs_objects fs) layer"
  let ?get = "\<lambda>k. if valid_filename f then fetch_object env (fs_objects fs) k else None"
  have pp: "private_prefix layer (uc_user_id user) = (uc_user_id user @ ''/'' @ layer) @ ''/''" and pc: "layer_prefix layer = layer @ ''/''"
    by (simp_all add: private_prefix_def layer_prefix_def)
  have P: "map_option (\<lambda>r. (fr_content r, fr_tier r)) (last_row ?P f) = map_option (\<lambda>t. (t, ''private'')) (?get (private_object env layer user f))"
    by (rule tier_lookup [OF assms(5) [unfolded pp] assms(4)]) (simp_all add: fresh_private_def private_object_def pp)
  have C: "map_option (\<lambda>r. (fr_content r, fr_tier r)) (last_row ?C f) = map_option (\<lambda>t. (t, ''corpus'')) (?get (corpus_object env layer f))"
    by (rule tier_lookup [OF assms(6) [unfolded pc] assms(4)]) (simp_all add: fresh_corpus_def corpus_object_def pc)
  have "r \<in> set (fst (load_files env layer user fs)) \<and> fr_file r = f \<longleftrightarrow> last_row (?C @ ?P) f = Some r" for r
    unfolding load_coherent(1) [OF empty_cache_coherent [OF assms(1)] assms(2,3)] by (rule merged_last)
  then have "(\<exists>r \<in> set (fst (load_files env layer user fs)). fr_file r = f \<and> fr_content r = t \<and> fr_tier r = tier) \<longleftrightarrow>
      map_option (\<lambda>r. (fr_content r, fr_tier r)) (last_row (?C @ ?P) f) = Some (t, tier)"
    by auto
  also have "\<dots> \<longleftrightarrow> read_file env layer user f fs = Some (t, tier)"
    using P C
    by (cases "fetch_object env (fs_objects fs) (private_object env layer user f)";
        cases "fetch_object env (fs_objects fs) (corpus_object env layer f)")
      (auto simp: last_row_append read_file_def split: option.splits if_splits)
  finally show ?thesis by simp
qed

section \<open>Two ways the cache goes wrong\<close>

text \<open>
  A listing that fails is cached like one that succeeds: the shared files are gone until the entry expires,
  whatever the storage answers then.
\<close>

lemma failed_listing_kept:
  assumes "fe_list_error env (fe_bucket env, layer_prefix layer)" and "map_of (fs_cache fs) (layer_list_cache_key layer) = None"
    and "0 < fe_ttl env" and "\<not> fe_cache_set_down env (layer_list_cache_key layer)"
    and "\<not> fe_cache_get_down env' (layer_list_cache_key layer)"
  shows "fst (corpus_rows env' layer (snd (corpus_rows env layer fs))) = []"
proof -
  have "snd (corpus_rows env layer fs) = fs\<lparr>fs_cache := AList.update (layer_list_cache_key layer) [] (fs_cache fs)\<rparr>"
    using assms(1-4) by (simp add: corpus_rows_def cached_rows_def cache_get_def cache_set_def read_tier_rows_def split: option.split)
  then show ?thesis
    using assms(5) by (simp add: corpus_rows_def cached_rows_def cache_get_def update_conv')
qed

text \<open>
  A listing read before a write and stored after the write's invalidation hides the new file: the
  invalidation does not reach a reader that is on its way.
\<close>

lemma stale_fill:
  assumes "write_file env layer user f content fs = (Inr (), fs')" and "fs_cache fs = []" and "0 < fe_ttl env"
    and "\<And>k. \<not> fe_cache_set_down env k \<and> \<not> fe_cache_get_down env k"
    and "rows = fresh_private env (fs_objects fs) layer (uc_user_id user)"
    and "fs'' = cache_set env (layer_list_cache_key_private layer (uc_user_id user)) rows fs'"
  shows "fst (private_rows env layer (uc_user_id user) fs'') = rows"
  using assms by (simp add: private_rows_def cached_rows_def cache_get_def cache_set_def update_conv')

end
