(* ===== verification/LayerRouteProps.thy ===== *)
theory LayerRouteProps
  imports LayerRoutes LayerFilesProps SemanticRouteProps
begin

text \<open>
  Properties of the routes of episodic and procedural memory: what a refused request leaves, what is read
  back, what is audited, and the places where the content and the manifest part.
\<close>

section \<open>Inversions\<close>

lemma as_http_iff [simp]:
  "as_http f r = Inr x \<longleftrightarrow> r = Inr x"
  "as_http f r = Inl e \<longleftrightarrow> (\<exists>e'. r = Inl e' \<and> e = f e')"
  by (auto simp: as_http_def split: sum.splits)

lemma emit_events_keeps:
  "emit_events ok n es st = (r, st') \<Longrightarrow>
    (\<exists>k \<le> length es. st' = st\<lparr>ms_events := ms_events st @ take k es\<rparr> \<and> (r = Inr () \<longleftrightarrow> k = length es)) \<and>
    (\<forall>e. r = Inl e \<longrightarrow> e = Http 500)"
proof (induction es arbitrary: n st)
  case (Cons e es)
  show ?case
  proof (cases "ok n")
    case True
    then have "emit_events ok (Suc n) es (st\<lparr>ms_events := ms_events st @ [e]\<rparr>) = (r, st')" using Cons.prems by simp
    from Cons.IH [OF this] obtain k where "k \<le> length es" "st' = st\<lparr>ms_events := ms_events st @ take (Suc k) (e # es)\<rparr>"
        "r = Inr () \<longleftrightarrow> k = length es" and rest: "\<forall>e. r = Inl e \<longrightarrow> e = Http 500"
      by auto
    then have "Suc k \<le> length (e # es) \<and> st' = st\<lparr>ms_events := ms_events st @ take (Suc k) (e # es)\<rparr> \<and>
        (r = Inr () \<longleftrightarrow> Suc k = length (e # es))" by simp
    with rest show ?thesis by blast
  next
    case False
    then have "r = Inl (Http 500)" "st' = st" using Cons.prems by auto
    then show ?thesis by (auto intro: exI [of _ 0])
  qed
qed auto

lemma answer_after_keeps:
  assumes "answer_after env es x st = (r, st')"
  obtains k where "st' = st\<lparr>ms_events := ms_events st @ take k es\<rparr>" "r = Inl (Http 500)"
  | "st' = st\<lparr>ms_events := ms_events st @ es\<rparr>" "r = Inr x"
proof -
  obtain a st1 where a: "emit_events (my_audit_ok env) 0 es st = (a, st1)" by fastforce
  note keeps = emit_events_keeps [OF a]
  have eq: "st' = st1" "r = (case a of Inl e \<Rightarrow> Inl e | Inr _ \<Rightarrow> Inr x)"
    using assms a by (auto simp: answer_after_def split: sum.splits)
  show thesis
  proof (cases a)
    case (Inl e)
    with keeps eq show thesis using that(1) by auto
  next
    case (Inr u)
    with keeps eq show thesis using that(2) by auto
  qed
qed

lemma valid_file_layer: "layer \<in> set FILE_LAYERS \<Longrightarrow> validate_layer layer = Inr ()"
  by (auto simp: FILE_LAYERS_def validate_layer_def valid_layers_def)

lemma file_layer_collection: "layer \<in> set FILE_LAYERS \<Longrightarrow> key_collection layer f = None"
  by (auto simp: FILE_LAYERS_def key_collection_def)

lemma valid_filename_400: "validate_filename_or_400 f = Inr () \<longleftrightarrow> valid_filename f \<and> length f \<le> LOGICAL_KEY_MAX"
  by (auto simp: validate_filename_or_400_def valid_filename_def check_logical_def)

lemma record_file_cases:
  assumes "record_file env user layer f mapped recorded st = (r, st')" and "layer \<in> set FILE_LAYERS"
  obtains
    (failed) e where "recorded = Inl e" "r = Inl (mapped e)" "st' = st"
  | (recorded) tbl en es k where "recorded = Inr (tbl, en)" "es \<noteq> []"
      "hd es \<in> {memory_event_of user ''write'' layer None f [], memory_event_of user ''write'' layer None f [(''copied_from'', PStr f)]}"
      "r = Inl (Http 500) \<and> st' = st\<lparr>ms_table := tbl, ms_events := ms_events st @ take k es\<rparr> \<or>
       r = Inr en \<and> st' = st\<lparr>ms_table := tbl, ms_events := ms_events st @ es\<rparr>"
proof -
  obtain c where c: "legacy_copy_forward_source (ms_table st) user layer f = Inr c"
    using valid_file_layer [OF assms(2)] by (simp add: legacy_copy_forward_source_def resolve_read_entry_def)
  then have cf: "c = None \<or> c = Some f"
    by (auto simp: legacy_copy_forward_source_def res_bind_Inr_iff split: option.splits if_splits)
  show thesis
  proof (cases recorded)
    case (Inl e)
    then show thesis using assms(1) c failed by (simp add: record_file_def as_http_def)
  next
    case (Inr a)
    obtain tbl en where a: "a = (tbl, en)" by (cases a)
    have "answer_after env (write_events user layer f c) en (st\<lparr>ms_table := tbl\<rparr>) = (r, st')"
      using assms(1) c Inr a by (simp add: record_file_def as_http_def)
    then show thesis
      by (rule answer_after_keeps)
        (rule recorded [OF Inr [unfolded a], of "write_events user layer f c"];
          use cf in \<open>auto simp: write_events_def split: option.splits\<close>)+
  qed
qed

lemma write_file_keeps: "write_file env layer user f c fs = (Inl e, fs') \<Longrightarrow> fs' = fs"
  using write_file_cases by fastforce

lemma create_file_cases:
  assumes "create_file_route env user layer payload title promote st = (r, st')" and "layer \<in> set FILE_LAYERS"
  obtains
    (refused) e where "r = Inl e" "st' = st"
  | (half) f c fs e where "file_fields payload = Some (f, c)" "validate_filename_or_400 f = Inr ()"
      "authorize_write (get_entry (ms_table st)) user layer f ''private'' False = Inr ()"
      "write_file (my_files env) layer user f c (ms_files st) = (Inr (), fs)"
      "record_create (my_now env) (my_uid env) (ms_table st) layer f title (Some (utf8_length c))
         (uc_user_id user) ''private'' (corpus_write_authorized user None) = Inl e"
      "r = Inl (create_http e)" "st' = st\<lparr>ms_files := fs\<rparr>"
  | (stored) f c fs tbl en es k where "file_fields payload = Some (f, c)" "validate_filename_or_400 f = Inr ()"
      "write_file (my_files env) layer user f c (ms_files st) = (Inr (), fs)"
      "record_create (my_now env) (my_uid env) (ms_table st) layer f title (Some (utf8_length c))
         (uc_user_id user) ''private'' (corpus_write_authorized user None) = Inr (tbl, en)"
      "es \<noteq> []" "ev_user (hd es) = uc_user_id user \<and> ev_op (hd es) = ''write'' \<and> ev_layer (hd es) = layer \<and> ev_key (hd es) = f"
      "r = Inl (Http 500) \<and> st' = st\<lparr>ms_files := fs, ms_table := tbl, ms_events := ms_events st @ take k es\<rparr> \<or>
       r = Inr en \<and> st' = st\<lparr>ms_files := fs, ms_table := tbl, ms_events := ms_events st @ es\<rparr>"
proof (cases "create_file_checks user layer payload promote (ms_table st)")
  case (Inl e)
  then show thesis using assms(1) refused by (auto simp: create_file_route_def)
next
  case (Inr a)
  then obtain f c tier where ok: "create_file_checks user layer payload promote (ms_table st) = Inr ((f, c), tier)"
    by (cases a) auto
  have ff: "file_fields payload = Some (f, c)" "validate_filename_or_400 f = Inr ()"
    and tier: "tier = ''private''" "authorize_write (get_entry (ms_table st)) user layer f tier False = Inr ()"
    using ok by (auto simp: create_file_checks_def res_bind_Inr_iff reject_corpus_promotion_for_def
        resolve_requested_tier_def Let_def split: if_splits)
  obtain w fs where w: "write_file (my_files env) layer user f c (ms_files st) = (w, fs)" by fastforce
  show thesis
  proof (cases w)
    case (Inl e)
    then show thesis using assms(1) ok w write_file_keeps refused by (fastforce simp: create_file_route_def)
  next
    case (Inr u)
    then have w': "write_file (my_files env) layer user f c (ms_files st) = (Inr (), fs)" using w by simp
    have "record_file env user layer f create_http
        (record_create (my_now env) (my_uid env) (ms_table st) layer f title (Some (utf8_length c))
          (uc_user_id user) ''private'' (corpus_write_authorized user None)) (st\<lparr>ms_files := fs\<rparr>) = (r, st')"
      using assms(1) ok w' tier by (simp add: create_file_route_def)
    from this assms(2) show thesis
    proof (cases rule: record_file_cases)
      case (failed e)
      then show thesis using half ff tier w' by simp
    next
      case (recorded tbl en es k)
      then show thesis using stored [OF ff w', of tbl en es k] by (auto simp: memory_event_of_def)
    qed
  qed
qed

lemma update_file_cases:
  assumes "update_file_route env user layer f payload title st = (r, st')" and "layer \<in> set FILE_LAYERS"
  obtains
    (refused) e where "r = Inl e" "st' = st" "e \<noteq> Http 404"
  | (half) c fs e where "field payload ''content'' = PStr c" "validate_filename_or_400 f = Inr ()"
      "authorize_write (get_entry (ms_table st)) user layer f ''private'' False = Inr ()"
      "write_file (my_files env) layer user f c (ms_files st) = (Inr (), fs)"
      "record_update (my_now env) (my_uid env) (ms_table st) layer f (Some (utf8_length c))
         (uc_user_id user) title (corpus_write_authorized user None) = Inl e"
      "r = Inl (update_file_http e)" "st' = st\<lparr>ms_files := fs\<rparr>"
  | (stored) c fs tbl en es k where "field payload ''content'' = PStr c" "validate_filename_or_400 f = Inr ()"
      "write_file (my_files env) layer user f c (ms_files st) = (Inr (), fs)"
      "record_update (my_now env) (my_uid env) (ms_table st) layer f (Some (utf8_length c))
         (uc_user_id user) title (corpus_write_authorized user None) = Inr (tbl, en)"
      "es \<noteq> []" "ev_user (hd es) = uc_user_id user \<and> ev_op (hd es) = ''write'' \<and> ev_layer (hd es) = layer \<and> ev_key (hd es) = f"
      "r = Inl (Http 500) \<and> st' = st\<lparr>ms_files := fs, ms_table := tbl, ms_events := ms_events st @ take k es\<rparr> \<or>
       r = Inr en \<and> st' = st\<lparr>ms_files := fs, ms_table := tbl, ms_events := ms_events st @ es\<rparr>"
proof (cases "update_file_checks user layer f payload (ms_table st)")
  case (Inl e)
  then have "e \<noteq> Http 404"
    by (auto simp: update_file_checks_def res_bind_Inl_iff validate_filename_or_400_def refusal_http_def
        split: if_splits sum.splits)
  then show thesis using assms(1) Inl refused by (auto simp: update_file_route_def)
next
  case (Inr c)
  then have ff: "field payload ''content'' = PStr c" "validate_filename_or_400 f = Inr ()"
    and auth: "authorize_write (get_entry (ms_table st)) user layer f ''private'' False = Inr ()"
    by (auto simp: update_file_checks_def res_bind_Inr_iff split: pyval.splits)
  obtain w fs where w: "write_file (my_files env) layer user f c (ms_files st) = (w, fs)" by fastforce
  show thesis
  proof (cases w)
    case (Inl e)
    moreover have "file_http e \<noteq> Http 404" by (cases e) simp_all
    ultimately show thesis using assms(1) \<open>update_file_checks _ _ _ _ _ = _\<close> w write_file_keeps refused
      by (fastforce simp: update_file_route_def)
  next
    case (Inr u)
    then have w': "write_file (my_files env) layer user f c (ms_files st) = (Inr (), fs)" using w by simp
    have "record_file env user layer f update_file_http
        (record_update (my_now env) (my_uid env) (ms_table st) layer f (Some (utf8_length c))
          (uc_user_id user) title (corpus_write_authorized user None)) (st\<lparr>ms_files := fs\<rparr>) = (r, st')"
      using assms(1) \<open>update_file_checks _ _ _ _ _ = _\<close> w' by (simp add: update_file_route_def)
    from this assms(2) show thesis
    proof (cases rule: record_file_cases)
      case (failed e)
      then show thesis using half ff auth w' by simp
    next
      case (recorded tbl en es k)
      then show thesis using stored [OF ff w', of tbl en es k] by (auto simp: memory_event_of_def)
    qed
  qed
qed

lemma delete_file_keeps: "delete_file env layer user f fs = (Inl e, fs') \<Longrightarrow> fs' = fs"
  using delete_file_cases by fastforce

lemma delete_route_cases:
  assumes "delete_file_route env user layer f hard st = (r, st')"
  obtains
    (refused) e where "r = Inl e" "st' = st"
  | (unpurged) tbl en where "delete_file_checks user layer f hard (ms_table st) = Inr ()"
      "record_delete (my_now env) (ms_table st) layer f (uc_user_id user) (corpus_write_authorized user None) = Inr (tbl, en)"
      "hard" "r = Inl (Http 502)" "st' = st\<lparr>ms_table := tbl\<rparr>"
  | (deleted) tbl en fs es k where "delete_file_checks user layer f hard (ms_table st) = Inr ()"
      "record_delete (my_now env) (ms_table st) layer f (uc_user_id user) (corpus_write_authorized user None) = Inr (tbl, en)"
      "es = [memory_event_of user ''delete'' layer None f [(''hard'', PBool hard)]]"
      "if hard then \<exists>b. delete_file (my_files env) layer user f (ms_files st) = (Inr b, fs) else fs = ms_files st"
      "r = Inl (Http 500) \<and> st' = st\<lparr>ms_table := tbl, ms_files := fs, ms_events := ms_events st @ take k es\<rparr> \<or>
       r = Inr en \<and> st' = st\<lparr>ms_table := tbl, ms_files := fs, ms_events := ms_events st @ es\<rparr>"
proof -
  let ?checked = "res_bind (delete_file_checks user layer f hard (ms_table st)) (\<lambda>_.
      as_http delete_file_http (record_delete (my_now env) (ms_table st) layer f (uc_user_id user)
        (corpus_write_authorized user None)))"
  show thesis
  proof (cases ?checked)
    case (Inl e)
    then show thesis using assms refused by (auto simp: delete_file_route_def)
  next
    case (Inr a)
    then obtain tbl en where ok: "delete_file_checks user layer f hard (ms_table st) = Inr ()"
      "record_delete (my_now env) (ms_table st) layer f (uc_user_id user) (corpus_write_authorized user None) = Inr (tbl, en)"
      by (cases a) (auto simp: res_bind_Inr_iff)
    obtain p fs where p: "(if hard then delete_file (my_files env) layer user f (ms_files st) else (Inr False, ms_files st)) = (p, fs)"
      by (cases "if hard then delete_file (my_files env) layer user f (ms_files st) else (Inr False, ms_files st)")
    show thesis
    proof (cases p)
      case (Inl e)
      with p have "hard" "delete_file (my_files env) layer user f (ms_files st) = (Inl e, fs)" by (auto split: if_splits)
      moreover from this have "fs = ms_files st" using delete_file_keeps by blast
      ultimately show thesis using assms ok unpurged [OF ok] by (simp add: delete_file_route_def as_http_def Let_def)
    next
      case (Inr b)
      have "answer_after env [memory_event_of user ''delete'' layer None f [(''hard'', PBool hard)]] en
          (st\<lparr>ms_table := tbl, ms_files := fs\<rparr>) = (r, st')"
        using assms ok p Inr by (auto simp: delete_file_route_def as_http_def Let_def split: if_splits)
      then show thesis
        by (rule answer_after_keeps) (rule deleted [OF ok refl]; use p Inr in \<open>auto split: if_splits\<close>)+
    qed
  qed
qed

section \<open>Refusals\<close>

lemma late_create_http: "late_status e \<Longrightarrow> create_http e \<notin> {Http 400, Http 403, Http 404}"
  by (cases e) (auto simp: late_status_def update_http_def refusal_http_def)

lemma late_update_http: "late_status e \<Longrightarrow> update_file_http e \<notin> {Http 400, Http 403, Http 404}"
  by (cases e) (auto simp: late_status_def update_http_def refusal_http_def)

text \<open>
  A create or a delete of a file that answers 400, 403 or 404, and an update that answers 400 or 403,
  have changed nothing: no object, no manifest row, no cached listing and no audit row.
\<close>

lemma file_refusals_before_writes:
  assumes "layer \<in> set FILE_LAYERS"
    and "status \<in> {400, 403, 404} \<and> create_file_route env user layer payload title promote st = (Inl (Http status), st') \<or>
      status \<in> {400, 403} \<and> update_file_route env user layer f payload title st = (Inl (Http status), st') \<or>
      status \<in> {400, 403, 404} \<and> delete_file_route env user layer f hard st = (Inl (Http status), st')"
  shows "st' = st"
proof -
  have kc: "key_collection layer f = None" for f using file_layer_collection [OF assms(1)] .
  from assms(2) show ?thesis
  proof (elim disjE conjE)
    assume s: "status \<in> {400, 403, 404}"
      and "create_file_route env user layer payload title promote st = (Inl (Http status), st')"
    from this(2) assms(1) show ?thesis
    proof (cases rule: create_file_cases)
      case (half f c fs e)
      have "late_status e"
        using create_after_choke [OF half(3), of "my_now env" "my_uid env" title "Some (utf8_length c)"] half(5)
        by (simp add: kc)
      with late_create_http half(6) s show ?thesis by fastforce
    qed (use s in auto)
  next
    assume s: "status \<in> {400, 403}"
      and "update_file_route env user layer f payload title st = (Inl (Http status), st')"
    from this(2) assms(1) show ?thesis
    proof (cases rule: update_file_cases)
      case (half c fs e)
      show ?thesis
      proof (cases "read_row (ms_table st) layer f (uc_user_id user)")
        case None
        then have "e = LookupError layer f"
          using half(5) valid_file_layer [OF assms(1)] by (simp add: record_update_def)
        with half(6) s show ?thesis by auto
      next
        case (Some x)
        then have "resolve_read_entry (ms_table st) layer f user = Inr (Some (from_row x))"
          using valid_file_layer [OF assms(1)] by (simp add: resolve_read_entry_def)
        then have "late_status e" using update_after_choke [OF half(3)] half(5) by (simp add: kc)
        with late_update_http half(6) s show ?thesis by fastforce
      qed
    qed (use s in auto)
  next
    assume s: "status \<in> {400, 403, 404}" and "delete_file_route env user layer f hard st = (Inl (Http status), st')"
    from this(2) show ?thesis by (cases rule: delete_route_cases) (use s in auto)
  qed
qed

end
