(* ===== verification/LayerRouteLaws.thy ===== *)
theory LayerRouteLaws
  imports LayerRouteProps ListProps
begin

text \<open>
  What the file routes mean for their users: what is read back after a write, what is audited, what a
  delete leaves, and the writes that the manifest and the audit do not know of.
\<close>

section \<open>Reading back\<close>

lemma strip_bare: "CHR ''/'' \<notin> set f \<Longrightarrow> strip_known_key_prefixes f layer u = f"
proof -
  assume f: "CHR ''/'' \<notin> set f"
  have "\<not> py_startswith f (p @ ''/'')" for p :: string
    using f by (auto simp: py_startswith_iff)
  from this [of "u @ ''/'' @ layer"] this [of layer] show ?thesis
    by (simp add: strip_known_key_prefixes_def Let_def)
qed

lemma strip_full: "strip_known_key_prefixes (u @ ''/'' @ layer @ ''/'' @ f) layer u = f"
proof -
  have "py_startswith ((u @ ''/'' @ layer @ ''/'') @ f) (u @ ''/'' @ layer @ ''/'')" by (rule py_startswith_append)
  then have "py_startswith (u @ ''/'' @ layer @ ''/'' @ f) (u @ ''/'' @ layer @ ''/'')" by simp
  then show ?thesis by (simp add: strip_known_key_prefixes_def Let_def)
qed

lemma read_after_write:
  assumes "write_file env layer user f c fs = (Inr (), fs')" and "\<not> fe_get_error env (private_object env layer user f)"
  shows "valid_filename f \<and> read_file env layer user f fs' = Some (c, ''private'')"
  using write_file_cases [OF assms(1)] assms(2)
  by (auto simp: read_file_def fetch_object_def cache_invalidate_def update_conv')

lemma read_route_of:
  assumes "validate_filename_or_400 f = Inr ()" and "read_file (my_files env) layer user f (ms_files st) = Some (c, tier)"
    and "resolve_read_entry (ms_table st) layer f user = Inr en"
    and "raw = f \<or> raw = uc_user_id user @ ''/'' @ layer @ ''/'' @ f"
  shows "read_file_route env user layer raw st =
    Inr \<lparr>fa_content = c, fa_tier = tier,
         fa_manifest = (case en of Some e \<Rightarrow> if manifest_visible e user then Some e else None | None \<Rightarrow> None)\<rparr>"
proof -
  have "CHR ''/'' \<notin> set f" using assms(1) valid_filename_400 valid_no_slash by blast
  then have "strip_known_key_prefixes raw layer (uc_user_id user) = f"
    using assms(4) strip_bare strip_full by blast
  then show ?thesis using assms(1-3) by (simp add: read_file_route_def required_def as_http_def)
qed

text \<open>
  C31: a file created through the route is read back by its author through the route, by its name or by
  the key an upload answers, with its text, the private tier and the manifest entry the create
  answered, which is live, private and titled as asked.
\<close>

theorem create_read_file:
  assumes "create_file_route env user layer payload title promote st = (Inr en, st')" and "layer \<in> set FILE_LAYERS"
    and "file_fields payload = Some (f, c)"
    and "\<not> fe_get_error (my_files env) (private_object (my_files env) layer user f)"
    and "raw = f \<or> raw = uc_user_id user @ ''/'' @ layer @ ''/'' @ f"
  shows "read_file_route env user layer raw st' = Inr \<lparr>fa_content = c, fa_tier = ''private'', fa_manifest = Some en\<rparr> \<and>
    me_key en = f \<and> me_tier en = ''private'' \<and> me_title en = title \<and> me_deleted_at_ms en = None"
  using assms(1,2)
proof (cases rule: create_file_cases)
  case (stored f' c' fs tbl en' es k)
  have eq: "f' = f" "c' = c" "en' = en" "ms_files st' = fs" "ms_table st' = tbl" using stored(1,7) assms(3) by auto
  note rd = read_after_write [OF stored(3) [unfolded eq] assms(4)]
  from stored(4) [unfolded eq] obtain pk r where r: "physical_key (uc_user_id user) f = Inr pk"
      "row_at tbl layer pk = Some r" "own_private (uc_user_id user) r" "mi_deleted_at_ms r = None"
      "mi_title r = title" "en = from_row r"
    by (rule record_create_private_row)
  have "me_key en = f" using r from_row_own row_at_Some by blast
  moreover have entry: "me_tier en = ''private''" "me_title en = title" "me_deleted_at_ms en = None"
      "me_created_by en = uc_user_id user"
    using r by (simp_all add: from_row_def own_private_def)
  moreover have "resolve_read_entry (ms_table st') layer f user = Inr (Some en)"
    using read_row_own [OF r(1-3)] r(6) valid_file_layer [OF assms(2)] eq by (simp add: resolve_read_entry_def)
  from read_route_of [OF _ _ this assms(5), of env c "''private''"] rd stored(2) eq entry(4)
  have "read_file_route env user layer raw st' = Inr \<lparr>fa_content = c, fa_tier = ''private'', fa_manifest = Some en\<rparr>"
    by (simp add: manifest_visible_def)
  ultimately show ?thesis by blast
qed simp_all

section \<open>A missing file\<close>

text \<open>
  An update that answers 404 because the caller has no manifest row has stored the file all the same:
  the next read by its name finds it, with no manifest entry, and no audit row tells of it.
\<close>

lemma missing_update_creates:
  assumes "update_file_route env user layer f payload title st = (Inl (Http 404), st')" and "layer \<in> set FILE_LAYERS"
    and "\<not> fe_get_error (my_files env) (private_object (my_files env) layer user f)"
  shows "\<exists>c. field payload ''content'' = PStr c \<and>
    read_file_route env user layer f st' = Inr \<lparr>fa_content = c, fa_tier = ''private'', fa_manifest = None\<rparr> \<and>
    ms_events st' = ms_events st \<and> ms_table st' = ms_table st"
  using assms(1,2)
proof (cases rule: update_file_cases)
  case (half c fs e)
  have none: "read_row (ms_table st) layer f (uc_user_id user) = None"
  proof (rule ccontr)
    assume "read_row (ms_table st) layer f (uc_user_id user) \<noteq> None"
    then obtain x where "resolve_read_entry (ms_table st) layer f user = Inr (Some (from_row x))"
      using valid_file_layer [OF assms(2)] by (auto simp: resolve_read_entry_def)
    then have "late_status e"
      using update_after_choke [OF half(3)] half(5) by (simp add: file_layer_collection [OF assms(2)])
    with late_update_http half(6) show False by fastforce
  qed
  then have "resolve_read_entry (ms_table st') layer f user = Inr None"
    using valid_file_layer [OF assms(2)] half(7) by (simp add: resolve_read_entry_def)
  from read_route_of [OF half(2) _ this, of env c "''private''" f] read_after_write [OF half(4) assms(3)] half(1,7)
  show ?thesis by simp
qed simp_all

section \<open>Audit rows\<close>

text \<open>
  A create, an update or a delete of a file that answers its entry has added the audit row of the
  write, in the caller's name, with the layer and the file; without it the answer is an error, and
  rows are only ever added.
\<close>

lemma answered_file_writes_audited:
  assumes "layer \<in> set FILE_LAYERS"
    and "create_file_route env user layer payload title promote st = (r, st') \<and>
        file_fields payload = Some (f, c) \<and> op = ''write'' \<or>
      update_file_route env user layer f payload title st = (r, st') \<and> op = ''write'' \<or>
      delete_file_route env user layer f hard st = (r, st') \<and> op = ''delete''"
  shows "\<exists>es. ms_events st' = ms_events st @ es \<and>
    (\<forall>en. r = Inr en \<longrightarrow> es \<noteq> [] \<and> ev_user (hd es) = uc_user_id user \<and> ev_op (hd es) = op \<and>
      ev_layer (hd es) = layer \<and> ev_key (hd es) = f)"
  using assms(2)
proof (elim disjE conjE)
  assume "create_file_route env user layer payload title promote st = (r, st')"
    and f: "file_fields payload = Some (f, c)" and op: "op = ''write''"
  from this(1) assms(1) show ?thesis by (cases rule: create_file_cases) (use f op in auto)
next
  assume "update_file_route env user layer f payload title st = (r, st')" and op: "op = ''write''"
  from this(1) assms(1) show ?thesis by (cases rule: update_file_cases) (use op in auto)
next
  assume "delete_file_route env user layer f hard st = (r, st')" and op: "op = ''delete''"
  from this(1) show ?thesis by (cases rule: delete_route_cases) (use op in \<open>auto simp: memory_event_of_def\<close>)
qed

text \<open>
  A text uploaded to episodic or procedural memory is read back by its uploader from the private tier,
  over any shared file of its name, and leaves no trace beside the object: no manifest row, no
  audit row, and no question to the choke. An upload to session memory is audited.
\<close>

lemma upload_leaves_no_row:
  assumes "upload_memory_file env user layer filename fname claimed content promote st = (Inr (Uploaded bucket key n), st')"
    and "layer \<in> set FILE_LAYERS" and "key = uc_user_id user @ ''/'' @ layer @ ''/'' @ f"
    and "\<not> fe_get_error (my_files env) (private_object (my_files env) layer user f)" and "length f \<le> LOGICAL_KEY_MAX"
  shows "ms_table st' = ms_table st \<and> ms_events st' = ms_events st \<and>
    (\<exists>body. utf8_decode content = Some body \<and>
      read_file (my_files env) layer user f (ms_files st') = Some (body, ''private'') \<and>
      (\<forall>en. resolve_read_entry (ms_table st) layer f user = Inr en \<longrightarrow>
        (\<exists>m. read_file_route env user layer key st' = Inr \<lparr>fa_content = body, fa_tier = ''private'', fa_manifest = m\<rparr>)))"
proof -
  have l: "layer \<noteq> ''session''" using assms(2) by (auto simp: FILE_LAYERS_def)
  obtain body st1 where t: "utf8_decode content = Some body"
    and w: "write_layer_private env layer user f body st = (Inr (), st1)" and st': "st' = st1"
    using assms(1,3) l
    by (auto simp: upload_memory_file_def Let_def res_bind_Inr_iff split: sum.splits if_splits prod.splits)
  then obtain fs where fs: "write_file (my_files env) layer user f body (ms_files st) = (Inr (), fs)" "st' = st\<lparr>ms_files := fs\<rparr>"
    using l by (auto simp: write_layer_private_def split: prod.splits sum.splits)
  have rd: "valid_filename f" "read_file (my_files env) layer user f (ms_files st') = Some (body, ''private'')"
    using read_after_write [OF fs(1) assms(4)] fs(2) by simp_all
  then have "validate_filename_or_400 f = Inr ()" using assms(5) valid_filename_400 by blast
  from read_route_of [OF this rd(2)] fs(2) assms(3)
  have "\<exists>m. read_file_route env user layer key st' = Inr \<lparr>fa_content = body, fa_tier = ''private'', fa_manifest = m\<rparr>"
    if "resolve_read_entry (ms_table st) layer f user = Inr en" for en
    using that by fastforce
  with t rd(2) fs(2) show ?thesis by auto
qed

section \<open>A deleted file\<close>

lemma read_row_key:
  assumes "read_row tbl layer f u = Some r" and "CHR ''/'' \<notin> set f"
  shows "me_key (from_row r) = f \<and> (own_private u r \<or> mi_tier r = ''corpus'')"
proof -
  have bare: "me_key (from_row x) = f" if "mi_key x = f" for x
  proof -
    have "\<not> py_startswith f (mi_created_by x @ ''/'')" using assms(2) by (auto simp: py_startswith_iff)
    then show ?thesis using that by (simp add: from_row_def logical_key_def)
  qed
  have "me_key (from_row x) = f \<and> (own_private u x \<or> mi_tier x = ''corpus'')"
    if "readable_bare u (row_at tbl layer f) = Some x" for x
    using that bare row_at_Some by (auto simp: readable_bare_def split: option.splits if_splits)
  moreover have "me_key (from_row x) = f \<and> (own_private u x \<or> mi_tier x = ''corpus'')"
    if "physical_key u f = Inr pk" "row_at tbl layer pk = Some x" "own_private u x" for x pk
    using that from_row_own row_at_Some by blast
  ultimately show ?thesis using assms(1) by (auto simp: read_row_eq split: sum.splits option.splits if_splits)
qed

lemma list_page_subset: "set (fst (list_page srt order n off items)) \<subseteq> set items"
proof -
  obtain R where "mset R = mset items" "\<And>n off. list_page srt order n off items = (take n (drop off R), length items)"
    by (rule list_page_eq) blast
  then show ?thesis by (auto dest!: in_set_takeD in_set_dropD mset_eq_setD)
qed

text \<open>
  After a soft delete of a file its author's listings no longer show the deleted row nor, in its
  place, the object that is still there; a read by name still answers the content as before the
  delete, with the entry marked as deleted.
\<close>

lemma deleted_file_unlisted_still_read:
  assumes "delete_file_route env user layer f False st = (Inr en, st')" and "layer \<in> set FILE_LAYERS"
    and "uq_layer_key (ms_table st)"
  shows "me_deleted_at_ms en \<noteq> None \<and>
    (\<forall>srt order n offset page st'' i.
      list_file_route env user layer False srt order n offset st' = (Inr page, st'') \<and> i \<in> set (fst page) \<and> li_key i = f \<longrightarrow>
      \<not> li_discovered i \<and> (\<exists>e. li_entry i = Some e \<and> me_deleted_at_ms e = None \<and> me_storage_key e \<noteq> me_storage_key en)) \<and>
    (\<forall>a. read_file_route env user layer f st = Inr a \<longrightarrow> read_file_route env user layer f st' = Inr (a\<lparr>fa_manifest := Some en\<rparr>))"
proof -
  have v: "validate_layer layer = Inr ()" using valid_file_layer [OF assms(2)] .
  from assms(1) obtain tbl where del: "delete_file_checks user layer f False (ms_table st) = Inr ()"
      "record_delete (my_now env) (ms_table st) layer f (uc_user_id user) (corpus_write_authorized user None) = Inr (tbl, en)"
    and st': "ms_table st' = tbl" "ms_files st' = ms_files st"
    by (cases rule: delete_route_cases) auto
  have name: "CHR ''/'' \<notin> set f" "validate_filename_or_400 f = Inr ()"
    using del(1) by (auto simp: delete_file_checks_def res_bind_Inr_iff valid_filename_400 valid_no_slash)
  note hides = delete_hides [OF del(2) assms(3), THEN conjunct1]
    delete_hides [OF del(2) assms(3), THEN conjunct2, THEN conjunct1]
    delete_hides [OF del(2) assms(3), THEN conjunct2, THEN conjunct2, THEN conjunct2, THEN conjunct1]
  obtain r where r: "read_row tbl layer f (uc_user_id user) = Some r" "en = from_row r"
    using hides(2) v by (auto simp: resolve_read_entry_def)
  note key = read_row_key [OF r(1) name(1)]
  then have seen: "entry_visible (Some user) en" "manifest_visible en user"
    by (auto simp: r(2) entry_visible_def manifest_visible_def from_row_def own_private_def)
  have mem: "r \<in> set tbl" "mi_layer r = layer" using read_row_found [OF r(1)] by auto
  have listed: "\<not> li_discovered i \<and> (\<exists>e. li_entry i = Some e \<and> me_deleted_at_ms e = None \<and> me_storage_key e \<noteq> me_storage_key en)"
    if l: "list_file_route env user layer False srt order n offset st' = (Inr page, st'')" "i \<in> set (fst page)" "li_key i = f"
    for srt order n offset page st'' i
  proof -
    define docs where "docs = fst (load_files (my_files env) layer user (ms_files st'))"
    from l(1) obtain entries all_known where
        e: "list_for_layer tbl layer False (Some user) = Inr entries"
      and a: "list_for_layer tbl layer True (Some user) = Inr all_known"
      and page: "page = list_page srt order n offset (entries_to_dicts entries @
          map discovered_file (filter (\<lambda>r. fr_file r \<noteq> [] \<and> fr_file r \<notin> entry_keys all_known) docs))"
      using st' by (auto simp: list_file_route_def merge_layer_items_with_s3_def res_bind_Inr_iff docs_def split_beta split: sum.splits)
    have "en \<in> set all_known"
      using a v mem seen(1) r(2) by (auto simp: list_for_layer_def rows_to_entries_def Let_def)
    then have "f \<in> entry_keys all_known" using key r(2) by (auto simp: entry_keys_def)
    moreover have "i \<in> set (entries_to_dicts entries @
        map discovered_file (filter (\<lambda>r. fr_file r \<noteq> [] \<and> fr_file r \<notin> entry_keys all_known) docs))"
      using l(2) page list_page_subset by blast
    ultimately have "i \<in> set (entries_to_dicts entries)" using l(3) by (auto simp: discovered_file_def)
    then obtain x where x: "x \<in> set entries" "i = tracked_item x" by (auto simp: entries_to_dicts_def)
    have "me_deleted_at_ms x = None"
      using x(1) e v by (auto simp: list_for_layer_def rows_to_entries_def Let_def from_row_def)
    moreover have "me_storage_key x \<noteq> me_storage_key en" using hides(3) e x(1) by blast
    ultimately show ?thesis using x(2) by (simp add: tracked_item_def)
  qed
  have "read_file_route env user layer f st' = Inr (a\<lparr>fa_manifest := Some en\<rparr>)"
    if "read_file_route env user layer f st = Inr a" for a
    using that seen(2) hides(2) strip_bare [OF name(1)] st' name(2)
    by (auto simp: read_file_route_def res_bind_Inr_iff Let_def)
  with hides(1) listed show ?thesis by blast
qed

end
