(* ===== verification/PromoteProps.thy ===== *)
theory PromoteProps
  imports Promote LayerRouteLaws
begin

text \<open>
  Properties of promotion: it copies, never moves; the copy is read back through the routes of the layer
  it went to; and it asks for the durable grant whatever else the token holds.
\<close>

section \<open>Inversions\<close>

lemma promote_episodic_cases:
  assumes "promote_to_episodic env user filename body title st = (r, st')"
  obtains
    (refused) e where "r = Inl e" "st' = st"
  | (half) fs e where "r = Inl e" "st' = st\<lparr>ms_files := fs\<rparr>"
  | (stored) f fs tbl en copied where "f = durable_episodic_filename filename" "length f \<le> LOGICAL_KEY_MAX"
      "write_file (my_files env) ''episodic'' user f body (ms_files st) = (Inr (), fs)"
      "record_create (my_now env) (my_uid env) (ms_table st) ''episodic'' f (Some title) (Some (utf8_length body))
         (uc_user_id user) ''private'' (corpus_write_authorized user None) = Inr (tbl, en)"
      "r = Inr (f, copied)" "st' = st\<lparr>ms_files := fs, ms_table := tbl\<rparr>"
proof -
  let ?f = "durable_episodic_filename filename"
  let ?checked = "res_bind (as_http (\<lambda>_. Http 400) (check_logical ?f)) (\<lambda>_.
      as_http refusal_http (authorize_write (get_entry (ms_table st)) user ''episodic'' ?f ''private'' False))"
  show thesis
  proof (cases ?checked)
    case (Inl e)
    then show thesis using assms refused by (auto simp: promote_to_episodic_def Let_def)
  next
    case (Inr u)
    then have len: "length ?f \<le> LOGICAL_KEY_MAX" by (auto simp: res_bind_Inr_iff check_logical_def split: if_splits)
    obtain w fs where w: "write_file (my_files env) ''episodic'' user ?f body (ms_files st) = (w, fs)" by fastforce
    obtain c where c: "legacy_copy_forward_source (ms_table st) user ''episodic'' ?f = Inr c"
      by (simp add: legacy_copy_forward_source_def resolve_read_entry_def validate_layer_def valid_layers_def)
    show thesis
    proof (cases w)
      case (Inl e)
      then show thesis using assms \<open>?checked = _\<close> w write_file_keeps refused
        by (fastforce simp: promote_to_episodic_def Let_def)
    next
      case (Inr x)
      then have w': "write_file (my_files env) ''episodic'' user ?f body (ms_files st) = (Inr (), fs)" using w by simp
      show thesis
      proof (cases "record_create (my_now env) (my_uid env) (ms_table st) ''episodic'' ?f (Some title) (Some (utf8_length body))
          (uc_user_id user) ''private'' (corpus_write_authorized user None)")
        case (Inl e)
        then show thesis using assms \<open>?checked = _\<close> w' c half by (auto simp: promote_to_episodic_def Let_def as_http_def)
      next
        case (Inr a)
        obtain tbl en where a: "a = (tbl, en)" by (cases a)
        with Inr show thesis using assms \<open>?checked = _\<close> w' c stored [OF refl len w', of tbl en c]
          by (auto simp: promote_to_episodic_def Let_def as_http_def)
      qed
    qed
  qed
qed

lemma promote_semantic_cases:
  assumes "promote_to_semantic env user filename body title collection extra st = (r, st')"
  obtains
    (refused) e where "r = Inl e" "st' = st"
  | (half) cols e where "r = Inl e" "st' = st\<lparr>ms_cols := cols\<rparr>"
  | (stored) c d cols tbl en copied where
      "(if collection = PNone then PStr DEFAULT_PROMOTE_COLLECTION else collection) = PStr c"
      "d = namespaced_semantic_document_id (uc_user_id user) filename"
      "upsert (my_sem env) (ms_cols st) user c d body extra ''private'' = Inr cols"
      "record_create (my_now env) (my_uid env) (ms_table st) ''semantic'' (c @ ''/'' @ d) (Some title) (Some (utf8_length body))
         (uc_user_id user) ''private'' (corpus_write_authorized user (Some c)) = Inr (tbl, en)"
      "r = Inr (c @ ''/'' @ d, c, copied)"
      "st' = st\<lparr>ms_table := tbl, ms_cols := drop_copied_forward_chunk (my_sem env) cols user c d copied\<rparr>"
proof (cases "if collection = PNone then PStr DEFAULT_PROMOTE_COLLECTION else collection")
  case (PStr c)
  note c = PStr
  let ?d = "namespaced_semantic_document_id (uc_user_id user) filename"
  let ?checked = "res_bind (http (semantic_logical_key c ?d)) (\<lambda>key.
      res_bind (http (authorize_write (get_entry (ms_table st)) user ''semantic'' key ''private'' False)) (\<lambda>_.
        case upsert (my_sem env) (ms_cols st) user c ?d body extra ''private'' of
          Inl e \<Rightarrow> Inl (upsert_http e)
        | Inr cols \<Rightarrow> Inr (key, cols)))"
  show thesis
  proof (cases "c = []")
    case True
    then show thesis using assms c refused by (auto simp: promote_to_semantic_def)
  next
    case False
    show thesis
    proof (cases ?checked)
      case (Inl e)
      then show thesis using assms c False refused by (auto simp: promote_to_semantic_def Let_def)
    next
      case (Inr a)
      then obtain key where key: "semantic_logical_key c ?d = Inr key"
        and st: "(case upsert (my_sem env) (ms_cols st) user c ?d body extra ''private'' of
          Inl e \<Rightarrow> Inl (upsert_http e) | Inr cols \<Rightarrow> Inr (key, cols)) = Inr a"
        by (auto simp: res_bind_Inr_iff)
      obtain cols where up: "upsert (my_sem env) (ms_cols st) user c ?d body extra ''private'' = Inr cols"
        using st by (cases "upsert (my_sem env) (ms_cols st) user c ?d body extra ''private''") auto
      have a: "a = (c @ ''/'' @ ?d, cols)" using st up semantic_key_Inr [OF key] by simp
      obtain copied where cp: "legacy_copy_forward_source (ms_table st) user ''semantic'' (c @ ''/'' @ ?d) = Inr copied"
        using copy_forward_source_total by blast
      show thesis
      proof (cases "record_create (my_now env) (my_uid env) (ms_table st) ''semantic'' (c @ ''/'' @ ?d) (Some title)
          (Some (utf8_length body)) (uc_user_id user) ''private'' (corpus_write_authorized user (Some c))")
        case (Inl e)
        then show thesis using assms c False Inr a cp half by (auto simp: promote_to_semantic_def Let_def http_def)
      next
        case rc: (Inr b)
        obtain tbl en where b: "b = (tbl, en)" by (cases b)
        show thesis using assms c False Inr a cp rc b stored [OF c refl up, of tbl en copied]
          by (auto simp: promote_to_semantic_def Let_def http_def)
      qed
    qed
  qed
qed (use assms refused in \<open>auto simp: promote_to_semantic_def\<close>)

lemma promote_checks_Inr:
  assumes "promote_checks env payload user st = Inr (f, layer, doc)"
  shows "f \<noteq> []" and "layer \<in> {''episodic'', ''semantic''}" and "require_durable_write_scope user layer = Inr ()"
    and "session_read_own (my_session env) user f (ms_sessions st) = Some doc"
  using assms
  by (auto simp: promote_checks_def res_bind_Inr_iff validate_target_layer_def DURABLE_PROMOTE_LAYERS_def
      split: pyval.splits if_splits)

text \<open>A document found is in the table under its owner and name.\<close>

lemma session_read_own_found:
  assumes "session_read_own env user f rows = Some doc"
  shows "doc \<in> set rows \<and> si_user_id doc = uc_user_id user \<and> si_filename doc = f"
proof -
  have "doc \<in> set (filter (\<lambda>r. si_filename r = f) (own_sessions env user rows))"
    using assms unfolding session_read_own_def by (auto split: list.splits intro: list.set_intros simp del: set_filter)
  then show ?thesis by (auto simp: own_sessions_def set_sql_select sql_simps)
qed

section \<open>A promoted document\<close>

text \<open>
  C33: an answered promotion had the write grant of the durable layer, names the caller, and has left the
  session rows alone; its content, the provenance header over the text of the caller's own latest
  upload of that name, is what the caller then reads from the private tier of the layer: through the
  route with its live manifest entry for episodic memory, by its identifier for semantic memory.
\<close>

theorem promoted_copy_read:
  assumes "promote_session_to_durable env payload user st = (Inr a, st')"
    and "\<And>k. \<not> fe_get_error (my_files env) k" and "\<And>name ids. se_get_error (my_sem env) name ids = None"
  shows "require_durable_write_scope user (pa_target_layer a) = Inr () \<and> pa_promoted_by a = uc_user_id user \<and>
    ms_sessions st' = ms_sessions st \<and>
    (\<exists>doc \<in> set (ms_sessions st). si_user_id doc = uc_user_id user \<and>
      session_read_own (my_session env) user (si_filename doc) (ms_sessions st) = Some doc \<and>
      (let body = provenance_header (pa_promoted_from a) (pa_promoted_at_ms a) (uc_user_id user) @ si_content doc in
       (pa_target_layer a = ''episodic'' \<and>
          (\<exists>en. read_file_route env user ''episodic'' (pa_key a) st' =
             Inr \<lparr>fa_content = body, fa_tier = ''private'', fa_manifest = Some en\<rparr> \<and> me_deleted_at_ms en = None)) \<or>
       (pa_target_layer a = ''semantic'' \<and> ms_files st' = ms_files st \<and>
          (\<exists>c d meta. pa_key a = c @ ''/'' @ d \<and> get_document (my_sem env) (ms_cols st') user c d = Inr (Some (body, meta)) \<and>
             map_of meta ''tier'' = Some (PStr ''private'')))))"
proof -
  obtain f layer doc where chk: "promote_checks env payload user st = Inr (f, layer, doc)"
    using assms(1) by (cases "promote_checks env payload user st") (auto simp: promote_session_to_durable_def)
  note c = promote_checks_Inr [OF chk]
  note found = session_read_own_found [OF c(4)]
  define body where "body = provenance_header (uc_user_id user @ ''/session/'' @ f) (my_now env) (uc_user_id user) @ si_content doc"
  define title where "title = (case field payload ''title'' of PStr t \<Rightarrow> if t \<noteq> [] then t else f | _ \<Rightarrow> f)"
  note run = assms(1) [unfolded promote_session_to_durable_def chk sum.case prod.case Let_def, folded body_def title_def]
  show ?thesis
  proof (cases "layer = ''episodic''")
    case True
    obtain r st1 where p: "promote_to_episodic env user f body title st = (r, st1)" by fastforce
    from p show ?thesis
    proof (cases rule: promote_episodic_cases)
      case (stored g fs tbl en copied)
      have after: "answer_after env (promote_events user layer None g copied (uc_user_id user @ ''/session/'' @ f) (my_now env))
          \<lparr>pa_target_layer = layer, pa_key = g, pa_promoted_from = uc_user_id user @ ''/session/'' @ f,
           pa_promoted_at_ms = my_now env, pa_promoted_by = uc_user_id user\<rparr> st1 = (Inr a, st')"
        using run True p stored(5) by simp
      then obtain es where a: "a = \<lparr>pa_target_layer = layer, pa_key = g, pa_promoted_from = uc_user_id user @ ''/session/'' @ f,
           pa_promoted_at_ms = my_now env, pa_promoted_by = uc_user_id user\<rparr>" and st': "st' = st1\<lparr>ms_events := es\<rparr>"
        by (rule answer_after_keeps) auto
      note rd = read_after_write [OF stored(3)] assms(2)
      have 4: "read_file (my_files env) ''episodic'' user g (ms_files st') = Some (body, ''private'')"
        "validate_filename_or_400 g = Inr ()"
        using rd stored(2,6) st' by (simp_all add: valid_filename_400)
      from stored(4) obtain pk r where r: "physical_key (uc_user_id user) g = Inr pk"
          "row_at tbl ''episodic'' pk = Some r" "own_private (uc_user_id user) r" "mi_deleted_at_ms r = None" "en = from_row r"
        by (rule record_create_private_row)
      have "resolve_read_entry (ms_table st') ''episodic'' g user = Inr (Some en)"
        using read_row_own [OF r(1-3)] r(5) stored(6) st' by (simp add: resolve_read_entry_def validate_layer_def valid_layers_def)
      from read_route_of [OF 4(2,1) this, of g] r
      have "read_file_route env user ''episodic'' g st' =
          Inr \<lparr>fa_content = body, fa_tier = ''private'', fa_manifest = Some en\<rparr> \<and> me_deleted_at_ms en = None"
        by (simp add: manifest_visible_def from_row_def own_private_def)
      then show ?thesis using c found a st' stored(6) True unfolding body_def Let_def by (intro conjI bexI [of _ doc]) auto
    qed (use run True p in auto)
  next
    case False
    then have l: "layer = ''semantic''" using c(2) by simp
    define extra where "extra = [(''promoted_from'', PStr (uc_user_id user @ ''/session/'' @ f)), (''promoted_at_ms'', PInt (my_now env)),
        (''promoted_by'', PStr (uc_user_id user))]"
    note run' = run [folded extra_def]
    obtain r st1 where p: "promote_to_semantic env user f body title (field payload ''collection'') extra st = (r, st1)" by fastforce
    from p show ?thesis
    proof (cases rule: promote_semantic_cases)
      case (stored col d cols tbl en copied)
      have after: "answer_after env (promote_events user layer (Some col) (col @ ''/'' @ d) copied (uc_user_id user @ ''/session/'' @ f) (my_now env))
          \<lparr>pa_target_layer = layer, pa_key = col @ ''/'' @ d, pa_promoted_from = uc_user_id user @ ''/session/'' @ f,
           pa_promoted_at_ms = my_now env, pa_promoted_by = uc_user_id user\<rparr> st1 = (Inr a, st')"
        using run' False p stored(5) by simp
      then obtain es where a: "a = \<lparr>pa_target_layer = layer, pa_key = col @ ''/'' @ d, pa_promoted_from = uc_user_id user @ ''/session/'' @ f,
           pa_promoted_at_ms = my_now env, pa_promoted_by = uc_user_id user\<rparr>" and st': "st' = st1\<lparr>ms_events := es\<rparr>"
        by (rule answer_after_keeps) auto
      have up: "sub_ok (uc_user_id user)"
          "map_of (cols (physical col)) (owner_id (uc_user_id user) d) = Some (body, stamped user ''private'' extra)"
        using upsert_private [OF stored(3)] by (simp_all add: update_conv')
      have "map_of (ms_cols st' (physical col)) (owner_id (uc_user_id user) d) = Some (body, stamped user ''private'' extra)"
        using drop_copied_forward_stamped [of cols "physical col" "owner_id (uc_user_id user) d" body "stamped user ''private'' extra"] up stored(6) st' by (simp add: stamped_simps(1) sub_ok_nonempty)
      then have "lookup (ms_cols st') user col d =
          Some (body, AList.update ''collection'' (PStr col) (stamped user ''private'' extra))"
        using up(1) owner_id_of_Some [of user d "owner_id (uc_user_id user) d"]
        by (simp add: lookup_def private_row_def stamped_simps sub_ok_nonempty)
      then have "get_document (my_sem env) (ms_cols st') user col d =
          Inr (Some (body, AList.update ''collection'' (PStr col) (stamped user ''private'' extra)))"
        by (simp add: get_document_def get_documents_lookup [OF assms(3)])
      moreover have "map_of (AList.update ''collection'' (PStr col) (stamped user ''private'' extra)) ''tier'' = Some (PStr ''private'')"
        by (simp add: update_conv' stamped_def)
      ultimately show ?thesis using c found a st' stored(6) l unfolding body_def Let_def by (intro conjI bexI [of _ doc]) auto
    qed (use run' False p in auto)
  qed
qed

text \<open>
  Without the write grant of the durable layer a promotion changes nothing, whatever session grant
  the token holds.
\<close>

lemma promote_needs_grant:
  assumes "require_durable_write_scope user ''episodic'' \<noteq> Inr ()" and "require_durable_write_scope user ''semantic'' \<noteq> Inr ()"
  shows "snd (promote_session_to_durable env payload user st) = st"
proof -
  have "isl (promote_checks env payload user st)"
    using assms promote_checks_Inr(2,3) [of env payload user st]
    by (cases "promote_checks env payload user st") auto
  then show ?thesis by (auto simp: promote_session_to_durable_def isl_def)
qed

section \<open>The provenance header\<close>

text \<open>
  The file name in the header is the uploader's, and its check admits every character but the slashes: a
  name with the end of a comment and a line break in it writes lines of its own into the header.
\<close>

lemma header_forged:
  "\<exists>f rest. validate_session_filename f \<and>
     provenance_header (u @ ''/session/'' @ f) t u =
       ''<!-- promoted_from: '' @ u @ ''/session/a -->'' @ line_feed @ ''<!-- promoted_by: root -->'' @ rest"
  by (rule exI [of _ "''a -->'' @ line_feed @ ''<!-- promoted_by: root''"],
      rule exI [of _ "line_feed @ ''<!-- promoted_at_ms: '' @ py_str_int t @ '' -->'' @ line_feed @ ''<!-- promoted_by: '' @ u @ '' -->'' @ line_feed"])
    (simp add: provenance_header_def validate_session_filename_def line_feed_def py_startswith_def)

end
