(* ===== verification/SessionProps.thy ===== *)
theory SessionProps
  imports Sessions
begin

text \<open>
  Properties of session memory: what one sweep of the janitor removes, that a user's reads and listings
  hold the user's own rows and no others, and the agreement of the service with its in-memory twin.
\<close>

section \<open>One sweep\<close>

definition session_distinct :: "session_item list \<Rightarrow> bool" where
  "session_distinct rows \<longleftrightarrow> distinct (map si_id rows)"

definition collectable :: "session_env \<Rightarrow> int \<Rightarrow> session_item \<Rightarrow> bool" where
  "collectable env cutoff r \<longleftrightarrow> sql_holds (session_policy env r) \<and> si_created_at_ms r < cutoff"

lemma gc_victims_eq: "gc_victims env cutoff n rows = take n (sort_key si_created_at_ms (filter (collectable env cutoff) rows))"
  by (simp add: gc_victims_def sql_select_def sql_simps collectable_def [abs_def])

lemma filter_by_id:
  assumes "session_distinct rows" and "set vs \<subseteq> set rows" and "\<And>v. v \<in> set vs \<Longrightarrow> p v"
  shows "filter (\<lambda>r. \<not> (p r \<and> si_id r \<in> si_id ` set vs)) rows = filter (\<lambda>r. r \<notin> set vs) rows"
proof (rule filter_cong [OF refl])
  fix r assume r: "r \<in> set rows"
  have "v = r" if "v \<in> set vs" "si_id v = si_id r" for v
    using assms(1,2) that r unfolding session_distinct_def by (auto simp: distinct_map inj_on_def)
  then show "(\<not> (p r \<and> si_id r \<in> si_id ` set vs)) = (r \<notin> set vs)"
    using assms(3) by (auto simp: image_iff dest: sym)
qed

lemma gc_expired_eq:
  assumes "session_distinct rows"
  shows "gc_expired env cutoff n rows =
    (let vs = gc_victims env cutoff n rows in (length vs, filter (\<lambda>r. r \<notin> set vs) rows))"
proof -
  let ?vs = "gc_victims env cutoff n rows"
  have "filter (\<lambda>r. \<not> (sql_holds (session_policy env r) \<and> si_id r \<in> si_id ` set ?vs)) rows = filter (\<lambda>r. r \<notin> set ?vs) rows"
    by (rule filter_by_id [OF assms]) (use gc_victims_member in blast)+
  then show ?thesis by (simp add: gc_expired_def Let_def sql_simps)
qed

lemma gc_step:
  assumes "session_distinct rows" and "gc_expired env cutoff n rows = (deleted, rows')"
  shows "session_distinct rows'"
    and "filter (\<lambda>r. \<not> collectable env cutoff r) rows' = filter (\<lambda>r. \<not> collectable env cutoff r) rows"
    and "length (filter (collectable env cutoff) rows) = deleted + length (filter (collectable env cutoff) rows')"
    and "deleted < n \<Longrightarrow> filter (collectable env cutoff) rows' = []"
proof -
  let ?c = "collectable env cutoff" and ?vs = "gc_victims env cutoff n rows"
  have e: "deleted = length ?vs" "rows' = filter (\<lambda>r. r \<notin> set ?vs) rows"
    using assms(2) gc_expired_eq [OF assms(1)] by (simp_all add: Let_def)
  have vs: "v \<in> set ?vs \<Longrightarrow> ?c v" for v using gc_victims_member by (auto simp: collectable_def)
  have dr: "distinct rows" using assms(1) by (simp add: session_distinct_def distinct_map)
  have dv: "distinct ?vs" unfolding gc_victims_eq by (intro distinct_take) (simp add: dr)
  show "session_distinct rows'" using assms(1) unfolding e session_distinct_def by (rule distinct_map_filter)
  show "filter (\<lambda>r. \<not> ?c r) rows' = filter (\<lambda>r. \<not> ?c r) rows"
    unfolding e filter_filter by (rule filter_cong) (use vs in auto)
  have sub: "set ?vs \<subseteq> set (filter ?c rows)" using gc_victims_member [of _ env cutoff n rows] vs by auto
  have "length (filter ?c rows) = length (filter (\<lambda>r. r \<in> set ?vs) (filter ?c rows)) + length (filter (\<lambda>r. r \<notin> set ?vs) (filter ?c rows))"
    by (rule sum_length_filter_compl [symmetric])
  moreover have "length (filter (\<lambda>r. r \<in> set ?vs) (filter ?c rows)) = card (set ?vs)"
    using dr sub by (subst distinct_card [symmetric]) (auto intro!: arg_cong [where f = card])
  moreover have "filter (\<lambda>r. r \<notin> set ?vs) (filter ?c rows) = filter ?c rows'"
    unfolding e by (simp add: conj_commute)
  ultimately show len: "length (filter ?c rows) = deleted + length (filter ?c rows')"
    using distinct_card [OF dv] e by simp
  show "filter ?c rows' = []" if "deleted < n"
  proof -
    have "length ?vs = length (filter ?c rows)" using that e unfolding gc_victims_eq by auto
    then show ?thesis using len e by simp
  qed
qed

lemma sweep_loop_eq:
  "session_distinct rows \<Longrightarrow> sweep_loop env cutoff acc rows =
     (acc + length (filter (collectable env cutoff) rows), filter (\<lambda>r. \<not> collectable env cutoff r) rows)"
proof (induction env cutoff acc rows rule: sweep_loop.induct)
  case (1 env cutoff acc rows)
  obtain deleted rows' where g: "gc_expired env cutoff SESSION_GC_BATCH_SIZE rows = (deleted, rows')" by fastforce
  note step = gc_step [OF "1.prems" g]
  show ?case
  proof (cases "deleted < SESSION_GC_BATCH_SIZE")
    case True
    have "rows' = filter (\<lambda>r. \<not> collectable env cutoff r) rows'"
      using step(4) [OF True] by (simp add: filter_empty_conv)
    then show ?thesis using step(2-4) True g by (simp add: sweep_loop.simps [of env cutoff acc rows])
  next
    case False
    with "1.IH" [OF g [symmetric] False step(1)] step(2,3) g show ?thesis
      by (simp add: sweep_loop.simps [of env cutoff acc rows])
  qed
qed

text \<open>
  C32: one sweep of the janitor ends, in however many batches, and removes exactly the expired rows its
  database session may see: all of them under a role exempt from row-level policies, and none at
  all for the janitor's own task under the policy, since the task binds no user.
\<close>

theorem sweep_exact:
  assumes "session_distinct rows" and "cutoff = sn_now_ms env - retention_hours * 3600 * 1000"
  shows "sweep_once env retention_hours rows =
      (length (filter (collectable env cutoff) rows), filter (\<lambda>r. \<not> collectable env cutoff r) rows) \<and>
    (sn_bypass env \<longrightarrow> snd (sweep_once env retention_hours rows) = filter (\<lambda>r. cutoff \<le> si_created_at_ms r) rows) \<and>
    (\<not> sn_bypass env \<and> sn_bound env = None \<longrightarrow> sweep_once env retention_hours rows = (0, rows))"
proof -
  have all: "sweep_once env retention_hours rows =
      (length (filter (collectable env cutoff) rows), filter (\<lambda>r. \<not> collectable env cutoff r) rows)"
    using sweep_loop_eq [OF assms(1)] by (simp add: sweep_once_def assms(2))
  have "collectable env cutoff r \<longleftrightarrow> si_created_at_ms r < cutoff" if "sn_bypass env" for r
    using that by (simp add: collectable_def session_policy_def sql_holds_def)
  moreover have "\<not> collectable env cutoff r" if "\<not> sn_bypass env" "sn_bound env = None" for r
    using that by (simp add: collectable_def session_policy_def sql_simps)
  ultimately show ?thesis unfolding all by (auto simp: not_less)
qed

section \<open>A user's own rows\<close>

text \<open>In a request the setting names the caller.\<close>

definition bound_to :: "session_env \<Rightarrow> user_context \<Rightarrow> bool" where
  "bound_to env user \<longleftrightarrow> sn_bypass env \<or> sn_bound env = Some (uc_user_id user)"

lemma own_sessions_eq:
  "bound_to env user \<Longrightarrow> own_sessions env user rows =
     sort_key (\<lambda>r. - si_created_at_ms r) (filter (\<lambda>r. si_user_id r = uc_user_id user) rows)"
  unfolding own_sessions_def
  by (intro arg_cong [where f = "sort_key _"])
    (auto simp: sql_select_def bound_to_def session_policy_def sql_simps sql_holds_def [of STrue] intro!: filter_cong)

lemma session_write_cases:
  "session_write env user f content rows = (r, rows') \<Longrightarrow>
     (rows' = rows \<and> (\<forall>x. r \<noteq> Inr x)) \<or>
     (\<exists>x. r = Inr x \<and> rows' = rows @ [x] \<and> si_user_id x = uc_user_id user \<and> si_filename x = f \<and>
        si_content x = content \<and> si_created_at_ms x = sn_now_ms env \<and> validate_session_filename f \<and>
        si_id x \<notin> si_id ` set rows)"
  by (auto simp: session_write_def Let_def split: if_splits)

lemma sort_key_newest:
  assumes "\<forall>y \<in> set xs. f x < (f y :: int)"
  shows "sort_key f (xs @ [x]) = x # sort_key f xs"
proof (rule properties_for_sort_key)
  fix k
  assume "k \<in> set (x # sort_key f xs)"
  have "filter (\<lambda>y. f k = f y) (sort_key f xs) = filter (\<lambda>y. f k = f y) xs"
    using sort_key_stable [of f "f k" xs] by (simp add: eq_commute)
  moreover have "filter (\<lambda>y. f k = f y) xs = []" if "f k = f x"
    using assms that by (auto simp: filter_empty_conv)
  ultimately show "filter (\<lambda>y. f k = f y) (x # sort_key f xs) = filter (\<lambda>y. f k = f y) (xs @ [x])" by auto
next
  show "sorted (map f (x # sort_key f xs))" using assms by (auto simp: less_imp_le)
qed simp

text \<open>
  What a user wrote last under a name is what the user reads under it and the first the user lists,
  when the clock has moved on; everything listed or read is the caller's own; and a write by anyone
  else, stored or not, changes neither answer.
\<close>

lemma session_rows_private:
  assumes "session_write env user f content rows = (r, rows')" and "bound_to env user" and "bound_to env' user'"
    and "\<forall>x \<in> set rows. si_user_id x = uc_user_id user \<longrightarrow> si_created_at_ms x < sn_now_ms env"
  shows "(\<forall>x. r = Inr x \<longrightarrow> session_read_own env user f rows' = Some x \<and> si_content x = content \<and>
        hd (session_list_own env user n offset rows') = x) \<and>
    (\<forall>x \<in> set (session_list_own env' user' n offset rows'). si_user_id x = uc_user_id user') \<and>
    (uc_user_id user' \<noteq> uc_user_id user \<longrightarrow>
      session_read_own env' user' g rows' = session_read_own env' user' g rows \<and>
      session_list_own env' user' n offset rows' = session_list_own env' user' n offset rows)"
proof -
  let ?f = "\<lambda>r. - si_created_at_ms r"
  have written: "own_sessions env user rows' = x # own_sessions env user rows \<and> si_filename x = f \<and> si_content x = content"
    if "r = Inr x" for x
  proof -
    from session_write_cases [OF assms(1)] that
    have x: "rows' = rows @ [x]" "si_user_id x = uc_user_id user" "si_filename x = f" "si_content x = content"
        "si_created_at_ms x = sn_now_ms env" by auto
    have "sort_key ?f (filter (\<lambda>r. si_user_id r = uc_user_id user) rows @ [x]) =
        x # sort_key ?f (filter (\<lambda>r. si_user_id r = uc_user_id user) rows)"
      by (rule sort_key_newest) (use assms(4) x in auto)
    with x show ?thesis by (simp add: own_sessions_eq [OF assms(2)])
  qed
  have "own_sessions env' user' rows' = own_sessions env' user' rows" if "uc_user_id user' \<noteq> uc_user_id user"
    using session_write_cases [OF assms(1)] that by (auto simp: own_sessions_eq [OF assms(3)])
  moreover have "si_user_id x = uc_user_id user'" if "x \<in> set (session_list_own env' user' n offset rows')" for x
    using that by (auto simp: session_list_own_def own_sessions_eq [OF assms(3)] dest!: in_set_takeD)
  moreover have "0 < min (offset + n + 1) MAX_RECALL_WINDOW" by (simp add: MAX_RECALL_WINDOW_def)
  ultimately show ?thesis
    using written by (auto simp: session_read_own_def session_list_own_def take_Cons' MAX_RECALL_WINDOW_def)
qed

section \<open>Pages of attachments\<close>

text \<open>
  Below the ceiling of the window a page is the page of the caller's whole list and \<open>has_more\<close> says
  exactly whether more follows; at the ceiling it says no, whatever follows.
\<close>

lemma attachments_page:
  assumes "n = nat (max 1 (min n_raw 50))"
  shows "offset + n < MAX_RECALL_WINDOW \<Longrightarrow>
      ap_matches (recall_attachments env user n_raw offset rows) = map attachment_of (take n (drop offset (own_sessions env user rows))) \<and>
      (ap_has_more (recall_attachments env user n_raw offset rows) \<longleftrightarrow> offset + n < length (own_sessions env user rows))"
    and "MAX_RECALL_WINDOW \<le> offset + n \<Longrightarrow> \<not> ap_has_more (recall_attachments env user n_raw offset rows)"
  using assms by (auto simp: recall_attachments_def session_list_own_def Let_def drop_take min_def)

section \<open>The twin\<close>

lemma twin_gc: "sn_bypass env \<Longrightarrow> mock_gc_expired cutoff n rows = gc_expired env cutoff n rows"
  by (simp add: mock_gc_expired_def gc_expired_def gc_victims_def session_policy_def sql_select_def sql_simps sql_holds_def [of STrue] Let_def)

text \<open>With rows of one millisecond the twin's two reads disagree on which upload is the latest.\<close>

lemma twin_latest_disagree:
  assumes "a = \<lparr>si_id = ''1'', si_user_id = u, si_filename = f, si_content = ''old'', si_size_bytes = 3, si_created_at_ms = t\<rparr>"
    and "b = a\<lparr>si_id := ''2'', si_content := ''new''\<rparr>" and "uc_user_id user = u"
  shows "mock_session_read_own user f [a, b] = Some a" and "mock_session_list_own user 1 0 [a, b] = [b, a]"
  using assms by (simp_all add: mock_session_read_own_def mock_session_list_own_def MAX_RECALL_WINDOW_def)

end
