(* ===== verification/LayerServices.thy ===== *)
theory LayerServices
  imports LayerFilesProps
begin

text \<open>
  The rest of the two file services (\<open>src/audittrace/services/episodic.py\<close>, \<open>services/procedural.py\<close>): the
  text a search gives to the prompt, the operations of the procedural service, the wrappers that bind a
  request to its user, and the in-memory twins with their agreement with the stored service.
\<close>

section \<open>Text for the prompt\<close>

definition linefeed :: string where "linefeed = [CHR 0x0A]"

fun join_lines :: "string list \<Rightarrow> string" where
  "join_lines [] = []"
| "join_lines [l] = l"
| "join_lines (l # ls) = l @ linefeed @ join_lines ls"

definition decisions_text :: "file_row list \<Rightarrow> string" where
  "decisions_text rows =
     (if rows = [] then []
      else join_lines (''## Architecture Decisions'' #
        map (\<lambda>r. linefeed @ ''### '' @ fr_label r @ linefeed @ take 400 (fr_content r)) rows))"

definition skills_text :: "file_row list \<Rightarrow> string" where
  "skills_text rows =
     (if rows = [] then []
      else join_lines (''## Relevant Skills'' #
        map (\<lambda>r. ''- **'' @ fr_label r @ ''** ('' @ fr_file r @ '')'') rows))"

definition episodic_as_context :: "file_env \<Rightarrow> user_context \<Rightarrow> string \<Rightarrow> file_store \<Rightarrow> string \<times> file_store" where
  "episodic_as_context env user query fs =
     (let (rows, fs') = search_files env ''episodic'' user query fs in (decisions_text rows, fs'))"

section \<open>The procedural service\<close>

definition procedural_load :: "file_env \<Rightarrow> user_context \<Rightarrow> file_store \<Rightarrow> file_row list \<times> file_store" where
  "procedural_load env user fs = load_files env ''procedural'' user fs"

definition procedural_search :: "file_env \<Rightarrow> user_context \<Rightarrow> string \<Rightarrow> file_store \<Rightarrow> file_row list \<times> file_store" where
  "procedural_search env user query fs = search_files env ''procedural'' user query fs"

definition procedural_as_context :: "file_env \<Rightarrow> user_context \<Rightarrow> string \<Rightarrow> file_store \<Rightarrow> string \<times> file_store" where
  "procedural_as_context env user query fs =
     (let (rows, fs') = procedural_search env user query fs in (skills_text rows, fs'))"

definition procedural_read :: "file_env \<Rightarrow> user_context \<Rightarrow> string \<Rightarrow> file_store \<Rightarrow> (string \<times> string) option" where
  "procedural_read env user f fs = read_file env ''procedural'' user f fs"

definition procedural_write ::
  "file_env \<Rightarrow> user_context \<Rightarrow> string \<Rightarrow> string \<Rightarrow> file_store \<Rightarrow> (file_error, unit) res \<times> file_store" where
  "procedural_write env user f content fs = write_file env ''procedural'' user f content fs"

definition procedural_delete ::
  "file_env \<Rightarrow> user_context \<Rightarrow> string \<Rightarrow> file_store \<Rightarrow> (file_error, bool) res \<times> file_store" where
  "procedural_delete env user f fs = delete_file env ''procedural'' user f fs"

section \<open>Bound to a user\<close>

text \<open>The wrappers drop the user of the call.\<close>

definition scoped_load_files ::
  "user_context \<Rightarrow> file_env \<Rightarrow> string \<Rightarrow> user_context \<Rightarrow> file_store \<Rightarrow> file_row list \<times> file_store" where
  "scoped_load_files bound env layer user fs = load_files env layer bound fs"

definition scoped_search_files ::
  "user_context \<Rightarrow> file_env \<Rightarrow> string \<Rightarrow> user_context \<Rightarrow> string \<Rightarrow> file_store \<Rightarrow> file_row list \<times> file_store" where
  "scoped_search_files bound env layer user query fs = search_files env layer bound query fs"

definition scoped_read_file ::
  "user_context \<Rightarrow> file_env \<Rightarrow> string \<Rightarrow> user_context \<Rightarrow> string \<Rightarrow> file_store \<Rightarrow> (string \<times> string) option" where
  "scoped_read_file bound env layer user f fs = read_file env layer bound f fs"

definition scoped_write_file ::
  "user_context \<Rightarrow> file_env \<Rightarrow> string \<Rightarrow> user_context \<Rightarrow> string \<Rightarrow> string \<Rightarrow> file_store
    \<Rightarrow> (file_error, unit) res \<times> file_store" where
  "scoped_write_file bound env layer user f content fs = write_file env layer bound f content fs"

definition scoped_delete_file ::
  "user_context \<Rightarrow> file_env \<Rightarrow> string \<Rightarrow> user_context \<Rightarrow> string \<Rightarrow> file_store \<Rightarrow> (file_error, bool) res \<times> file_store" where
  "scoped_delete_file bound env layer user f fs = delete_file env layer bound f fs"

section \<open>The in-memory twin\<close>

record mock_files =
  mf_corpus :: "file_row list"
  mf_private :: "string \<Rightarrow> file_row list"

definition mock_merged_files :: "user_context \<Rightarrow> mock_files \<Rightarrow> file_row list" where
  "mock_merged_files user m =
     map snd (foldl (\<lambda>d r. AList.update (fr_file r) r d) [] (mf_corpus m @ mf_private m (uc_user_id user)))"

definition mock_search_files :: "string \<Rightarrow> user_context \<Rightarrow> string \<Rightarrow> mock_files \<Rightarrow> file_row list" where
  "mock_search_files layer user query m =
     (let keywords = search_keywords query
      in if keywords = [] then [] else filter (matches_keywords layer keywords) (mock_merged_files user m))"

definition mock_read_file :: "user_context \<Rightarrow> string \<Rightarrow> mock_files \<Rightarrow> file_row option" where
  "mock_read_file user f m =
     (if \<not> valid_filename f then None
      else case find (\<lambda>r. fr_file r = f) (mf_private m (uc_user_id user)) of
        Some r \<Rightarrow> Some r
      | None \<Rightarrow> find (\<lambda>r. fr_file r = f) (mf_corpus m))"

fun replace_first :: "string \<Rightarrow> file_row \<Rightarrow> file_row list \<Rightarrow> file_row list" where
  "replace_first f r [] = [r]"
| "replace_first f r (x # xs) = (if fr_file x = f then r # xs else x # replace_first f r xs)"

fun pop_first :: "string \<Rightarrow> file_row list \<Rightarrow> (bool \<times> file_row list)" where
  "pop_first f [] = (False, [])"
| "pop_first f (x # xs) = (if fr_file x = f then (True, xs) else let (b, ys) = pop_first f xs in (b, x # ys))"

definition mock_write_file ::
  "string \<Rightarrow> user_context \<Rightarrow> string \<Rightarrow> string \<Rightarrow> mock_files \<Rightarrow> (file_error, unit) res \<times> mock_files" where
  "mock_write_file layer user f content m =
     (if \<not> valid_filename f then (Inl FileValueError, m)
      else (Inr (), m\<lparr>mf_private := (mf_private m)(uc_user_id user :=
              replace_first f
                \<lparr>fr_file = f, fr_content = content, fr_label = file_label layer f content, fr_modified_ms = None,
                 fr_tier = ''private''\<rparr> (mf_private m (uc_user_id user)))\<rparr>))"

definition mock_delete_file :: "user_context \<Rightarrow> string \<Rightarrow> mock_files \<Rightarrow> (file_error, bool) res \<times> mock_files" where
  "mock_delete_file user f m =
     (if \<not> valid_filename f then (Inr False, m)
      else let (b, rows) = pop_first f (mf_private m (uc_user_id user))
           in (Inr b, m\<lparr>mf_private := (mf_private m)(uc_user_id user := rows)\<rparr>))"

section \<open>Agreement\<close>

definition content_in :: "file_row list \<Rightarrow> string \<Rightarrow> string option" where
  "content_in rows f = map_option fr_content (find (\<lambda>r. fr_file r = f) rows)"

definition tier_in :: "file_row list \<Rightarrow> string \<Rightarrow> bool" where
  "tier_in rows tier \<longleftrightarrow> (\<forall>r \<in> set rows. fr_tier r = tier)"

definition files_sim :: "file_env \<Rightarrow> string \<Rightarrow> file_store \<Rightarrow> mock_files \<Rightarrow> bool" where
  "files_sim env layer fs m \<longleftrightarrow>
     tier_in (mf_corpus m) ''corpus'' \<and>
     (\<forall>f. valid_filename f \<longrightarrow>
        map_option ob_text (map_of (fs_objects fs) (corpus_object env layer f)) = map_option Some (content_in (mf_corpus m) f)) \<and>
     (\<forall>user. sub_ok (uc_user_id user) \<longrightarrow>
        tier_in (mf_private m (uc_user_id user)) ''private'' \<and> distinct (map fr_file (mf_private m (uc_user_id user))) \<and>
        (\<forall>f. valid_filename f \<longrightarrow>
           map_option ob_text (map_of (fs_objects fs) (private_object env layer user f)) =
             map_option Some (content_in (mf_private m (uc_user_id user)) f)))"

text \<open>A storage that answers every call.\<close>

definition storage_up :: "file_env \<Rightarrow> bool" where
  "storage_up env \<longleftrightarrow> (\<forall>k. \<not> fe_get_error env k \<and> \<not> fe_put_error env k \<and> \<not> fe_stat_error env k \<and> \<not> fe_remove_error env k) \<and>
     fe_private_bucket env \<noteq> fe_bucket env"

lemma storage_upD:
  assumes "storage_up env"
  shows "\<not> fe_get_error env k" "\<not> fe_put_error env k" "\<not> fe_stat_error env k" "\<not> fe_remove_error env k"
  using assms unfolding storage_up_def by blast+

lemma load_keeps_objects: "fs_objects (snd (load_files env layer user fs)) = fs_objects fs"
  by (simp add: load_files_def merged_rows_def private_rows_def corpus_rows_def cached_rows_def cache_set_def split_beta
      split: option.split)

lemma content_replace:
  "content_in (replace_first f r rows) g = (if g = f \<and> fr_file r = f then Some (fr_content r) else content_in rows g)"
  if "fr_file r = f"
  using that by (induction rows) (auto simp: content_in_def)

lemma replace_first_keeps:
  assumes "fr_file r = f"
  shows "set (map fr_file (replace_first f r rows)) = insert f (set (map fr_file rows))"
    and "distinct (map fr_file rows) \<Longrightarrow> distinct (map fr_file (replace_first f r rows))"
    and "tier_in rows t \<Longrightarrow> fr_tier r = t \<Longrightarrow> tier_in (replace_first f r rows) t"
proof -
  show a: "set (map fr_file (replace_first f r rows)) = insert f (set (map fr_file rows))" for rows
    using assms by (induction rows) auto
  show "distinct (map fr_file (replace_first f r rows))" if "distinct (map fr_file rows)"
    using that
  proof (induction rows)
    case (Cons x xs)
    then show ?case using a [of xs] assms by auto
  qed (use assms in simp)
  show "tier_in rows t \<Longrightarrow> fr_tier r = t \<Longrightarrow> tier_in (replace_first f r rows) t"
    by (induction rows) (auto simp: tier_in_def)
qed

lemma pop_first_keeps:
  assumes "pop_first f rows = (b, rows')"
  shows "b \<longleftrightarrow> content_in rows f \<noteq> None" and "set rows' \<subseteq> set rows"
    and "distinct (map fr_file rows) \<Longrightarrow> distinct (map fr_file rows') \<and> (\<forall>g. content_in rows' g = (if g = f then None else content_in rows g))"
proof -
  have "(b \<longleftrightarrow> content_in rows f \<noteq> None) \<and> set rows' \<subseteq> set rows \<and>
      (distinct (map fr_file rows) \<longrightarrow> distinct (map fr_file rows') \<and> (\<forall>g. content_in rows' g = (if g = f then None else content_in rows g)))"
    using assms
  proof (induction rows arbitrary: b rows')
    case (Cons x xs)
    show ?case
    proof (cases "fr_file x = f")
      case True
      then have "content_in xs f = None" if "distinct (map fr_file (x # xs))"
        using that by (auto simp: content_in_def find_None_iff image_iff)
      with Cons.prems True show ?thesis by (auto simp: content_in_def)
    next
      case False
      obtain c ys where p: "pop_first f xs = (c, ys)" by fastforce
      have ih: "(c \<longleftrightarrow> content_in xs f \<noteq> None) \<and> set ys \<subseteq> set xs \<and>
          (distinct (map fr_file xs) \<longrightarrow> distinct (map fr_file ys) \<and> (\<forall>g. content_in ys g = (if g = f then None else content_in xs g)))"
        using Cons.IH [OF p] .
      have eq: "b = c" "rows' = x # ys" using Cons.prems False p by auto
      have "fr_file x \<notin> set (map fr_file ys)" if "distinct (map fr_file (x # xs))"
        using that ih by auto
      with ih False show ?thesis unfolding eq by (auto simp: content_in_def)
    qed
  qed (auto simp: content_in_def)
  then show "b \<longleftrightarrow> content_in rows f \<noteq> None" and "set rows' \<subseteq> set rows"
    and "distinct (map fr_file rows) \<Longrightarrow> distinct (map fr_file rows') \<and> (\<forall>g. content_in rows' g = (if g = f then None else content_in rows g))"
    by blast+
qed

lemma private_object_inj: "private_object env layer user f = private_object env layer user g \<longleftrightarrow> f = g"
  by (simp add: private_object_def)

lemma private_not_corpus: "fe_private_bucket env \<noteq> fe_bucket env \<Longrightarrow> private_object env layer user f \<noteq> corpus_object env layer g"
  by (simp add: private_object_def corpus_object_def)

lemma read_twin:
  assumes "files_sim env layer fs m" and "storage_up env" and "sub_ok (uc_user_id user)"
  shows "map_option (\<lambda>r. (fr_content r, fr_tier r)) (mock_read_file user f m) = read_file env layer user f fs"
proof (cases "valid_filename f")
  case True
  have fetch: "fetch_object env (fs_objects fs) k = c" if "map_option ob_text (map_of (fs_objects fs) k) = map_option Some c" for k c
    using that storage_upD(1) [OF assms(2), of k] by (cases c) (auto simp: fetch_object_def split: option.splits)
  have p: "fetch_object env (fs_objects fs) (private_object env layer user f) = content_in (mf_private m (uc_user_id user)) f"
    "fetch_object env (fs_objects fs) (corpus_object env layer f) = content_in (mf_corpus m) f"
    using assms(1,3) True by (auto simp: files_sim_def intro!: fetch)
  have t: "find (\<lambda>r. fr_file r = f) rows = Some r \<Longrightarrow> tier_in rows tier \<Longrightarrow> fr_tier r = tier" for rows r tier
    by (auto simp: find_Some_iff tier_in_def)
  have tiers: "tier_in (mf_private m (uc_user_id user)) ''private''" "tier_in (mf_corpus m) ''corpus''"
    using assms(1,3) by (auto simp: files_sim_def)
  show ?thesis
    using True p t [OF _ tiers(1)] t [OF _ tiers(2)]
    by (cases "find (\<lambda>r. fr_file r = f) (mf_private m (uc_user_id user))"; cases "find (\<lambda>r. fr_file r = f) (mf_corpus m)")
      (auto simp: read_file_def mock_read_file_def content_in_def)
qed (simp add: read_file_def mock_read_file_def)

lemma sim_private:
  assumes "files_sim env layer fs m" and "layer \<in> set FILE_LAYERS" and "sub_ok (uc_user_id user)" and "storage_up env"
    and "map_of objs' = (map_of (fs_objects fs))(private_object env layer user f := ob)"
    and "map_option ob_text ob = map_option Some (content_in rows f)" and "valid_filename f"
    and "tier_in rows ''private''" and "distinct (map fr_file rows)"
    and "\<And>g. g \<noteq> f \<Longrightarrow> content_in rows g = content_in (mf_private m (uc_user_id user)) g"
    and "fs_objects fs' = objs'"
  shows "files_sim env layer fs' (m\<lparr>mf_private := (mf_private m)(uc_user_id user := rows)\<rparr>)"
proof -
  have nc: "corpus_object env layer g \<noteq> private_object env layer user f" for g
    using private_not_corpus assms(4) by (metis storage_up_def)
  have other: "private_object env layer v g \<noteq> private_object env layer user f"
    if "sub_ok (uc_user_id v)" "uc_user_id v \<noteq> uc_user_id user" for v g
    using private_object_other [OF that(1) assms(3,2,2) that(2)] .
  have same: "private_object env layer v g = private_object env layer user g" if "uc_user_id v = uc_user_id user" for v g
    using that by (simp add: private_object_def)
  show ?thesis
    unfolding files_sim_def
  proof (intro conjI allI impI)
    show "tier_in (mf_corpus (m\<lparr>mf_private := (mf_private m)(uc_user_id user := rows)\<rparr>)) ''corpus''"
      using assms(1) by (simp add: files_sim_def)
    fix g assume "valid_filename g"
    then show "map_option ob_text (map_of (fs_objects fs') (corpus_object env layer g)) =
        map_option Some (content_in (mf_corpus (m\<lparr>mf_private := (mf_private m)(uc_user_id user := rows)\<rparr>)) g)"
      using assms(1,5,11) nc by (simp add: files_sim_def)
  next
    fix v :: user_context assume v: "sub_ok (uc_user_id v)"
    show "tier_in (mf_private (m\<lparr>mf_private := (mf_private m)(uc_user_id user := rows)\<rparr>) (uc_user_id v)) ''private''"
      "distinct (map fr_file (mf_private (m\<lparr>mf_private := (mf_private m)(uc_user_id user := rows)\<rparr>) (uc_user_id v)))"
      using assms(1,8,9) v by (auto simp: files_sim_def)
    fix g assume g: "valid_filename g"
    show "map_option ob_text (map_of (fs_objects fs') (private_object env layer v g)) =
        map_option Some (content_in (mf_private (m\<lparr>mf_private := (mf_private m)(uc_user_id user := rows)\<rparr>) (uc_user_id v)) g)"
    proof (cases "uc_user_id v = uc_user_id user")
      case True
      show ?thesis
      proof (cases "g = f")
        case False
        then show ?thesis
          using True same [OF True] private_object_inj assms(1,3,5,10,11) g by (auto simp: files_sim_def)
      qed (use True same [OF True] assms(5,6,11) in simp)
    next
      case False
      then show ?thesis using other [OF v False] assms(1,5,11) v g by (simp add: files_sim_def)
    qed
  qed
qed

lemma write_twin:
  assumes "files_sim env layer fs m" and "layer \<in> set FILE_LAYERS" and "sub_ok (uc_user_id user)" and "storage_up env"
    and "write_file env layer user f content fs = (r, fs')" and "mock_write_file layer user f content m = (r', m')"
  shows "r = r' \<and> files_sim env layer fs' m'"
proof (cases "valid_filename f")
  case True
  let ?row = "\<lparr>fr_file = f, fr_content = content, fr_label = file_label layer f content, fr_modified_ms = None, fr_tier = ''private''\<rparr>"
  let ?rows = "replace_first f ?row (mf_private m (uc_user_id user))"
  note up = storage_upD(2) [OF assms(4), of "private_object env layer user f"]
  have w: "r = Inr ()" "fs_objects fs' = AList.update (private_object env layer user f)
      \<lparr>ob_text = Some content, ob_modified_ms = Some (fe_now_ms env)\<rparr> (fs_objects fs)"
    using assms(5) True up by (auto simp: write_file_def Let_def cache_invalidate_def split: if_splits)
  have mk: "r' = Inr ()" "m' = m\<lparr>mf_private := (mf_private m)(uc_user_id user := ?rows)\<rparr>"
    using assms(6) True by (auto simp: mock_write_file_def)
  have old: "tier_in (mf_private m (uc_user_id user)) ''private''" "distinct (map fr_file (mf_private m (uc_user_id user)))"
    using assms(1,3) by (auto simp: files_sim_def)
  have "files_sim env layer fs' m'"
    unfolding mk
    by (rule sim_private [OF assms(1-4) _ _ True _ _ _ w(2), where ob = "Some \<lparr>ob_text = Some content, ob_modified_ms = Some (fe_now_ms env)\<rparr>"])
      (use old replace_first_keeps [of ?row f] in \<open>auto simp: update_conv' content_replace\<close>)
  with w mk show ?thesis by simp
next
  case False
  then show ?thesis using assms by (auto simp: write_file_def mock_write_file_def Let_def)
qed

lemma delete_twin:
  assumes "files_sim env layer fs m" and "layer \<in> set FILE_LAYERS" and "sub_ok (uc_user_id user)" and "storage_up env"
    and "delete_file env layer user f fs = (r, fs')" and "mock_delete_file user f m = (r', m')"
  shows "r = r' \<and> files_sim env layer fs' m'"
proof (cases "valid_filename f")
  case True
  obtain b rows where p: "pop_first f (mf_private m (uc_user_id user)) = (b, rows)" by fastforce
  note pop = pop_first_keeps [OF p]
  have old: "tier_in (mf_private m (uc_user_id user)) ''private''" "distinct (map fr_file (mf_private m (uc_user_id user)))"
    and c: "map_option ob_text (map_of (fs_objects fs) (private_object env layer user f)) =
      map_option Some (content_in (mf_private m (uc_user_id user)) f)"
    using assms(1,3) True by (auto simp: files_sim_def)
  have b: "b \<longleftrightarrow> map_of (fs_objects fs) (private_object env layer user f) \<noteq> None"
    using pop(1) c by (cases "content_in (mf_private m (uc_user_id user)) f") auto
  note up = storage_upD(3,4) [OF assms(4), of "private_object env layer user f"]
  have mk: "r' = Inr b" "m' = m\<lparr>mf_private := (mf_private m)(uc_user_id user := rows)\<rparr>"
    using assms(6) True p by (auto simp: mock_delete_file_def)
  have d: "r = Inr b" "map_of (fs_objects fs') = (map_of (fs_objects fs))(private_object env layer user f := None)"
    using assms(5) True up b by (auto simp: delete_file_def Let_def cache_invalidate_def delete_conv' fun_upd_idem_iff split: if_splits)
  have "files_sim env layer fs' m'"
    unfolding mk
    by (rule sim_private [OF assms(1-4) d(2) _ True _ _ _ refl])
      (use old pop in \<open>auto simp: tier_in_def\<close>)
  with d mk show ?thesis by simp
next
  case False
  then show ?thesis using assms by (auto simp: delete_file_def mock_delete_file_def Let_def)
qed

fun mock_exec_file :: "file_op \<Rightarrow> mock_files \<Rightarrow> mock_files" where
  "mock_exec_file (FWrite user layer f content) m = snd (mock_write_file layer user f content m)"
| "mock_exec_file (FDelete user layer f) m = snd (mock_delete_file user f m)"
| "mock_exec_file _ m = m"

fun op_layer :: "string \<Rightarrow> file_op \<Rightarrow> bool" where
  "op_layer l (FWrite user layer f content) \<longleftrightarrow> layer = l"
| "op_layer l (FDelete user layer f) \<longleftrightarrow> layer = l"
| "op_layer l _ \<longleftrightarrow> True"

text \<open>
  Over a storage that answers, any run of loads, writes, removals, invalidations and expiries of one
  layer leaves the stored service and its in-memory twin with the same answers to every read by name,
  text and tier, of every user.
\<close>

lemma file_twin:
  assumes "files_sim env layer fs m" and "layer \<in> set FILE_LAYERS" and "storage_up env"
    and "list_all op_ok ops" and "list_all (op_layer layer) ops" and "sub_ok (uc_user_id user)"
  shows "map_option (\<lambda>r. (fr_content r, fr_tier r)) (mock_read_file user f (fold mock_exec_file ops m)) =
    read_file env layer user f (fold (exec_file env) ops fs)"
proof -
  have keep: "files_sim env layer fs' m" if "files_sim env layer fs m" "fs_objects fs' = fs_objects fs" for fs fs' m
    using that by (simp add: files_sim_def)
  have step: "files_sim env layer (exec_file env p fs) (mock_exec_file p m)"
    if "files_sim env layer fs m" "op_ok p" "op_layer layer p" for p fs m
  proof (cases p)
    case (FWrite v l g content)
    then show ?thesis using write_twin [OF that(1) assms(2) _ assms(3), of v g content] that by (auto intro!: surjective_pairing)
  next
    case (FDelete v l g)
    then show ?thesis using delete_twin [OF that(1) assms(2) _ assms(3), of v g] that by auto (metis prod.collapse)
  next
    case (FLoad v l)
    then show ?thesis using keep [OF that(1)] load_keeps_objects by simp
  next
    case (FInvalidate l)
    then show ?thesis using keep [OF that(1)] by (simp add: invalidate_corpus_def cache_invalidate_def)
  next
    case (FExpire k)
    then show ?thesis using keep [OF that(1)] by simp
  qed
  have "files_sim env layer (fold (exec_file env) ops fs) (fold mock_exec_file ops m)"
    using assms(1,4,5)
  proof (induction ops arbitrary: fs m)
    case (Cons p ops)
    then show ?case using step [OF Cons.prems(1), of p] by simp
  qed simp
  then show ?thesis by (rule read_twin [OF _ assms(3,6)])
qed

end
