(* ===== verification/FilesWitness.thy ===== *)
theory FilesWitness
  imports RouteWitness PromoteProps SessionProps LayerServices
begin

text \<open>
  Requests of two users to the file layers, to session memory and to promotion: the states at which the
  properties are applied.
\<close>

section \<open>Files\<close>

definition file_demo_env :: file_env where
  "file_demo_env = \<lparr>fe_bucket = ''shared'', fe_private_bucket = ''mine'', fe_ttl = 60, fe_list_error = (\<lambda>_. False),
     fe_get_error = (\<lambda>_. False), fe_put_error = (\<lambda>_. False), fe_stat_error = (\<lambda>_. False), fe_remove_error = (\<lambda>_. False),
     fe_cache_get_down = (\<lambda>_. False), fe_cache_set_down = (\<lambda>_. False), fe_cache_invalidate_down = (\<lambda>_. False),
     fe_now_ms = 7\<rparr>"

definition shared_file :: file_store where
  "shared_file = \<lparr>fs_objects = [((''shared'', ''episodic/a.md''), \<lparr>ob_text = Some ''# Shared'', ob_modified_ms = Some 1\<rparr>)],
     fs_cache = []\<rparr>"

definition anns_ops :: "file_op list" where
  "anns_ops = [FLoad ann ''episodic'', FWrite ann ''episodic'' ''a.md'' ''mine'', FLoad bob ''episodic'']"

lemma file_demo_facts:
  "\<And>k. \<not> fe_cache_invalidate_down file_demo_env k" "\<And>k. \<not> fe_get_error file_demo_env k"
  "fe_private_bucket file_demo_env \<noteq> fe_bucket file_demo_env" "fs_cache shared_file = []"
  by (simp_all add: file_demo_env_def shared_file_def)

lemma demo_ids: "uc_user_id ann = ''ann''" "uc_user_id bob = ''bob''" "sub_ok ''ann''" "sub_ok ''bob''"
  by code_simp+


lemma others_files_invisible_witness:
  "read_file file_demo_env ''episodic'' bob ''a.md'' (fold (exec_file file_demo_env) anns_ops shared_file) = Some (''# Shared'', ''corpus'')"
proof -
  have "list_all op_ok anns_ops" "list_all (by_another (uc_user_id bob)) anns_ops"
    by (simp_all add: anns_ops_def FILE_LAYERS_def demo_ids)
  from others_files_invisible [OF this file_demo_facts(3,1,4) _ _ refl, of "''episodic''" "''x''" "''a.md''"]
  have "read_file file_demo_env ''episodic'' bob ''a.md'' (fold (exec_file file_demo_env) anns_ops shared_file) =
      read_file file_demo_env ''episodic'' bob ''a.md'' shared_file"
    by (simp add: FILE_LAYERS_def demo_ids)
  moreover have "read_file file_demo_env ''episodic'' bob ''a.md'' shared_file = Some (''# Shared'', ''corpus'')" by code_simp
  ultimately show ?thesis by simp
qed

lemma listing_reads_agree_witness:
  "\<exists>r \<in> set (fst (load_files file_demo_env ''episodic'' ann shared_file)).
     fr_file r = ''a.md'' \<and> fr_content r = ''# Shared'' \<and> fr_tier r = ''corpus''"
proof -
  have "distinct (map fst (fs_objects shared_file))"
    "readable_tier file_demo_env (fs_objects shared_file) (fe_private_bucket file_demo_env) (private_prefix ''episodic'' (uc_user_id ann))"
    "readable_tier file_demo_env (fs_objects shared_file) (fe_bucket file_demo_env) (layer_prefix ''episodic'')"
    "read_file file_demo_env ''episodic'' ann ''a.md'' shared_file = Some (''# Shared'', ''corpus'')"
    by code_simp+
  with listing_reads_agree [OF file_demo_facts(4) _ _ this(1-3), of "''a.md''" "''# Shared''" "''corpus''"]
  show ?thesis by (simp add: FILE_LAYERS_def demo_ids)
qed

text \<open>An object below a folder of the layer is listed under its last name, which no read finds.\<close>

lemma nested_object_listed_unreadable:
  "(let fs = \<lparr>fs_objects = [((''shared'', ''episodic/papers/p.md''), \<lparr>ob_text = Some ''x'', ob_modified_ms = None\<rparr>)], fs_cache = []\<rparr>
    in map fr_file (fst (load_files file_demo_env ''episodic'' ann fs)) = [''p.md''] \<and>
       read_file file_demo_env ''episodic'' ann ''p.md'' fs = None)"
  by code_simp

lemma file_twin_witness:
  "map_option (\<lambda>r. (fr_content r, fr_tier r)) (mock_read_file ann ''a.md''
     (fold mock_exec_file [FWrite ann ''episodic'' ''a.md'' ''mine'']
       \<lparr>mf_corpus = [\<lparr>fr_file = ''a.md'', fr_content = ''# Shared'', fr_label = ''Shared'', fr_modified_ms = Some 1, fr_tier = ''corpus''\<rparr>],
        mf_private = (\<lambda>_. [])\<rparr>)) = Some (''mine'', ''private'')"
proof -
  let ?m = "\<lparr>mf_corpus = [\<lparr>fr_file = ''a.md'', fr_content = ''# Shared'', fr_label = ''Shared'', fr_modified_ms = Some 1, fr_tier = ''corpus''\<rparr>],
        mf_private = (\<lambda>_. [])\<rparr>" and ?ops = "[FWrite ann ''episodic'' ''a.md'' ''mine'']"
  have sim: "files_sim file_demo_env ''episodic'' shared_file ?m"
    by (auto simp: files_sim_def shared_file_def tier_in_def content_in_def corpus_object_def private_object_def
        file_demo_env_def layer_prefix_def)
  have up: "storage_up file_demo_env" by (simp add: storage_up_def file_demo_env_def)
  have "read_file file_demo_env ''episodic'' ann ''a.md'' (fold (exec_file file_demo_env) ?ops shared_file) = Some (''mine'', ''private'')"
    by code_simp
  then show ?thesis
    using file_twin [OF sim _ up, of ?ops ann "''a.md''"] by (simp add: FILE_LAYERS_def demo_ids)
qed

section \<open>The routes of the file layers\<close>

definition session_demo_env :: "string \<Rightarrow> session_env" where
  "session_demo_env u = \<lparr>sn_bound = Some u, sn_bypass = False, sn_now_ms = 9, sn_uuid = ''s1'', sn_write_fails = False\<rparr>"

definition memory_demo_env :: memory_env where
  "memory_demo_env = \<lparr>my_files = file_demo_env, my_session = session_demo_env ''ann'', my_sem = sem_demo_env, my_now = 7,
     my_uid = ''u1'', my_audit_ok = (\<lambda>_. True)\<rparr>"

definition empty_memory :: memory_state where
  "empty_memory = \<lparr>ms_files = shared_file, ms_table = [], ms_cols = (\<lambda>_. []), ms_sessions = [], ms_events = []\<rparr>"

definition file_body :: "string \<Rightarrow> string \<Rightarrow> metadata" where
  "file_body f c = [(''filename'', PStr f), (''content'', PStr c)]"

lemma file_body_simps [simp]:
  "file_fields (file_body f c) = Some (f, c)" "field (file_body f c) ''content'' = PStr c"
  by (simp_all add: file_fields_def file_body_def field_def)

definition answer_of :: "'a layer_answer \<Rightarrow> 'a" where
  "answer_of a = (case fst a of Inl _ \<Rightarrow> undefined | Inr x \<Rightarrow> x)"

lemma answered_layer: "\<not> isl (fst a) \<Longrightarrow> a = (Inr (answer_of a), snd a)"
  by (cases a) (auto simp: answer_of_def isl_def split: sum.splits)

lemma refused_layer: "(case fst a of Inl (Http n) \<Rightarrow> n = k | _ \<Rightarrow> False) \<Longrightarrow> a = (Inl (Http k), snd a)"
  by (cases a) (auto split: sum.splits route_error.splits)

lemma memory_demo_gets: "\<not> fe_get_error (my_files memory_demo_env) k" "se_get_error (my_sem memory_demo_env) name ids = None"
  by (simp_all add: memory_demo_env_def file_demo_env_def)

lemma episodic_file: "''episodic'' \<in> set FILE_LAYERS"
  by (simp add: FILE_LAYERS_def)

abbreviation ann_creates_file :: "manifest_entry layer_answer" where
  "ann_creates_file \<equiv> create_file_route memory_demo_env ann ''episodic'' (file_body ''a.md'' ''mine'') (Some ''T'') None empty_memory"

lemma ann_creates_file_ok: "ann_creates_file = (Inr (answer_of ann_creates_file), snd ann_creates_file)"
  by (rule answered_layer) code_simp

text \<open>Ann asks for the shared tier, which the layer does not have.\<close>

lemma file_refusals_before_writes_witness:
  "snd (create_file_route memory_demo_env ann ''episodic'' (file_body ''a.md'' ''mine'') None (Some ''corpus'') empty_memory) = empty_memory"
proof -
  let ?a = "create_file_route memory_demo_env ann ''episodic'' (file_body ''a.md'' ''mine'') None (Some ''corpus'') empty_memory"
  have "case fst ?a of Inl (Http n) \<Rightarrow> n = 400 | _ \<Rightarrow> False" by code_simp
  from file_refusals_before_writes [OF episodic_file disjI1 [OF conjI [OF _ refused_layer [OF this]]]]
  show ?thesis by simp
qed

theorem create_read_file_witness:
  "read_file_route memory_demo_env ann ''episodic'' ''ann/episodic/a.md'' (snd ann_creates_file) =
     Inr \<lparr>fa_content = ''mine'', fa_tier = ''private'', fa_manifest = Some (answer_of ann_creates_file)\<rparr>"
  using create_read_file [OF ann_creates_file_ok episodic_file file_body_simps(1) memory_demo_gets(1), of "''ann/episodic/a.md''"]
  by (simp add: demo_ids)

lemma missing_update_creates_witness:
  "read_file_route memory_demo_env ann ''episodic'' ''b.md''
     (snd (update_file_route memory_demo_env ann ''episodic'' ''b.md'' (file_body ''b.md'' ''new'') None empty_memory)) =
   Inr \<lparr>fa_content = ''new'', fa_tier = ''private'', fa_manifest = None\<rparr>"
proof -
  let ?a = "update_file_route memory_demo_env ann ''episodic'' ''b.md'' (file_body ''b.md'' ''new'') None empty_memory"
  have "case fst ?a of Inl (Http n) \<Rightarrow> n = 404 | _ \<Rightarrow> False" by code_simp
  from missing_update_creates [OF refused_layer [OF this] episodic_file memory_demo_gets(1)]
  show ?thesis by simp
qed

lemma answered_file_writes_audited_witness:
  "\<exists>es. ms_events (snd ann_creates_file) = es \<and> es \<noteq> [] \<and> ev_user (hd es) = ''ann'' \<and> ev_key (hd es) = ''a.md''"
  using answered_file_writes_audited [OF episodic_file disjI1 [OF conjI [OF ann_creates_file_ok conjI [OF file_body_simps(1) refl]]]]
  by (simp add: empty_memory_def demo_ids)

abbreviation uploader :: user_context where
  "uploader \<equiv> ann\<lparr>uc_scopes := [''memory:episodic:write'']\<rparr>"

lemma upload_leaves_no_row_witness:
  "ms_events (snd (upload_memory_file memory_demo_env uploader ''episodic'' (Some ''a.md'') None None ''mine'' None empty_memory)) = [] \<and>
   read_file (my_files memory_demo_env) ''episodic'' uploader ''a.md''
     (ms_files (snd (upload_memory_file memory_demo_env uploader ''episodic'' (Some ''a.md'') None None ''mine'' None empty_memory))) =
     Some (''mine'', ''private'')"
proof -
  let ?a = "upload_memory_file memory_demo_env uploader ''episodic'' (Some ''a.md'') None None ''mine'' None empty_memory"
  have "fst ?a = Inr (Uploaded (Some ''mine'') (uc_user_id uploader @ ''/'' @ ''episodic'' @ ''/'' @ ''a.md'') 4)" by code_simp
  then have "?a = (Inr (Uploaded (Some ''mine'') (uc_user_id uploader @ ''/'' @ ''episodic'' @ ''/'' @ ''a.md'') 4), snd ?a)"
    by (rule prod_eqI [OF _ snd_conv [symmetric], unfolded fst_conv])
  from upload_leaves_no_row [OF this episodic_file refl memory_demo_gets(1)]
  have "ms_events (snd ?a) = ms_events empty_memory" "\<exists>body. utf8_decode ''mine'' = Some body \<and>
      read_file (my_files memory_demo_env) ''episodic'' uploader ''a.md'' (ms_files (snd ?a)) = Some (body, ''private'')"
    by (auto simp: LOGICAL_KEY_MAX_def STORAGE_KEY_MAX_def SUB_MAX_def)
  moreover have "utf8_decode ''mine'' = Some ''mine''" by code_simp
  ultimately show ?thesis by (simp add: empty_memory_def)
qed

abbreviation ann_deletes_file :: "manifest_entry layer_answer" where
  "ann_deletes_file \<equiv> delete_file_route memory_demo_env ann ''episodic'' ''a.md'' False (snd ann_creates_file)"

lemma deleted_file_unlisted_still_read_witness:
  "\<exists>en. me_deleted_at_ms en \<noteq> None \<and>
     read_file_route memory_demo_env ann ''episodic'' ''a.md'' (snd ann_deletes_file) =
       Inr \<lparr>fa_content = ''mine'', fa_tier = ''private'', fa_manifest = Some en\<rparr>"
proof -
  have ok: "\<not> isl (fst ann_deletes_file)" and uq: "uq_layer_key (ms_table (snd ann_creates_file))" by code_simp+
  have rd: "case read_file_route memory_demo_env ann ''episodic'' ''a.md'' (snd ann_creates_file) of
      Inl _ \<Rightarrow> False | Inr a \<Rightarrow> fa_content a = ''mine'' \<and> fa_tier a = ''private''" by code_simp
  then obtain a where a: "read_file_route memory_demo_env ann ''episodic'' ''a.md'' (snd ann_creates_file) = Inr a"
    "fa_content a = ''mine''" "fa_tier a = ''private''" by (auto split: sum.splits)
  note d = deleted_file_unlisted_still_read [OF answered_layer [OF ok] episodic_file uq]
  have "read_file_route memory_demo_env ann ''episodic'' ''a.md'' (snd ann_deletes_file) =
      Inr (a\<lparr>fa_manifest := Some (answer_of ann_deletes_file)\<rparr>)"
    using d a(1) by blast
  moreover have "a\<lparr>fa_manifest := Some (answer_of ann_deletes_file)\<rparr> =
      \<lparr>fa_content = ''mine'', fa_tier = ''private'', fa_manifest = Some (answer_of ann_deletes_file)\<rparr>"
    using a(2,3) by (cases a) simp
  ultimately show ?thesis using d by auto
qed

section \<open>Session memory and promotion\<close>

definition session_row :: "string \<Rightarrow> string \<Rightarrow> int \<Rightarrow> session_item" where
  "session_row i u t = \<lparr>si_id = i, si_user_id = u, si_filename = ''n.txt'', si_content = ''note'', si_size_bytes = 4,
     si_created_at_ms = t\<rparr>"

text \<open>The janitor's task binds no user: under the policy its sweep of an hour's retention removes nothing.\<close>

theorem sweep_exact_witness:
  "sweep_once ((session_demo_env ''ann'')\<lparr>sn_bound := None, sn_now_ms := 9000000\<rparr>) 1 [session_row ''1'' ''ann'' 5] =
     (0, [session_row ''1'' ''ann'' 5]) \<and>
   snd (sweep_once ((session_demo_env ''ann'')\<lparr>sn_bypass := True, sn_now_ms := 9000000\<rparr>) 1
     [session_row ''1'' ''ann'' 5, session_row ''2'' ''bob'' 8000000]) = [session_row ''2'' ''bob'' 8000000]"
proof -
  let ?none = "(session_demo_env ''ann'')\<lparr>sn_bound := None, sn_now_ms := 9000000\<rparr>"
    and ?all = "(session_demo_env ''ann'')\<lparr>sn_bypass := True, sn_now_ms := 9000000\<rparr>"
    and ?rows = "[session_row ''1'' ''ann'' 5, session_row ''2'' ''bob'' 8000000]"
  have "session_distinct [session_row ''1'' ''ann'' 5]" "session_distinct ?rows"
    by (simp_all add: session_distinct_def session_row_def)
  with sweep_exact [OF this(1) refl, of ?none 1, THEN conjunct2, THEN conjunct2]
    sweep_exact [OF this(2) refl, of ?all 1, THEN conjunct2, THEN conjunct1]
  show ?thesis by (simp add: session_demo_env_def) (simp add: session_row_def)
qed

abbreviation ann_notes :: "(session_error, session_item) res \<times> session_item list" where
  "ann_notes \<equiv> session_write (session_demo_env ''ann'') ann ''n.txt'' ''note'' [session_row ''2'' ''bob'' 1]"

lemma session_rows_private_witness:
  "map_option si_content (session_read_own (session_demo_env ''ann'') ann ''n.txt'' (snd ann_notes)) = Some ''note'' \<and>
   session_list_own (session_demo_env ''bob'') bob 5 0 (snd ann_notes) = session_list_own (session_demo_env ''bob'') bob 5 0 [session_row ''2'' ''bob'' 1]"
proof -
  have "\<not> isl (fst ann_notes)" by code_simp
  then obtain x where x: "ann_notes = (Inr x, snd ann_notes)" by (cases ann_notes; cases "fst ann_notes") auto
  have b: "bound_to (session_demo_env ''ann'') ann" "bound_to (session_demo_env ''bob'') bob"
    by (simp_all add: bound_to_def session_demo_env_def demo_ids)
  from session_rows_private [OF x b, of 5 0 "''n.txt''"] show ?thesis
    by (auto simp: session_row_def demo_ids)
qed

definition with_note :: memory_state where
  "with_note = empty_memory\<lparr>ms_sessions := [session_row ''1'' ''ann'' 5]\<rparr>"

abbreviation ann_promotes :: "promote_answer layer_answer" where
  "ann_promotes \<equiv> promote_session_to_durable memory_demo_env [(''filename'', PStr ''n.txt'')] uploader with_note"

theorem promoted_copy_read_witness:
  "ms_sessions (snd ann_promotes) = [session_row ''1'' ''ann'' 5] \<and>
   (\<exists>en. read_file_route memory_demo_env uploader ''episodic'' (pa_key (answer_of ann_promotes)) (snd ann_promotes) =
     Inr \<lparr>fa_content = provenance_header (pa_promoted_from (answer_of ann_promotes)) (pa_promoted_at_ms (answer_of ann_promotes)) ''ann'' @ ''note'',
          fa_tier = ''private'', fa_manifest = Some en\<rparr>)"
proof -
  have ok: "\<not> isl (fst ann_promotes)" and t: "pa_target_layer (answer_of ann_promotes) = ''episodic''" by code_simp+
  have "ms_sessions with_note = [session_row ''1'' ''ann'' 5]" "uc_user_id uploader = ''ann''" "si_content (session_row ''1'' ''ann'' 5) = ''note''"
    by (simp_all add: with_note_def session_row_def demo_ids)
  with promoted_copy_read [OF answered_layer [OF ok] memory_demo_gets] t show ?thesis
    by (auto simp: Let_def)
qed

end
