(* ===== verification/ConsoleCursor.thy ===== *)
theory ConsoleCursor
  imports Prelude
begin

text \<open>
  The opaque page cursor of the console stores (\<open>_encode_cursor\<close> and \<open>_decode_cursor\<close> of
  \<open>src/audittrace/services/console_*.py\<close>, the same code in six files): base64 of the UTF-8 form of
  \<open>updated_at_ms:id\<close>. Below it are the standard library functions it calls: UTF-8, the URL-safe
  base64 alphabet, CPython's lenient base64 reader, and \<open>int\<close> of a string.

  Bytes are characters of the model's alphabet, whose code points are below 256. A cursor that
  decodes to a character above it is refused here, like bytes that are no UTF-8.
\<close>

section \<open>UTF-8\<close>

definition utf8_encode :: "string \<Rightarrow> string" where
  "utf8_encode s = concat (map (\<lambda>c. let n = (of_char c :: nat) in
     if n < 128 then [c] else [char_of (192 + n div 64), char_of (128 + n mod 64)]) s)"

lemma utf8_decode_Cons: "(of_char c :: nat) < 128 \<Longrightarrow> utf8_decode (c # s) = map_option ((#) c) (utf8_decode s)"
  by (cases s) simp_all

lemma utf8_decode_encode: "utf8_decode (utf8_encode s) = Some s"
proof (induction s)
  case Nil
  show ?case by (simp add: utf8_encode_def)
next
  case (Cons c s)
  let ?n = "of_char c :: nat"
  have split: "utf8_encode (c # s) =
      (if ?n < 128 then [c] else [char_of (192 + ?n div 64), char_of (128 + ?n mod 64)]) @ utf8_encode s"
    by (simp add: utf8_encode_def Let_def)
  show ?case
  proof (cases "?n < 128")
    case True
    then show ?thesis using Cons.IH by (simp add: split utf8_decode_Cons)
  next
    case False
    have "?n < 256" by simp
    then have q: "?n div 64 = 2 \<or> ?n div 64 = 3" using False by linarith
    have n: "?n = 64 * (?n div 64) + ?n mod 64" by simp
    have m: "?n mod 64 < 64" by simp
    then have d: "(of_char (char_of (128 + ?n mod 64) :: char) :: nat) = 128 + ?n mod 64" by simp
    from q show ?thesis
    proof
      assume two: "?n div 64 = 2"
      with n have "128 + ?n mod 64 = ?n" by linarith
      then have "(char_of (128 + ?n mod 64) :: char) = c" by (simp only: char_of_char)
      then show ?thesis using False Cons.IH two m d by (simp add: split)
    next
      assume three: "?n div 64 = 3"
      with n have "128 + ?n mod 64 + 64 = ?n" by linarith
      then have "(char_of (128 + ?n mod 64 + 64) :: char) = c" by (simp only: char_of_char)
      then show ?thesis using False Cons.IH three m d by (simp add: split)
    qed
  qed
qed

section \<open>Base64\<close>

definition b64_char :: "nat \<Rightarrow> char" where
  "b64_char n = (if n < 26 then char_of (65 + n) else if n < 52 then char_of (71 + n)
     else if n < 62 then char_of (n - 4) else if n = 62 then CHR ''-'' else CHR ''_'')"

fun b64_encode :: "string \<Rightarrow> string" where
  "b64_encode [] = []"
| "b64_encode [c] =
     (let a = of_char c in [b64_char (a div 4), b64_char (a mod 4 * 16), CHR ''='', CHR ''=''])"
| "b64_encode [c, d] =
     (let a = of_char c; b = of_char d
      in [b64_char (a div 4), b64_char (a mod 4 * 16 + b div 16), b64_char (b mod 16 * 4), CHR ''=''])"
| "b64_encode (c # d # e # s) =
     (let a = of_char c; b = of_char d; x = of_char e
      in [b64_char (a div 4), b64_char (a mod 4 * 16 + b div 16), b64_char (b mod 16 * 4 + x div 64), b64_char (x mod 64)]
         @ b64_encode s)"

text \<open>The reader maps the two URL-safe characters to the standard ones and knows both.\<close>

definition b64_value :: "char \<Rightarrow> nat option" where
  "b64_value c =
     (let n = (of_char c :: nat) in
      if 65 \<le> n \<and> n \<le> 90 then Some (n - 65) else if 97 \<le> n \<and> n \<le> 122 then Some (n - 71)
      else if 48 \<le> n \<and> n \<le> 57 then Some (n + 4) else if n = 45 \<or> n = 43 then Some 62
      else if n = 95 \<or> n = 47 then Some 63 else None)"

text \<open>
  The loop of \<open>binascii.a2b_base64\<close>: the position in the group of four, the bits left over, and the
  pads met. Characters outside the alphabet are skipped, and a complete pad ends the input.
\<close>

fun b64_decode :: "nat \<Rightarrow> nat \<Rightarrow> nat \<Rightarrow> string \<Rightarrow> string option" where
  "b64_decode q left pads [] = (if q = 0 then Some [] else None)"
| "b64_decode q left pads (c # s) =
     (if c = CHR ''=''
      then (if 2 \<le> q then (if 4 \<le> q + pads + 1 then Some [] else b64_decode q left (pads + 1) s)
            else b64_decode q left pads s)
      else case b64_value c of
        None \<Rightarrow> b64_decode q left pads s
      | Some v \<Rightarrow>
          if q = 0 then b64_decode 1 v 0 s
          else if q = 1 then map_option ((#) (char_of (left * 4 + v div 16))) (b64_decode 2 (v mod 16) 0 s)
          else if q = 2 then map_option ((#) (char_of (left * 16 + v div 4))) (b64_decode 3 (v mod 4) 0 s)
          else map_option ((#) (char_of (left * 64 + v))) (b64_decode 0 0 0 s))"

definition urlsafe_b64decode :: "string \<Rightarrow> string option" where
  "urlsafe_b64decode s = (if list_all (\<lambda>c. (of_char c :: nat) < 128) s then b64_decode 0 0 0 s else None)"

lemma b64_char_value:
  assumes "n < 64"
  shows "b64_value (b64_char n) = Some n" and "b64_char n \<noteq> CHR ''=''" and "(of_char (b64_char n) :: nat) < 128"
proof -
  have code: "(of_char (b64_char n) :: nat) =
      (if n < 26 then 65 + n else if n < 52 then 71 + n else if n < 62 then n - 4 else if n = 62 then 45 else 95)"
    using assms by (simp add: b64_char_def)
  then have "b64_value (b64_char n) = Some n" using assms by (simp add: b64_value_def Let_def) presburger
  moreover have "(of_char (b64_char n) :: nat) \<noteq> of_char (CHR ''='')" using code assms by simp presburger
  moreover have "(of_char (b64_char n) :: nat) < 128" using code assms by simp presburger
  ultimately show "b64_value (b64_char n) = Some n" and "b64_char n \<noteq> CHR ''=''" and "(of_char (b64_char n) :: nat) < 128"
    by auto
qed

lemma b64_decode_char:
  assumes "v < 64"
  shows "b64_decode q left pads (b64_char v # s) =
     (if q = 0 then b64_decode 1 v 0 s
      else if q = 1 then map_option ((#) (char_of (left * 4 + v div 16))) (b64_decode 2 (v mod 16) 0 s)
      else if q = 2 then map_option ((#) (char_of (left * 16 + v div 4))) (b64_decode 3 (v mod 4) 0 s)
      else map_option ((#) (char_of (left * 64 + v))) (b64_decode 0 0 0 s))"
  using b64_char_value [OF assms] by simp

lemma b64_decode_pads:
  "b64_decode 0 left pads [] = Some []" "b64_decode 2 left 0 ''=='' = Some []" "b64_decode 3 left 0 ''='' = Some []"
  by simp_all

lemma b64_sextets:
  fixes a b c :: nat
  assumes "a < 256" and "b < 256" and "c < 256"
  shows "a div 4 < 64" and "a mod 4 * 16 + b div 16 < 64" and "b mod 16 * 4 + c div 64 < 64" and "c mod 64 < 64"
    and "a div 4 * 4 + (a mod 4 * 16 + b div 16) div 16 = a"
    and "(a mod 4 * 16 + b div 16) mod 16 * 16 + (b mod 16 * 4 + c div 64) div 4 = b"
    and "(b mod 16 * 4 + c div 64) mod 4 * 64 + c mod 64 = c"
proof -
  have [simp]: "a div 4 < 64" "b div 16 < 16" "c div 64 < 4" using assms by linarith+
  show "a div 4 < 64" by simp
  show "a mod 4 * 16 + b div 16 < 64" using assms by linarith
  show "b mod 16 * 4 + c div 64 < 64" using assms by linarith
  show "c mod 64 < 64" by simp
  have "(a mod 4 * 16 + b div 16) div 16 = a mod 4" "(a mod 4 * 16 + b div 16) mod 16 = b div 16" by simp_all
  moreover have "(b mod 16 * 4 + c div 64) div 4 = b mod 16" "(b mod 16 * 4 + c div 64) mod 4 = c div 64" by simp_all
  ultimately show "a div 4 * 4 + (a mod 4 * 16 + b div 16) div 16 = a"
    "(a mod 4 * 16 + b div 16) mod 16 * 16 + (b mod 16 * 4 + c div 64) div 4 = b"
    "(b mod 16 * 4 + c div 64) mod 4 * 64 + c mod 64 = c" by simp_all
qed

lemma b64_decode_encode: "b64_decode 0 0 0 (b64_encode s) = Some s"
proof (induction s rule: b64_encode.induct)
  case (2 c)
  note x = b64_sextets [of "of_char c" 0 0]
  show ?case using x by (simp add: Let_def b64_decode_char b64_decode_pads del: b64_decode.simps)
next
  case (3 c d)
  note x = b64_sextets [of "of_char c" "of_char d" 0]
  show ?case using x by (simp add: Let_def b64_decode_char b64_decode_pads del: b64_decode.simps)
next
  case (4 c d e s)
  note x = b64_sextets [of "of_char c" "of_char d" "of_char e"]
  have "(of_char d :: nat) div 16 < 16" by (simp add: less_mult_imp_div_less)
  then have "(of_char d :: nat) div 16 mod 16 * 16 + of_char d mod 16 = of_char d" and z: "(of_char d :: nat) div 16 div 16 = 0"
    by simp_all
  then have pair: "char_of ((of_char d :: nat) div 16 mod 16 * 16 + of_char d mod 16) = d" by (simp only: char_of_char)
  show ?case using x z 4 by (simp add: Let_def b64_decode_char b64_decode_pads del: b64_decode.simps) (rule pair)
qed simp

lemma b64_encode_ascii: "list_all (\<lambda>c. (of_char c :: nat) < 128) (b64_encode s)"
proof (induction s rule: b64_encode.induct)
  case (2 c)
  show ?case using b64_sextets [of "of_char c" 0 0] by (simp add: Let_def b64_char_value)
next
  case (3 c d)
  show ?case using b64_sextets [of "of_char c" "of_char d" 0] by (simp add: Let_def b64_char_value)
next
  case (4 c d e s)
  then show ?case using b64_sextets [of "of_char c" "of_char d" "of_char e"] by (simp add: Let_def b64_char_value)
qed simp

section \<open>\<open>int\<close> of a string\<close>

text \<open>Digits with single underscores between them.\<close>

fun digits_value :: "bool \<Rightarrow> nat \<Rightarrow> string \<Rightarrow> nat option" where
  "digits_value prev acc [] = (if prev then Some acc else None)"
| "digits_value prev acc (c # s) =
     (let n = (of_char c :: nat) in
      if 48 \<le> n \<and> n \<le> 57 then digits_value True (acc * 10 + (n - 48)) s
      else if c = CHR ''_'' \<and> prev then digits_value False acc s else None)"

text \<open>Blanks around it, one sign, and at most \<open>sys.int_info.default_max_str_digits\<close> digits.\<close>

definition MAX_STR_DIGITS :: nat where "MAX_STR_DIGITS = 4300"

definition py_int :: "string \<Rightarrow> int option" where
  "py_int raw =
     (let s = py_strip raw;
          read = (\<lambda>t. if length (filter (\<lambda>c. c \<noteq> CHR ''_'') t) \<le> MAX_STR_DIGITS then digits_value False 0 t else None)
      in case s of
           [] \<Rightarrow> None
         | c # t \<Rightarrow>
             if c = CHR ''-'' then map_option (\<lambda>n. - int n) (read t)
             else map_option int (read (if c = CHR ''+'' then t else s)))"

lemma digits_of_bound:
  "\<forall>c \<in> set (digits_of n). 48 \<le> (of_char c :: nat) \<and> (of_char c :: nat) \<le> 57"
proof (induction n rule: digits_of.induct)
  case (1 n)
  show ?case
  proof (cases "n < 10")
    case True
    then show ?thesis by (simp add: digits_of.simps [of n])
  next
    case False
    then show ?thesis using 1 by (auto simp: digits_of.simps [of n])
  qed
qed

lemma digits_of_ne [simp]: "digits_of n \<noteq> []"
  by (simp add: digits_of.simps [of n])

lemma digits_value_append:
  "s \<noteq> [] \<Longrightarrow> digits_value prev acc s = Some n \<Longrightarrow> digits_value prev acc (s @ t) = digits_value True n t"
proof (induction prev acc s arbitrary: n rule: digits_value.induct)
  case (2 prev acc c s)
  then show ?case by (cases "s = []") (auto simp: Let_def split: if_splits)
qed simp

lemma digits_value_of: "digits_value False 0 (digits_of n) = Some n"
proof (induction n rule: digits_of.induct)
  case (1 n)
  show ?case
  proof (cases "n < 10")
    case True
    then show ?thesis by (simp add: digits_of.simps [of n] Let_def)
  next
    case False
    have "digits_value False 0 (digits_of n) = digits_value True (n div 10) [char_of (48 + n mod 10)]"
      using digits_value_append [OF digits_of_ne 1 [OF False]] False by (simp add: digits_of.simps [of n])
    then show ?thesis by (simp add: Let_def)
  qed
qed

lemma length_digits_of: "n < 10 ^ k \<Longrightarrow> 0 < k \<Longrightarrow> length (digits_of n) \<le> k"
proof (induction n arbitrary: k rule: digits_of.induct)
  case (1 n)
  show ?case
  proof (cases "n < 10")
    case True
    then show ?thesis using 1(3) by (simp add: digits_of.simps [of n])
  next
    case False
    then obtain k' where k: "k = Suc k'" "0 < k'" using 1(2,3) by (cases k; cases "k - 1") auto
    then have "n < 10 ^ k' * 10" using 1(2) by (simp add: mult.commute)
    then have "n div 10 < 10 ^ k'" by (rule less_mult_imp_div_less)
    then show ?thesis using 1(1) [OF False, of k'] False k by (simp add: digits_of.simps [of n])
  qed
qed

section \<open>The cursor\<close>

definition encode_cursor :: "int \<Rightarrow> string \<Rightarrow> string" where
  "encode_cursor updated_at_ms key = b64_encode (utf8_encode (py_str_int updated_at_ms @ '':'' @ key))"

text \<open>\<open>None\<close> is the \<open>ValueError\<close> that a route answers with 400.\<close>

definition decode_cursor :: "string \<Rightarrow> (int \<times> string) option" where
  "decode_cursor cursor =
     (case Option.bind (urlsafe_b64decode cursor) utf8_decode of
        None \<Rightarrow> None
      | Some raw \<Rightarrow>
          let time = takeWhile (\<lambda>c. c \<noteq> CHR '':'') raw; key = drop (length time + 1) raw
          in if key = [] then None else map_option (\<lambda>t. (t, key)) (py_int time))"

lemma py_strip_digits:
  assumes "\<forall>c \<in> set s. \<not> py_space c" shows "py_strip s = s"
proof -
  have drop: "dropWhile py_space t = t" if "\<forall>c \<in> set t. \<not> py_space c" for t
    using that by (cases t) simp_all
  show ?thesis using assms by (simp add: py_strip_def drop)
qed

lemma py_str_int_chars: "c \<in> set (py_str_int t) \<Longrightarrow> c \<noteq> CHR '':'' \<and> \<not> py_space c"
proof -
  assume "c \<in> set (py_str_int t)"
  then have "of_char c = (45 :: nat) \<or> 48 \<le> (of_char c :: nat) \<and> (of_char c :: nat) \<le> 57"
    using digits_of_bound by (auto simp: py_str_int_def split: if_splits)
  then have "of_char c \<noteq> (of_char (CHR '':'') :: nat)" and "\<not> py_space c" by (auto simp: py_space_def Let_def)
  then show ?thesis by auto
qed

lemma py_int_str_int:
  assumes "\<bar>t\<bar> < 10 ^ MAX_STR_DIGITS" shows "py_int (py_str_int t) = Some t"
proof -
  have strip: "py_strip (py_str_int t) = py_str_int t" using py_str_int_chars by (intro py_strip_digits) blast
  have digit: "c \<noteq> CHR ''_'' \<and> c \<noteq> CHR ''-'' \<and> c \<noteq> CHR ''+''" if "c \<in> set (digits_of n)" for c n
  proof -
    have "48 \<le> (of_char c :: nat) \<and> (of_char c :: nat) \<le> 57" using that digits_of_bound by blast
    then show ?thesis by auto
  qed
  have read: "filter (\<lambda>c. c \<noteq> CHR ''_'') (digits_of n) = digits_of n" for n using digit by (simp add: filter_id_conv)
  have "nat \<bar>t\<bar> < 10 ^ MAX_STR_DIGITS" using assms by (simp add: nat_less_iff)
  then have len: "length (digits_of (nat \<bar>t\<bar>)) \<le> MAX_STR_DIGITS" by (rule length_digits_of) (simp add: MAX_STR_DIGITS_def)
  show ?thesis
  proof (cases "t < 0")
    case True
    then show ?thesis using len unfolding py_int_def strip
      by (simp add: py_str_int_def read digits_value_of Let_def)
  next
    case False
    obtain c s where cs: "digits_of (nat t) = c # s" by (cases "digits_of (nat t)") auto
    then have "c \<noteq> CHR ''-''" "c \<noteq> CHR ''+''" using digit [of c "nat t"] by auto
    then show ?thesis using len False cs read [of "nat t"] digits_value_of [of "nat t"] unfolding py_int_def strip
      by (simp add: py_str_int_def Let_def)
  qed
qed

text \<open>What a page hands out as its cursor is read back as the time and the key it was made of.\<close>

definition int8_ok :: "int \<Rightarrow> bool" where
  "int8_ok t \<longleftrightarrow> - (2 ^ 63) \<le> t \<and> t < 2 ^ 63"

lemma decode_encode_cursor:
  assumes "key \<noteq> []" and "int8_ok t"
  shows "decode_cursor (encode_cursor t key) = Some (t, key)"
proof -
  have "\<bar>t\<bar> < 10 ^ 20" using assms(2) by (auto simp: int8_ok_def)
  also have "(10 :: int) ^ 20 \<le> 10 ^ MAX_STR_DIGITS" by (rule power_increasing) (simp_all add: MAX_STR_DIGITS_def)
  finally have t: "\<bar>t\<bar> < 10 ^ MAX_STR_DIGITS" .
  have "takeWhile (\<lambda>c. c \<noteq> CHR '':'') (py_str_int t @ '':'' @ key) = py_str_int t"
    using py_str_int_chars [of _ t] by (subst takeWhile_append2) auto
  then show ?thesis
    using assms by (simp add: decode_cursor_def encode_cursor_def urlsafe_b64decode_def b64_encode_ascii b64_decode_encode
        utf8_decode_encode py_int_str_int [OF t] Let_def)
qed

end
