(* ===== verification/ConsoleContracts.thy ===== *)
theory ConsoleContracts
  imports Prelude
begin

text \<open>
  What the console stores promise, whatever their tables and columns are: the calls of a user act on
  the rows of that user alone (\<open>confined_store\<close>), and the pages of a listing are consecutive segments of
  one ordered list (\<open>keyset_pages\<close>). The stores of the following theories interpret both.
\<close>

section \<open>Confinement\<close>

text \<open>
  \<open>exec c s\<close> is the state after a call, whether it answers or raises; \<open>caller\<close> is the user of the call and
  \<open>own u s\<close> the part of the state that belongs to a user.
\<close>

locale confined_store =
  fixes exec :: "'c \<Rightarrow> 's \<Rightarrow> 's" and caller :: "'c \<Rightarrow> string" and own :: "string \<Rightarrow> 's \<Rightarrow> 'v"
  assumes confined: "caller c \<noteq> u \<Longrightarrow> own u (exec c s) = own u s"
begin

lemma run_confined: "\<forall>c \<in> set cs. caller c \<noteq> u \<Longrightarrow> own u (fold exec cs s) = own u s"
  by (induction cs arbitrary: s) (simp_all add: confined)

text \<open>What depends on the user's part of the state alone is not changed by the calls of others.\<close>

lemma run_invisible:
  assumes "\<forall>c \<in> set cs. caller c \<noteq> u" and "\<And>s s'. own u s = own u s' \<Longrightarrow> read s = read s'"
  shows "read (fold exec cs s) = read s"
  by (rule assms(2) [OF run_confined [OF assms(1)]])

end

section \<open>Pages\<close>

text \<open>The rows of a listing in order, behind a cursor: what follows the row the cursor was made of.\<close>

text \<open>A client that follows the cursors; \<open>None\<close> is a failed page or too little fuel.\<close>

fun follow :: "('c option \<Rightarrow> 'e + 'a list \<times> 'c option) \<Rightarrow> nat \<Rightarrow> 'c option \<Rightarrow> 'a list option" where
  "follow page 0 c = None"
| "follow page (Suc k) c =
     (case page c of
        Inl _ \<Rightarrow> None
      | Inr (xs, None) \<Rightarrow> Some xs
      | Inr (xs, Some c') \<Rightarrow> map_option ((@) xs) (follow page k (Some c')))"

lemma follow_more: "follow page k c = Some xs \<Longrightarrow> k \<le> m \<Longrightarrow> follow page m c = Some xs"
proof (induction k arbitrary: m c xs)
  case (Suc k)
  from Suc.prems(2) obtain m' where m: "m = Suc m'" "k \<le> m'" by (cases m) auto
  show ?case using Suc.prems(1) Suc.IH [OF _ m(2)] m(1) by (auto split: sum.splits prod.splits option.splits)
qed simp

text \<open>\<open>ok\<close> is what the contract asks of the table and the request.\<close>

locale keyset_pages =
  fixes page :: "'c option \<Rightarrow> 'e + 'a list \<times> 'c option" and rows :: "'a list" and n :: nat and cur :: "'a \<Rightarrow> 'c"
    and ok :: bool
  assumes size: "1 \<le> n"
    and start: "ok \<Longrightarrow> page None = Inr (take n rows, if n < length rows then Some (cur (rows ! (n - 1))) else None)"
    and next_page: "ok \<Longrightarrow> i < length rows \<Longrightarrow> page (Some (cur (rows ! i))) =
      Inr (take n (drop (Suc i) rows), if Suc i + n < length rows then Some (cur (rows ! (i + n))) else None)"
begin

lemma follow_from: "ok \<Longrightarrow> i < length rows \<Longrightarrow> length rows - i \<le> k \<Longrightarrow> follow page k (Some (cur (rows ! i))) = Some (drop (Suc i) rows)"
proof (induction k arbitrary: i)
  case (Suc k)
  show ?case
  proof (cases "Suc i + n < length rows")
    case True
    then have "follow page k (Some (cur (rows ! (i + n)))) = Some (drop (Suc (i + n)) rows)" using Suc size by simp
    moreover have "take n (drop (Suc i) rows) @ drop (Suc (i + n)) rows = drop (Suc i) rows"
      using append_take_drop_id [of n "drop (Suc i) rows"] by (simp add: add.commute)
    ultimately show ?thesis using True next_page [OF Suc.prems(1,2)] by simp
  next
    case False
    then show ?thesis using next_page [OF Suc.prems(1,2)] by simp
  qed
qed simp

lemma follow_all:
  assumes ok shows "follow page (Suc (length rows)) None = Some rows"
proof (cases "n < length rows")
  case True
  then have "follow page (length rows) (Some (cur (rows ! (n - 1)))) = Some (drop n rows)"
    using follow_from [OF assms, of "n - 1" "length rows"] size by simp
  then show ?thesis using True by (simp add: start [OF assms])
qed (simp add: start [OF assms])

end

text \<open>In a strictly ordered list the rows behind one of them are those it precedes.\<close>

lemma filter_after:
  assumes "sorted_wrt (\<lambda>a b. before a b) xs" and "i < length xs"
    and "\<And>a b. before a b \<Longrightarrow> \<not> before b a"
  shows "filter (\<lambda>b. before (xs ! i) b) xs = drop (Suc i) xs"
proof -
  have "filter (before (xs ! i)) (take (Suc i) xs) = []"
  proof (rule filter_False, rule ballI)
    fix b assume "b \<in> set (take (Suc i) xs)"
    then obtain j where "j \<le> i" "b = xs ! j" using assms(2) by (auto simp: in_set_conv_nth less_Suc_eq_le)
    then show "\<not> before (xs ! i) b"
      using assms(1,2) assms(3) [of "xs ! j" "xs ! i"] assms(3) [of "xs ! i" "xs ! i"] by (cases "j = i") (auto simp: sorted_wrt_iff_nth_less)
  qed
  moreover have "filter (before (xs ! i)) (drop (Suc i) xs) = drop (Suc i) xs"
  proof (rule filter_True, rule ballI)
    fix b assume "b \<in> set (drop (Suc i) xs)"
    then obtain j where "j < length (drop (Suc i) xs)" "b = drop (Suc i) xs ! j" by (auto simp: in_set_conv_nth)
    then show "before (xs ! i) b" using assms(1) by (auto simp: sorted_wrt_iff_nth_less)
  qed
  ultimately show ?thesis by (metis append_take_drop_id filter_append self_append_conv2)
qed

text \<open>
  A page read by a query of one row too many is a keyset page: the extra row says that there is a
  next page, whose cursor is the last row kept.
\<close>

definition cut_page :: "nat \<Rightarrow> ('a \<Rightarrow> 'c) \<Rightarrow> 'a list \<Rightarrow> 'a list \<times> 'c option" where
  "cut_page n cur found =
     (let page = take n found
      in (page, if n < length found \<and> page \<noteq> [] then Some (cur (last page)) else None))"

lemma cut_page_segment:
  assumes "1 \<le> n"
  shows "cut_page n cur (take (n + 1) xs) = (take n xs, if n < length xs then Some (cur (xs ! (n - 1))) else None)"
proof -
  have "last (take n xs) = xs ! (n - 1)" if "n < length xs"
    using that assms by (subst last_conv_nth) auto
  then show ?thesis using assms by (auto simp: cut_page_def Let_def min_def)
qed

end
