(* ===== verification/ConsoleRows.thy ===== *)
theory ConsoleRows
  imports Identity ConsoleCursor ConsoleContracts "HOL-Library.AList" "HOL-Library.Product_Lexorder"
begin

text \<open>
  The shape the console stores share that were written before the sealed store: one table per kind of
  object, a row per user and client-supplied key, upsert, soft delete, read by key and keyset pages
  (\<open>src/audittrace/services/console_presets.py\<close>, whose module text says that the others mirror it, and
  \<open>console_chat_projects.py\<close>, \<open>console_conversation_tags.py\<close>, \<open>console_files.py\<close>, \<open>console_agents.py\<close>,
  \<open>console_conversations.py\<close>, \<open>console_prompts.py\<close>), with the in-memory twin of each. A domain is what
  its insert stores and what its update changes; the next theory gives the seven domains.

  The database is SQLite or PostgreSQL (\<open>ce_postgres\<close>). PostgreSQL adds the row-level policy of the
  migrations 023 to 029, refuses the character NUL in a text, and compares texts by its collation,
  which the model takes as a sort key (\<open>ce_collate\<close>); \<open>ce_refuses\<close> is what the database refuses to
  store for another reason. The surrogate key \<open>id\<close> is never read back and is left out.
\<close>

section \<open>Rows\<close>

record console_row =
  cr_key :: string
  cr_user_sub :: string
  cr_cols :: metadata
  cr_created_at_ms :: int
  cr_updated_at_ms :: int
  cr_deleted_at_ms :: "int option"

record console_env =
  ce_now_ms :: int
  ce_postgres :: bool
  ce_bound :: "string option"
  ce_collate :: "string \<Rightarrow> string"
  ce_refuses :: "console_row \<Rightarrow> bool"

datatype console_error = RowValueError | RowRuntimeError | MultipleResults | RowDatabaseError

text \<open>\<open>UNIQUE (user_sub, key)\<close>.\<close>

definition row_ident :: "console_row \<Rightarrow> string \<times> string" where
  "row_ident r = (cr_user_sub r, cr_key r)"

definition uq_console :: "console_row list \<Rightarrow> bool" where
  "uq_console rows \<longleftrightarrow> distinct (map row_ident rows)"

definition console_policy :: "console_env \<Rightarrow> string \<Rightarrow> sqlbool" where
  "console_policy env user_sub = (if ce_postgres env then sql_eq (Some user_sub) (ce_bound env) else STrue)"

definition text_error :: "console_env \<Rightarrow> string \<Rightarrow> bool" where
  "text_error env s \<longleftrightarrow> ce_postgres env \<and> CHR 0x00 \<in> set s"

definition my_row :: "console_env \<Rightarrow> user_context \<Rightarrow> console_row \<Rightarrow> sqlbool" where
  "my_row env user r = sql_and (console_policy env (cr_user_sub r)) (sql_eq (Some (cr_user_sub r)) (Some (uc_user_id user)))"

definition live :: "console_row \<Rightarrow> sqlbool" where
  "live r = sql_is_null (cr_deleted_at_ms r)"

definition one_or_none :: "'a list \<Rightarrow> (console_error, 'a option) res" where
  "one_or_none found = (case found of [] \<Rightarrow> Inr None | [r] \<Rightarrow> Inr (Some r) | _ \<Rightarrow> Inl MultipleResults)"

definition find_row ::
  "console_env \<Rightarrow> bool \<Rightarrow> user_context \<Rightarrow> string \<Rightarrow> console_row list \<Rightarrow> (console_error, console_row option) res" where
  "find_row env only_live user k rows =
     (if text_error env (uc_user_id user) \<or> text_error env k then Inl RowDatabaseError
      else one_or_none (sql_select (\<lambda>r. sql_and (my_row env user r)
        (sql_and (sql_eq (Some (cr_key r)) (Some k)) (if only_live then live r else STrue))) rows))"

definition put_console :: "console_row \<Rightarrow> console_row list \<Rightarrow> console_row list" where
  "put_console r rows = map_if (\<lambda>x. row_ident x = row_ident r) (\<lambda>_. r) rows"

definition commit_console :: "console_env \<Rightarrow> console_row \<Rightarrow> console_row list \<Rightarrow> (console_error, console_row list) res" where
  "commit_console env r rows =
     (if ce_refuses env r \<or> \<not> sql_holds (console_policy env (cr_user_sub r)) then Inl RowDatabaseError else Inr rows)"

section \<open>Domains\<close>

text \<open>
  \<open>cd_insert\<close> gives the columns of a new row from the keyword arguments of the upsert, \<open>cd_update\<close> the
  columns of an existing one; an argument not given is \<open>None\<close>.
\<close>

record console_domain =
  cd_insert :: "metadata \<Rightarrow> metadata"
  cd_update :: "metadata \<Rightarrow> metadata \<Rightarrow> metadata"

definition or_default :: "pyval \<Rightarrow> pyval \<Rightarrow> pyval" where
  "or_default v d = (if truthy v then v else d)"

definition assign :: "string \<Rightarrow> metadata \<Rightarrow> metadata \<Rightarrow> metadata" where
  "assign c kw cols = AList.update c (field kw c) cols"

definition assign_given :: "string \<Rightarrow> metadata \<Rightarrow> metadata \<Rightarrow> metadata" where
  "assign_given c kw cols = (if field kw c = PNone then cols else assign c kw cols)"

section \<open>Operations\<close>

definition new_row :: "console_domain \<Rightarrow> int \<Rightarrow> user_context \<Rightarrow> string \<Rightarrow> metadata \<Rightarrow> console_row" where
  "new_row cd now user k kw =
     \<lparr>cr_key = k, cr_user_sub = uc_user_id user, cr_cols = cd_insert cd kw, cr_created_at_ms = now,
      cr_updated_at_ms = now, cr_deleted_at_ms = None\<rparr>"

definition changed_row :: "console_domain \<Rightarrow> int \<Rightarrow> metadata \<Rightarrow> console_row \<Rightarrow> console_row" where
  "changed_row cd now kw r = r\<lparr>cr_cols := cd_update cd kw (cr_cols r), cr_updated_at_ms := now\<rparr>"

text \<open>Whatever fails inside an upsert is raised again as a \<open>RuntimeError\<close>. The row is looked up deleted or not.\<close>

definition as_runtime :: "(console_error, 'a) res \<Rightarrow> (console_error, 'a) res" where
  "as_runtime r = (case r of Inl _ \<Rightarrow> Inl RowRuntimeError | Inr x \<Rightarrow> Inr x)"

definition upsert_row ::
  "console_domain \<Rightarrow> console_env \<Rightarrow> user_context \<Rightarrow> string \<Rightarrow> metadata \<Rightarrow> console_row list
    \<Rightarrow> (console_error, console_row \<times> console_row list) res" where
  "upsert_row cd env user k kw rows =
     as_runtime (res_bind (find_row env False user k rows) (\<lambda>existing.
       case existing of
         None \<Rightarrow> let r = new_row cd (ce_now_ms env) user k kw
                 in res_bind (commit_console env r (rows @ [r])) (\<lambda>rows'. Inr (r, rows'))
       | Some x \<Rightarrow> let r = changed_row cd (ce_now_ms env) kw x
                   in res_bind (commit_console env r (put_console r rows)) (\<lambda>rows'. Inr (r, rows'))))"

definition get_row ::
  "console_env \<Rightarrow> user_context \<Rightarrow> string \<Rightarrow> console_row list \<Rightarrow> (console_error, console_row option) res" where
  "get_row env user k rows = find_row env True user k rows"

definition delete_row ::
  "console_env \<Rightarrow> user_context \<Rightarrow> string \<Rightarrow> console_row list \<Rightarrow> (console_error, bool \<times> console_row list) res" where
  "delete_row env user k rows =
     res_bind (find_row env True user k rows) (\<lambda>found.
       case found of
         None \<Rightarrow> Inr (False, rows)
       | Some x \<Rightarrow> let r = x\<lparr>cr_deleted_at_ms := Some (ce_now_ms env), cr_updated_at_ms := ce_now_ms env\<rparr>
                   in res_bind (commit_console env r (put_console r rows)) (\<lambda>rows'. Inr (True, rows')))"

text \<open>The keys in the order of the request, without those not found; a later row of a key hides an earlier one.\<close>

definition batch_get_rows ::
  "console_env \<Rightarrow> user_context \<Rightarrow> string list \<Rightarrow> console_row list \<Rightarrow> (console_error, console_row list) res" where
  "batch_get_rows env user ks rows =
     (if ks = [] then Inr []
      else if text_error env (uc_user_id user) \<or> list_ex (text_error env) ks then Inl RowDatabaseError
      else let found = sql_select (\<lambda>r. sql_and (my_row env user r) (sql_and (sql_of (cr_key r \<in> set ks)) (live r))) rows
           in Inr (List.map_filter (map_of (rev (map (\<lambda>r. (cr_key r, r)) found))) ks))"

section \<open>Pages\<close>

definition DEFAULT_LIST_LIMIT :: int where "DEFAULT_LIST_LIMIT = 25"
definition MAX_LIST_LIMIT :: int where "MAX_LIST_LIMIT = 200"

definition clamp_limit :: "int \<Rightarrow> nat" where
  "clamp_limit n = nat (max 1 (min n MAX_LIST_LIMIT))"

definition row_order :: "console_env \<Rightarrow> console_row \<Rightarrow> int \<times> string" where
  "row_order env r = (cr_updated_at_ms r, ce_collate env (cr_key r))"

text \<open>\<open>ORDER BY updated_at_ms DESC, key DESC\<close>.\<close>

definition newest_first :: "console_env \<Rightarrow> console_row list \<Rightarrow> console_row list" where
  "newest_first env rows = rev (sort_key (row_order env) (rev rows))"

definition row_cursor :: "console_row \<Rightarrow> string" where
  "row_cursor r = encode_cursor (cr_updated_at_ms r) (cr_key r)"

definition behind :: "console_env \<Rightarrow> (int \<times> string) option \<Rightarrow> console_row \<Rightarrow> sqlbool" where
  "behind env position r =
     (case position of
        None \<Rightarrow> STrue
      | Some (t, k) \<Rightarrow>
          sql_or (sql_cmp (<) (Some (cr_updated_at_ms r)) (Some t))
            (sql_and (sql_eq (Some (cr_updated_at_ms r)) (Some t))
               (sql_cmp (<) (Some (ce_collate env (cr_key r))) (Some (ce_collate env k)))))"

definition read_cursor :: "string option \<Rightarrow> (console_error, (int \<times> string) option) res" where
  "read_cursor cursor =
     (case cursor of
        None \<Rightarrow> Inr None
      | Some c \<Rightarrow> (case decode_cursor c of None \<Rightarrow> Inl RowValueError | Some p \<Rightarrow> Inr (Some p)))"

definition list_rows ::
  "console_env \<Rightarrow> user_context \<Rightarrow> string option \<Rightarrow> int \<Rightarrow> console_row list
    \<Rightarrow> (console_error, console_row list \<times> string option) res" where
  "list_rows env user cursor n rows =
     res_bind (read_cursor cursor) (\<lambda>position.
       if text_error env (uc_user_id user) \<or>
          (case position of None \<Rightarrow> False | Some (t, k) \<Rightarrow> \<not> int8_ok t \<or> text_error env k)
       then Inl RowDatabaseError
       else let found = newest_first env
                  (sql_select (\<lambda>r. sql_and (my_row env user r) (sql_and (live r) (behind env position r))) rows)
            in Inr (cut_page (clamp_limit n) row_cursor (take (clamp_limit n + 1) found)))"

section \<open>The in-memory twin\<close>

text \<open>It looks up live rows only, so an upsert of a deleted key makes a second row.\<close>

definition mock_is :: "user_context \<Rightarrow> string \<Rightarrow> console_row \<Rightarrow> bool" where
  "mock_is user k r \<longleftrightarrow> cr_user_sub r = uc_user_id user \<and> cr_key r = k \<and> cr_deleted_at_ms r = None"

definition mock_find_row :: "user_context \<Rightarrow> string \<Rightarrow> console_row list \<Rightarrow> console_row option" where
  "mock_find_row user k rows = find (mock_is user k) rows"

fun update_first :: "('a \<Rightarrow> bool) \<Rightarrow> ('a \<Rightarrow> 'a) \<Rightarrow> 'a list \<Rightarrow> 'a list" where
  "update_first p f [] = []"
| "update_first p f (x # xs) = (if p x then f x # xs else x # update_first p f xs)"

definition mock_upsert_row ::
  "console_domain \<Rightarrow> int \<Rightarrow> user_context \<Rightarrow> string \<Rightarrow> metadata \<Rightarrow> console_row list \<Rightarrow> console_row \<times> console_row list" where
  "mock_upsert_row cd now user k kw rows =
     (case mock_find_row user k rows of
        None \<Rightarrow> (new_row cd now user k kw, rows @ [new_row cd now user k kw])
      | Some x \<Rightarrow> (changed_row cd now kw x, update_first (mock_is user k) (changed_row cd now kw) rows))"

definition mock_delete_row :: "int \<Rightarrow> user_context \<Rightarrow> string \<Rightarrow> console_row list \<Rightarrow> bool \<times> console_row list" where
  "mock_delete_row now user k rows =
     (case mock_find_row user k rows of
        None \<Rightarrow> (False, rows)
      | Some _ \<Rightarrow> (True, update_first (mock_is user k) (\<lambda>r. r\<lparr>cr_deleted_at_ms := Some now, cr_updated_at_ms := now\<rparr>) rows))"

definition mock_batch_get_rows :: "user_context \<Rightarrow> string list \<Rightarrow> console_row list \<Rightarrow> console_row list" where
  "mock_batch_get_rows user ks rows = List.map_filter (\<lambda>k. mock_find_row user k rows) ks"

definition mock_list_rows ::
  "user_context \<Rightarrow> string option \<Rightarrow> int \<Rightarrow> console_row list \<Rightarrow> (console_error, console_row list \<times> string option) res" where
  "mock_list_rows user cursor n rows =
     res_bind (read_cursor cursor) (\<lambda>position.
       let own = filter (\<lambda>r. cr_user_sub r = uc_user_id user \<and> cr_deleted_at_ms r = None) rows;
           sorted = rev (sort_key (\<lambda>r. (cr_updated_at_ms r, cr_key r)) (rev own));
           rest = (case position of None \<Rightarrow> sorted | Some p \<Rightarrow> filter (\<lambda>r. (cr_updated_at_ms r, cr_key r) < p) sorted)
       in Inr (cut_page (clamp_limit n) row_cursor (take (clamp_limit n + 1) rest)))"

end
