(* ===== verification/ConsoleRowProps.thy ===== *)
theory ConsoleRowProps
  imports ConsoleRows
begin

text \<open>
  Laws of the shared console rows: every call stays within the caller's rows (an interpretation of
  \<open>confined_store\<close> for the database and for its twin), the pages of a listing are the segments of one
  list (an interpretation of \<open>keyset_pages\<close>), and what becomes of a key that is deleted and stored again.
\<close>

section \<open>Look-ups\<close>

lemma sql_holds_STrue [sql_simps]: "sql_holds STrue"
  by (simp add: sql_holds_def)

lemma my_row_owner: "sql_holds (my_row env user r) \<Longrightarrow> cr_user_sub r = uc_user_id user"
  by (simp add: my_row_def sql_simps)

lemma scalar_Some: "one_or_none xs = Inr (Some r) \<longleftrightarrow> xs = [r]"
  by (auto simp: one_or_none_def split: list.splits)

lemma scalar_None: "one_or_none xs = Inr None \<longleftrightarrow> xs = []"
  by (auto simp: one_or_none_def split: list.splits)

lemma find_row_Some:
  assumes "find_row env only_live user k rows = Inr (Some r)"
  shows "r \<in> set rows" and "cr_user_sub r = uc_user_id user" and "cr_key r = k"
    and "only_live \<Longrightarrow> cr_deleted_at_ms r = None" and "sql_holds (console_policy env (uc_user_id user))"
proof -
  let ?c = "\<lambda>r. sql_and (my_row env user r) (sql_and (sql_eq (Some (cr_key r)) (Some k)) (if only_live then live r else STrue))"
  have "sql_select ?c rows = [r]" using assms by (simp add: find_row_def scalar_Some split: if_splits)
  then have "r \<in> set (sql_select ?c rows)" by simp
  then have "r \<in> set rows" "sql_holds (?c r)" by (simp_all add: set_sql_select)
  then show "r \<in> set rows" "cr_user_sub r = uc_user_id user" "cr_key r = k" "only_live \<Longrightarrow> cr_deleted_at_ms r = None"
    "sql_holds (console_policy env (uc_user_id user))"
    by (auto simp: sql_simps my_row_def live_def)
qed

lemma row_ident_found: "find_row env l user k rows = Inr (Some r) \<Longrightarrow> row_ident r = (uc_user_id user, k)"
  using find_row_Some(2,3) by (simp add: row_ident_def)

text \<open>With the unique constraint a look-up never meets two rows.\<close>

lemma uq_filter_ident:
  assumes "uq_console rows" and "r \<in> set rows" and "row_ident r = i"
  shows "filter (\<lambda>x. row_ident x = i) rows = [r]"
  using assms
proof (induction rows)
  case (Cons x rows)
  show ?case
  proof (cases "row_ident x = i")
    case True
    then have "\<forall>y \<in> set rows. row_ident y \<noteq> i" using Cons.prems(1) by (auto simp: uq_console_def image_iff)
    then show ?thesis using True Cons.prems by (auto simp: filter_empty_conv)
  next
    case False
    then show ?thesis using Cons by (auto simp: uq_console_def)
  qed
qed simp

lemma uq_same: "uq_console rows \<Longrightarrow> x \<in> set rows \<Longrightarrow> y \<in> set rows \<Longrightarrow> row_ident x = row_ident y \<Longrightarrow> x = y"
  by (auto simp: uq_console_def distinct_map dest: inj_onD)

lemma find_row_eq:
  assumes "uq_console rows" and "r \<in> set rows" and "row_ident r = (uc_user_id user, k)"
    and "\<not> text_error env (uc_user_id user)" and "\<not> text_error env k" and "sql_holds (console_policy env (uc_user_id user))"
  shows "find_row env l user k rows = Inr (if l \<and> cr_deleted_at_ms r \<noteq> None then None else Some r)"
proof -
  let ?c = "\<lambda>r. sql_and (my_row env user r) (sql_and (sql_eq (Some (cr_key r)) (Some k)) (if l then live r else STrue))"
  have "sql_select ?c rows = filter (\<lambda>x. l \<longrightarrow> cr_deleted_at_ms x = None) (filter (\<lambda>x. row_ident x = (uc_user_id user, k)) rows)"
    using assms(6) by (auto simp: sql_select_def row_ident_def sql_simps my_row_def live_def intro!: filter_cong)
  also have "\<dots> = filter (\<lambda>x. l \<longrightarrow> cr_deleted_at_ms x = None) [r]" using uq_filter_ident [OF assms(1-3)] by simp
  finally show ?thesis using assms(4,5) by (simp add: find_row_def one_or_none_def)
qed

lemma find_row_none:
  assumes "find_row env l user k rows = Inr None" and "sql_holds (console_policy env (uc_user_id user))"
    and "r \<in> set rows" and "row_ident r = (uc_user_id user, k)"
  shows "l \<and> cr_deleted_at_ms r \<noteq> None"
proof (rule ccontr)
  let ?c = "\<lambda>r. sql_and (my_row env user r) (sql_and (sql_eq (Some (cr_key r)) (Some k)) (if l then live r else STrue))"
  assume "\<not> (l \<and> cr_deleted_at_ms r \<noteq> None)"
  then have "r \<in> set (sql_select ?c rows)" using assms(2-4) by (auto simp: set_sql_select sql_simps my_row_def live_def row_ident_def)
  moreover have "sql_select ?c rows = []" using assms(1) by (simp add: find_row_def scalar_None split: if_splits)
  ultimately show False by simp
qed

section \<open>Writes\<close>

lemma commit_console_Inr: "commit_console env r rows = Inr rows' \<longleftrightarrow>
    rows' = rows \<and> \<not> ce_refuses env r \<and> sql_holds (console_policy env (cr_user_sub r))"
  by (auto simp: commit_console_def)

lemma upsert_row_cases:
  assumes "upsert_row cd env user k kw rows = Inr (r, rows')"
  obtains (fresh) "find_row env False user k rows = Inr None" "r = new_row cd (ce_now_ms env) user k kw" "rows' = rows @ [r]"
      "sql_holds (console_policy env (uc_user_id user))" "\<not> ce_refuses env r"
  | (present) x where "find_row env False user k rows = Inr (Some x)" "r = changed_row cd (ce_now_ms env) kw x"
      "rows' = put_console r rows" "\<not> ce_refuses env r"
proof -
  have *: "res_bind (find_row env False user k rows) (\<lambda>existing.
       case existing of
         None \<Rightarrow> let r = new_row cd (ce_now_ms env) user k kw
                 in res_bind (commit_console env r (rows @ [r])) (\<lambda>rows'. Inr (r, rows'))
       | Some x \<Rightarrow> let r = changed_row cd (ce_now_ms env) kw x
                   in res_bind (commit_console env r (put_console r rows)) (\<lambda>rows'. Inr (r, rows'))) = Inr (r, rows')"
    using assms by (auto simp: upsert_row_def as_runtime_def split: sum.splits)
  then obtain existing where f: "find_row env False user k rows = Inr existing" by (auto simp: res_bind_Inr_iff)
  show ?thesis
  proof (cases existing)
    case None
    then show ?thesis using * f fresh by (auto simp: Let_def res_bind_Inr_iff commit_console_Inr new_row_def)
  next
    case (Some x)
    then show ?thesis using * f present [of x] by (auto simp: Let_def res_bind_Inr_iff commit_console_Inr)
  qed
qed

lemma delete_row_True:
  assumes "delete_row env user k rows = Inr (True, rows')"
  obtains x where "find_row env True user k rows = Inr (Some x)"
    "rows' = put_console (x\<lparr>cr_deleted_at_ms := Some (ce_now_ms env), cr_updated_at_ms := ce_now_ms env\<rparr>) rows"
  using assms unfolding delete_row_def
  by (auto simp: res_bind_Inr_iff commit_console_Inr Let_def split: option.splits)

lemma delete_row_False: "delete_row env user k rows = Inr (False, rows') \<Longrightarrow> rows' = rows"
  unfolding delete_row_def by (auto simp: res_bind_Inr_iff commit_console_Inr Let_def split: option.splits)

lemma set_put_console: "x \<in> set (put_console r rows) \<Longrightarrow> x \<in> set rows \<and> row_ident x \<noteq> row_ident r \<or> x = r"
  by (auto simp: put_console_def set_map_if)

lemma put_console_mem: "y \<in> set rows \<Longrightarrow> row_ident y = row_ident r \<Longrightarrow> r \<in> set (put_console r rows)"
  by (force simp: put_console_def set_map_if)

lemma map_ident_put [simp]: "map row_ident (put_console r rows) = map row_ident rows"
  by (induction rows) (simp_all add: put_console_def)

lemma uq_put [simp]: "uq_console (put_console r rows) \<longleftrightarrow> uq_console rows"
  by (simp add: uq_console_def)

lemma filter_owner_put:
  "cr_user_sub r \<noteq> u \<Longrightarrow> filter (\<lambda>x. cr_user_sub x = u) (put_console r rows) = filter (\<lambda>x. cr_user_sub x = u) rows"
  by (induction rows) (auto simp: put_console_def row_ident_def)

section \<open>Calls and runs\<close>

datatype console_op = CUpsert metadata string | CDelete string

record console_call =
  cc_env :: console_env
  cc_user :: user_context
  cc_op :: console_op

definition exec_console :: "console_domain \<Rightarrow> console_call \<Rightarrow> console_row list \<Rightarrow> console_row list" where
  "exec_console cd c rows =
     (case cc_op c of
        CUpsert kw k \<Rightarrow> (case upsert_row cd (cc_env c) (cc_user c) k kw rows of Inl _ \<Rightarrow> rows | Inr (_, rows') \<Rightarrow> rows')
      | CDelete k \<Rightarrow> (case delete_row (cc_env c) (cc_user c) k rows of Inl _ \<Rightarrow> rows | Inr (_, rows') \<Rightarrow> rows'))"

definition mock_exec_console :: "console_domain \<Rightarrow> console_call \<Rightarrow> console_row list \<Rightarrow> console_row list" where
  "mock_exec_console cd c rows =
     (case cc_op c of
        CUpsert kw k \<Rightarrow> snd (mock_upsert_row cd (ce_now_ms (cc_env c)) (cc_user c) k kw rows)
      | CDelete k \<Rightarrow> snd (mock_delete_row (ce_now_ms (cc_env c)) (cc_user c) k rows))"

abbreviation rows_of :: "string \<Rightarrow> console_row list \<Rightarrow> console_row list" where
  "rows_of u rows \<equiv> filter (\<lambda>r. cr_user_sub r = u) rows"

lemma upsert_row_confined:
  assumes "upsert_row cd env user k kw rows = Inr (r, rows')" and "uc_user_id user \<noteq> u"
  shows "rows_of u rows' = rows_of u rows"
  using assms(1)
proof (cases rule: upsert_row_cases)
  case fresh
  then show ?thesis using assms(2) by (simp add: new_row_def)
next
  case (present x)
  then show ?thesis using assms(2) find_row_Some(2) [OF present(1)] by (simp add: filter_owner_put changed_row_def)
qed

lemma delete_row_confined:
  assumes "delete_row env user k rows = Inr (b, rows')" and "uc_user_id user \<noteq> u"
  shows "rows_of u rows' = rows_of u rows"
proof (cases b)
  case True
  then have "delete_row env user k rows = Inr (True, rows')" using assms(1) by simp
  then obtain x where x: "find_row env True user k rows = Inr (Some x)"
    "rows' = put_console (x\<lparr>cr_deleted_at_ms := Some (ce_now_ms env), cr_updated_at_ms := ce_now_ms env\<rparr>) rows"
    by (rule delete_row_True)
  then show ?thesis using assms(2) find_row_Some(2) [OF x(1)] by (simp add: filter_owner_put)
next
  case False
  then show ?thesis using assms(1) delete_row_False [of env user k rows rows'] by simp
qed

lemma update_first_owner:
  "(\<And>r. p r \<Longrightarrow> g r \<noteq> u \<and> g (f r) \<noteq> u) \<Longrightarrow> filter (\<lambda>r. g r = u) (update_first p f rows) = filter (\<lambda>r. g r = u) rows"
  by (induction rows) auto

interpretation rows: confined_store "exec_console cd" "\<lambda>c :: console_call. uc_user_id (cc_user c)" rows_of for cd
proof
  fix c :: console_call and u rows assume "uc_user_id (cc_user c) \<noteq> u"
  then show "rows_of u (exec_console cd c rows) = rows_of u rows"
    using upsert_row_confined delete_row_confined
    by (fastforce simp: exec_console_def split: console_op.splits sum.splits)
qed

interpretation mock: confined_store "mock_exec_console cd" "\<lambda>c :: console_call. uc_user_id (cc_user c)" rows_of for cd
proof
  fix c :: console_call and u rows assume "uc_user_id (cc_user c) \<noteq> u"
  then show "rows_of u (mock_exec_console cd c rows) = rows_of u rows"
    by (auto simp: mock_exec_console_def mock_upsert_row_def mock_delete_row_def new_row_def changed_row_def mock_is_def
        intro!: update_first_owner split: console_op.splits option.splits)
qed

text \<open>Reads see the caller's own rows only.\<close>

lemma sql_select_own:
  assumes "\<And>r. sql_holds (c r) \<Longrightarrow> cr_user_sub r = u"
  shows "sql_select c rows = sql_select c (rows_of u rows)"
  using assms by (auto simp: sql_select_def intro!: filter_cong)

lemma reads_own:
  fixes rs rs' user
  assumes "rows_of (uc_user_id user) rs = rows_of (uc_user_id user) rs'"
  shows "find_row env l user k rs = find_row env l user k rs'"
    and "list_rows env user cursor n rs = list_rows env user cursor n rs'"
    and "batch_get_rows env user ks rs = batch_get_rows env user ks rs'"
proof -
  have sel: "sql_select (\<lambda>r. sql_and (my_row env user r) (c r)) rs = sql_select (\<lambda>r. sql_and (my_row env user r) (c r)) rs'" for c
    using assms by (subst (1 2) sql_select_own [of _ "uc_user_id user"]) (auto simp: sql_simps dest: my_row_owner)
  show "find_row env l user k rs = find_row env l user k rs'" by (simp add: find_row_def sel)
  show "list_rows env user cursor n rs = list_rows env user cursor n rs'" unfolding list_rows_def Let_def sel ..
  show "batch_get_rows env user ks rs = batch_get_rows env user ks rs'" by (simp add: batch_get_rows_def sel)
qed

section \<open>Pages\<close>

definition live_mine :: "console_env \<Rightarrow> user_context \<Rightarrow> console_row list \<Rightarrow> console_row list" where
  "live_mine env user rows = newest_first env (sql_select (\<lambda>r. sql_and (my_row env user r) (live r)) rows)"

lemma newest_first_filter: "newest_first env (filter p rows) = filter p (newest_first env rows)"
  by (simp add: newest_first_def rev_filter [symmetric] filter_sort)

lemma set_newest_first [simp]: "set (newest_first env rows) = set rows"
  by (simp add: newest_first_def)

lemma sorted_newest_first:
  assumes "uq_console rows" and "\<And>r. r \<in> set rows \<Longrightarrow> cr_user_sub r = u" and "inj (ce_collate env)"
  shows "sorted_wrt (\<lambda>a b. row_order env b < row_order env a) (newest_first env rows)"
proof -
  let ?xs = "sort_key (row_order env) (rev rows)"
  have "inj_on (row_order env) (set rows)"
  proof (rule inj_onI)
    fix a b assume ab: "a \<in> set rows" "b \<in> set rows" "row_order env a = row_order env b"
    then have "row_ident a = row_ident b" using assms(2,3) by (auto simp: row_order_def row_ident_def dest: injD)
    then show "a = b" using assms(1) ab(1,2) by (auto simp: uq_console_def distinct_map dest: inj_onD)
  qed
  then have "distinct (map (row_order env) ?xs)"
    using assms(1) by (simp add: uq_console_def distinct_map)
  moreover have "sorted (map (row_order env) ?xs)" by simp
  ultimately have "sorted_wrt (<) (map (row_order env) ?xs)" by (simp add: strict_sorted_iff)
  then show ?thesis by (simp add: newest_first_def sorted_wrt_rev sorted_wrt_map)
qed

text \<open>A cursor made of a stored row is read back, and what lies behind it are the rows it precedes.\<close>

lemma list_rows_first:
  assumes "\<not> text_error env (uc_user_id user)"
  shows "list_rows env user None n rows = Inr (cut_page (clamp_limit n) row_cursor (take (clamp_limit n + 1) (live_mine env user rows)))"
proof -
  have "sql_select (\<lambda>r. sql_and (my_row env user r) (sql_and (live r) (behind env None r))) rows =
      sql_select (\<lambda>r. sql_and (my_row env user r) (live r)) rows"
    by (simp add: sql_select_def behind_def sql_simps)
  then show ?thesis using assms by (simp add: list_rows_def read_cursor_def live_mine_def)
qed

lemma list_rows_next:
  assumes "\<not> text_error env (uc_user_id user)" and "cr_key x \<noteq> []" and "int8_ok (cr_updated_at_ms x)" and "\<not> text_error env (cr_key x)"
  shows "list_rows env user (Some (row_cursor x)) n rows =
    Inr (cut_page (clamp_limit n) row_cursor (take (clamp_limit n + 1)
      (filter (\<lambda>r. row_order env r < row_order env x) (live_mine env user rows))))"
proof -
  let ?p = "Some (cr_updated_at_ms x, cr_key x)"
  have "sql_holds (behind env ?p r) \<longleftrightarrow> row_order env r < row_order env x" for r
    by (auto simp: behind_def sql_simps row_order_def)
  then have "sql_select (\<lambda>r. sql_and (my_row env user r) (sql_and (live r) (behind env ?p r))) rows =
      filter (\<lambda>r. row_order env r < row_order env x) (sql_select (\<lambda>r. sql_and (my_row env user r) (live r)) rows)"
    by (auto simp: sql_select_def sql_simps intro!: filter_cong)
  then show ?thesis
    using assms(1,3,4) decode_encode_cursor [OF assms(2,3)]
    by (simp add: list_rows_def read_cursor_def row_cursor_def live_mine_def newest_first_filter)
qed

text \<open>What a table of stored rows satisfies: keys not empty, times within eight bytes, texts the database takes.\<close>

definition storable :: "console_env \<Rightarrow> console_row \<Rightarrow> bool" where
  "storable env r \<longleftrightarrow> cr_key r \<noteq> [] \<and> int8_ok (cr_updated_at_ms r) \<and> \<not> text_error env (cr_key r)"

lemma clamp_limit_pos: "1 \<le> clamp_limit n"
  by (simp add: clamp_limit_def)

lemma uq_sql_select: "uq_console rows \<Longrightarrow> uq_console (sql_select c rows)"
  by (simp add: uq_console_def sql_select_def distinct_map inj_on_def)

definition listable :: "console_env \<Rightarrow> user_context \<Rightarrow> console_row list \<Rightarrow> bool" where
  "listable env user rows \<longleftrightarrow> uq_console rows \<and> (\<forall>r \<in> set rows. storable env r) \<and> inj (ce_collate env) \<and>
     \<not> text_error env (uc_user_id user)"

interpretation listing: keyset_pages "\<lambda>c. list_rows env user c n rows" "live_mine env user rows" "clamp_limit n" row_cursor
    "listable env user rows" for env user n rows
proof
  fix env user n rows
  let ?L = "live_mine env user rows"
  show "1 \<le> clamp_limit n" by (rule clamp_limit_pos)
  assume "listable env user rows"
  then have assms: "uq_console rows" "\<forall>r \<in> set rows. storable env r" "inj (ce_collate env)" "\<not> text_error env (uc_user_id user)"
    by (simp_all add: listable_def)
  show "list_rows env user None n rows =
      Inr (take (clamp_limit n) ?L, if clamp_limit n < length ?L then Some (row_cursor (?L ! (clamp_limit n - 1))) else None)"
    by (simp add: list_rows_first [OF assms(4)] cut_page_segment [OF clamp_limit_pos, simplified])
  fix i assume i: "i < length ?L"
  have "sorted_wrt (\<lambda>a b. row_order env b < row_order env a) ?L"
    unfolding live_mine_def using uq_sql_select [OF assms(1)] assms(3)
    by (intro sorted_newest_first [of _ "uc_user_id user"]) (auto simp: set_sql_select sql_simps dest: my_row_owner)
  then have behind: "filter (\<lambda>r. row_order env r < row_order env (?L ! i)) ?L = drop (Suc i) ?L"
    using i by (intro filter_after) auto
  have "?L ! i \<in> set rows" using nth_mem [OF i] by (simp add: live_mine_def set_sql_select)
  then have "storable env (?L ! i)" using assms(2) by blast
  then have "list_rows env user (Some (row_cursor (?L ! i))) n rows =
      Inr (cut_page (clamp_limit n) row_cursor (take (clamp_limit n + 1) (drop (Suc i) ?L)))"
    using list_rows_next [OF assms(4), of "?L ! i" n rows] by (simp add: storable_def behind)
  also have "\<dots> = Inr (take (clamp_limit n) (drop (Suc i) ?L),
      if Suc i + clamp_limit n < length ?L then Some (row_cursor (?L ! (i + clamp_limit n))) else None)"
  proof -
    have "drop (Suc i) ?L ! (clamp_limit n - 1) = ?L ! (i + clamp_limit n)" if "Suc i + clamp_limit n < length ?L"
      using that clamp_limit_pos [of n] by (simp add: nth_drop)
    moreover have "clamp_limit n < length ?L - Suc i \<longleftrightarrow> Suc i + clamp_limit n < length ?L" by linarith
    ultimately show ?thesis by (simp add: cut_page_segment [OF clamp_limit_pos, simplified])
  qed
  finally show "list_rows env user (Some (row_cursor (?L ! i))) n rows =
      Inr (take (clamp_limit n) (drop (Suc i) ?L),
        if Suc i + clamp_limit n < length ?L then Some (row_cursor (?L ! (i + clamp_limit n))) else None)" .
qed

lemma list_rows_follow:
  assumes "listable env user rows"
  shows "follow (\<lambda>c. list_rows env user c n rows) (Suc (length rows)) None = Some (live_mine env user rows)"
proof (rule follow_more [OF listing.follow_all [OF assms]])
  show "Suc (length (live_mine env user rows)) \<le> Suc (length rows)"
    by (simp add: live_mine_def newest_first_def sql_select_def)
qed

lemma list_rows_Inr:
  assumes "list_rows env user cursor n rows = Inr q"
  obtains p where "read_cursor cursor = Inr p"
    and "q = cut_page (clamp_limit n) row_cursor (take (clamp_limit n + 1)
      (newest_first env (sql_select (\<lambda>r. sql_and (my_row env user r) (sql_and (live r) (behind env p r))) rows)))"
proof -
  from assms obtain p where "read_cursor cursor = Inr p" by (auto simp: list_rows_def res_bind_Inr_iff)
  with assms show ?thesis using that [of p] by (auto simp: list_rows_def Let_def split: if_splits)
qed

section \<open>A key that was deleted\<close>

lemma deleted_key_row:
  assumes "uq_console rows" and "delete_row env user k rows = Inr (True, rows1)"
  obtains x where "x \<in> set rows1" and "row_ident x = (uc_user_id user, k)" and "cr_deleted_at_ms x = Some (ce_now_ms env)"
    and "uq_console rows1"
proof -
  from assms(2) obtain x where x: "find_row env True user k rows = Inr (Some x)"
    "rows1 = put_console (x\<lparr>cr_deleted_at_ms := Some (ce_now_ms env), cr_updated_at_ms := ce_now_ms env\<rparr>) rows"
    by (rule delete_row_True)
  let ?d = "x\<lparr>cr_deleted_at_ms := Some (ce_now_ms env), cr_updated_at_ms := ce_now_ms env\<rparr>"
  have i: "row_ident ?d = row_ident x" by (simp add: row_ident_def)
  have "?d \<in> set rows1" unfolding x(2) by (rule put_console_mem [OF find_row_Some(1) [OF x(1)] i [symmetric]])
  then show ?thesis using that [of ?d] i row_ident_found [OF x(1)] assms(1) by (simp add: x(2))
qed

text \<open>A table in which the only row of a key is deleted answers no read of it.\<close>

lemma only_deleted_unread:
  assumes "uq_console rows" and "r \<in> set rows" and "row_ident r = (uc_user_id user, k)" and "cr_deleted_at_ms r \<noteq> None"
  shows "find_row env True user k rows \<noteq> Inr (Some x)"
    and "list_rows env user c n rows = Inr (page, nx) \<Longrightarrow> k \<notin> cr_key ` set page"
proof -
  have one: "y = r" if "y \<in> set rows" "row_ident y = (uc_user_id user, k)" for y
    by (rule uq_same [OF assms(1) that(1) assms(2)]) (simp add: that(2) assms(3))
  show "find_row env True user k rows \<noteq> Inr (Some x)"
    using find_row_Some(1,4) [of env True user k rows x] row_ident_found [of env True user k rows x] one [of x] assms(4) by auto
  assume "list_rows env user c n rows = Inr (page, nx)"
  then obtain p where "(page, nx) = cut_page (clamp_limit n) row_cursor (take (clamp_limit n + 1)
      (newest_first env (sql_select (\<lambda>r. sql_and (my_row env user r) (sql_and (live r) (behind env p r))) rows)))"
    by (rule list_rows_Inr)
  then have "\<forall>y \<in> set page. y \<in> set rows \<and> cr_user_sub y = uc_user_id user \<and> cr_deleted_at_ms y = None"
    by (auto simp: cut_page_def Let_def set_sql_select sql_simps live_def dest!: in_set_takeD dest: my_row_owner)
  then show "k \<notin> cr_key ` set page" using one assms(4) by (auto simp: row_ident_def)
qed

text \<open>An upsert of that key answers with the deleted row.\<close>

lemma upsert_deleted_key:
  assumes "uq_console rows1" and "x \<in> set rows1" and "row_ident x = (uc_user_id user, k)"
    and "upsert_row cd env user k kw rows1 = Inr (r, rows2)"
  shows "r = changed_row cd (ce_now_ms env) kw x" and "r \<in> set rows2" and "uq_console rows2"
proof -
  from assms(4) have "r = changed_row cd (ce_now_ms env) kw x \<and> rows2 = put_console r rows1"
  proof (cases rule: upsert_row_cases)
    case fresh
    then show ?thesis using find_row_none [OF fresh(1,4) assms(2,3)] by simp
  next
    case (present y)
    have "y = x"
      by (rule uq_same [OF assms(1) find_row_Some(1) [OF present(1)] assms(2)])
        (simp add: row_ident_found [OF present(1)] assms(3))
    then show ?thesis using present by simp
  qed
  moreover have "row_ident (changed_row cd (ce_now_ms env) kw x) = row_ident x" by (simp add: changed_row_def row_ident_def)
  ultimately show "r = changed_row cd (ce_now_ms env) kw x" and "r \<in> set rows2" and "uq_console rows2"
    using put_console_mem [OF assms(2)] assms(1) by auto
qed

lemma mock_revives:
  assumes "uq_console rows" and "mock_delete_row now user k rows = (True, m)"
  shows "mock_find_row user k m = None" and "mock_upsert_row cd now' user k kw m = (new_row cd now' user k kw, m @ [new_row cd now' user k kw])"
    and "mock_find_row user k (m @ [new_row cd now' user k kw]) = Some (new_row cd now' user k kw)"
proof -
  let ?d = "\<lambda>r. r\<lparr>cr_deleted_at_ms := Some now, cr_updated_at_ms := now\<rparr>"
  have m: "m = update_first (mock_is user k) ?d rows" "mock_find_row user k rows \<noteq> None"
    using assms(2) by (auto simp: mock_delete_row_def split: option.splits)
  have "find (mock_is user k) (update_first (mock_is user k) ?d rows) = None" if "uq_console rows" for rows
    using that
  proof (induction rows)
    case (Cons x rows)
    show ?case
    proof (cases "mock_is user k x")
      case True
      have "\<not> mock_is user k y" if "y \<in> set rows" for y
        using Cons.prems True that by (auto simp: uq_console_def row_ident_def mock_is_def image_iff)
      then show ?thesis using True by (simp add: mock_is_def find_None_set)
    next
      case False
      then show ?thesis using Cons by (simp add: uq_console_def)
    qed
  qed simp
  then show none: "mock_find_row user k m = None" using assms(1) m(1) by (simp add: mock_find_row_def)
  then show "mock_upsert_row cd now' user k kw m = (new_row cd now' user k kw, m @ [new_row cd now' user k kw])"
    by (simp add: mock_upsert_row_def)
  have "find p (xs @ [y]) = Some y" if "find p xs = None" "p y" for p xs and y :: console_row
    using that by (induction xs) (auto split: if_splits)
  then show "mock_find_row user k (m @ [new_row cd now' user k kw]) = Some (new_row cd now' user k kw)"
    using none by (simp add: mock_find_row_def mock_is_def new_row_def)
qed

section \<open>The twin\<close>

text \<open>The database takes the call, and no deleted row has the key of an upsert.\<close>

definition db_takes :: "console_env \<Rightarrow> user_context \<Rightarrow> string \<Rightarrow> bool" where
  "db_takes env user k \<longleftrightarrow> \<not> text_error env (uc_user_id user) \<and> \<not> text_error env k \<and>
     sql_holds (console_policy env (uc_user_id user)) \<and> (\<forall>r. \<not> ce_refuses env r)"

definition call_takes :: "console_call \<Rightarrow> console_row list \<Rightarrow> bool" where
  "call_takes c rows \<longleftrightarrow>
     (case cc_op c of
        CUpsert kw k \<Rightarrow> db_takes (cc_env c) (cc_user c) k \<and>
          (\<forall>r \<in> set rows. row_ident r = (uc_user_id (cc_user c), k) \<longrightarrow> cr_deleted_at_ms r = None)
      | CDelete k \<Rightarrow> db_takes (cc_env c) (cc_user c) k)"

fun run_takes :: "console_domain \<Rightarrow> console_call list \<Rightarrow> console_row list \<Rightarrow> bool" where
  "run_takes cd [] rows \<longleftrightarrow> True"
| "run_takes cd (c # cs) rows \<longleftrightarrow> call_takes c rows \<and> run_takes cd cs (exec_console cd c rows)"

lemma mock_find_uq:
  assumes "uq_console rows" and "x \<in> set rows" and "row_ident x = (uc_user_id user, k)"
  shows "mock_find_row user k rows = (if cr_deleted_at_ms x = None then Some x else None)"
    and "cr_deleted_at_ms x = None \<Longrightarrow> row_ident (f x) = row_ident x \<Longrightarrow>
      update_first (mock_is user k) f rows = put_console (f x) rows"
proof -
  have one: "y = x" if "y \<in> set rows" "row_ident y = (uc_user_id user, k)" for y
    by (rule uq_same [OF assms(1) that(1) assms(2)]) (simp add: that(2) assms(3))
  have hit: "mock_is user k y \<longleftrightarrow> y = x \<and> cr_deleted_at_ms x = None" if "y \<in> set rows" for y
    using one [OF that] assms(3) by (auto simp: mock_is_def row_ident_def)
  show "mock_find_row user k rows = (if cr_deleted_at_ms x = None then Some x else None)"
  proof (cases "find (mock_is user k) rows")
    case None
    then show ?thesis using hit assms(2) by (auto simp: mock_find_row_def find_None_set)
  next
    case (Some y)
    then show ?thesis using find_Some_set [OF Some] hit [of y] by (simp add: mock_find_row_def)
  qed
  assume "cr_deleted_at_ms x = None" and fx: "row_ident (f x) = row_ident x"
  then show "update_first (mock_is user k) f rows = put_console (f x) rows"
    using assms(1) hit one
  proof (induction rows)
    case (Cons y rows)
    show ?case
    proof (cases "y = x")
      case True
      then have "put_console (f x) rows = rows"
        using Cons.prems(2,3) by (auto simp: put_console_def uq_console_def image_iff intro!: map_if_none)
      then show ?thesis using True Cons.prems(1,2,4) by (simp add: put_console_def)
    next
      case False
      then have "row_ident y \<noteq> row_ident (f x)" using Cons.prems(2,5) assms(3) by auto
      then show ?thesis using False Cons by (simp add: put_console_def uq_console_def)
    qed
  qed (simp add: put_console_def)
qed

lemma find_row_uq:
  assumes "uq_console rows" and "db_takes env user k"
  shows "find_row env l user k rows = Inr (find (\<lambda>r. row_ident r = (uc_user_id user, k) \<and> (l \<longrightarrow> cr_deleted_at_ms r = None)) rows)"
proof (cases "find (\<lambda>r. row_ident r = (uc_user_id user, k) \<and> (l \<longrightarrow> cr_deleted_at_ms r = None)) rows")
  case None
  then have "sql_select (\<lambda>r. sql_and (my_row env user r) (sql_and (sql_eq (Some (cr_key r)) (Some k)) (if l then live r else STrue))) rows = []"
    by (auto simp: sql_select_def filter_empty_conv find_None_set sql_simps my_row_def live_def row_ident_def)
  then show ?thesis using None assms(2) by (simp add: find_row_def one_or_none_def db_takes_def)
next
  case (Some x)
  then show ?thesis
    using find_row_eq [OF assms(1), of x user k env l] find_Some_set [OF Some] assms(2) by (auto simp: db_takes_def)
qed

lemma call_twin:
  assumes "uq_console rows" and "call_takes c rows"
  shows "exec_console cd c rows = mock_exec_console cd c rows" and "uq_console (exec_console cd c rows)"
proof -
  obtain env user op where c: "cc_env c = env" "cc_user c = user" "cc_op c = op" by simp
  have policy: "sql_holds (console_policy env (uc_user_id user))" "\<And>r. \<not> ce_refuses env r" if "db_takes env user k" for k
    using that by (simp_all add: db_takes_def)
  have "exec_console cd c rows = mock_exec_console cd c rows \<and> uq_console (exec_console cd c rows)"
  proof (cases op)
    case (CUpsert kw k)
    then have t: "db_takes env user k" "\<forall>r \<in> set rows. row_ident r = (uc_user_id user, k) \<longrightarrow> cr_deleted_at_ms r = None"
      using assms(2) c by (simp_all add: call_takes_def)
    show ?thesis
    proof (cases "find (\<lambda>r. row_ident r = (uc_user_id user, k)) rows")
      case None
      then have "find_row env False user k rows = Inr None" using find_row_uq [OF assms(1) t(1), of False] by simp
      moreover have "mock_find_row user k rows = None"
        using None by (auto simp: mock_find_row_def find_None_set mock_is_def row_ident_def)
      moreover have "uq_console (rows @ [new_row cd (ce_now_ms env) user k kw])"
        using assms(1) None by (auto simp: uq_console_def find_None_set new_row_def row_ident_def)
      ultimately show ?thesis using c CUpsert policy [OF t(1)]
        by (simp add: exec_console_def mock_exec_console_def upsert_row_def mock_upsert_row_def as_runtime_def commit_console_def
            Let_def new_row_def)
    next
      case (Some x)
      note x = find_Some_set [OF Some]
      then have "cr_deleted_at_ms x = None" "cr_user_sub x = uc_user_id user" using t(2) by (auto simp: row_ident_def)
      moreover have "find_row env False user k rows = Inr (Some x)" using Some find_row_uq [OF assms(1) t(1), of False] by simp
      moreover have "row_ident (changed_row cd (ce_now_ms env) kw x) = row_ident x" by (simp add: changed_row_def row_ident_def)
      ultimately show ?thesis
        using c CUpsert policy [OF t(1)] mock_find_uq [OF assms(1) conjunct1 [OF x] conjunct2 [OF x]] assms(1)
        by (simp add: exec_console_def mock_exec_console_def upsert_row_def mock_upsert_row_def as_runtime_def commit_console_def
            Let_def changed_row_def)
    qed
  next
    case (CDelete k)
    then have t: "db_takes env user k" using assms(2) c by (simp add: call_takes_def)
    let ?live = "\<lambda>r. row_ident r = (uc_user_id user, k) \<and> cr_deleted_at_ms r = None"
    show ?thesis
    proof (cases "find ?live rows")
      case None
      then have "find_row env True user k rows = Inr None" using find_row_uq [OF assms(1) t, of True] by simp
      moreover have "mock_find_row user k rows = None"
        using None by (auto simp: mock_find_row_def find_None_set mock_is_def row_ident_def)
      ultimately show ?thesis using c CDelete assms(1)
        by (simp add: exec_console_def mock_exec_console_def delete_row_def mock_delete_row_def)
    next
      case (Some x)
      note x = find_Some_set [OF Some]
      let ?d = "\<lambda>r. r\<lparr>cr_deleted_at_ms := Some (ce_now_ms env), cr_updated_at_ms := ce_now_ms env\<rparr>"
      have "find_row env True user k rows = Inr (Some x)" using Some find_row_uq [OF assms(1) t, of True] by simp
      moreover have "row_ident (?d x) = row_ident x" "cr_user_sub x = uc_user_id user" using x by (auto simp: row_ident_def)
      moreover have "mock_find_row user k rows = Some x" "update_first (mock_is user k) ?d rows = put_console (?d x) rows"
        using mock_find_uq(1) [OF assms(1), of x user k] mock_find_uq(2) [OF assms(1), of x user k ?d] x \<open>row_ident (?d x) = row_ident x\<close> by auto
      ultimately show ?thesis using c CDelete policy [OF t] assms(1)
        by (simp add: exec_console_def mock_exec_console_def delete_row_def mock_delete_row_def commit_console_def Let_def)
    qed
  qed
  then show "exec_console cd c rows = mock_exec_console cd c rows" and "uq_console (exec_console cd c rows)" by auto
qed

lemma run_twin:
  "uq_console rows \<Longrightarrow> run_takes cd cs rows \<Longrightarrow>
     fold (exec_console cd) cs rows = fold (mock_exec_console cd) cs rows \<and> uq_console (fold (exec_console cd) cs rows)"
proof (induction cs arbitrary: rows)
  case (Cons c cs)
  then have "uq_console (exec_console cd c rows)" "exec_console cd c rows = mock_exec_console cd c rows"
    using call_twin by auto
  then show ?case using Cons.IH [of "exec_console cd c rows"] Cons.prems(2) by auto
qed simp

text \<open>Where the collation is the order of code points, a page of the database is the page of the twin.\<close>

lemma page_twin:
  assumes "list_rows env user cursor n rows = Inr p" and "sql_holds (console_policy env (uc_user_id user))"
    and "\<And>s. ce_collate env s = s"
  shows "mock_list_rows user cursor n rows = Inr p"
proof -
  from assms(1) obtain pos where pos: "read_cursor cursor = Inr pos"
    and p: "p = cut_page (clamp_limit n) row_cursor (take (clamp_limit n + 1)
      (newest_first env (sql_select (\<lambda>r. sql_and (my_row env user r) (sql_and (live r) (behind env pos r))) rows)))"
    using list_rows_Inr by blast
  have order: "row_order env = (\<lambda>r. (cr_updated_at_ms r, cr_key r))" by (rule ext) (simp add: row_order_def assms(3))
  let ?own = "filter (\<lambda>r. cr_user_sub r = uc_user_id user \<and> cr_deleted_at_ms r = None) rows"
  have "sql_select (\<lambda>r. sql_and (my_row env user r) (sql_and (live r) (behind env pos r))) rows =
      filter (\<lambda>r. case pos of None \<Rightarrow> True | Some q \<Rightarrow> (cr_updated_at_ms r, cr_key r) < q) ?own"
    unfolding sql_select_def filter_filter
    using assms(2,3) by (intro filter_cong) (auto simp: sql_simps my_row_def live_def behind_def split: option.splits prod.splits)
  then have "newest_first env (sql_select (\<lambda>r. sql_and (my_row env user r) (sql_and (live r) (behind env pos r))) rows) =
      filter (\<lambda>r. case pos of None \<Rightarrow> True | Some q \<Rightarrow> (cr_updated_at_ms r, cr_key r) < q) (newest_first env ?own)"
    by (simp add: newest_first_filter)
  moreover have "newest_first env ?own = rev (sort_key (\<lambda>r. (cr_updated_at_ms r, cr_key r)) (rev ?own))"
    by (simp add: newest_first_def order)
  ultimately show ?thesis using pos p by (simp add: mock_list_rows_def Let_def split: option.split)
qed

end
