(* ===== verification/ConsoleDomains.thy ===== *)
theory ConsoleDomains
  imports ConsoleRowProps
begin

text \<open>
  The five console stores that are one table each: presets, chat projects, conversation tags, file
  records and agents (\<open>src/audittrace/services/console_presets.py\<close>, \<open>console_chat_projects.py\<close>,
  \<open>console_conversation_tags.py\<close>, \<open>console_files.py\<close>, \<open>console_agents.py\<close>) with their routes
  (\<open>routes/console_*.py\<close>) and the defaults of the request bodies (\<open>models.py\<close>). Each service is the
  shared shape of \<open>ConsoleRows\<close> at its own columns.

  A body is a valid one: what pydantic refuses with 422 never reaches a route. A body has no field for
  the owner, so the owner of a row is the user of the request.
\<close>

section \<open>Routes\<close>

text \<open>\<open>Escaped\<close> is an exception no route maps, a 500.\<close>

datatype 'a reply = Answered 'a | Refused nat | Escaped console_error

definition body_value :: "metadata \<Rightarrow> string \<Rightarrow> pyval \<Rightarrow> pyval" where
  "body_value body c d = (case map_of body c of None \<Rightarrow> d | Some v \<Rightarrow> v)"

definition upsert_reply :: "(console_error, 'a \<times> 'b) res \<Rightarrow> 'b \<Rightarrow> 'a reply \<times> 'b" where
  "upsert_reply r st = (case r of Inl e \<Rightarrow> (Escaped e, st) | Inr (x, st') \<Rightarrow> (Answered x, st'))"

definition found_reply :: "(console_error, 'a option) res \<Rightarrow> 'a reply" where
  "found_reply r = (case r of Inl e \<Rightarrow> Escaped e | Inr None \<Rightarrow> Refused 404 | Inr (Some x) \<Rightarrow> Answered x)"

definition page_reply :: "(console_error, 'a) res \<Rightarrow> 'a reply" where
  "page_reply r = (case r of Inl RowValueError \<Rightarrow> Refused 400 | Inl e \<Rightarrow> Escaped e | Inr x \<Rightarrow> Answered x)"

definition delete_reply :: "(console_error, bool \<times> 'b) res \<Rightarrow> 'b \<Rightarrow> unit reply \<times> 'b" where
  "delete_reply r st =
     (case r of Inl e \<Rightarrow> (Escaped e, st) | Inr (b, st') \<Rightarrow> (if b then Answered () else Refused 404, st'))"

definition batch_reply :: "(console_error, 'a) res \<Rightarrow> 'a reply" where
  "batch_reply r = (case r of Inl e \<Rightarrow> Escaped e | Inr x \<Rightarrow> Answered x)"

section \<open>Presets\<close>

definition preset_insert :: "metadata \<Rightarrow> metadata" where
  "preset_insert kw =
     [(''title'', or_default (field kw ''title'') (PStr ''New Chat'')),
      (''data'', or_default (field kw ''data'') (PDict [])),
      (''metadata'', or_default (field kw ''metadata'') (PDict []))]"

definition preset_update :: "metadata \<Rightarrow> metadata \<Rightarrow> metadata" where
  "preset_update kw cols =
     assign_given ''metadata'' kw (assign_given ''data'' kw (assign_given ''title'' kw cols))"

definition preset_domain :: console_domain where
  "preset_domain = \<lparr>cd_insert = preset_insert, cd_update = preset_update\<rparr>"

definition upsert_preset ::
  "console_env \<Rightarrow> user_context \<Rightarrow> string \<Rightarrow> metadata \<Rightarrow> console_row list \<Rightarrow> (console_error, console_row \<times> console_row list) res" where
  "upsert_preset = upsert_row preset_domain"

definition list_presets ::
  "console_env \<Rightarrow> user_context \<Rightarrow> string option \<Rightarrow> int \<Rightarrow> console_row list \<Rightarrow> (console_error, console_row list \<times> string option) res" where
  "list_presets = list_rows"

definition get_preset :: "console_env \<Rightarrow> user_context \<Rightarrow> string \<Rightarrow> console_row list \<Rightarrow> (console_error, console_row option) res" where
  "get_preset = get_row"

definition delete_preset :: "console_env \<Rightarrow> user_context \<Rightarrow> string \<Rightarrow> console_row list \<Rightarrow> (console_error, bool \<times> console_row list) res" where
  "delete_preset = delete_row"

definition mock_upsert_preset :: "int \<Rightarrow> user_context \<Rightarrow> string \<Rightarrow> metadata \<Rightarrow> console_row list \<Rightarrow> console_row \<times> console_row list" where
  "mock_upsert_preset = mock_upsert_row preset_domain"

definition mock_list_presets ::
  "user_context \<Rightarrow> string option \<Rightarrow> int \<Rightarrow> console_row list \<Rightarrow> (console_error, console_row list \<times> string option) res" where
  "mock_list_presets = mock_list_rows"

definition mock_get_preset :: "user_context \<Rightarrow> string \<Rightarrow> console_row list \<Rightarrow> console_row option" where
  "mock_get_preset = mock_find_row"

definition mock_delete_preset :: "int \<Rightarrow> user_context \<Rightarrow> string \<Rightarrow> console_row list \<Rightarrow> bool \<times> console_row list" where
  "mock_delete_preset = mock_delete_row"

definition preset_body :: "metadata \<Rightarrow> metadata" where
  "preset_body body =
     [(''title'', body_value body ''title'' PNone),
      (''data'', body_value body ''data'' (PDict [])),
      (''metadata'', body_value body ''metadata'' (PDict []))]"

definition upsert_preset_route :: "console_env \<Rightarrow> user_context \<Rightarrow> string \<Rightarrow> metadata \<Rightarrow> console_row list \<Rightarrow> console_row reply \<times> console_row list" where
  "upsert_preset_route env user k body rows = upsert_reply (upsert_preset env user k (preset_body body) rows) rows"

definition list_presets_route ::
  "console_env \<Rightarrow> user_context \<Rightarrow> string option \<Rightarrow> int \<Rightarrow> console_row list \<Rightarrow> (console_row list \<times> string option) reply" where
  "list_presets_route env user cursor n rows = page_reply (list_presets env user cursor n rows)"

definition get_preset_route :: "console_env \<Rightarrow> user_context \<Rightarrow> string \<Rightarrow> console_row list \<Rightarrow> console_row reply" where
  "get_preset_route env user k rows = found_reply (get_preset env user k rows)"

definition delete_preset_route :: "console_env \<Rightarrow> user_context \<Rightarrow> string \<Rightarrow> console_row list \<Rightarrow> unit reply \<times> console_row list" where
  "delete_preset_route env user k rows = delete_reply (delete_preset env user k rows) rows"

section \<open>Chat projects\<close>

definition chat_project_insert :: "metadata \<Rightarrow> metadata" where
  "chat_project_insert kw =
     [(''name'', field kw ''name''),
      (''description'', or_default (field kw ''description'') (PStr [])),
      (''metadata'', or_default (field kw ''metadata'') (PDict []))]"

definition chat_project_update :: "metadata \<Rightarrow> metadata \<Rightarrow> metadata" where
  "chat_project_update kw cols =
     assign_given ''metadata'' kw (assign_given ''description'' kw (assign ''name'' kw cols))"

definition chat_project_domain :: console_domain where
  "chat_project_domain = \<lparr>cd_insert = chat_project_insert, cd_update = chat_project_update\<rparr>"

definition upsert_chat_project ::
  "console_env \<Rightarrow> user_context \<Rightarrow> string \<Rightarrow> metadata \<Rightarrow> console_row list \<Rightarrow> (console_error, console_row \<times> console_row list) res" where
  "upsert_chat_project = upsert_row chat_project_domain"

definition list_chat_projects ::
  "console_env \<Rightarrow> user_context \<Rightarrow> string option \<Rightarrow> int \<Rightarrow> console_row list \<Rightarrow> (console_error, console_row list \<times> string option) res" where
  "list_chat_projects = list_rows"

definition get_chat_project :: "console_env \<Rightarrow> user_context \<Rightarrow> string \<Rightarrow> console_row list \<Rightarrow> (console_error, console_row option) res" where
  "get_chat_project = get_row"

definition delete_chat_project :: "console_env \<Rightarrow> user_context \<Rightarrow> string \<Rightarrow> console_row list \<Rightarrow> (console_error, bool \<times> console_row list) res" where
  "delete_chat_project = delete_row"

definition mock_upsert_chat_project :: "int \<Rightarrow> user_context \<Rightarrow> string \<Rightarrow> metadata \<Rightarrow> console_row list \<Rightarrow> console_row \<times> console_row list" where
  "mock_upsert_chat_project = mock_upsert_row chat_project_domain"

definition mock_list_chat_projects ::
  "user_context \<Rightarrow> string option \<Rightarrow> int \<Rightarrow> console_row list \<Rightarrow> (console_error, console_row list \<times> string option) res" where
  "mock_list_chat_projects = mock_list_rows"

definition mock_get_chat_project :: "user_context \<Rightarrow> string \<Rightarrow> console_row list \<Rightarrow> console_row option" where
  "mock_get_chat_project = mock_find_row"

definition mock_delete_chat_project :: "int \<Rightarrow> user_context \<Rightarrow> string \<Rightarrow> console_row list \<Rightarrow> bool \<times> console_row list" where
  "mock_delete_chat_project = mock_delete_row"

definition chat_project_body :: "metadata \<Rightarrow> metadata" where
  "chat_project_body body =
     [(''name'', body_value body ''name'' PNone),
      (''description'', body_value body ''description'' PNone),
      (''metadata'', body_value body ''metadata'' (PDict []))]"

definition upsert_chat_project_route :: "console_env \<Rightarrow> user_context \<Rightarrow> string \<Rightarrow> metadata \<Rightarrow> console_row list \<Rightarrow> console_row reply \<times> console_row list" where
  "upsert_chat_project_route env user k body rows = upsert_reply (upsert_chat_project env user k (chat_project_body body) rows) rows"

definition list_chat_projects_route ::
  "console_env \<Rightarrow> user_context \<Rightarrow> string option \<Rightarrow> int \<Rightarrow> console_row list \<Rightarrow> (console_row list \<times> string option) reply" where
  "list_chat_projects_route env user cursor n rows = page_reply (list_chat_projects env user cursor n rows)"

definition get_chat_project_route :: "console_env \<Rightarrow> user_context \<Rightarrow> string \<Rightarrow> console_row list \<Rightarrow> console_row reply" where
  "get_chat_project_route env user k rows = found_reply (get_chat_project env user k rows)"

definition delete_chat_project_route :: "console_env \<Rightarrow> user_context \<Rightarrow> string \<Rightarrow> console_row list \<Rightarrow> unit reply \<times> console_row list" where
  "delete_chat_project_route env user k rows = delete_reply (delete_chat_project env user k rows) rows"

section \<open>Conversation tags\<close>

definition conversation_tag_insert :: "metadata \<Rightarrow> metadata" where
  "conversation_tag_insert kw =
     [(''description'', or_default (field kw ''description'') (PStr [])),
      (''count'', field kw ''count''),
      (''position'', field kw ''position''),
      (''metadata'', or_default (field kw ''metadata'') (PDict []))]"

definition conversation_tag_update :: "metadata \<Rightarrow> metadata \<Rightarrow> metadata" where
  "conversation_tag_update kw cols =
     assign_given ''metadata'' kw (assign ''position'' kw (assign ''count'' kw (assign_given ''description'' kw cols)))"

definition conversation_tag_domain :: console_domain where
  "conversation_tag_domain = \<lparr>cd_insert = conversation_tag_insert, cd_update = conversation_tag_update\<rparr>"

definition upsert_conversation_tag ::
  "console_env \<Rightarrow> user_context \<Rightarrow> string \<Rightarrow> metadata \<Rightarrow> console_row list \<Rightarrow> (console_error, console_row \<times> console_row list) res" where
  "upsert_conversation_tag = upsert_row conversation_tag_domain"

definition list_conversation_tags ::
  "console_env \<Rightarrow> user_context \<Rightarrow> string option \<Rightarrow> int \<Rightarrow> console_row list \<Rightarrow> (console_error, console_row list \<times> string option) res" where
  "list_conversation_tags = list_rows"

definition get_conversation_tag :: "console_env \<Rightarrow> user_context \<Rightarrow> string \<Rightarrow> console_row list \<Rightarrow> (console_error, console_row option) res" where
  "get_conversation_tag = get_row"

definition delete_conversation_tag :: "console_env \<Rightarrow> user_context \<Rightarrow> string \<Rightarrow> console_row list \<Rightarrow> (console_error, bool \<times> console_row list) res" where
  "delete_conversation_tag = delete_row"

definition mock_upsert_conversation_tag :: "int \<Rightarrow> user_context \<Rightarrow> string \<Rightarrow> metadata \<Rightarrow> console_row list \<Rightarrow> console_row \<times> console_row list" where
  "mock_upsert_conversation_tag = mock_upsert_row conversation_tag_domain"

definition mock_list_conversation_tags ::
  "user_context \<Rightarrow> string option \<Rightarrow> int \<Rightarrow> console_row list \<Rightarrow> (console_error, console_row list \<times> string option) res" where
  "mock_list_conversation_tags = mock_list_rows"

definition mock_get_conversation_tag :: "user_context \<Rightarrow> string \<Rightarrow> console_row list \<Rightarrow> console_row option" where
  "mock_get_conversation_tag = mock_find_row"

definition mock_delete_conversation_tag :: "int \<Rightarrow> user_context \<Rightarrow> string \<Rightarrow> console_row list \<Rightarrow> bool \<times> console_row list" where
  "mock_delete_conversation_tag = mock_delete_row"

definition conversation_tag_body :: "metadata \<Rightarrow> metadata" where
  "conversation_tag_body body =
     [(''description'', body_value body ''description'' PNone),
      (''count'', body_value body ''count'' (PInt 0)),
      (''position'', body_value body ''position'' (PInt 0)),
      (''metadata'', body_value body ''metadata'' (PDict []))]"

definition upsert_conversation_tag_route :: "console_env \<Rightarrow> user_context \<Rightarrow> string \<Rightarrow> metadata \<Rightarrow> console_row list \<Rightarrow> console_row reply \<times> console_row list" where
  "upsert_conversation_tag_route env user k body rows = upsert_reply (upsert_conversation_tag env user k (conversation_tag_body body) rows) rows"

definition list_conversation_tags_route ::
  "console_env \<Rightarrow> user_context \<Rightarrow> string option \<Rightarrow> int \<Rightarrow> console_row list \<Rightarrow> (console_row list \<times> string option) reply" where
  "list_conversation_tags_route env user cursor n rows = page_reply (list_conversation_tags env user cursor n rows)"

definition get_conversation_tag_route :: "console_env \<Rightarrow> user_context \<Rightarrow> string \<Rightarrow> console_row list \<Rightarrow> console_row reply" where
  "get_conversation_tag_route env user k rows = found_reply (get_conversation_tag env user k rows)"

definition delete_conversation_tag_route :: "console_env \<Rightarrow> user_context \<Rightarrow> string \<Rightarrow> console_row list \<Rightarrow> unit reply \<times> console_row list" where
  "delete_conversation_tag_route env user k rows = delete_reply (delete_conversation_tag env user k rows) rows"

section \<open>File records\<close>

definition console_file_insert :: "metadata \<Rightarrow> metadata" where
  "console_file_insert kw =
     [(''filename'', field kw ''filename''),
      (''type'', field kw ''type''),
      (''bytes'', field kw ''bytes''),
      (''object_key'', field kw ''object_key''),
      (''width'', field kw ''width''),
      (''height'', field kw ''height''),
      (''context'', field kw ''context''),
      (''usage'', or_default (field kw ''usage'') (PDict [])),
      (''embedded'', field kw ''embedded''),
      (''temp_file_id'', field kw ''temp_file_id''),
      (''metadata'', or_default (field kw ''metadata'') (PDict []))]"

definition console_file_update :: "metadata \<Rightarrow> metadata \<Rightarrow> metadata" where
  "console_file_update kw cols =
     assign_given ''metadata'' kw (assign_given ''temp_file_id'' kw (assign ''embedded'' kw (assign_given ''usage'' kw (assign_given ''context'' kw (assign_given ''height'' kw (assign_given ''width'' kw (assign_given ''object_key'' kw (assign ''bytes'' kw (assign ''type'' kw (assign ''filename'' kw cols))))))))))"

definition console_file_domain :: console_domain where
  "console_file_domain = \<lparr>cd_insert = console_file_insert, cd_update = console_file_update\<rparr>"

definition upsert_console_file ::
  "console_env \<Rightarrow> user_context \<Rightarrow> string \<Rightarrow> metadata \<Rightarrow> console_row list \<Rightarrow> (console_error, console_row \<times> console_row list) res" where
  "upsert_console_file = upsert_row console_file_domain"

definition list_console_files ::
  "console_env \<Rightarrow> user_context \<Rightarrow> string option \<Rightarrow> int \<Rightarrow> console_row list \<Rightarrow> (console_error, console_row list \<times> string option) res" where
  "list_console_files = list_rows"

definition get_console_file :: "console_env \<Rightarrow> user_context \<Rightarrow> string \<Rightarrow> console_row list \<Rightarrow> (console_error, console_row option) res" where
  "get_console_file = get_row"

definition delete_console_file :: "console_env \<Rightarrow> user_context \<Rightarrow> string \<Rightarrow> console_row list \<Rightarrow> (console_error, bool \<times> console_row list) res" where
  "delete_console_file = delete_row"

definition batch_get_console_files :: "console_env \<Rightarrow> user_context \<Rightarrow> string list \<Rightarrow> console_row list \<Rightarrow> (console_error, console_row list) res" where
  "batch_get_console_files = batch_get_rows"

definition mock_upsert_console_file :: "int \<Rightarrow> user_context \<Rightarrow> string \<Rightarrow> metadata \<Rightarrow> console_row list \<Rightarrow> console_row \<times> console_row list" where
  "mock_upsert_console_file = mock_upsert_row console_file_domain"

definition mock_list_console_files ::
  "user_context \<Rightarrow> string option \<Rightarrow> int \<Rightarrow> console_row list \<Rightarrow> (console_error, console_row list \<times> string option) res" where
  "mock_list_console_files = mock_list_rows"

definition mock_get_console_file :: "user_context \<Rightarrow> string \<Rightarrow> console_row list \<Rightarrow> console_row option" where
  "mock_get_console_file = mock_find_row"

definition mock_delete_console_file :: "int \<Rightarrow> user_context \<Rightarrow> string \<Rightarrow> console_row list \<Rightarrow> bool \<times> console_row list" where
  "mock_delete_console_file = mock_delete_row"

definition mock_batch_get_console_files :: "user_context \<Rightarrow> string list \<Rightarrow> console_row list \<Rightarrow> console_row list" where
  "mock_batch_get_console_files = mock_batch_get_rows"

definition console_file_body :: "metadata \<Rightarrow> metadata" where
  "console_file_body body =
     [(''filename'', body_value body ''filename'' PNone),
      (''type'', body_value body ''type'' PNone),
      (''bytes'', body_value body ''bytes'' (PInt 0)),
      (''object_key'', body_value body ''object_key'' PNone),
      (''width'', body_value body ''width'' PNone),
      (''height'', body_value body ''height'' PNone),
      (''context'', body_value body ''context'' PNone),
      (''usage'', body_value body ''usage'' (PDict [])),
      (''embedded'', body_value body ''embedded'' (PBool False)),
      (''temp_file_id'', body_value body ''temp_file_id'' PNone),
      (''metadata'', body_value body ''metadata'' (PDict []))]"

definition upsert_console_file_route :: "console_env \<Rightarrow> user_context \<Rightarrow> string \<Rightarrow> metadata \<Rightarrow> console_row list \<Rightarrow> console_row reply \<times> console_row list" where
  "upsert_console_file_route env user k body rows = upsert_reply (upsert_console_file env user k (console_file_body body) rows) rows"

definition list_console_files_route ::
  "console_env \<Rightarrow> user_context \<Rightarrow> string option \<Rightarrow> int \<Rightarrow> console_row list \<Rightarrow> (console_row list \<times> string option) reply" where
  "list_console_files_route env user cursor n rows = page_reply (list_console_files env user cursor n rows)"

definition get_console_file_route :: "console_env \<Rightarrow> user_context \<Rightarrow> string \<Rightarrow> console_row list \<Rightarrow> console_row reply" where
  "get_console_file_route env user k rows = found_reply (get_console_file env user k rows)"

definition delete_console_file_route :: "console_env \<Rightarrow> user_context \<Rightarrow> string \<Rightarrow> console_row list \<Rightarrow> unit reply \<times> console_row list" where
  "delete_console_file_route env user k rows = delete_reply (delete_console_file env user k rows) rows"

definition batch_get_console_files_route :: "console_env \<Rightarrow> user_context \<Rightarrow> string list \<Rightarrow> console_row list \<Rightarrow> console_row list reply" where
  "batch_get_console_files_route env user ks rows = batch_reply (batch_get_console_files env user ks rows)"

section \<open>Agents\<close>

definition agent_insert :: "metadata \<Rightarrow> metadata" where
  "agent_insert kw =
     [(''name'', field kw ''name''),
      (''description'', or_default (field kw ''description'') (PStr [])),
      (''instructions'', field kw ''instructions''),
      (''provider'', field kw ''provider''),
      (''model'', field kw ''model''),
      (''model_parameters'', or_default (field kw ''model_parameters'') (PDict [])),
      (''tools'', or_default (field kw ''tools'') (PList [])),
      (''artifacts'', or_default (field kw ''artifacts'') (PDict [])),
      (''end_after_tools'', field kw ''end_after_tools''),
      (''project_ids'', or_default (field kw ''project_ids'') (PList [])),
      (''metadata'', or_default (field kw ''metadata'') (PDict []))]"

definition agent_update :: "metadata \<Rightarrow> metadata \<Rightarrow> metadata" where
  "agent_update kw cols =
     assign_given ''metadata'' kw (assign_given ''project_ids'' kw (assign ''end_after_tools'' kw (assign_given ''artifacts'' kw (assign_given ''tools'' kw (assign_given ''model_parameters'' kw (assign_given ''model'' kw (assign_given ''provider'' kw (assign_given ''instructions'' kw (assign_given ''description'' kw (assign ''name'' kw cols))))))))))"

definition agent_domain :: console_domain where
  "agent_domain = \<lparr>cd_insert = agent_insert, cd_update = agent_update\<rparr>"

definition upsert_agent ::
  "console_env \<Rightarrow> user_context \<Rightarrow> string \<Rightarrow> metadata \<Rightarrow> console_row list \<Rightarrow> (console_error, console_row \<times> console_row list) res" where
  "upsert_agent = upsert_row agent_domain"

definition list_agents ::
  "console_env \<Rightarrow> user_context \<Rightarrow> string option \<Rightarrow> int \<Rightarrow> console_row list \<Rightarrow> (console_error, console_row list \<times> string option) res" where
  "list_agents = list_rows"

definition get_agent :: "console_env \<Rightarrow> user_context \<Rightarrow> string \<Rightarrow> console_row list \<Rightarrow> (console_error, console_row option) res" where
  "get_agent = get_row"

definition delete_agent :: "console_env \<Rightarrow> user_context \<Rightarrow> string \<Rightarrow> console_row list \<Rightarrow> (console_error, bool \<times> console_row list) res" where
  "delete_agent = delete_row"

definition batch_get_agents :: "console_env \<Rightarrow> user_context \<Rightarrow> string list \<Rightarrow> console_row list \<Rightarrow> (console_error, console_row list) res" where
  "batch_get_agents = batch_get_rows"

definition mock_upsert_agent :: "int \<Rightarrow> user_context \<Rightarrow> string \<Rightarrow> metadata \<Rightarrow> console_row list \<Rightarrow> console_row \<times> console_row list" where
  "mock_upsert_agent = mock_upsert_row agent_domain"

definition mock_list_agents ::
  "user_context \<Rightarrow> string option \<Rightarrow> int \<Rightarrow> console_row list \<Rightarrow> (console_error, console_row list \<times> string option) res" where
  "mock_list_agents = mock_list_rows"

definition mock_get_agent :: "user_context \<Rightarrow> string \<Rightarrow> console_row list \<Rightarrow> console_row option" where
  "mock_get_agent = mock_find_row"

definition mock_delete_agent :: "int \<Rightarrow> user_context \<Rightarrow> string \<Rightarrow> console_row list \<Rightarrow> bool \<times> console_row list" where
  "mock_delete_agent = mock_delete_row"

definition mock_batch_get_agents :: "user_context \<Rightarrow> string list \<Rightarrow> console_row list \<Rightarrow> console_row list" where
  "mock_batch_get_agents = mock_batch_get_rows"

definition agent_body :: "metadata \<Rightarrow> metadata" where
  "agent_body body =
     [(''name'', body_value body ''name'' PNone),
      (''description'', body_value body ''description'' PNone),
      (''instructions'', body_value body ''instructions'' PNone),
      (''provider'', body_value body ''provider'' PNone),
      (''model'', body_value body ''model'' PNone),
      (''model_parameters'', body_value body ''model_parameters'' (PDict [])),
      (''tools'', body_value body ''tools'' (PList [])),
      (''artifacts'', body_value body ''artifacts'' (PDict [])),
      (''end_after_tools'', body_value body ''end_after_tools'' (PBool False)),
      (''project_ids'', body_value body ''project_ids'' (PList [])),
      (''metadata'', body_value body ''metadata'' (PDict []))]"

definition upsert_agent_route :: "console_env \<Rightarrow> user_context \<Rightarrow> string \<Rightarrow> metadata \<Rightarrow> console_row list \<Rightarrow> console_row reply \<times> console_row list" where
  "upsert_agent_route env user k body rows = upsert_reply (upsert_agent env user k (agent_body body) rows) rows"

definition list_agents_route ::
  "console_env \<Rightarrow> user_context \<Rightarrow> string option \<Rightarrow> int \<Rightarrow> console_row list \<Rightarrow> (console_row list \<times> string option) reply" where
  "list_agents_route env user cursor n rows = page_reply (list_agents env user cursor n rows)"

definition get_agent_route :: "console_env \<Rightarrow> user_context \<Rightarrow> string \<Rightarrow> console_row list \<Rightarrow> console_row reply" where
  "get_agent_route env user k rows = found_reply (get_agent env user k rows)"

definition delete_agent_route :: "console_env \<Rightarrow> user_context \<Rightarrow> string \<Rightarrow> console_row list \<Rightarrow> unit reply \<times> console_row list" where
  "delete_agent_route env user k rows = delete_reply (delete_agent env user k rows) rows"

definition batch_get_agents_route :: "console_env \<Rightarrow> user_context \<Rightarrow> string list \<Rightarrow> console_row list \<Rightarrow> console_row list reply" where
  "batch_get_agents_route env user ks rows = batch_reply (batch_get_agents env user ks rows)"

text \<open>
  Over HTTP an upsert of an existing row replaces its metadata whether or not the body has any: the body's
  default is an empty dictionary, which the service stores like one the caller gave.
\<close>

lemma upsert_route_clears_metadata:
  assumes "upsert_preset_route env user k body rows = (Answered r, rows')" and "map_of body ''metadata'' = None"
  shows "field (cr_cols r) ''metadata'' = PDict []"
proof -
  have up: "upsert_row preset_domain env user k (preset_body body) rows = Inr (r, rows')"
    using assms(1) by (auto simp: upsert_preset_route_def upsert_reply_def upsert_preset_def split: sum.splits)
  have m: "field (preset_body body) ''metadata'' = PDict []"
    using assms(2) by (simp add: preset_body_def field_def body_value_def)
  from up show ?thesis
  proof (cases rule: upsert_row_cases)
    case fresh
    then show ?thesis using m by (simp add: new_row_def preset_domain_def preset_insert_def or_default_def field_def truthy_def)
  next
    case (present x)
    then show ?thesis using m
      by (simp add: changed_row_def preset_domain_def preset_update_def assign_given_def assign_def update_conv' field_def)
  qed
qed

end
