(* ===== verification/ConsoleConversations.thy ===== *)
theory ConsoleConversations
  imports ConsoleDomains
begin

text \<open>
  Conversations and their messages (\<open>src/audittrace/services/console_conversations.py\<close>,
  \<open>routes/console_conversations.py\<close>): a table of the shared shape, and a table of messages, one row per
  user and message id, without soft delete and without a link to the conversation that the database
  would check.
\<close>

section \<open>State\<close>

record console_message =
  cm_message_id :: string
  cm_conversation_id :: string
  cm_user_sub :: string
  cm_cols :: metadata
  cm_created_at_ms :: int

record conversation_state =
  cs_rows :: "console_row list"
  cs_messages :: "console_message list"

record conversation_env =
  cv_console :: console_env
  cv_refuses :: "console_message \<Rightarrow> bool"

section \<open>Columns\<close>

definition conversation_insert :: "metadata \<Rightarrow> metadata" where
  "conversation_insert kw =
     [(''title'', or_default (field kw ''title'') (PStr ''New Chat'')),
      (''endpoint'', field kw ''endpoint''),
      (''model'', field kw ''model''),
      (''is_temporary'', field kw ''is_temporary''),
      (''agent_id'', field kw ''agent_id''),
      (''chat_project_id'', field kw ''chat_project_id''),
      (''metadata'', or_default (field kw ''metadata'') (PDict []))]"

definition conversation_update :: "metadata \<Rightarrow> metadata \<Rightarrow> metadata" where
  "conversation_update kw cols =
     assign_given ''metadata'' kw (assign_given ''chat_project_id'' kw (assign_given ''agent_id'' kw
       (assign ''is_temporary'' kw (assign_given ''model'' kw (assign_given ''endpoint'' kw
         (assign_given ''title'' kw cols))))))"

definition conversation_domain :: console_domain where
  "conversation_domain = \<lparr>cd_insert = conversation_insert, cd_update = conversation_update\<rparr>"

definition message_insert :: "metadata \<Rightarrow> metadata" where
  "message_insert kw =
     [(''parent_message_id'', field kw ''parent_message_id''),
      (''sender'', field kw ''sender''),
      (''text'', field kw ''text''),
      (''is_created_by_user'', field kw ''is_created_by_user''),
      (''model'', field kw ''model''),
      (''endpoint'', field kw ''endpoint''),
      (''token_count'', field kw ''token_count''),
      (''error'', field kw ''error''),
      (''metadata'', or_default (field kw ''metadata'') (PDict []))]"

definition message_update :: "metadata \<Rightarrow> metadata \<Rightarrow> metadata" where
  "message_update kw cols =
     assign_given ''metadata'' kw (assign_given ''error'' kw (assign_given ''token_count'' kw
       (assign_given ''endpoint'' kw (assign_given ''model'' kw (assign_given ''parent_message_id'' kw
         (assign ''is_created_by_user'' kw (assign ''sender'' kw (assign ''text'' kw cols))))))))"

definition message_edit :: "metadata \<Rightarrow> metadata \<Rightarrow> metadata" where
  "message_edit kw cols = assign_given ''metadata'' kw (assign_given ''text'' kw cols)"

section \<open>Conversations\<close>

definition with_conversations :: "(console_error, 'a \<times> console_row list) res \<Rightarrow> conversation_state \<Rightarrow> (console_error, 'a \<times> conversation_state) res" where
  "with_conversations r st = (case r of Inl e \<Rightarrow> Inl e | Inr (x, rows) \<Rightarrow> Inr (x, st\<lparr>cs_rows := rows\<rparr>))"

definition upsert_conversation ::
  "conversation_env \<Rightarrow> user_context \<Rightarrow> string \<Rightarrow> metadata \<Rightarrow> conversation_state
    \<Rightarrow> (console_error, console_row \<times> conversation_state) res" where
  "upsert_conversation env user k kw st =
     with_conversations (upsert_row conversation_domain (cv_console env) user k kw (cs_rows st)) st"

definition list_conversations ::
  "conversation_env \<Rightarrow> user_context \<Rightarrow> string option \<Rightarrow> int \<Rightarrow> conversation_state
    \<Rightarrow> (console_error, console_row list \<times> string option) res" where
  "list_conversations env user cursor n st = list_rows (cv_console env) user cursor n (cs_rows st)"

definition get_conversation ::
  "conversation_env \<Rightarrow> user_context \<Rightarrow> string \<Rightarrow> conversation_state \<Rightarrow> (console_error, console_row option) res" where
  "get_conversation env user k st = get_row (cv_console env) user k (cs_rows st)"

definition update_conversation_title ::
  "conversation_env \<Rightarrow> user_context \<Rightarrow> string \<Rightarrow> string \<Rightarrow> conversation_state
    \<Rightarrow> (console_error, console_row option \<times> conversation_state) res" where
  "update_conversation_title env user k title st =
     (let ce = cv_console env in
      res_bind (find_row ce True user k (cs_rows st)) (\<lambda>found.
        case found of
          None \<Rightarrow> Inr (None, st)
        | Some x \<Rightarrow>
            let r = x\<lparr>cr_cols := AList.update ''title'' (PStr title) (cr_cols x), cr_updated_at_ms := ce_now_ms ce\<rparr>
            in with_conversations (res_bind (commit_console ce r (put_console r (cs_rows st))) (\<lambda>rows. Inr (Some r, rows))) st))"

text \<open>The rows of the message table a statement of the user reaches.\<close>

definition my_message :: "console_env \<Rightarrow> user_context \<Rightarrow> console_message \<Rightarrow> bool" where
  "my_message ce user m \<longleftrightarrow> sql_holds (console_policy ce (cm_user_sub m)) \<and> cm_user_sub m = uc_user_id user"

text \<open>The conversation is deleted softly, its messages for good, in one transaction.\<close>

definition delete_conversation ::
  "conversation_env \<Rightarrow> user_context \<Rightarrow> string \<Rightarrow> conversation_state \<Rightarrow> (console_error, bool \<times> conversation_state) res" where
  "delete_conversation env user k st =
     (let ce = cv_console env in
      res_bind (delete_row ce user k (cs_rows st)) (\<lambda>(b, rows).
        if b then Inr (True, st\<lparr>cs_rows := rows,
          cs_messages := filter (\<lambda>m. \<not> (my_message ce user m \<and> cm_conversation_id m = k)) (cs_messages st)\<rparr>)
        else Inr (False, st)))"

section \<open>Messages\<close>

definition texts_ok :: "console_env \<Rightarrow> string list \<Rightarrow> bool" where
  "texts_ok ce ss \<longleftrightarrow> list_all (\<lambda>s. \<not> text_error ce s) ss"

definition get_messages ::
  "conversation_env \<Rightarrow> user_context \<Rightarrow> string \<Rightarrow> conversation_state \<Rightarrow> (console_error, console_message list) res" where
  "get_messages env user k st =
     (let ce = cv_console env in
      if \<not> texts_ok ce [uc_user_id user, k] then Inl RowDatabaseError
      else Inr (sort_key cm_created_at_ms (filter (\<lambda>m. my_message ce user m \<and> cm_conversation_id m = k) (cs_messages st))))"

definition message_ident :: "console_message \<Rightarrow> string \<times> string" where
  "message_ident m = (cm_user_sub m, cm_message_id m)"

definition put_message :: "console_message \<Rightarrow> console_message list \<Rightarrow> console_message list" where
  "put_message m ms = map_if (\<lambda>x. message_ident x = message_ident m) (\<lambda>_. m) ms"

definition commit_message :: "conversation_env \<Rightarrow> console_message \<Rightarrow> 'a \<Rightarrow> (console_error, 'a) res" where
  "commit_message env m x =
     (if cv_refuses env m \<or> \<not> sql_holds (console_policy (cv_console env) (cm_user_sub m)) then Inl RowDatabaseError else Inr x)"

text \<open>
  The parent conversation is bumped when the user has a row of its id, deleted or not; a message that
  exists is found by its id alone and stays in the conversation it was made in.
\<close>

definition bump_conversation ::
  "console_env \<Rightarrow> user_context \<Rightarrow> string \<Rightarrow> console_row list \<Rightarrow> (console_error, console_row list) res" where
  "bump_conversation ce user k rows =
     res_bind (find_row ce False user k rows) (\<lambda>convo.
       case convo of
         None \<Rightarrow> Inr rows
       | Some x \<Rightarrow> let r = x\<lparr>cr_updated_at_ms := ce_now_ms ce\<rparr> in commit_console ce r (put_console r rows))"

definition find_message ::
  "console_env \<Rightarrow> user_context \<Rightarrow> (console_message \<Rightarrow> bool) \<Rightarrow> conversation_state \<Rightarrow> (console_error, console_message option) res" where
  "find_message ce user p st = one_or_none (filter (\<lambda>m. my_message ce user m \<and> p m) (cs_messages st))"

definition upsert_message ::
  "conversation_env \<Rightarrow> user_context \<Rightarrow> string \<Rightarrow> string \<Rightarrow> metadata \<Rightarrow> conversation_state
    \<Rightarrow> (console_error, console_message \<times> conversation_state) res" where
  "upsert_message env user k mid kw st =
     (let ce = cv_console env in
      as_runtime
        (if \<not> texts_ok ce [uc_user_id user, k, mid] then Inl RowDatabaseError else
         res_bind (find_message ce user (\<lambda>m. cm_message_id m = mid) st) (\<lambda>existing.
           let m = (case existing of
                      None \<Rightarrow> \<lparr>cm_message_id = mid, cm_conversation_id = k, cm_user_sub = uc_user_id user,
                              cm_cols = message_insert kw, cm_created_at_ms = ce_now_ms ce\<rparr>
                    | Some x \<Rightarrow> x\<lparr>cm_cols := message_update kw (cm_cols x)\<rparr>);
               ms = (if existing = None then cs_messages st @ [m] else put_message m (cs_messages st))
           in res_bind (bump_conversation ce user k (cs_rows st)) (\<lambda>rows.
                commit_message env m (m, st\<lparr>cs_rows := rows, cs_messages := ms\<rparr>)))))"

definition edit_message ::
  "conversation_env \<Rightarrow> user_context \<Rightarrow> string \<Rightarrow> string \<Rightarrow> metadata \<Rightarrow> conversation_state
    \<Rightarrow> (console_error, console_message option \<times> conversation_state) res" where
  "edit_message env user k mid kw st =
     (let ce = cv_console env in
      if \<not> texts_ok ce [uc_user_id user, k, mid] then Inl RowDatabaseError else
      res_bind (find_message ce user (\<lambda>m. cm_conversation_id m = k \<and> cm_message_id m = mid) st) (\<lambda>found.
        case found of
          None \<Rightarrow> Inr (None, st)
        | Some x \<Rightarrow> let m = x\<lparr>cm_cols := message_edit kw (cm_cols x)\<rparr>
                    in commit_message env m (Some m, st\<lparr>cs_messages := put_message m (cs_messages st)\<rparr>)))"

definition delete_message ::
  "conversation_env \<Rightarrow> user_context \<Rightarrow> string \<Rightarrow> string \<Rightarrow> conversation_state \<Rightarrow> (console_error, bool \<times> conversation_state) res" where
  "delete_message env user k mid st =
     (let ce = cv_console env in
      if \<not> texts_ok ce [uc_user_id user, k, mid] then Inl RowDatabaseError else
      res_bind (find_message ce user (\<lambda>m. cm_conversation_id m = k \<and> cm_message_id m = mid) st) (\<lambda>found.
        case found of
          None \<Rightarrow> Inr (False, st)
        | Some x \<Rightarrow> Inr (True, st\<lparr>cs_messages := filter (\<lambda>m. message_ident m \<noteq> message_ident x) (cs_messages st)\<rparr>)))"

section \<open>The in-memory twin\<close>

definition mock_upsert_conversation ::
  "int \<Rightarrow> user_context \<Rightarrow> string \<Rightarrow> metadata \<Rightarrow> conversation_state \<Rightarrow> console_row \<times> conversation_state" where
  "mock_upsert_conversation now user k kw st =
     (let (r, rows) = mock_upsert_row conversation_domain now user k kw (cs_rows st) in (r, st\<lparr>cs_rows := rows\<rparr>))"

definition mock_list_conversations ::
  "user_context \<Rightarrow> string option \<Rightarrow> int \<Rightarrow> conversation_state \<Rightarrow> (console_error, console_row list \<times> string option) res" where
  "mock_list_conversations user cursor n st = mock_list_rows user cursor n (cs_rows st)"

definition mock_get_conversation :: "user_context \<Rightarrow> string \<Rightarrow> conversation_state \<Rightarrow> console_row option" where
  "mock_get_conversation user k st = mock_find_row user k (cs_rows st)"

definition mock_update_title ::
  "int \<Rightarrow> user_context \<Rightarrow> string \<Rightarrow> string \<Rightarrow> conversation_state \<Rightarrow> console_row option \<times> conversation_state" where
  "mock_update_title now user k title st =
     (let f = (\<lambda>x. x\<lparr>cr_cols := AList.update ''title'' (PStr title) (cr_cols x), cr_updated_at_ms := now\<rparr>)
      in case mock_find_row user k (cs_rows st) of
           None \<Rightarrow> (None, st)
         | Some x \<Rightarrow> (Some (f x), st\<lparr>cs_rows := update_first (mock_is user k) f (cs_rows st)\<rparr>))"

definition mock_delete_conversation :: "int \<Rightarrow> user_context \<Rightarrow> string \<Rightarrow> conversation_state \<Rightarrow> bool \<times> conversation_state" where
  "mock_delete_conversation now user k st =
     (case mock_delete_row now user k (cs_rows st) of
        (False, _) \<Rightarrow> (False, st)
      | (True, rows) \<Rightarrow> (True, st\<lparr>cs_rows := rows,
          cs_messages := filter (\<lambda>m. \<not> (cm_user_sub m = uc_user_id user \<and> cm_conversation_id m = k)) (cs_messages st)\<rparr>))"

definition mock_get_messages :: "user_context \<Rightarrow> string \<Rightarrow> conversation_state \<Rightarrow> console_message list" where
  "mock_get_messages user k st =
     sort_key cm_created_at_ms (filter (\<lambda>m. cm_user_sub m = uc_user_id user \<and> cm_conversation_id m = k) (cs_messages st))"

definition mock_upsert_message ::
  "int \<Rightarrow> user_context \<Rightarrow> string \<Rightarrow> string \<Rightarrow> metadata \<Rightarrow> conversation_state \<Rightarrow> console_message \<times> conversation_state" where
  "mock_upsert_message now user k mid kw st =
     (let is_it = (\<lambda>m. cm_user_sub m = uc_user_id user \<and> cm_message_id m = mid);
          change = (\<lambda>x. x\<lparr>cm_cols := message_update kw (cm_cols x)\<rparr>);
          (m, ms) = (case find is_it (cs_messages st) of
             None \<Rightarrow> let m = \<lparr>cm_message_id = mid, cm_conversation_id = k, cm_user_sub = uc_user_id user,
                            cm_cols = message_insert kw, cm_created_at_ms = now\<rparr> in (m, cs_messages st @ [m])
           | Some x \<Rightarrow> (change x, update_first is_it change (cs_messages st)))
      in (m, st\<lparr>cs_rows := update_first (mock_is user k) (\<lambda>r. r\<lparr>cr_updated_at_ms := now\<rparr>) (cs_rows st), cs_messages := ms\<rparr>))"

definition mock_message_is :: "user_context \<Rightarrow> string \<Rightarrow> string \<Rightarrow> console_message \<Rightarrow> bool" where
  "mock_message_is user k mid m \<longleftrightarrow> cm_user_sub m = uc_user_id user \<and> cm_conversation_id m = k \<and> cm_message_id m = mid"

definition mock_edit_message ::
  "user_context \<Rightarrow> string \<Rightarrow> string \<Rightarrow> metadata \<Rightarrow> conversation_state \<Rightarrow> console_message option \<times> conversation_state" where
  "mock_edit_message user k mid kw st =
     (let change = (\<lambda>x. x\<lparr>cm_cols := message_edit kw (cm_cols x)\<rparr>)
      in case find (mock_message_is user k mid) (cs_messages st) of
           None \<Rightarrow> (None, st)
         | Some x \<Rightarrow> (Some (change x), st\<lparr>cs_messages := update_first (mock_message_is user k mid) change (cs_messages st)\<rparr>))"

definition mock_delete_message :: "user_context \<Rightarrow> string \<Rightarrow> string \<Rightarrow> conversation_state \<Rightarrow> bool \<times> conversation_state" where
  "mock_delete_message user k mid st =
     (let kept = filter (\<lambda>m. \<not> mock_message_is user k mid m) (cs_messages st)
      in (length kept < length (cs_messages st), st\<lparr>cs_messages := kept\<rparr>))"

section \<open>Routes\<close>

definition conversation_body :: "metadata \<Rightarrow> metadata" where
  "conversation_body body =
     [(''title'', body_value body ''title'' PNone),
      (''endpoint'', body_value body ''endpoint'' PNone),
      (''model'', body_value body ''model'' PNone),
      (''is_temporary'', body_value body ''is_temporary'' (PBool False)),
      (''agent_id'', body_value body ''agent_id'' PNone),
      (''chat_project_id'', body_value body ''chat_project_id'' PNone),
      (''metadata'', body_value body ''metadata'' (PDict []))]"

definition message_body :: "metadata \<Rightarrow> metadata" where
  "message_body body =
     [(''sender'', body_value body ''sender'' PNone),
      (''text'', body_value body ''text'' PNone),
      (''is_created_by_user'', body_value body ''is_created_by_user'' PNone),
      (''parent_message_id'', body_value body ''parent_message_id'' PNone),
      (''model'', body_value body ''model'' PNone),
      (''endpoint'', body_value body ''endpoint'' PNone),
      (''token_count'', body_value body ''token_count'' PNone),
      (''error'', body_value body ''error'' PNone),
      (''metadata'', body_value body ''metadata'' (PDict []))]"

definition edit_body :: "metadata \<Rightarrow> metadata" where
  "edit_body body = [(''text'', body_value body ''text'' PNone), (''metadata'', body_value body ''metadata'' PNone)]"

definition changed_reply :: "(console_error, 'a option \<times> 'b) res \<Rightarrow> 'b \<Rightarrow> 'a reply \<times> 'b" where
  "changed_reply r st =
     (case r of Inl e \<Rightarrow> (Escaped e, st) | Inr (None, st') \<Rightarrow> (Refused 404, st') | Inr (Some x, st') \<Rightarrow> (Answered x, st'))"

definition upsert_conversation_route ::
  "conversation_env \<Rightarrow> user_context \<Rightarrow> string \<Rightarrow> metadata \<Rightarrow> conversation_state \<Rightarrow> console_row reply \<times> conversation_state" where
  "upsert_conversation_route env user k body st = upsert_reply (upsert_conversation env user k (conversation_body body) st) st"

definition list_conversations_route ::
  "conversation_env \<Rightarrow> user_context \<Rightarrow> string option \<Rightarrow> int \<Rightarrow> conversation_state \<Rightarrow> (console_row list \<times> string option) reply" where
  "list_conversations_route env user cursor n st = page_reply (list_conversations env user cursor n st)"

definition get_conversation_route ::
  "conversation_env \<Rightarrow> user_context \<Rightarrow> string \<Rightarrow> conversation_state \<Rightarrow> console_row reply" where
  "get_conversation_route env user k st = found_reply (get_conversation env user k st)"

definition update_title_route ::
  "conversation_env \<Rightarrow> user_context \<Rightarrow> string \<Rightarrow> string \<Rightarrow> conversation_state \<Rightarrow> console_row reply \<times> conversation_state" where
  "update_title_route env user k title st = changed_reply (update_conversation_title env user k title st) st"

definition delete_conversation_route ::
  "conversation_env \<Rightarrow> user_context \<Rightarrow> string \<Rightarrow> conversation_state \<Rightarrow> unit reply \<times> conversation_state" where
  "delete_conversation_route env user k st = delete_reply (delete_conversation env user k st) st"

definition get_messages_route ::
  "conversation_env \<Rightarrow> user_context \<Rightarrow> string \<Rightarrow> conversation_state \<Rightarrow> console_message list reply" where
  "get_messages_route env user k st =
     (case found_reply (get_conversation env user k st) of
        Answered _ \<Rightarrow> batch_reply (get_messages env user k st)
      | Refused n \<Rightarrow> Refused n
      | Escaped e \<Rightarrow> Escaped e)"

definition upsert_message_route ::
  "conversation_env \<Rightarrow> user_context \<Rightarrow> string \<Rightarrow> string \<Rightarrow> metadata \<Rightarrow> conversation_state \<Rightarrow> console_message reply \<times> conversation_state" where
  "upsert_message_route env user k mid body st = upsert_reply (upsert_message env user k mid (message_body body) st) st"

definition edit_message_route ::
  "conversation_env \<Rightarrow> user_context \<Rightarrow> string \<Rightarrow> string \<Rightarrow> metadata \<Rightarrow> conversation_state \<Rightarrow> console_message reply \<times> conversation_state" where
  "edit_message_route env user k mid body st = changed_reply (edit_message env user k mid (edit_body body) st) st"

definition delete_message_route ::
  "conversation_env \<Rightarrow> user_context \<Rightarrow> string \<Rightarrow> string \<Rightarrow> conversation_state \<Rightarrow> unit reply \<times> conversation_state" where
  "delete_message_route env user k mid st = delete_reply (delete_message env user k mid st) st"

end
