(* ===== verification/ConsolePrompts.thy ===== *)
theory ConsolePrompts
  imports ConsoleConversations
begin

text \<open>
  Prompt groups and their versions (\<open>src/audittrace/services/console_prompts.py\<close>,
  \<open>routes/console_prompts.py\<close>): a table of the shared shape for the groups, and a table of versions,
  numbered within their group; a group names the version that is in production.
\<close>

section \<open>State\<close>

record prompt_version =
  pv_prompt_id :: string
  pv_group_id :: string
  pv_user_sub :: string
  pv_text :: string
  pv_type :: string
  pv_version :: int
  pv_created_at_ms :: int
  pv_updated_at_ms :: int
  pv_metadata :: pyval

record prompt_state =
  ps_groups :: "console_row list"
  ps_versions :: "prompt_version list"

record prompt_env =
  pr_console :: console_env
  pr_refuses :: "prompt_version \<Rightarrow> bool"

section \<open>Groups\<close>

definition group_insert :: "metadata \<Rightarrow> metadata" where
  "group_insert kw =
     [(''name'', field kw ''name''),
      (''category'', or_default (field kw ''category'') (PStr [])),
      (''oneliner'', or_default (field kw ''oneliner'') (PStr [])),
      (''command'', field kw ''command''),
      (''production_prompt_id'', PNone),
      (''metadata'', or_default (field kw ''metadata'') (PDict []))]"

definition group_update :: "metadata \<Rightarrow> metadata \<Rightarrow> metadata" where
  "group_update kw cols =
     assign_given ''metadata'' kw (assign_given ''command'' kw (assign_given ''oneliner'' kw
       (assign_given ''category'' kw (assign ''name'' kw cols))))"

definition group_domain :: console_domain where
  "group_domain = \<lparr>cd_insert = group_insert, cd_update = group_update\<rparr>"

definition with_groups :: "(console_error, 'a \<times> console_row list) res \<Rightarrow> prompt_state \<Rightarrow> (console_error, 'a \<times> prompt_state) res" where
  "with_groups r st = (case r of Inl e \<Rightarrow> Inl e | Inr (x, rows) \<Rightarrow> Inr (x, st\<lparr>ps_groups := rows\<rparr>))"

definition upsert_group ::
  "prompt_env \<Rightarrow> user_context \<Rightarrow> string \<Rightarrow> metadata \<Rightarrow> prompt_state \<Rightarrow> (console_error, console_row \<times> prompt_state) res" where
  "upsert_group env user k kw st = with_groups (upsert_row group_domain (pr_console env) user k kw (ps_groups st)) st"

definition list_groups ::
  "prompt_env \<Rightarrow> user_context \<Rightarrow> string option \<Rightarrow> int \<Rightarrow> prompt_state \<Rightarrow> (console_error, console_row list \<times> string option) res" where
  "list_groups env user cursor n st = list_rows (pr_console env) user cursor n (ps_groups st)"

section \<open>Versions\<close>

definition my_version :: "console_env \<Rightarrow> user_context \<Rightarrow> prompt_version \<Rightarrow> bool" where
  "my_version ce user v \<longleftrightarrow> sql_holds (console_policy ce (pv_user_sub v)) \<and> pv_user_sub v = uc_user_id user"

definition group_versions :: "console_env \<Rightarrow> user_context \<Rightarrow> string \<Rightarrow> prompt_version list \<Rightarrow> prompt_version list" where
  "group_versions ce user k vs = filter (\<lambda>v. my_version ce user v \<and> pv_group_id v = k) vs"

definition listed_versions :: "console_env \<Rightarrow> user_context \<Rightarrow> string \<Rightarrow> prompt_version list \<Rightarrow> prompt_version list" where
  "listed_versions ce user k vs = sort_key pv_version (group_versions ce user k vs)"

definition get_group ::
  "prompt_env \<Rightarrow> user_context \<Rightarrow> string \<Rightarrow> prompt_state \<Rightarrow> (console_error, (console_row \<times> prompt_version list) option) res" where
  "get_group env user k st =
     res_bind (find_row (pr_console env) True user k (ps_groups st)) (\<lambda>found.
       Inr (map_option (\<lambda>r. (r, listed_versions (pr_console env) user k (ps_versions st))) found))"

definition version_ident :: "prompt_version \<Rightarrow> string \<times> string" where
  "version_ident v = (pv_user_sub v, pv_prompt_id v)"

definition put_version :: "prompt_version \<Rightarrow> prompt_version list \<Rightarrow> prompt_version list" where
  "put_version v vs = map_if (\<lambda>x. version_ident x = version_ident v) (\<lambda>_. v) vs"

definition touch_group :: "console_env \<Rightarrow> console_row \<Rightarrow> console_row list \<Rightarrow> (console_error, console_row list) res" where
  "touch_group ce g rows = (let g' = g\<lparr>cr_updated_at_ms := ce_now_ms ce\<rparr> in commit_console ce g' (put_console g' rows))"

text \<open>\<open>(max_version or 0) + 1\<close> over the group's versions.\<close>

definition next_version :: "prompt_version list \<Rightarrow> int" where
  "next_version vs = (if vs = [] then 0 else Max (set (map pv_version vs))) + 1"

definition upsert_version ::
  "prompt_env \<Rightarrow> user_context \<Rightarrow> string \<Rightarrow> string \<Rightarrow> string \<Rightarrow> string \<Rightarrow> pyval \<Rightarrow> prompt_state
    \<Rightarrow> (console_error, prompt_version option \<times> prompt_state) res" where
  "upsert_version env user k pid body type metadata st =
     (let ce = pr_console env; vs = ps_versions st in
      as_runtime (res_bind (find_row ce True user k (ps_groups st)) (\<lambda>group.
        case group of
          None \<Rightarrow> Inr (None, st)
        | Some g \<Rightarrow>
            if text_error ce pid then Inl RowDatabaseError else
            res_bind (one_or_none (filter (\<lambda>v. my_version ce user v \<and> pv_prompt_id v = pid) vs)) (\<lambda>existing.
              let v = (case existing of
                         None \<Rightarrow> \<lparr>pv_prompt_id = pid, pv_group_id = k, pv_user_sub = uc_user_id user, pv_text = body,
                                  pv_type = type, pv_version = next_version (group_versions ce user k vs),
                                  pv_created_at_ms = ce_now_ms ce, pv_updated_at_ms = ce_now_ms ce,
                                  pv_metadata = or_default metadata (PDict [])\<rparr>
                       | Some x \<Rightarrow> x\<lparr>pv_text := body, pv_type := type,
                                     pv_metadata := (if metadata = PNone then pv_metadata x else metadata),
                                     pv_updated_at_ms := ce_now_ms ce\<rparr>);
                  vs' = (if existing = None then vs @ [v] else put_version v vs)
              in if pr_refuses env v \<or> \<not> sql_holds (console_policy ce (pv_user_sub v)) then Inl RowDatabaseError
                 else res_bind (touch_group ce g (ps_groups st)) (\<lambda>rows.
                        Inr (Some v, st\<lparr>ps_groups := rows, ps_versions := vs'\<rparr>))))))"

definition set_production ::
  "prompt_env \<Rightarrow> user_context \<Rightarrow> string \<Rightarrow> string \<Rightarrow> prompt_state
    \<Rightarrow> (console_error, (console_row \<times> prompt_version list) option \<times> prompt_state) res" where
  "set_production env user k pid st =
     (let ce = pr_console env; vs = ps_versions st in
      res_bind (find_row ce True user k (ps_groups st)) (\<lambda>group.
        case group of
          None \<Rightarrow> Inr (None, st)
        | Some g \<Rightarrow>
            if text_error ce pid then Inl RowDatabaseError else
            res_bind (one_or_none (filter (\<lambda>v. my_version ce user v \<and> pv_group_id v = k \<and> pv_prompt_id v = pid) vs))
              (\<lambda>version.
                 case version of
                   None \<Rightarrow> Inr (None, st)
                 | Some _ \<Rightarrow>
                     let g' = g\<lparr>cr_cols := AList.update ''production_prompt_id'' (PStr pid) (cr_cols g),
                                cr_updated_at_ms := ce_now_ms ce\<rparr>
                     in res_bind (commit_console ce g' (put_console g' (ps_groups st))) (\<lambda>rows.
                          Inr (Some (g', listed_versions ce user k vs), st\<lparr>ps_groups := rows\<rparr>)))))"

definition delete_group ::
  "prompt_env \<Rightarrow> user_context \<Rightarrow> string \<Rightarrow> prompt_state \<Rightarrow> (console_error, bool \<times> prompt_state) res" where
  "delete_group env user k st =
     (let ce = pr_console env in
      res_bind (delete_row ce user k (ps_groups st)) (\<lambda>(b, rows).
        if b then Inr (True, st\<lparr>ps_groups := rows,
          ps_versions := filter (\<lambda>v. \<not> (my_version ce user v \<and> pv_group_id v = k)) (ps_versions st)\<rparr>)
        else Inr (False, st)))"

section \<open>The in-memory twin\<close>

definition mock_upsert_group :: "int \<Rightarrow> user_context \<Rightarrow> string \<Rightarrow> metadata \<Rightarrow> prompt_state \<Rightarrow> console_row \<times> prompt_state" where
  "mock_upsert_group now user k kw st =
     (let (r, rows) = mock_upsert_row group_domain now user k kw (ps_groups st) in (r, st\<lparr>ps_groups := rows\<rparr>))"

definition mock_list_groups ::
  "user_context \<Rightarrow> string option \<Rightarrow> int \<Rightarrow> prompt_state \<Rightarrow> (console_error, console_row list \<times> string option) res" where
  "mock_list_groups user cursor n st = mock_list_rows user cursor n (ps_groups st)"

definition mock_group_versions :: "user_context \<Rightarrow> string \<Rightarrow> prompt_version list \<Rightarrow> prompt_version list" where
  "mock_group_versions user k vs = filter (\<lambda>v. pv_user_sub v = uc_user_id user \<and> pv_group_id v = k) vs"

definition mock_get_group :: "user_context \<Rightarrow> string \<Rightarrow> prompt_state \<Rightarrow> (console_row \<times> prompt_version list) option" where
  "mock_get_group user k st =
     map_option (\<lambda>r. (r, sort_key pv_version (mock_group_versions user k (ps_versions st)))) (mock_find_row user k (ps_groups st))"

definition mock_version_is :: "user_context \<Rightarrow> string \<Rightarrow> prompt_version \<Rightarrow> bool" where
  "mock_version_is user pid v \<longleftrightarrow> pv_user_sub v = uc_user_id user \<and> pv_prompt_id v = pid"

definition mock_upsert_version ::
  "int \<Rightarrow> user_context \<Rightarrow> string \<Rightarrow> string \<Rightarrow> string \<Rightarrow> string \<Rightarrow> pyval \<Rightarrow> prompt_state \<Rightarrow> prompt_version option \<times> prompt_state" where
  "mock_upsert_version now user k pid body type metadata st =
     (case mock_find_row user k (ps_groups st) of
        None \<Rightarrow> (None, st)
      | Some _ \<Rightarrow>
          let vs = ps_versions st;
              change = (\<lambda>x. x\<lparr>pv_text := body, pv_type := type,
                              pv_metadata := (if metadata = PNone then pv_metadata x else metadata), pv_updated_at_ms := now\<rparr>);
              (v, vs') = (case find (mock_version_is user pid) vs of
                 None \<Rightarrow> let v = \<lparr>pv_prompt_id = pid, pv_group_id = k, pv_user_sub = uc_user_id user, pv_text = body,
                                 pv_type = type, pv_version = next_version (mock_group_versions user k vs),
                                 pv_created_at_ms = now, pv_updated_at_ms = now, pv_metadata = or_default metadata (PDict [])\<rparr>
                         in (v, vs @ [v])
               | Some x \<Rightarrow> (change x, update_first (mock_version_is user pid) change vs))
          in (Some v, st\<lparr>ps_groups := update_first (mock_is user k) (\<lambda>r. r\<lparr>cr_updated_at_ms := now\<rparr>) (ps_groups st),
                         ps_versions := vs'\<rparr>))"

definition mock_set_production ::
  "int \<Rightarrow> user_context \<Rightarrow> string \<Rightarrow> string \<Rightarrow> prompt_state \<Rightarrow> (console_row \<times> prompt_version list) option \<times> prompt_state" where
  "mock_set_production now user k pid st =
     (let f = (\<lambda>g. g\<lparr>cr_cols := AList.update ''production_prompt_id'' (PStr pid) (cr_cols g), cr_updated_at_ms := now\<rparr>)
      in case mock_find_row user k (ps_groups st) of
           None \<Rightarrow> (None, st)
         | Some g \<Rightarrow>
             if list_ex (mock_version_is user pid) (mock_group_versions user k (ps_versions st))
             then (Some (f g, sort_key pv_version (mock_group_versions user k (ps_versions st))),
                   st\<lparr>ps_groups := update_first (mock_is user k) f (ps_groups st)\<rparr>)
             else (None, st))"

definition mock_delete_group :: "int \<Rightarrow> user_context \<Rightarrow> string \<Rightarrow> prompt_state \<Rightarrow> bool \<times> prompt_state" where
  "mock_delete_group now user k st =
     (case mock_delete_row now user k (ps_groups st) of
        (False, _) \<Rightarrow> (False, st)
      | (True, rows) \<Rightarrow> (True, st\<lparr>ps_groups := rows,
          ps_versions := filter (\<lambda>v. \<not> (pv_user_sub v = uc_user_id user \<and> pv_group_id v = k)) (ps_versions st)\<rparr>))"

section \<open>Routes\<close>

definition group_body :: "metadata \<Rightarrow> metadata" where
  "group_body body =
     [(''name'', body_value body ''name'' PNone),
      (''category'', body_value body ''category'' PNone),
      (''oneliner'', body_value body ''oneliner'' PNone),
      (''command'', body_value body ''command'' PNone),
      (''metadata'', body_value body ''metadata'' (PDict []))]"

definition upsert_group_route ::
  "prompt_env \<Rightarrow> user_context \<Rightarrow> string \<Rightarrow> metadata \<Rightarrow> prompt_state \<Rightarrow> console_row reply \<times> prompt_state" where
  "upsert_group_route env user k body st = upsert_reply (upsert_group env user k (group_body body) st) st"

definition list_groups_route ::
  "prompt_env \<Rightarrow> user_context \<Rightarrow> string option \<Rightarrow> int \<Rightarrow> prompt_state \<Rightarrow> (console_row list \<times> string option) reply" where
  "list_groups_route env user cursor n st = page_reply (list_groups env user cursor n st)"

definition get_group_route ::
  "prompt_env \<Rightarrow> user_context \<Rightarrow> string \<Rightarrow> prompt_state \<Rightarrow> (console_row \<times> prompt_version list) reply" where
  "get_group_route env user k st = found_reply (get_group env user k st)"

definition delete_group_route :: "prompt_env \<Rightarrow> user_context \<Rightarrow> string \<Rightarrow> prompt_state \<Rightarrow> unit reply \<times> prompt_state" where
  "delete_group_route env user k st = delete_reply (delete_group env user k st) st"

definition upsert_version_route ::
  "prompt_env \<Rightarrow> user_context \<Rightarrow> string \<Rightarrow> string \<Rightarrow> string \<Rightarrow> string \<Rightarrow> pyval \<Rightarrow> prompt_state \<Rightarrow> prompt_version reply \<times> prompt_state" where
  "upsert_version_route env user k pid body type metadata st = changed_reply (upsert_version env user k pid body type metadata st) st"

definition set_production_route ::
  "prompt_env \<Rightarrow> user_context \<Rightarrow> string \<Rightarrow> string \<Rightarrow> prompt_state \<Rightarrow> (console_row \<times> prompt_version list) reply \<times> prompt_state" where
  "set_production_route env user k pid st = changed_reply (set_production env user k pid st) st"

end
