(* ===== verification/ConsoleTreeProps.thy ===== *)
theory ConsoleTreeProps
  imports ConsolePrompts
begin

text \<open>
  Laws of the two console stores with a second table: the calls of a user change nothing of another's
  conversations, messages, groups and versions (two more interpretations of \<open>confined_store\<close>); the
  versions of a group are numbered from one without gaps, and the version in production is one of them.
\<close>

section \<open>Conversations\<close>

datatype conversation_op =
    UpsertConversation string metadata
  | RenameConversation string string
  | DeleteConversation string
  | UpsertMessage string string metadata
  | EditMessage string string metadata
  | DeleteMessage string string

record conversation_call =
  cl_env :: conversation_env
  cl_user :: user_context
  cl_op :: conversation_op

definition state_after :: "(console_error, 'a \<times> 's) res \<Rightarrow> 's \<Rightarrow> 's" where
  "state_after r st = (case r of Inl _ \<Rightarrow> st | Inr (_, st') \<Rightarrow> st')"

lemma state_after_same: "(\<And>x st'. r = Inr (x, st') \<Longrightarrow> f st' = f st) \<Longrightarrow> f (state_after r st) = f st"
  by (auto simp: state_after_def split: sum.splits)

lemma state_after_inv: "(\<And>x st'. r = Inr (x, st') \<Longrightarrow> p st') \<Longrightarrow> p st \<Longrightarrow> p (state_after r st)"
  by (auto simp: state_after_def split: sum.splits)

definition exec_conversation :: "conversation_call \<Rightarrow> conversation_state \<Rightarrow> conversation_state" where
  "exec_conversation c st =
     (let env = cl_env c; user = cl_user c in
      case cl_op c of
        UpsertConversation k kw \<Rightarrow> state_after (upsert_conversation env user k kw st) st
      | RenameConversation k title \<Rightarrow> state_after (update_conversation_title env user k title st) st
      | DeleteConversation k \<Rightarrow> state_after (delete_conversation env user k st) st
      | UpsertMessage k mid kw \<Rightarrow> state_after (upsert_message env user k mid kw st) st
      | EditMessage k mid kw \<Rightarrow> state_after (edit_message env user k mid kw st) st
      | DeleteMessage k mid \<Rightarrow> state_after (delete_message env user k mid st) st)"

definition own_messages :: "string \<Rightarrow> console_message list \<Rightarrow> console_message list" where
  "own_messages u ms = filter (\<lambda>m. cm_user_sub m = u) ms"

definition own_conversations :: "string \<Rightarrow> conversation_state \<Rightarrow> console_row list \<times> console_message list" where
  "own_conversations u st = (rows_of u (cs_rows st), own_messages u (cs_messages st))"

lemma own_put_message: "cm_user_sub m \<noteq> u \<Longrightarrow> own_messages u (put_message m ms) = own_messages u ms"
  by (induction ms) (auto simp: own_messages_def put_message_def message_ident_def)

lemma own_filter_message: "(\<And>m. cm_user_sub m = u \<Longrightarrow> p m) \<Longrightarrow> own_messages u (filter p ms) = own_messages u ms"
  by (induction ms) (auto simp: own_messages_def)

lemma find_message_Some:
  assumes "find_message ce user p st = Inr (Some m)"
  shows "m \<in> set (cs_messages st)" and "cm_user_sub m = uc_user_id user" and "p m"
    and "sql_holds (console_policy ce (uc_user_id user))"
proof -
  have "m \<in> set (filter (\<lambda>m. my_message ce user m \<and> p m) (cs_messages st))"
    using assms by (simp add: find_message_def scalar_Some)
  then show "m \<in> set (cs_messages st)" and "cm_user_sub m = uc_user_id user" and "p m"
    and "sql_holds (console_policy ce (uc_user_id user))"
    by (auto simp: my_message_def)
qed

lemma bump_confined:
  assumes "bump_conversation ce user k rows = Inr rows'" and "uc_user_id user \<noteq> u"
  shows "rows_of u rows' = rows_of u rows"
  using assms find_row_Some(2)
  by (fastforce simp: bump_conversation_def res_bind_Inr_iff commit_console_Inr Let_def filter_owner_put split: option.splits)

lemma upsert_message_Inr:
  assumes "upsert_message env user k mid kw st = Inr (m, st')"
  obtains (fresh) rows where "find_message (cv_console env) user (\<lambda>m. cm_message_id m = mid) st = Inr None"
      "bump_conversation (cv_console env) user k (cs_rows st) = Inr rows"
      "m = \<lparr>cm_message_id = mid, cm_conversation_id = k, cm_user_sub = uc_user_id user, cm_cols = message_insert kw,
            cm_created_at_ms = ce_now_ms (cv_console env)\<rparr>"
      "st' = st\<lparr>cs_rows := rows, cs_messages := cs_messages st @ [m]\<rparr>" "texts_ok (cv_console env) [uc_user_id user, k, mid]"
      "sql_holds (console_policy (cv_console env) (uc_user_id user))"
  | (present) x rows where "find_message (cv_console env) user (\<lambda>m. cm_message_id m = mid) st = Inr (Some x)"
      "bump_conversation (cv_console env) user k (cs_rows st) = Inr rows" "m = x\<lparr>cm_cols := message_update kw (cm_cols x)\<rparr>"
      "st' = st\<lparr>cs_rows := rows, cs_messages := put_message m (cs_messages st)\<rparr>"
  using assms
  by (auto simp: upsert_message_def Let_def as_runtime_def commit_message_def res_bind_Inr_iff split: sum.splits if_splits option.splits)

lemma with_conversations_Inr: "with_conversations r st = Inr (x, st') \<longleftrightarrow> (\<exists>rows. r = Inr (x, rows) \<and> st' = st\<lparr>cs_rows := rows\<rparr>)"
  by (auto simp: with_conversations_def split: sum.splits prod.splits)

lemma exec_conversation_confined:
  assumes "uc_user_id (cl_user c) \<noteq> u"
  shows "own_conversations u (exec_conversation c st) = own_conversations u st"
proof -
  let ?env = "cl_env c" and ?user = "cl_user c"
  show ?thesis
  proof (cases "cl_op c")
    case (UpsertConversation k kw)
    have "own_conversations u st' = own_conversations u st" if "upsert_conversation ?env ?user k kw st = Inr (x, st')" for x st'
      using that upsert_row_confined [OF _ assms]
      by (fastforce simp: upsert_conversation_def with_conversations_Inr own_conversations_def)
    from state_after_same [where f = "own_conversations u", OF this] show ?thesis
      using UpsertConversation by (simp add: exec_conversation_def Let_def)
  next
    case (RenameConversation k title)
    have "own_conversations u st' = own_conversations u st" if "update_conversation_title ?env ?user k title st = Inr (x, st')" for x st'
      using that find_row_Some(2) [of "cv_console ?env" True ?user k "cs_rows st"] assms
      by (auto simp: update_conversation_title_def Let_def res_bind_Inr_iff commit_console_Inr with_conversations_Inr own_conversations_def
          filter_owner_put split: option.splits)
    from state_after_same [where f = "own_conversations u", OF this] show ?thesis
      using RenameConversation by (simp add: exec_conversation_def Let_def)
  next
    case (DeleteConversation k)
    have "own_conversations u st' = own_conversations u st" if "delete_conversation ?env ?user k st = Inr (x, st')" for x st'
      using that delete_row_confined [OF _ assms] assms
      by (auto simp: delete_conversation_def Let_def res_bind_Inr_iff own_conversations_def my_message_def
          intro!: own_filter_message split: if_splits)
    from state_after_same [where f = "own_conversations u", OF this] show ?thesis
      using DeleteConversation by (simp add: exec_conversation_def Let_def)
  next
    case (UpsertMessage k mid kw)
    have "own_conversations u st' = own_conversations u st" if "upsert_message ?env ?user k mid kw st = Inr (x, st')" for x st'
      using that
    proof (cases rule: upsert_message_Inr)
      case (fresh rows)
      then show ?thesis using assms bump_confined [OF fresh(2) assms] by (simp add: own_conversations_def own_messages_def)
    next
      case (present y rows)
      then show ?thesis using assms bump_confined [OF present(2) assms] find_message_Some(2) [OF present(1)]
        by (simp add: own_conversations_def own_put_message)
    qed
    from state_after_same [where f = "own_conversations u", OF this] show ?thesis
      using UpsertMessage by (simp add: exec_conversation_def Let_def)
  next
    case (EditMessage k mid kw)
    have "own_conversations u st' = own_conversations u st" if "edit_message ?env ?user k mid kw st = Inr (x, st')" for x st'
      using that assms find_message_Some(2) [of "cv_console ?env" ?user]
      by (auto simp: edit_message_def Let_def res_bind_Inr_iff commit_message_def own_conversations_def own_put_message
          split: if_splits option.splits)
    from state_after_same [where f = "own_conversations u", OF this] show ?thesis
      using EditMessage by (simp add: exec_conversation_def Let_def)
  next
    case (DeleteMessage k mid)
    have "own_conversations u st' = own_conversations u st" if "delete_message ?env ?user k mid st = Inr (x, st')" for x st'
      using that assms find_message_Some(2) [of "cv_console ?env" ?user]
      by (auto simp: delete_message_def Let_def res_bind_Inr_iff own_conversations_def message_ident_def
          intro!: own_filter_message split: if_splits option.splits)
    from state_after_same [where f = "own_conversations u", OF this] show ?thesis
      using DeleteMessage by (simp add: exec_conversation_def Let_def)
  qed
qed

interpretation conversations: confined_store exec_conversation "\<lambda>c :: conversation_call. uc_user_id (cl_user c)" own_conversations
  by unfold_locales (rule exec_conversation_confined)

lemma get_messages_own:
  assumes "own_conversations (uc_user_id user) st = own_conversations (uc_user_id user) st'"
  shows "get_messages env user k st = get_messages env user k st'"
proof -
  have "filter (\<lambda>m. my_message ce user m \<and> cm_conversation_id m = k) ms =
      filter (\<lambda>m. my_message ce user m \<and> cm_conversation_id m = k) (own_messages (uc_user_id user) ms)" for ce ms
    by (auto simp: own_messages_def my_message_def intro: filter_cong)
  from this [of _ "cs_messages st"] this [of _ "cs_messages st'"] show ?thesis
    using assms by (simp only: get_messages_def own_conversations_def Let_def prod.inject)
qed

text \<open>
  A message stored under a conversation that was deleted is accepted, and the service lists it, although
  the conversation itself is gone.
\<close>

lemma delete_conversation_clears:
  assumes "uq_console (cs_rows st)" and "delete_conversation env user k st = Inr (True, st1)"
  shows "get_messages env' user k st1 = Inr [] \<or> isl (get_messages env' user k st1)"
    and "\<exists>x \<in> set (cs_rows st1). row_ident x = (uc_user_id user, k) \<and> cr_deleted_at_ms x \<noteq> None"
    and "uq_console (cs_rows st1)"
proof -
  from assms(2) obtain rows where rows: "delete_row (cv_console env) user k (cs_rows st) = Inr (True, rows)"
    and st1: "cs_rows st1 = rows"
      "cs_messages st1 = filter (\<lambda>m. \<not> (my_message (cv_console env) user m \<and> cm_conversation_id m = k)) (cs_messages st)"
    by (auto simp: delete_conversation_def Let_def res_bind_Inr_iff split: if_splits)
  from rows obtain x where x: "find_row (cv_console env) True user k (cs_rows st) = Inr (Some x)" by (rule delete_row_True)
  note policy = find_row_Some(5) [OF x]
  have "my_message (cv_console env) user m" if "my_message ce user m" for m ce
    using that policy by (auto simp: my_message_def)
  then have "filter (\<lambda>m. my_message ce user m \<and> cm_conversation_id m = k) (cs_messages st1) = []" for ce
    unfolding st1(2) filter_empty_conv by auto
  then show "get_messages env' user k st1 = Inr [] \<or> isl (get_messages env' user k st1)"
    by (simp add: get_messages_def Let_def)
  obtain y where "y \<in> set rows" "row_ident y = (uc_user_id user, k)" "cr_deleted_at_ms y = Some (ce_now_ms (cv_console env))"
    "uq_console rows" by (rule deleted_key_row [OF assms(1) rows])
  then show "\<exists>x \<in> set (cs_rows st1). row_ident x = (uc_user_id user, k) \<and> cr_deleted_at_ms x \<noteq> None" "uq_console (cs_rows st1)"
    unfolding st1(1) by auto
qed

section \<open>Prompts\<close>

datatype prompt_op =
    UpsertGroup string metadata
  | UpsertVersion string string string string pyval
  | SetProduction string string
  | DeleteGroup string

record prompt_call =
  pc_env :: prompt_env
  pc_user :: user_context
  pc_op :: prompt_op

definition exec_prompt :: "prompt_call \<Rightarrow> prompt_state \<Rightarrow> prompt_state" where
  "exec_prompt c st =
     (let env = pc_env c; user = pc_user c in
      case pc_op c of
        UpsertGroup k kw \<Rightarrow> state_after (upsert_group env user k kw st) st
      | UpsertVersion k pid body type metadata \<Rightarrow> state_after (upsert_version env user k pid body type metadata st) st
      | SetProduction k pid \<Rightarrow> state_after (set_production env user k pid st) st
      | DeleteGroup k \<Rightarrow> state_after (delete_group env user k st) st)"

definition versions_of :: "string \<Rightarrow> string \<Rightarrow> prompt_version list \<Rightarrow> prompt_version list" where
  "versions_of u k vs = filter (\<lambda>v. pv_user_sub v = u \<and> pv_group_id v = k) vs"

definition numbered :: "prompt_version list \<Rightarrow> bool" where
  "numbered vs \<longleftrightarrow> map pv_version vs = map int [1..<Suc (length vs)]"

definition production_ok :: "prompt_state \<Rightarrow> console_row \<Rightarrow> bool" where
  "production_ok st g \<longleftrightarrow>
     cr_deleted_at_ms g = None \<longrightarrow>
       (case field (cr_cols g) ''production_prompt_id'' of
          PNone \<Rightarrow> True
        | PStr p \<Rightarrow> (\<exists>v \<in> set (versions_of (cr_user_sub g) (cr_key g) (ps_versions st)). pv_prompt_id v = p)
        | _ \<Rightarrow> False)"

definition prompt_inv :: "prompt_state \<Rightarrow> bool" where
  "prompt_inv st \<longleftrightarrow> uq_console (ps_groups st) \<and> distinct (map version_ident (ps_versions st)) \<and>
     (\<forall>u k. numbered (versions_of u k (ps_versions st))) \<and> (\<forall>g \<in> set (ps_groups st). production_ok st g)"

definition no_prompts :: prompt_state where
  "no_prompts = \<lparr>ps_groups = [], ps_versions = []\<rparr>"

lemma prompt_inv_empty: "prompt_inv no_prompts"
  by (simp add: prompt_inv_def no_prompts_def uq_console_def numbered_def versions_of_def)

lemma with_groups_Inr: "with_groups r st = Inr (x, st') \<longleftrightarrow> (\<exists>rows. r = Inr (x, rows) \<and> st' = st\<lparr>ps_groups := rows\<rparr>)"
  by (auto simp: with_groups_def split: sum.splits prod.splits)

text \<open>What a call that answers has done.\<close>

lemma touch_group_Inr:
  "touch_group ce g rows = Inr rows' \<Longrightarrow> rows' = put_console (g\<lparr>cr_updated_at_ms := ce_now_ms ce\<rparr>) rows"
  by (simp add: touch_group_def Let_def commit_console_Inr)

lemma as_runtime_Inr: "as_runtime r = Inr x \<longleftrightarrow> r = Inr x"
  by (simp add: as_runtime_def split: sum.split)

lemma upsert_version_Inr:
  assumes "upsert_version env user k pid body type metadata st = Inr (v, st')"
  obtains (none) "v = None" "st' = st"
  | (fresh) g w where "find_row (pr_console env) True user k (ps_groups st) = Inr (Some g)"
      "filter (\<lambda>v. my_version (pr_console env) user v \<and> pv_prompt_id v = pid) (ps_versions st) = []"
      "w = \<lparr>pv_prompt_id = pid, pv_group_id = k, pv_user_sub = uc_user_id user, pv_text = body, pv_type = type,
            pv_version = next_version (group_versions (pr_console env) user k (ps_versions st)),
            pv_created_at_ms = ce_now_ms (pr_console env), pv_updated_at_ms = ce_now_ms (pr_console env),
            pv_metadata = or_default metadata (PDict [])\<rparr>"
      "v = Some w" "st' = st\<lparr>ps_groups := put_console (g\<lparr>cr_updated_at_ms := ce_now_ms (pr_console env)\<rparr>) (ps_groups st),
                          ps_versions := ps_versions st @ [w]\<rparr>"
  | (present) g x w where "find_row (pr_console env) True user k (ps_groups st) = Inr (Some g)"
      "filter (\<lambda>v. my_version (pr_console env) user v \<and> pv_prompt_id v = pid) (ps_versions st) = [x]"
      "version_ident w = version_ident x" "pv_group_id w = pv_group_id x" "pv_version w = pv_version x" "v = Some w"
      "st' = st\<lparr>ps_groups := put_console (g\<lparr>cr_updated_at_ms := ce_now_ms (pr_console env)\<rparr>) (ps_groups st),
             ps_versions := put_version w (ps_versions st)\<rparr>"
proof -
  let ?ce = "pr_console env" and ?vs = "ps_versions st"
  note up = assms [unfolded upsert_version_def Let_def as_runtime_Inr]
  from up obtain group where f: "find_row ?ce True user k (ps_groups st) = Inr group" by (auto simp: res_bind_Inr_iff)
  show thesis
  proof (cases group)
    case None
    then show thesis using up f none by simp
  next
    case (Some g)
    with up f have t: "\<not> text_error ?ce pid" by (auto split: if_splits)
    with up f Some obtain existing
      where e: "one_or_none (filter (\<lambda>v. my_version ?ce user v \<and> pv_prompt_id v = pid) ?vs) = Inr existing"
      by (auto simp: res_bind_Inr_iff)
    show thesis
    proof (cases existing)
      case None
      then show thesis using up f t e Some fresh
        by (auto simp: res_bind_Inr_iff scalar_None dest!: touch_group_Inr split: if_splits)
    next
      case ex: (Some x)
      let ?w = "x\<lparr>pv_text := body, pv_type := type, pv_metadata := (if metadata = PNone then pv_metadata x else metadata),
                   pv_updated_at_ms := ce_now_ms ?ce\<rparr>"
      show thesis using up f t e Some ex present [of g x ?w]
        by (auto simp: res_bind_Inr_iff scalar_Some version_ident_def dest!: touch_group_Inr split: if_splits)
    qed
  qed
qed

lemma upsert_group_Inr:
  assumes "upsert_group env user k kw st = Inr (x, st')"
  shows "\<exists>rows. upsert_row group_domain (pr_console env) user k kw (ps_groups st) = Inr (x, rows) \<and> st' = st\<lparr>ps_groups := rows\<rparr>"
  using assms by (simp add: upsert_group_def with_groups_Inr)

lemma set_production_Inr:
  assumes "set_production env user k pid st = Inr (x, st')"
  obtains (none) "st' = st"
  | (set) g v where "find_row (pr_console env) True user k (ps_groups st) = Inr (Some g)"
      "v \<in> set (ps_versions st)" "pv_user_sub v = uc_user_id user" "pv_group_id v = k" "pv_prompt_id v = pid"
      "st' = st\<lparr>ps_groups := put_console (g\<lparr>cr_cols := AList.update ''production_prompt_id'' (PStr pid) (cr_cols g),
                                       cr_updated_at_ms := ce_now_ms (pr_console env)\<rparr>) (ps_groups st)\<rparr>"
proof -
  let ?ce = "pr_console env" and ?vs = "ps_versions st"
  note up = assms [unfolded set_production_def Let_def]
  from up obtain group where f: "find_row ?ce True user k (ps_groups st) = Inr group" by (auto simp: res_bind_Inr_iff)
  show thesis
  proof (cases group)
    case None
    then show thesis using up f none by simp
  next
    case (Some g)
    with up f have t: "\<not> text_error ?ce pid" by (auto split: if_splits)
    with up f Some obtain version
      where e: "one_or_none (filter (\<lambda>v. my_version ?ce user v \<and> pv_group_id v = k \<and> pv_prompt_id v = pid) ?vs) = Inr version"
      by (auto simp: res_bind_Inr_iff)
    show thesis
    proof (cases version)
      case None
      then show thesis using up f t e Some none by simp
    next
      case v: (Some v)
      then have "filter (\<lambda>v. my_version ?ce user v \<and> pv_group_id v = k \<and> pv_prompt_id v = pid) ?vs = [v]"
        using e by (simp add: scalar_Some)
      then have "v \<in> set (filter (\<lambda>v. my_version ?ce user v \<and> pv_group_id v = k \<and> pv_prompt_id v = pid) ?vs)" by simp
      then have "v \<in> set ?vs" "pv_user_sub v = uc_user_id user" "pv_group_id v = k" "pv_prompt_id v = pid"
        by (auto simp: my_version_def)
      then show thesis using up f t e Some v set [of g v] by (auto simp: res_bind_Inr_iff commit_console_Inr)
    qed
  qed
qed

lemma delete_group_Inr:
  assumes "delete_group env user k st = Inr (b, st')"
  obtains (none) "st' = st"
  | (gone) g rows where "find_row (pr_console env) True user k (ps_groups st) = Inr (Some g)"
      "rows = put_console (g\<lparr>cr_deleted_at_ms := Some (ce_now_ms (pr_console env)), cr_updated_at_ms := ce_now_ms (pr_console env)\<rparr>)
        (ps_groups st)"
      "st' = st\<lparr>ps_groups := rows,
             ps_versions := filter (\<lambda>v. \<not> (pv_user_sub v = uc_user_id user \<and> pv_group_id v = k)) (ps_versions st)\<rparr>"
proof (cases "delete_row (pr_console env) user k (ps_groups st)")
  case (Inl e)
  then show thesis using assms by (simp add: delete_group_def Let_def)
next
  case (Inr a)
  obtain d rows where d: "delete_row (pr_console env) user k (ps_groups st) = Inr (d, rows)" using Inr by (cases a) auto
  show thesis
  proof (cases d)
    case True
    then have del: "delete_row (pr_console env) user k (ps_groups st) = Inr (True, rows)" using d by simp
    then obtain g where g: "find_row (pr_console env) True user k (ps_groups st) = Inr (Some g)"
      "rows = put_console (g\<lparr>cr_deleted_at_ms := Some (ce_now_ms (pr_console env)), cr_updated_at_ms := ce_now_ms (pr_console env)\<rparr>)
        (ps_groups st)" by (rule delete_row_True)
    have "my_version (pr_console env) user v \<longleftrightarrow> pv_user_sub v = uc_user_id user" for v
      using find_row_Some(5) [OF g(1)] by (auto simp: my_version_def)
    then show thesis using assms del gone [OF g] by (simp add: delete_group_def Let_def)
  next
    case False
    then show thesis using assms d none by (simp add: delete_group_def Let_def)
  qed
qed

section \<open>The invariant of the versions\<close>

lemma own_put_version: "pv_user_sub v \<noteq> u \<Longrightarrow> filter (\<lambda>v. pv_user_sub v = u) (put_version v vs) = filter (\<lambda>v. pv_user_sub v = u) vs"
  by (induction vs) (auto simp: put_version_def version_ident_def)

lemma versions_put:
  assumes "distinct (map version_ident vs)" and "x \<in> set vs" and "version_ident w = version_ident x"
    and "pv_group_id w = pv_group_id x" and "pv_version w = pv_version x"
  shows "map pv_version (versions_of u k (put_version w vs)) = map pv_version (versions_of u k vs)"
    and "map pv_prompt_id (versions_of u k (put_version w vs)) = map pv_prompt_id (versions_of u k vs)"
    and "map version_ident (put_version w vs) = map version_ident vs"
proof -
  have "map pv_version (versions_of u k (put_version w vs)) = map pv_version (versions_of u k vs) \<and>
      map pv_prompt_id (versions_of u k (put_version w vs)) = map pv_prompt_id (versions_of u k vs) \<and>
      map version_ident (put_version w vs) = map version_ident vs"
    if "\<forall>y \<in> set vs. version_ident y = version_ident x \<longrightarrow> y = x"
    using that
  proof (induction vs)
    case (Cons y vs)
    show ?case
    proof (cases "version_ident y = version_ident w")
      case True
      then have "y = x" using Cons.prems assms(3) by simp
      moreover have "pv_user_sub w = pv_user_sub x" "pv_prompt_id w = pv_prompt_id x" using assms(3) by (simp_all add: version_ident_def)
      ultimately show ?thesis using Cons True assms(3-5) by (simp add: put_version_def versions_of_def)
    next
      case False
      then show ?thesis using Cons by (simp add: put_version_def versions_of_def)
    qed
  qed (simp add: put_version_def versions_of_def)
  moreover have "\<forall>y \<in> set vs. version_ident y = version_ident x \<longrightarrow> y = x"
    using assms(1,2) by (auto simp: distinct_map dest: inj_onD)
  ultimately show "map pv_version (versions_of u k (put_version w vs)) = map pv_version (versions_of u k vs)"
    "map pv_prompt_id (versions_of u k (put_version w vs)) = map pv_prompt_id (versions_of u k vs)"
    "map version_ident (put_version w vs) = map version_ident vs" by auto
qed

lemma numbered_Nil: "numbered []"
  by (simp add: numbered_def)

lemma numbered_next:
  assumes "numbered vs" shows "next_version vs = int (Suc (length vs))"
proof (cases vs)
  case (Cons a list)
  have "set (map pv_version vs) = set (map int [1..<Suc (length vs)])" using assms by (simp only: numbered_def)
  also have "\<dots> = int ` {1..length vs}" by (simp only: set_map set_upt atLeastLessThanSuc_atLeastAtMost)
  finally have "set (map pv_version vs) = int ` {1..length vs}" .
  moreover have "Max (int ` {1..length vs}) = int (length vs)"
  proof (rule Max_eqI)
    show "int (length vs) \<in> int ` {1..length vs}" using Cons by (intro imageI) simp
  qed auto
  ultimately show ?thesis using Cons by (simp only: next_version_def) simp
qed (simp add: next_version_def)

lemma production_of_versions:
  assumes "set (map pv_prompt_id (versions_of (cr_user_sub g) (cr_key g) (ps_versions st)))
      \<subseteq> set (map pv_prompt_id (versions_of (cr_user_sub g) (cr_key g) (ps_versions st')))"
    and "production_ok st g"
  shows "production_ok st' g"
proof -
  have "\<exists>v \<in> set (versions_of (cr_user_sub g) (cr_key g) (ps_versions st')). pv_prompt_id v = p"
    if "\<exists>v \<in> set (versions_of (cr_user_sub g) (cr_key g) (ps_versions st)). pv_prompt_id v = p" for p
    using assms(1) that by (force simp: subset_iff image_iff)
  then show ?thesis using assms(2) by (auto simp: production_ok_def split: pyval.splits)
qed

lemma put_group_ok:
  assumes "\<forall>g \<in> set rows. production_ok st g" and "production_ok st r"
  shows "\<forall>g \<in> set (put_console r rows). production_ok st g"
  using assms by (auto dest: set_put_console)

lemma production_ok_cong:
  assumes "ps_versions st' = ps_versions st" and "cr_deleted_at_ms g' = cr_deleted_at_ms g" and "row_ident g' = row_ident g"
    and "field (cr_cols g') ''production_prompt_id'' = field (cr_cols g) ''production_prompt_id''"
  shows "production_ok st' g' \<longleftrightarrow> production_ok st g"
proof -
  have ident: "cr_user_sub g' = cr_user_sub g" "cr_key g' = cr_key g" using assms(3) by (simp_all add: row_ident_def)
  show ?thesis unfolding production_ok_def assms(1,2,4) ident by (rule refl)
qed

lemma production_ok_same: "ps_versions st' = ps_versions st \<Longrightarrow> production_ok st' = production_ok st"
  by (rule ext, rule production_ok_cong) simp_all

lemma touched_group_ok: "production_ok st g \<Longrightarrow> production_ok st (g\<lparr>cr_updated_at_ms := t\<rparr>)"
  by (subst production_ok_cong [of st st _ g]) (simp_all add: row_ident_def)

lemma group_columns:
  "field (group_insert kw) ''production_prompt_id'' = PNone"
  "field (group_update kw cols) ''production_prompt_id'' = field cols ''production_prompt_id''"
  by (simp_all add: group_insert_def group_update_def field_def assign_given_def assign_def update_conv')

lemma upsert_group_inv:
  assumes "prompt_inv st" and "upsert_group env user k kw st = Inr (x, st')"
  shows "prompt_inv st'"
proof -
  obtain rows where rows: "upsert_row group_domain (pr_console env) user k kw (ps_groups st) = Inr (x, rows)"
    and st': "st' = st\<lparr>ps_groups := rows\<rparr>" using upsert_group_Inr [OF assms(2)] by blast
  have inv: "uq_console (ps_groups st)" "\<forall>g \<in> set (ps_groups st). production_ok st g" using assms(1) by (simp_all add: prompt_inv_def)
  have "uq_console rows \<and> (\<forall>g \<in> set rows. production_ok st g)"
    using rows
  proof (cases rule: upsert_row_cases)
    case fresh
    have "row_ident x = (uc_user_id user, k)" using fresh(2) by (simp add: new_row_def row_ident_def)
    then have "row_ident r \<noteq> row_ident x" if "r \<in> set (ps_groups st)" for r 
      using find_row_none [OF fresh(1,4) that] \<open>row_ident x = (uc_user_id user, k)\<close> by fastforce
    then have "row_ident x \<notin> set (map row_ident (ps_groups st))" by fastforce
    moreover have "production_ok st x" unfolding fresh(2) by (simp add: new_row_def group_domain_def production_ok_def group_columns)
    ultimately show ?thesis using inv fresh(3) by (simp add: uq_console_def)
  next
    case (present y)
    have "production_ok st y" using inv(2) find_row_Some(1) [OF present(1)] by blast
    moreover have "production_ok st x \<longleftrightarrow> production_ok st y"
      by (rule production_ok_cong) (simp_all add: present(2) changed_row_def group_domain_def row_ident_def group_columns)
    ultimately have "\<forall>g \<in> set (put_console x (ps_groups st)). production_ok st g" using put_group_ok [OF inv(2)] by blast
    then show ?thesis using inv(1) present(3) by simp
  qed
  moreover have same: "ps_versions st' = ps_versions st" "ps_groups st' = rows" by (simp_all add: st')
  ultimately show ?thesis using assms(1) unfolding prompt_inv_def same production_ok_same [OF same(1)] by blast
qed

lemma upsert_version_inv:
  assumes "prompt_inv st" and "upsert_version env user k pid body type metadata st = Inr (x, st')"
  shows "prompt_inv st'"
  using assms(2)
proof (cases rule: upsert_version_Inr)
  case none
  then show ?thesis using assms(1) by simp
next
  case (fresh g w)
  let ?vs = "ps_versions st" and ?u = "uc_user_id user"
  let ?g = "g\<lparr>cr_updated_at_ms := ce_now_ms (pr_console env)\<rparr>"
  note policy = find_row_Some(5) [OF fresh(1)]
  have own: "group_versions (pr_console env) user k ?vs = versions_of ?u k ?vs"
    using policy by (auto simp: group_versions_def versions_of_def my_version_def intro!: filter_cong)
  have inv: "uq_console (ps_groups st)" "distinct (map version_ident ?vs)" "\<And>u k. numbered (versions_of u k ?vs)"
    "\<forall>g \<in> set (ps_groups st). production_ok st g" using assms(1) by (simp_all add: prompt_inv_def)
  have "distinct (map version_ident (?vs @ [w]))"
    using inv(2) fresh(2,3) policy by (auto simp: filter_empty_conv my_version_def version_ident_def)
  moreover have "numbered (versions_of u j (?vs @ [w]))" for u j
    using inv(3) [of u j] numbered_next [OF inv(3), of ?u k] fresh(3) by (auto simp: versions_of_def numbered_def own)
  moreover have "\<forall>g \<in> set (put_console ?g (ps_groups st)). production_ok st' g"
  proof
    fix h assume "h \<in> set (put_console ?g (ps_groups st))"
    then have "production_ok st h"
      using put_group_ok [OF inv(4) touched_group_ok [OF bspec [OF inv(4) find_row_Some(1) [OF fresh(1)]]]] by blast
    moreover have "ps_versions st' = ?vs @ [w]" using fresh(5) by simp
    ultimately show "production_ok st' h" by (intro production_of_versions [of h st st']) (auto simp: versions_of_def)
  qed
  ultimately show ?thesis using inv(1) fresh(5) by (simp add: prompt_inv_def)
next
  case (present g y w)
  let ?vs = "ps_versions st" and ?g = "g\<lparr>cr_updated_at_ms := ce_now_ms (pr_console env)\<rparr>"
  have inv: "uq_console (ps_groups st)" "distinct (map version_ident ?vs)" "\<And>u k. numbered (versions_of u k ?vs)"
    "\<forall>g \<in> set (ps_groups st). production_ok st g" using assms(1) by (simp_all add: prompt_inv_def)
  have "y \<in> set (filter (\<lambda>v. my_version (pr_console env) user v \<and> pv_prompt_id v = pid) ?vs)" using present(2) by simp
  then have y: "y \<in> set ?vs" by simp
  note put = versions_put [OF inv(2) y present(3-5)]
  have "numbered (versions_of u j (put_version w ?vs))" for u j
    using inv(3) [of u j] put(1) [of u j] by (metis numbered_def length_map)
  moreover have "\<forall>g \<in> set (put_console ?g (ps_groups st)). production_ok st' g"
  proof
    fix h assume "h \<in> set (put_console ?g (ps_groups st))"
    then have "production_ok st h"
      using put_group_ok [OF inv(4) touched_group_ok [OF bspec [OF inv(4) find_row_Some(1) [OF present(1)]]]] by blast
    moreover have "ps_versions st' = put_version w ?vs" using present(7) by simp
    ultimately show "production_ok st' h" using put(2) by (intro production_of_versions [of h st st']) simp_all
  qed
  ultimately show ?thesis using inv(1,2) put(3) present(7) by (simp add: prompt_inv_def)
qed

lemma set_production_inv:
  assumes "prompt_inv st" and "set_production env user k pid st = Inr (x, st')"
  shows "prompt_inv st'"
  using assms(2)
proof (cases rule: set_production_Inr)
  case none
  then show ?thesis using assms(1) by simp
next
  case (set g v)
  have inv: "uq_console (ps_groups st)" "\<forall>g \<in> set (ps_groups st). production_ok st g" using assms(1) by (simp_all add: prompt_inv_def)
  have "production_ok st (g\<lparr>cr_cols := AList.update ''production_prompt_id'' (PStr pid) (cr_cols g),
      cr_updated_at_ms := ce_now_ms (pr_console env)\<rparr>)"
    using set find_row_Some(2,3) [OF set(1)] by (auto simp: production_ok_def field_def update_conv' versions_of_def)
  then have "\<forall>g \<in> set (ps_groups st'). production_ok st g" using put_group_ok [OF inv(2)] set(6) by simp
  moreover have same: "ps_versions st' = ps_versions st" by (simp add: set(6))
  moreover have "uq_console (ps_groups st')" using inv(1) set(6) by simp
  ultimately show ?thesis using assms(1) unfolding prompt_inv_def same production_ok_same [OF same] by blast
qed

lemma delete_group_inv:
  assumes "prompt_inv st" and "delete_group env user k st = Inr (b, st')"
  shows "prompt_inv st'"
  using assms(2)
proof (cases rule: delete_group_Inr)
  case none
  then show ?thesis using assms(1) by simp
next
  case (gone g rows)
  let ?u = "uc_user_id user" and ?vs = "ps_versions st"
  let ?vs' = "filter (\<lambda>v. \<not> (pv_user_sub v = ?u \<and> pv_group_id v = k)) ?vs"
  let ?g = "g\<lparr>cr_deleted_at_ms := Some (ce_now_ms (pr_console env)), cr_updated_at_ms := ce_now_ms (pr_console env)\<rparr>"
  have inv: "uq_console (ps_groups st)" "distinct (map version_ident ?vs)" "\<And>u k. numbered (versions_of u k ?vs)"
    "\<forall>g \<in> set (ps_groups st). production_ok st g" using assms(1) by (simp_all add: prompt_inv_def)
  have vs: "versions_of u j ?vs' = (if u = ?u \<and> j = k then [] else versions_of u j ?vs)" for u j
    by (auto simp: versions_of_def filter_empty_conv intro!: filter_cong)
  have "distinct (map version_ident ?vs')" using inv(2) by (simp add: distinct_map inj_on_def)
  moreover have "numbered (versions_of u j ?vs')" for u j
    unfolding vs using inv(3) numbered_Nil by simp
  moreover have "\<forall>h \<in> set rows. production_ok st' h"
  proof
    fix h assume "h \<in> set rows"
    then consider "h \<in> set (ps_groups st)" "row_ident h \<noteq> row_ident ?g" | "h = ?g" using set_put_console gone(2) by blast
    then show "production_ok st' h"
    proof cases
      case 1
      then have "\<not> (cr_user_sub h = ?u \<and> cr_key h = k)" using find_row_Some(2,3) [OF gone(1)] by (auto simp: row_ident_def)
      moreover have "ps_versions st' = ?vs'" using gone(3) by simp
      ultimately have "versions_of (cr_user_sub h) (cr_key h) (ps_versions st') = versions_of (cr_user_sub h) (cr_key h) ?vs"
        by (simp only: vs) auto
      then show ?thesis using inv(4) 1(1) by (intro production_of_versions [of h st st']) simp_all
    next
      case 2
      then show ?thesis by (simp add: production_ok_def)
    qed
  qed
  ultimately show ?thesis using inv(1) gone(2,3) by (simp add: prompt_inv_def)
qed

lemma exec_prompt_inv:
  assumes "prompt_inv st" shows "prompt_inv (exec_prompt c st)"
proof (cases "pc_op c")
  case (UpsertGroup k kw)
  then show ?thesis unfolding exec_prompt_def by (simp add: Let_def) (rule state_after_inv [where p = prompt_inv, OF upsert_group_inv [OF assms] assms])
next
  case (UpsertVersion k pid body type metadata)
  then show ?thesis unfolding exec_prompt_def by (simp add: Let_def) (rule state_after_inv [where p = prompt_inv, OF upsert_version_inv [OF assms] assms])
next
  case (SetProduction k pid)
  then show ?thesis unfolding exec_prompt_def by (simp add: Let_def) (rule state_after_inv [where p = prompt_inv, OF set_production_inv [OF assms] assms])
next
  case (DeleteGroup k)
  then show ?thesis unfolding exec_prompt_def by (simp add: Let_def) (rule state_after_inv [where p = prompt_inv, OF delete_group_inv [OF assms] assms])
qed

lemma run_prompt_inv: "prompt_inv st \<Longrightarrow> prompt_inv (fold exec_prompt cs st)"
  by (induction cs arbitrary: st) (simp_all add: exec_prompt_inv)

text \<open>A numbered list is its own sorting.\<close>

lemma numbered_sorted:
  assumes "numbered vs" shows "sort_key pv_version vs = vs"
proof -
  have "sorted (map int [1..<Suc (length vs)])" by (simp add: sorted_map sorted_wrt_mono_rel [OF _ sorted_upt] del: upt_Suc)
  then show ?thesis using assms by (intro sort_key_id_if_sorted) (simp only: numbered_def)
qed

section \<open>The groups and versions of a user\<close>

definition own_prompts :: "string \<Rightarrow> prompt_state \<Rightarrow> console_row list \<times> prompt_version list" where
  "own_prompts u st = (rows_of u (ps_groups st), filter (\<lambda>v. pv_user_sub v = u) (ps_versions st))"

lemma upsert_version_confined:
  assumes "upsert_version env user k pid body type metadata st = Inr (x, st')" and "uc_user_id user \<noteq> u"
  shows "own_prompts u st' = own_prompts u st"
  using assms(1)
proof (cases rule: upsert_version_Inr)
  case (fresh g w)
  then show ?thesis using assms(2) find_row_Some(2) [OF fresh(1)] by (simp add: own_prompts_def filter_owner_put)
next
  case (present g y w)
  have "y \<in> set (filter (\<lambda>v. my_version (pr_console env) user v \<and> pv_prompt_id v = pid) (ps_versions st))" using present(2) by simp
  then have "pv_user_sub w \<noteq> u" using assms(2) present(3) by (auto simp: version_ident_def my_version_def)
  then show ?thesis using present(7) assms(2) find_row_Some(2) [OF present(1)]
    by (simp add: own_prompts_def filter_owner_put own_put_version)
qed simp

lemma set_production_confined:
  assumes "set_production env user k pid st = Inr (x, st')" and "uc_user_id user \<noteq> u"
  shows "own_prompts u st' = own_prompts u st"
  using assms(1)
proof (cases rule: set_production_Inr)
  case (set g v)
  then show ?thesis using assms(2) find_row_Some(2) [OF set(1)] by (simp add: own_prompts_def filter_owner_put)
qed simp

lemma delete_group_confined:
  assumes "delete_group env user k st = Inr (x, st')" and "uc_user_id user \<noteq> u"
  shows "own_prompts u st' = own_prompts u st"
  using assms(1)
proof (cases rule: delete_group_Inr)
  case (gone g rows)
  have "filter (\<lambda>v. pv_user_sub v = u \<and> \<not> (pv_user_sub v = uc_user_id user \<and> pv_group_id v = k)) (ps_versions st)
      = filter (\<lambda>v. pv_user_sub v = u) (ps_versions st)" using assms(2) by (auto intro: filter_cong)
  then show ?thesis using gone assms(2) find_row_Some(2) [OF gone(1)] by (simp add: own_prompts_def filter_owner_put conj_commute)
qed simp

lemma exec_prompt_confined:
  assumes "uc_user_id (pc_user c) \<noteq> u"
  shows "own_prompts u (exec_prompt c st) = own_prompts u st"
proof (cases "pc_op c")
  case (UpsertGroup k kw)
  have "own_prompts u st' = own_prompts u st" if "upsert_group (pc_env c) (pc_user c) k kw st = Inr (x, st')" for x st'
    using upsert_group_Inr [OF that] upsert_row_confined [OF _ assms] by (fastforce simp: own_prompts_def)
  from state_after_same [where f = "own_prompts u", OF this] show ?thesis
    using UpsertGroup by (simp add: exec_prompt_def Let_def)
next
  case (UpsertVersion k pid body type metadata)
  from state_after_same [where f = "own_prompts u", OF upsert_version_confined [OF _ assms]] show ?thesis
    using UpsertVersion by (simp add: exec_prompt_def Let_def)
next
  case (SetProduction k pid)
  from state_after_same [where f = "own_prompts u", OF set_production_confined [OF _ assms]] show ?thesis
    using SetProduction by (simp add: exec_prompt_def Let_def)
next
  case (DeleteGroup k)
  from state_after_same [where f = "own_prompts u", OF delete_group_confined [OF _ assms]] show ?thesis
    using DeleteGroup by (simp add: exec_prompt_def Let_def)
qed

interpretation prompts: confined_store exec_prompt "\<lambda>c :: prompt_call. uc_user_id (pc_user c)" own_prompts
  by unfold_locales (rule exec_prompt_confined)

text \<open>What a user reads of a group depends on the part of the state that is the user's own.\<close>

lemma listed_versions_own:
  "listed_versions ce user k vs = listed_versions ce user k (filter (\<lambda>v. pv_user_sub v = uc_user_id user) vs)"
proof -
  have "group_versions ce user k vs = group_versions ce user k (filter (\<lambda>v. pv_user_sub v = uc_user_id user) vs)"
    by (auto simp: group_versions_def my_version_def intro: filter_cong)
  then show ?thesis by (simp only: listed_versions_def)
qed

lemma get_group_own:
  assumes "own_prompts (uc_user_id user) st = own_prompts (uc_user_id user) st'"
  shows "get_group env user k st = get_group env user k st'"
proof -
  have own: "rows_of (uc_user_id user) (ps_groups st) = rows_of (uc_user_id user) (ps_groups st')"
    "filter (\<lambda>v. pv_user_sub v = uc_user_id user) (ps_versions st) = filter (\<lambda>v. pv_user_sub v = uc_user_id user) (ps_versions st')"
    using assms by (simp_all add: own_prompts_def)
  have "listed_versions ce user k (ps_versions st) = listed_versions ce user k (ps_versions st')" for ce
    using listed_versions_own [of ce user k "ps_versions st"] listed_versions_own [of ce user k "ps_versions st'"] own(2) by simp
  then show ?thesis unfolding get_group_def reads_own(1) [OF own(1)] by simp
qed

end
