(* ===== verification/ConsoleProps.thy ===== *)
theory ConsoleProps
  imports ConsoleTreeProps
begin

text \<open>
  What the console stores promise, stated over the definitions of the services: privacy of every store,
  exactness of the pages, agreement with the in-memory twins, valid production versions, and what becomes
  of a key that is deleted and stored again.
\<close>

section \<open>Privacy\<close>

text \<open>C34: Whatever other users call on a console store, whether the calls answer or raise, what a user
  reads stays the same: a row by key, a batch of rows and every page of a listing, for the stores of the
  shared shape; the messages of a conversation; a prompt group with its versions.\<close>

theorem console_stores_private:
  assumes "\<forall>c \<in> set cs. uc_user_id (cc_user c) \<noteq> uc_user_id user"
    and "\<forall>c \<in> set ms. uc_user_id (cl_user c) \<noteq> uc_user_id user"
    and "\<forall>c \<in> set ps. uc_user_id (pc_user c) \<noteq> uc_user_id user"
  shows "get_row env user k (fold (exec_console cd) cs rows) = get_row env user k rows \<and>
      batch_get_rows env user ks (fold (exec_console cd) cs rows) = batch_get_rows env user ks rows \<and>
      list_rows env user cursor n (fold (exec_console cd) cs rows) = list_rows env user cursor n rows \<and>
      get_conversation cenv user k (fold exec_conversation ms cst) = get_conversation cenv user k cst \<and>
      list_conversations cenv user cursor n (fold exec_conversation ms cst) = list_conversations cenv user cursor n cst \<and>
      get_messages cenv user k (fold exec_conversation ms cst) = get_messages cenv user k cst \<and>
      list_groups penv user cursor n (fold exec_prompt ps pst) = list_groups penv user cursor n pst \<and>
      get_group penv user k (fold exec_prompt ps pst) = get_group penv user k pst"
proof (intro conjI)
  show "get_row env user k (fold (exec_console cd) cs rows) = get_row env user k rows"
    unfolding get_row_def by (rule rows.run_invisible [OF assms(1) reads_own(1)])
  show "batch_get_rows env user ks (fold (exec_console cd) cs rows) = batch_get_rows env user ks rows"
    by (rule rows.run_invisible [OF assms(1) reads_own(3)])
  show "list_rows env user cursor n (fold (exec_console cd) cs rows) = list_rows env user cursor n rows"
    by (rule rows.run_invisible [OF assms(1) reads_own(2)])
  show "get_conversation cenv user k (fold exec_conversation ms cst) = get_conversation cenv user k cst"
    unfolding get_conversation_def get_row_def
    by (rule conversations.run_invisible [OF assms(2)], rule reads_own(1)) (simp add: own_conversations_def)
  show "list_conversations cenv user cursor n (fold exec_conversation ms cst) = list_conversations cenv user cursor n cst"
    unfolding list_conversations_def
    by (rule conversations.run_invisible [OF assms(2)], rule reads_own(2)) (simp add: own_conversations_def)
  show "get_messages cenv user k (fold exec_conversation ms cst) = get_messages cenv user k cst"
    by (rule conversations.run_invisible [OF assms(2) get_messages_own])
  show "list_groups penv user cursor n (fold exec_prompt ps pst) = list_groups penv user cursor n pst"
    unfolding list_groups_def
    by (rule prompts.run_invisible [OF assms(3)], rule reads_own(2)) (simp add: own_prompts_def)
  show "get_group penv user k (fold exec_prompt ps pst) = get_group penv user k pst"
    by (rule prompts.run_invisible [OF assms(3) get_group_own])
qed

section \<open>Pages\<close>

text \<open>C35: A client that follows the cursors of a listing from the first page, with any page size, ends
  after at most one request more than there are rows and has read every live row of the user exactly
  once, newest first and, at one time, in descending order of the keys.\<close>

theorem console_pages_exact:
  assumes "uq_console rows" and "\<forall>r \<in> set rows. storable env r" and "inj (ce_collate env)"
    and "\<not> text_error env (uc_user_id user)" and "sql_holds (console_policy env (uc_user_id user))"
  shows "\<exists>L. follow (\<lambda>c. list_rows env user c n rows) (Suc (length rows)) None = Some L \<and>
      set L = {r \<in> set rows. cr_user_sub r = uc_user_id user \<and> cr_deleted_at_ms r = None} \<and>
      distinct (map cr_key L) \<and> sorted_wrt (\<lambda>a b. row_order env b < row_order env a) L"
proof (intro exI conjI)
  let ?L = "live_mine env user rows"
  show "follow (\<lambda>c. list_rows env user c n rows) (Suc (length rows)) None = Some ?L" 
    using assms(1-4) by (intro list_rows_follow) (simp add: listable_def)
  show set_L: "set ?L = {r \<in> set rows. cr_user_sub r = uc_user_id user \<and> cr_deleted_at_ms r = None}"
    using assms(5) by (auto simp: live_mine_def set_sql_select sql_simps my_row_def live_def)
  show sorted: "sorted_wrt (\<lambda>a b. row_order env b < row_order env a) ?L"
    unfolding live_mine_def using uq_sql_select [OF assms(1)] assms(3)
    by (intro sorted_newest_first [of _ "uc_user_id user"]) (auto simp: set_sql_select sql_simps dest: my_row_owner)
  have "inj_on cr_key (set ?L)"
    unfolding set_L by (rule inj_onI) (use uq_same [OF assms(1)] in \<open>auto simp: row_ident_def\<close>)
  moreover have "distinct ?L"
    using assms(1) by (simp add: live_mine_def newest_first_def sql_select_def uq_console_def distinct_map)
  ultimately show "distinct (map cr_key ?L)" by (simp add: distinct_map)
qed

section \<open>The in-memory twin\<close>

text \<open>C36: Over a database that takes the calls, where no call stores again the key of a deleted row,
  a run of upserts and deletes leaves the same table in the in-memory twin, and then every row by key is
  the same and so is every page the database answers, when it orders keys by code points.\<close>

theorem console_twin:
  assumes "uq_console rows" and "run_takes cd cs rows" and "db_takes env user k" and "\<And>s. ce_collate env s = s"
    and "list_rows env user cursor n (fold (exec_console cd) cs rows) = Inr p"
  shows "fold (mock_exec_console cd) cs rows = fold (exec_console cd) cs rows \<and>
      get_row env user k (fold (exec_console cd) cs rows) = Inr (mock_find_row user k (fold (mock_exec_console cd) cs rows)) \<and>
      mock_list_rows user cursor n (fold (mock_exec_console cd) cs rows) = Inr p"
proof (intro conjI)
  let ?rows = "fold (exec_console cd) cs rows"
  have twin: "fold (mock_exec_console cd) cs rows = ?rows" and uq: "uq_console ?rows"
    using run_twin [OF assms(1,2)] by auto
  show "fold (mock_exec_console cd) cs rows = ?rows" by (rule twin)
  have "(\<lambda>r. row_ident r = (uc_user_id user, k) \<and> cr_deleted_at_ms r = None) = mock_is user k"
    by (auto simp: mock_is_def row_ident_def)
  then show "get_row env user k ?rows = Inr (mock_find_row user k (fold (mock_exec_console cd) cs rows))"
    unfolding twin get_row_def mock_find_row_def using find_row_uq [OF uq assms(3), of True] by simp
  show "mock_list_rows user cursor n (fold (mock_exec_console cd) cs rows) = Inr p"
    unfolding twin using assms(3) by (intro page_twin [OF assms(5) _ assms(4)]) (simp add: db_takes_def)
qed

section \<open>Prompt versions\<close>

text \<open>C37: In every state that calls of any users reach from empty tables, a group that is read has its
  versions numbered one, two, and so on without gaps, in this order, and the version in production, when
  one is set, is the id of a version listed.\<close>

theorem prompt_production_valid:
  assumes "get_group env user k (fold exec_prompt cs no_prompts) = Inr (Some (g, vs))"
  shows "map pv_version vs = map int [1..<Suc (length vs)] \<and>
      (field (cr_cols g) ''production_prompt_id'' = PNone \<or>
      (\<exists>v \<in> set vs. field (cr_cols g) ''production_prompt_id'' = PStr (pv_prompt_id v) \<and> pv_user_sub v = uc_user_id user))"
proof (intro conjI)
  let ?st = "fold exec_prompt cs no_prompts"
  have inv: "prompt_inv ?st" by (rule run_prompt_inv [OF prompt_inv_empty])
  from assms have g: "find_row (pr_console env) True user k (ps_groups ?st) = Inr (Some g)"
    and vs: "vs = listed_versions (pr_console env) user k (ps_versions ?st)"
    by (auto simp: get_group_def res_bind_Inr_iff)
  note g' = find_row_Some [OF g]
  have own: "group_versions (pr_console env) user k (ps_versions ?st) = versions_of (uc_user_id user) k (ps_versions ?st)"
    using g'(5) by (auto simp: group_versions_def versions_of_def my_version_def intro!: filter_cong)
  have num: "numbered (versions_of (uc_user_id user) k (ps_versions ?st))" using inv by (simp add: prompt_inv_def)
  have vs_eq: "vs = versions_of (uc_user_id user) k (ps_versions ?st)"
    unfolding vs listed_versions_def own by (rule numbered_sorted [OF num])
  show "map pv_version vs = map int [1..<Suc (length vs)]" using num unfolding vs_eq numbered_def .
  have "production_ok ?st g" using inv g'(1) by (simp add: prompt_inv_def)
  then show "field (cr_cols g) ''production_prompt_id'' = PNone \<or>
      (\<exists>v \<in> set vs. field (cr_cols g) ''production_prompt_id'' = PStr (pv_prompt_id v) \<and> pv_user_sub v = uc_user_id user)"
    unfolding production_ok_def vs_eq g'(2,3) using g'(4) by (auto simp: versions_of_def split: pyval.splits)
qed

section \<open>Deleted keys\<close>

text \<open>C38: A key that is stored again after a delete is lost in the database: the upsert answers with a
  row, and the row carries the delete time, no read by key gives it and no page of any listing has it;
  the in-memory twin makes a new live row and reads it.\<close>

theorem upsert_of_deleted_lost:
  assumes "uq_console rows" and "delete_row env user k rows = Inr (True, rows1)"
    and "upsert_row cd env' user k kw rows1 = Inr (r, rows2)"
  shows "cr_key r = k \<and> cr_deleted_at_ms r = Some (ce_now_ms env) \<and>
      get_row env'' user k rows2 \<noteq> Inr (Some x) \<and>
      (list_rows env'' user c n rows2 \<noteq> Inr (page, nx) \<or> k \<notin> cr_key ` set page) \<and>
      (\<not> fst (mock_delete_row now user k rows) \<or>
      (let (r', m) = mock_upsert_row cd now' user k kw (snd (mock_delete_row now user k rows))
       in cr_deleted_at_ms r' = None \<and> mock_find_row user k m = Some r'))"
proof (intro conjI)
  obtain x where x: "x \<in> set rows1" "row_ident x = (uc_user_id user, k)" "cr_deleted_at_ms x = Some (ce_now_ms env)" "uq_console rows1"
    by (rule deleted_key_row [OF assms(1,2)])
  note up = upsert_deleted_key [OF x(4,1,2) assms(3)]
  have r: "row_ident r = (uc_user_id user, k)" "cr_deleted_at_ms r = Some (ce_now_ms env)"
    using x(2,3) by (simp_all add: up(1) changed_row_def row_ident_def)
  then show "cr_key r = k" "cr_deleted_at_ms r = Some (ce_now_ms env)" by (simp_all add: row_ident_def)
  have "cr_deleted_at_ms r \<noteq> None" using r(2) by simp
  note unread = only_deleted_unread [OF up(3,2) r(1) this]
  show "get_row env'' user k rows2 \<noteq> Inr (Some x)" for x unfolding get_row_def by (rule unread(1))
  show "list_rows env'' user c n rows2 \<noteq> Inr (page, nx) \<or> k \<notin> cr_key ` set page" using unread(2) by blast
  show "\<not> fst (mock_delete_row now user k rows) \<or>
      (let (r', m) = mock_upsert_row cd now' user k kw (snd (mock_delete_row now user k rows))
       in cr_deleted_at_ms r' = None \<and> mock_find_row user k m = Some r')"
  proof (cases "fst (mock_delete_row now user k rows)")
    case True
    then have "mock_delete_row now user k rows = (True, snd (mock_delete_row now user k rows))" by (simp add: prod_eq_iff)
    note revived = mock_revives [OF assms(1) this]
    show ?thesis unfolding revived(2) using revived(3) by (simp add: new_row_def)
  qed simp
qed

section \<open>Late messages\<close>

text \<open>A message stored under a deleted conversation is accepted, and the service lists it.\<close>

lemma late_message_listed:
  assumes "uq_console (cs_rows st)" and "delete_conversation env user k st = Inr (True, st1)"
    and "upsert_message env user k mid kw st1 = Inr (m, st2)" and "m \<in> set (cs_messages st2)" and "cm_conversation_id m = k"
    and "get_messages env user k st2 = Inr ms"
  shows "m \<in> set ms"
  using assms(3)
proof (cases rule: upsert_message_Inr)
  case (fresh rows)
  then show ?thesis using assms(4,5,6) by (auto simp: get_messages_def Let_def my_message_def split: if_splits)
next
  case (present x rows)
  note x = find_message_Some [OF present(1)]
  show ?thesis using present(3) x(2,4) assms(4,5,6) by (auto simp: get_messages_def Let_def my_message_def split: if_splits)
qed

end
