(* ===== verification/ConsoleWitness.thy ===== *)
theory ConsoleWitness
  imports ConsoleProps FilesWitness
begin

text \<open>
  Concrete runs of the console stores at which the properties of \<open>ConsoleProps\<close> apply: Ann's and Bob's
  presets, conversations and prompt groups, over PostgreSQL with the session bound to the caller.
\<close>

definition row_env :: "user_context \<Rightarrow> int \<Rightarrow> console_env" where
  "row_env user now = \<lparr>ce_now_ms = now, ce_postgres = True, ce_bound = Some (uc_user_id user), ce_collate = (\<lambda>s. s),
     ce_refuses = (\<lambda>_. False)\<rparr>"

definition preset_row :: "string \<Rightarrow> string \<Rightarrow> int \<Rightarrow> console_row" where
  "preset_row k u t = \<lparr>cr_key = k, cr_user_sub = u, cr_cols = preset_insert [], cr_created_at_ms = t, cr_updated_at_ms = t,
     cr_deleted_at_ms = None\<rparr>"

definition preset_rows :: "console_row list" where
  "preset_rows = [preset_row ''a'' ''ann'' 1, preset_row ''b'' ''ann'' 2, preset_row ''a'' ''bob'' 3, preset_row ''c'' ''ann'' 2]"

definition preset_call :: "user_context \<Rightarrow> int \<Rightarrow> console_op \<Rightarrow> console_call" where
  "preset_call user now op = \<lparr>cc_env = row_env user now, cc_user = user, cc_op = op\<rparr>"

definition conversation_demo_env :: "user_context \<Rightarrow> int \<Rightarrow> conversation_env" where
  "conversation_demo_env user now = \<lparr>cv_console = row_env user now, cv_refuses = (\<lambda>_. False)\<rparr>"

definition prompt_demo_env :: "user_context \<Rightarrow> int \<Rightarrow> prompt_env" where
  "prompt_demo_env user now = \<lparr>pr_console = row_env user now, pr_refuses = (\<lambda>_. False)\<rparr>"

definition prompt_calls :: "user_context \<Rightarrow> prompt_call list" where
  "prompt_calls user = map (\<lambda>op. \<lparr>pc_env = prompt_demo_env user 7, pc_user = user, pc_op = op\<rparr>)
     [UpsertGroup ''g'' [(''name'', PStr ''mail'')], UpsertVersion ''g'' ''p1'' ''hi'' ''text'' PNone,
      UpsertVersion ''g'' ''p2'' ''hello'' ''text'' PNone, SetProduction ''g'' ''p2'']"

text \<open>Bob stores and deletes presets of Ann's keys, writes a message into her conversation and changes her group.\<close>

definition bob_presets :: "console_call list" where
  "bob_presets = [preset_call bob 8 (CUpsert [] ''a''), preset_call bob 9 (CDelete ''b''), preset_call bob 9 (CDelete ''a'')]"

definition bob_messages :: "conversation_call list" where
  "bob_messages = map (\<lambda>op. \<lparr>cl_env = conversation_demo_env bob 8, cl_user = bob, cl_op = op\<rparr>)
     [UpsertMessage ''x'' ''m1'' [], EditMessage ''x'' ''m0'' [(''text'', PStr ''no'')], DeleteConversation ''x'']"

definition anns_chat :: conversation_state where
  "anns_chat = \<lparr>cs_rows = [preset_row ''x'' ''ann'' 1],
     cs_messages = [\<lparr>cm_message_id = ''m0'', cm_conversation_id = ''x'', cm_user_sub = ''ann'', cm_cols = [],
                     cm_created_at_ms = 1\<rparr>]\<rparr>"

theorem console_stores_private_witness:
  "list_rows (row_env ann 9) ann None 1 (fold (exec_console preset_domain) bob_presets preset_rows) =
     list_rows (row_env ann 9) ann None 1 preset_rows \<and>
   fold (exec_console preset_domain) bob_presets preset_rows \<noteq> preset_rows \<and>
   get_messages (conversation_demo_env ann 9) ann ''x'' (fold exec_conversation bob_messages anns_chat) = Inr (cs_messages anns_chat) \<and>
   cs_messages (fold exec_conversation bob_messages anns_chat) \<noteq> cs_messages anns_chat \<and>
   get_group (prompt_demo_env ann 9) ann ''g'' (fold exec_prompt (prompt_calls bob) (fold exec_prompt (prompt_calls ann) no_prompts)) =
     get_group (prompt_demo_env ann 9) ann ''g'' (fold exec_prompt (prompt_calls ann) no_prompts)"
proof -
  have calls: "\<forall>c \<in> set bob_presets. uc_user_id (cc_user c) \<noteq> uc_user_id ann"
    "\<forall>c \<in> set bob_messages. uc_user_id (cl_user c) \<noteq> uc_user_id ann"
    "\<forall>c \<in> set (prompt_calls bob). uc_user_id (pc_user c) \<noteq> uc_user_id ann"
    by (simp_all add: bob_presets_def preset_call_def bob_messages_def prompt_calls_def demo_ids)
  have "get_messages (conversation_demo_env ann 9) ann ''x'' anns_chat = Inr (cs_messages anns_chat)" by code_simp
  moreover have "cr_updated_at_ms (fold (exec_console preset_domain) bob_presets preset_rows ! 2) = 9"
    "cr_updated_at_ms (preset_rows ! 2) = 3" by code_simp+
  moreover have "length (cs_messages (fold exec_conversation bob_messages anns_chat)) = 2" "length (cs_messages anns_chat) = 1" by code_simp+
  ultimately show ?thesis using console_stores_private [OF calls] by fastforce
qed

text \<open>Pages of one row: Ann reads her three presets, of which two have one time.\<close>

theorem console_pages_exact_witness:
  "map_option (map cr_key) (follow (\<lambda>c. list_rows (row_env ann 9) ann c 1 preset_rows) 5 None) = Some [''c'', ''b'', ''a''] \<and>
   (\<exists>L. follow (\<lambda>c. list_rows (row_env ann 9) ann c 1 preset_rows) 5 None = Some L \<and>
      set L = {r \<in> set preset_rows. cr_user_sub r = ''ann'' \<and> cr_deleted_at_ms r = None})"
proof -
  have "uq_console preset_rows" "\<forall>r \<in> set preset_rows. storable (row_env ann 9) r" "inj (ce_collate (row_env ann 9))"
    "\<not> text_error (row_env ann 9) (uc_user_id ann)" "sql_holds (console_policy (row_env ann 9) (uc_user_id ann))"
    by (simp_all add: preset_rows_def preset_row_def uq_console_def row_ident_def storable_def int8_ok_def row_env_def text_error_def
        demo_ids console_policy_def sql_simps)
  note pages = console_pages_exact [OF this, of 1]
  have "map_option (map cr_key) (follow (\<lambda>c. list_rows (row_env ann 9) ann c 1 preset_rows) 5 None) = Some [''c'', ''b'', ''a'']"
    by code_simp
  moreover have "Suc (length preset_rows) = 5" by code_simp
  ultimately show ?thesis using pages by (auto simp: demo_ids)
qed

theorem console_twin_witness:
  "let cs = [preset_call ann 5 (CUpsert [] ''d''), preset_call ann 6 (CDelete ''a''), preset_call bob 7 (CUpsert [] ''a'')]
   in fold (mock_exec_console preset_domain) cs preset_rows = fold (exec_console preset_domain) cs preset_rows \<and>
      mock_find_row ann ''a'' (fold (mock_exec_console preset_domain) cs preset_rows) = None \<and>
      length (fold (exec_console preset_domain) cs preset_rows) = 5"
proof -
  let ?cs = "[preset_call ann 5 (CUpsert [] ''d''), preset_call ann 6 (CDelete ''a''), preset_call bob 7 (CUpsert [] ''a'')]"
  let ?rows = "fold (exec_console preset_domain) ?cs preset_rows"
  have takes: "db_takes (row_env u t) u k" if "u = ann \<or> u = bob" "CHR 0x00 \<notin> set k" for u t k
    using that by (auto simp: db_takes_def row_env_def text_error_def console_policy_def sql_simps demo_ids)
  have "uq_console preset_rows" by (simp add: preset_rows_def preset_row_def uq_console_def row_ident_def)
  moreover have "run_takes preset_domain ?cs preset_rows"
  proof -
    have "(\<forall>r \<in> set preset_rows. row_ident r = (uc_user_id ann, ''d'') \<longrightarrow> cr_deleted_at_ms r = None) \<and>
      (\<forall>r \<in> set (fold (exec_console preset_domain) (take 2 ?cs) preset_rows).
         row_ident r = (uc_user_id bob, ''a'') \<longrightarrow> cr_deleted_at_ms r = None)" by code_simp
    then show ?thesis by (simp add: call_takes_def preset_call_def takes)
  qed
  moreover have "list_rows (row_env ann 9) ann None 1 ?rows = Inr (case list_rows (row_env ann 9) ann None 1 ?rows of Inr p \<Rightarrow> p)"
  proof -
    have "\<not> isl (list_rows (row_env ann 9) ann None 1 ?rows)" by code_simp
    then show ?thesis by (auto split: sum.split)
  qed
  ultimately have "fold (mock_exec_console preset_domain) ?cs preset_rows = ?rows \<and>
      get_row (row_env ann 9) ann ''a'' ?rows = Inr (mock_find_row ann ''a'' (fold (mock_exec_console preset_domain) ?cs preset_rows))"
    using console_twin [of preset_rows preset_domain ?cs "row_env ann 9" ann "''a''" None 1] takes by (simp add: row_env_def)
  moreover have "get_row (row_env ann 9) ann ''a'' ?rows = Inr None" "length ?rows = 5" by code_simp+
  ultimately show ?thesis by (simp add: Let_def)
qed

theorem prompt_production_valid_witness:
  "\<exists>g vs. get_group (prompt_demo_env ann 9) ann ''g'' (fold exec_prompt (prompt_calls ann @ prompt_calls bob) no_prompts) = Inr (Some (g, vs)) \<and>
     length vs = 2 \<and> map pv_version vs = [1, 2] \<and> field (cr_cols g) ''production_prompt_id'' = PStr ''p2'' \<and>
     (\<exists>v \<in> set vs. pv_prompt_id v = ''p2'' \<and> pv_user_sub v = ''ann'')"
proof -
  let ?got = "get_group (prompt_demo_env ann 9) ann ''g'' (fold exec_prompt (prompt_calls ann @ prompt_calls bob) no_prompts)"
  have c: "case ?got of Inr (Some (g, vs)) \<Rightarrow> length vs = 2 \<and> field (cr_cols g) ''production_prompt_id'' = PStr ''p2'' | _ \<Rightarrow> False"
    by code_simp
  then obtain g vs where got: "?got = Inr (Some (g, vs))" "length vs = 2" "field (cr_cols g) ''production_prompt_id'' = PStr ''p2''"
    by (auto split: sum.splits option.splits)
  note valid = prompt_production_valid [OF got(1)]
  have "map pv_version vs = [1, 2]" using valid got(2) by (simp add: upt_rec)
  then show ?thesis using valid got by (auto simp: demo_ids)
qed

theorem upsert_of_deleted_lost_witness:
  "\<exists>r rows1 rows2. delete_row (row_env ann 5) ann ''a'' preset_rows = Inr (True, rows1) \<and>
     upsert_row preset_domain (row_env ann 6) ann ''a'' [] rows1 = Inr (r, rows2) \<and>
     cr_key r = ''a'' \<and> cr_deleted_at_ms r = Some 5 \<and> get_row (row_env ann 7) ann ''a'' rows2 = Inr None \<and>
     (let (r', m) = mock_upsert_row preset_domain 6 ann ''a'' [] (snd (mock_delete_row 5 ann ''a'' preset_rows))
      in cr_deleted_at_ms r' = None \<and> mock_find_row ann ''a'' m = Some r')"
proof -
  have uq: "uq_console preset_rows" by (simp add: preset_rows_def preset_row_def uq_console_def row_ident_def)
  let ?del = "delete_row (row_env ann 5) ann ''a'' preset_rows"
  let ?up = "upsert_row preset_domain (row_env ann 6) ann ''a'' [] (snd (projr ?del))"
  have "\<not> isl ?del" "fst (projr ?del)" "\<not> isl ?up" "\<not> isl (get_row (row_env ann 7) ann ''a'' (snd (projr ?up)))" by code_simp+
  then obtain rows1 r rows2 y where run: "?del = Inr (True, rows1)"
    "upsert_row preset_domain (row_env ann 6) ann ''a'' [] rows1 = Inr (r, rows2)"
    "get_row (row_env ann 7) ann ''a'' rows2 = Inr y"
    by (cases ?del; cases ?up; cases "get_row (row_env ann 7) ann ''a'' (snd (projr ?up))") auto
  note lost = upsert_of_deleted_lost [OF uq run(1,2)]
  have "get_row (row_env ann 7) ann ''a'' rows2 = Inr None" using lost [where env'' = "row_env ann 7" and x = "the y"] run(3) by (cases y) auto
  moreover have "fst (mock_delete_row 5 ann ''a'' preset_rows)" by code_simp
  ultimately show ?thesis using run lost [where now = 5 and now' = 6] by (auto simp: row_env_def)
qed

end
