(* ===== verification/Auth.thy ===== *)
theory Auth
  imports Keys Integrity "HOL-Library.AList"
begin

text \<open>
  The resolution of identity (\<open>src/audittrace/auth.py\<close>, the token cache of \<open>identity.py\<close>): the cache of
  the signing keys, the check of a token against the allowed issuers, the scope check of a route
  (\<open>validate_jwt\<close>), the user of a request (\<open>require_user\<close>) with the cache of resolved tokens, and the
  user id bound for the row-level policies (\<open>db/rls.py\<close>).

  Parameters: the decoder of tokens, which gives the claims of a token that is signed by one of the
  keys, meant for the audience and not expired, and nothing for any other; the answers of the key
  server; the hash of tokens; which calls of the cache server fail. The claims the provider signs
  are texts. Times are microseconds; within a request they are read in the order of the fields.
\<close>

section \<open>Settings, claims and state\<close>

record auth_settings =
  as_auth_enabled :: bool
  as_auth_required :: bool
  as_token_ttl :: int
  as_jwks_ttl :: int
  as_audience :: string
  as_issuer :: string
  as_issuer_extras :: "string list"

record jwt_claims =
  jc_iss :: "string option"
  jc_sub :: "string option"
  jc_scope :: "string option"
  jc_preferred_username :: "string option"
  jc_jti :: "string option"
  jc_exp :: "int option"
  jc_email :: "string option"
  jc_name :: "string option"

datatype fetch_outcome = Fetched "string list" | HttpError | FetchCrash

record auth_env =
  ae_decode :: "string list \<Rightarrow> string \<Rightarrow> string \<Rightarrow> int \<Rightarrow> jwt_claims option"
  ae_http :: "nat \<Rightarrow> fetch_outcome"
  ae_hash :: "string \<Rightarrow> string"
  ae_get_fails :: bool
  ae_put_fails :: bool
  ae_start :: int
  ae_locked :: int
  ae_decoded :: int
  ae_end :: int

text \<open>A cached token carries the time at which the cache server drops it.\<close>

record auth_state =
  au_jwks :: "(string list \<times> int) option"
  au_tokens :: "(string \<times> user_context \<times> int) list"

datatype auth_error = Unauthorized string | Forbidden string | ServerError | InvalidToken

definition seconds :: "int \<Rightarrow> int" where
  "seconds n = n * 1000000"

section \<open>Signing keys\<close>

definition JWKS_FETCH_RETRIES :: nat where "JWKS_FETCH_RETRIES = 3"

text \<open>The retries with the delays slept before each; other exceptions than those of HTTP end the fetch.\<close>

fun fetch_from :: "(nat \<Rightarrow> fetch_outcome) \<Rightarrow> nat \<Rightarrow> nat \<Rightarrow> string list option \<times> nat list" where
  "fetch_from http attempt retries =
     (case http attempt of
        Fetched keys \<Rightarrow> (Some keys, [])
      | FetchCrash \<Rightarrow> (None, [])
      | HttpError \<Rightarrow>
          (case retries of
             0 \<Rightarrow> (None, [])
           | Suc r \<Rightarrow> let (result, delays) = fetch_from http (attempt + 1) r in (result, 2 ^ (attempt + 1) # delays)))"

declare fetch_from.simps [simp del]

definition fetch_jwks_keys :: "(nat \<Rightarrow> fetch_outcome) \<Rightarrow> string list option" where
  "fetch_jwks_keys http = fst (fetch_from http 0 JWKS_FETCH_RETRIES)"

definition jwks_cache_fresh :: "int \<Rightarrow> int \<Rightarrow> (string list \<times> int) option \<Rightarrow> bool" where
  "jwks_cache_fresh ttl now cache =
     (case cache of None \<Rightarrow> False | Some (_, fetched_at) \<Rightarrow> now - fetched_at < seconds ttl)"

definition get_jwks_keys :: "auth_env \<Rightarrow> auth_settings \<Rightarrow> auth_state \<Rightarrow> (auth_error, string list) res \<times> auth_state" where
  "get_jwks_keys env settings st =
     (if jwks_cache_fresh (as_jwks_ttl settings) (ae_start env) (au_jwks st) \<or>
         jwks_cache_fresh (as_jwks_ttl settings) (ae_locked env) (au_jwks st)
      then (Inr (fst (the (au_jwks st))), st)
      else (case fetch_jwks_keys (ae_http env) of
              None \<Rightarrow> (Inl ServerError, st)
            | Some keys \<Rightarrow> (Inr keys, st\<lparr>au_jwks := Some (keys, ae_locked env)\<rparr>)))"

section \<open>Tokens\<close>

definition decode_jwt_with_allowed_issuers ::
  "auth_env \<Rightarrow> auth_settings \<Rightarrow> string \<Rightarrow> string list \<Rightarrow> (auth_error, jwt_claims) res" where
  "decode_jwt_with_allowed_issuers env settings token keys =
     (case ae_decode env keys token (as_audience settings) (ae_decoded env) of
        None \<Rightarrow> Inl InvalidToken
      | Some claims \<Rightarrow>
          if jc_iss claims \<in> Some ` set (as_issuer settings # as_issuer_extras settings) then Inr claims
          else Inl InvalidToken)"

text \<open>Keys and claims, as both dependencies ask for them: an invalid token is a 401, a key server that fails is not.\<close>

definition checked_claims ::
  "auth_env \<Rightarrow> auth_settings \<Rightarrow> string \<Rightarrow> auth_state \<Rightarrow> (auth_error, jwt_claims) res \<times> auth_state" where
  "checked_claims env settings token st =
     (case get_jwks_keys env settings st of
        (Inl e, st') \<Rightarrow> (Inl e, st')
      | (Inr keys, st') \<Rightarrow>
          (case decode_jwt_with_allowed_issuers env settings token keys of
             Inl _ \<Rightarrow> (Inl (Unauthorized ''Invalid or expired token''), st')
           | Inr claims \<Rightarrow> (Inr claims, st')))"

definition token_scopes :: "jwt_claims \<Rightarrow> string list" where
  "token_scopes claims = py_words (case jc_scope claims of None \<Rightarrow> [] | Some s \<Rightarrow> s)"

definition missing_scopes :: "string list \<Rightarrow> jwt_claims \<Rightarrow> string list" where
  "missing_scopes required claims = filter (\<lambda>s. s \<notin> set (token_scopes claims)) required"

section \<open>The scope check of a route\<close>

text \<open>\<open>None\<close> is the empty payload of the bypass.\<close>

definition validate_jwt ::
  "auth_env \<Rightarrow> auth_settings \<Rightarrow> string list \<Rightarrow> string option \<Rightarrow> auth_state
    \<Rightarrow> (auth_error, jwt_claims option) res \<times> auth_state" where
  "validate_jwt env settings required token st =
     (if \<not> as_auth_enabled settings then (Inr None, st)
      else if token = None \<or> token = Some [] then (Inl (Unauthorized ''Missing authentication token''), st)
      else (case checked_claims env settings (the token) st of
              (Inl e, st') \<Rightarrow> (Inl e, st')
            | (Inr claims, st') \<Rightarrow>
                (case missing_scopes required claims of
                   [] \<Rightarrow> (Inr (Some claims), st')
                 | [s] \<Rightarrow> (Inl (Forbidden (''Required scope: '' @ s)), st')
                 | missing \<Rightarrow> (Inl (Forbidden (''Required scopes: ['' @ join '', '' (map py_repr missing) @ '']'')), st'))))"

section \<open>The token cache\<close>

text \<open>What is written is read back as it was: \<open>json.loads\<close> inverts \<open>json.dumps\<close> on the texts, lists and flags of a context.\<close>

definition token_key :: "string \<Rightarrow> string" where
  "token_key token_hash = ''audittrace:token:'' @ token_hash"

definition token_cache_get :: "auth_env \<Rightarrow> string \<Rightarrow> auth_state \<Rightarrow> user_context option" where
  "token_cache_get env token_hash st =
     (if ae_get_fails env then None else
      case map_of (au_tokens st) (token_key token_hash) of
        None \<Rightarrow> None
      | Some (ctx, expires) \<Rightarrow> if ae_start env < expires then Some ctx else None)"

definition token_cache_put ::
  "auth_env \<Rightarrow> auth_settings \<Rightarrow> string \<Rightarrow> user_context \<Rightarrow> int option \<Rightarrow> auth_state \<Rightarrow> auth_state" where
  "token_cache_put env settings token_hash ctx ttl_seconds st =
     (let ttl = (case ttl_seconds of None \<Rightarrow> as_token_ttl settings | Some t \<Rightarrow> t)
      in if ttl \<le> 0 \<or> ae_put_fails env then st
         else st\<lparr>au_tokens := AList.update (token_key token_hash) (ctx, ae_end env + seconds ttl) (au_tokens st)\<rparr>)"

definition token_cache_invalidate :: "string \<Rightarrow> auth_state \<Rightarrow> auth_state" where
  "token_cache_invalidate token_hash st = st\<lparr>au_tokens := AList.delete (token_key token_hash) (au_tokens st)\<rparr>"

section \<open>The user of a request\<close>

definition AGENT_MARKERS :: "string list" where
  "AGENT_MARKERS = [''opencode'', ''continue'', ''roocode'', ''curl'', ''httpx'']"

definition detect_agent_from_user_agent :: "string \<Rightarrow> string" where
  "detect_agent_from_user_agent ua =
     (case find (\<lambda>marker. py_contains (py_lower ua) marker) AGENT_MARKERS of Some m \<Rightarrow> m | None \<Rightarrow> ''opencode'')"

definition SENTINEL_SUBJECT :: string where
  "SENTINEL_SUBJECT = ''00000000-0000-0000-0000-000000000001''"

definition sentinel_user_context :: "string \<Rightarrow> user_context" where
  "sentinel_user_context agent =
     \<lparr>uc_user_id = SENTINEL_SUBJECT, uc_username = ''default'', uc_agent_type = agent,
      uc_scopes = [''memory:admin'', ''memory:read'', ''session:read-own''], uc_token_id = None, uc_is_admin = True, uc_extra = []\<rparr>"

definition claimed_user :: "string \<Rightarrow> string \<Rightarrow> jwt_claims \<Rightarrow> user_context" where
  "claimed_user sub agent claims =
     (let scopes = sort (token_scopes claims) in
      \<lparr>uc_user_id = sub,
       uc_username = (case jc_preferred_username claims of None \<Rightarrow> sub | Some n \<Rightarrow> if n = [] then sub else n),
       uc_agent_type = agent, uc_scopes = scopes, uc_token_id = jc_jti claims, uc_is_admin = is_admin_scope scopes,
       uc_extra = [(''email'', case jc_email claims of None \<Rightarrow> [] | Some e \<Rightarrow> e), (''name'', case jc_name claims of None \<Rightarrow> [] | Some n \<Rightarrow> n)]\<rparr>)"

text \<open>\<open>int\<close> of a difference of times cuts towards zero.\<close>

definition whole_seconds :: "int \<Rightarrow> int" where
  "whole_seconds us = (if 0 \<le> us then us div 1000000 else - ((- us) div 1000000))"

definition claimed_ttl :: "auth_env \<Rightarrow> auth_settings \<Rightarrow> jwt_claims \<Rightarrow> int option" where
  "claimed_ttl env settings claims =
     (case jc_exp claims of
        None \<Rightarrow> None
      | Some e \<Rightarrow> let remaining = whole_seconds (seconds e - ae_end env)
                  in if 0 < remaining then Some (min remaining (as_token_ttl settings)) else None)"

text \<open>The cold path of \<open>require_user\<close>: the answer, the state and the user id bound for the policies of the database.\<close>

definition cold_path ::
  "auth_env \<Rightarrow> auth_settings \<Rightarrow> string \<Rightarrow> string \<Rightarrow> auth_state
    \<Rightarrow> (auth_error, user_context) res \<times> auth_state \<times> string option" where
  "cold_path env settings t ua st =
     (case checked_claims env settings t st of
        (Inl e, st') \<Rightarrow> (Inl e, st', None)
      | (Inr claims, st') \<Rightarrow>
          (case jc_sub claims of
             None \<Rightarrow> (Inl (Unauthorized ''Token missing subject claim''), st', None)
           | Some sub \<Rightarrow>
               if sub = [] then (Inl (Unauthorized ''Token missing subject claim''), st', None)
               else let ctx = claimed_user sub (detect_agent_from_user_agent ua) claims
                    in (Inr ctx, token_cache_put env settings (ae_hash env t) ctx (claimed_ttl env settings claims) st',
                        Some (uc_user_id ctx))))"

definition require_user ::
  "auth_env \<Rightarrow> auth_settings \<Rightarrow> string option \<Rightarrow> string \<Rightarrow> auth_state
    \<Rightarrow> (auth_error, user_context) res \<times> auth_state \<times> string option" where
  "require_user env settings token ua st =
     (if \<not> as_auth_required settings
      then let ctx = sentinel_user_context (detect_agent_from_user_agent ua) in (Inr ctx, st, Some (uc_user_id ctx))
      else if token = None \<or> token = Some [] then (Inl (Unauthorized ''Missing authentication token''), st, None)
      else let t = the token in
        (case token_cache_get env (ae_hash env t) st of
           Some ctx \<Rightarrow> (Inr ctx, st, Some (uc_user_id ctx))
         | None \<Rightarrow> cold_path env settings t ua st))"

text \<open>A route that declares scopes and takes the user: the dependencies are resolved in this order.\<close>

definition guarded_route ::
  "auth_env \<Rightarrow> auth_env \<Rightarrow> auth_settings \<Rightarrow> string list \<Rightarrow> string option \<Rightarrow> string \<Rightarrow> auth_state
    \<Rightarrow> (auth_error, user_context) res \<times> auth_state \<times> string option" where
  "guarded_route env env' settings required token ua st =
     (case validate_jwt env settings required token st of
        (Inl e, st') \<Rightarrow> (Inl e, st', None)
      | (Inr _, st') \<Rightarrow> require_user env' settings token ua st')"

end
