(* ===== verification/AuthProps.thy ===== *)
theory AuthProps
  imports Auth
begin

text \<open>
  Properties of the resolution of identity: an answered request carries the identity that the provider
  signed for its own token, the scope check asks the token of this very request, and how long a cached
  identity may outlive its token.
\<close>

section \<open>The pieces\<close>

lemma get_jwks_tokens [simp]: "au_tokens (snd (get_jwks_keys env settings st)) = au_tokens st"
  by (simp add: get_jwks_keys_def split: option.split)

lemma checked_claims_tokens [simp]: "au_tokens (snd (checked_claims env settings t st)) = au_tokens st"
proof -
  have "snd (checked_claims env settings t st) = snd (get_jwks_keys env settings st)"
    by (simp add: checked_claims_def split: prod.split sum.split)
  then show ?thesis by simp
qed

lemma validate_jwt_tokens [simp]: "au_tokens (snd (validate_jwt env settings required token st)) = au_tokens st"
proof -
  have "snd (validate_jwt env settings required token st) = st \<or>
      snd (validate_jwt env settings required token st) = snd (checked_claims env settings (the token) st)"
    unfolding validate_jwt_def
    by (cases "checked_claims env settings (the token) st") (auto split: list.split sum.split)
  then show ?thesis by auto
qed

text \<open>The claims the provider vouches for, as this request's environment decodes them under some keys.\<close>

definition vouches :: "auth_env \<Rightarrow> auth_settings \<Rightarrow> string \<Rightarrow> jwt_claims \<Rightarrow> bool" where
  "vouches env settings t claims \<longleftrightarrow>
     (\<exists>keys. decode_jwt_with_allowed_issuers env settings t keys = Inr claims)"

lemma checked_claims_vouched: "checked_claims env settings t st = (Inr claims, st') \<Longrightarrow> vouches env settings t claims"
  unfolding checked_claims_def vouches_def by (auto split: prod.splits sum.splits)

lemma vouches_issuer: "vouches env settings t claims \<Longrightarrow> jc_iss claims \<in> Some ` set (as_issuer settings # as_issuer_extras settings)"
  by (auto simp: vouches_def decode_jwt_with_allowed_issuers_def split: option.splits if_splits)

text \<open>What the scope check answers.\<close>

lemma validate_jwt_answers:
  assumes "validate_jwt env settings required token st = (Inr (Some claims), st')"
  obtains t where "token = Some t" "t \<noteq> []" "vouches env settings t claims" "set required \<subseteq> set (token_scopes claims)"
proof -
  from assms obtain t where t: "token = Some t" "t \<noteq> []"
    by (cases token) (auto simp: validate_jwt_def split: if_splits)
  with assms obtain c where c: "checked_claims env settings t st = (Inr c, st')" "missing_scopes required c = []" "c = claims"
    by (cases "checked_claims env settings t st") (auto simp: validate_jwt_def split: if_splits sum.splits list.splits)
  then show thesis using that [OF t] checked_claims_vouched [OF c(1)] by (auto simp: missing_scopes_def filter_empty_conv)
qed

section \<open>Answers\<close>

text \<open>Every way \<open>require_user\<close> can answer in the required mode.\<close>

lemma require_user_cases:
  assumes "require_user env settings token ua st = (Inr ctx, st', b)" and "as_auth_required settings"
  obtains (cached) t where "token = Some t" "t \<noteq> []" "token_cache_get env (ae_hash env t) st = Some ctx" "st' = st" "b = Some (uc_user_id ctx)"
  | (validated) t claims sub st1 where "token = Some t" "t \<noteq> []" "checked_claims env settings t st = (Inr claims, st1)"
      "jc_sub claims = Some sub" "sub \<noteq> []" "ctx = claimed_user sub (detect_agent_from_user_agent ua) claims"
      "st' = token_cache_put env settings (ae_hash env t) ctx (claimed_ttl env settings claims) st1" "b = Some (uc_user_id ctx)"
proof -
  from assms obtain t where t: "token = Some t" "t \<noteq> []"
    by (cases token) (auto simp: require_user_def split: if_splits)
  show thesis
  proof (cases "token_cache_get env (ae_hash env t) st")
    case (Some c)
    then have "c = ctx" "st' = st" "b = Some (uc_user_id ctx)" using assms t by (auto simp: require_user_def)
    moreover from this Some have "token_cache_get env (ae_hash env t) st = Some ctx" by simp
    ultimately show thesis by (intro cached [OF t])
  next
    case None
    then have run: "cold_path env settings t ua st = (Inr ctx, st', b)" using assms t by (simp add: require_user_def)
    then obtain claims st1 where c: "checked_claims env settings t st = (Inr claims, st1)"
      by (cases "checked_claims env settings t st") (auto simp: cold_path_def split: sum.splits)
    obtain sub where sub: "jc_sub claims = Some sub" "sub \<noteq> []"
      using run by (cases "jc_sub claims"; cases "the (jc_sub claims) = []") (simp_all add: cold_path_def c)
    show thesis by (rule validated [OF t c sub]) (use run in \<open>auto simp: cold_path_def c sub Let_def\<close>)
  qed
qed

lemma require_user_refused:
  assumes "require_user env settings token ua st = (Inl e, st', b)"
  shows "au_tokens st' = au_tokens st" and "b = None"
proof -
  have "au_tokens st1 = au_tokens st" if "checked_claims env settings t st = (r, st1)" for t r st1
    using checked_claims_tokens [of env settings t st] that by simp
  then have "au_tokens st' = au_tokens st \<and> b = None"
    using assms by (auto simp: require_user_def cold_path_def Let_def split: if_splits option.splits prod.splits sum.splits)
  then show "au_tokens st' = au_tokens st" and "b = None" by auto
qed

section \<open>Requests and runs\<close>

text \<open>
  A request to a route: with the scopes the route declares, or with none for the routes that take the
  user only. \<open>ar_scope_env\<close> is what the scope check meets, \<open>ar_env\<close> what the user's resolution meets.
\<close>

record auth_request =
  ar_scope_env :: auth_env
  ar_env :: auth_env
  ar_settings :: auth_settings
  ar_required :: "string list option"
  ar_token :: "string option"
  ar_agent :: string

definition resolve :: "auth_request \<Rightarrow> auth_state \<Rightarrow> (auth_error, user_context) res \<times> auth_state \<times> string option" where
  "resolve q st =
     (case ar_required q of
        None \<Rightarrow> require_user (ar_env q) (ar_settings q) (ar_token q) (ar_agent q) st
      | Some required \<Rightarrow>
          guarded_route (ar_scope_env q) (ar_env q) (ar_settings q) required (ar_token q) (ar_agent q) st)"

definition resolve_state :: "auth_request \<Rightarrow> auth_state \<Rightarrow> auth_state" where
  "resolve_state q st = fst (snd (resolve q st))"

definition no_tokens :: auth_state where
  "no_tokens = \<lparr>au_jwks = None, au_tokens = []\<rparr>"

text \<open>
  The identity a request makes of its token: out of claims vouched for when it was served, kept no
  longer than the token lives, unless the token had less than a second left.
\<close>

definition makes :: "auth_request \<Rightarrow> string \<Rightarrow> user_context \<Rightarrow> jwt_claims \<Rightarrow> bool" where
  "makes q t ctx claims \<longleftrightarrow>
     ar_token q = Some t \<and> vouches (ar_env q) (ar_settings q) t claims \<and> jc_sub claims = Some (uc_user_id ctx) \<and>
     ctx = claimed_user (uc_user_id ctx) (detect_agent_from_user_agent (ar_agent q)) claims"

definition kept_until :: "auth_request \<Rightarrow> jwt_claims \<Rightarrow> int \<Rightarrow> bool" where
  "kept_until q claims expires \<longleftrightarrow>
     expires \<le> ae_end (ar_env q) + seconds (as_token_ttl (ar_settings q)) \<and>
     (case jc_exp claims of
        None \<Rightarrow> True
      | Some e \<Rightarrow> expires \<le> seconds e \<or> seconds e < ae_end (ar_env q) + seconds 1)"

lemma whole_seconds_le: "0 < whole_seconds us \<Longrightarrow> seconds (whole_seconds us) \<le> us"
  by (simp add: whole_seconds_def seconds_def split: if_splits)

lemma whole_seconds_pos: "0 < whole_seconds us \<longleftrightarrow> seconds 1 \<le> us"
  by (auto simp: whole_seconds_def seconds_def)

lemma claimed_ttl_kept:
  "kept_until q claims (ae_end (ar_env q) + seconds (case claimed_ttl (ar_env q) (ar_settings q) claims of
      None \<Rightarrow> as_token_ttl (ar_settings q) | Some t \<Rightarrow> t))"
proof (cases "jc_exp claims")
  case None
  then show ?thesis by (simp add: kept_until_def claimed_ttl_def)
next
  case (Some e)
  let ?r = "whole_seconds (seconds e - ae_end (ar_env q))"
  show ?thesis
  proof (cases "0 < ?r")
    case True
    then have "seconds (min ?r (as_token_ttl (ar_settings q))) \<le> seconds e - ae_end (ar_env q)"
      using whole_seconds_le [of "seconds e - ae_end (ar_env q)"] by (auto simp: seconds_def min_def)
    moreover have "seconds (min ?r (as_token_ttl (ar_settings q))) \<le> seconds (as_token_ttl (ar_settings q))"
      by (simp add: seconds_def)
    ultimately show ?thesis using True Some by (simp add: kept_until_def claimed_ttl_def Let_def)
  next
    case False
    then have "seconds e < ae_end (ar_env q) + seconds 1" using whole_seconds_pos by auto
    then show ?thesis using False Some by (simp add: kept_until_def claimed_ttl_def Let_def)
  qed
qed

text \<open>The invariant: what is cached under a token's hash is an identity one of the requests made.\<close>

definition tokens_inv :: "auth_request list \<Rightarrow> auth_state \<Rightarrow> bool" where
  "tokens_inv qs st \<longleftrightarrow>
     (\<forall>k ctx expires. map_of (au_tokens st) k = Some (ctx, expires) \<longrightarrow>
       (\<exists>p \<in> set qs. \<exists>t claims. k = token_key (ae_hash (ar_env p) t) \<and> makes p t ctx claims \<and> kept_until p claims expires))"

lemma tokens_inv_more: "tokens_inv qs st \<Longrightarrow> set qs \<subseteq> set qs' \<Longrightarrow> au_tokens st' = au_tokens st \<Longrightarrow> tokens_inv qs' st'"
  unfolding tokens_inv_def by (metis subsetD)

lemma tokens_inv_snoc: "tokens_inv qs st \<Longrightarrow> au_tokens st' = au_tokens st \<Longrightarrow> tokens_inv (qs @ [q]) st'"
  by (erule tokens_inv_more) auto

lemma makes_claimed:
  "ar_token q = Some t \<Longrightarrow> vouches (ar_env q) (ar_settings q) t claims \<Longrightarrow> jc_sub claims = Some sub \<Longrightarrow>
     makes q t (claimed_user sub (detect_agent_from_user_agent (ar_agent q)) claims) claims"
  by (simp add: makes_def claimed_user_def Let_def)

lemma token_cache_put_lookup:
  "map_of (au_tokens (token_cache_put env settings h ctx ttl st)) k = Some x \<Longrightarrow>
     map_of (au_tokens st) k = Some x \<or>
     k = token_key h \<and> x = (ctx, ae_end env + seconds (case ttl of None \<Rightarrow> as_token_ttl settings | Some t \<Rightarrow> t))"
  by (simp add: token_cache_put_def Let_def update_conv' split: if_split_asm)

lemma require_user_inv:
  assumes "tokens_inv qs st" and "require_user (ar_env q) (ar_settings q) (ar_token q) (ar_agent q) st = (r, st', b)"
  shows "tokens_inv (qs @ [q]) st'"
proof (cases r)
  case (Inl e)
  then show ?thesis using assms require_user_refused(1) by (auto intro: tokens_inv_more)
next
  case (Inr ctx)
  show ?thesis
  proof (cases "as_auth_required (ar_settings q)")
    case False
    then have "st' = st" using assms(2) by (simp add: require_user_def Let_def)
    then show ?thesis using assms(1) by (auto intro: tokens_inv_more)
  next
    case True
    have "require_user (ar_env q) (ar_settings q) (ar_token q) (ar_agent q) st = (Inr ctx, st', b)" using assms(2) Inr by simp
    then show ?thesis using True
    proof (cases rule: require_user_cases)
      case (cached t)
      then show ?thesis using assms(1) by (auto intro: tokens_inv_more)
    next
      case (validated t claims sub st1)
      have st1: "tokens_inv (qs @ [q]) st1"
        using tokens_inv_snoc [OF assms(1), of st1] checked_claims_tokens [of "ar_env q" "ar_settings q" t st] validated(3)
        by simp
      have made: "makes q t ctx claims"
        using makes_claimed [OF validated(1) checked_claims_vouched [OF validated(3)] validated(4)] validated(6) by simp
      show ?thesis unfolding validated(7) tokens_inv_def
      proof (intro allI impI)
        fix k c e assume "map_of (au_tokens (token_cache_put (ar_env q) (ar_settings q) (ae_hash (ar_env q) t) ctx
            (claimed_ttl (ar_env q) (ar_settings q) claims) st1)) k = Some (c, e)"
        then consider "map_of (au_tokens st1) k = Some (c, e)"
          | "k = token_key (ae_hash (ar_env q) t)" "c = ctx" "e = ae_end (ar_env q) + seconds (case claimed_ttl (ar_env q) (ar_settings q) claims of
              None \<Rightarrow> as_token_ttl (ar_settings q) | Some t \<Rightarrow> t)"
          using token_cache_put_lookup by (metis prod.inject)
        then show "\<exists>p \<in> set (qs @ [q]). \<exists>t claims. k = token_key (ae_hash (ar_env p) t) \<and> makes p t c claims \<and> kept_until p claims e"
        proof cases
          case 1
          then show ?thesis using st1 by (simp only: tokens_inv_def)
        next
          case 2
          have "kept_until q claims e" unfolding 2(3) by (rule claimed_ttl_kept)
          then have "k = token_key (ae_hash (ar_env q) t) \<and> makes q t c claims \<and> kept_until q claims e"
            unfolding 2(1,2) using made by blast
          moreover have "q \<in> set (qs @ [q])" by simp
          ultimately show ?thesis by blast
        qed
      qed
    qed
  qed
qed

lemma resolve_inv:
  assumes "tokens_inv qs st" shows "tokens_inv (qs @ [q]) (resolve_state q st)"
proof (cases "ar_required q")
  case None
  obtain r st' b where r: "require_user (ar_env q) (ar_settings q) (ar_token q) (ar_agent q) st = (r, st', b)"
    by (cases "require_user (ar_env q) (ar_settings q) (ar_token q) (ar_agent q) st") auto
  then show ?thesis using require_user_inv [OF assms r] None by (simp add: resolve_state_def resolve_def)
next
  case (Some required)
  obtain v st1 where v: "validate_jwt (ar_scope_env q) (ar_settings q) required (ar_token q) st = (v, st1)"
    by (cases "validate_jwt (ar_scope_env q) (ar_settings q) required (ar_token q) st")
  have t: "au_tokens st1 = au_tokens st"
    using validate_jwt_tokens [of "ar_scope_env q" "ar_settings q" required "ar_token q" st] v by simp
  show ?thesis
  proof (cases v)
    case (Inl e)
    then show ?thesis using Some v tokens_inv_snoc [OF assms t]
      by (simp add: resolve_state_def resolve_def guarded_route_def)
  next
    case (Inr c)
    have inv: "tokens_inv qs st1" using tokens_inv_more [OF assms _ t] by simp
    obtain r st' b where r: "require_user (ar_env q) (ar_settings q) (ar_token q) (ar_agent q) st1 = (r, st', b)"
      by (cases "require_user (ar_env q) (ar_settings q) (ar_token q) (ar_agent q) st1") auto
    then show ?thesis using require_user_inv [OF inv r] Some Inr v
      by (simp add: resolve_state_def resolve_def guarded_route_def)
  qed
qed

lemma run_tokens_inv: "tokens_inv qs (fold resolve_state qs no_tokens)"
proof (induction qs rule: rev_induct)
  case Nil
  then show ?case by (simp add: tokens_inv_def no_tokens_def)
next
  case (snoc q qs)
  then show ?case by (simp add: resolve_inv)
qed

section \<open>What an answer means\<close>

lemma guarded_route_Inr:
  assumes "guarded_route env env' settings required token ua st = (Inr ctx, st', b)"
  obtains c st1 where "validate_jwt env settings required token st = (Inr c, st1)" "au_tokens st1 = au_tokens st"
    "require_user env' settings token ua st1 = (Inr ctx, st', b)"
proof (cases "validate_jwt env settings required token st")
  case (Pair v st1)
  have "au_tokens st1 = au_tokens st" using validate_jwt_tokens [of env settings required token st] Pair by simp
  then show thesis using that assms Pair by (cases v) (auto simp: guarded_route_def)
qed


end
