(* ===== verification/JwksFlight.thy ===== *)
theory JwksFlight
  imports Auth
begin

text \<open>
  Concurrent requests for the signing keys (\<open>_get_jwks_keys\<close> of \<open>src/audittrace/auth.py\<close>): the
  coroutines of one process as a step relation, where a step runs from one \<open>await\<close> to the next. A call
  that finds the cache stale waits for the lock, looks again when it has it, and fetches only then.
\<close>

section \<open>Steps\<close>

datatype caller = Calling | Waiting | Fetching int | Got "string list" | Failed

text \<open>\<open>fl_fetched\<close> records the fetches that succeeded, the latest first, with the time the lock holder looked at.\<close>

record flight =
  fl_cache :: "(string list \<times> int) option"
  fl_lock :: "nat option"
  fl_callers :: "caller list"
  fl_now :: int
  fl_fetched :: "(int \<times> string list) list"

definition fresh :: "int \<Rightarrow> flight \<Rightarrow> bool" where
  "fresh ttl s \<longleftrightarrow> jwks_cache_fresh ttl (fl_now s) (fl_cache s)"

definition becomes :: "nat \<Rightarrow> caller \<Rightarrow> flight \<Rightarrow> flight" where
  "becomes i c s = s\<lparr>fl_callers := (fl_callers s)[i := c]\<rparr>"

definition caller_is :: "flight \<Rightarrow> nat \<Rightarrow> caller \<Rightarrow> bool" where
  "caller_is s i c \<longleftrightarrow> i < length (fl_callers s) \<and> fl_callers s ! i = c"

inductive jwks_step :: "int \<Rightarrow> flight \<Rightarrow> flight \<Rightarrow> bool" for ttl where
  tick: "fl_now s \<le> t \<Longrightarrow> jwks_step ttl s (s\<lparr>fl_now := t\<rparr>)"
| call: "jwks_step ttl s (s\<lparr>fl_callers := fl_callers s @ [Calling]\<rparr>)"
| hit: "caller_is s i Calling \<Longrightarrow> fresh ttl s \<Longrightarrow> jwks_step ttl s (becomes i (Got (fst (the (fl_cache s)))) s)"
| miss: "caller_is s i Calling \<Longrightarrow> \<not> fresh ttl s \<Longrightarrow> jwks_step ttl s (becomes i Waiting s)"
| locked_hit: "caller_is s i Waiting \<Longrightarrow> fl_lock s = None \<Longrightarrow> fresh ttl s \<Longrightarrow>
    jwks_step ttl s (becomes i (Got (fst (the (fl_cache s)))) s)"
| locked_miss: "caller_is s i Waiting \<Longrightarrow> fl_lock s = None \<Longrightarrow> \<not> fresh ttl s \<Longrightarrow>
    jwks_step ttl s ((becomes i (Fetching (fl_now s)) s)\<lparr>fl_lock := Some i\<rparr>)"
| fetched: "caller_is s i (Fetching t) \<Longrightarrow>
    jwks_step ttl s ((becomes i (Got keys) s)\<lparr>fl_lock := None, fl_cache := Some (keys, t), fl_fetched := (t, keys) # fl_fetched s\<rparr>)"
| fetch_failed: "caller_is s i (Fetching t) \<Longrightarrow> jwks_step ttl s ((becomes i Failed s)\<lparr>fl_lock := None\<rparr>)"

definition flight_start :: "int \<Rightarrow> flight" where
  "flight_start now = \<lparr>fl_cache = None, fl_lock = None, fl_callers = [], fl_now = now, fl_fetched = []\<rparr>"

definition reachable_flight :: "int \<Rightarrow> int \<Rightarrow> flight \<Rightarrow> bool" where
  "reachable_flight ttl now s \<longleftrightarrow> (jwks_step ttl)\<^sup>*\<^sup>* (flight_start now) s"

section \<open>The invariant\<close>

definition is_fetching :: "flight \<Rightarrow> nat \<Rightarrow> bool" where
  "is_fetching s i \<longleftrightarrow> (\<exists>t. caller_is s i (Fetching t))"

definition apart :: "int \<Rightarrow> (int \<times> string list) list \<Rightarrow> bool" where
  "apart ttl fs \<longleftrightarrow> sorted_wrt (\<lambda>a b. seconds ttl \<le> fst a - fst b) fs"

definition flight_inv :: "int \<Rightarrow> flight \<Rightarrow> bool" where
  "flight_inv ttl s \<longleftrightarrow>
     (\<forall>i. is_fetching s i \<longleftrightarrow> fl_lock s = Some i) \<and>
     (\<forall>i t. caller_is s i (Fetching t) \<longrightarrow> t \<le> fl_now s \<and> (\<forall>f \<in> set (fl_fetched s). seconds ttl \<le> t - fst f)) \<and>
     (\<forall>i keys. caller_is s i (Got keys) \<longrightarrow> keys \<in> snd ` set (fl_fetched s)) \<and>
     apart ttl (fl_fetched s) \<and>
     fl_cache s = (case fl_fetched s of [] \<Rightarrow> None | f # _ \<Rightarrow> Some (snd f, fst f))"

lemma caller_becomes: "caller_is (becomes i c s) j d \<longleftrightarrow> (if j = i then i < length (fl_callers s) \<and> c = d else caller_is s j d)"
  by (auto simp: caller_is_def becomes_def)

lemma caller_updates [simp]:
  "caller_is (s\<lparr>fl_lock := l\<rparr>) = caller_is s" "caller_is (s\<lparr>fl_cache := c\<rparr>) = caller_is s"
  "caller_is (s\<lparr>fl_fetched := f\<rparr>) = caller_is s" "caller_is (s\<lparr>fl_now := t\<rparr>) = caller_is s"
  by (auto simp: caller_is_def fun_eq_iff)

lemma becomes_fields [simp]:
  "fl_cache (becomes i c s) = fl_cache s" "fl_lock (becomes i c s) = fl_lock s" "fl_now (becomes i c s) = fl_now s"
  "fl_fetched (becomes i c s) = fl_fetched s"
  by (simp_all add: becomes_def)

lemma caller_call: "caller_is (s\<lparr>fl_callers := fl_callers s @ [Calling]\<rparr>) i c \<longleftrightarrow>
    caller_is s i c \<or> i = length (fl_callers s) \<and> c = Calling"
  by (auto simp: caller_is_def nth_append)

lemma caller_unique: "caller_is s i c \<Longrightarrow> caller_is s i d \<Longrightarrow> c = d"
  by (simp add: caller_is_def)

text \<open>A stale cache lies a whole lifetime back, and with it every earlier fetch.\<close>

lemma stale_apart:
  assumes "flight_inv ttl s" and "\<not> fresh ttl s" and "f \<in> set (fl_fetched s)" and "0 \<le> ttl"
  shows "seconds ttl \<le> fl_now s - fst f"
proof -
  obtain g gs where fs: "fl_fetched s = g # gs" using assms(3) by (cases "fl_fetched s") auto
  then have "fl_cache s = Some (snd g, fst g)" using assms(1) by (simp add: flight_inv_def)
  then have g: "seconds ttl \<le> fl_now s - fst g" using assms(2) by (simp add: fresh_def jwks_cache_fresh_def)
  moreover have "f = g \<or> seconds ttl \<le> fst g - fst f" using assms(1,3) fs by (auto simp: flight_inv_def apart_def)
  moreover have "0 \<le> seconds ttl" using assms(4) by (simp add: seconds_def)
  ultimately show ?thesis by auto
qed

lemma fresh_keys:
  assumes "flight_inv ttl s" and "fresh ttl s"
  shows "fst (the (fl_cache s)) \<in> snd ` set (fl_fetched s)"
  using assms by (cases "fl_fetched s") (auto simp: flight_inv_def fresh_def jwks_cache_fresh_def)

lemma one_fetching: "flight_inv ttl s \<Longrightarrow> caller_is s i (Fetching t) \<Longrightarrow> caller_is s j (Fetching u) \<Longrightarrow> j = i"
  unfolding flight_inv_def is_fetching_def by (metis option.inject)

lemma flight_inv_step:
  assumes "jwks_step ttl s s'" and "flight_inv ttl s" and "0 \<le> ttl"
  shows "flight_inv ttl s'"
  using assms(1)
proof cases
  case (tick t)
  have "u \<le> t" if "caller_is s i (Fetching u)" for i u
    using assms(2) that tick order_trans unfolding flight_inv_def by blast
  then show ?thesis using tick assms(2) by (auto simp: flight_inv_def is_fetching_def)
next
  case call
  then show ?thesis using assms(2) by (auto simp: flight_inv_def is_fetching_def caller_call)
next
  case (hit i)
  then show ?thesis using assms(2) fresh_keys [OF assms(2)]
    by (auto simp: flight_inv_def is_fetching_def caller_becomes dest: caller_unique)
next
  case (miss i)
  then show ?thesis using assms(2) by (auto simp: flight_inv_def is_fetching_def caller_becomes dest: caller_unique)
next
  case (locked_hit i)
  then show ?thesis using assms(2) fresh_keys [OF assms(2)]
    by (auto simp: flight_inv_def is_fetching_def caller_becomes dest: caller_unique)
next
  case (locked_miss i)
  then have "i < length (fl_callers s)" by (simp add: caller_is_def)
  then show ?thesis using assms(2) locked_miss stale_apart [OF assms(2) _ _ assms(3)]
    by (auto simp: flight_inv_def is_fetching_def caller_becomes)
next
  case (fetched i t keys)
  then have "i < length (fl_callers s)" by (simp add: caller_is_def)
  moreover have other: "\<not> caller_is s j (Fetching u)" if "j \<noteq> i" for j u
    using one_fetching [OF assms(2) fetched(2)] that by blast
  moreover have "apart ttl ((t, keys) # fl_fetched s)" using assms(2) fetched(2) by (auto simp: flight_inv_def apart_def)
  ultimately show ?thesis using assms(2) fetched
    by (auto simp: flight_inv_def is_fetching_def caller_becomes)
next
  case (fetch_failed i t)
  have "\<not> caller_is s j (Fetching u)" if "j \<noteq> i" for j u
    using one_fetching [OF assms(2) fetch_failed(2)] that by blast
  then show ?thesis using assms(2) fetch_failed
    by (auto simp: flight_inv_def is_fetching_def caller_becomes)
qed

lemma flight_inv_reachable:
  assumes "reachable_flight ttl now s" and "0 \<le> ttl" shows "flight_inv ttl s"
  using assms(1) unfolding reachable_flight_def
proof (induction rule: rtranclp_induct)
  case base
  then show ?case by (simp add: flight_inv_def flight_start_def is_fetching_def caller_is_def apart_def)
next
  case (step s s')
  then show ?case using flight_inv_step assms(2) by blast
qed

section \<open>Single flight\<close>

text \<open>C40: However the requests interleave, at most one of them fetches the signing keys at a time,
  two fetches that succeed start at least a cache lifetime apart, and a request that answers got keys
  which one of those fetches brought.\<close>

theorem jwks_single_flight:
  assumes "reachable_flight ttl now s" and "0 \<le> ttl"
  shows "(\<forall>i j. is_fetching s i \<and> is_fetching s j \<longrightarrow> i = j) \<and> apart ttl (fl_fetched s) \<and>
    (\<forall>i keys. caller_is s i (Got keys) \<longrightarrow> keys \<in> snd ` set (fl_fetched s))"
  using flight_inv_reachable [OF assms] unfolding flight_inv_def by auto

text \<open>The call of one request, as the sequential model has it, is a run of its own steps.\<close>

lemma get_jwks_keys_steps:
  assumes "get_jwks_keys env settings st = (Inr keys, st')" and "fl_cache s = au_jwks st" and "caller_is s i Calling"
    and "fl_lock s = None" and "fl_now s = ae_start env" and "ae_start env \<le> ae_locked env"
  shows "\<exists>s'. (jwks_step (as_jwks_ttl settings))\<^sup>*\<^sup>* s s' \<and> caller_is s' i (Got keys) \<and> fl_cache s' = au_jwks st' \<and> fl_lock s' = None"
proof (cases "fresh (as_jwks_ttl settings) s")
  case True
  then have "keys = fst (the (fl_cache s))" "st' = st"
    using assms(1,2,5) by (auto simp: get_jwks_keys_def fresh_def)
  then show ?thesis using jwks_step.hit [OF assms(3) True] assms(2,3,4)
    by (intro exI [of _ "becomes i (Got keys) s"]) (auto simp: caller_becomes, simp add: caller_is_def)
next
  case False
  let ?ttl = "as_jwks_ttl settings"
  let ?w = "(becomes i Waiting s)\<lparr>fl_now := ae_locked env\<rparr>"
  have i: "i < length (fl_callers s)" using assms(3) by (simp add: caller_is_def)
  have "jwks_step ?ttl s (becomes i Waiting s)" by (rule jwks_step.miss [OF assms(3) False])
  moreover have "jwks_step ?ttl (becomes i Waiting s) ?w" using assms(5,6) by (intro jwks_step.tick) simp
  ultimately have w: "(jwks_step ?ttl)\<^sup>*\<^sup>* s ?w" by simp
  have cw: "caller_is ?w i Waiting" "fl_lock ?w = None" using i assms(4) by (simp_all add: caller_becomes)
  show ?thesis
  proof (cases "fresh ?ttl ?w")
    case True
    then have "keys = fst (the (fl_cache ?w))" "st' = st"
      using assms(1,2) by (auto simp: get_jwks_keys_def fresh_def)
    moreover have "jwks_step ?ttl ?w (becomes i (Got (fst (the (fl_cache ?w)))) ?w)" by (rule jwks_step.locked_hit [OF cw True])
    ultimately show ?thesis using w i assms(2,4)
      by (intro exI [of _ "becomes i (Got keys) ?w"]) (auto simp: caller_is_def becomes_def intro: rtranclp.rtrancl_into_rtrancl)
  next
    case stale: False
    let ?f = "(becomes i (Fetching (fl_now ?w)) ?w)\<lparr>fl_lock := Some i\<rparr>"
    have f: "fetch_jwks_keys (ae_http env) = Some keys" "st' = st\<lparr>au_jwks := Some (keys, ae_locked env)\<rparr>"
      using assms(1,2,5) False stale by (auto simp: get_jwks_keys_def fresh_def split: if_splits option.splits)
    have "jwks_step ?ttl ?w ?f" by (rule jwks_step.locked_miss [OF cw stale])
    moreover have cf: "caller_is ?f i (Fetching (ae_locked env))" using i by (simp add: caller_is_def becomes_def)
    then have "jwks_step ?ttl ?f ((becomes i (Got keys) ?f)\<lparr>fl_lock := None, fl_cache := Some (keys, ae_locked env),
        fl_fetched := (ae_locked env, keys) # fl_fetched ?f\<rparr>)" by (rule jwks_step.fetched)
    ultimately have "(jwks_step ?ttl)\<^sup>*\<^sup>* s ((becomes i (Got keys) ?f)\<lparr>fl_lock := None, fl_cache := Some (keys, ae_locked env),
        fl_fetched := (ae_locked env, keys) # fl_fetched ?f\<rparr>)" using w by (meson rtranclp.rtrancl_into_rtrancl)
    then show ?thesis using i f(2) by (intro exI conjI) (assumption, auto simp: caller_is_def becomes_def)
  qed
qed

text \<open>
  A fetch that fails leaves the cache stale, so the request that waited behind it fetches again: the
  lock puts the fetches of a failing key server in a row, it does not make them one.
\<close>

lemma failed_fetch_repeats:
  assumes "caller_is s i (Fetching t)" and "caller_is s j Waiting" and "\<not> fresh ttl s"
  shows "\<exists>s'. (jwks_step ttl)\<^sup>*\<^sup>* s s' \<and> caller_is s' i Failed \<and> is_fetching s' j"
proof -
  let ?f = "(becomes i Failed s)\<lparr>fl_lock := None\<rparr>"
  have ij: "i \<noteq> j" using caller_unique [of s i] assms(1,2) by auto
  have j: "caller_is ?f j Waiting" and i: "caller_is ?f i Failed"
    using ij assms(1,2) by (simp_all add: caller_becomes) (simp add: caller_is_def)
  have "jwks_step ttl s ?f" by (rule jwks_step.fetch_failed [OF assms(1)])
  moreover have "jwks_step ttl ?f ((becomes j (Fetching (fl_now ?f)) ?f)\<lparr>fl_lock := Some j\<rparr>)"
    using assms(3) by (intro jwks_step.locked_miss [OF j]) (simp_all add: fresh_def)
  ultimately have "(jwks_step ttl)\<^sup>*\<^sup>* s ((becomes j (Fetching (fl_now ?f)) ?f)\<lparr>fl_lock := Some j\<rparr>)" by simp
  moreover have "j < length (fl_callers ?f)" using j by (simp add: caller_is_def)
  ultimately show ?thesis using i ij
    by (intro exI conjI) (assumption, auto simp: is_fetching_def caller_becomes)
qed

end
