(* ===== verification/AuthWitness.thy ===== *)
theory AuthWitness
  imports AuthProps JwksFlight
begin

text \<open>
  Concrete requests at which the properties of the resolution of identity apply: a token served from the
  cache after it expired, and two concurrent requests for the signing keys.
\<close>

definition demo_claims :: jwt_claims where
  "demo_claims = \<lparr>jc_iss = Some ''kc'', jc_sub = Some ''ann'', jc_scope = Some ''memory:read audittrace:query'',
     jc_preferred_username = None, jc_jti = None, jc_exp = Some 1000, jc_email = None, jc_name = None\<rparr>"

text \<open>The provider's token is good until second 1000, in whole seconds as the decoder counts them.\<close>

definition token_env :: "int \<Rightarrow> auth_env" where
  "token_env now = \<lparr>ae_decode = (\<lambda>keys t aud at. if t = ''tok'' \<and> at div 1000000 \<le> 1000 then Some demo_claims else None),
     ae_http = (\<lambda>_. Fetched [''k'']), ae_hash = (\<lambda>t. t), ae_get_fails = False, ae_put_fails = False,
     ae_start = now, ae_locked = now, ae_decoded = now, ae_end = now\<rparr>"

definition strict_settings :: auth_settings where
  "strict_settings = \<lparr>as_auth_enabled = True, as_auth_required = True, as_token_ttl = 300, as_jwks_ttl = 300,
     as_audience = ''audittrace'', as_issuer = ''kc'', as_issuer_extras = []\<rparr>"

definition token_request :: "string list option \<Rightarrow> int \<Rightarrow> auth_request" where
  "token_request required now = \<lparr>ar_scope_env = token_env now, ar_env = token_env now, ar_settings = strict_settings,
     ar_required = required, ar_token = Some ''tok'', ar_agent = ''curl/8''\<rparr>"


text \<open>The second request waits for the first one's fetch and takes its keys.\<close>

theorem jwks_single_flight_witness:
  "\<exists>s. reachable_flight 300 0 s \<and> caller_is s 0 (Got [''k'']) \<and> caller_is s 1 (Got [''k'']) \<and> fl_fetched s = [(5, [''k''])] \<and>
     [''k''] \<in> snd ` set (fl_fetched s) \<and> apart 300 (fl_fetched s)"
proof -
  let ?s = "\<lambda>c l cs t fs. \<lparr>fl_cache = c, fl_lock = l, fl_callers = cs, fl_now = t, fl_fetched = fs\<rparr>"
  have "jwks_step 300 (flight_start 0) (?s None None [Calling] 0 [])"
    using jwks_step.call [of 300 "flight_start 0"] by (simp add: flight_start_def)
  moreover have "jwks_step 300 (?s None None [Calling] 0 []) (?s None None [Calling, Calling] 0 [])"
    using jwks_step.call [of 300 "?s None None [Calling] 0 []"] by simp
  moreover have "jwks_step 300 (?s None None [Calling, Calling] 0 []) (?s None None [Waiting, Calling] 0 [])"
    using jwks_step.miss [of "?s None None [Calling, Calling] 0 []" 0 300]
    by (simp add: caller_is_def becomes_def fresh_def jwks_cache_fresh_def)
  moreover have "jwks_step 300 (?s None None [Waiting, Calling] 0 []) (?s None None [Waiting, Waiting] 0 [])"
    using jwks_step.miss [of "?s None None [Waiting, Calling] 0 []" 1 300]
    by (simp add: caller_is_def becomes_def fresh_def jwks_cache_fresh_def)
  moreover have "jwks_step 300 (?s None None [Waiting, Waiting] 0 []) (?s None None [Waiting, Waiting] 5 [])"
    using jwks_step.tick [of "?s None None [Waiting, Waiting] 0 []" 5 300] by simp
  moreover have "jwks_step 300 (?s None None [Waiting, Waiting] 5 []) (?s None (Some 0) [Fetching 5, Waiting] 5 [])"
    using jwks_step.locked_miss [of "?s None None [Waiting, Waiting] 5 []" 0 300]
    by (simp add: caller_is_def becomes_def fresh_def jwks_cache_fresh_def)
  moreover have "jwks_step 300 (?s None (Some 0) [Fetching 5, Waiting] 5 [])
      (?s (Some ([''k''], 5)) None [Got [''k''], Waiting] 5 [(5, [''k''])])"
    using jwks_step.fetched [of "?s None (Some 0) [Fetching 5, Waiting] 5 []" 0 5 300 "[''k'']"]
    by (simp add: caller_is_def becomes_def)
  moreover have "jwks_step 300 (?s (Some ([''k''], 5)) None [Got [''k''], Waiting] 5 [(5, [''k''])])
      (?s (Some ([''k''], 5)) None [Got [''k''], Got [''k'']] 5 [(5, [''k''])])"
    using jwks_step.locked_hit [of "?s (Some ([''k''], 5)) None [Got [''k''], Waiting] 5 [(5, [''k''])]" 1 300]
    by (simp add: caller_is_def becomes_def fresh_def jwks_cache_fresh_def seconds_def)
  ultimately have "reachable_flight 300 0 (?s (Some ([''k''], 5)) None [Got [''k''], Got [''k'']] 5 [(5, [''k''])])"
    unfolding reachable_flight_def by (meson rtranclp.rtrancl_refl rtranclp.rtrancl_into_rtrancl)
  moreover note jwks_single_flight [OF this]
  ultimately show ?thesis
    by (intro exI [of _ "?s (Some ([''k''], 5)) None [Got [''k''], Got [''k'']] 5 [(5, [''k''])]"]) (auto simp: caller_is_def)
qed

end
