(* ===== verification/Spec2Isabelle.thy ===== *)
theory Spec2Isabelle
  imports ManifestStatus ManifestChoke AclOwnership ScanWitness FilesWitness ConsoleWitness AuthWitness
begin

text \<open>
  A model of AuditTrace, a memory server for agents (the Python package under
  \<open>src/audittrace\<close>). Users keep memory in layers: episodic and procedural files in object storage,
  semantic documents in a vector database, session uploads in a table. Each layer has a shared tier,
  the corpus, and a private tier per user. A manifest, the table \<open>memory_items\<close>, says whose every item is
  and what became of it; each write passes an authorization choke first and leaves an audit row.
  Uploads go through a virus scan and an indexer before they are searchable. Beside the memory the
  server keeps the console's objects (presets, projects, tags, files, agents, conversations, prompts)
  and an access-control list for agents and prompt groups. Every request is resolved to a user from its
  token.

  The theories follow the code file by file: records for the tables' rows, datatypes for errors and
  answers, one definition per function or method under the code's name, state passed explicitly. A
  function that can raise has the type \<open>error + 'a\<close>, and one that can raise after it has written also
  returns the state it has reached. The properties are stated for arbitrary states or for every
  reachable one, and each one with hypotheses is applied to a concrete run.


  \<^bold>\<open>Shared vocabulary.\<close> \<open>Prelude\<close>: the result monad \<open>res_bind\<close>; three-valued SQL conditions (\<open>sqlbool\<close>,
  collection \<open>sql_simps\<close>), so that a comparison with a NULL column selects nothing and a CHECK
  constraint passes; Python values whose type is known only at run time (\<open>pyval\<close>); the string functions
  the code calls. \<open>Identity\<close> (\<open>identity.py\<close>): the user context and the scope predicates. \<open>Keys\<close>
  (\<open>services/memory_keys.py\<close>, \<open>index_routing.py\<close>): a private item is stored under its owner's prefix, and
  one pure resolver decides every write and read over the at most two rows it can touch; the locale
  \<open>owner_prefix\<close> states what a derivation of private names promises (injective in owner and name,
  recoverable, never a shared name) and is interpreted for keys (\<open>mkey\<close>) and vector identifiers
  (\<open>vid\<close>). \<open>Integrity\<close> (\<open>integrity.py\<close>): canonical JSON and the content hash of audit rows.

  \<^bold>\<open>Manifest\<close> (\<open>services/memory_manifest.py\<close>, migration 034). \<open>Manifest\<close> has the table with its UNIQUE
  and CHECK constraints, the operations of the Postgres service (create, update, delete, upsert of PDF
  metadata, reads and lists) and the guards; \<open>ManifestOps\<close> says what each operation answers on each
  branch; \<open>ManifestIsolation\<close> and \<open>ManifestProps\<close> that a user's operations act on the rows the user may
  see (the inductive relation \<open>effect\<close>), the invariants of every run and noninterference of private
  sessions; \<open>ManifestMock\<close> that the in-memory twin answers alike; \<open>ManifestChoke\<close> that the pre-write
  choke decides as the guards do (locale \<open>manifest_reader\<close>, interpreted as \<open>pg\<close>); \<open>ManifestStatus\<close> the
  index-status query.

  \<^bold>\<open>Access-control lists\<close> (\<open>services/console_acl/\<close>, migrations 031 to 033). \<open>Acl\<close>: rows,
  constants, CHECK constraints, row-level policies with the ownership subquery, the two partial unique
  indexes. \<open>AclRead\<close>: every read of the Postgres service and of the mock; \<open>AclReadProps\<close>: the contract of
  the authorization reads (locale \<open>acl_reads\<close>, interpreted as \<open>pg\<close> and \<open>mk\<close>). \<open>AclAudit\<close>: the write stamp,
  the errors, the audit writer. \<open>AclMockWrite\<close>, \<open>AclMockProps\<close>, \<open>AclMockEffects\<close>, \<open>AclMockLaws\<close>: the
  five writes over the mock with their undo records. \<open>AclPgWrite\<close>, \<open>AclPgOps\<close>: the same writes as staged
  transactions of statements under policies, constraints and indexes, with the classification of
  denials; \<open>AclPgProps\<close> (confinement, all or nothing, the constraints in every reachable state \<open>pg_step\<close>),
  \<open>AclPgLaws\<close> (the audit trail), \<open>AclTwin\<close> (the mock reaches the same rows). \<open>AclOwnership\<close>: the
  ownership resolver and what owning a resource gives.

  \<^bold>\<open>Documents and PDF\<close> (\<open>routes/memory_pdf/\<close>, helpers of \<open>routes/memory.py\<close>). \<open>Chunks\<close>: cutting a text
  and putting it together again. \<open>PdfDoc\<close>: a PDF as the third-party parser answers for it and the helpers
  that read it. \<open>PdfPipeline\<close>: the pipeline of a document, with its guards, page loop, redaction policies
  and manifest flush. \<open>PdfProps\<close>: effects of a page, a document and a call, and what redacted text can
  influence. \<open>PdfWitness\<close>: a document run through it.

  \<^bold>\<open>Semantic memory\<close> (\<open>services/semantic.py\<close>, \<open>services/pagination.py\<close>, \<open>routes/memory.py\<close>). \<open>Semantic\<close>:
  search, pages and documents by identifier over a private and a corpus collection per name;
  \<open>SemanticProps\<close>, \<open>SemanticDocs\<close>: isolation of searches, pages against the whole ranking, tombstones.
  \<open>SemanticRoutes\<close>: the create, read, update and delete routes with their checks and audit rows;
  \<open>SemanticRouteProps\<close>, \<open>SemanticRouteLaws\<close>: refusals before writes, the corpus gate, read-back, audit.
  \<open>ListView\<close>, \<open>SemanticList\<close> (\<open>routes/memory_list_view.py\<close>, \<open>memory_semantic_documents.py\<close>) and
  \<open>ListProps\<close>, \<open>SemanticListProps\<close>: the listings, their grouping by document and pages. \<open>MemoryIndex\<close>,
  \<open>MemoryIndexProps\<close>: the indexers and the route \<open>index_memory\<close>.

  \<^bold>\<open>Upload, scan and index\<close> (\<open>routes/memory_upload/\<close>, \<open>services/scan_*.py\<close>, \<open>index_worker.py\<close>,
  \<open>index_janitor.py\<close>). \<open>ScanPipeline\<close> is a state machine: one state of rows, queues, messages and objects;
  one step per event (\<open>scan_step\<close>: upload, publication, verdict, sweep of either janitor, index attempt,
  restart), and the inductive predicate \<open>scan_run\<close> for runs. \<open>ScanProps\<close> bounds what an event can do
  to a row, \<open>ScanInv\<close> and \<open>ScanLaws\<close> have the invariants of every run, \<open>ScanRecovery\<close> what the janitors
  bring back after a restart.

  \<^bold>\<open>File layers, sessions, promotion\<close> (\<open>services/episodic.py\<close>, \<open>procedural.py\<close>, \<open>layer_cache.py\<close>,
  \<open>layer_listing.py\<close>, \<open>session_memory.py\<close>, \<open>session_gc_janitor.py\<close>, \<open>routes/memory.py\<close>,
  \<open>routes/memory_promote.py\<close>). \<open>LayerFiles\<close>, \<open>LayerServices\<close>: the two services over one object store and
  a cache of listings, and their twins; \<open>LayerFilesProps\<close>: the cache is transparent; \<open>LayerRoutes\<close>,
  \<open>LayerRouteProps\<close>, \<open>LayerRouteLaws\<close>: the routes. \<open>Sessions\<close>, \<open>SessionProps\<close>: session rows under their
  policy and the janitor's sweep. \<open>Promote\<close>, \<open>PromoteProps\<close>: keeping a session upload.

  \<^bold>\<open>Console stores\<close> (\<open>services/console_*.py\<close>, \<open>routes/console_*.py\<close>, migrations 023 to 029).
  \<open>ConsoleCursor\<close>: the page cursor with the standard library's base64, UTF-8 and \<open>int\<close>; \<open>ConsoleRows\<close>: the
  shape seven stores share; \<open>ConsoleDomains\<close>, \<open>ConsoleConversations\<close>, \<open>ConsolePrompts\<close>: each store at its own
  columns with its routes. \<open>ConsoleContracts\<close> has two locales: \<open>confined_store\<close> (the calls of a user
  act on the user's rows alone), interpreted as \<open>rows\<close>, \<open>mock\<close>, \<open>conversations\<close> and \<open>prompts\<close>, and
  \<open>keyset_pages\<close> (the pages of a listing are the segments of one list), interpreted as \<open>listing\<close>;
  \<open>ConsoleRowProps\<close>, \<open>ConsoleTreeProps\<close> prove their laws and \<open>ConsoleProps\<close> states the properties.

  \<^bold>\<open>Authentication\<close> (\<open>auth.py\<close>, the token cache of \<open>identity.py\<close>). \<open>Auth\<close>: signing keys, the check of a
  token, the scope check, the user of a request; \<open>AuthProps\<close>: whose identity an answer has;
  \<open>JwksFlight\<close>: concurrent requests for the keys as a step relation.

  The theories named \<open>\<dots>Witness\<close> hold concrete runs at which the properties apply.


  \<^bold>\<open>How the parts meet.\<close> The manifest table is one type throughout: the PDF pipeline flushes into it, the
  routes create and tombstone rows of it, the scan pipeline extends its rows by the outbox columns, and
  recall asks it which documents are deleted. The routes run the choke of \<open>ManifestChoke\<close>, the service of
  their layer and the manifest in the order of the code, each failure leaving what was written before
  it. Promotion reads \<open>Sessions\<close> and writes through \<open>LayerRoutes\<close> or \<open>SemanticRoutes\<close>. The policy of the
  access-control list looks into the agents and prompt groups of the console.


  \<^bold>\<open>Parameters.\<close> What the code calls outside the repository is an argument of the model: the digest
  (\<open>sha\<close>), the nearest-neighbour order and the embeddings of the vector database, the PDF parser and OCR,
  object storage and cache (which calls fail), the message broker, the token decoder and the key
  server, the clock, generated identifiers, and what a database refuses for reasons of its own. A
  property that needs their documented behaviour names it as a hypothesis, and its witness has a
  concrete function for it.

  \<^bold>\<open>Bounds, loops and termination.\<close> No function takes fuel except \<open>follow\<close>, which bounds the number of
  pages a client asks for; \<open>console_pages_exact\<close> shows that one page more than there are rows is enough.
  \<open>chunk_loop\<close> is a partial function, since the loop does not end for an overlap as large as the chunk;
  \<open>chunk_text_terminates\<close> shows that it ends otherwise. The sweep of the session janitor, the splitting
  of texts and the batches of the vector store are functions with measures. Sizes are those of the
  code: columns at their widths in characters, permission bits as words, stored keys of at most 255 characters
  and logical ones of 218, sweeps of 100 rows, vector batches of 50, 200 discovered rows of a collection,
  cursors whose time fits eight bytes, three attempts at the key server. Integers are Python's, without bound, and columns that are narrower refuse a value.


  \<^bold>\<open>Not modelled.\<close> Concurrency of the database (one transaction runs at a time; only the key fetch and the
  scan pipeline interleave). The loops of background tasks and their cancellation around the modelled
  passes. Request validation by pydantic (a body is a valid one) and the scope a route declares, which
  the framework checks before the handler. The chat proxy and its tool loop, the model clients, the
  bridges to tool servers, the backend for the frontend, scripts, migrations beyond the constraints and
  policies named here, logging and telemetry, signature validation and PDF/A, which wrap third-party code.
  The store of the console's newer domains and the conversational service, which reads what the proxy
  recorded. Characters are those with code points below 256.
\<close>

end
